(* ===== verification/Go_Prelude.thy ===== *)
theory Go_Prelude
  imports Main "HOL-Library.Char_ord" "HOL-Library.List_Lexorder" "HOL-Library.Multiset"
    "HOL-Library.AList" "HOL-Library.Sublist" "HOL-Library.Product_Lexorder"
begin

text \<open>
  Shared vocabulary of the development: what the modelled packages use of Go and of its
  standard library.

  \<^item> A Go string is a sequence of bytes: \<^typ>\<open>string\<close>, with the bytewise lexicographic order
    of \<open>HOL-Library.List_Lexorder\<close> and \<open>HOL-Library.Char_ord\<close> as Go's \<open><\<close>.
  \<^item> A slice is a list; the nil slice and the empty slice are both \<^term>\<open>[]\<close>.
  \<^item> A pointer that the code only reads is an option, nil being \<^term>\<open>None\<close>.
  \<^item> An \<open>error\<close> result is a value of \<open>go_error\<close>: a format string with its arguments, possibly
    wrapped by the callers' own format strings (\<open>xerrors.Errorf\<close> with \<open>%w\<close>).
  \<^item> A \<open>map\<close> is an association list with distinct keys. The order in which Go ranges over a
    map is unspecified: code that depends on it takes a \<open>range\<close> function, which may be any
    function that returns a permutation of its argument.
  \<^item> \<open>time.Time\<close> is the number of nanoseconds since the zero time (1 January of year 1, UTC).
\<close>

named_theorems go_strings \<open>rules for the string functions of the Go library\<close>
named_theorems go_maps \<open>rules for maps as association lists\<close>

section \<open>Errors\<close>

datatype go_error =
    Errorf string "string list"
  | Wrapf string "string list" go_error

type_synonym 'a result = "go_error + 'a"

text \<open>\<open>if err := f(); err != nil { return wrap(err) }\<close> for a function that returns only an error.\<close>

definition wrap_err :: "string \<Rightarrow> string list \<Rightarrow> 'a result \<Rightarrow> 'a result" where
  "wrap_err fmt args r = (case r of Inl e \<Rightarrow> Inl (Wrapf fmt args e) | Inr x \<Rightarrow> Inr x)"

definition bind_result :: "'a result \<Rightarrow> ('a \<Rightarrow> 'b result) \<Rightarrow> 'b result" where
  "bind_result r f = (case r of Inl e \<Rightarrow> Inl e | Inr x \<Rightarrow> f x)"

definition is_ok :: "'a result \<Rightarrow> bool" where
  "is_ok r = (case r of Inl _ \<Rightarrow> False | Inr _ \<Rightarrow> True)"

text \<open>\<open>errors.Is\<close> looks through the wrappers.\<close>

fun is_error :: "go_error \<Rightarrow> go_error \<Rightarrow> bool" where
  "is_error (Errorf f args) t \<longleftrightarrow> Errorf f args = t"
| "is_error (Wrapf f args e) t \<longleftrightarrow> Wrapf f args e = t \<or> is_error e t"

lemma wrap_err_eq_Inr [simp]: "wrap_err fmt args r = Inr x \<longleftrightarrow> r = Inr x"
  by (cases r) (auto simp: wrap_err_def)

lemma wrap_err_Inr [simp]: "wrap_err fmt args (Inr x) = Inr x"
  by (simp add: wrap_err_def)

lemma wrap_err_Inl [simp]: "wrap_err fmt args (Inl e) = Inl (Wrapf fmt args e)"
  by (simp add: wrap_err_def)

lemma bind_result_simps [simp]:
  "bind_result (Inr x) f = f x" "bind_result (Inl e) f = Inl e"
  by (simp_all add: bind_result_def)

lemma bind_result_eq_Inr [simp]:
  "bind_result r f = Inr y \<longleftrightarrow> (\<exists>x. r = Inr x \<and> f x = Inr y)"
  by (cases r) auto

lemma is_ok_iff: "is_ok r \<longleftrightarrow> (\<exists>x. r = Inr x)"
  by (cases r) (auto simp: is_ok_def)

lemma is_ok_simps [simp]: "is_ok (Inr x)" "\<not> is_ok (Inl e)"
  by (simp_all add: is_ok_def)

lemma is_ok_bind [simp]: "is_ok (bind_result r f) \<longleftrightarrow> (\<exists>x. r = Inr x \<and> is_ok (f x))"
  by (cases r) auto

lemma is_ok_wrap [simp]: "is_ok (wrap_err fmt args r) \<longleftrightarrow> is_ok r"
  by (cases r) auto

section \<open>Package strings\<close>

definition hasPrefix :: "string \<Rightarrow> string \<Rightarrow> bool" where
  "hasPrefix s p \<longleftrightarrow> prefix p s"

definition hasSuffix :: "string \<Rightarrow> string \<Rightarrow> bool" where
  "hasSuffix s p \<longleftrightarrow> suffix p s"

definition trimPrefix :: "string \<Rightarrow> string \<Rightarrow> string" where
  "trimPrefix s p = (if hasPrefix s p then drop (length p) s else s)"

definition trimSuffix :: "string \<Rightarrow> string \<Rightarrow> string" where
  "trimSuffix s p = (if hasSuffix s p then take (length s - length p) s else s)"

definition containsStr :: "string \<Rightarrow> string \<Rightarrow> bool" where
  "containsStr s sub \<longleftrightarrow> sublist sub s"

text \<open>The white space of \<open>strings.TrimSpace\<close> and \<open>strings.Fields\<close> among the ASCII characters.\<close>

definition is_space :: "char \<Rightarrow> bool" where
  "is_space c \<longleftrightarrow> (of_char c :: nat) \<in> {9, 10, 11, 12, 13, 32}"

definition trimSpace :: "string \<Rightarrow> string" where
  "trimSpace s = rev (dropWhile is_space (rev (dropWhile is_space s)))"

text \<open>\<open>strings.Cut\<close> with a separator of one byte: before, after and found.\<close>

definition cut :: "string \<Rightarrow> char \<Rightarrow> string \<times> string \<times> bool" where
  "cut s c = (if c \<in> set s then (takeWhile (\<lambda>x. x \<noteq> c) s, tl (dropWhile (\<lambda>x. x \<noteq> c) s), True)
              else (s, [], False))"

text \<open>\<open>strings.Split\<close> with a separator of one byte.\<close>

fun split :: "char \<Rightarrow> string \<Rightarrow> string list" where
  "split c [] = [[]]"
| "split c (x # xs) = (if x = c then [] # split c xs
     else (case split c xs of [] \<Rightarrow> [[x]] | y # ys \<Rightarrow> (x # y) # ys))"

fun join :: "string list \<Rightarrow> string \<Rightarrow> string" where
  "join [] sep = []"
| "join [x] sep = x"
| "join (x # y # ys) sep = x @ sep @ join (y # ys) sep"

lemma split_not_Nil [simp]: "split c s \<noteq> []"
  by (cases s) (auto split: list.splits)

lemma split_no_sep [go_strings]: "c \<notin> set s \<Longrightarrow> split c s = [s]"
  by (induction s) auto

lemma split_Cons_notin: "x \<noteq> c \<Longrightarrow> split c (x # s) = (x # hd (split c s)) # tl (split c s)"
  by (cases "split c s") auto

lemma split_append_sep [go_strings]:
  "c \<notin> set s \<Longrightarrow> split c (s @ c # t) = s # split c t"
proof (induction s)
  case (Cons x s)
  then show ?case by auto
qed simp

lemma split_join [go_strings]:
  "xs \<noteq> [] \<Longrightarrow> \<forall>x \<in> set xs. c \<notin> set x \<Longrightarrow> split c (join xs [c]) = xs"
  by (induction xs "[c]" rule: join.induct) (auto simp: go_strings)

lemma join_split [go_strings]: "join (split c s) [c] = s"
proof (induction s)
  case (Cons x s)
  obtain y ys where eq: "split c s = y # ys" by (cases "split c s") auto
  show ?case
    using Cons by (cases ys) (auto simp: eq)
qed simp

lemma split_elem_notin: "x \<in> set (split c s) \<Longrightarrow> c \<notin> set x"
proof (induction s arbitrary: x)
  case (Cons a s)
  obtain y ys where eq: "split c s = y # ys" by (cases "split c s") auto
  have "c \<notin> set y" using Cons.IH [of y] by (simp add: eq)
  then show ?case using Cons.IH Cons.prems by (auto simp: eq split: if_splits)
qed simp

lemma join_single [simp]: "join [x] sep = x"
  by simp

lemma cut_found [go_strings]: "c \<notin> set s \<Longrightarrow> cut (s @ c # t) c = (s, t, True)"
  by (auto simp: cut_def dropWhile_append takeWhile_append)

lemma cut_not_found [go_strings]: "c \<notin> set s \<Longrightarrow> cut s c = (s, [], False)"
  by (simp add: cut_def)

lemma cut_True_iff: "cut s c = (a, b, True) \<longleftrightarrow> s = a @ c # b \<and> c \<notin> set a"
proof
  assume l: "cut s c = (a, b, True)"
  then have mem: "c \<in> set s" by (auto simp: cut_def split: if_splits)
  then obtain p q where pq: "s = p @ c # q" "c \<notin> set p"
    using split_list_first [of c s] by auto
  then show "s = a @ c # b \<and> c \<notin> set a" using l by (simp add: cut_found)
qed (simp add: cut_found)

section \<open>Package strconv\<close>

definition digit_char :: "nat \<Rightarrow> char" where
  "digit_char d = char_of (48 + d)"

definition is_digit :: "char \<Rightarrow> bool" where
  "is_digit c \<longleftrightarrow> CHR ''0'' \<le> c \<and> c \<le> CHR ''9''"

definition digit_val :: "char \<Rightarrow> nat" where
  "digit_val c = of_char c - 48"

fun nat_dec :: "nat \<Rightarrow> string" where
  "nat_dec n = (if n < 10 then [digit_char n] else nat_dec (n div 10) @ [digit_char (n mod 10)])"

declare nat_dec.simps [simp del]

definition dec_nat :: "string \<Rightarrow> nat" where
  "dec_nat s = foldl (\<lambda>n c. 10 * n + digit_val c) 0 s"

text \<open>\<open>strconv.Itoa\<close>.\<close>

definition itoa :: "int \<Rightarrow> string" where
  "itoa i = (if i < 0 then CHR ''-'' # nat_dec (nat (- i)) else nat_dec (nat i))"

text \<open>
  \<open>strconv.Atoi\<close> on a 64-bit platform: an optional sign, then one or more decimal digits,
  and an error (\<^term>\<open>None\<close>) on anything else and on a value outside the range of \<open>int\<close>.
\<close>

definition max_int :: int where
  "max_int = 9223372036854775807"

definition atoi :: "string \<Rightarrow> int option" where
  "atoi s =
     (let (neg, ds) = (case s of [] \<Rightarrow> (False, [])
                       | c # cs \<Rightarrow> if c = CHR ''-'' then (True, cs)
                                   else if c = CHR ''+'' then (False, cs) else (False, s));
          v = int (dec_nat ds)
      in if ds = [] \<or> \<not> list_all is_digit ds then None
         else if neg then (if v \<le> max_int + 1 then Some (- v) else None)
         else (if v \<le> max_int then Some v else None))"

lemma of_char_digit_char [simp]: "d < 10 \<Longrightarrow> of_char (digit_char d) = 48 + d"
  by (simp add: digit_char_def)

lemma is_digit_iff: "is_digit c \<longleftrightarrow> 48 \<le> (of_char c :: nat) \<and> (of_char c :: nat) \<le> 57"
  by (simp add: is_digit_def less_eq_char_def)

lemma is_digit_digit_char [simp]: "d < 10 \<Longrightarrow> is_digit (digit_char d)"
  by (simp add: is_digit_iff)

lemma digit_val_digit_char [simp]: "d < 10 \<Longrightarrow> digit_val (digit_char d) = d"
  by (simp add: digit_val_def)

lemma digit_char_eq_0: "d < 10 \<Longrightarrow> digit_char d = CHR ''0'' \<longleftrightarrow> d = 0"
  using of_char_eq_iff [of "digit_char d" "CHR ''0''", where ?'a = nat] by simp

lemma nat_dec_digits: "list_all is_digit (nat_dec n)"
proof (induction n rule: nat_dec.induct)
  case (1 n)
  then show ?case by (cases "n < 10") (simp_all add: nat_dec.simps [of n])
qed

lemma nat_dec_not_Nil [simp]: "nat_dec n \<noteq> []"
  by (subst nat_dec.simps) simp

lemma dec_nat_nat_dec [simp]: "dec_nat (nat_dec n) = n"
proof (induction n rule: nat_dec.induct)
  case (1 n)
  then show ?case by (cases "n < 10") (simp_all add: nat_dec.simps [of n] dec_nat_def)
qed

lemma hd_nat_dec: "0 < n \<Longrightarrow> hd (nat_dec n) \<noteq> CHR ''0''"
proof (induction n rule: nat_dec.induct)
  case (1 n)
  show ?case
  proof (cases "n < 10")
    case True
    then show ?thesis using 1 by (simp add: nat_dec.simps [of n] digit_char_eq_0)
  next
    case False
    then show ?thesis using 1 by (simp add: nat_dec.simps [of n] hd_append)
  qed
qed


lemma itoa_digits: "0 \<le> i \<Longrightarrow> list_all is_digit (itoa i)"
  by (simp add: itoa_def nat_dec_digits)

lemma itoa_not_Nil [simp]: "itoa i \<noteq> []"
  by (simp add: itoa_def)

lemma dec_nat_itoa: "0 \<le> i \<Longrightarrow> dec_nat (itoa i) = nat i"
  by (simp add: itoa_def)

lemma itoa_inj_nonneg: "0 \<le> i \<Longrightarrow> 0 \<le> j \<Longrightarrow> itoa i = itoa j \<longleftrightarrow> i = j"
  by (metis dec_nat_itoa eq_nat_nat_iff)

lemma is_digit_not_special: "is_digit c \<Longrightarrow> c \<noteq> CHR ''-'' \<and> c \<noteq> CHR ''+'' \<and> c \<noteq> CHR '':'' \<and>
    c \<noteq> CHR '','' \<and> c \<noteq> CHR ''='' \<and> c \<noteq> CHR ''.''"
  by (auto simp: is_digit_iff)

lemma list_all_is_digit_notin:
  "list_all is_digit s \<Longrightarrow> c \<in> {CHR ''-'', CHR ''+'', CHR '':'', CHR '','', CHR ''='', CHR ''.''} \<Longrightarrow> c \<notin> set s"
  using is_digit_not_special by (fastforce simp: list_all_iff)

text \<open>\<open>Atoi\<close> reads an unsigned decimal as its value when it fits.\<close>

lemma atoi_digits:
  assumes "s \<noteq> []" "list_all is_digit s"
  shows "atoi s = (if int (dec_nat s) \<le> max_int then Some (int (dec_nat s)) else None)"
proof -
  obtain c cs where s: "s = c # cs" using assms(1) by (cases s) auto
  then have "is_digit c" using assms(2) by simp
  then have "c \<noteq> CHR ''-''" "c \<noteq> CHR ''+''" by (auto dest: is_digit_not_special)
  then show ?thesis using assms(2) by (simp add: atoi_def s)
qed

lemma atoi_itoa: "0 \<le> i \<Longrightarrow> i \<le> max_int \<Longrightarrow> atoi (itoa i) = Some i"
  using itoa_digits [of i] by (simp add: atoi_digits dec_nat_itoa)

section \<open>Package cmp\<close>

definition compare :: "'a::linorder \<Rightarrow> 'a \<Rightarrow> int" where
  "compare x y = (if x < y then - 1 else if y < x then 1 else 0)"

text \<open>\<open>cmp.Or\<close>: the first argument that is not the zero value, or the zero value.\<close>

fun cmp_or :: "'a \<Rightarrow> 'a list \<Rightarrow> 'a" where
  "cmp_or z [] = z"
| "cmp_or z (x # xs) = (if x \<noteq> z then x else cmp_or z xs)"

lemma compare_eq_0 [simp]: "compare x y = 0 \<longleftrightarrow> x = y"
  by (auto simp: compare_def)

lemma compare_refl [simp]: "compare x x = 0"
  by simp

lemma compare_swap: "compare y x = - compare x y"
  by (auto simp: compare_def)

lemma compare_neg [simp]: "compare x y < 0 \<longleftrightarrow> x < y"
  by (auto simp: compare_def)

lemma compare_le [simp]: "compare x y \<le> 0 \<longleftrightarrow> x \<le> y"
  by (auto simp: compare_def)

section \<open>Sorting with a comparison function\<close>

text \<open>
  A three-way comparison function as Go's \<open>slices\<close> package expects it: a strict weak order,
  given by its sign.
\<close>

definition strict_weak :: "('a \<Rightarrow> 'a \<Rightarrow> int) \<Rightarrow> bool" where
  "strict_weak cmp \<longleftrightarrow>
     (\<forall>x. cmp x x = 0) \<and>
     (\<forall>x y. cmp x y < 0 \<longleftrightarrow> 0 < cmp y x) \<and>
     (\<forall>x y z. cmp x y \<le> 0 \<longrightarrow> cmp y z \<le> 0 \<longrightarrow> cmp x z \<le> 0)"

text \<open>
  \<open>slices.SortStableFunc\<close>: insertion sort, the stable sort with the simplest text. A stable
  sort with respect to a strict weak order has exactly one result.
\<close>

fun insort_func :: "('a \<Rightarrow> 'a \<Rightarrow> int) \<Rightarrow> 'a \<Rightarrow> 'a list \<Rightarrow> 'a list" where
  "insort_func cmp x [] = [x]"
| "insort_func cmp x (y # ys) = (if cmp x y \<le> 0 then x # y # ys else y # insort_func cmp x ys)"

primrec sort_stable_func :: "('a \<Rightarrow> 'a \<Rightarrow> int) \<Rightarrow> 'a list \<Rightarrow> 'a list" where
  "sort_stable_func cmp [] = []"
| "sort_stable_func cmp (x # xs) = insort_func cmp x (sort_stable_func cmp xs)"

text \<open>
  \<open>sort.Sort\<close> and \<open>slices.SortFunc\<close> are not stable: the order of elements that compare equal
  is unspecified. The contract of any sort: a permutation of its argument, sorted when the
  comparison is a strict weak order.
\<close>

locale sorter =
  fixes cmp :: "'a \<Rightarrow> 'a \<Rightarrow> int" and sort_func :: "'a list \<Rightarrow> 'a list"
  assumes sort_mset: "mset (sort_func xs) = mset xs"
    and sort_sorted: "strict_weak cmp \<Longrightarrow> sorted_wrt (\<lambda>x y. cmp x y \<le> 0) (sort_func xs)"
begin

lemma sort_set: "set (sort_func xs) = set xs"
  by (metis sort_mset mset_eq_setD)

lemma sort_length: "length (sort_func xs) = length xs"
  by (metis sort_mset size_mset)

lemma sort_Nil: "sort_func [] = []"
  using sort_mset [of "[]"] by simp

end

lemma mset_insort_func [simp]: "mset (insort_func cmp x xs) = add_mset x (mset xs)"
  by (induction xs) auto

lemma set_insort_func [simp]: "set (insort_func cmp x xs) = insert x (set xs)"
  by (induction xs) auto

lemma mset_sort_stable [simp]: "mset (sort_stable_func cmp xs) = mset xs"
  by (induction xs) auto

lemma set_sort_stable [simp]: "set (sort_stable_func cmp xs) = set xs"
  by (induction xs) auto

lemma length_sort_stable [simp]: "length (sort_stable_func cmp xs) = length xs"
  by (metis mset_sort_stable size_mset)

lemma sorted_insort_func:
  assumes "strict_weak cmp" "sorted_wrt (\<lambda>x y. cmp x y \<le> 0) xs"
  shows "sorted_wrt (\<lambda>x y. cmp x y \<le> 0) (insort_func cmp a xs)"
  using assms(2)
proof (induction xs)
  case (Cons y ys)
  have "cmp y a \<le> 0" if "\<not> cmp a y \<le> 0"
    using that assms(1) unfolding strict_weak_def by (metis linorder_not_less order_less_imp_le)
  moreover have "cmp a z \<le> 0" if "cmp a y \<le> 0" "cmp y z \<le> 0" for z
    using that assms(1) unfolding strict_weak_def by blast
  ultimately show ?case using Cons by auto
qed simp

lemma sorted_sort_stable:
  "strict_weak cmp \<Longrightarrow> sorted_wrt (\<lambda>x y. cmp x y \<le> 0) (sort_stable_func cmp xs)"
  by (induction xs) (auto intro: sorted_insort_func)

interpretation stable: sorter cmp "sort_stable_func cmp" for cmp :: "'a \<Rightarrow> 'a \<Rightarrow> int"
  by unfold_locales (auto intro: sorted_sort_stable)

text \<open>Stability: elements that satisfy a predicate which the comparison cannot tell apart keep
  their order.\<close>

lemma filter_insort_func:
  assumes "\<forall>y \<in> set xs. P x \<longrightarrow> P y \<longrightarrow> cmp x y \<le> 0"
  shows "filter P (insort_func cmp x xs) = filter P (x # xs)"
  using assms by (induction xs) auto

lemma sort_stable_filter:
  assumes "\<forall>x \<in> set xs. \<forall>y \<in> set xs. P x \<longrightarrow> P y \<longrightarrow> cmp x y \<le> 0"
  shows "filter P (sort_stable_func cmp xs) = filter P xs"
  using assms by (induction xs) (auto simp: filter_insort_func)

lemma sort_stable_bool:
  assumes "\<And>a b. cmp a b = compare (P a) (P b)"
  shows "sort_stable_func cmp xs = filter (\<lambda>x. \<not> P x) xs @ filter P xs"
proof (induction xs)
  case (Cons x xs)
  have front: "insort_func cmp x zs = x # zs" if "\<not> P x \<or> list_all P zs" for zs
    using that by (cases zs) (auto simp: assms)
  have "insort_func cmp x (ys @ zs) = (if P x then ys @ x # zs else x # ys @ zs)"
    if "list_all (\<lambda>y. \<not> P y) ys" "list_all P zs" for ys zs
    using that by (induction ys) (auto simp: assms front)
  then show ?case using Cons by (simp add: list_all_iff)
qed simp

lemma sort_stable_Nil_iff: "sort_stable_func cmp xs = [] \<longleftrightarrow> xs = []"
  by (metis length_0_conv length_sort_stable)

lemma sort_mset_distinct: "mset xs = mset ys \<Longrightarrow> distinct (map f ys) \<Longrightarrow> distinct (map f xs)"
  by (metis mset_eq_imp_distinct_iff mset_map)

lemma filter_singleton_mset:
  assumes "mset xs = mset ys" "filter P ys = zs" "length zs \<le> 1"
  shows "filter P xs = zs"
proof -
  have "mset (filter P xs) = mset zs" using assms by (metis mset_filter)
  then show ?thesis using assms(3) by (cases zs) (simp_all del: mset_filter)
qed

section \<open>Maps\<close>

text \<open>Updates keep the keys distinct and read back what was written.\<close>

definition map_ok :: "('k \<times> 'v) list \<Rightarrow> bool" where
  "map_ok m \<longleftrightarrow> distinct (map fst m)"

lemma map_ok_Nil [simp]: "map_ok []"
  by (simp add: map_ok_def)

lemma map_ok_update [go_maps]: "map_ok m \<Longrightarrow> map_ok (AList.update k v m)"
  by (simp add: map_ok_def distinct_update)

lemma map_ok_delete [go_maps]: "map_ok m \<Longrightarrow> map_ok (AList.delete k m)"
  by (simp add: map_ok_def distinct_delete)

lemma set_update_subset: "set (AList.update k v m) \<subseteq> insert (k, v) (set m)"
  by (induction m) auto

lemma update_map:
  "map_ok m \<Longrightarrow> map_of m k = Some a \<Longrightarrow>
   AList.update k (f a) m = map (\<lambda>(k', a'). (k', if k' = k then f a' else a')) m"
proof (induction m)
  case (Cons x m)
  show ?case
  proof (cases "fst x = k")
    case True
    then have "\<forall>y \<in> set m. fst y \<noteq> k" using Cons.prems(1) by (metis distinct.simps(2) image_eqI list.set_map list.simps(9) map_ok_def)
    then have "map (\<lambda>(k', a'). (k', if k' = k then f a' else a')) m = m"
      by (intro map_idI) auto
    then show ?thesis using True Cons.prems by (cases x) simp
  next
    case False
    then show ?thesis using Cons by (cases x) (simp add: map_ok_def)
  qed
qed simp

lemma snd_set_map_of: "map_ok m \<Longrightarrow> snd ` set m = ran (map_of m)"
  unfolding map_ok_def by (simp add: ran_distinct)

lemma map_of_filter_key: "map_of (filter (\<lambda>e. \<not> P (fst e)) m) k = (if P k then None else map_of m k)"
  by (induction m) auto

text \<open>A function that may stand for Go's iteration order.\<close>

definition is_range :: "('a list \<Rightarrow> 'a list) \<Rightarrow> bool" where
  "is_range range_of \<longleftrightarrow> (\<forall>xs. mset (range_of xs) = mset xs)"

lemma is_range_set: "is_range r \<Longrightarrow> set (r xs) = set xs"
  unfolding is_range_def by (metis mset_eq_setD)

lemma is_range_mset: "is_range r \<Longrightarrow> mset (r xs) = mset xs"
  by (simp add: is_range_def)

lemma is_range_id [simp]: "is_range (\<lambda>xs. xs)"
  by (simp add: is_range_def)

lemma is_range_rev [simp]: "is_range rev"
  by (simp add: is_range_def)

section \<open>Numbers\<close>

text \<open>A floating-point number is its bit pattern.\<close>

type_synonym float64 = nat
type_synonym float32 = nat

section \<open>Package time\<close>

type_synonym go_time = int

definition time_IsZero :: "go_time \<Rightarrow> bool" where
  "time_IsZero t \<longleftrightarrow> t = 0"

definition time_Before :: "go_time \<Rightarrow> go_time \<Rightarrow> bool" where
  "time_Before t u \<longleftrightarrow> t < u"

text \<open>
  \<open>time.Date\<close> in UTC for a date of the proleptic Gregorian calendar: the days before the
  year, before the month and in the month, then the time of day.
\<close>

definition is_leap :: "int \<Rightarrow> bool" where
  "is_leap y \<longleftrightarrow> y mod 4 = 0 \<and> (y mod 100 \<noteq> 0 \<or> y mod 400 = 0)"

definition days_before_year :: "int \<Rightarrow> int" where
  "days_before_year y = 365 * (y - 1) + (y - 1) div 4 - (y - 1) div 100 + (y - 1) div 400"

definition days_before_month :: "int \<Rightarrow> nat \<Rightarrow> int" where
  "days_before_month y m =
     sum_list (take (m - 1) [31, if is_leap y then 29 else 28, 31, 30, 31, 30, 31, 31, 30, 31, 30, 31])"

definition time_Date :: "int \<Rightarrow> nat \<Rightarrow> int \<Rightarrow> int \<Rightarrow> int \<Rightarrow> int \<Rightarrow> int \<Rightarrow> go_time" where
  "time_Date y m d hh mi ss ns =
     (((days_before_year y + days_before_month y m + (d - 1)) * 24 + hh) * 60 + mi) * 60 * 1000000000
       + ss * 1000000000 + ns"

lemma time_Date_zero: "time_Date 1 1 1 0 0 0 0 = 0"
  by (simp add: time_Date_def days_before_year_def days_before_month_def)

lemma time_Date_unix_epoch: "time_Date 1970 1 1 0 0 0 0 = 62135596800 * 1000000000"
  by (simp add: time_Date_def days_before_year_def days_before_month_def)

section \<open>Orders given by a Less method\<close>

text \<open>
  \<open>sort.Sort\<close> reads the order off a \<open>Less\<close> method; this is its three-way comparison.
\<close>

definition less_cmp :: "('a \<Rightarrow> 'a \<Rightarrow> bool) \<Rightarrow> 'a \<Rightarrow> 'a \<Rightarrow> int" where
  "less_cmp lt x y = (if lt x y then - 1 else if lt y x then 1 else 0)"

text \<open>A \<open>Less\<close> method that compares a key in a linear order sorts by that key.\<close>

lemma strict_weak_key:
  assumes "\<And>x y. lt x y \<longleftrightarrow> (key x :: 'k::linorder) < key y"
  shows "strict_weak (less_cmp lt)"
  by (auto simp: strict_weak_def less_cmp_def assms)

lemma less_cmp_le_key:
  assumes "\<And>x y. lt x y \<longleftrightarrow> (key x :: 'k::linorder) < key y"
  shows "less_cmp lt x y \<le> 0 \<longleftrightarrow> key x \<le> key y"
  by (auto simp: less_cmp_def assms)

text \<open>A lexicographic chain of \<open>cmp.Compare\<close> calls under \<open>cmp.Or\<close> is a comparison of tuples.\<close>

lemma cmp_or_chain:
  "cmp_or 0 (compare a b # cs) = (if a < b then - 1 else if b < a then 1 else cmp_or 0 cs)"
  by (auto simp: compare_def)

lemma cmp_or_compare: "cmp_or 0 [compare a b] = compare a b"
  by (auto simp: compare_def)

lemma compare_Pair: "compare (a, x) (b, y) = (if a < b then - 1 else if b < a then 1 else compare x y)"
  by (auto simp: compare_def less_prod_def')

lemma strict_weak_compare: "strict_weak (\<lambda>x y. compare (f x :: 'k::linorder) (f y))"
  by (auto simp: strict_weak_def compare_def split: if_splits)

section \<open>Helpers of the package lo\<close>

text \<open>
  The generic slice helpers of \<open>github.com/samber/lo\<close> are determined by their documentation;
  these are the ones the modelled code calls and that have no name in \<open>HOL.List\<close>.
  \<open>lo.UniqBy\<close> keeps the first element of each key, in the order of the slice; \<open>lo.GroupBy\<close> is a
  map from keys to the elements with that key, in the order of the slice.
\<close>

fun uniqBy_seen :: "'k list \<Rightarrow> ('a \<Rightarrow> 'k) \<Rightarrow> 'a list \<Rightarrow> 'a list" where
  "uniqBy_seen seen f [] = []"
| "uniqBy_seen seen f (x # xs) =
     (if f x \<in> set seen then uniqBy_seen seen f xs else x # uniqBy_seen (f x # seen) f xs)"

definition uniqBy :: "('a \<Rightarrow> 'k) \<Rightarrow> 'a list \<Rightarrow> 'a list" where
  "uniqBy f xs = uniqBy_seen [] f xs"

definition groupBy :: "('a \<Rightarrow> 'k) \<Rightarrow> 'a list \<Rightarrow> ('k \<times> 'a list) list" where
  "groupBy f xs = map (\<lambda>k. (k, filter (\<lambda>x. f x = k) xs)) (remdups (map f xs))"

lemma uniqBy_seen_set: "set (uniqBy_seen seen f xs) \<subseteq> set xs"
  by (induction xs arbitrary: seen) (auto split: if_splits)

lemma uniqBy_seen_distinct:
  "distinct (map f (uniqBy_seen seen f xs)) \<and> f ` set (uniqBy_seen seen f xs) = f ` set xs - set seen"
  by (induction xs arbitrary: seen) (auto split: if_splits)

lemma uniqBy_subset: "set (uniqBy f xs) \<subseteq> set xs"
  by (simp add: uniqBy_def uniqBy_seen_set)

lemma uniqBy_distinct: "distinct (map f (uniqBy f xs))"
  using uniqBy_seen_distinct [of f "[]" xs] by (simp add: uniqBy_def)

lemma uniqBy_keys: "f ` set (uniqBy f xs) = f ` set xs"
  using uniqBy_seen_distinct [of f "[]" xs] by (simp add: uniqBy_def)

lemma uniqBy_seen_first:
  "k \<notin> set seen \<Longrightarrow> find (\<lambda>x. f x = k) (uniqBy_seen seen f xs) = find (\<lambda>x. f x = k) xs"
  by (induction xs arbitrary: seen) auto

lemma uniqBy_first: "find (\<lambda>x. f x = k) (uniqBy f xs) = find (\<lambda>x. f x = k) xs"
  by (simp add: uniqBy_def uniqBy_seen_first)

lemma uniqBy_Nil_iff [simp]: "uniqBy f xs = [] \<longleftrightarrow> xs = []"
  by (cases xs) (auto simp: uniqBy_def)

lemma find_append: "find P (xs @ ys) = (case find P xs of Some x \<Rightarrow> Some x | None \<Rightarrow> find P ys)"
  by (induction xs) auto

lemma find_mem: "find P xs = Some x \<Longrightarrow> x \<in> set xs"
  by (auto simp: find_Some_iff)

lemma uniqBy_mem: "x \<in> set (uniqBy f xs) \<Longrightarrow> find (\<lambda>y. f y = f x) xs = Some x"
proof -
  have "x \<in> set (uniqBy_seen seen f xs) \<Longrightarrow> f x \<notin> set seen \<and> find (\<lambda>y. f y = f x) xs = Some x" for seen
  proof (induction xs arbitrary: seen)
    case (Cons a xs)
    then show ?case using Cons.IH [of seen] Cons.IH [of "f a # seen"] by (auto split: if_splits)
  qed simp
  then show "x \<in> set (uniqBy f xs) \<Longrightarrow> ?thesis" by (auto simp: uniqBy_def)
qed

end
