(* ===== verification/Go_Set.thy ===== *)
theory Go_Set
  imports Go_Prelude
begin

text \<open>
  The package \<open>pkg/set\<close>: the interface \<open>Set\<close> as the locale \<open>go_set\<close>, and its two
  implementations, \<open>unsafeSet\<close> (a map to the empty struct, \<open>unsafe.go\<close>) and
  \<open>caseInsensitiveStringSet\<close> (a map from the folded string to the string as first seen,
  \<open>case_insensitive.go\<close>), as interpretations of it.

  A set value of the interface type that a method takes as its argument (\<open>other\<close>) is used by
  the code through \<open>Items\<close> and \<open>Contains\<close> only, so the model passes those two. The items come
  in an unspecified order, hence any list with these elements may be passed.

  The function \<open>lower\<close> stands for \<open>strings.ToLower\<close>, whose Unicode tables are not modelled; the
  results hold for every folding function.
\<close>

section \<open>The interface\<close>

text \<open>
  \<open>norm\<close> is what the implementation compares by: the item itself or its folded form. The
  abstraction \<open>abs\<close> is the set of normal forms present.
\<close>

locale go_set =
  fixes empty :: "'s"
    and append :: "'s \<Rightarrow> 'a list \<Rightarrow> 's"
    and remove :: "'s \<Rightarrow> 'a \<Rightarrow> 's"
    and contains :: "'s \<Rightarrow> 'a \<Rightarrow> bool"
    and find :: "'s \<Rightarrow> 'a \<Rightarrow> 'a \<times> bool"
    and size_of :: "'s \<Rightarrow> nat"
    and items :: "'s \<Rightarrow> 'a list"
    and union :: "'s \<Rightarrow> 'a list \<Rightarrow> 's"
    and intersection :: "'s \<Rightarrow> ('a \<Rightarrow> bool) \<Rightarrow> 's"
    and difference :: "'s \<Rightarrow> ('a \<Rightarrow> bool) \<Rightarrow> 's"
    and inv :: "'s \<Rightarrow> bool"
    and norm :: "'a \<Rightarrow> 'n"
    and abs :: "'s \<Rightarrow> 'n set"
  assumes inv_empty: "inv empty"
    and inv_append: "inv s \<Longrightarrow> inv (append s xs)"
    and inv_remove: "inv s \<Longrightarrow> inv (remove s x)"
    and inv_union: "inv s \<Longrightarrow> inv (union s ys)"
    and inv_intersection: "inv s \<Longrightarrow> inv (intersection s p)"
    and inv_difference: "inv s \<Longrightarrow> inv (difference s p)"
    and abs_empty: "abs empty = {}"
    and abs_append: "inv s \<Longrightarrow> abs (append s xs) = abs s \<union> norm ` set xs"
    and abs_remove: "inv s \<Longrightarrow> abs (remove s x) = abs s - {norm x}"
    and abs_union: "inv s \<Longrightarrow> abs (union s ys) = abs s \<union> norm ` set ys"
    and abs_intersection: "inv s \<Longrightarrow> abs (intersection s p) = norm ` {x \<in> set (items s). p x}"
    and abs_difference: "inv s \<Longrightarrow> abs (difference s p) = norm ` {x \<in> set (items s). \<not> p x}"
    and contains_iff: "inv s \<Longrightarrow> contains s x \<longleftrightarrow> norm x \<in> abs s"
    and find_iff: "inv s \<Longrightarrow> snd (find s x) \<longleftrightarrow> contains s x"
    and find_norm: "inv s \<Longrightarrow> contains s x \<Longrightarrow> norm (fst (find s x)) = norm x"
    and find_item: "inv s \<Longrightarrow> contains s x \<Longrightarrow> fst (find s x) \<in> set (items s)"
    and items_norm: "inv s \<Longrightarrow> distinct (map norm (items s)) \<and> norm ` set (items s) = abs s"
    and size_items: "inv s \<Longrightarrow> size_of s = length (items s)"
begin

lemma items_abs: "inv s \<Longrightarrow> norm ` set (items s) = abs s"
  using items_norm by blast

lemma size_card: "inv s \<Longrightarrow> size_of s = card (abs s)"
  using items_norm [of s] size_items [of s] by (metis distinct_card length_map list.set_map)

lemma contains_append: "inv s \<Longrightarrow> contains (append s xs) x \<longleftrightarrow> contains s x \<or> norm x \<in> norm ` set xs"
  by (simp add: contains_iff inv_append abs_append)

lemma contains_remove: "inv s \<Longrightarrow> contains (remove s y) x \<longleftrightarrow> contains s x \<and> norm x \<noteq> norm y"
  by (simp add: contains_iff inv_remove abs_remove)

lemma contains_union_self:
  "inv s \<Longrightarrow> inv t \<Longrightarrow> contains (union s (items t)) x \<longleftrightarrow> contains s x \<or> contains t x"
  by (simp add: contains_iff inv_union abs_union items_abs)

lemma abs_intersection_self: "inv s \<Longrightarrow> inv t \<Longrightarrow> abs (intersection s (contains t)) = abs s \<inter> abs t"
  using items_abs [of s] by (force simp: abs_intersection contains_iff)

lemma abs_difference_self: "inv s \<Longrightarrow> inv t \<Longrightarrow> abs (difference s (contains t)) = abs s - abs t"
  using items_abs [of s] by (force simp: abs_difference contains_iff)

lemma size_partition:
  assumes "inv s" "inv t"
  shows "size_of (intersection s (contains t)) + size_of (difference s (contains t)) = size_of s"
proof -
  have fin: "finite (abs s)" using items_abs [OF assms(1)] by (metis List.finite_set finite_imageI)
  have "card (abs s \<inter> abs t) + card (abs s - abs t) = card (abs s)"
    using card_Un_disjoint [of "abs s \<inter> abs t" "abs s - abs t"] fin
    by (metis Diff_disjoint Int_Diff_Un Int_Diff_disjoint finite_Diff finite_Int)
  then show ?thesis
    using assms by (simp add: size_card inv_intersection inv_difference abs_intersection_self abs_difference_self)
qed

end

section \<open>unsafeSet\<close>

type_synonym 'a unsafeSet = "('a \<times> unit) list"

definition unsafe_Append :: "'a unsafeSet \<Rightarrow> 'a list \<Rightarrow> 'a unsafeSet" where
  "unsafe_Append s val = fold (\<lambda>item m. AList.update item () m) val s"

definition unsafe_New :: "'a list \<Rightarrow> 'a unsafeSet" where
  "unsafe_New vals = fold (\<lambda>v m. AList.update v () m) vals []"

definition unsafe_Remove :: "'a unsafeSet \<Rightarrow> 'a \<Rightarrow> 'a unsafeSet" where
  "unsafe_Remove s item = AList.delete item s"

definition unsafe_Contains :: "'a unsafeSet \<Rightarrow> 'a \<Rightarrow> bool" where
  "unsafe_Contains s item = (map_of s item \<noteq> None)"

definition unsafe_Find :: "'a unsafeSet \<Rightarrow> 'a \<Rightarrow> 'a \<times> bool" where
  "unsafe_Find s item = (item, map_of s item \<noteq> None)"

definition unsafe_Size :: "'a unsafeSet \<Rightarrow> nat" where
  "unsafe_Size s = length s"

fun unsafe_clear_loop :: "'a list \<Rightarrow> 'a unsafeSet \<Rightarrow> 'a unsafeSet" where
  "unsafe_clear_loop [] s = s"
| "unsafe_clear_loop (k # ks) s = unsafe_clear_loop ks (AList.delete k s)"

definition unsafe_Clear :: "'a unsafeSet \<Rightarrow> 'a unsafeSet" where
  "unsafe_Clear s = unsafe_clear_loop (map fst s) s"

definition unsafe_Items :: "'a unsafeSet \<Rightarrow> 'a list" where
  "unsafe_Items s = map fst s"

definition unsafe_Union :: "'a unsafeSet \<Rightarrow> 'a list \<Rightarrow> 'a unsafeSet" where
  "unsafe_Union s other_items =
     (let result = fold (\<lambda>k m. AList.update k () m) (map fst s) []
      in fold (\<lambda>item m. AList.update item () m) other_items result)"

definition unsafe_Intersection :: "'a unsafeSet \<Rightarrow> ('a \<Rightarrow> bool) \<Rightarrow> 'a unsafeSet" where
  "unsafe_Intersection s other_contains =
     fold (\<lambda>k m. if other_contains k then AList.update k () m else m) (map fst s) []"

definition unsafe_Difference :: "'a unsafeSet \<Rightarrow> ('a \<Rightarrow> bool) \<Rightarrow> 'a unsafeSet" where
  "unsafe_Difference s other_contains =
     fold (\<lambda>k m. if \<not> other_contains k then AList.update k () m else m) (map fst s) []"

section \<open>caseInsensitiveStringSet\<close>

type_synonym ciSet = "(string \<times> string) list"

definition ci_Append1 :: "(string \<Rightarrow> string) \<Rightarrow> string \<Rightarrow> ciSet \<Rightarrow> ciSet" where
  "ci_Append1 lower v s =
     (let key = lower v in case map_of s key of None \<Rightarrow> AList.update key v s | Some _ \<Rightarrow> s)"

definition ci_Append :: "(string \<Rightarrow> string) \<Rightarrow> ciSet \<Rightarrow> string list \<Rightarrow> ciSet" where
  "ci_Append lower s vals = fold (ci_Append1 lower) vals s"

definition ci_New :: "(string \<Rightarrow> string) \<Rightarrow> string list \<Rightarrow> ciSet" where
  "ci_New lower vals = ci_Append lower [] vals"

definition ci_Remove :: "(string \<Rightarrow> string) \<Rightarrow> ciSet \<Rightarrow> string \<Rightarrow> ciSet" where
  "ci_Remove lower s item = AList.delete (lower item) s"

definition ci_Contains :: "(string \<Rightarrow> string) \<Rightarrow> ciSet \<Rightarrow> string \<Rightarrow> bool" where
  "ci_Contains lower s item = (map_of s (lower item) \<noteq> None)"

definition ci_Find :: "(string \<Rightarrow> string) \<Rightarrow> ciSet \<Rightarrow> string \<Rightarrow> string \<times> bool" where
  "ci_Find lower s item =
     (case map_of s (lower item) of None \<Rightarrow> ([], False) | Some value \<Rightarrow> (value, True))"

definition ci_Size :: "ciSet \<Rightarrow> nat" where
  "ci_Size s = length s"

definition ci_Clear :: "ciSet \<Rightarrow> ciSet" where
  "ci_Clear s = []"

definition ci_Items :: "ciSet \<Rightarrow> string list" where
  "ci_Items s = map snd s"

definition ci_Union :: "(string \<Rightarrow> string) \<Rightarrow> ciSet \<Rightarrow> string list \<Rightarrow> ciSet" where
  "ci_Union lower s other_items =
     (let result = fold (\<lambda>(k, v) m. AList.update k v m) s [] in ci_Append lower result other_items)"

definition ci_Intersection :: "(string \<Rightarrow> string) \<Rightarrow> ciSet \<Rightarrow> (string \<Rightarrow> bool) \<Rightarrow> ciSet" where
  "ci_Intersection lower s other_contains =
     fold (\<lambda>v m. if other_contains v then ci_Append lower m [v] else m) (map snd s) []"

definition ci_Difference :: "(string \<Rightarrow> string) \<Rightarrow> ciSet \<Rightarrow> (string \<Rightarrow> bool) \<Rightarrow> ciSet" where
  "ci_Difference lower s other_contains =
     fold (\<lambda>v m. if \<not> other_contains v then ci_Append lower m [v] else m) (map snd s) []"

section \<open>unsafeSet implements the interface\<close>

lemma dom_update_loop: "fst ` set (fold (\<lambda>k m. AList.update k () m) ks m) = fst ` set m \<union> set ks"
  by (induction ks arbitrary: m) (auto simp: dom_update)

lemma map_ok_update_loop: "map_ok m \<Longrightarrow> map_ok (fold (\<lambda>k m. AList.update k () m) ks m)"
  by (induction ks arbitrary: m) (auto simp: go_maps)

lemma fold_if_filter: "fold (\<lambda>k m. if p k then f k m else m) ks m = fold f (filter p ks) m"
  by (induction ks arbitrary: m) auto

lemma unsafe_Clear_Nil [simp]: "unsafe_Clear s = []"
proof -
  have "unsafe_clear_loop ks s = filter (\<lambda>kv. fst kv \<notin> set ks) s" for ks and s :: "'a unsafeSet"
    by (induction ks arbitrary: s) (auto simp: AList.delete_eq intro: filter_cong)
  then show ?thesis by (auto simp: unsafe_Clear_def filter_empty_conv)
qed

lemma map_of_unit_iff: "map_of s x \<noteq> None \<longleftrightarrow> x \<in> fst ` set s"
  by (simp add: map_of_eq_None_iff)

lemmas unsafe_defs = unsafe_Append_def unsafe_Remove_def unsafe_Contains_def unsafe_Find_def
  unsafe_Size_def unsafe_Items_def unsafe_Union_def unsafe_Intersection_def unsafe_Difference_def

lemma dom_delete_unit: "fst ` set (AList.delete x s) = fst ` set s - {x}"
  by (auto simp: AList.delete_eq)

lemma delete_set_subset: "kv \<in> set (AList.delete k s) \<Longrightarrow> kv \<in> set s"
  by (auto simp: AList.delete_eq)

lemma us_contains_New: "unsafe_Contains (unsafe_New xs) x \<longleftrightarrow> x \<in> set xs"
  by (simp only: unsafe_Contains_def map_of_unit_iff unsafe_New_def dom_update_loop) simp

interpretation us: go_set "[]" unsafe_Append unsafe_Remove unsafe_Contains unsafe_Find unsafe_Size
  unsafe_Items unsafe_Union unsafe_Intersection unsafe_Difference map_ok "\<lambda>x. x" "\<lambda>s. fst ` set s"
proof (unfold_locales, goal_cases)
  case (17 s)
  then show ?case by (simp add: unsafe_Items_def map_ok_def)
qed (auto simp: unsafe_defs Let_def fold_if_filter dom_update_loop map_ok_update_loop
      map_of_eq_None_iff map_ok_delete dom_delete_unit intro: rev_image_eqI)

section \<open>caseInsensitiveStringSet implements the interface\<close>

text \<open>The representation invariant: keys are distinct, and every key is the folded value.\<close>

definition ci_inv :: "(string \<Rightarrow> string) \<Rightarrow> ciSet \<Rightarrow> bool" where
  "ci_inv lower s \<longleftrightarrow> map_ok s \<and> (\<forall>(k, v) \<in> set s. k = lower v)"

lemma ci_inv_Nil [simp]: "ci_inv lower []"
  by (simp add: ci_inv_def)

lemma set_update_new: "map_of m k = None \<Longrightarrow> AList.update k v m = m @ [(k, v)]"
  by (induction m) auto

lemma ci_Append1_cases:
  "ci_Append1 lower v s = (if lower v \<in> fst ` set s then s else s @ [(lower v, v)])"
  by (auto simp: ci_Append1_def Let_def set_update_new map_of_eq_None_iff split: option.splits
      dest: map_of_SomeD intro: rev_image_eqI)

lemma ci_inv_Append1: "ci_inv lower s \<Longrightarrow> ci_inv lower (ci_Append1 lower v s)"
  by (auto simp: ci_Append1_cases ci_inv_def map_ok_def)

lemma ci_inv_Append: "ci_inv lower s \<Longrightarrow> ci_inv lower (ci_Append lower s vs)"
  unfolding ci_Append_def by (induction vs arbitrary: s) (auto simp: ci_inv_Append1)

lemma dom_ci_Append: "fst ` set (ci_Append lower s vs) = fst ` set s \<union> lower ` set vs"
  unfolding ci_Append_def by (induction vs arbitrary: s) (auto simp: ci_Append1_cases)

lemma ci_inv_dom: "ci_inv lower s \<Longrightarrow> fst ` set s = lower ` snd ` set s"
  by (force simp: ci_inv_def)

lemma fold_ci_Append: "fold (\<lambda>v m. ci_Append lower m [v]) vs s = ci_Append lower s vs"
  by (induction vs arbitrary: s) (auto simp: ci_Append_def)

lemma copy_loop: "map_ok (m @ s) \<Longrightarrow> fold (\<lambda>(k, v) m. AList.update k v m) s m = m @ s"
proof (induction s arbitrary: m)
  case (Cons kv s)
  have "map_of m (fst kv) = None"
    using Cons.prems by (auto simp: map_ok_def map_of_eq_None_iff)
  then show ?case
    using Cons.IH [of "m @ [kv]"] Cons.prems by (auto simp: set_update_new split: prod.splits)
qed simp

lemma ci_map_of: "ci_inv lower s \<Longrightarrow> map_of s k = Some v \<Longrightarrow> lower v = k \<and> v \<in> snd ` set s"
  by (force simp: ci_inv_def dest: map_of_SomeD)

lemmas ci_defs = ci_Remove_def ci_Contains_def ci_Find_def ci_Size_def ci_Items_def ci_Union_def
  ci_Intersection_def ci_Difference_def

lemma ci_copy: "ci_inv lower s \<Longrightarrow> fold (\<lambda>(k, v) m. AList.update k v m) s [] = s"
  by (simp add: copy_loop ci_inv_def)

interpretation ci: go_set "[]" "ci_Append lower" "ci_Remove lower" "ci_Contains lower"
  "ci_Find lower" ci_Size ci_Items "ci_Union lower" "ci_Intersection lower" "ci_Difference lower"
  "ci_inv lower" lower "\<lambda>s. fst ` set s" for lower
proof (unfold_locales, goal_cases)
  case (3 s x)
  then show ?case
    by (auto simp: ci_Remove_def ci_inv_def map_ok_delete dest: delete_set_subset)
next
  case (14 s x)
  then show ?case by (auto simp: ci_defs split: option.splits)
next
  case (15 s x)
  then show ?case by (auto simp: ci_defs split: option.splits dest: ci_map_of)
next
  case (16 s x)
  then show ?case by (auto simp: ci_defs split: option.splits dest: ci_map_of)
next
  case (17 s)
  have eq: "map (lower \<circ> snd) s = map fst s" using 17 by (auto simp: ci_inv_def)
  have "lower ` set (map snd s) = fst ` set s" using eq by (metis image_set list.map_comp)
  moreover have "distinct (map lower (map snd s))"
    using 17 eq unfolding ci_inv_def map_ok_def by (metis list.map_comp)
  ultimately show ?case unfolding ci_Items_def by blast
qed (auto simp: ci_defs Let_def ci_copy ci_inv_Append dom_ci_Append fold_if_filter fold_ci_Append
      map_of_unit_iff dom_delete_unit ci_inv_dom map_of_eq_None_iff)

section \<open>Properties\<close>

text \<open>A case-insensitive set keeps the casing of the first occurrence: what \<open>Find\<close> returns after
  a sequence of appends to the empty set is the first of the appended strings that folds like the
  one looked up, and \<open>Find\<close> fails exactly when there is none.\<close>

theorem ci_Find_New_first:
  "ci_Find lower (ci_New lower vals) x =
     (case find (\<lambda>v. lower v = lower x) vals of None \<Rightarrow> ([], False) | Some v \<Rightarrow> (v, True))"
proof -
  have "map_of (fold (ci_Append1 lower) vals s) (lower x) =
      (case map_of s (lower x) of Some w \<Rightarrow> Some w | None \<Rightarrow> find (\<lambda>v. lower v = lower x) vals)" for s
  proof (induction vals arbitrary: s)
    case (Cons v vs)
    have "map_of (ci_Append1 lower v s) (lower x) =
        (case map_of s (lower x) of Some w \<Rightarrow> Some w | None \<Rightarrow> if lower v = lower x then Some v else None)"
      by (auto simp: ci_Append1_def Let_def update_conv' split: option.splits)
    then show ?case by (auto simp: Cons.IH split: option.splits)
  qed (simp split: option.splits)
  then show ?thesis by (simp add: ci_Find_def ci_New_def ci_Append_def split: option.splits)
qed

text \<open>Intersection and difference of two sets of either kind split the first one: the sizes add up to
  its size.\<close>

theorem set_partition_sizes:
  "(map_ok s \<and> map_ok t \<longrightarrow>
      unsafe_Size (unsafe_Intersection s (unsafe_Contains t)) +
      unsafe_Size (unsafe_Difference s (unsafe_Contains t)) = unsafe_Size s) \<and>
   (ci_inv lower u \<and> ci_inv lower v \<longrightarrow>
      ci_Size (ci_Intersection lower u (ci_Contains lower v)) +
      ci_Size (ci_Difference lower u (ci_Contains lower v)) = ci_Size u)"
  using us.size_partition [of s t] ci.size_partition [of lower u v] by blast

theorem set_partition_sizes_witness:
  "unsafe_Size (unsafe_Intersection (unsafe_New [1, 2, 3 :: nat]) (unsafe_Contains (unsafe_New [2, 5]))) +
   unsafe_Size (unsafe_Difference (unsafe_New [1, 2, 3 :: nat]) (unsafe_Contains (unsafe_New [2, 5]))) = 3 \<and>
   ci_Size (ci_Intersection (\<lambda>s. s) [(''a'', ''a''), (''b'', ''b'')] (ci_Contains (\<lambda>s. s) [(''b'', ''b'')])) +
   ci_Size (ci_Difference (\<lambda>s. s) [(''a'', ''a''), (''b'', ''b'')] (ci_Contains (\<lambda>s. s) [(''b'', ''b'')])) = 2"
proof -
  have "map_ok (unsafe_New [1, 2, 3 :: nat])" "map_ok (unsafe_New [2, 5 :: nat])"
    "unsafe_Size (unsafe_New [1, 2, 3 :: nat]) = 3"
    by code_simp+
  moreover have "ci_inv (\<lambda>s. s) [(''a'', ''a''), (''b'', ''b'')]" "ci_inv (\<lambda>s. s) [(''b'', ''b'')]"
    "ci_Size [(''a'', ''a''), (''b'', ''b'')] = 2"
    by code_simp+
  ultimately show ?thesis
    using set_partition_sizes [of "unsafe_New [1, 2, 3 :: nat]" "unsafe_New [2, 5]" "\<lambda>s. s"
        "[(''a'', ''a''), (''b'', ''b'')]" "[(''b'', ''b'')]"]
    by simp
qed

end
