(* ===== verification/Fanal_Base.thy ===== *)
theory Fanal_Base
  imports Go_Prelude "HOL-Library.Product_Lexorder"
begin

text \<open>
  The package-level data of \<open>pkg/fanal/types\<close>: target types and their aliases (\<open>const.go\<close>),
  operating systems and layers (\<open>artifact.go\<close>), packages, relationships and identifiers
  (\<open>package.go\<close>), with the operations on them: \<open>OS.Merge\<close>, \<open>Packages.Less\<close>,
  \<open>Packages.ParentDeps\<close>, \<open>NewRelationship\<close> and \<open>PkgIdentifier.Match\<close>. It also holds the package
  identifiers of \<open>pkg/dependency/id.go\<close> and the version strings of \<open>pkg/scan/utils\<close>.

  String-typed constants of the source are abbreviations, since a value of such a type may be any
  string. The type of package URLs is that of \<open>packageurl-go\<close>; its parser and printer are
  arguments of the operations that call them.
\<close>

section \<open>Target types (const.go)\<close>

type_synonym OSType = string
type_synonym LangType = string
type_synonym Supplier = string

abbreviation ActiveState :: OSType where "ActiveState \<equiv> ''activestate''"
abbreviation Alma :: OSType where "Alma \<equiv> ''alma''"
abbreviation Alpine :: OSType where "Alpine \<equiv> ''alpine''"
abbreviation Amazon :: OSType where "Amazon \<equiv> ''amazon''"
abbreviation Azure :: OSType where "Azure \<equiv> ''azurelinux''"
abbreviation Bottlerocket :: OSType where "Bottlerocket \<equiv> ''bottlerocket''"
abbreviation CBLMariner :: OSType where "CBLMariner \<equiv> ''cbl-mariner''"
abbreviation CentOS :: OSType where "CentOS \<equiv> ''centos''"
abbreviation CentOSStream :: OSType where "CentOSStream \<equiv> ''centos-stream''"
abbreviation Chainguard :: OSType where "Chainguard \<equiv> ''chainguard''"
abbreviation CoreOS :: OSType where "CoreOS \<equiv> ''coreos''"
abbreviation Debian :: OSType where "Debian \<equiv> ''debian''"
abbreviation Echo :: OSType where "Echo \<equiv> ''echo''"
abbreviation Fedora :: OSType where "Fedora \<equiv> ''fedora''"
abbreviation MinimOS :: OSType where "MinimOS \<equiv> ''minimos''"
abbreviation OpenSUSE :: OSType where "OpenSUSE \<equiv> ''opensuse''"
abbreviation OpenSUSELeap :: OSType where "OpenSUSELeap \<equiv> ''opensuse-leap''"
abbreviation OpenSUSETumbleweed :: OSType where "OpenSUSETumbleweed \<equiv> ''opensuse-tumbleweed''"
abbreviation Oracle :: OSType where "Oracle \<equiv> ''oracle''"
abbreviation Photon :: OSType where "Photon \<equiv> ''photon''"
abbreviation RedHat :: OSType where "RedHat \<equiv> ''redhat''"
abbreviation Rocky :: OSType where "Rocky \<equiv> ''rocky''"
abbreviation SLEMicro :: OSType where "SLEMicro \<equiv> ''slem''"
abbreviation SLES :: OSType where "SLES \<equiv> ''sles''"
abbreviation Ubuntu :: OSType where "Ubuntu \<equiv> ''ubuntu''"
abbreviation Wolfi :: OSType where "Wolfi \<equiv> ''wolfi''"

definition OSTypes :: "OSType list" where
  "OSTypes = [ActiveState, Alma, Alpine, Amazon, Azure, Bottlerocket, CBLMariner, CentOS,
     CentOSStream, Chainguard, CoreOS, Debian, Echo, Fedora, MinimOS, OpenSUSE, OpenSUSELeap,
     OpenSUSETumbleweed, Oracle, Photon, RedHat, Rocky, SLEMicro, SLES, Ubuntu, Wolfi]"

definition HasOSPackages :: "OSType \<Rightarrow> bool" where
  "HasOSPackages o1 = (if o1 = ActiveState then False else True)"

definition PurlNamespace :: "OSType \<Rightarrow> string" where
  "PurlNamespace o1 =
     (if o1 = SLES \<or> o1 = SLEMicro then ''suse''
      else if o1 = OpenSUSETumbleweed \<or> o1 = OpenSUSELeap then ''opensuse''
      else o1)"

definition OSTypeAliases :: "(OSType \<times> OSType) list" where
  "OSTypeAliases =
     [(''opensuse.leap'', OpenSUSELeap),
      (''opensuse.tumbleweed'', OpenSUSETumbleweed),
      (''suse linux enterprise micro'', SLEMicro),
      (''suse linux enterprise server'', SLES),
      (''amazon linux'', Amazon),
      (''debian gnu/linux'', Debian)]"

abbreviation GemSpec :: LangType where "GemSpec \<equiv> ''gemspec''"
abbreviation CondaPkg :: LangType where "CondaPkg \<equiv> ''conda-pkg''"
abbreviation PythonPkg :: LangType where "PythonPkg \<equiv> ''python-pkg''"
abbreviation NodePkg :: LangType where "NodePkg \<equiv> ''node-pkg''"
abbreviation Jar :: LangType where "Jar \<equiv> ''jar''"

definition AggregatingTypes :: "LangType list" where
  "AggregatingTypes = [PythonPkg, CondaPkg, GemSpec, NodePkg, Jar]"

section \<open>Operating systems and layers (artifact.go)\<close>

record OS =
  OS_Family :: OSType
  OS_Name :: string
  OS_Eosl :: bool
  OS_Supplier :: Supplier
  OS_Extended :: bool

definition OS_empty :: OS where
  "OS_empty = \<lparr>OS_Family = [], OS_Name = [], OS_Eosl = False, OS_Supplier = [], OS_Extended = False\<rparr>"

definition OS_String :: "OS \<Rightarrow> string" where
  "OS_String o1 = OS_Family o1 @ (if OS_Name o1 \<noteq> [] then ''/'' @ OS_Name o1 else [])"

definition OS_Detected :: "OS \<Rightarrow> bool" where
  "OS_Detected o1 \<longleftrightarrow> OS_Family o1 \<noteq> []"

definition OS_Normalize :: "OS \<Rightarrow> OS" where
  "OS_Normalize o1 =
     (case map_of OSTypeAliases (OS_Family o1) of Some alias \<Rightarrow> o1\<lparr>OS_Family := alias\<rparr> | None \<Rightarrow> o1)"

text \<open>The \<open>default\<close> branch of the switch in \<open>Merge\<close>.\<close>

definition OS_Merge_default :: "OS \<Rightarrow> OS \<Rightarrow> OS" where
  "OS_Merge_default o1 newOS =
     (let o2 = (if OS_Family o1 = [] then o1\<lparr>OS_Family := OS_Family newOS\<rparr> else o1);
          o3 = (if OS_Name o2 = [] \<or>
                   (OS_Family o2 = OS_Family newOS \<and> hasPrefix (OS_Name newOS) (OS_Name o2 @ ''.''))
                then o2\<lparr>OS_Name := OS_Name newOS\<rparr> else o2)
      in if OS_Extended o3 \<or> OS_Extended newOS then o3\<lparr>OS_Extended := True\<rparr> else o3)"

definition OS_Merge :: "OS \<Rightarrow> OS \<Rightarrow> OS" where
  "OS_Merge o1 newOS =
     (if newOS = OS_empty then o1
      else
        let supplier = OS_Supplier o1;
            o2 = (if (OS_Family o1 = RedHat \<or> OS_Family o1 = Debian) \<and> OS_Family newOS \<noteq> []
                  then newOS else OS_Merge_default o1 newOS);
            o3 = o2\<lparr>OS_Supplier := cmp_or [] [supplier, OS_Supplier newOS]\<rparr>
        in OS_Normalize o3)"

record Repository =
  Repo_Family :: OSType
  Repo_Release :: string

text \<open>Sizes are \<open>int64\<close> and their sum wraps around.\<close>

record Layer =
  Layer_Size :: int
  Layer_Digest :: string
  Layer_DiffID :: string
  Layer_CreatedBy :: string

definition Layer_empty :: Layer where
  "Layer_empty = \<lparr>Layer_Size = 0, Layer_Digest = [], Layer_DiffID = [], Layer_CreatedBy = []\<rparr>"

definition wrap64 :: "int \<Rightarrow> int" where
  "wrap64 i = (i + 2 ^ 63) mod 2 ^ 64 - 2 ^ 63"

definition TotalSize :: "Layer list \<Rightarrow> int" where
  "TotalSize lm = foldl (\<lambda>totalSize layer. wrap64 (totalSize + Layer_Size layer)) 0 lm"

section \<open>Packages (package.go)\<close>

type_synonym Relationship = int

abbreviation (input) RelationshipUnknown :: Relationship where "RelationshipUnknown \<equiv> 0"
abbreviation (input) RelationshipRoot :: Relationship where "RelationshipRoot \<equiv> 1"
abbreviation (input) RelationshipWorkspace :: Relationship where "RelationshipWorkspace \<equiv> 2"
abbreviation (input) RelationshipDirect :: Relationship where "RelationshipDirect \<equiv> 3"
abbreviation (input) RelationshipIndirect :: Relationship where "RelationshipIndirect \<equiv> 4"

definition Relationships :: "Relationship list" where
  "Relationships = [RelationshipUnknown, RelationshipRoot, RelationshipWorkspace, RelationshipDirect,
     RelationshipIndirect]"

definition relationshipNames :: "string list" where
  "relationshipNames = [''unknown'', ''root'', ''workspace'', ''direct'', ''indirect'']"

fun relationship_loop :: "string \<Rightarrow> int \<Rightarrow> string list \<Rightarrow> Relationship option" where
  "relationship_loop s i [] = None"
| "relationship_loop s i (name # names) = (if s = name then Some i else relationship_loop s (i + 1) names)"

definition NewRelationship :: "string \<Rightarrow> Relationship result" where
  "NewRelationship s =
     (case relationship_loop s 0 relationshipNames of
        Some r \<Rightarrow> Inr r
      | None \<Rightarrow> Inl (Errorf ''invalid relationship (%s)'' [s]))"

definition Relationship_String :: "Relationship \<Rightarrow> string" where
  "Relationship_String r =
     (if r \<le> RelationshipUnknown \<or> int (length relationshipNames) \<le> r then ''unknown''
      else relationshipNames ! nat r)"

record PackageURL =
  PURL_Type :: string
  PURL_Namespace :: string
  PURL_Name :: string
  PURL_Version :: string
  PURL_Qualifiers :: "(string \<times> string) list"
  PURL_Subpath :: string

record PkgIdentifier =
  Id_UID :: string
  Id_PURL :: "PackageURL option"
  Id_BOMRef :: string

definition PkgIdentifier_Empty :: "PkgIdentifier \<Rightarrow> bool" where
  "PkgIdentifier_Empty i \<longleftrightarrow> Id_UID i = [] \<and> Id_PURL i = None \<and> Id_BOMRef i = []"

definition PkgIdentifier_Match ::
    "(string \<Rightarrow> PackageURL option) \<Rightarrow> (PackageURL \<Rightarrow> string) \<Rightarrow> PkgIdentifier \<Rightarrow> string \<Rightarrow> bool" where
  "PkgIdentifier_Match purl_FromString purl_String i s =
     (let s' = (if hasPrefix s ''pkg:''
                then (case purl_FromString s of Some p \<Rightarrow> purl_String p | None \<Rightarrow> s) else s)
      in Id_BOMRef i = s' \<or> (case Id_PURL i of Some p \<Rightarrow> purl_String p = s' | None \<Rightarrow> False))"

record Location =
  StartLine :: int
  EndLine :: int

record ExternalRef =
  Ref_Type :: string
  Ref_URL :: string

record BuildInfo =
  ContentSets :: "string list"
  Nvr :: string
  Build_Arch :: string

abbreviation (input) RepositoryClassUnknown :: string where "RepositoryClassUnknown \<equiv> ''''"
abbreviation RepositoryClassOfficial :: string where "RepositoryClassOfficial \<equiv> ''official''"
abbreviation RepositoryClassThirdParty :: string where "RepositoryClassThirdParty \<equiv> ''third-party''"

text \<open>The nested struct \<open>PackageRepository\<close> has one field, its class.\<close>

record Package =
  Pkg_ID :: string
  Pkg_Name :: string
  Pkg_Identifier :: PkgIdentifier
  Pkg_Version :: string
  Pkg_Release :: string
  Pkg_Epoch :: int
  Pkg_Arch :: string
  Pkg_Dev :: bool
  Pkg_SrcName :: string
  Pkg_SrcVersion :: string
  Pkg_SrcRelease :: string
  Pkg_SrcEpoch :: int
  Pkg_Licenses :: "string list"
  Pkg_Maintainer :: string
  Pkg_ExternalReferences :: "ExternalRef list"
  Pkg_Modularitylabel :: string
  Pkg_BuildInfo :: "BuildInfo option"
  Pkg_RepositoryClass :: string
  Pkg_Indirect :: bool
  Pkg_Relationship :: Relationship
  Pkg_DependsOn :: "string list"
  Pkg_Layer :: Layer
  Pkg_FilePath :: string
  Pkg_Digest :: string
  Pkg_Locations :: "Location list"
  Pkg_InstalledFiles :: "string list"
  Pkg_AnalyzedBy :: string

definition PkgIdentifier_empty :: PkgIdentifier where
  "PkgIdentifier_empty = \<lparr>Id_UID = [], Id_PURL = None, Id_BOMRef = []\<rparr>"

definition Package_empty :: Package where
  "Package_empty = \<lparr>Pkg_ID = [], Pkg_Name = [], Pkg_Identifier = PkgIdentifier_empty,
     Pkg_Version = [], Pkg_Release = [], Pkg_Epoch = 0, Pkg_Arch = [], Pkg_Dev = False,
     Pkg_SrcName = [], Pkg_SrcVersion = [], Pkg_SrcRelease = [], Pkg_SrcEpoch = 0,
     Pkg_Licenses = [], Pkg_Maintainer = [], Pkg_ExternalReferences = [], Pkg_Modularitylabel = [],
     Pkg_BuildInfo = None, Pkg_RepositoryClass = RepositoryClassUnknown, Pkg_Indirect = False,
     Pkg_Relationship = RelationshipUnknown, Pkg_DependsOn = [], Pkg_Layer = Layer_empty,
     Pkg_FilePath = [], Pkg_Digest = [], Pkg_Locations = [], Pkg_InstalledFiles = [],
     Pkg_AnalyzedBy = []\<rparr>"

definition Package_Empty :: "Package \<Rightarrow> bool" where
  "Package_Empty pkg \<longleftrightarrow> Pkg_Name pkg = [] \<or> Pkg_Version pkg = []"

definition Packages_Less :: "Package \<Rightarrow> Package \<Rightarrow> bool" where
  "Packages_Less p q =
     (if Pkg_Relationship p \<noteq> Pkg_Relationship q then
        (if Pkg_Relationship p = RelationshipUnknown then False
         else if Pkg_Relationship q = RelationshipUnknown then True
         else Pkg_Relationship p < Pkg_Relationship q)
      else if Pkg_Name p \<noteq> Pkg_Name q then Pkg_Name p < Pkg_Name q
      else if Pkg_Version p \<noteq> Pkg_Version q then Pkg_Version p < Pkg_Version q
      else if Pkg_ID p \<noteq> Pkg_ID q then Pkg_ID p < Pkg_ID q
      else Pkg_FilePath p < Pkg_FilePath q)"

text \<open>\<open>ParentDeps\<close>: the loop over the packages, then the removal of duplicates per key.\<close>

definition parent_add :: "Package \<Rightarrow> string \<Rightarrow> (string \<times> Package list) list \<Rightarrow> (string \<times> Package list) list" where
  "parent_add pkg dependOn parents =
     AList.update dependOn
       ((case map_of parents dependOn of Some ps \<Rightarrow> ps | None \<Rightarrow> []) @ [pkg]) parents"

definition ParentDeps :: "Package list \<Rightarrow> (string \<times> Package list) list" where
  "ParentDeps pkgs =
     (let parents = fold (\<lambda>pkg m. fold (parent_add pkg) (Pkg_DependsOn pkg) m) pkgs []
      in map (\<lambda>(k, v). (k, uniqBy Pkg_ID v)) parents)"

section \<open>Identifiers and version strings (pkg/dependency/id.go, pkg/scan/utils/utils.go)\<close>

definition dependency_ID :: "LangType \<Rightarrow> string \<Rightarrow> string \<Rightarrow> string" where
  "dependency_ID ltype name version =
     (if version = [] then name
      else if ltype = ''conan'' \<or> ltype = ''dotnet-core'' then name @ ''/'' @ version
      else if ltype = ''gomod'' \<or> ltype = ''gobinary'' then
        name @ ''@'' @ (if \<not> hasPrefix version ''v'' then ''v'' @ version else version)
      else if ltype = Jar \<or> ltype = ''pom'' \<or> ltype = ''gradle'' \<or> ltype = ''sbt'' then
        name @ '':'' @ version
      else name @ ''@'' @ version)"

text \<open>
  \<open>UID\<close>: the identifier the package already has, or the hash of the file path and the package,
  printed in hexadecimal. The hash of \<open>hashstructure\<close> and its printing are one argument.
\<close>

definition dependency_UID :: "(string \<Rightarrow> Package \<Rightarrow> string) \<Rightarrow> string \<Rightarrow> Package \<Rightarrow> string" where
  "dependency_UID hash filePath pkg =
     (if Id_UID (Pkg_Identifier pkg) \<noteq> [] then Id_UID (Pkg_Identifier pkg) else hash filePath pkg)"

definition formatVersion :: "int \<Rightarrow> string \<Rightarrow> string \<Rightarrow> string" where
  "formatVersion epoch version release =
     (let v = version;
          v2 = (if release \<noteq> [] then v @ ''-'' @ release else v)
      in if epoch \<noteq> 0 then itoa epoch @ '':'' @ v2 else v2)"

definition FormatVersion :: "Package \<Rightarrow> string" where
  "FormatVersion pkg = formatVersion (Pkg_Epoch pkg) (Pkg_Version pkg) (Pkg_Release pkg)"

definition FormatSrcVersion :: "Package \<Rightarrow> string" where
  "FormatSrcVersion pkg = formatVersion (Pkg_SrcEpoch pkg) (Pkg_SrcVersion pkg) (Pkg_SrcRelease pkg)"

section \<open>Merging the operating systems of the layers\<close>

definition alias_of :: "OSType \<Rightarrow> OSType" where
  "alias_of f = (case map_of OSTypeAliases f of Some alias \<Rightarrow> alias | None \<Rightarrow> f)"

text \<open>The family that a sequence of detected families resolves to.\<close>

definition resolve_family :: "OSType list \<Rightarrow> OSType" where
  "resolve_family fs =
     (case find (\<lambda>f. f \<noteq> RedHat \<and> f \<noteq> Debian) fs of
        Some f \<Rightarrow> f
      | None \<Rightarrow> (if fs = [] then [] else last fs))"

lemma alias_of_Nil [simp]: "alias_of [] = []"
  by (simp add: alias_of_def OSTypeAliases_def)

lemma alias_of_eq_Nil [simp]: "alias_of f = [] \<longleftrightarrow> f = []"
  by (auto simp: alias_of_def OSTypeAliases_def split: if_splits option.splits)

lemma alias_of_idem [simp]: "alias_of (alias_of f) = alias_of f"
  by (auto simp: alias_of_def OSTypeAliases_def split: if_splits)

lemma alias_of_fixed [simp]: "alias_of RedHat = RedHat" "alias_of Debian = Debian"
  by (simp_all add: alias_of_def OSTypeAliases_def)

lemma OS_Normalize_simps [simp]:
  "OS_Family (OS_Normalize o1) = alias_of (OS_Family o1)"
  "OS_Supplier (OS_Normalize o1) = OS_Supplier o1"
  "OS_Name (OS_Normalize o1) = OS_Name o1"
  "OS_Extended (OS_Normalize o1) = OS_Extended o1"
  by (simp_all add: OS_Normalize_def alias_of_def split: option.splits)

lemma OS_empty_simps [simp]:
  "OS_Family OS_empty = []" "OS_Name OS_empty = []" "OS_Supplier OS_empty = []"
  "OS_Extended OS_empty = False"
  by (simp_all add: OS_empty_def)

lemma OS_Merge_default_simps [simp]:
  "OS_Family (OS_Merge_default o1 n) = (if OS_Family o1 = [] then OS_Family n else OS_Family o1)"
  "OS_Supplier (OS_Merge_default o1 n) = OS_Supplier o1"
  "OS_Extended (OS_Merge_default o1 n) = (OS_Extended o1 \<or> OS_Extended n)"
  by (simp_all add: OS_Merge_default_def Let_def)

lemma OS_Merge_family:
  assumes "alias_of (OS_Family o1) = OS_Family o1"
  shows "OS_Family (OS_Merge o1 n) =
    (if OS_Family n = [] then OS_Family o1
     else if OS_Family o1 = [] \<or> OS_Family o1 = RedHat \<or> OS_Family o1 = Debian then alias_of (OS_Family n)
     else OS_Family o1)"
  using assms by (auto simp: OS_Merge_def Let_def)

lemma OS_Merge_supplier: "OS_Supplier (OS_Merge o1 n) = cmp_or [] [OS_Supplier o1, OS_Supplier n]"
  by (auto simp: OS_Merge_def Let_def)

lemma resolve_family_snoc:
  "resolve_family (fs @ [f]) =
     (if fs = [] \<or> resolve_family fs = RedHat \<or> resolve_family fs = Debian then f else resolve_family fs)"
proof (cases "find (\<lambda>f. f \<noteq> RedHat \<and> f \<noteq> Debian) fs")
  case None
  then have "\<forall>x \<in> set fs. x = RedHat \<or> x = Debian" by (auto simp: find_None_iff)
  then have "fs \<noteq> [] \<Longrightarrow> last fs = RedHat \<or> last fs = Debian" by (metis last_in_set)
  moreover have "find (\<lambda>f. f \<noteq> RedHat \<and> f \<noteq> Debian) (fs @ [f]) =
      (if f \<noteq> RedHat \<and> f \<noteq> Debian then Some f else None)"
    using None by (induction fs) (auto split: if_splits)
  ultimately show ?thesis using None by (auto simp: resolve_family_def)
next
  case (Some x)
  then have "find (\<lambda>f. f \<noteq> RedHat \<and> f \<noteq> Debian) (fs @ [f]) = Some x"
    by (induction fs) (auto split: if_splits)
  moreover have "x \<noteq> RedHat \<and> x \<noteq> Debian" using Some by (auto simp: find_Some_iff)
  ultimately show ?thesis using Some by (auto simp: resolve_family_def)
qed

lemma resolve_family_in: "fs \<noteq> [] \<Longrightarrow> resolve_family fs \<in> set fs"
  by (auto simp: resolve_family_def find_Some_iff split: option.splits)

lemma resolve_family_Nil [simp]: "resolve_family [] = []"
  by (simp add: resolve_family_def)

lemma resolve_family_eq_Nil: "[] \<notin> set fs \<Longrightarrow> resolve_family fs = [] \<longleftrightarrow> fs = []"
  using resolve_family_in [of fs] by (cases fs) auto

text \<open>Applying the layers of an image in order, the OS family of the result is the first one
  that is neither RedHat nor Debian (these two are corrected by a later layer), and the last family
  reported when there is no other; old names are replaced by their aliases, and layers without a
  family do not take part.\<close>

theorem os_merge_family:
  "OS_Family (foldl OS_Merge OS_empty layers) =
     resolve_family (filter (\<lambda>f. f \<noteq> []) (map (\<lambda>l. alias_of (OS_Family l)) layers))"
proof (induction layers rule: rev_induct)
  case Nil
  show ?case by (simp add: resolve_family_def)
next
  case (snoc n layers)
  let ?o = "foldl OS_Merge OS_empty layers"
  let ?fs = "filter (\<lambda>f. f \<noteq> []) (map (\<lambda>l. alias_of (OS_Family l)) layers)"
  have "alias_of (OS_Family ?o) = OS_Family ?o"
    by (induction layers rule: rev_induct) (auto simp: OS_Merge_family)
  moreover have "resolve_family ?fs = [] \<longleftrightarrow> ?fs = []" by (rule resolve_family_eq_Nil) simp
  moreover have "filter (\<lambda>f. f \<noteq> []) (map (\<lambda>l. alias_of (OS_Family l)) (layers @ [n])) =
      (if OS_Family n = [] then ?fs else ?fs @ [alias_of (OS_Family n)])" by simp
  ultimately show ?case
    using snoc by (simp only: foldl_append foldl_Cons foldl_Nil OS_Merge_family) (auto simp: resolve_family_snoc)
qed

text \<open>The supplier of the merged OS is the first supplier any layer names, whatever corrections
  of the family happen in between.\<close>

theorem os_merge_supplier:
  "OS_Supplier (foldl OS_Merge o1 layers) = cmp_or [] (OS_Supplier o1 # map OS_Supplier layers)"
  by (induction layers arbitrary: o1) (auto simp: OS_Merge_supplier)

section \<open>The order of packages\<close>

definition package_key :: "Package \<Rightarrow> (bool \<times> int) \<times> string \<times> string \<times> string \<times> string" where
  "package_key p = ((Pkg_Relationship p = RelationshipUnknown, Pkg_Relationship p), Pkg_Name p,
     Pkg_Version p, Pkg_ID p, Pkg_FilePath p)"

lemma Packages_Less_key: "Packages_Less p q \<longleftrightarrow> package_key p < package_key q"
  by (auto simp: Packages_Less_def package_key_def less_prod_def')

lemmas Packages_strict_weak = strict_weak_key [of Packages_Less package_key, OF Packages_Less_key]
lemmas Packages_cmp_le = less_cmp_le_key [of Packages_Less package_key, OF Packages_Less_key]

section \<open>Relationships\<close>

text \<open>Printing and parsing relationships: the five declared values survive the round trip, every
  other integer prints as the unknown relationship, and a string that is not one of the names is
  rejected.\<close>

theorem relationship_roundtrip:
  "NewRelationship (Relationship_String r) = Inr (if r \<in> set Relationships then r else RelationshipUnknown)
   \<and> ((\<exists>r. NewRelationship s = Inr r \<and> Relationship_String r = s) \<or>
      (NewRelationship s = Inl (Errorf ''invalid relationship (%s)'' [s]) \<and> s \<notin> set relationshipNames))"
proof -
  have "NewRelationship (Relationship_String r) =
      Inr (if r \<in> set Relationships then r else RelationshipUnknown)"
  proof (cases "r \<le> 0 \<or> 5 \<le> r")
    case True
    then show ?thesis
      by (auto simp: NewRelationship_def Relationship_String_def relationshipNames_def Relationships_def)
  next
    case False
    then consider "r = 1" | "r = 2" | "r = 3" | "r = 4" by linarith
    then show ?thesis
      by cases (simp_all add: NewRelationship_def Relationship_String_def relationshipNames_def Relationships_def)
  qed
  moreover have "s \<in> set relationshipNames \<Longrightarrow> \<exists>r. NewRelationship s = Inr r \<and> Relationship_String r = s"
    by (auto simp: NewRelationship_def Relationship_String_def relationshipNames_def)
  moreover have "s \<notin> set relationshipNames \<Longrightarrow>
      NewRelationship s = Inl (Errorf ''invalid relationship (%s)'' [s])"
    by (simp add: NewRelationship_def relationshipNames_def)
  ultimately show ?thesis by blast
qed

section \<open>Parent dependencies\<close>

lemma uniqBy_seen_replicate:
  "f x \<in> set seen \<Longrightarrow> uniqBy_seen seen f (replicate n x @ xs) = uniqBy_seen seen f xs"
  by (induction n) auto

lemma uniqBy_seen_dups:
  "uniqBy_seen seen f (concat (map (\<lambda>x. replicate (n x) x) xs)) =
   uniqBy_seen seen f (filter (\<lambda>x. n x \<noteq> 0) xs)"
proof (induction xs arbitrary: seen)
  case (Cons x xs)
  show ?case
  proof (cases "n x")
    case (Suc m)
    then show ?thesis using Cons.IH by (simp add: uniqBy_seen_replicate)
  qed (simp add: Cons.IH)
qed simp

definition lookup_list :: "('k \<times> 'v list) list \<Rightarrow> 'k \<Rightarrow> 'v list" where
  "lookup_list m k = (case map_of m k of Some vs \<Rightarrow> vs | None \<Rightarrow> [])"

lemma lookup_parent_add:
  "lookup_list (parent_add pkg d m) k = lookup_list m k @ (if k = d then [pkg] else [])"
  by (simp add: parent_add_def lookup_list_def update_conv' split: option.splits)

lemma lookup_parent_fold:
  "lookup_list (fold (parent_add pkg) ds m) k = lookup_list m k @ replicate (count_list ds k) pkg"
  by (induction ds arbitrary: m) (auto simp: lookup_parent_add replicate_append_same)

lemma dom_parent_fold:
  "map_of (fold (parent_add pkg) ds m) k = None \<longleftrightarrow> map_of m k = None \<and> k \<notin> set ds"
  by (induction ds arbitrary: m) (auto simp: parent_add_def update_conv' split: if_splits)

lemma lookup_parents:
  "lookup_list (fold (\<lambda>pkg m. fold (parent_add pkg) (Pkg_DependsOn pkg) m) pkgs m) k =
   lookup_list m k @ concat (map (\<lambda>p. replicate (count_list (Pkg_DependsOn p) k) p) pkgs)"
  by (induction pkgs arbitrary: m) (auto simp: lookup_parent_fold)

lemma dom_parents:
  "map_of (fold (\<lambda>pkg m. fold (parent_add pkg) (Pkg_DependsOn pkg) m) pkgs m) k = None \<longleftrightarrow>
   map_of m k = None \<and> (\<forall>p \<in> set pkgs. k \<notin> set (Pkg_DependsOn p))"
  by (induction pkgs arbitrary: m) (auto simp: dom_parent_fold)

lemma map_of_map_snd: "map_of (map (\<lambda>(k, v). (k, f v)) m) k = map_option f (map_of m k)"
  by (induction m) auto

text \<open>\<open>ParentDeps\<close> maps exactly the identifiers some package depends on, each to the packages that
  list it as a dependency, in their order and without repeated package identifiers.\<close>

theorem ParentDeps_correct:
  "map_of (ParentDeps pkgs) d =
     (let ps = filter (\<lambda>p. d \<in> set (Pkg_DependsOn p)) pkgs
      in if ps = [] then None else Some (uniqBy Pkg_ID ps))"
proof -
  let ?m = "fold (\<lambda>pkg m. fold (parent_add pkg) (Pkg_DependsOn pkg) m) pkgs []"
  have look: "lookup_list ?m d = concat (map (\<lambda>p. replicate (count_list (Pkg_DependsOn p) d) p) pkgs)"
    by (simp add: lookup_parents) (simp add: lookup_list_def)
  have "uniqBy Pkg_ID (lookup_list ?m d) = uniqBy Pkg_ID (filter (\<lambda>p. d \<in> set (Pkg_DependsOn p)) pkgs)"
    by (simp add: look uniqBy_def uniqBy_seen_dups count_list_0_iff)
  moreover have "map_of ?m d = None \<longleftrightarrow> filter (\<lambda>p. d \<in> set (Pkg_DependsOn p)) pkgs = []"
    by (simp add: dom_parents filter_empty_conv)
  ultimately show ?thesis
    by (cases "map_of ?m d") (auto simp: ParentDeps_def Let_def map_of_map_snd lookup_list_def)
qed

section \<open>Layer sizes\<close>

lemma wrap64_add: "wrap64 (wrap64 a + b) = wrap64 (a + b)"
proof -
  have "wrap64 a + b + 2 ^ 63 = (a + 2 ^ 63) mod 2 ^ 64 + b" by (simp add: wrap64_def)
  then have "(wrap64 a + b + 2 ^ 63) mod 2 ^ 64 = (a + 2 ^ 63 + b) mod 2 ^ 64"
    by (simp only: mod_add_left_eq)
  then show ?thesis by (simp add: wrap64_def algebra_simps)
qed

lemma TotalSize_sum: "TotalSize lm = wrap64 (sum_list (map Layer_Size lm))"
proof -
  have "foldl (\<lambda>t l. wrap64 (t + Layer_Size l)) (wrap64 a) lm = wrap64 (a + sum_list (map Layer_Size lm))" for a
    by (induction lm arbitrary: a) (simp_all add: wrap64_add add.assoc)
  from this [of 0] show ?thesis by (simp add: TotalSize_def wrap64_def)
qed

lemma wrap64_id: "- (2 ^ 63) \<le> i \<Longrightarrow> i < 2 ^ 63 \<Longrightarrow> wrap64 i = i"
  by (simp add: wrap64_def)

end
