(* ===== verification/Vuln_Types.thy ===== *)
theory Vuln_Types
  imports Fanal_Base
begin

text \<open>
  Detected vulnerabilities, \<open>pkg/types/vulnerability.go\<close>, with the types of \<open>trivy-db\<close> they are
  made of. Of those types the records hold the fields that the modelled code reads or writes; the
  free-form \<open>Custom\<close> data is carried as a string nobody looks into, nil as the empty one.
\<close>

type_synonym Severity = int
type_synonym Status = int
type_synonym SourceID = string

abbreviation (input) SeverityUnknown :: Severity where "SeverityUnknown \<equiv> 0"

record DataSource =
  DS_ID :: SourceID
  DS_BaseID :: SourceID
  DS_Name :: string
  DS_URL :: string

record CVSS =
  CVSS_V2Vector :: string
  CVSS_V3Vector :: string
  CVSS_V40Vector :: string
  CVSS_V2Score :: float64
  CVSS_V3Score :: float64
  CVSS_V40Score :: float64

record db_Vulnerability =
  V_Title :: string
  V_Description :: string
  V_Severity :: string
  V_CweIDs :: "string list"
  V_VendorSeverity :: "(SourceID \<times> Severity) list"
  V_CVSS :: "(SourceID \<times> CVSS) list"
  V_References :: "string list"
  V_PublishedDate :: "go_time option"
  V_LastModifiedDate :: "go_time option"
  V_Custom :: string

definition db_Vulnerability_empty :: db_Vulnerability where
  "db_Vulnerability_empty = \<lparr>V_Title = [], V_Description = [], V_Severity = [], V_CweIDs = [],
     V_VendorSeverity = [], V_CVSS = [], V_References = [], V_PublishedDate = None,
     V_LastModifiedDate = None, V_Custom = []\<rparr>"

record DetectedVulnerability =
  DV_VulnerabilityID :: string
  DV_VendorIDs :: "string list"
  DV_PkgID :: string
  DV_PkgName :: string
  DV_PkgPath :: string
  DV_PkgIdentifier :: PkgIdentifier
  DV_InstalledVersion :: string
  DV_FixedVersion :: string
  DV_Status :: Status
  DV_Layer :: Layer
  DV_SeveritySource :: SourceID
  DV_PrimaryURL :: string
  DV_DataSource :: "DataSource option"
  DV_Fingerprint :: string
  DV_Custom :: string
  DV_Vulnerability :: db_Vulnerability

definition DV_empty :: DetectedVulnerability where
  "DV_empty = \<lparr>DV_VulnerabilityID = [], DV_VendorIDs = [], DV_PkgID = [], DV_PkgName = [], DV_PkgPath = [],
     DV_PkgIdentifier = PkgIdentifier_empty, DV_InstalledVersion = [], DV_FixedVersion = [], DV_Status = 0,
     DV_Layer = Layer_empty, DV_SeveritySource = [], DV_PrimaryURL = [], DV_DataSource = None,
     DV_Fingerprint = [], DV_Custom = [], DV_Vulnerability = db_Vulnerability_empty\<rparr>"

text \<open>The embedded struct's severity.\<close>

definition DV_Severity :: "DetectedVulnerability \<Rightarrow> string" where
  "DV_Severity v = V_Severity (DV_Vulnerability v)"

text \<open>
  \<open>BySeverity.Less\<close>; \<open>cmpSev\<close> is \<open>CompareSeverityString\<close> of \<open>trivy-db\<close>.
\<close>

definition BySeverity_Less :: "(string \<Rightarrow> string \<Rightarrow> int) \<Rightarrow> DetectedVulnerability \<Rightarrow> DetectedVulnerability \<Rightarrow> bool" where
  "BySeverity_Less cmpSev v w =
     (if DV_PkgName v \<noteq> DV_PkgName w then DV_PkgName v < DV_PkgName w
      else if DV_PkgID v \<noteq> DV_PkgID w then DV_PkgID v < DV_PkgID w
      else if DV_InstalledVersion v \<noteq> DV_InstalledVersion w then DV_InstalledVersion v < DV_InstalledVersion w
      else
        let ret = cmpSev (DV_Severity w) (DV_Severity v)
        in if ret \<noteq> 0 then ret > 0
           else if DV_VulnerabilityID v \<noteq> DV_VulnerabilityID w then DV_VulnerabilityID v < DV_VulnerabilityID w
           else DV_PkgPath v < DV_PkgPath w)"

text \<open>
  What the sort relies on of \<open>CompareSeverityString\<close>: it returns the difference of the ranks of its
  two severities, the second minus the first.
\<close>

definition ranks_severities :: "(string \<Rightarrow> int) \<Rightarrow> (string \<Rightarrow> string \<Rightarrow> int) \<Rightarrow> bool" where
  "ranks_severities rank cmpSev \<longleftrightarrow> (\<forall>a b. cmpSev a b = rank b - rank a)"

definition severity_key ::
    "(string \<Rightarrow> int) \<Rightarrow> DetectedVulnerability \<Rightarrow> string \<times> string \<times> string \<times> int \<times> string \<times> string" where
  "severity_key rank v = (DV_PkgName v, DV_PkgID v, DV_InstalledVersion v, - rank (DV_Severity v),
     DV_VulnerabilityID v, DV_PkgPath v)"

lemma BySeverity_key:
  "ranks_severities rank cmpSev \<Longrightarrow> BySeverity_Less cmpSev v w \<longleftrightarrow> severity_key rank v < severity_key rank w"
  by (auto simp: BySeverity_Less_def severity_key_def ranks_severities_def less_prod_def' Let_def)

text \<open>Sorting by \<open>BySeverity\<close> sorts by package, then by descending severity, then by identifier.\<close>

lemma BySeverity_sorted:
  assumes "ranks_severities rank cmpSev" "sorter (less_cmp (BySeverity_Less cmpSev)) sort_func"
  shows "sorted (map (severity_key rank) (sort_func vs))"
  using sorter.sort_sorted [OF assms(2) strict_weak_key [OF BySeverity_key [OF assms(1)]], of vs]
  by (simp add: sorted_wrt_map less_cmp_le_key [OF BySeverity_key [OF assms(1)]])

end
