(* ===== verification/Ospkg_Version.thy ===== *)
theory Ospkg_Version
  imports Fanal_Base
begin

text \<open>
  Versions of operating systems and of their packages, \<open>pkg/detector/ospkg/version\<close>: major and
  minor versions and the end-of-life check (\<open>version.go\<close>), the three comparers (\<open>compare.go\<close>) and
  version constraints (\<open>constraint.go\<close>).

  The version libraries \<open>go-deb-version\<close>, \<open>go-apk-version\<close> and \<open>go-rpm-version\<close> are arguments: a
  parser of versions and a three-way comparison. White space is that of ASCII.
\<close>

section \<open>Versions of operating systems (version.go)\<close>

definition Major :: "string \<Rightarrow> string" where
  "Major osVer = fst (cut osVer CHR ''.'')"

definition Minor :: "string \<Rightarrow> string" where
  "Minor osVer =
     (let (major, s, ok) = cut osVer CHR ''.''
      in if \<not> ok then osVer
         else let (minor, _, _) = cut s CHR ''.'' in major @ ''.'' @ minor)"

text \<open>The clock of the context is the argument \<open>now\<close>.\<close>

definition Supported :: "go_time \<Rightarrow> (string \<times> go_time) list \<Rightarrow> OSType \<Rightarrow> string \<Rightarrow> bool" where
  "Supported now eolDates osFamily osVer =
     (case map_of eolDates osVer of
        None \<Rightarrow> True
      | Some eol \<Rightarrow> time_Before now eol)"

section \<open>White space (package strings)\<close>

text \<open>\<open>strings.Fields\<close>: the maximal runs of characters that are not white space.\<close>

function strFields :: "string \<Rightarrow> string list" where
  "strFields s =
     (case dropWhile is_space s of
        [] \<Rightarrow> []
      | c # cs \<Rightarrow> takeWhile (\<lambda>x. \<not> is_space x) (c # cs) # strFields (dropWhile (\<lambda>x. \<not> is_space x) (c # cs)))"
  by pat_completeness auto

termination
proof (relation "measure length")
  fix s c cs
  assume eq: "dropWhile is_space s = c # cs"
  then have "\<not> is_space c" by (metis hd_dropWhile list.distinct(1) list.sel(1))
  then have "length (dropWhile (\<lambda>x. \<not> is_space x) (c # cs)) \<le> length cs"
    by (simp add: length_dropWhile_le)
  also have "\<dots> < length s"
    using length_dropWhile_le [of is_space s] eq by simp
  finally show "(dropWhile (\<lambda>x. \<not> is_space x) (c # cs), s) \<in> measure length" by simp
qed simp

declare strFields.simps [simp del]

section \<open>Comparers (compare.go)\<close>

type_synonym Comparer = "string \<Rightarrow> string \<Rightarrow> int result"

definition DEBComparer_Compare :: "(string \<Rightarrow> 'v result) \<Rightarrow> ('v \<Rightarrow> 'v \<Rightarrow> int) \<Rightarrow> Comparer" where
  "DEBComparer_Compare newVersion ver_Compare version1 version2 =
     bind_result (newVersion version1) (\<lambda>v1.
     bind_result (newVersion version2) (\<lambda>v2.
     Inr (ver_Compare v1 v2)))"

definition APKComparer_Compare :: "(string \<Rightarrow> 'v result) \<Rightarrow> ('v \<Rightarrow> 'v \<Rightarrow> int) \<Rightarrow> Comparer" where
  "APKComparer_Compare newVersion ver_Compare version1 version2 =
     bind_result (wrap_err ''failed to parse apk %q version: %w'' [version1] (newVersion version1)) (\<lambda>v1.
     bind_result (wrap_err ''failed to parse apk %q version: %w'' [version2] (newVersion version2)) (\<lambda>v2.
     Inr (ver_Compare v1 v2)))"

definition RPMComparer_Compare :: "(string \<Rightarrow> 'v) \<Rightarrow> ('v \<Rightarrow> 'v \<Rightarrow> int) \<Rightarrow> Comparer" where
  "RPMComparer_Compare newVersion ver_Compare version1 version2 =
     Inr (ver_Compare (newVersion version1) (newVersion version2))"

section \<open>Constraints (constraint.go)\<close>

type_synonym operatorFunc = "string \<Rightarrow> string \<Rightarrow> Comparer \<Rightarrow> bool result"

definition constraintEqual :: operatorFunc where
  "constraintEqual v c comparer = bind_result (comparer v c) (\<lambda>r. Inr (r = 0))"

definition constraintNotEqual :: operatorFunc where
  "constraintNotEqual v c comparer = bind_result (comparer v c) (\<lambda>r. Inr (r \<noteq> 0))"

definition constraintGreaterThan :: operatorFunc where
  "constraintGreaterThan v c comparer = bind_result (comparer v c) (\<lambda>r. Inr (r > 0))"

definition constraintLessThan :: operatorFunc where
  "constraintLessThan v c comparer = bind_result (comparer v c) (\<lambda>r. Inr (r < 0))"

definition constraintGreaterThanEqual :: operatorFunc where
  "constraintGreaterThanEqual v c comparer = bind_result (comparer v c) (\<lambda>r. Inr (r \<ge> 0))"

definition constraintLessThanEqual :: operatorFunc where
  "constraintLessThanEqual v c comparer = bind_result (comparer v c) (\<lambda>r. Inr (r \<le> 0))"

definition constraintOperators :: "(string \<times> operatorFunc) list" where
  "constraintOperators =
     [([], constraintEqual),
      (''='', constraintEqual),
      (''=='', constraintEqual),
      (''!='', constraintNotEqual),
      (''>'', constraintGreaterThan),
      (''<'', constraintLessThan),
      (''>='', constraintGreaterThanEqual),
      (''<='', constraintLessThanEqual)]"

text \<open>
  The regular expression \<open>^(>=|<=|>|<|==|!=|=)?\s*([0-9]+[0-9a-zA-Z.\-+~:_^]*)$\<close>: the first
  alternative that is a prefix is the operator (no other choice can match, since the version starts
  with a digit), then white space, then a version of the given characters. The class \<open>\s\<close> does
  not contain the vertical tab.
\<close>

definition is_regex_space :: "char \<Rightarrow> bool" where
  "is_regex_space c \<longleftrightarrow> (of_char c :: nat) \<in> {9, 10, 12, 13, 32}"

definition is_letter :: "char \<Rightarrow> bool" where
  "is_letter c \<longleftrightarrow> (CHR ''a'' \<le> c \<and> c \<le> CHR ''z'') \<or> (CHR ''A'' \<le> c \<and> c \<le> CHR ''Z'')"

definition version_char :: "char \<Rightarrow> bool" where
  "version_char c \<longleftrightarrow> is_digit c \<or> is_letter c \<or> c \<in> set ''.-+~:_^''"

definition is_version :: "string \<Rightarrow> bool" where
  "is_version v \<longleftrightarrow> v \<noteq> [] \<and> is_digit (hd v) \<and> list_all version_char v"

definition constraintRegex :: "string \<Rightarrow> (string \<times> string) option" where
  "constraintRegex s =
     (let op = (case find (\<lambda>o1. hasPrefix s o1) [''>='', ''<='', ''>'', ''<'', ''=='', ''!='', ''=''] of
                  Some o1 \<Rightarrow> o1 | None \<Rightarrow> []);
          v = dropWhile is_regex_space (drop (length op) s)
      in if is_version v then Some (op, v) else None)"

record constraint =
  constraint_version :: string
  constraint_operator :: operatorFunc
  constraint_original :: string

record Constraints =
  constraints_list :: "constraint list"
  constraints_comparer :: Comparer

definition newConstraint :: "string \<Rightarrow> constraint result" where
  "newConstraint str =
     (let constraintStr = trimSpace str
      in case constraintRegex constraintStr of
           None \<Rightarrow> Inl (Errorf ''invalid constraint format: %s'' [constraintStr])
         | Some (op, matched) \<Rightarrow>
             let version = trimSpace matched
             in case map_of constraintOperators op of
                  None \<Rightarrow> Inl (Errorf ''unsupported operator: %s'' [op])
                | Some operator \<Rightarrow>
                    Inr \<lparr>constraint_version = version, constraint_operator = operator,
                         constraint_original = constraintStr\<rparr>)"

definition splitConstraints :: "string \<Rightarrow> string list" where
  "splitConstraints constraints =
     (if containsStr constraints '','' then split CHR '','' constraints else strFields constraints)"

fun newConstraints_loop :: "string list \<Rightarrow> constraint list result" where
  "newConstraints_loop [] = Inr []"
| "newConstraints_loop (s # ss) =
     (let constraintStr = trimSpace s
      in if constraintStr = [] then newConstraints_loop ss
         else bind_result (wrap_err ''invalid constraint '%s': %w'' [constraintStr] (newConstraint constraintStr)) (\<lambda>c.
              bind_result (newConstraints_loop ss) (\<lambda>cs. Inr (c # cs))))"

definition NewConstraints :: "string \<Rightarrow> Comparer \<Rightarrow> Constraints result" where
  "NewConstraints constraints comparer =
     (if constraints = [] then Inl (Errorf ''constraints string is empty'' [])
      else bind_result (newConstraints_loop (splitConstraints constraints)) (\<lambda>cs.
           Inr \<lparr>constraints_list = cs, constraints_comparer = comparer\<rparr>))"

definition constraint_check :: "constraint \<Rightarrow> string \<Rightarrow> Comparer \<Rightarrow> bool result" where
  "constraint_check c version comparer = constraint_operator c version (constraint_version c) comparer"

fun check_loop :: "constraint list \<Rightarrow> string \<Rightarrow> Comparer \<Rightarrow> bool result" where
  "check_loop [] version comparer = Inr True"
| "check_loop (c # cs) version comparer =
     bind_result (constraint_check c version comparer) (\<lambda>satisfied.
       if \<not> satisfied then Inr False else check_loop cs version comparer)"

definition Constraints_Check :: "Constraints \<Rightarrow> string \<Rightarrow> bool result" where
  "Constraints_Check cs version =
     (if version = [] then Inl (Errorf ''version is empty'' [])
      else if constraints_list cs = [] then Inl (Errorf ''no constraints specified'' [])
      else check_loop (constraints_list cs) version (constraints_comparer cs))"

definition Constraints_String :: "Constraints \<Rightarrow> string" where
  "Constraints_String cs = join (map constraint_original (constraints_list cs)) '', ''"

section \<open>Major and minor versions\<close>

lemma cut_fst_notin: "c \<notin> set (fst (cut s c))"
  by (auto simp: cut_def dest: set_takeWhileD)

lemma Major_no_dot: "CHR ''.'' \<notin> set (Major v)"
  by (simp add: Major_def cut_fst_notin)

lemma Major_dotted: "CHR ''.'' \<notin> set a \<Longrightarrow> Major (a @ CHR ''.'' # b) = a"
  by (simp add: Major_def cut_found)

lemma Major_undotted: "CHR ''.'' \<notin> set a \<Longrightarrow> Major a = a"
  by (simp add: Major_def cut_not_found)

lemma Minor_cases:
  obtains (undotted) "CHR ''.'' \<notin> set v" "Minor v = v"
  | (dotted) a b where "CHR ''.'' \<notin> set a" "CHR ''.'' \<notin> set b" "Minor v = a @ CHR ''.'' # b"
      "v = a @ CHR ''.'' # b \<or> (\<exists>r. v = a @ CHR ''.'' # b @ CHR ''.'' # r)"
proof (cases "CHR ''.'' \<in> set v")
  case False
  then show ?thesis using undotted by (simp add: Minor_def cut_not_found)
next
  case True
  then obtain a s where v: "v = a @ CHR ''.'' # s" "CHR ''.'' \<notin> set a" by (meson split_list_first)
  show ?thesis
  proof (cases "CHR ''.'' \<in> set s")
    case True
    then obtain b r where "s = b @ CHR ''.'' # r" "CHR ''.'' \<notin> set b" by (meson split_list_first)
    then show ?thesis using dotted [of a b] v by (simp add: Minor_def cut_found)
  next
    case False
    then show ?thesis using dotted [of a s] v by (simp add: Minor_def cut_found cut_not_found)
  qed
qed

lemma Minor_idem: "Minor (Minor v) = Minor v"
  by (rule Minor_cases [of v]; rule Minor_cases [of "Minor v"]) (auto simp: Minor_def cut_found cut_not_found)

lemma Major_Minor: "Major (Minor v) = Major v"
  by (rule Minor_cases [of v]) (auto simp: Major_dotted)

section \<open>Constraints mean what they say\<close>

text \<open>The meaning of an operator on the result of a comparison.\<close>

definition op_holds :: "string \<Rightarrow> int \<Rightarrow> bool" where
  "op_holds op r \<longleftrightarrow>
     (if op = ''!='' then r \<noteq> 0 else if op = ''>'' then r > 0 else if op = ''<'' then r < 0
      else if op = ''>='' then r \<ge> 0 else if op = ''<='' then r \<le> 0 else r = 0)"

definition parsed_constraints :: "string \<Rightarrow> (string \<times> string) list" where
  "parsed_constraints s = List.map_filter (\<lambda>x. constraintRegex (trimSpace x)) (splitConstraints s)"

definition cmp_value :: "Comparer \<Rightarrow> string \<Rightarrow> string \<Rightarrow> int" where
  "cmp_value comparer a b = (case comparer a b of Inr r \<Rightarrow> r | Inl _ \<Rightarrow> 0)"

lemma dropWhile_head: "xs \<noteq> [] \<Longrightarrow> \<not> P (hd xs) \<Longrightarrow> dropWhile P xs = xs"
  by (cases xs) auto

lemma trimSpace_idem [simp]: "trimSpace (trimSpace s) = trimSpace s"
proof (cases "trimSpace s = []")
  case False
  let ?t = "dropWhile is_space s"
  let ?u = "dropWhile is_space (rev ?t)"
  have u: "trimSpace s = rev ?u" by (simp add: trimSpace_def)
  have ne: "?u \<noteq> []" using False u by (metis rev.simps(1))
  then have tne: "?t \<noteq> []" by (metis dropWhile.simps(1) rev.simps(1))
  obtain x where "rev ?t = x @ ?u" by (metis takeWhile_dropWhile_id)
  then have "?t = rev ?u @ rev x" by (metis rev_append rev_rev_ident)
  then have "hd (rev ?u) = hd ?t" using ne by (metis hd_append rev_is_Nil_conv)
  then have "\<not> is_space (hd (rev ?u))" using hd_dropWhile [OF tne] by simp
  then have "dropWhile is_space (rev ?u) = rev ?u" using ne by (intro dropWhile_head) auto
  moreover have "dropWhile is_space ?u = ?u" using ne hd_dropWhile [OF ne] by (intro dropWhile_head) auto
  ultimately show ?thesis by (simp add: u) (simp add: trimSpace_def)
next
  case True
  moreover have "trimSpace [] = []" by (simp add: trimSpace_def)
  ultimately show ?thesis by simp
qed

lemma version_char_not_space: "version_char c \<Longrightarrow> \<not> is_space c"
  by (auto simp: version_char_def is_space_def is_digit_iff is_letter_def less_eq_char_def)

lemma trimSpace_version: "is_version v \<Longrightarrow> trimSpace v = v"
proof -
  assume v: "is_version v"
  then have "v \<noteq> []" "\<not> is_space (hd v)" "\<not> is_space (last v)"
    using version_char_not_space by (auto simp: is_version_def list_all_iff)
  then show ?thesis by (simp add: trimSpace_def dropWhile_head hd_rev)
qed

lemma constraintRegex_op:
  "constraintRegex s = Some (op, v) \<Longrightarrow>
     op \<in> {[], ''>='', ''<='', ''>'', ''<'', ''=='', ''!='', ''=''} \<and> is_version v"
  by (auto simp: constraintRegex_def Let_def split: option.splits if_splits)

lemma operator_holds:
  assumes "op \<in> {[], ''>='', ''<='', ''>'', ''<'', ''=='', ''!='', ''=''}"
  obtains operator where "map_of constraintOperators op = Some operator"
    "\<And>v c comparer. operator v c comparer = bind_result (comparer v c) (\<lambda>r. Inr (op_holds op r))"
  using assms
  by (auto simp: constraintOperators_def op_holds_def constraintEqual_def constraintNotEqual_def
      constraintGreaterThan_def constraintLessThan_def constraintGreaterThanEqual_def constraintLessThanEqual_def)

lemma newConstraint_ok:
  assumes "newConstraint s = Inr c"
  obtains op v where "constraintRegex (trimSpace s) = Some (op, v)" "constraint_version c = v"
    "constraint_original c = trimSpace s"
    "\<And>x y comparer. constraint_operator c x y comparer = bind_result (comparer x y) (\<lambda>r. Inr (op_holds op r))"
proof -
  obtain op v where r: "constraintRegex (trimSpace s) = Some (op, v)"
    using assms by (cases "constraintRegex (trimSpace s)") (auto simp: newConstraint_def Let_def)
  obtain operator where o: "map_of constraintOperators op = Some operator"
    "\<And>v c comparer. operator v c comparer = bind_result (comparer v c) (\<lambda>r. Inr (op_holds op r))"
    using operator_holds constraintRegex_op [OF r] by metis
  show ?thesis
    using assms r o constraintRegex_op [OF r] trimSpace_version
    by (intro that [of op v]) (auto simp: newConstraint_def Let_def)
qed

lemma trimSpace_regex_Nil: "constraintRegex [] = None"
  by (simp add: constraintRegex_def is_version_def hasPrefix_def)

lemma check_loop_spec:
  assumes "newConstraints_loop ss = Inr cs" "\<And>a b. is_ok (comparer a b)"
  shows "check_loop cs v comparer =
    Inr (list_all (\<lambda>(op, ver). op_holds op (cmp_value comparer v ver))
      (List.map_filter (\<lambda>x. constraintRegex (trimSpace x)) ss))"
  using assms(1)
proof (induction ss arbitrary: cs)
  case (Cons s ss)
  show ?case
  proof (cases "trimSpace s = []")
    case True
    then show ?thesis using Cons by (simp add: trimSpace_regex_Nil)
  next
    case False
    then obtain c cs' where c: "newConstraint (trimSpace s) = Inr c" "newConstraints_loop ss = Inr cs'" "cs = c # cs'"
      using Cons.prems by (auto simp: Let_def)
    from c(1) obtain op w where w: "constraintRegex (trimSpace s) = Some (op, w)" "constraint_version c = w"
      "\<And>x y comparer. constraint_operator c x y comparer = bind_result (comparer x y) (\<lambda>r. Inr (op_holds op r))"
      by (rule newConstraint_ok) simp
    obtain r where "comparer v w = Inr r" using assms(2) by (auto simp: is_ok_iff)
    then show ?thesis
      using Cons.IH [OF c(2)] w by (simp add: c(3) constraint_check_def cmp_value_def)
  qed
qed simp

text \<open>A parsed constraint string means the conjunction of its comparisons: the check of a version
  succeeds and returns whether the version satisfies every one of them.\<close>

theorem constraints_check_spec:
  assumes "NewConstraints s comparer = Inr cs" "\<And>a b. is_ok (comparer a b)"
    and "v \<noteq> []" "constraints_list cs \<noteq> []"
  shows "Constraints_Check cs v =
    Inr (list_all (\<lambda>(op, ver). op_holds op (cmp_value comparer v ver)) (parsed_constraints s))"
proof -
  have "newConstraints_loop (splitConstraints s) = Inr (constraints_list cs)" "constraints_comparer cs = comparer"
    using assms(1) by (auto simp: NewConstraints_def split: if_splits)
  then show ?thesis
    using check_loop_spec [of "splitConstraints s" "constraints_list cs" comparer v] assms(2-)
    by (simp add: Constraints_Check_def parsed_constraints_def)
qed

theorem constraints_check_spec_witness:
  "\<exists>cs. NewConstraints ''>= 1.0, <2'' (\<lambda>a b. Inr (compare a b)) = Inr cs \<and>
     Constraints_Check cs ''1.5'' = Inr True \<and> Constraints_Check cs ''2.5'' = Inr False"
proof -
  let ?cmp = "\<lambda>a b. Inr (compare a b) :: int result"
  have ok: "is_ok (NewConstraints ''>= 1.0, <2'' ?cmp)" by code_simp
  then obtain cs where cs: "NewConstraints ''>= 1.0, <2'' ?cmp = Inr cs" by (auto simp: is_ok_iff)
  have "case NewConstraints ''>= 1.0, <2'' ?cmp of Inr cs \<Rightarrow> constraints_list cs \<noteq> [] | Inl _ \<Rightarrow> False" by code_simp
  then have ne: "constraints_list cs \<noteq> []" by (simp add: cs)
  have spec: "Constraints_Check cs v = Inr (list_all (\<lambda>(op, ver). op_holds op (cmp_value ?cmp v ver))
      (parsed_constraints ''>= 1.0, <2''))" if "v \<noteq> []" for v
    using constraints_check_spec [OF cs _ that ne] by simp
  have "list_all (\<lambda>(op, ver). op_holds op (cmp_value ?cmp ''1.5'' ver)) (parsed_constraints ''>= 1.0, <2'')"
    "\<not> list_all (\<lambda>(op, ver). op_holds op (cmp_value ?cmp ''2.5'' ver)) (parsed_constraints ''>= 1.0, <2'')"
    by code_simp+
  then show ?thesis using cs spec [of "''1.5''"] spec [of "''2.5''"] by auto
qed

end
