(* ===== verification/Ospkg_Drivers.thy ===== *)
theory Ospkg_Drivers
  imports Vuln_Types Ospkg_Version
begin

text \<open>
  The drivers of \<open>pkg/detector/ospkg\<close> that compare installed packages with the advisories of one
  distribution: alma, alpine, amazon, azure, bottlerocket, chainguard, coreos, debian, echo, minimos,
  oracle, photon, redhat, rocky, suse, ubuntu and wolfi, each with its end-of-life table.

  The vulnerability database and the version libraries are not part of the repository: the record
  \<open>vuln_env\<close> collects what the drivers call of them. A driver is a value of the record \<open>driver\<close>, the
  Go interface \<open>driver.Driver\<close> with its optional \<open>PackageFilter\<close>. Logging is left out.
\<close>

section \<open>What the drivers call\<close>

record Advisory =
  Adv_VulnerabilityID :: string
  Adv_VendorIDs :: "string list"
  Adv_Arches :: "string list"
  Adv_Severity :: Severity
  Adv_Status :: Status
  Adv_FixedVersion :: string
  Adv_AffectedVersion :: string
  Adv_VulnerableVersions :: "string list"
  Adv_PatchedVersions :: "string list"
  Adv_UnaffectedVersions :: "string list"
  Adv_DataSource :: "DataSource option"
  Adv_Custom :: string

record GetParams =
  GP_Release :: string
  GP_PkgName :: string
  GP_Arch :: string

text \<open>The ecosystems of \<open>trivy-db\<close> the suppliers name; \<open>Eco_None\<close> is the empty string.\<close>

datatype ecosystem =
    Eco_None | Eco_Ubuntu | Eco_Debian | Eco_Alpine | Eco_RedHat | Eco_OracleLinux | Eco_Rocky | Eco_AlmaLinux
  | Eco_AmazonLinux | Eco_Fedora

text \<open>The buckets of the database that the drivers read, by the package that opens them.\<close>

datatype vuln_source =
    VS_Alma | VS_Alpine | VS_Amazon | VS_Azure | VS_Mariner | VS_Bottlerocket | VS_Chainguard | VS_Debian
  | VS_Echo | VS_MinimOS | VS_Oracle | VS_Photon | VS_Rocky | VS_SUSEEnterpriseLinux
  | VS_SUSEEnterpriseLinuxMicro | VS_OpenSUSE | VS_OpenSUSETumbleweed | VS_Ubuntu | VS_Wolfi
  | VS_Rootio SourceID | VS_Seal ecosystem | VS_RapidFort ecosystem

record ('d, 'a, 'r) vuln_env =
  deb_NewVersion :: "string \<Rightarrow> 'd result"
  deb_LessThan :: "'d \<Rightarrow> 'd \<Rightarrow> bool"
  deb_Compare :: "'d \<Rightarrow> 'd \<Rightarrow> int"
  apk_NewVersion :: "string \<Rightarrow> 'a result"
  apk_LessThan :: "'a \<Rightarrow> 'a \<Rightarrow> bool"
  apk_GreaterThan :: "'a \<Rightarrow> 'a \<Rightarrow> bool"
  apk_Compare :: "'a \<Rightarrow> 'a \<Rightarrow> int"
  rpm_NewVersion :: "string \<Rightarrow> 'r"
  rpm_LessThan :: "'r \<Rightarrow> 'r \<Rightarrow> bool"
  rpm_Compare :: "'r \<Rightarrow> 'r \<Rightarrow> int"
  rpm_String :: "'r \<Rightarrow> string"
  vs_Get :: "vuln_source \<Rightarrow> GetParams \<Rightarrow> Advisory list result"
  redhat_Get :: "string \<Rightarrow> string list \<Rightarrow> string list \<Rightarrow> Advisory list result"
  PackageFlavor :: "string \<Rightarrow> string"
  severity_String :: "Severity \<Rightarrow> string"
  toLower :: "string \<Rightarrow> string"
  range_advisories :: "(string \<times> Advisory) list \<Rightarrow> (string \<times> Advisory) list"
  sort_by_id :: "DetectedVulnerability list \<Rightarrow> DetectedVulnerability list"

text \<open>The interface \<open>driver.Driver\<close>; a driver without a \<open>PackageFilter\<close> has \<^term>\<open>None\<close>.\<close>

record driver =
  drv_Detect :: "go_time \<Rightarrow> string \<Rightarrow> Repository option \<Rightarrow> Package list \<Rightarrow> DetectedVulnerability list result"
  drv_IsSupportedVersion :: "go_time \<Rightarrow> OSType \<Rightarrow> string \<Rightarrow> bool"
  drv_FilterPackages :: "(Package list \<Rightarrow> Package list) option"

definition DropThirdPartyPackages :: "Package list \<Rightarrow> Package list" where
  "DropThirdPartyPackages pkgs = filter (\<lambda>pkg. \<not> Pkg_RepositoryClass pkg = RepositoryClassThirdParty) pkgs"

text \<open>A loop that appends what its body yields and stops at the first error.\<close>

fun collect :: "('a \<Rightarrow> 'b list result) \<Rightarrow> 'a list \<Rightarrow> 'b list result" where
  "collect f [] = Inr []"
| "collect f (x # xs) = bind_result (f x) (\<lambda>ys. bind_result (collect f xs) (\<lambda>zs. Inr (ys @ zs)))"

text \<open>Dereferencing a nil pointer panics; the panic is an error here, as it ends the detection like one.\<close>

definition deref :: "'a option \<Rightarrow> 'a result" where
  "deref p = (case p of Some x \<Rightarrow> Inr x
     | None \<Rightarrow> Inl (Errorf ''runtime error: invalid memory address or nil pointer dereference'' []))"

text \<open>The fields that nearly every driver copies from the package and the advisory.\<close>

definition vuln_of :: "Package \<Rightarrow> Advisory \<Rightarrow> DetectedVulnerability" where
  "vuln_of pkg adv = DV_empty\<lparr>DV_VulnerabilityID := Adv_VulnerabilityID adv, DV_PkgID := Pkg_ID pkg,
     DV_PkgName := Pkg_Name pkg, DV_PkgIdentifier := Pkg_Identifier pkg, DV_Layer := Pkg_Layer pkg,
     DV_Custom := Adv_Custom adv, DV_DataSource := Adv_DataSource adv\<rparr>"

definition get_params :: "string \<Rightarrow> string \<Rightarrow> GetParams" where
  "get_params release pkgName = \<lparr>GP_Release = release, GP_PkgName = pkgName, GP_Arch = []\<rparr>"

definition severity_vuln :: "string \<Rightarrow> db_Vulnerability" where
  "severity_vuln s = db_Vulnerability_empty\<lparr>V_Severity := s\<rparr>"

section \<open>AlmaLinux (alma/alma.go)\<close>

definition alma_eolDates :: "(string \<times> go_time) list" where
  "alma_eolDates =
     [(''8'', time_Date 2029 3 1 23 59 59 0),
      (''9'', time_Date 2032 5 31 23 59 59 0),
      (''10'', time_Date 2035 5 31 23 59 59 0)]"

text \<open>The index of the second colon of a modularity label.\<close>

fun second_colon :: "nat \<Rightarrow> nat \<Rightarrow> string \<Rightarrow> nat option" where
  "second_colon i n [] = None"
| "second_colon i n (r # rs) =
     (let n' = (if r = CHR '':'' then n + 1 else n)
      in if n' = 2 then Some i else second_colon (i + 1) n' rs)"

definition addModularNamespace :: "string \<Rightarrow> string \<Rightarrow> string" where
  "addModularNamespace name label =
     (case second_colon 0 0 label of
        Some i \<Rightarrow> take i label @ ''::'' @ name
      | None \<Rightarrow> name)"

definition alma_Detect :: "('d, 'a, 'r) vuln_env \<Rightarrow> string \<Rightarrow> Package list \<Rightarrow> DetectedVulnerability list result" where
  "alma_Detect env osVer0 pkgs =
     (let osVer = Major osVer0 in
      collect (\<lambda>pkg.
        if containsStr (Pkg_Release pkg) ''.module_el'' \<and> Pkg_Modularitylabel pkg = [] then Inr []
        else
          let pkgName = addModularNamespace (Pkg_Name pkg) (Pkg_Modularitylabel pkg) in
          bind_result (wrap_err ''failed to get AlmaLinux advisories: %w'' []
              (vs_Get env VS_Alma (get_params osVer pkgName))) (\<lambda>advisories.
          let installed = FormatVersion pkg;
              installedVersion = rpm_NewVersion env installed
          in Inr (map (\<lambda>adv. (vuln_of pkg adv)\<lparr>DV_InstalledVersion := installed,
                       DV_FixedVersion := rpm_String env (rpm_NewVersion env (Adv_FixedVersion adv))\<rparr>)
               (filter (\<lambda>adv. rpm_LessThan env installedVersion (rpm_NewVersion env (Adv_FixedVersion adv))) advisories)))) pkgs)"

definition alma_IsSupportedVersion :: "go_time \<Rightarrow> OSType \<Rightarrow> string \<Rightarrow> bool" where
  "alma_IsSupportedVersion now osFamily osVer = Supported now alma_eolDates osFamily (Major osVer)"

section \<open>Alpine (alpine/alpine.go)\<close>

definition alpine_eolDates :: "(string \<times> go_time) list" where
  "alpine_eolDates =
     [(''2.0'', time_Date 2012 4 1 23 59 59 0),
      (''2.1'', time_Date 2012 11 1 23 59 59 0),
      (''2.2'', time_Date 2013 5 1 23 59 59 0),
      (''2.3'', time_Date 2013 11 1 23 59 59 0),
      (''2.4'', time_Date 2014 5 1 23 59 59 0),
      (''2.5'', time_Date 2014 11 1 23 59 59 0),
      (''2.6'', time_Date 2015 5 1 23 59 59 0),
      (''2.7'', time_Date 2015 11 1 23 59 59 0),
      (''3.0'', time_Date 2016 5 1 23 59 59 0),
      (''3.1'', time_Date 2016 11 1 23 59 59 0),
      (''3.2'', time_Date 2017 5 1 23 59 59 0),
      (''3.3'', time_Date 2017 11 1 23 59 59 0),
      (''3.4'', time_Date 2018 5 1 23 59 59 0),
      (''3.5'', time_Date 2018 11 1 23 59 59 0),
      (''3.6'', time_Date 2019 5 1 23 59 59 0),
      (''3.7'', time_Date 2019 11 1 23 59 59 0),
      (''3.8'', time_Date 2020 5 1 23 59 59 0),
      (''3.9'', time_Date 2020 11 1 23 59 59 0),
      (''3.10'', time_Date 2021 5 1 23 59 59 0),
      (''3.11'', time_Date 2021 11 1 23 59 59 0),
      (''3.12'', time_Date 2022 5 1 23 59 59 0),
      (''3.13'', time_Date 2022 11 1 23 59 59 0),
      (''3.14'', time_Date 2023 5 1 23 59 59 0),
      (''3.15'', time_Date 2023 11 1 23 59 59 0),
      (''3.16'', time_Date 2024 5 23 23 59 59 0),
      (''3.17'', time_Date 2024 11 22 23 59 59 0),
      (''3.18'', time_Date 2025 5 9 23 59 59 0),
      (''3.19'', time_Date 2025 11 1 23 59 59 0),
      (''3.20'', time_Date 2026 4 1 23 59 59 0),
      (''3.21'', time_Date 2026 11 1 23 59 59 0),
      (''3.22'', time_Date 2027 5 1 23 59 59 0),
      (''3.23'', time_Date 2027 11 1 23 59 59 0),
      (''3.24'', time_Date 2028 6 1 23 59 59 0),
      (''edge'', time_Date 9999 1 1 0 0 0 0)]"

text \<open>\<open>strings.CutLast\<close> with a separator of one byte: what comes before its last occurrence.\<close>

definition before_last :: "string \<Rightarrow> char \<Rightarrow> string" where
  "before_last s c = (if c \<in> set s then rev (tl (dropWhile (\<lambda>x. x \<noteq> c) (rev s))) else s)"

definition repoRelease :: "Repository option \<Rightarrow> string" where
  "repoRelease repo =
     (case repo of
        None \<Rightarrow> []
      | Some r \<Rightarrow>
          let release = Repo_Release r
          in if 1 < count_list release CHR ''.'' then before_last release CHR ''.'' else release)"

definition alpine_isVulnerable :: "('d, 'a, 'r) vuln_env \<Rightarrow> 'a \<Rightarrow> Advisory \<Rightarrow> bool" where
  "alpine_isVulnerable env installedVersion adv =
     (if Adv_AffectedVersion adv \<noteq> [] \<and>
         (case apk_NewVersion env (Adv_AffectedVersion adv) of
            Inl _ \<Rightarrow> True
          | Inr affectedVersion \<Rightarrow> apk_GreaterThan env affectedVersion installedVersion)
      then False
      else if Adv_FixedVersion adv = [] then True
      else (case apk_NewVersion env (Adv_FixedVersion adv) of
              Inl _ \<Rightarrow> False
            | Inr fixedVersion \<Rightarrow> apk_LessThan env installedVersion fixedVersion))"

definition alpine_Detect :: "('d, 'a, 'r) vuln_env \<Rightarrow> string \<Rightarrow> Repository option \<Rightarrow> Package list \<Rightarrow>
    DetectedVulnerability list result" where
  "alpine_Detect env osVer0 repo pkgs =
     (let osVer = Minor osVer0;
          release = repoRelease repo;
          stream = (if release \<noteq> [] \<and> osVer \<noteq> release then release else osVer) in
      collect (\<lambda>pkg.
        let srcName = (if Pkg_SrcName pkg = [] then Pkg_Name pkg else Pkg_SrcName pkg) in
        bind_result (wrap_err ''failed to get alpine advisories: %w'' []
            (vs_Get env VS_Alpine (get_params stream srcName))) (\<lambda>advisories.
        case apk_NewVersion env (FormatSrcVersion pkg) of
          Inl _ \<Rightarrow> Inr []
        | Inr sourceVersion \<Rightarrow>
            Inr (map (\<lambda>adv. (vuln_of pkg adv)\<lparr>DV_InstalledVersion := FormatVersion pkg,
                       DV_FixedVersion := Adv_FixedVersion adv\<rparr>)
                 (filter (alpine_isVulnerable env sourceVersion) advisories)))) pkgs)"

definition alpine_IsSupportedVersion :: "go_time \<Rightarrow> OSType \<Rightarrow> string \<Rightarrow> bool" where
  "alpine_IsSupportedVersion now osFamily osVer = Supported now alpine_eolDates osFamily (Minor osVer)"

section \<open>Amazon Linux (amazon/amazon.go)\<close>

definition amazon_eolDates :: "(string \<times> go_time) list" where
  "amazon_eolDates =
     [(''1'', time_Date 2023 12 31 23 59 59 0),
      (''2'', time_Date 2026 6 30 23 59 59 0),
      (''2023'', time_Date 2028 3 15 23 59 59 0)]"

definition majorVersion :: "string \<Rightarrow> string" where
  "majorVersion osVer =
     (case strFields osVer of
        [] \<Rightarrow> ''1''
      | field # _ \<Rightarrow>
          let major = Major field
          in if major \<noteq> ''2'' \<and> major \<noteq> ''2022'' \<and> major \<noteq> ''2023'' then ''1'' else major)"

definition amazon_Detect :: "('d, 'a, 'r) vuln_env \<Rightarrow> string \<Rightarrow> Package list \<Rightarrow> DetectedVulnerability list result" where
  "amazon_Detect env osVer0 pkgs =
     (let osVer = majorVersion osVer0 in
      collect (\<lambda>pkg.
        bind_result (wrap_err ''failed to get amazon advisories: %w'' []
            (vs_Get env VS_Amazon (get_params osVer (Pkg_Name pkg)))) (\<lambda>advisories.
        let installed = FormatVersion pkg in
        if installed = [] then Inr []
        else case deb_NewVersion env installed of
               Inl _ \<Rightarrow> Inr []
             | Inr installedVersion \<Rightarrow>
                 Inr (map (\<lambda>adv. (vuln_of pkg adv)\<lparr>DV_InstalledVersion := installed,
                            DV_FixedVersion := Adv_FixedVersion adv\<rparr>)
                      (filter (\<lambda>adv. case deb_NewVersion env (Adv_FixedVersion adv) of
                                       Inl _ \<Rightarrow> False
                                     | Inr fixedVersion \<Rightarrow> deb_LessThan env installedVersion fixedVersion) advisories)))) pkgs)"

definition amazon_IsSupportedVersion :: "go_time \<Rightarrow> OSType \<Rightarrow> string \<Rightarrow> bool" where
  "amazon_IsSupportedVersion now osFamily osVer = Supported now amazon_eolDates osFamily (majorVersion osVer)"

section \<open>Azure Linux and CBL-Mariner (azure/azure.go)\<close>

text \<open>The scanner's source is that of the distribution it was made for.\<close>

definition azure_Detect :: "('d, 'a, 'r) vuln_env \<Rightarrow> vuln_source \<Rightarrow> string \<Rightarrow> Package list \<Rightarrow>
    DetectedVulnerability list result" where
  "azure_Detect env vs osVer0 pkgs =
     (let osVer = Minor osVer0 in
      collect (\<lambda>pkg.
        bind_result (wrap_err ''failed to get Azure Linux advisories: %w'' []
            (vs_Get env vs (get_params osVer (Pkg_SrcName pkg)))) (\<lambda>advisories.
        let sourceVersion = rpm_NewVersion env (FormatSrcVersion pkg)
        in Inr (concat (map (\<lambda>adv.
             let vuln = DV_empty\<lparr>DV_VulnerabilityID := Adv_VulnerabilityID adv, DV_PkgName := Pkg_Name pkg,
                          DV_InstalledVersion := FormatVersion pkg, DV_PkgIdentifier := Pkg_Identifier pkg,
                          DV_Layer := Pkg_Layer pkg, DV_DataSource := Adv_DataSource adv, DV_Custom := Adv_Custom adv\<rparr>
             in if Adv_FixedVersion adv = [] then [vuln]
                else let fixedVersion = rpm_NewVersion env (Adv_FixedVersion adv)
                     in if rpm_LessThan env sourceVersion fixedVersion
                        then [vuln\<lparr>DV_FixedVersion := rpm_String env fixedVersion\<rparr>] else [])
           advisories)))) pkgs)"

definition azure_IsSupportedVersion :: "go_time \<Rightarrow> OSType \<Rightarrow> string \<Rightarrow> bool" where
  "azure_IsSupportedVersion now osFamily osVer = True"

section \<open>Bottlerocket (bottlerocket/bottlerocket.go)\<close>

definition bottlerocket_Detect :: "('d, 'a, 'r) vuln_env \<Rightarrow> Package list \<Rightarrow> DetectedVulnerability list result" where
  "bottlerocket_Detect env pkgs =
     collect (\<lambda>pkg.
       bind_result (wrap_err ''failed to get Bottlerocket advisories: %w'' []
           (vs_Get env VS_Bottlerocket (get_params [] (Pkg_Name pkg)))) (\<lambda>advisories.
       let installed = FormatVersion pkg in
       if installed = [] then Inr []
       else
         let installedVersion = rpm_NewVersion env installed
         in Inr (map (\<lambda>adv. (vuln_of pkg adv)\<lparr>DV_InstalledVersion := installed,
                      DV_FixedVersion := Adv_FixedVersion adv\<rparr>)
              (filter (\<lambda>adv. rpm_LessThan env installedVersion (rpm_NewVersion env (Adv_FixedVersion adv))) advisories)))) pkgs"

definition bottlerocket_IsSupportedVersion :: "go_time \<Rightarrow> OSType \<Rightarrow> string \<Rightarrow> bool" where
  "bottlerocket_IsSupportedVersion now osFamily osVer = True"

section \<open>Chainguard, MinimOS and Wolfi (chainguard.go, minimos.go, wolfi.go)\<close>

definition apk_isVulnerable :: "('d, 'a, 'r) vuln_env \<Rightarrow> 'a \<Rightarrow> Advisory \<Rightarrow> bool" where
  "apk_isVulnerable env installedVersion adv =
     (case apk_NewVersion env (Adv_FixedVersion adv) of
        Inl _ \<Rightarrow> False
      | Inr fixedVersion \<Rightarrow> apk_LessThan env installedVersion fixedVersion)"

text \<open>The three drivers have the same text, up to their source and the error message.\<close>

definition apk_detect :: "('d, 'a, 'r) vuln_env \<Rightarrow> vuln_source \<Rightarrow> string \<Rightarrow> Package list \<Rightarrow>
    DetectedVulnerability list result" where
  "apk_detect env vs message pkgs =
     collect (\<lambda>pkg.
       let srcName = (if Pkg_SrcName pkg = [] then Pkg_Name pkg else Pkg_SrcName pkg) in
       bind_result (wrap_err message [] (vs_Get env vs (get_params [] srcName))) (\<lambda>advisories.
       let installed = FormatVersion pkg in
       case apk_NewVersion env installed of
         Inl _ \<Rightarrow> Inr []
       | Inr installedVersion \<Rightarrow>
           Inr (map (\<lambda>adv. (vuln_of pkg adv)\<lparr>DV_InstalledVersion := installed,
                      DV_FixedVersion := Adv_FixedVersion adv\<rparr>)
                (filter (apk_isVulnerable env installedVersion) advisories)))) pkgs"

definition chainguard_Detect :: "('d, 'a, 'r) vuln_env \<Rightarrow> Package list \<Rightarrow> DetectedVulnerability list result" where
  "chainguard_Detect env pkgs = apk_detect env VS_Chainguard ''failed to get Chainguard advisories: %w'' pkgs"

definition minimos_Detect :: "('d, 'a, 'r) vuln_env \<Rightarrow> Package list \<Rightarrow> DetectedVulnerability list result" where
  "minimos_Detect env pkgs = apk_detect env VS_MinimOS ''failed to get MinimOS advisories: %w'' pkgs"

definition wolfi_Detect :: "('d, 'a, 'r) vuln_env \<Rightarrow> Package list \<Rightarrow> DetectedVulnerability list result" where
  "wolfi_Detect env pkgs = apk_detect env VS_Wolfi ''failed to get Wolfi advisories: %w'' pkgs"

definition chainguard_IsSupportedVersion :: "go_time \<Rightarrow> OSType \<Rightarrow> string \<Rightarrow> bool" where
  "chainguard_IsSupportedVersion now osFamily osVer = True"

definition minimos_IsSupportedVersion :: "go_time \<Rightarrow> OSType \<Rightarrow> string \<Rightarrow> bool" where
  "minimos_IsSupportedVersion now osFamily osVer = True"

definition wolfi_IsSupportedVersion :: "go_time \<Rightarrow> OSType \<Rightarrow> string \<Rightarrow> bool" where
  "wolfi_IsSupportedVersion now osFamily osVer = True"

section \<open>CoreOS (coreos/coreos.go)\<close>

definition coreos_Detect :: "Package list \<Rightarrow> DetectedVulnerability list result" where
  "coreos_Detect pkgs = Inr []"

definition coreos_IsSupportedVersion :: "go_time \<Rightarrow> OSType \<Rightarrow> string \<Rightarrow> bool" where
  "coreos_IsSupportedVersion now osFamily osVer = Supported now [] osFamily (Minor osVer)"

section \<open>Debian (debian/debian.go)\<close>

definition debian_eolDates :: "(string \<times> go_time) list" where
  "debian_eolDates =
     [(''1.1'', time_Date 1997 6 5 23 59 59 0),
      (''1.2'', time_Date 1998 6 5 23 59 59 0),
      (''1.3'', time_Date 1999 3 9 23 59 59 0),
      (''2.0'', time_Date 2000 3 9 23 59 59 0),
      (''2.1'', time_Date 2000 10 30 23 59 59 0),
      (''2.2'', time_Date 2003 7 30 23 59 59 0),
      (''3.0'', time_Date 2006 6 30 23 59 59 0),
      (''3.1'', time_Date 2008 3 30 23 59 59 0),
      (''4.0'', time_Date 2010 2 15 23 59 59 0),
      (''5.0'', time_Date 2012 2 6 23 59 59 0),
      (''6.0'', time_Date 2016 2 29 23 59 59 0),
      (''7'', time_Date 2018 5 31 23 59 59 0),
      (''8'', time_Date 2020 6 30 23 59 59 0),
      (''9'', time_Date 2022 6 30 23 59 59 0),
      (''10'', time_Date 2024 6 30 23 59 59 0),
      (''11'', time_Date 2026 8 14 23 59 59 0),
      (''12'', time_Date 2028 6 10 23 59 59 0),
      (''13'', time_Date 3000 1 1 23 59 59 0)]"

text \<open>The name of the source is the constant \<open>vulnerability.Debian\<close> of \<open>trivy-db\<close>.\<close>

definition with_severity :: "('d, 'a, 'r) vuln_env \<Rightarrow> SourceID \<Rightarrow> Advisory \<Rightarrow> DetectedVulnerability \<Rightarrow> DetectedVulnerability" where
  "with_severity env source adv vuln =
     (if Adv_Severity adv \<noteq> SeverityUnknown
      then vuln\<lparr>DV_SeveritySource := source,
                DV_Vulnerability := severity_vuln (severity_String env (Adv_Severity adv))\<rparr>
      else vuln)"

definition debian_Detect :: "('d, 'a, 'r) vuln_env \<Rightarrow> string \<Rightarrow> Package list \<Rightarrow> DetectedVulnerability list result" where
  "debian_Detect env osVer0 pkgs =
     (let osVer = Major osVer0 in
      collect (\<lambda>pkg.
        case deb_NewVersion env (FormatSrcVersion pkg) of
          Inl _ \<Rightarrow> Inr []
        | Inr sourceVersion \<Rightarrow>
            bind_result (wrap_err ''failed to get debian advisories: %w'' []
                (vs_Get env VS_Debian (get_params osVer (Pkg_SrcName pkg)))) (\<lambda>advisories.
            Inr (concat (map (\<lambda>adv.
              let vuln = with_severity env ''debian'' adv ((vuln_of pkg adv)\<lparr>DV_VendorIDs := Adv_VendorIDs adv,
                           DV_InstalledVersion := FormatVersion pkg, DV_FixedVersion := Adv_FixedVersion adv,
                           DV_Status := Adv_Status adv\<rparr>)
              in if Adv_FixedVersion adv = [] then [vuln]
                 else case deb_NewVersion env (Adv_FixedVersion adv) of
                        Inl _ \<Rightarrow> []
                      | Inr fixedVersion \<Rightarrow> if deb_LessThan env sourceVersion fixedVersion then [vuln] else [])
              advisories)))) pkgs)"

definition debian_IsSupportedVersion :: "go_time \<Rightarrow> OSType \<Rightarrow> string \<Rightarrow> bool" where
  "debian_IsSupportedVersion now osFamily osVer = Supported now debian_eolDates osFamily (Major osVer)"

section \<open>Echo (echo/echo.go)\<close>

definition echo_advisory :: "('d, 'a, 'r) vuln_env \<Rightarrow> Package \<Rightarrow> string \<Rightarrow> 'd \<Rightarrow> Advisory \<Rightarrow>
    DetectedVulnerability list result" where
  "echo_advisory env pkg installed installedVersion adv =
     (let vuln = with_severity env ''echo'' adv ((vuln_of pkg adv)\<lparr>DV_InstalledVersion := installed,
                   DV_FixedVersion := Adv_FixedVersion adv, DV_Status := Adv_Status adv\<rparr>)
      in if Adv_FixedVersion adv \<noteq> [] then
           bind_result (wrap_err ''failed to parse fixed version: %w'' [] (deb_NewVersion env (Adv_FixedVersion adv)))
             (\<lambda>fixedVersion. if \<not> deb_LessThan env installedVersion fixedVersion then Inr [] else Inr [vuln])
         else Inr [vuln])"

definition echo_Detect :: "('d, 'a, 'r) vuln_env \<Rightarrow> Package list \<Rightarrow> DetectedVulnerability list result" where
  "echo_Detect env pkgs =
     collect (\<lambda>pkg.
       bind_result (wrap_err ''failed to get echo advisories: %w'' []
           (vs_Get env VS_Echo (get_params [] (Pkg_SrcName pkg)))) (\<lambda>advisories.
       let formattedInstalledVersion = FormatSrcVersion pkg in
       bind_result (wrap_err ''failed to parse installed version: %w'' []
           (deb_NewVersion env formattedInstalledVersion)) (\<lambda>installedVersion.
       collect (echo_advisory env pkg formattedInstalledVersion installedVersion) advisories))) pkgs"

definition echo_IsSupportedVersion :: "go_time \<Rightarrow> OSType \<Rightarrow> string \<Rightarrow> bool" where
  "echo_IsSupportedVersion now osFamily osVer = True"

definition echo_FilterPackages :: "Package list \<Rightarrow> Package list" where
  "echo_FilterPackages pkgs = pkgs"

section \<open>Oracle Linux (oracle/oracle.go)\<close>

definition oracle_eolDates :: "(string \<times> go_time) list" where
  "oracle_eolDates =
     [(''3'', time_Date 2011 12 31 23 59 59 0),
      (''4'', time_Date 2013 12 31 23 59 59 0),
      (''5'', time_Date 2017 12 31 23 59 59 0),
      (''6'', time_Date 2021 3 21 23 59 59 0),
      (''7'', time_Date 2024 12 31 23 59 59 0),
      (''8'', time_Date 2029 7 18 23 59 59 0),
      (''9'', time_Date 2032 7 18 23 59 59 0)]"

definition oracle_Detect :: "('d, 'a, 'r) vuln_env \<Rightarrow> string \<Rightarrow> Package list \<Rightarrow> DetectedVulnerability list result" where
  "oracle_Detect env osVer0 pkgs =
     (let osVer = Major osVer0 in
      collect (\<lambda>pkg.
        bind_result (wrap_err ''failed to get Oracle Linux advisory: %w'' []
            (vs_Get env VS_Oracle \<lparr>GP_Release = osVer, GP_PkgName = Pkg_Name pkg, GP_Arch = Pkg_Arch pkg\<rparr>)) (\<lambda>advisories.
        let installed = FormatVersion pkg;
            installedVersion = rpm_NewVersion env installed
        in Inr (concat (map (\<lambda>adv.
             if PackageFlavor env (Adv_FixedVersion adv) \<noteq> PackageFlavor env (Pkg_Release pkg) then []
             else
               let fixedVersion = rpm_NewVersion env (Adv_FixedVersion adv);
                   vuln = (vuln_of pkg adv)\<lparr>DV_InstalledVersion := installed\<rparr>
               in if rpm_LessThan env installedVersion fixedVersion
                  then [vuln\<lparr>DV_FixedVersion := Adv_FixedVersion adv\<rparr>] else [])
           advisories)))) pkgs)"

definition oracle_IsSupportedVersion :: "go_time \<Rightarrow> OSType \<Rightarrow> string \<Rightarrow> bool" where
  "oracle_IsSupportedVersion now osFamily osVer = Supported now oracle_eolDates osFamily (Major osVer)"

section \<open>Photon OS (photon/photon.go)\<close>

definition photon_eolDates :: "(string \<times> go_time) list" where
  "photon_eolDates =
     [(''1.0'', time_Date 2022 2 28 23 59 59 0),
      (''2.0'', time_Date 2022 12 31 23 59 59 0),
      (''3.0'', time_Date 2024 3 31 23 59 59 0),
      (''4.0'', time_Date 2026 3 31 23 59 59 0),
      (''5.0'', time_Date 3000 1 1 23 59 59 0)]"

definition photon_Detect :: "('d, 'a, 'r) vuln_env \<Rightarrow> string \<Rightarrow> Package list \<Rightarrow> DetectedVulnerability list result" where
  "photon_Detect env osVer pkgs =
     collect (\<lambda>pkg.
       bind_result (wrap_err ''failed to get Photon Linux advisory: %w'' []
           (vs_Get env VS_Photon (get_params osVer (Pkg_SrcName pkg)))) (\<lambda>advisories.
       let installed = FormatVersion pkg;
           installedVersion = rpm_NewVersion env installed
       in Inr (concat (map (\<lambda>adv.
            let fixedVersion = rpm_NewVersion env (Adv_FixedVersion adv);
                vuln = (vuln_of pkg adv)\<lparr>DV_InstalledVersion := installed\<rparr>
            in if rpm_LessThan env installedVersion fixedVersion
               then [vuln\<lparr>DV_FixedVersion := Adv_FixedVersion adv\<rparr>] else [])
          advisories)))) pkgs"

definition photon_IsSupportedVersion :: "go_time \<Rightarrow> OSType \<Rightarrow> string \<Rightarrow> bool" where
  "photon_IsSupportedVersion now osFamily osVer = Supported now photon_eolDates osFamily osVer"

section \<open>Red Hat Enterprise Linux and CentOS (redhat/redhat.go)\<close>

definition defaultContentSets :: "(string \<times> string list) list" where
  "defaultContentSets =
     [(''6'', [''rhel-6-server-rpms'', ''rhel-6-server-extras-rpms'']),
      (''7'', [''rhel-7-server-rpms'', ''rhel-7-server-extras-rpms'']),
      (''8'', [''rhel-8-for-x86_64-baseos-rpms'', ''rhel-8-for-x86_64-appstream-rpms'']),
      (''9'', [''rhel-9-for-x86_64-baseos-rpms'', ''rhel-9-for-x86_64-appstream-rpms''])]"

definition redhatEOLDates :: "(string \<times> go_time) list" where
  "redhatEOLDates =
     [(''4'', time_Date 2017 5 31 23 59 59 0),
      (''5'', time_Date 2020 11 30 23 59 59 0),
      (''6'', time_Date 2024 6 30 23 59 59 0),
      (''7'', time_Date 3000 1 1 23 59 59 0),
      (''8'', time_Date 3000 1 1 23 59 59 0),
      (''9'', time_Date 3000 1 1 23 59 59 0),
      (''10'', time_Date 3000 1 1 23 59 59 0)]"

definition centosEOLDates :: "(string \<times> go_time) list" where
  "centosEOLDates =
     [(''3'', time_Date 2010 10 31 23 59 59 0),
      (''4'', time_Date 2012 2 29 23 59 59 0),
      (''5'', time_Date 2017 3 31 23 59 59 0),
      (''6'', time_Date 2020 11 30 23 59 59 0),
      (''7'', time_Date 2024 6 30 23 59 59 0),
      (''8'', time_Date 2021 12 31 23 59 59 0)]"

text \<open>
  Removing the matches of \<open>__\d+$\<close>: there is one exactly when the maximal run of digits at the end
  is not empty and is preceded by two underscores.
\<close>

definition removeGenericSuffix :: "string \<Rightarrow> string" where
  "removeGenericSuffix cs =
     (let r = dropWhile is_digit (rev cs)
      in if length r < length cs \<and> hasPrefix r ''__'' then rev (drop 2 r) else cs)"

definition cleanContentSets :: "string list \<Rightarrow> string list" where
  "cleanContentSets contentSets = map removeGenericSuffix contentSets"

text \<open>The loop that keeps the advisory with the latest fixed version per vulnerability.\<close>

definition uniq_advisory :: "('d, 'a, 'r) vuln_env \<Rightarrow> Package \<Rightarrow> Advisory \<Rightarrow> (string \<times> Advisory) list \<Rightarrow>
    (string \<times> Advisory) list" where
  "uniq_advisory env pkg adv m =
     (if Adv_Arches adv \<noteq> [] \<and> Pkg_Arch pkg \<noteq> ''noarch'' \<and> Pkg_Arch pkg \<notin> set (Adv_Arches adv) then m
      else case map_of m (Adv_VulnerabilityID adv) of
             Some a \<Rightarrow>
               if rpm_LessThan env (rpm_NewVersion env (Adv_FixedVersion a)) (rpm_NewVersion env (Adv_FixedVersion adv))
               then AList.update (Adv_VulnerabilityID adv) adv m else m
           | None \<Rightarrow> AList.update (Adv_VulnerabilityID adv) adv m)"

definition redhat_vuln :: "('d, 'a, 'r) vuln_env \<Rightarrow> Package \<Rightarrow> Advisory \<Rightarrow> DetectedVulnerability list" where
  "redhat_vuln env pkg adv =
     (let vuln = DV_empty\<lparr>DV_VulnerabilityID := Adv_VulnerabilityID adv, DV_VendorIDs := Adv_VendorIDs adv,
            DV_PkgID := Pkg_ID pkg, DV_PkgName := Pkg_Name pkg, DV_InstalledVersion := FormatVersion pkg,
            DV_FixedVersion := rpm_String env (rpm_NewVersion env (Adv_FixedVersion adv)),
            DV_PkgIdentifier := Pkg_Identifier pkg, DV_Status := Adv_Status adv, DV_Layer := Pkg_Layer pkg,
            DV_SeveritySource := ''redhat'',
            DV_Vulnerability := severity_vuln (severity_String env (Adv_Severity adv)), DV_Custom := Adv_Custom adv\<rparr>
      in if Adv_FixedVersion adv = [] \<or>
            rpm_LessThan env (rpm_NewVersion env (DV_InstalledVersion vuln)) (rpm_NewVersion env (Adv_FixedVersion adv))
         then [vuln] else [])"

text \<open>The query of \<open>detect\<close>: the content sets and the build of the package select the advisories.\<close>

definition redhat_query :: "('d, 'a, 'r) vuln_env \<Rightarrow> string \<Rightarrow> Package \<Rightarrow> Advisory list result" where
  "redhat_query env osVer pkg =
     (let pkgName = addModularNamespace (Pkg_Name pkg) (Pkg_Modularitylabel pkg);
          (contentSets, nvr) =
            (case Pkg_BuildInfo pkg of
               None \<Rightarrow> (case map_of defaultContentSets osVer of Some cs \<Rightarrow> cs | None \<Rightarrow> [], [])
             | Some info \<Rightarrow> (ContentSets info, Nvr info @ ''-'' @ Build_Arch info))
      in redhat_Get env pkgName (cleanContentSets contentSets) [nvr])"

definition redhat_detect :: "('d, 'a, 'r) vuln_env \<Rightarrow> string \<Rightarrow> Package \<Rightarrow> DetectedVulnerability list result" where
  "redhat_detect env osVer pkg =
     bind_result (wrap_err ''failed to get Red Hat advisories: %w'' [] (redhat_query env osVer pkg)) (\<lambda>advisories.
     let uniqAdvisories = fold (uniq_advisory env pkg) advisories [];
         vulns = concat (map (\<lambda>(_, adv). redhat_vuln env pkg adv) (range_advisories env uniqAdvisories))
     in Inr (sort_by_id env vulns))"

definition redhat_Detect :: "('d, 'a, 'r) vuln_env \<Rightarrow> string \<Rightarrow> Package list \<Rightarrow> DetectedVulnerability list result" where
  "redhat_Detect env osVer pkgs =
     collect (\<lambda>pkg. wrap_err ''redhat vulnerability detection error: %w'' [] (redhat_detect env (Major osVer) pkg)) pkgs"

definition redhat_IsSupportedVersion :: "go_time \<Rightarrow> OSType \<Rightarrow> string \<Rightarrow> bool" where
  "redhat_IsSupportedVersion now osFamily osVer0 =
     (let osVer = Major osVer0
      in if osFamily = CentOS then Supported now centosEOLDates osFamily osVer
         else Supported now redhatEOLDates osFamily osVer)"

section \<open>Rocky Linux (rocky/rocky.go)\<close>

definition rocky_eolDates :: "(string \<times> go_time) list" where
  "rocky_eolDates =
     [(''8'', time_Date 2029 5 31 23 59 59 0),
      (''9'', time_Date 2032 5 31 23 59 59 0)]"

definition rocky_Detect :: "('d, 'a, 'r) vuln_env \<Rightarrow> string \<Rightarrow> Package list \<Rightarrow> DetectedVulnerability list result" where
  "rocky_Detect env osVer0 pkgs =
     (let osVer = Major osVer0 in
      collect (\<lambda>pkg.
        let pkgName = addModularNamespace (Pkg_Name pkg) (Pkg_Modularitylabel pkg) in
        bind_result (wrap_err ''failed to get Rocky Linux advisories: %w'' []
            (vs_Get env VS_Rocky \<lparr>GP_Release = osVer, GP_PkgName = pkgName, GP_Arch = Pkg_Arch pkg\<rparr>)) (\<lambda>advisories.
        let installed = FormatVersion pkg;
            installedVersion = rpm_NewVersion env installed
        in Inr (map (\<lambda>adv. (vuln_of pkg adv)\<lparr>DV_InstalledVersion := installed,
                     DV_FixedVersion := rpm_String env (rpm_NewVersion env (Adv_FixedVersion adv))\<rparr>)
             (filter (\<lambda>adv. rpm_LessThan env installedVersion (rpm_NewVersion env (Adv_FixedVersion adv))) advisories)))) pkgs)"

definition rocky_IsSupportedVersion :: "go_time \<Rightarrow> OSType \<Rightarrow> string \<Rightarrow> bool" where
  "rocky_IsSupportedVersion now osFamily osVer = Supported now rocky_eolDates osFamily (Major osVer)"

section \<open>SUSE (suse/suse.go)\<close>

definition slesEolDates :: "(string \<times> go_time) list" where
  "slesEolDates =
     [(''10'', time_Date 2007 12 31 23 59 59 0),
      (''10.1'', time_Date 2008 11 30 23 59 59 0),
      (''10.2'', time_Date 2010 4 11 23 59 59 0),
      (''10.3'', time_Date 2011 10 11 23 59 59 0),
      (''10.4'', time_Date 2013 7 31 23 59 59 0),
      (''11'', time_Date 2010 12 31 23 59 59 0),
      (''11.1'', time_Date 2012 8 31 23 59 59 0),
      (''11.2'', time_Date 2014 1 31 23 59 59 0),
      (''11.3'', time_Date 2016 1 31 23 59 59 0),
      (''11.4'', time_Date 2019 3 31 23 59 59 0),
      (''12'', time_Date 2016 6 30 23 59 59 0),
      (''12.1'', time_Date 2017 5 31 23 59 59 0),
      (''12.2'', time_Date 2018 3 31 23 59 59 0),
      (''12.3'', time_Date 2019 1 30 23 59 59 0),
      (''12.4'', time_Date 2020 6 30 23 59 59 0),
      (''12.5'', time_Date 2024 10 31 23 59 59 0),
      (''15'', time_Date 2019 12 31 23 59 59 0),
      (''15.1'', time_Date 2021 1 31 23 59 59 0),
      (''15.2'', time_Date 2021 12 31 23 59 59 0),
      (''15.3'', time_Date 2022 12 31 23 59 59 0),
      (''15.4'', time_Date 2023 12 31 23 59 59 0),
      (''15.5'', time_Date 2024 12 31 23 59 59 0),
      (''15.6'', time_Date 2025 12 31 23 59 59 0),
      (''15.7'', time_Date 2031 7 31 23 59 59 0),
      (''16.0'', time_Date 2027 11 30 23 59 59 0),
      (''16.1'', time_Date 2028 11 30 23 59 59 0)]"

definition slemicroEolDates :: "(string \<times> go_time) list" where
  "slemicroEolDates =
     [(''5.0'', time_Date 2022 3 31 23 59 59 0),
      (''5.1'', time_Date 2025 10 31 23 59 59 0),
      (''5.2'', time_Date 2026 4 30 23 59 59 0),
      (''5.3'', time_Date 2026 10 30 23 59 59 0),
      (''5.4'', time_Date 2027 4 30 23 59 59 0),
      (''5.5'', time_Date 2027 10 31 23 59 59 0),
      (''6.0'', time_Date 2028 6 30 23 59 59 0),
      (''6.1'', time_Date 2028 11 30 23 59 59 0)]"

definition opensuseEolDates :: "(string \<times> go_time) list" where
  "opensuseEolDates =
     [(''42.1'', time_Date 2017 5 17 23 59 59 0),
      (''42.2'', time_Date 2018 1 26 23 59 59 0),
      (''42.3'', time_Date 2019 6 30 23 59 59 0),
      (''15.0'', time_Date 2019 12 3 23 59 59 0),
      (''15.1'', time_Date 2020 11 30 23 59 59 0),
      (''15.2'', time_Date 2021 11 30 23 59 59 0),
      (''15.3'', time_Date 2022 11 30 23 59 59 0),
      (''15.4'', time_Date 2023 11 30 23 59 59 0),
      (''15.5'', time_Date 2024 12 31 23 59 59 0),
      (''15.6'', time_Date 2025 12 31 23 59 59 0),
      (''16.0'', time_Date 2027 10 31 23 59 59 0)]"

datatype suse_Type =
  suse_SUSEEnterpriseLinux | suse_SUSEEnterpriseLinuxMicro | suse_OpenSUSE | suse_OpenSUSETumbleweed

fun suse_NewScanner :: "suse_Type \<Rightarrow> vuln_source" where
  "suse_NewScanner suse_SUSEEnterpriseLinux = VS_SUSEEnterpriseLinux"
| "suse_NewScanner suse_SUSEEnterpriseLinuxMicro = VS_SUSEEnterpriseLinuxMicro"
| "suse_NewScanner suse_OpenSUSE = VS_OpenSUSE"
| "suse_NewScanner suse_OpenSUSETumbleweed = VS_OpenSUSETumbleweed"

definition suse_Detect :: "('d, 'a, 'r) vuln_env \<Rightarrow> vuln_source \<Rightarrow> string \<Rightarrow> Package list \<Rightarrow>
    DetectedVulnerability list result" where
  "suse_Detect env vs osVer pkgs =
     collect (\<lambda>pkg.
       bind_result (wrap_err ''failed to get SUSE advisory: %w'' []
           (vs_Get env vs (get_params osVer (Pkg_Name pkg)))) (\<lambda>advisories.
       let installed = FormatVersion pkg;
           installedVersion = rpm_NewVersion env installed
       in Inr (concat (map (\<lambda>adv.
            let fixedVersion = rpm_NewVersion env (Adv_FixedVersion adv);
                vuln = (vuln_of pkg adv)\<lparr>DV_InstalledVersion := installed\<rparr>
            in if rpm_LessThan env installedVersion fixedVersion
               then [vuln\<lparr>DV_FixedVersion := Adv_FixedVersion adv\<rparr>] else [])
          advisories)))) pkgs"

definition suse_IsSupportedVersion :: "go_time \<Rightarrow> OSType \<Rightarrow> string \<Rightarrow> bool" where
  "suse_IsSupportedVersion now osFamily osVer =
     (if osFamily = SLES then Supported now slesEolDates osFamily osVer
      else if osFamily = SLEMicro then Supported now slemicroEolDates osFamily osVer
      else if osFamily = OpenSUSETumbleweed then True
      else Supported now opensuseEolDates osFamily osVer)"

section \<open>Ubuntu (ubuntu/ubuntu.go)\<close>

definition ubuntu_eolDates :: "(string \<times> go_time) list" where
  "ubuntu_eolDates =
     [(''4.10'', time_Date 2006 4 30 23 59 59 0),
      (''5.04'', time_Date 2006 10 31 23 59 59 0),
      (''5.10'', time_Date 2007 4 13 23 59 59 0),
      (''6.06'', time_Date 2011 6 1 23 59 59 0),
      (''6.10'', time_Date 2008 4 25 23 59 59 0),
      (''7.04'', time_Date 2008 10 19 23 59 59 0),
      (''7.10'', time_Date 2009 4 18 23 59 59 0),
      (''8.04'', time_Date 2013 5 9 23 59 59 0),
      (''8.10'', time_Date 2010 4 30 23 59 59 0),
      (''9.04'', time_Date 2010 10 23 23 59 59 0),
      (''9.10'', time_Date 2011 4 29 23 59 59 0),
      (''10.04'', time_Date 2015 4 29 23 59 59 0),
      (''10.10'', time_Date 2012 4 10 23 59 59 0),
      (''11.04'', time_Date 2012 10 28 23 59 59 0),
      (''11.10'', time_Date 2013 5 9 23 59 59 0),
      (''12.04'', time_Date 2019 4 26 23 59 59 0),
      (''12.04-ESM'', time_Date 2019 4 28 23 59 59 0),
      (''12.10'', time_Date 2014 5 16 23 59 59 0),
      (''13.04'', time_Date 2014 1 27 23 59 59 0),
      (''13.10'', time_Date 2014 7 17 23 59 59 0),
      (''14.04'', time_Date 2022 4 25 23 59 59 0),
      (''14.04-ESM'', time_Date 2024 4 25 23 59 59 0),
      (''14.10'', time_Date 2015 7 23 23 59 59 0),
      (''15.04'', time_Date 2016 1 23 23 59 59 0),
      (''15.10'', time_Date 2016 7 22 23 59 59 0),
      (''16.04'', time_Date 2021 4 21 23 59 59 0),
      (''16.04-ESM'', time_Date 2026 4 29 23 59 59 0),
      (''16.10'', time_Date 2017 7 20 23 59 59 0),
      (''17.04'', time_Date 2018 1 13 23 59 59 0),
      (''17.10'', time_Date 2018 7 19 23 59 59 0),
      (''18.04'', time_Date 2023 5 31 23 59 59 0),
      (''18.04-ESM'', time_Date 2028 3 31 23 59 59 0),
      (''18.10'', time_Date 2019 7 18 23 59 59 0),
      (''19.04'', time_Date 2020 1 18 23 59 59 0),
      (''19.10'', time_Date 2020 7 17 23 59 59 0),
      (''20.04'', time_Date 2025 5 31 23 59 59 0),
      (''20.04-ESM'', time_Date 2030 4 30 23 59 59 0),
      (''20.10'', time_Date 2021 7 22 23 59 59 0),
      (''21.04'', time_Date 2022 1 20 23 59 59 0),
      (''21.10'', time_Date 2022 7 14 23 59 59 0),
      (''22.04'', time_Date 2027 4 23 23 59 59 0),
      (''22.10'', time_Date 2023 7 20 23 59 59 0),
      (''23.04'', time_Date 2024 1 20 23 59 59 0),
      (''23.10'', time_Date 2024 6 30 23 59 59 0),
      (''24.04'', time_Date 2034 3 31 23 59 59 0),
      (''24.10'', time_Date 2025 7 9 23 59 59 0),
      (''25.04'', time_Date 2026 1 16 23 59 59 0),
      (''25.10'', time_Date 2026 7 1 23 59 59 0),
      (''26.04'', time_Date 2031 5 31 23 59 59 0)]"

text \<open>\<open>strings.TrimRight\<close> removes trailing characters of the cutset; the scanner carries its table.\<close>

definition trimRight :: "string \<Rightarrow> string \<Rightarrow> string" where
  "trimRight s cutset = rev (dropWhile (\<lambda>c. c \<in> set cutset) (rev s))"

definition versionFromEolDates :: "(string \<times> go_time) list \<Rightarrow> go_time \<Rightarrow> string \<Rightarrow> string" where
  "versionFromEolDates eolDates now osVer =
     (if map_of eolDates osVer \<noteq> None then osVer
      else
        let ver = trimRight osVer ''-ESM''
        in case map_of eolDates ver of
             Some eol \<Rightarrow> if time_Before now eol then ver else osVer
           | None \<Rightarrow> osVer)"

definition ubuntu_Detect :: "('d, 'a, 'r) vuln_env \<Rightarrow> (string \<times> go_time) list \<Rightarrow> go_time \<Rightarrow> string \<Rightarrow> Package list \<Rightarrow>
    DetectedVulnerability list result" where
  "ubuntu_Detect env eolDates now osVer0 pkgs =
     (let osVer = versionFromEolDates eolDates now osVer0 in
      collect (\<lambda>pkg.
        bind_result (wrap_err ''failed to get Ubuntu advisories: %w'' []
            (vs_Get env VS_Ubuntu (get_params osVer (Pkg_SrcName pkg)))) (\<lambda>advisories.
        case deb_NewVersion env (FormatSrcVersion pkg) of
          Inl _ \<Rightarrow> Inr []
        | Inr sourceVersion \<Rightarrow>
            Inr (concat (map (\<lambda>adv.
              let vuln = (vuln_of pkg adv)\<lparr>DV_InstalledVersion := FormatVersion pkg,
                           DV_FixedVersion := Adv_FixedVersion adv\<rparr>
              in if Adv_FixedVersion adv = [] then [vuln]
                 else case deb_NewVersion env (Adv_FixedVersion adv) of
                        Inl _ \<Rightarrow> []
                      | Inr fixedVersion \<Rightarrow> if deb_LessThan env sourceVersion fixedVersion then [vuln] else [])
              advisories)))) pkgs)"

definition ubuntu_IsSupportedVersion :: "(string \<times> go_time) list \<Rightarrow> go_time \<Rightarrow> OSType \<Rightarrow> string \<Rightarrow> bool" where
  "ubuntu_IsSupportedVersion eolDates now osFamily osVer =
     Supported now eolDates osFamily (versionFromEolDates eolDates now osVer)"

section \<open>The contract of a driver\<close>

text \<open>What a finding must say of the package it is about.\<close>

definition about :: "DetectedVulnerability \<Rightarrow> Package \<Rightarrow> bool" where
  "about v p \<longleftrightarrow> DV_PkgName v = Pkg_Name p \<and> DV_PkgIdentifier v = Pkg_Identifier p \<and> DV_Layer v = Pkg_Layer p"

text \<open>
  A driver reports findings about the packages it was given and nothing for no packages; a driver
  that treats its packages one by one distributes over concatenation.
\<close>

locale vuln_driver =
  fixes detect :: "Package list \<Rightarrow> DetectedVulnerability list result"
  assumes detect_Nil: "detect [] = Inr []"
    and detect_about: "detect pkgs = Inr vs \<Longrightarrow> v \<in> set vs \<Longrightarrow> \<exists>p \<in> set pkgs. about v p"
begin

lemma detect_filter_about: "detect (filter P pkgs) = Inr vs \<Longrightarrow> v \<in> set vs \<Longrightarrow> \<exists>p \<in> set pkgs. P p \<and> about v p"
  using detect_about by fastforce

end

locale pkgwise_driver = vuln_driver +
  assumes detect_append:
    "detect (xs @ ys) = bind_result (detect xs) (\<lambda>vs. bind_result (detect ys) (\<lambda>ws. Inr (vs @ ws)))"
begin

lemma detect_Cons:
  "detect (x # xs) = bind_result (detect [x]) (\<lambda>vs. bind_result (detect xs) (\<lambda>ws. Inr (vs @ ws)))"
  using detect_append [of "[x]" xs] by simp

text \<open>Dropping packages can only drop findings, and never introduces an error.\<close>

lemma detect_filter_subseq: "detect pkgs = Inr vs \<Longrightarrow> \<exists>ws. detect (filter P pkgs) = Inr ws \<and> subseq ws vs"
proof (induction pkgs arbitrary: vs)
  case Nil
  then show ?case by (simp add: detect_Nil)
next
  case (Cons p pkgs)
  then obtain us ws where *: "detect [p] = Inr us" "detect pkgs = Inr ws" "vs = us @ ws"
    by (subst (asm) (2) detect_Cons) auto
  then obtain ws' where "detect (filter P pkgs) = Inr ws'" "subseq ws' ws" using Cons.IH by blast
  then show ?case
    using * detect_Cons [of p "filter P pkgs"] by (auto intro: list_emb_append_mono subseq_drop_many)
qed

end

lemma collect_append:
  "collect f (xs @ ys) = bind_result (collect f xs) (\<lambda>vs. bind_result (collect f ys) (\<lambda>ws. Inr (vs @ ws)))"
proof (induction xs)
  case Nil
  show ?case by (cases "collect f ys") auto
next
  case (Cons x xs)
  then show ?case by (cases "f x"; cases "collect f xs"; cases "collect f ys") auto
qed

lemma collect_mem: "collect f xs = Inr vs \<Longrightarrow> v \<in> set vs \<Longrightarrow> \<exists>x \<in> set xs. \<exists>us. f x = Inr us \<and> v \<in> set us"
  by (induction xs arbitrary: vs) fastforce+

lemma collect_pkgwise:
  assumes "\<And>p vs v. f p = Inr vs \<Longrightarrow> v \<in> set vs \<Longrightarrow> about v p"
  shows "pkgwise_driver (collect f)"
  by unfold_locales (use assms in \<open>auto simp: collect_append dest!: collect_mem\<close>)

text \<open>Skipping a version that does not parse.\<close>

lemma skip_result:
  "(case r of Inl e \<Rightarrow> Inr [] | Inr x \<Rightarrow> f x) = Inr vs \<longleftrightarrow>
     (vs = [] \<and> \<not> is_ok r) \<or> (\<exists>x. r = Inr x \<and> f x = Inr vs)"
  by (cases r) auto

lemma skip_elem: "v \<in> set (case r of Inl e \<Rightarrow> [] | Inr x \<Rightarrow> g x) \<longleftrightarrow> (\<exists>x. r = Inr x \<and> v \<in> set (g x))"
  by (cases r) auto

lemma about_vuln_of [simp]:
  "about (vuln_of pkg adv) pkg"
  "about (v\<lparr>DV_InstalledVersion := x\<rparr>) pkg = about v pkg"
  "about (v\<lparr>DV_FixedVersion := x\<rparr>) pkg = about v pkg"
  "about (v\<lparr>DV_VendorIDs := xs\<rparr>) pkg = about v pkg"
  "about (v\<lparr>DV_Status := st\<rparr>) pkg = about v pkg"
  "about (v\<lparr>DV_SeveritySource := x\<rparr>) pkg = about v pkg"
  "about (v\<lparr>DV_Custom := x\<rparr>) pkg = about v pkg"
  "about (v\<lparr>DV_Vulnerability := d\<rparr>) pkg = about v pkg"
  by (simp_all add: about_def vuln_of_def)

lemma about_with_severity [simp]: "about (with_severity env src adv v) pkg = about v pkg"
  by (simp add: with_severity_def)

section \<open>The drivers meet it\<close>

interpretation drv_alma: pkgwise_driver "alma_Detect env osVer" for env :: "('d, 'a, 'r) vuln_env" and osVer
  unfolding alma_Detect_def [abs_def] Let_def by (rule collect_pkgwise) (auto split: if_splits)

interpretation drv_alpine: pkgwise_driver "alpine_Detect env osVer repo" for env :: "('d, 'a, 'r) vuln_env" and osVer repo
  unfolding alpine_Detect_def [abs_def] Let_def by (rule collect_pkgwise) (auto simp: skip_result skip_elem split: if_splits)

interpretation drv_amazon: pkgwise_driver "amazon_Detect env osVer" for env :: "('d, 'a, 'r) vuln_env" and osVer
  unfolding amazon_Detect_def [abs_def] Let_def by (rule collect_pkgwise) (auto simp: skip_result skip_elem split: if_splits)

interpretation drv_azure: pkgwise_driver "azure_Detect env vs osVer" for env :: "('d, 'a, 'r) vuln_env" and vs osVer
  unfolding azure_Detect_def [abs_def] Let_def
  by (rule collect_pkgwise) (auto simp: about_def split: if_splits)

interpretation drv_bottlerocket: pkgwise_driver "bottlerocket_Detect env" for env :: "('d, 'a, 'r) vuln_env"
  unfolding bottlerocket_Detect_def [abs_def] Let_def by (rule collect_pkgwise) (auto split: if_splits)

lemma apk_detect_pkgwise: "pkgwise_driver (apk_detect env vs message)"
  unfolding apk_detect_def [abs_def] Let_def by (rule collect_pkgwise) (auto simp: skip_result skip_elem)

interpretation drv_chainguard: pkgwise_driver "chainguard_Detect env" for env :: "('d, 'a, 'r) vuln_env"
  unfolding chainguard_Detect_def [abs_def] by (rule apk_detect_pkgwise)

interpretation drv_minimos: pkgwise_driver "minimos_Detect env" for env :: "('d, 'a, 'r) vuln_env"
  unfolding minimos_Detect_def [abs_def] by (rule apk_detect_pkgwise)

interpretation drv_wolfi: pkgwise_driver "wolfi_Detect env" for env :: "('d, 'a, 'r) vuln_env"
  unfolding wolfi_Detect_def [abs_def] by (rule apk_detect_pkgwise)

interpretation drv_coreos: pkgwise_driver coreos_Detect
  by unfold_locales (auto simp: coreos_Detect_def)

interpretation drv_debian: pkgwise_driver "debian_Detect env osVer" for env :: "('d, 'a, 'r) vuln_env" and osVer
  unfolding debian_Detect_def [abs_def] Let_def
  by (rule collect_pkgwise) (auto simp: skip_result skip_elem split: if_splits)

lemma echo_advisory_about: "echo_advisory env pkg i iv adv = Inr vs \<Longrightarrow> v \<in> set vs \<Longrightarrow> about v pkg"
  by (auto simp: echo_advisory_def Let_def split: if_splits)

interpretation drv_echo: pkgwise_driver "echo_Detect env" for env :: "('d, 'a, 'r) vuln_env"
  unfolding echo_Detect_def [abs_def] Let_def
  by (rule collect_pkgwise) (auto dest!: collect_mem dest: echo_advisory_about)

interpretation drv_oracle: pkgwise_driver "oracle_Detect env osVer" for env :: "('d, 'a, 'r) vuln_env" and osVer
  unfolding oracle_Detect_def [abs_def] Let_def by (rule collect_pkgwise) (auto split: if_splits)

interpretation drv_photon: pkgwise_driver "photon_Detect env osVer" for env :: "('d, 'a, 'r) vuln_env" and osVer
  unfolding photon_Detect_def [abs_def] Let_def by (rule collect_pkgwise) (auto split: if_splits)

interpretation drv_rocky: pkgwise_driver "rocky_Detect env osVer" for env :: "('d, 'a, 'r) vuln_env" and osVer
  unfolding rocky_Detect_def [abs_def] Let_def by (rule collect_pkgwise) auto

interpretation drv_suse: pkgwise_driver "suse_Detect env vs osVer" for env :: "('d, 'a, 'r) vuln_env" and vs osVer
  unfolding suse_Detect_def [abs_def] Let_def by (rule collect_pkgwise) (auto split: if_splits)

interpretation drv_ubuntu: pkgwise_driver "ubuntu_Detect env eolDates now osVer"
  for env :: "('d, 'a, 'r) vuln_env" and eolDates now osVer
  unfolding ubuntu_Detect_def [abs_def] Let_def
  by (rule collect_pkgwise) (auto simp: skip_result skip_elem split: if_splits)

text \<open>
  The Red Hat driver ranges over a map and sorts: what it needs of both is that they permute.
\<close>

definition id_less :: "DetectedVulnerability \<Rightarrow> DetectedVulnerability \<Rightarrow> bool" where
  "id_less v w \<longleftrightarrow> DV_VulnerabilityID v < DV_VulnerabilityID w"

definition env_ok :: "('d, 'a, 'r) vuln_env \<Rightarrow> bool" where
  "env_ok env \<longleftrightarrow> is_range (range_advisories env) \<and> sorter (less_cmp id_less) (sort_by_id env)"

lemma redhat_vuln_about: "v \<in> set (redhat_vuln env pkg adv) \<Longrightarrow> about v pkg"
  by (auto simp: redhat_vuln_def Let_def about_def split: if_splits)

lemma sort_by_id_set: "env_ok env \<Longrightarrow> set (sort_by_id env vs) = set vs"
  by (metis env_ok_def sorter.sort_set)

lemma redhat_driver_ok:
  assumes "env_ok env"
  shows "pkgwise_driver (redhat_Detect env osVer)"
proof -
  have "about v pkg" if "redhat_detect env ver pkg = Inr vs" "v \<in> set vs" for ver pkg vs v
    using that by (auto simp: redhat_detect_def Let_def sort_by_id_set [OF assms] dest: redhat_vuln_about)
  then show ?thesis
    unfolding redhat_Detect_def [abs_def] by (intro collect_pkgwise) auto
qed

section \<open>One finding per vulnerability on Red Hat\<close>

definition applicable :: "Package \<Rightarrow> Advisory \<Rightarrow> bool" where
  "applicable pkg adv \<longleftrightarrow> Adv_Arches adv = [] \<or> Pkg_Arch pkg = ''noarch'' \<or> Pkg_Arch pkg \<in> set (Adv_Arches adv)"

abbreviation fixed_less :: "('d, 'a, 'r) vuln_env \<Rightarrow> Advisory \<Rightarrow> Advisory \<Rightarrow> bool" where
  "fixed_less env a b \<equiv>
     rpm_LessThan env (rpm_NewVersion env (Adv_FixedVersion a)) (rpm_NewVersion env (Adv_FixedVersion b))"

text \<open>What the driver relies on of the order of versions: a strict weak order.\<close>

definition version_order :: "('v \<Rightarrow> 'v \<Rightarrow> bool) \<Rightarrow> bool" where
  "version_order lt \<longleftrightarrow> (\<forall>x y. lt x y \<longrightarrow> \<not> lt y x) \<and> (\<forall>x y z. lt x z \<longrightarrow> lt x y \<or> lt y z)"

text \<open>The map after the loop: for every vulnerability an applicable advisory that no other one exceeds.\<close>

definition uniq_inv :: "('d, 'a, 'r) vuln_env \<Rightarrow> Package \<Rightarrow> Advisory list \<Rightarrow> (string \<times> Advisory) list \<Rightarrow> bool" where
  "uniq_inv env pkg advs m \<longleftrightarrow>
     map_ok m \<and>
     (\<forall>i a. map_of m i = Some a \<longrightarrow> a \<in> set advs \<and> applicable pkg a \<and> Adv_VulnerabilityID a = i \<and>
        (\<forall>b \<in> set advs. applicable pkg b \<longrightarrow> Adv_VulnerabilityID b = i \<longrightarrow> \<not> fixed_less env a b)) \<and>
     (\<forall>b \<in> set advs. applicable pkg b \<longrightarrow> map_of m (Adv_VulnerabilityID b) \<noteq> None)"

lemma uniq_advisory_inv:
  assumes ord: "version_order (rpm_LessThan env)" and inv: "uniq_inv env pkg advs m"
  shows "uniq_inv env pkg (advs @ [x]) (uniq_advisory env pkg x m)"
proof (cases "applicable pkg x")
  case False
  then have "uniq_advisory env pkg x m = m" by (auto simp: uniq_advisory_def applicable_def)
  then show ?thesis using inv False unfolding uniq_inv_def by (simp add: ball_Un)
next
  case True
  then have step: "uniq_advisory env pkg x m =
      (case map_of m (Adv_VulnerabilityID x) of
         Some a \<Rightarrow> if fixed_less env a x then AList.update (Adv_VulnerabilityID x) x m else m
       | None \<Rightarrow> AList.update (Adv_VulnerabilityID x) x m)"
    by (auto simp: uniq_advisory_def applicable_def)
  have irr: "\<not> fixed_less env x x" using ord by (auto simp: version_order_def)
  show ?thesis
  proof (cases "map_of m (Adv_VulnerabilityID x)")
    case None
    then have none: "\<forall>b \<in> set advs. applicable pkg b \<longrightarrow> Adv_VulnerabilityID b \<noteq> Adv_VulnerabilityID x"
      using inv unfolding uniq_inv_def by metis
    then show ?thesis
      using inv True irr unfolding uniq_inv_def step None
      by (auto simp: update_conv' map_ok_update ball_Un)
  next
    case (Some a)
    have a: "\<forall>b \<in> set advs. applicable pkg b \<longrightarrow> Adv_VulnerabilityID b = Adv_VulnerabilityID x \<longrightarrow> \<not> fixed_less env a b"
      using inv Some unfolding uniq_inv_def by blast
    show ?thesis
    proof (cases "fixed_less env a x")
      case True
      then have "\<forall>b \<in> set advs. applicable pkg b \<longrightarrow> Adv_VulnerabilityID b = Adv_VulnerabilityID x \<longrightarrow> \<not> fixed_less env x b"
        using a ord unfolding version_order_def by blast
      then show ?thesis
        using inv irr \<open>applicable pkg x\<close> True unfolding uniq_inv_def step Some
        by (auto simp: update_conv' map_ok_update ball_Un)
    next
      case False
      then show ?thesis
        using inv \<open>applicable pkg x\<close> Some unfolding uniq_inv_def step
        by (auto simp: ball_Un)
    qed
  qed
qed

lemma uniq_fold_inv:
  "version_order (rpm_LessThan env) \<Longrightarrow> uniq_inv env pkg advs (fold (uniq_advisory env pkg) advs [])"
proof (induction advs rule: rev_induct)
  case Nil
  then show ?case by (simp add: uniq_inv_def)
next
  case (snoc x advs)
  then show ?case using uniq_advisory_inv [of env pkg advs _ x] by simp
qed

lemma redhat_vuln_id: "v \<in> set (redhat_vuln env pkg a) \<Longrightarrow> DV_VulnerabilityID v = Adv_VulnerabilityID a"
  by (auto simp: redhat_vuln_def Let_def split: if_splits)

lemma redhat_vuln_length: "length (redhat_vuln env pkg a) \<le> 1"
  by (simp add: redhat_vuln_def Let_def)

lemma redhat_vulns_distinct:
  assumes "distinct (map fst xs)" "\<forall>(i, a) \<in> set xs. Adv_VulnerabilityID a = i"
  shows "distinct (map DV_VulnerabilityID (concat (map (\<lambda>(_, a). redhat_vuln env pkg a) xs)))"
  using assms
proof (induction xs)
  case (Cons x xs)
  obtain i a where x: "x = (i, a)" by force
  have "distinct (map DV_VulnerabilityID (redhat_vuln env pkg a))"
    using redhat_vuln_length [of env pkg a] by (cases "redhat_vuln env pkg a") auto
  moreover have "DV_VulnerabilityID v \<noteq> DV_VulnerabilityID w"
    if "v \<in> set (redhat_vuln env pkg a)" "(j, b) \<in> set xs" "w \<in> set (redhat_vuln env pkg b)" for v w j b
    using that Cons.prems by (force simp: x dest!: redhat_vuln_id)
  ultimately show ?case using Cons by (fastforce simp: x)
qed simp

text \<open>C3. For every package, the Red Hat driver reports at most one finding per vulnerability, in the
  order of their identifiers. A finding comes from an applicable advisory whose fixed version no
  other applicable advisory for that vulnerability exceeds, and a vulnerability is reported whenever
  the installed version is below the fixed version of some applicable advisory.\<close>

theorem redhat_latest_advisory:
  assumes "env_ok env" "version_order (rpm_LessThan env)" "redhat_query env osVer pkg = Inr advs"
  shows "\<exists>vs. redhat_detect env osVer pkg = Inr vs \<and>
    sorted_wrt (<) (map DV_VulnerabilityID vs) \<and>
    (\<forall>v \<in> set vs. \<exists>a \<in> set advs. applicable pkg a \<and> redhat_vuln env pkg a = [v] \<and>
       (\<forall>b \<in> set advs. applicable pkg b \<and> Adv_VulnerabilityID b = Adv_VulnerabilityID a \<longrightarrow> \<not> fixed_less env a b)) \<and>
    (\<forall>b \<in> set advs. applicable pkg b \<and>
       rpm_LessThan env (rpm_NewVersion env (FormatVersion pkg)) (rpm_NewVersion env (Adv_FixedVersion b)) \<longrightarrow>
       Adv_VulnerabilityID b \<in> DV_VulnerabilityID ` set vs)"
proof -
  let ?m = "fold (uniq_advisory env pkg) advs []"
  let ?xs = "range_advisories env ?m"
  let ?vs = "concat (map (\<lambda>(_, a). redhat_vuln env pkg a) ?xs)"
  have inv: "uniq_inv env pkg advs ?m" using assms(2) by (rule uniq_fold_inv)
  have range: "is_range (range_advisories env)" and sort: "sorter (less_cmp id_less) (sort_by_id env)"
    using assms(1) by (auto simp: env_ok_def)
  have xs: "set ?xs = set ?m" using is_range_set [OF range] .
  have lookup: "(i, a) \<in> set ?xs \<longleftrightarrow> map_of ?m i = Some a" for i a
    using inv xs by (simp add: uniq_inv_def map_ok_def)
  have "distinct (map fst ?xs)"
    using inv is_range_mset [OF range, of ?m] unfolding uniq_inv_def map_ok_def by (metis mset_map mset_eq_imp_distinct_iff)
  moreover have ids: "Adv_VulnerabilityID a = i" if "(i, a) \<in> set ?xs" for i a
    using that inv unfolding lookup uniq_inv_def by blast
  ultimately have "distinct (map DV_VulnerabilityID ?vs)" by (intro redhat_vulns_distinct) auto
  then have "distinct (map DV_VulnerabilityID (sort_by_id env ?vs))"
    using sorter.sort_mset [OF sort, of ?vs] by (metis mset_map mset_eq_imp_distinct_iff)
  moreover have "sorted (map DV_VulnerabilityID (sort_by_id env ?vs))"
    using sorter.sort_sorted [OF sort strict_weak_key [of id_less DV_VulnerabilityID], of ?vs]
    by (simp add: id_less_def sorted_wrt_map less_cmp_le_key [of id_less DV_VulnerabilityID])
  ultimately have strict: "sorted_wrt (<) (map DV_VulnerabilityID (sort_by_id env ?vs))"
    by (simp add: strict_sorted_iff)
  have sound: "\<exists>a \<in> set advs. applicable pkg a \<and> redhat_vuln env pkg a = [v] \<and>
      (\<forall>b \<in> set advs. applicable pkg b \<and> Adv_VulnerabilityID b = Adv_VulnerabilityID a \<longrightarrow> \<not> fixed_less env a b)"
    if "v \<in> set ?vs" for v
  proof -
    from that obtain i a where a: "map_of ?m i = Some a" "v \<in> set (redhat_vuln env pkg a)" by (auto simp: lookup)
    then have "redhat_vuln env pkg a = [v]"
      using redhat_vuln_length [of env pkg a] by (cases "redhat_vuln env pkg a") auto
    then show ?thesis using a(1) inv unfolding uniq_inv_def by blast
  qed
  have complete: "Adv_VulnerabilityID b \<in> DV_VulnerabilityID ` set ?vs"
    if b: "b \<in> set advs" "applicable pkg b"
      "rpm_LessThan env (rpm_NewVersion env (FormatVersion pkg)) (rpm_NewVersion env (Adv_FixedVersion b))" for b
  proof -
    obtain a where a: "map_of ?m (Adv_VulnerabilityID b) = Some a" "\<not> fixed_less env a b"
      using inv b unfolding uniq_inv_def by blast
    then have "rpm_LessThan env (rpm_NewVersion env (FormatVersion pkg)) (rpm_NewVersion env (Adv_FixedVersion a))"
      using b(3) assms(2) unfolding version_order_def by blast
    then obtain v where "redhat_vuln env pkg a = [v]" by (simp add: redhat_vuln_def Let_def)
    then have "v \<in> set ?vs" "DV_VulnerabilityID v = Adv_VulnerabilityID a"
      using a(1) redhat_vuln_id [of v env pkg a] by (auto simp: lookup intro!: bexI [of _ "(Adv_VulnerabilityID b, a)"])
    then show ?thesis using ids a(1) lookup by (metis image_eqI)
  qed
  have "redhat_detect env osVer pkg = Inr (sort_by_id env ?vs)"
    by (simp add: redhat_detect_def assms(3) Let_def)
  then show ?thesis
    using strict sound complete sort_by_id_set [OF assms(1), of ?vs] by (intro exI [of _ "sort_by_id env ?vs"]) auto
qed

text \<open>An environment whose versions are strings in lexicographic order, with a few advisories.\<close>

definition example_advisory :: "string \<Rightarrow> string \<Rightarrow> Advisory" where
  "example_advisory i fixed = \<lparr>Adv_VulnerabilityID = i, Adv_VendorIDs = [], Adv_Arches = [], Adv_Severity = 0,
     Adv_Status = 0, Adv_FixedVersion = fixed, Adv_AffectedVersion = [], Adv_VulnerableVersions = [],
     Adv_PatchedVersions = [], Adv_UnaffectedVersions = [], Adv_DataSource = None, Adv_Custom = []\<rparr>"

definition example_env :: "(string, string, string) vuln_env" where
  "example_env = \<lparr>deb_NewVersion = Inr, deb_LessThan = (<), deb_Compare = compare,
     apk_NewVersion = Inr, apk_LessThan = (<), apk_GreaterThan = (>), apk_Compare = compare,
     rpm_NewVersion = (\<lambda>s. s), rpm_LessThan = (<), rpm_Compare = compare, rpm_String = (\<lambda>s. s),
     vs_Get = (\<lambda>_ _. Inr [example_advisory ''CVE-2'' ''2'', example_advisory ''CVE-1'' ''0'']),
     redhat_Get = (\<lambda>_ _ _. Inr [example_advisory ''CVE-2'' ''2'', example_advisory ''CVE-1'' ''0'',
       example_advisory ''CVE-2'' ''3'']),
     PackageFlavor = (\<lambda>_. []), severity_String = (\<lambda>_. ''UNKNOWN''), toLower = (\<lambda>s. s),
     range_advisories = rev, sort_by_id = sort_stable_func (less_cmp id_less)\<rparr>"

definition example_package :: Package where
  "example_package = Package_empty\<lparr>Pkg_ID := ''openssl@1'', Pkg_Name := ''openssl'', Pkg_Version := ''1'',
     Pkg_SrcName := ''openssl'', Pkg_SrcVersion := ''1''\<rparr>"

lemma example_env_ok: "env_ok example_env"
  by (simp add: env_ok_def example_env_def stable.sorter_axioms)

lemma example_version_order: "version_order (rpm_LessThan example_env)"
  by (auto simp: version_order_def example_env_def)

theorem redhat_latest_advisory_witness:
  "redhat_detect example_env ''8'' example_package =
     Inr [hd (redhat_vuln example_env example_package (example_advisory ''CVE-2'' ''3''))] \<and>
   (\<exists>vs. redhat_detect example_env ''8'' example_package = Inr vs \<and> ''CVE-2'' \<in> DV_VulnerabilityID ` set vs)"
proof -
  have q: "redhat_query example_env ''8'' example_package = Inr [example_advisory ''CVE-2'' ''2'',
      example_advisory ''CVE-1'' ''0'', example_advisory ''CVE-2'' ''3'']"
    by (simp add: redhat_query_def example_env_def example_package_def Package_empty_def)
  have "redhat_detect example_env ''8'' example_package =
     Inr [hd (redhat_vuln example_env example_package (example_advisory ''CVE-2'' ''3''))]" by code_simp
  moreover have "applicable example_package (example_advisory ''CVE-2'' ''2'')" "FormatVersion example_package = ''1''"
    by code_simp+
  ultimately show ?thesis
    using redhat_latest_advisory [OF example_env_ok example_version_order q] by (auto simp: example_env_def example_advisory_def)
qed

section \<open>The end-of-life tables\<close>

text \<open>A table entry decides the answer for its version when the driver looks it up by that version.\<close>

lemma Supported_entry:
  assumes "map_ok m" "(v, eol) \<in> set m"
  shows "Supported now m fam v \<longleftrightarrow> now < eol"
proof -
  have "map_of m v = Some eol" using assms by (simp add: map_ok_def)
  then show ?thesis by (simp add: Supported_def time_Before_def)
qed

lemma eol_maps:
  "map_ok alma_eolDates" "map_ok alpine_eolDates" "map_ok amazon_eolDates" "map_ok debian_eolDates"
  "map_ok oracle_eolDates" "map_ok redhatEOLDates" "map_ok centosEOLDates" "map_ok rocky_eolDates"
  "map_ok ubuntu_eolDates" "map_ok photon_eolDates" "map_ok slesEolDates" "map_ok slemicroEolDates"
  "map_ok opensuseEolDates"
  by code_simp+

lemma eol_keys:
  "list_all (\<lambda>(v, _). Major v = v) alma_eolDates" "list_all (\<lambda>(v, _). Minor v = v) alpine_eolDates"
  "list_all (\<lambda>(v, _). majorVersion v = v) amazon_eolDates" "list_all (\<lambda>(v, _). Major v = v) oracle_eolDates"
  "list_all (\<lambda>(v, _). Major v = v) redhatEOLDates" "list_all (\<lambda>(v, _). Major v = v) centosEOLDates"
  "list_all (\<lambda>(v, _). Major v = v) rocky_eolDates"
  by code_simp+

text \<open>Every entry of the tables of AlmaLinux, Alpine, Amazon Linux, Oracle Linux, Red Hat, CentOS,
  Rocky Linux, Photon OS, SUSE and Ubuntu is effective: the version it names is supported exactly
  until its end-of-life date.\<close>

theorem eol_entries_effective:
  "(\<forall>(v, eol) \<in> set alma_eolDates. alma_IsSupportedVersion now fam v = (now < eol)) \<and>
   (\<forall>(v, eol) \<in> set alpine_eolDates. alpine_IsSupportedVersion now fam v = (now < eol)) \<and>
   (\<forall>(v, eol) \<in> set amazon_eolDates. amazon_IsSupportedVersion now fam v = (now < eol)) \<and>
   (\<forall>(v, eol) \<in> set oracle_eolDates. oracle_IsSupportedVersion now fam v = (now < eol)) \<and>
   (\<forall>(v, eol) \<in> set redhatEOLDates. redhat_IsSupportedVersion now RedHat v = (now < eol)) \<and>
   (\<forall>(v, eol) \<in> set centosEOLDates. redhat_IsSupportedVersion now CentOS v = (now < eol)) \<and>
   (\<forall>(v, eol) \<in> set rocky_eolDates. rocky_IsSupportedVersion now fam v = (now < eol)) \<and>
   (\<forall>(v, eol) \<in> set photon_eolDates. photon_IsSupportedVersion now fam v = (now < eol)) \<and>
   (\<forall>(v, eol) \<in> set slesEolDates. suse_IsSupportedVersion now SLES v = (now < eol)) \<and>
   (\<forall>(v, eol) \<in> set ubuntu_eolDates. ubuntu_IsSupportedVersion ubuntu_eolDates now fam v = (now < eol))"
proof -
  have keys: "\<forall>(v, eol) \<in> set m. Supported now m f (norm v) = (now < eol)"
    if "map_ok m" "list_all (\<lambda>(v, _). norm v = v) m" for m :: "(string \<times> go_time) list" and norm f
    using that Supported_entry by (fastforce simp: list_all_iff)
  have raw: "\<forall>(v, eol) \<in> set m. Supported now m f v = (now < eol)" if "map_ok m" for m :: "(string \<times> go_time) list" and f
    using that Supported_entry by fastforce
  have "list_all (\<lambda>(v, _). versionFromEolDates m now v = v) m" for m :: "(string \<times> go_time) list"
    by (force simp: list_all_iff versionFromEolDates_def map_of_eq_None_iff image_iff)
  then show ?thesis
    using eol_maps eol_keys
    by (simp add: keys raw alma_IsSupportedVersion_def alpine_IsSupportedVersion_def amazon_IsSupportedVersion_def
        oracle_IsSupportedVersion_def redhat_IsSupportedVersion_def rocky_IsSupportedVersion_def
        photon_IsSupportedVersion_def suse_IsSupportedVersion_def ubuntu_IsSupportedVersion_def)
qed

theorem eol_entries_effective_witness:
  "alpine_IsSupportedVersion (time_Date 2024 1 1 0 0 0 0) Alpine ''3.17'' \<and>
   \<not> alpine_IsSupportedVersion (time_Date 2025 1 1 0 0 0 0) Alpine ''3.17''"
proof -
  have entry: "(''3.17'', time_Date 2024 11 22 23 59 59 0) \<in> set alpine_eolDates" by (simp add: alpine_eolDates_def)
  have "\<forall>(v, eol) \<in> set alpine_eolDates. alpine_IsSupportedVersion now Alpine v = (now < eol)" for now
    using eol_entries_effective [of now Alpine] by (elim conjE) assumption
  from bspec [OF this entry]
  have "alpine_IsSupportedVersion now Alpine ''3.17'' = (now < time_Date 2024 11 22 23 59 59 0)" for now by simp
  moreover have "time_Date 2024 1 1 0 0 0 0 < time_Date 2024 11 22 23 59 59 0"
    "\<not> time_Date 2025 1 1 0 0 0 0 < time_Date 2024 11 22 23 59 59 0" by code_simp+
  ultimately show ?thesis by simp
qed

lemma debian_dotted_keys:
  "list_all (\<lambda>(v, _). CHR ''.'' \<in> set v \<longrightarrow> map_of debian_eolDates (Major v) = None) debian_eolDates"
  by code_simp

text \<open>The entries of the Debian table whose version has a minor part, 1.1 to 6.0, are never consulted:
  the driver looks up the major version, finds nothing and reports these releases as supported at any
  time.\<close>

theorem debian_dotted_entries_ignored:
  assumes "map_of debian_eolDates v = Some eol" "CHR ''.'' \<in> set v"
  shows "debian_IsSupportedVersion now fam v"
  using debian_dotted_keys map_of_SomeD [OF assms(1)] assms(2)
  by (auto simp: debian_IsSupportedVersion_def Supported_def list_all_iff)

text \<open>Debian 6.0, whose long-term support ended in 2016, is still supported in the year 2100.\<close>

theorem debian_dotted_entries_ignored_witness:
  "map_of debian_eolDates ''6.0'' = Some (time_Date 2016 2 29 23 59 59 0) \<and>
   debian_IsSupportedVersion (time_Date 2100 1 1 0 0 0 0) Debian ''6.0''"
proof -
  have "map_of debian_eolDates ''6.0'' = Some (time_Date 2016 2 29 23 59 59 0)" by (simp add: debian_eolDates_def)
  then show ?thesis using debian_dotted_entries_ignored [of "''6.0''" _ "time_Date 2100 1 1 0 0 0 0" Debian] by simp
qed

end
