(* ===== verification/Ospkg_Suppliers.thy ===== *)
theory Ospkg_Suppliers
  imports Ospkg_Drivers Go_Set
begin

text \<open>
  The drivers that suppliers create for a scan target, from what they see of its operating system
  and packages: Root.io (\<open>rootio\<close>), Seal (\<open>seal\<close>) and RapidFort (\<open>rapidfort\<close>) of
  \<open>pkg/detector/ospkg\<close>. Their advisories carry version constraints, which \<open>Ospkg_Version\<close> parses and
  checks. Letters and digits are those of ASCII.
\<close>

section \<open>Standard drivers as values\<close>

definition alma_driver :: "('d, 'a, 'r) vuln_env \<Rightarrow> driver" where
  "alma_driver env = \<lparr>drv_Detect = \<lambda>now osVer repo. alma_Detect env osVer,
     drv_IsSupportedVersion = alma_IsSupportedVersion, drv_FilterPackages = None\<rparr>"

definition alpine_driver :: "('d, 'a, 'r) vuln_env \<Rightarrow> driver" where
  "alpine_driver env = \<lparr>drv_Detect = \<lambda>now osVer repo. alpine_Detect env osVer repo,
     drv_IsSupportedVersion = alpine_IsSupportedVersion, drv_FilterPackages = None\<rparr>"

definition amazon_driver :: "('d, 'a, 'r) vuln_env \<Rightarrow> driver" where
  "amazon_driver env = \<lparr>drv_Detect = \<lambda>now osVer repo. amazon_Detect env osVer,
     drv_IsSupportedVersion = amazon_IsSupportedVersion, drv_FilterPackages = None\<rparr>"

definition azure_driver :: "('d, 'a, 'r) vuln_env \<Rightarrow> vuln_source \<Rightarrow> driver" where
  "azure_driver env vs = \<lparr>drv_Detect = \<lambda>now osVer repo. azure_Detect env vs osVer,
     drv_IsSupportedVersion = azure_IsSupportedVersion, drv_FilterPackages = None\<rparr>"

definition bottlerocket_driver :: "('d, 'a, 'r) vuln_env \<Rightarrow> driver" where
  "bottlerocket_driver env = \<lparr>drv_Detect = \<lambda>now osVer repo. bottlerocket_Detect env,
     drv_IsSupportedVersion = bottlerocket_IsSupportedVersion, drv_FilterPackages = None\<rparr>"

definition chainguard_driver :: "('d, 'a, 'r) vuln_env \<Rightarrow> driver" where
  "chainguard_driver env = \<lparr>drv_Detect = \<lambda>now osVer repo. chainguard_Detect env,
     drv_IsSupportedVersion = chainguard_IsSupportedVersion, drv_FilterPackages = None\<rparr>"

definition coreos_driver :: driver where
  "coreos_driver = \<lparr>drv_Detect = \<lambda>now osVer repo. coreos_Detect,
     drv_IsSupportedVersion = coreos_IsSupportedVersion, drv_FilterPackages = None\<rparr>"

definition debian_driver :: "('d, 'a, 'r) vuln_env \<Rightarrow> driver" where
  "debian_driver env = \<lparr>drv_Detect = \<lambda>now osVer repo. debian_Detect env osVer,
     drv_IsSupportedVersion = debian_IsSupportedVersion, drv_FilterPackages = None\<rparr>"

definition echo_driver :: "('d, 'a, 'r) vuln_env \<Rightarrow> driver" where
  "echo_driver env = \<lparr>drv_Detect = \<lambda>now osVer repo. echo_Detect env,
     drv_IsSupportedVersion = echo_IsSupportedVersion, drv_FilterPackages = Some echo_FilterPackages\<rparr>"

definition minimos_driver :: "('d, 'a, 'r) vuln_env \<Rightarrow> driver" where
  "minimos_driver env = \<lparr>drv_Detect = \<lambda>now osVer repo. minimos_Detect env,
     drv_IsSupportedVersion = minimos_IsSupportedVersion, drv_FilterPackages = None\<rparr>"

definition oracle_driver :: "('d, 'a, 'r) vuln_env \<Rightarrow> driver" where
  "oracle_driver env = \<lparr>drv_Detect = \<lambda>now osVer repo. oracle_Detect env osVer,
     drv_IsSupportedVersion = oracle_IsSupportedVersion, drv_FilterPackages = None\<rparr>"

definition photon_driver :: "('d, 'a, 'r) vuln_env \<Rightarrow> driver" where
  "photon_driver env = \<lparr>drv_Detect = \<lambda>now osVer repo. photon_Detect env osVer,
     drv_IsSupportedVersion = photon_IsSupportedVersion, drv_FilterPackages = None\<rparr>"

definition redhat_driver :: "('d, 'a, 'r) vuln_env \<Rightarrow> driver" where
  "redhat_driver env = \<lparr>drv_Detect = \<lambda>now osVer repo. redhat_Detect env osVer,
     drv_IsSupportedVersion = redhat_IsSupportedVersion, drv_FilterPackages = None\<rparr>"

definition rocky_driver :: "('d, 'a, 'r) vuln_env \<Rightarrow> driver" where
  "rocky_driver env = \<lparr>drv_Detect = \<lambda>now osVer repo. rocky_Detect env osVer,
     drv_IsSupportedVersion = rocky_IsSupportedVersion, drv_FilterPackages = None\<rparr>"

definition suse_driver :: "('d, 'a, 'r) vuln_env \<Rightarrow> suse_Type \<Rightarrow> driver" where
  "suse_driver env t = \<lparr>drv_Detect = \<lambda>now osVer repo. suse_Detect env (suse_NewScanner t) osVer,
     drv_IsSupportedVersion = suse_IsSupportedVersion, drv_FilterPackages = None\<rparr>"

definition ubuntu_driver :: "('d, 'a, 'r) vuln_env \<Rightarrow> driver" where
  "ubuntu_driver env = \<lparr>drv_Detect = \<lambda>now osVer repo. ubuntu_Detect env ubuntu_eolDates now osVer,
     drv_IsSupportedVersion = ubuntu_IsSupportedVersion ubuntu_eolDates, drv_FilterPackages = None\<rparr>"

definition wolfi_driver :: "('d, 'a, 'r) vuln_env \<Rightarrow> driver" where
  "wolfi_driver env = \<lparr>drv_Detect = \<lambda>now osVer repo. wolfi_Detect env,
     drv_IsSupportedVersion = wolfi_IsSupportedVersion, drv_FilterPackages = None\<rparr>"

text \<open>The comparers of \<open>Ospkg_Version\<close> on the libraries of the environment.\<close>

definition NewDEBComparer :: "('d, 'a, 'r) vuln_env \<Rightarrow> Comparer" where
  "NewDEBComparer env = DEBComparer_Compare (deb_NewVersion env) (deb_Compare env)"

definition NewAPKComparer :: "('d, 'a, 'r) vuln_env \<Rightarrow> Comparer" where
  "NewAPKComparer env = APKComparer_Compare (apk_NewVersion env) (apk_Compare env)"

definition NewRPMComparer :: "('d, 'a, 'r) vuln_env \<Rightarrow> Comparer" where
  "NewRPMComparer env = RPMComparer_Compare (rpm_NewVersion env) (rpm_Compare env)"

section \<open>Constraints of an advisory (rootio.go, seal.go)\<close>

text \<open>An error in one constraint string ends the loop with false.\<close>

fun constraints_loop :: "Comparer \<Rightarrow> string \<Rightarrow> string list \<Rightarrow> bool" where
  "constraints_loop comparer installedVersion [] = False"
| "constraints_loop comparer installedVersion (constraintStr # rest) =
     (case NewConstraints constraintStr comparer of
        Inl _ \<Rightarrow> False
      | Inr constraints \<Rightarrow>
          (case Constraints_Check constraints installedVersion of
             Inl _ \<Rightarrow> False
           | Inr satisfied \<Rightarrow> if satisfied then True else constraints_loop comparer installedVersion rest))"

definition checkConstraints :: "Comparer \<Rightarrow> string \<Rightarrow> string list \<Rightarrow> bool" where
  "checkConstraints comparer installedVersion constraintsStr =
     (if installedVersion = [] then False else constraints_loop comparer installedVersion constraintsStr)"

definition range_isVulnerable :: "Comparer \<Rightarrow> string \<Rightarrow> Advisory \<Rightarrow> bool" where
  "range_isVulnerable comparer installedVersion adv =
     (if Adv_VulnerableVersions adv = [] then True
      else checkConstraints comparer installedVersion (Adv_VulnerableVersions adv))"

section \<open>Root.io (rootio/rootio.go, rootio/supplier.go)\<close>

record rootio_Scanner =
  rootio_comparer :: Comparer
  rootio_vsg :: vuln_source
  rootio_versionTrimmer :: "string \<Rightarrow> string"

definition rootio_NewScanner :: "('d, 'a, 'r) vuln_env \<Rightarrow> OSType \<Rightarrow> rootio_Scanner" where
  "rootio_NewScanner env baseOS =
     (if baseOS = Debian then
        \<lparr>rootio_comparer = NewDEBComparer env, rootio_vsg = VS_Rootio ''debian'', rootio_versionTrimmer = Major\<rparr>
      else if baseOS = Ubuntu then
        \<lparr>rootio_comparer = NewDEBComparer env, rootio_vsg = VS_Rootio ''ubuntu'', rootio_versionTrimmer = Minor\<rparr>
      else if baseOS = Alpine then
        \<lparr>rootio_comparer = NewAPKComparer env, rootio_vsg = VS_Rootio ''alpine'', rootio_versionTrimmer = Minor\<rparr>
      else
        \<lparr>rootio_comparer = NewDEBComparer env, rootio_vsg = VS_Rootio ''debian'', rootio_versionTrimmer = Major\<rparr>)"

text \<open>Reading the identifier of the data source panics when the advisory has none.\<close>

definition rootio_advisory :: "('d, 'a, 'r) vuln_env \<Rightarrow> rootio_Scanner \<Rightarrow> Package \<Rightarrow> Advisory \<Rightarrow>
    DetectedVulnerability list result" where
  "rootio_advisory env s pkg adv =
     (if \<not> range_isVulnerable (rootio_comparer s) (FormatSrcVersion pkg) adv then Inr []
      else
        let vuln = (vuln_of pkg adv)\<lparr>DV_InstalledVersion := FormatVersion pkg,
                     DV_FixedVersion := join (Adv_PatchedVersions adv) '', ''\<rparr>
        in if Adv_Severity adv \<noteq> SeverityUnknown then
             bind_result (deref (Adv_DataSource adv)) (\<lambda>ds.
             Inr [vuln\<lparr>DV_Vulnerability := severity_vuln (severity_String env (Adv_Severity adv)),
                       DV_SeveritySource := DS_ID ds\<rparr>])
           else Inr [vuln])"

definition rootio_Detect :: "('d, 'a, 'r) vuln_env \<Rightarrow> rootio_Scanner \<Rightarrow> string \<Rightarrow> Package list \<Rightarrow>
    DetectedVulnerability list result" where
  "rootio_Detect env s osVer0 pkgs =
     (let osVer = rootio_versionTrimmer s osVer0 in
      collect (\<lambda>pkg.
        let srcName = (if Pkg_SrcName pkg = [] then Pkg_Name pkg else Pkg_SrcName pkg) in
        bind_result (wrap_err ''failed to get Root.io advisories: %w'' []
            (vs_Get env (rootio_vsg s) (get_params osVer srcName))) (\<lambda>advisories.
        collect (rootio_advisory env s pkg) advisories)) pkgs)"

definition rootio_IsSupportedVersion :: "go_time \<Rightarrow> OSType \<Rightarrow> string \<Rightarrow> bool" where
  "rootio_IsSupportedVersion now osFamily osVer = True"

definition rootio_driver :: "('d, 'a, 'r) vuln_env \<Rightarrow> rootio_Scanner \<Rightarrow> driver" where
  "rootio_driver env s = \<lparr>drv_Detect = \<lambda>now osVer repo. rootio_Detect env s osVer,
     drv_IsSupportedVersion = rootio_IsSupportedVersion, drv_FilterPackages = None\<rparr>"

text \<open>The patterns \<open>\.root\.io\<close> and \<open>-r\d007\d\<close> match anywhere in the version.\<close>

definition debianRootIOPattern :: "string \<Rightarrow> bool" where
  "debianRootIOPattern s = containsStr s ''.root.io''"

fun alpine_root_at :: "string \<Rightarrow> bool" where
  "alpine_root_at (a # b # c # d # e # f # g # rest) \<longleftrightarrow>
     [a, b] = ''-r'' \<and> is_digit c \<and> [d, e, f] = ''007'' \<and> is_digit g"
| "alpine_root_at _ \<longleftrightarrow> False"

fun alpineRootIOPattern :: "string \<Rightarrow> bool" where
  "alpineRootIOPattern [] = False"
| "alpineRootIOPattern (c # cs) = (if alpine_root_at (c # cs) then True else alpineRootIOPattern cs)"

fun hasPackageWithPattern :: "Package list \<Rightarrow> (string \<Rightarrow> bool) \<Rightarrow> bool" where
  "hasPackageWithPattern [] pattern = False"
| "hasPackageWithPattern (pkg # pkgs) pattern =
     (if pattern (FormatVersion pkg) then True else hasPackageWithPattern pkgs pattern)"

definition isRootIOEnvironment :: "OSType \<Rightarrow> Package list \<Rightarrow> bool" where
  "isRootIOEnvironment osFamily pkgs =
     (if osFamily = Debian \<or> osFamily = Ubuntu then hasPackageWithPattern pkgs debianRootIOPattern
      else if osFamily = Alpine then hasPackageWithPattern pkgs alpineRootIOPattern
      else False)"

definition rootio_Supplier :: "('d, 'a, 'r) vuln_env \<Rightarrow> OS \<Rightarrow> Package list \<Rightarrow> driver option" where
  "rootio_Supplier env os pkgs =
     (if \<not> isRootIOEnvironment (OS_Family os) pkgs then None
      else Some (rootio_driver env (rootio_NewScanner env (OS_Family os))))"

section \<open>Seal (seal/seal.go, seal/supplier.go)\<close>

record seal_Scanner =
  seal_comparer :: Comparer
  seal_scanner :: driver
  seal_vsg :: vuln_source

definition seal_NewScanner :: "('d, 'a, 'r) vuln_env \<Rightarrow> OSType \<Rightarrow> seal_Scanner" where
  "seal_NewScanner env baseOS =
     (if baseOS = Alpine then
        \<lparr>seal_comparer = NewAPKComparer env, seal_scanner = alpine_driver env, seal_vsg = VS_Seal Eco_Alpine\<rparr>
      else if baseOS = CBLMariner then
        \<lparr>seal_comparer = NewRPMComparer env, seal_scanner = azure_driver env VS_Mariner, seal_vsg = VS_Seal Eco_RedHat\<rparr>
      else if baseOS = CentOS \<or> baseOS = RedHat then
        \<lparr>seal_comparer = NewRPMComparer env, seal_scanner = redhat_driver env, seal_vsg = VS_Seal Eco_RedHat\<rparr>
      else if baseOS = Debian then
        \<lparr>seal_comparer = NewDEBComparer env, seal_scanner = debian_driver env, seal_vsg = VS_Seal Eco_Debian\<rparr>
      else if baseOS = Oracle then
        \<lparr>seal_comparer = NewRPMComparer env, seal_scanner = oracle_driver env, seal_vsg = VS_Seal Eco_RedHat\<rparr>
      else if baseOS = Ubuntu then
        \<lparr>seal_comparer = NewDEBComparer env, seal_scanner = ubuntu_driver env, seal_vsg = VS_Seal Eco_Debian\<rparr>
      else
        \<lparr>seal_comparer = NewDEBComparer env, seal_scanner = debian_driver env, seal_vsg = VS_Seal Eco_Debian\<rparr>)"

definition sealPkg :: "('d, 'a, 'r) vuln_env \<Rightarrow> Package \<Rightarrow> bool" where
  "sealPkg env pkg \<longleftrightarrow>
     hasPrefix (toLower env (Pkg_Name pkg)) ''seal-'' \<or> hasPrefix (toLower env (Pkg_SrcName pkg)) ''seal-''"

text \<open>\<open>strings.Cut\<close> with a longer separator.\<close>

fun cut_str :: "string \<Rightarrow> string \<Rightarrow> string \<times> string \<times> bool" where
  "cut_str [] sep = (if sep = [] then ([], [], True) else ([], [], False))"
| "cut_str (c # cs) sep =
     (if hasPrefix (c # cs) sep then ([], drop (length sep) (c # cs), True)
      else case cut_str cs sep of (a, b, found) \<Rightarrow> (c # a, b, found))"

definition releaseVersion :: "string \<Rightarrow> string" where
  "releaseVersion release =
     (if \<not> containsStr release ''el'' then []
      else
        let (_, osVer, _) = cut_str release ''el'';
            (osVer, _, _) = cut osVer CHR ''_'';
            (osVer, _, _) = cut osVer CHR ''+''
        in osVer)"

definition seal_advisory :: "('d, 'a, 'r) vuln_env \<Rightarrow> seal_Scanner \<Rightarrow> Package \<Rightarrow> Advisory \<Rightarrow>
    DetectedVulnerability list result" where
  "seal_advisory env s pkg adv =
     (if \<not> range_isVulnerable (seal_comparer s) (FormatSrcVersion pkg) adv then Inr []
      else
        let vuln = (vuln_of pkg adv)\<lparr>DV_InstalledVersion := FormatVersion pkg,
                     DV_FixedVersion := join (Adv_PatchedVersions adv) '', ''\<rparr>
        in if Adv_Severity adv \<noteq> SeverityUnknown then
             bind_result (deref (Adv_DataSource adv)) (\<lambda>ds.
             Inr [vuln\<lparr>DV_SeveritySource := DS_BaseID ds,
                       DV_Vulnerability := severity_vuln (severity_String env (Adv_Severity adv))\<rparr>])
           else Inr [vuln])"

definition seal_pkg_detect :: "('d, 'a, 'r) vuln_env \<Rightarrow> seal_Scanner \<Rightarrow> Package \<Rightarrow> DetectedVulnerability list result" where
  "seal_pkg_detect env s pkg =
     (let srcName = cmp_or [] [Pkg_SrcName pkg, Pkg_Name pkg];
          srcRelease = (if Pkg_SrcName pkg \<noteq> [] then Pkg_SrcRelease pkg else Pkg_Release pkg)
      in bind_result (wrap_err ''failed to get Seal advisories: %w'' []
           (vs_Get env (seal_vsg s) (get_params (releaseVersion srcRelease) srcName)))
         (collect (seal_advisory env s pkg)))"

text \<open>
  The loop sends Seal packages to the Seal feed and keeps the others for the base scanner, whose
  findings come first.
\<close>

definition seal_Detect :: "('d, 'a, 'r) vuln_env \<Rightarrow> seal_Scanner \<Rightarrow> go_time \<Rightarrow> string \<Rightarrow> Package list \<Rightarrow>
    DetectedVulnerability list result" where
  "seal_Detect env s now osVer pkgs =
     bind_result (collect (\<lambda>pkg. if \<not> sealPkg env pkg then Inr [] else seal_pkg_detect env s pkg) pkgs) (\<lambda>vulns.
     let baseOSPkgs = filter (\<lambda>pkg. \<not> sealPkg env pkg) pkgs in
     bind_result (wrap_err ''failed to detect vulnerabilities with base OS scanner: %w'' []
         (drv_Detect (seal_scanner s) now osVer None baseOSPkgs)) (\<lambda>baseOSVulns.
     Inr (baseOSVulns @ vulns)))"

definition seal_IsSupportedVersion :: "go_time \<Rightarrow> OSType \<Rightarrow> string \<Rightarrow> bool" where
  "seal_IsSupportedVersion now osFamily osVer = True"

definition seal_FilterPackages :: "('d, 'a, 'r) vuln_env \<Rightarrow> Package list \<Rightarrow> Package list" where
  "seal_FilterPackages env pkgs =
     (let sealPkgs = filter (sealPkg env) pkgs;
          baseOSPkgs = filter (\<lambda>pkg. \<not> sealPkg env pkg) pkgs
      in sealPkgs @ DropThirdPartyPackages baseOSPkgs)"

definition seal_driver :: "('d, 'a, 'r) vuln_env \<Rightarrow> seal_Scanner \<Rightarrow> driver" where
  "seal_driver env s = \<lparr>drv_Detect = \<lambda>now osVer repo. seal_Detect env s now osVer,
     drv_IsSupportedVersion = seal_IsSupportedVersion, drv_FilterPackages = Some (seal_FilterPackages env)\<rparr>"

definition supportedOSFamilies :: "OSType unsafeSet" where
  "supportedOSFamilies = unsafe_New [Alpine, CBLMariner, CentOS, RedHat, Debian, Oracle, Ubuntu]"

definition seal_Supplier :: "('d, 'a, 'r) vuln_env \<Rightarrow> OS \<Rightarrow> Package list \<Rightarrow> driver option" where
  "seal_Supplier env os pkgs =
     (if unsafe_Contains supportedOSFamilies (OS_Family os) \<and> list_ex (sealPkg env) pkgs
      then Some (seal_driver env (seal_NewScanner env (OS_Family os))) else None)"

section \<open>RapidFort (rapidfort/rapidfort.go, rapidfort/supplier.go)\<close>

abbreviation SupplierRapidFort :: Supplier where "SupplierRapidFort \<equiv> ''rapidfort''"

definition trimFunc :: "(char \<Rightarrow> bool) \<Rightarrow> string \<Rightarrow> string" where
  "trimFunc P s = rev (dropWhile P (rev (dropWhile P s)))"

text \<open>The result is the tag, its digits and whether the element is a tag.\<close>

fun parseDistTag_loop :: "string \<Rightarrow> string list \<Rightarrow> string \<times> string \<times> bool" where
  "parseDistTag_loop elem [] = ([], [], False)"
| "parseDistTag_loop elem (t # ts) =
     (if \<not> hasPrefix elem t then parseDistTag_loop elem ts
      else
        let rest = drop (length t) elem;
            suffix = dropWhile is_digit rest;
            num = trimSuffix rest suffix
        in if t = ''rf'' then (t, num, trimFunc is_letter suffix = [])
           else (t, num, suffix = [] \<or> num \<noteq> []))"

definition parseDistTag :: "string \<Rightarrow> string \<times> string \<times> bool" where
  "parseDistTag elem = parseDistTag_loop elem [''rf'', ''amzn'', ''el'', ''fc'']"

fun rpmDistTag_loop :: "string list \<Rightarrow> string \<times> string \<Rightarrow> string \<times> string" where
  "rpmDistTag_loop [] acc = acc"
| "rpmDistTag_loop (elem # elems) acc =
     (let (t, n, ok) = parseDistTag elem
      in if \<not> ok then rpmDistTag_loop elems acc
         else if t = ''rf'' then (t, n)
         else rpmDistTag_loop elems (t, n))"

definition rpmDistTag :: "string \<Rightarrow> string \<times> string" where
  "rpmDistTag ver =
     (let (_, release, _) = cut ver CHR ''-''
      in rpmDistTag_loop (split CHR ''.'' release) ([], []))"

definition dpkgHasRfMarker :: "string \<Rightarrow> bool" where
  "dpkgHasRfMarker ver \<longleftrightarrow>
     containsStr ver ''+rf'' \<or> containsStr ver ''rfubu'' \<or> containsStr ver ''.rf.'' \<or> hasSuffix ver ''.rf''"

record rapidfort_Scanner =
  rapidfort_baseOS :: OSType
  rapidfort_comparer :: Comparer
  rapidfort_versionTrimmer :: "string \<Rightarrow> string"

definition rapidfort_NewScanner :: "('d, 'a, 'r) vuln_env \<Rightarrow> OSType \<Rightarrow> rapidfort_Scanner" where
  "rapidfort_NewScanner env baseOS =
     (if baseOS = Ubuntu then
        \<lparr>rapidfort_baseOS = baseOS, rapidfort_comparer = NewDEBComparer env, rapidfort_versionTrimmer = Minor\<rparr>
      else if baseOS = Debian then
        \<lparr>rapidfort_baseOS = baseOS, rapidfort_comparer = NewDEBComparer env, rapidfort_versionTrimmer = Major\<rparr>
      else if baseOS = Alpine then
        \<lparr>rapidfort_baseOS = baseOS, rapidfort_comparer = NewAPKComparer env, rapidfort_versionTrimmer = Minor\<rparr>
      else if baseOS = RedHat \<or> baseOS = Oracle \<or> baseOS = Rocky \<or> baseOS = Alma then
        \<lparr>rapidfort_baseOS = baseOS, rapidfort_comparer = NewRPMComparer env, rapidfort_versionTrimmer = Major\<rparr>
      else if baseOS = Amazon then
        \<lparr>rapidfort_baseOS = baseOS, rapidfort_comparer = NewRPMComparer env,
         rapidfort_versionTrimmer = (\<lambda>v. case strFields v of [] \<Rightarrow> [] | field # _ \<Rightarrow> Major field)\<rparr>
      else
        \<lparr>rapidfort_baseOS = baseOS, rapidfort_comparer = NewDEBComparer env, rapidfort_versionTrimmer = Minor\<rparr>)"

definition familyEcosystems :: "(OSType \<times> ecosystem) list" where
  "familyEcosystems =
     [(Ubuntu, Eco_Ubuntu), (Debian, Eco_Debian), (Alpine, Eco_Alpine), (RedHat, Eco_RedHat),
      (Oracle, Eco_OracleLinux), (Rocky, Eco_Rocky), (Alma, Eco_AlmaLinux), (Amazon, Eco_AmazonLinux)]"

definition rapidfort_route :: "rapidfort_Scanner \<Rightarrow> string \<Rightarrow> string \<Rightarrow> ecosystem \<times> string" where
  "rapidfort_route s installedVer osVer =
     (case map_of familyEcosystems (rapidfort_baseOS s) of
        None \<Rightarrow> (Eco_None, osVer)
      | Some eco \<Rightarrow>
          let baseOS = rapidfort_baseOS s in
          if baseOS = Ubuntu \<or> baseOS = Debian then
            (if dpkgHasRfMarker installedVer then (eco, []) else (eco, osVer))
          else if baseOS = Alpine then (eco, osVer)
          else if baseOS \<in> {RedHat, Oracle, Rocky, Alma, Amazon} then
            (let (tag, num) = rpmDistTag installedVer
             in if tag = ''fc'' then (Eco_Fedora, num)
                else if tag = ''rf'' then (eco, [])
                else if tag = ''el'' \<or> tag = ''amzn'' then
                  (if tag = ''el'' \<and> baseOS = Amazon then (eco, osVer) else (eco, cmp_or [] [num, osVer]))
                else (eco, osVer))
          else (Eco_None, osVer))"

text \<open>Every ecosystem but the empty one has a getter.\<close>

definition rapidfort_getters :: "ecosystem \<Rightarrow> vuln_source option" where
  "rapidfort_getters eco = (if eco = Eco_None then None else Some (VS_RapidFort eco))"

text \<open>The binary package's advisories that the source package does not already have.\<close>

fun merge_advisories :: "string unsafeSet \<Rightarrow> Advisory list \<Rightarrow> Advisory list" where
  "merge_advisories seen [] = []"
| "merge_advisories seen (adv # advs) =
     (if unsafe_Contains seen (Adv_VulnerabilityID adv) then merge_advisories seen advs
      else adv # merge_advisories (unsafe_Append seen [Adv_VulnerabilityID adv]) advs)"

definition rapidfort_advisories :: "('d, 'a, 'r) vuln_env \<Rightarrow> vuln_source \<Rightarrow> string \<Rightarrow> string \<Rightarrow> Package \<Rightarrow>
    Advisory list result" where
  "rapidfort_advisories env vs release srcName pkg =
     bind_result (wrap_err ''failed to get RapidFort advisories for %s: %w'' [srcName]
         (vs_Get env vs (get_params release srcName))) (\<lambda>advisories.
     if Pkg_Name pkg \<noteq> srcName then
       bind_result (wrap_err ''failed to get RapidFort advisories for %s: %w'' [Pkg_Name pkg]
           (vs_Get env vs (get_params release (Pkg_Name pkg)))) (\<lambda>binAdvisories.
       if binAdvisories \<noteq> [] then
         let seen = fold (\<lambda>adv s. unsafe_Append s [Adv_VulnerabilityID adv]) advisories (unsafe_New [])
         in Inr (advisories @ merge_advisories seen binAdvisories)
       else Inr advisories)
     else Inr advisories)"

text \<open>An error in one constraint string moves on to the next one.\<close>

fun rapidfort_checkConstraints :: "Comparer \<Rightarrow> string \<Rightarrow> string list \<Rightarrow> bool" where
  "rapidfort_checkConstraints comparer installedVersion [] = False"
| "rapidfort_checkConstraints comparer installedVersion (constraintStr # rest) =
     (case NewConstraints constraintStr comparer of
        Inl _ \<Rightarrow> rapidfort_checkConstraints comparer installedVersion rest
      | Inr constraints \<Rightarrow>
          (case Constraints_Check constraints installedVersion of
             Inl _ \<Rightarrow> rapidfort_checkConstraints comparer installedVersion rest
           | Inr satisfied \<Rightarrow>
               if satisfied then True else rapidfort_checkConstraints comparer installedVersion rest))"

definition rapidfort_isVulnerable :: "Comparer \<Rightarrow> string \<Rightarrow> Advisory \<Rightarrow> bool" where
  "rapidfort_isVulnerable comparer installedVersion adv =
     (if installedVersion = [] then False
      else if Adv_VulnerableVersions adv = [] then True
      else rapidfort_checkConstraints comparer installedVersion (Adv_VulnerableVersions adv))"

definition rapidfort_advisory :: "('d, 'a, 'r) vuln_env \<Rightarrow> rapidfort_Scanner \<Rightarrow> Package \<Rightarrow> string \<Rightarrow> Advisory \<Rightarrow>
    DetectedVulnerability list result" where
  "rapidfort_advisory env s pkg installedVer adv =
     (if \<not> rapidfort_isVulnerable (rapidfort_comparer s) installedVer adv then Inr []
      else
        let vuln = (vuln_of pkg adv)\<lparr>DV_Custom := [], DV_InstalledVersion := FormatVersion pkg,
                     DV_FixedVersion := join (Adv_PatchedVersions adv) '', ''\<rparr>
        in if Adv_Severity adv \<noteq> SeverityUnknown then
             bind_result (deref (Adv_DataSource adv)) (\<lambda>ds.
             Inr [vuln\<lparr>DV_Vulnerability := severity_vuln (severity_String env (Adv_Severity adv)),
                       DV_SeveritySource := DS_ID ds\<rparr>])
           else Inr [vuln])"

definition rapidfort_Detect :: "('d, 'a, 'r) vuln_env \<Rightarrow> rapidfort_Scanner \<Rightarrow> string \<Rightarrow> Package list \<Rightarrow>
    DetectedVulnerability list result" where
  "rapidfort_Detect env s osVer0 pkgs =
     (let osVer = rapidfort_versionTrimmer s osVer0 in
      collect (\<lambda>pkg.
        let srcName = cmp_or [] [Pkg_SrcName pkg, Pkg_Name pkg];
            installedVer = cmp_or [] [FormatSrcVersion pkg, FormatVersion pkg];
            (eco, release) = rapidfort_route s installedVer osVer
        in case rapidfort_getters eco of
             None \<Rightarrow> Inr []
           | Some vs \<Rightarrow>
               bind_result (rapidfort_advisories env vs release srcName pkg) (\<lambda>advisories.
               collect (rapidfort_advisory env s pkg installedVer) advisories)) pkgs)"

definition rapidfort_IsSupportedVersion :: "go_time \<Rightarrow> OSType \<Rightarrow> string \<Rightarrow> bool" where
  "rapidfort_IsSupportedVersion now osFamily osVer = True"

definition rapidfort_FilterPackages :: "Package list \<Rightarrow> Package list" where
  "rapidfort_FilterPackages pkgs = pkgs"

definition rapidfort_driver :: "('d, 'a, 'r) vuln_env \<Rightarrow> rapidfort_Scanner \<Rightarrow> driver" where
  "rapidfort_driver env s = \<lparr>drv_Detect = \<lambda>now osVer repo. rapidfort_Detect env s osVer,
     drv_IsSupportedVersion = rapidfort_IsSupportedVersion, drv_FilterPackages = Some rapidfort_FilterPackages\<rparr>"

definition rapidfort_Supplier :: "('d, 'a, 'r) vuln_env \<Rightarrow> OS \<Rightarrow> Package list \<Rightarrow> driver option" where
  "rapidfort_Supplier env os pkgs =
     (if OS_Supplier os \<noteq> SupplierRapidFort then None
      else if OS_Family os \<in> {Ubuntu, Alpine, Debian, RedHat, Oracle, Rocky, Alma, Amazon}
      then Some (rapidfort_driver env (rapidfort_NewScanner env (OS_Family os)))
      else None)"

section \<open>The supplied drivers meet the contract\<close>

lemma rootio_advisory_about: "rootio_advisory env s pkg adv = Inr vs \<Longrightarrow> v \<in> set vs \<Longrightarrow> about v pkg"
  by (auto simp: rootio_advisory_def Let_def split: if_splits)

lemma seal_advisory_about: "seal_advisory env s pkg adv = Inr vs \<Longrightarrow> v \<in> set vs \<Longrightarrow> about v pkg"
  by (auto simp: seal_advisory_def Let_def split: if_splits)

lemma rapidfort_advisory_about: "rapidfort_advisory env s pkg i adv = Inr vs \<Longrightarrow> v \<in> set vs \<Longrightarrow> about v pkg"
  by (auto simp: rapidfort_advisory_def Let_def split: if_splits)

interpretation drv_rootio: pkgwise_driver "rootio_Detect env s osVer" for env :: "('d, 'a, 'r) vuln_env" and s osVer
  unfolding rootio_Detect_def [abs_def] Let_def
  by (rule collect_pkgwise) (auto dest!: collect_mem dest: rootio_advisory_about)

interpretation drv_rapidfort: pkgwise_driver "rapidfort_Detect env s osVer"
  for env :: "('d, 'a, 'r) vuln_env" and s osVer
  unfolding rapidfort_Detect_def [abs_def] Let_def
  by (rule collect_pkgwise)
    (auto split: prod.splits option.splits dest!: collect_mem dest: rapidfort_advisory_about)

lemma seal_pkg_about: "seal_pkg_detect env s pkg = Inr vs \<Longrightarrow> v \<in> set vs \<Longrightarrow> about v pkg"
  by (auto simp: seal_pkg_detect_def Let_def dest!: collect_mem dest: seal_advisory_about)

text \<open>Seal puts the findings of the base scanner first, so it only meets the weaker contract.\<close>

lemma seal_driver_ok:
  assumes "vuln_driver (drv_Detect (seal_scanner s) now osVer None)"
  shows "vuln_driver (seal_Detect env s now osVer)"
proof
  show "seal_Detect env s now osVer [] = Inr []"
    by (simp add: seal_Detect_def vuln_driver.detect_Nil [OF assms])
next
  fix pkgs vs v
  assume d: "seal_Detect env s now osVer pkgs = Inr vs" and v: "v \<in> set vs"
  then obtain us bs where us: "collect (\<lambda>pkg. if \<not> sealPkg env pkg then Inr [] else seal_pkg_detect env s pkg) pkgs = Inr us"
    and bs: "drv_Detect (seal_scanner s) now osVer None (filter (\<lambda>pkg. \<not> sealPkg env pkg) pkgs) = Inr bs"
    and vs: "vs = bs @ us"
    by (auto simp: seal_Detect_def Let_def)
  show "\<exists>p \<in> set pkgs. about v p"
  proof (cases "v \<in> set bs")
    case True
    then show ?thesis using vuln_driver.detect_filter_about [OF assms bs] by blast
  next
    case False
    then have "v \<in> set us" using v vs by simp
    then show ?thesis using collect_mem [OF us] seal_pkg_about by (fastforce split: if_splits)
  qed
qed

text \<open>On an image with Seal packages, every Seal package reaches the Seal feed even when it comes from
  a third-party repository, and a third-party package that is not one of Seal's is dropped.\<close>

theorem seal_filter_spec:
  "set (seal_FilterPackages env pkgs) =
     set pkgs - {p. \<not> sealPkg env p \<and> Pkg_RepositoryClass p = RepositoryClassThirdParty}"
  by (auto simp: seal_FilterPackages_def DropThirdPartyPackages_def Let_def)

section \<open>Routing of RapidFort packages\<close>

definition is_rf_elem :: "string \<Rightarrow> bool" where
  "is_rf_elem elem \<longleftrightarrow> (case parseDistTag elem of (t, _, ok) \<Rightarrow> ok \<and> t = ''rf'')"

lemma rpmDistTag_loop_rf:
  "fst acc \<noteq> ''rf'' \<Longrightarrow> fst (rpmDistTag_loop elems acc) = ''rf'' \<longleftrightarrow> (\<exists>e \<in> set elems. is_rf_elem e)"
proof (induction elems acc rule: rpmDistTag_loop.induct)
  case (2 elem elems acc)
  obtain t n ok where "parseDistTag elem = (t, n, ok)" by (metis prod_cases3)
  then show ?case using 2 by (auto simp: is_rf_elem_def)
qed simp

text \<open>The release elements of an RPM version.\<close>

definition release_elems :: "string \<Rightarrow> string list" where
  "release_elems ver = split CHR ''.'' (fst (snd (cut ver CHR ''-'')))"

lemma rpmDistTag_rf: "fst (rpmDistTag ver) = ''rf'' \<longleftrightarrow> (\<exists>e \<in> set (release_elems ver). is_rf_elem e)"
  by (simp add: rpmDistTag_def release_elems_def rpmDistTag_loop_rf split: prod.split)

text \<open>On the RPM families, a package with an rf element in its release is routed to the rebuild bucket
  of its family, without a release, whatever other distribution tags come before or after it.\<close>

theorem rapidfort_rf_wins:
  assumes "rapidfort_baseOS s \<in> {RedHat, Oracle, Rocky, Alma, Amazon}"
    and "\<exists>e \<in> set (release_elems installedVer). is_rf_elem e"
  shows "\<exists>eco. map_of familyEcosystems (rapidfort_baseOS s) = Some eco \<and> eco \<noteq> Eco_None \<and>
    rapidfort_route s installedVer osVer = (eco, [])"
proof -
  obtain num where tag: "rpmDistTag installedVer = (''rf'', num)"
    using assms(2) rpmDistTag_rf [of installedVer] by (metis prod.collapse)
  from assms(1) consider "rapidfort_baseOS s = RedHat" | "rapidfort_baseOS s = Oracle" | "rapidfort_baseOS s = Rocky"
    | "rapidfort_baseOS s = Alma" | "rapidfort_baseOS s = Amazon" by blast
  then show ?thesis by cases (simp_all add: rapidfort_route_def familyEcosystems_def tag)
qed

theorem rapidfort_rf_wins_witness:
  "rapidfort_route (rapidfort_NewScanner example_env RedHat) ''1.2-3.rf.fc43'' ''9'' = (Eco_RedHat, [])"
proof -
  have "rapidfort_baseOS (rapidfort_NewScanner example_env RedHat) = RedHat" by (simp add: rapidfort_NewScanner_def)
  moreover have "\<exists>e \<in> set (release_elems ''1.2-3.rf.fc43''). is_rf_elem e" by code_simp
  ultimately show ?thesis
    using rapidfort_rf_wins [of "rapidfort_NewScanner example_env RedHat" "''1.2-3.rf.fc43''" "''9''"]
    by (simp add: familyEcosystems_def)
qed

end
