(* ===== verification/Ospkg_Detect.thy ===== *)
theory Ospkg_Detect
  imports Ospkg_Suppliers
begin

text \<open>
  The detector of OS package vulnerabilities, \<open>pkg/detector/ospkg/detect.go\<close>: the drivers by OS
  family, the suppliers that are tried before them, the options of the detector and the detection
  itself. Of the scan target it reads the operating system, the repository and the packages.
\<close>

record ScanTarget =
  Target_OS :: OS
  Target_Repository :: "Repository option"
  Target_Packages :: "Package list"

type_synonym supplier = "OS \<Rightarrow> Package list \<Rightarrow> driver option"

record resolver =
  resolver_drivers :: "(OSType \<times> driver) list"
  resolver_suppliers :: "supplier list"

record Detector =
  Detector_target :: ScanTarget
  Detector_driver :: driver

definition ErrUnsupportedOS :: go_error where
  "ErrUnsupportedOS = Errorf ''unsupported os'' []"

definition drivers :: "('d, 'a, 'r) vuln_env \<Rightarrow> (OSType \<times> driver) list" where
  "drivers env =
     [(Alpine, alpine_driver env),
      (Alma, alma_driver env),
      (Amazon, amazon_driver env),
      (Azure, azure_driver env VS_Azure),
      (Bottlerocket, bottlerocket_driver env),
      (CBLMariner, azure_driver env VS_Mariner),
      (Debian, debian_driver env),
      (Ubuntu, ubuntu_driver env),
      (RedHat, redhat_driver env),
      (CentOS, redhat_driver env),
      (Rocky, rocky_driver env),
      (Oracle, oracle_driver env),
      (OpenSUSETumbleweed, suse_driver env suse_OpenSUSETumbleweed),
      (OpenSUSELeap, suse_driver env suse_OpenSUSE),
      (SLES, suse_driver env suse_SUSEEnterpriseLinux),
      (SLEMicro, suse_driver env suse_SUSEEnterpriseLinuxMicro),
      (Photon, photon_driver env),
      (Wolfi, wolfi_driver env),
      (Chainguard, chainguard_driver env),
      (Echo, echo_driver env),
      (MinimOS, minimos_driver env),
      (CoreOS, coreos_driver)]"

definition suppliers :: "('d, 'a, 'r) vuln_env \<Rightarrow> supplier list" where
  "suppliers env = [rapidfort_Supplier env, rootio_Supplier env, seal_Supplier env]"

type_synonym detector_option = "resolver \<Rightarrow> resolver"

definition WithDriver :: "OSType \<Rightarrow> driver \<Rightarrow> detector_option" where
  "WithDriver family drv r = r\<lparr>resolver_drivers := AList.update family drv (resolver_drivers r)\<rparr>"

definition WithSupplier :: "supplier \<Rightarrow> detector_option" where
  "WithSupplier supplier r = r\<lparr>resolver_suppliers := supplier # resolver_suppliers r\<rparr>"

fun try_suppliers :: "supplier list \<Rightarrow> OS \<Rightarrow> Package list \<Rightarrow> driver option" where
  "try_suppliers [] os pkgs = None"
| "try_suppliers (supplier # rest) os pkgs =
     (case supplier os pkgs of Some d \<Rightarrow> Some d | None \<Rightarrow> try_suppliers rest os pkgs)"

definition resolve :: "resolver \<Rightarrow> OS \<Rightarrow> Package list \<Rightarrow> driver result" where
  "resolve r os pkgs =
     (case try_suppliers (resolver_suppliers r) os pkgs of
        Some d \<Rightarrow> Inr d
      | None \<Rightarrow>
          (case map_of (resolver_drivers r) (OS_Family os) of
             Some d \<Rightarrow> Inr d
           | None \<Rightarrow> Inl ErrUnsupportedOS))"

definition NewDetector :: "('d, 'a, 'r) vuln_env \<Rightarrow> ScanTarget \<Rightarrow> detector_option list \<Rightarrow> Detector result" where
  "NewDetector env target opts =
     (let r = fold (\<lambda>opt r. opt r) opts \<lparr>resolver_drivers = drivers env, resolver_suppliers = suppliers env\<rparr>
      in bind_result (resolve r (Target_OS target) (Target_Packages target)) (\<lambda>drv.
           Inr \<lparr>Detector_target = target, Detector_driver = drv\<rparr>))"

text \<open>The result is the findings and whether the operating system is past its end of life.\<close>

definition Detect :: "Detector \<Rightarrow> go_time \<Rightarrow> (DetectedVulnerability list \<times> bool) result" where
  "Detect d now =
     (let target = Detector_target d;
          drv = Detector_driver d;
          eosl = (\<not> drv_IsSupportedVersion drv now (OS_Family (Target_OS target)) (OS_Name (Target_OS target)));
          pkgs = filter (\<lambda>pkg. Pkg_Name pkg \<noteq> ''gpg-pubkey'') (Target_Packages target);
          filterFunc = (case drv_FilterPackages drv of Some f \<Rightarrow> f | None \<Rightarrow> DropThirdPartyPackages)
      in bind_result (wrap_err ''failed detection: %w'' []
           (drv_Detect drv now (OS_Name (Target_OS target)) (Target_Repository target) (filterFunc pkgs))) (\<lambda>vulns.
         Inr (vulns, eosl)))"

section \<open>Every driver the detector may resolve to meets the contract\<close>

text \<open>A driver's findings are about packages it was given, and its filter only removes packages.\<close>

definition driver_ok :: "driver \<Rightarrow> bool" where
  "driver_ok d \<longleftrightarrow>
     (\<forall>now osVer repo. vuln_driver (drv_Detect d now osVer repo)) \<and>
     (\<forall>f pkgs. drv_FilterPackages d = Some f \<longrightarrow> set (f pkgs) \<subseteq> set pkgs)"

lemmas standard_driver_defs =
  alma_driver_def alpine_driver_def amazon_driver_def azure_driver_def bottlerocket_driver_def chainguard_driver_def
  coreos_driver_def debian_driver_def echo_driver_def minimos_driver_def oracle_driver_def photon_driver_def
  redhat_driver_def rocky_driver_def suse_driver_def ubuntu_driver_def wolfi_driver_def

lemmas standard_drivers_ok =
  drv_alma.vuln_driver_axioms drv_alpine.vuln_driver_axioms drv_amazon.vuln_driver_axioms
  drv_azure.vuln_driver_axioms drv_bottlerocket.vuln_driver_axioms drv_chainguard.vuln_driver_axioms
  drv_coreos.vuln_driver_axioms drv_debian.vuln_driver_axioms drv_echo.vuln_driver_axioms
  drv_minimos.vuln_driver_axioms drv_oracle.vuln_driver_axioms drv_photon.vuln_driver_axioms
  drv_rocky.vuln_driver_axioms drv_suse.vuln_driver_axioms drv_ubuntu.vuln_driver_axioms
  drv_wolfi.vuln_driver_axioms

lemma driver_ok_standard:
  assumes "env_ok env"
  shows "driver_ok (alma_driver env)" "driver_ok (alpine_driver env)" "driver_ok (amazon_driver env)"
    "driver_ok (azure_driver env vs)" "driver_ok (bottlerocket_driver env)" "driver_ok (chainguard_driver env)"
    "driver_ok coreos_driver" "driver_ok (debian_driver env)" "driver_ok (echo_driver env)"
    "driver_ok (minimos_driver env)" "driver_ok (oracle_driver env)" "driver_ok (photon_driver env)"
    "driver_ok (redhat_driver env)" "driver_ok (rocky_driver env)" "driver_ok (suse_driver env t)"
    "driver_ok (ubuntu_driver env)" "driver_ok (wolfi_driver env)"
  using pkgwise_driver.axioms(1) [OF redhat_driver_ok [OF assms]]
  by (simp_all add: driver_ok_def standard_driver_defs standard_drivers_ok echo_FilterPackages_def)

lemma driver_ok_rootio: "driver_ok (rootio_driver env s)"
  by (simp add: driver_ok_def rootio_driver_def drv_rootio.vuln_driver_axioms)

lemma driver_ok_rapidfort: "driver_ok (rapidfort_driver env s)"
  by (simp add: driver_ok_def rapidfort_driver_def drv_rapidfort.vuln_driver_axioms rapidfort_FilterPackages_def)

lemma seal_base_ok: "env_ok env \<Longrightarrow> driver_ok (seal_scanner (seal_NewScanner env f))"
  by (simp add: seal_NewScanner_def driver_ok_standard)

lemma driver_ok_seal: "env_ok env \<Longrightarrow> driver_ok (seal_driver env (seal_NewScanner env f))"
  using seal_base_ok [of env f]
  by (auto simp: driver_ok_def seal_driver_def seal_FilterPackages_def DropThirdPartyPackages_def Let_def
      intro: seal_driver_ok)

lemma drivers_ok: "env_ok env \<Longrightarrow> (f, d) \<in> set (drivers env) \<Longrightarrow> driver_ok d"
  by (auto simp: drivers_def driver_ok_standard)

lemma suppliers_ok: "env_ok env \<Longrightarrow> s \<in> set (suppliers env) \<Longrightarrow> s os pkgs = Some d \<Longrightarrow> driver_ok d"
  by (auto simp: suppliers_def rapidfort_Supplier_def rootio_Supplier_def seal_Supplier_def driver_ok_rapidfort
      driver_ok_rootio driver_ok_seal split: if_splits)

lemma try_suppliers_Some: "try_suppliers ss os pkgs = Some d \<Longrightarrow> \<exists>s \<in> set ss. s os pkgs = Some d"
  by (induction ss) (auto split: option.splits)

lemma NewDetector_ok:
  assumes "env_ok env" "NewDetector env target [] = Inr d"
  shows "driver_ok (Detector_driver d) \<and> Detector_target d = target"
proof -
  let ?r = "\<lparr>resolver_drivers = drivers env, resolver_suppliers = suppliers env\<rparr>"
  have d: "resolve ?r (Target_OS target) (Target_Packages target) = Inr (Detector_driver d)"
    "Detector_target d = target"
    using assms(2) by (auto simp: NewDetector_def)
  then consider "try_suppliers (suppliers env) (Target_OS target) (Target_Packages target) = Some (Detector_driver d)"
    | "map_of (drivers env) (OS_Family (Target_OS target)) = Some (Detector_driver d)"
    by (auto simp: resolve_def split: option.splits)
  then show ?thesis
    by cases (use d(2) in \<open>auto dest!: try_suppliers_Some map_of_SomeD
        intro: suppliers_ok [OF assms(1)] drivers_ok [OF assms(1)]\<close>)
qed

lemma seal_families:
  "unsafe_Contains supportedOSFamilies f \<longleftrightarrow> f \<in> {Alpine, CBLMariner, CentOS, RedHat, Debian, Oracle, Ubuntu}"
  unfolding supportedOSFamilies_def by (simp add: us_contains_New)

section \<open>What the detector reports\<close>

lemma Detect_about:
  assumes "env_ok env" "NewDetector env target [] = Inr d" "Detect d now = Inr (vs, eosl)" "v \<in> set vs"
  shows "\<exists>p \<in> set (Target_Packages target). about v p \<and> Pkg_Name p \<noteq> ''gpg-pubkey'' \<and>
    (drv_FilterPackages (Detector_driver d) = None \<longrightarrow> Pkg_RepositoryClass p \<noteq> RepositoryClassThirdParty)"
proof -
  let ?drv = "Detector_driver d"
  let ?pkgs = "filter (\<lambda>pkg. Pkg_Name pkg \<noteq> ''gpg-pubkey'') (Target_Packages target)"
  let ?f = "case drv_FilterPackages ?drv of Some f \<Rightarrow> f | None \<Rightarrow> DropThirdPartyPackages"
  have ok: "driver_ok ?drv" "Detector_target d = target" using NewDetector_ok [OF assms(1,2)] by auto
  then have "drv_Detect ?drv now (OS_Name (Target_OS target)) (Target_Repository target) (?f ?pkgs) = Inr vs"
    using assms(3) by (auto simp: Detect_def Let_def)
  moreover have "vuln_driver (drv_Detect ?drv now (OS_Name (Target_OS target)) (Target_Repository target))"
    using ok(1) by (simp add: driver_ok_def)
  ultimately obtain p where p: "p \<in> set (?f ?pkgs)" "about v p"
    using vuln_driver.detect_about assms(4) by blast
  show ?thesis
  proof (cases "drv_FilterPackages ?drv")
    case None
    then show ?thesis using p by (auto simp: DropThirdPartyPackages_def)
  next
    case (Some f)
    then have "set (f ?pkgs) \<subseteq> set ?pkgs" using ok(1) unfolding driver_ok_def by blast
    then have "p \<in> set ?pkgs" using p(1) Some by auto
    then show ?thesis using p(2) Some by auto
  qed
qed

text \<open>C1. Every finding of the detector is about a package of the scan target, never about a gpg-pubkey
  pseudo package, and never about a package from a third-party repository unless the driver brings
  its own package filter.\<close>

theorem detector_findings_about_target:
  assumes "env_ok env" "NewDetector env target [] = Inr d" "Detect d now = Inr (vs, eosl)" "v \<in> set vs"
  shows "\<exists>p \<in> set (Target_Packages target). about v p \<and> Pkg_Name p \<noteq> ''gpg-pubkey'' \<and>
    (drv_FilterPackages (Detector_driver d) = None \<longrightarrow> Pkg_RepositoryClass p \<noteq> RepositoryClassThirdParty)"
  by (rule Detect_about [OF assms])

definition example_target :: ScanTarget where
  "example_target = \<lparr>Target_OS = OS_empty\<lparr>OS_Family := Alma, OS_Name := ''8.4''\<rparr>, Target_Repository = None,
     Target_Packages = [example_package, example_package\<lparr>Pkg_RepositoryClass := RepositoryClassThirdParty\<rparr>]\<rparr>"

definition example_detector :: Detector where
  "example_detector = \<lparr>Detector_target = example_target, Detector_driver = alma_driver example_env\<rparr>"

definition example_finding :: DetectedVulnerability where
  "example_finding = (vuln_of example_package (example_advisory ''CVE-2'' ''2''))\<lparr>DV_InstalledVersion := ''1'',
     DV_FixedVersion := ''2''\<rparr>"

theorem detector_findings_about_target_witness:
  "Detect example_detector (time_Date 2025 1 1 0 0 0 0) = Inr ([example_finding], False) \<and>
   (\<exists>p \<in> set (Target_Packages example_target). about example_finding p \<and> Pkg_Name p \<noteq> ''gpg-pubkey'' \<and>
      Pkg_RepositoryClass p \<noteq> RepositoryClassThirdParty)"
proof -
  have "NewDetector example_env example_target [] = Inr example_detector"
    by (simp add: NewDetector_def resolve_def suppliers_def rapidfort_Supplier_def rootio_Supplier_def seal_Supplier_def
        isRootIOEnvironment_def seal_families example_target_def example_detector_def drivers_def OS_empty_def)
  moreover have d: "Detect example_detector (time_Date 2025 1 1 0 0 0 0) = Inr ([example_finding], False)" by code_simp
  moreover have "drv_FilterPackages (Detector_driver example_detector) = None"
    by (simp add: example_detector_def alma_driver_def)
  ultimately show ?thesis
    using detector_findings_about_target [OF example_env_ok, of example_target example_detector
        "time_Date 2025 1 1 0 0 0 0" "[example_finding]" False example_finding] by simp
qed

lemma supplier_cases:
  "s \<in> set (suppliers env) \<Longrightarrow> s os pkgs = Some d \<Longrightarrow>
     OS_Family os \<in> {Alpine, CBLMariner, CentOS, RedHat, Debian, Oracle, Ubuntu, Rocky, Alma, Amazon}"
  unfolding suppliers_def set_simps
  by (elim insertE emptyE; simp only: rapidfort_Supplier_def rootio_Supplier_def seal_Supplier_def
      isRootIOEnvironment_def seal_families split: if_split_asm) auto

lemma supplier_families:
  "s \<in> set (suppliers env) \<Longrightarrow> s os pkgs = Some d \<Longrightarrow> map_of (drivers env) (OS_Family os) \<noteq> None"
  by (drule (1) supplier_cases, elim insertE emptyE; simp add: drivers_def)

text \<open>A detector can be made exactly for the operating systems of the driver table; for any other one
  the error is the unsupported-OS error, so suppliers never widen the set of supported systems.\<close>

theorem NewDetector_supported:
  "NewDetector env target [] =
     (if OS_Family (Target_OS target) \<in> fst ` set (drivers env)
      then Inr \<lparr>Detector_target = target, Detector_driver =
        (case try_suppliers (suppliers env) (Target_OS target) (Target_Packages target) of
           Some d \<Rightarrow> d
         | None \<Rightarrow> the (map_of (drivers env) (OS_Family (Target_OS target))))\<rparr>
      else Inl ErrUnsupportedOS)"
proof -
  have "map_of (drivers env) (OS_Family (Target_OS target)) \<noteq> None"
    if "try_suppliers (suppliers env) (Target_OS target) (Target_Packages target) = Some d" for d
    using that try_suppliers_Some supplier_families by blast
  moreover have "f \<in> fst ` set (drivers env) \<longleftrightarrow> map_of (drivers env) f \<noteq> None" for f
    by (simp only: map_of_eq_None_iff not_not)
  ultimately show ?thesis
    by (cases "map_of (drivers env) (OS_Family (Target_OS target))";
        cases "try_suppliers (suppliers env) (Target_OS target) (Target_Packages target)")
      (simp_all add: NewDetector_def resolve_def)
qed

text \<open>A supplier registered by an option takes precedence over everything registered before it and over
  the built-in suppliers and drivers.\<close>

theorem WithSupplier_precedence:
  assumes "supplier (Target_OS target) (Target_Packages target) = Some drv"
  shows "NewDetector env target (opts @ [WithSupplier supplier]) =
    Inr \<lparr>Detector_target = target, Detector_driver = drv\<rparr>"
  using assms by (simp add: NewDetector_def WithSupplier_def resolve_def)

theorem WithSupplier_precedence_witness:
  "NewDetector example_env example_target [WithSupplier (\<lambda>_ _. None), WithSupplier (\<lambda>_ _. Some coreos_driver)] =
   Inr \<lparr>Detector_target = example_target, Detector_driver = coreos_driver\<rparr>"
  using WithSupplier_precedence [of "\<lambda>_ _. Some coreos_driver" example_target coreos_driver example_env
      "[WithSupplier (\<lambda>_ _. None)]"] by simp

end
