(* ===== verification/Lib_Detect.thy ===== *)
theory Lib_Detect
  imports Ospkg_Drivers
begin

text \<open>
  The detector of vulnerabilities in language packages, \<open>pkg/detector/library\<close>: the version comparers (\<open>compare\<close>), the
  suppliers of patched packages (\<open>supplier.go\<close>, \<open>echo\<close>, \<open>seal\<close>), the drivers by package type (\<open>driver.go\<close>) and
  the detection (\<open>detect.go\<close>).

  The version libraries and the vulnerability database are not part of the repository. The record \<open>lib_env\<close> holds what is
  called of them: \<open>lib_NewVersion\<close> and \<open>lib_NewConstraints\<close> parse a version and a constraint (the Boolean is the
  library's option for local or build metadata), \<open>lib_Check\<close> compares them, \<open>NormalizePkgName\<close> and \<open>GetAdvisories\<close> are
  those of \<open>trivy-db\<close>, whose names of ecosystems are \<open>eco_String\<close>. The registered suppliers, a package variable,
  are an argument. Logging is left out.
\<close>

section \<open>Package types\<close>

abbreviation Bundler :: LangType where "Bundler \<equiv> ''bundler''"
abbreviation Cargo :: LangType where "Cargo \<equiv> ''cargo''"
abbreviation Composer :: LangType where "Composer \<equiv> ''composer''"
abbreviation ComposerVendor :: LangType where "ComposerVendor \<equiv> ''composer-vendor''"
abbreviation Npm :: LangType where "Npm \<equiv> ''npm''"
abbreviation Bun :: LangType where "Bun \<equiv> ''bun''"
abbreviation NuGet :: LangType where "NuGet \<equiv> ''nuget''"
abbreviation DotNetCore :: LangType where "DotNetCore \<equiv> ''dotnet-core''"
abbreviation PackagesProps :: LangType where "PackagesProps \<equiv> ''packages-props''"
abbreviation Pip :: LangType where "Pip \<equiv> ''pip''"
abbreviation Pipenv :: LangType where "Pipenv \<equiv> ''pipenv''"
abbreviation Poetry :: LangType where "Poetry \<equiv> ''poetry''"
abbreviation Uv :: LangType where "Uv \<equiv> ''uv''"
abbreviation PyLock :: LangType where "PyLock \<equiv> ''pylock''"
abbreviation Yarn :: LangType where "Yarn \<equiv> ''yarn''"
abbreviation Pnpm :: LangType where "Pnpm \<equiv> ''pnpm''"
abbreviation Pom :: LangType where "Pom \<equiv> ''pom''"
abbreviation Gradle :: LangType where "Gradle \<equiv> ''gradle''"
abbreviation Sbt :: LangType where "Sbt \<equiv> ''sbt''"
abbreviation GoBinary :: LangType where "GoBinary \<equiv> ''gobinary''"
abbreviation GoModule :: LangType where "GoModule \<equiv> ''gomod''"
abbreviation JavaScript :: LangType where "JavaScript \<equiv> ''javascript''"
abbreviation RustBinary :: LangType where "RustBinary \<equiv> ''rustbinary''"
abbreviation Conan :: LangType where "Conan \<equiv> ''conan''"
abbreviation Cocoapods :: LangType where "Cocoapods \<equiv> ''cocoapods''"
abbreviation Swift :: LangType where "Swift \<equiv> ''swift''"
abbreviation Pub :: LangType where "Pub \<equiv> ''pub''"
abbreviation Hex :: LangType where "Hex \<equiv> ''hex''"
abbreviation Bitnami :: LangType where "Bitnami \<equiv> ''bitnami''"
abbreviation Julia :: LangType where "Julia \<equiv> ''julia''"
abbreviation K8sUpstream :: LangType where "K8sUpstream \<equiv> ''kubernetes''"

datatype lib_ecosystem =
    Lib_RubyGems | Lib_Cargo | Lib_Composer | Lib_Go | Lib_Maven | Lib_Npm | Lib_NuGet | Lib_Pip | Lib_Pub | Lib_Erlang
  | Lib_Conan | Lib_Swift | Lib_Cocoapods | Lib_Bitnami | Lib_Kubernetes | Lib_Julia

section \<open>Comparers\<close>

datatype version_lib = Go_version | Bitnami_version | Mvn_version | Npm_version | Pep440_version | Gem_version

record ('v, 'c) lib_env =
  lib_NewVersion :: "version_lib \<Rightarrow> string \<Rightarrow> 'v result"
  lib_NewConstraints :: "version_lib \<Rightarrow> bool \<Rightarrow> string \<Rightarrow> 'c result"
  lib_Check :: "'c \<Rightarrow> 'v \<Rightarrow> bool"
  NormalizePkgName :: "lib_ecosystem \<Rightarrow> string \<Rightarrow> string"
  GetAdvisories :: "string \<Rightarrow> string \<Rightarrow> Advisory list result"
  eco_String :: "lib_ecosystem \<Rightarrow> string"

definition IsVulnerable :: "string \<Rightarrow> Advisory \<Rightarrow> (string \<Rightarrow> string \<Rightarrow> bool result) \<Rightarrow> bool" where
  "IsVulnerable pkgVer advisory match =
     (if [] \<in> set (Adv_VulnerableVersions advisory @ Adv_PatchedVersions advisory) then True
      else
        let secureVersions = Adv_PatchedVersions advisory @ Adv_UnaffectedVersions advisory;
            secure = (\<lambda>matched.
              if length secureVersions = 0 then matched
              else (case match pkgVer (join secureVersions '' || '') of Inl _ \<Rightarrow> False | Inr m \<Rightarrow> \<not> m))
        in if length (Adv_VulnerableVersions advisory) \<noteq> 0
           then (case match pkgVer (join (Adv_VulnerableVersions advisory) '' || '') of
                   Inl _ \<Rightarrow> False
                 | Inr matched \<Rightarrow> if \<not> matched then False else secure matched)
           else secure False)"

text \<open>The comparers of the six packages; the Boolean is the option of the npm and PEP 440 comparers. The inner error is
  formatted, not wrapped; nothing but the log looks at it.\<close>

datatype lib_Comparer =
  GenericComparer | BitnamiComparer | MavenComparer | RubyGemsComparer | NpmComparer bool | Pep440Comparer bool

definition match_with :: "('v, 'c) lib_env \<Rightarrow> version_lib \<Rightarrow> bool \<Rightarrow> string \<Rightarrow> string \<Rightarrow> string \<Rightarrow> string \<Rightarrow> string \<Rightarrow> bool result" where
  "match_with env lib option verr cerr culprit currentVersion constraint =
     (case lib_NewVersion env lib currentVersion of
        Inl e \<Rightarrow> Inl (Wrapf verr [currentVersion] e)
      | Inr v \<Rightarrow>
          (case lib_NewConstraints env lib option constraint of
             Inl e \<Rightarrow> Inl (Wrapf cerr [culprit] e)
           | Inr c \<Rightarrow> Inr (lib_Check env c v)))"

definition generic_matchVersion :: "('v, 'c) lib_env \<Rightarrow> string \<Rightarrow> string \<Rightarrow> bool result" where
  "generic_matchVersion env currentVersion constraint =
     match_with env Go_version False ''version error (%s): %s'' ''constraint error (%s): %s'' currentVersion currentVersion constraint"

definition bitnami_matchVersion :: "('v, 'c) lib_env \<Rightarrow> string \<Rightarrow> string \<Rightarrow> bool result" where
  "bitnami_matchVersion env currentVersion constraint =
     match_with env Bitnami_version False ''bitnami version error (%s): %s'' ''bitnami constraint error (%s): %s'' constraint
       currentVersion constraint"

definition maven_matchVersion :: "('v, 'c) lib_env \<Rightarrow> string \<Rightarrow> string \<Rightarrow> bool result" where
  "maven_matchVersion env currentVersion constraint =
     match_with env Mvn_version False ''maven version error (%s): %s'' ''maven constraint error (%s): %s'' constraint
       currentVersion constraint"

definition rubygems_matchVersion :: "('v, 'c) lib_env \<Rightarrow> string \<Rightarrow> string \<Rightarrow> bool result" where
  "rubygems_matchVersion env currentVersion constraint =
     match_with env Gem_version False ''RubyGems version error (%s): %s'' ''RubyGems constraint error (%s): %s'' constraint
       currentVersion constraint"

definition npm_MatchVersion :: "('v, 'c) lib_env \<Rightarrow> bool \<Rightarrow> string \<Rightarrow> string \<Rightarrow> bool result" where
  "npm_MatchVersion env withBuildMetadata currentVersion constraint =
     match_with env Npm_version withBuildMetadata ''npm version error (%s): %s'' ''npm constraint error (%s): %s'' constraint
       currentVersion constraint"

definition pep440_matchVersion :: "('v, 'c) lib_env \<Rightarrow> bool \<Rightarrow> string \<Rightarrow> string \<Rightarrow> bool result" where
  "pep440_matchVersion env allowLocalSpecifier currentVersion constraint =
     match_with env Pep440_version allowLocalSpecifier ''python version error (%s): %s'' ''python constraint error (%s): %s''
       constraint currentVersion constraint"

fun matchVersion :: "('v, 'c) lib_env \<Rightarrow> lib_Comparer \<Rightarrow> string \<Rightarrow> string \<Rightarrow> bool result" where
  "matchVersion env GenericComparer = generic_matchVersion env"
| "matchVersion env BitnamiComparer = bitnami_matchVersion env"
| "matchVersion env MavenComparer = maven_matchVersion env"
| "matchVersion env RubyGemsComparer = rubygems_matchVersion env"
| "matchVersion env (NpmComparer b) = npm_MatchVersion env b"
| "matchVersion env (Pep440Comparer b) = pep440_matchVersion env b"

definition Comparer_IsVulnerable :: "('v, 'c) lib_env \<Rightarrow> lib_Comparer \<Rightarrow> string \<Rightarrow> Advisory \<Rightarrow> bool" where
  "Comparer_IsVulnerable env comparer ver advisory = IsVulnerable ver advisory (matchVersion env comparer)"

section \<open>Suppliers\<close>

datatype MatchResult = NoMatch | Matched | Candidate

record lib_Supplier =
  sup_Name :: string
  sup_Match :: "lib_ecosystem \<Rightarrow> string \<Rightarrow> string \<Rightarrow> MatchResult"
  sup_BucketPrefix :: "lib_ecosystem \<Rightarrow> string"
  sup_Comparer :: "lib_ecosystem \<Rightarrow> lib_Comparer \<Rightarrow> lib_Comparer"

definition RegisterSupplier :: "lib_Supplier list \<Rightarrow> lib_Supplier \<Rightarrow> lib_Supplier list" where
  "RegisterSupplier suppliers v = suppliers @ [v]"

definition DeregisterSupplier :: "lib_Supplier list \<Rightarrow> string \<Rightarrow> lib_Supplier list" where
  "DeregisterSupplier suppliers name = filter (\<lambda>v. sup_Name v \<noteq> name) suppliers"

fun lookupSupplier :: "lib_Supplier list \<Rightarrow> lib_ecosystem \<Rightarrow> string \<Rightarrow> string \<Rightarrow> lib_Supplier option \<times> MatchResult" where
  "lookupSupplier [] eco pkgName pkgVer = (None, NoMatch)"
| "lookupSupplier (v # vs) eco pkgName pkgVer =
     (let res = sup_Match v eco pkgName pkgVer
      in if res \<noteq> NoMatch then (Some v, res) else lookupSupplier vs eco pkgName pkgVer)"

definition defaultBucketPrefix :: "('v, 'c) lib_env \<Rightarrow> lib_ecosystem \<Rightarrow> string" where
  "defaultBucketPrefix env eco = eco_String env eco @ ''::''"

text \<open>An unanchored regular expression matches when it matches a suffix of the string from its start.\<close>

fun matches_at :: "(string \<Rightarrow> bool) \<Rightarrow> string \<Rightarrow> bool" where
  "matches_at P [] = P []"
| "matches_at P (c # cs) = (P (c # cs) \<or> matches_at P cs)"

definition after_literal :: "string \<Rightarrow> (string \<Rightarrow> bool) \<Rightarrow> string \<Rightarrow> bool" where
  "after_literal lit P s \<longleftrightarrow> hasPrefix s lit \<and> P (drop (length lit) s)"

definition digits :: "string \<Rightarrow> bool" where
  "digits s \<longleftrightarrow> s \<noteq> [] \<and> list_all is_digit s"

text \<open>The expressions share \<open>\d+(?:p\d+)?\<close>; \<open>P\<close> is what follows it.\<close>

definition patch_level :: "(string \<Rightarrow> bool) \<Rightarrow> string \<Rightarrow> bool" where
  "patch_level P s =
     (let n = takeWhile is_digit s; r = dropWhile is_digit s
      in n \<noteq> [] \<and>
         (P r \<or> hasPrefix r ''p'' \<and> takeWhile is_digit (tl r) \<noteq> [] \<and> P (dropWhile is_digit (tl r))))"

definition at_end :: "string \<Rightarrow> bool" where
  "at_end s \<longleftrightarrow> s = []"

definition plusSealSuffix :: "string \<Rightarrow> bool" where
  "plusSealSuffix = matches_at (after_literal ''+sp'' (patch_level at_end))"

definition npmSealSuffix :: "string \<Rightarrow> bool" where
  "npmSealSuffix = matches_at (after_literal ''-sp'' (patch_level at_end))"

definition goSealSuffix :: "string \<Rightarrow> bool" where
  "goSealSuffix = matches_at (after_literal ''-sp'' (patch_level (\<lambda>r. r = [] \<or> r = ''+incompatible'')))"

definition rubySealSuffix :: "string \<Rightarrow> bool" where
  "rubySealSuffix = matches_at (after_literal ''.0.1.sp'' (patch_level at_end))"

definition seal_Match :: "lib_ecosystem \<Rightarrow> string \<Rightarrow> string \<Rightarrow> MatchResult" where
  "seal_Match eco pkgName pkgVer =
     (case eco of
        Lib_Maven \<Rightarrow>
          if hasPrefix pkgName ''seal.sp'' \<and> (case drop (length ''seal.sp'') pkgName of [] \<Rightarrow> False | c # _ \<Rightarrow> is_digit c)
          then Matched
          else if plusSealSuffix pkgVer then Matched else NoMatch
      | Lib_Pip \<Rightarrow>
          if hasPrefix pkgName ''seal-'' then Matched
          else if plusSealSuffix pkgVer then Matched else NoMatch
      | Lib_Npm \<Rightarrow>
          if hasPrefix pkgName ''@seal-security/'' then Matched
          else if npmSealSuffix pkgVer then Candidate else NoMatch
      | Lib_Go \<Rightarrow>
          if hasPrefix pkgName ''sealsecurity.io/'' then Matched
          else if goSealSuffix pkgVer then Candidate else NoMatch
      | Lib_RubyGems \<Rightarrow>
          if hasPrefix pkgName ''seal-'' then Matched
          else if rubySealSuffix pkgVer then Candidate else NoMatch
      | _ \<Rightarrow> NoMatch)"

definition seal_BucketPrefix :: "('v, 'c) lib_env \<Rightarrow> lib_ecosystem \<Rightarrow> string" where
  "seal_BucketPrefix env eco = ''seal'' @ '' '' @ eco_String env eco @ ''::''"

definition seal_Comparer :: "lib_ecosystem \<Rightarrow> lib_Comparer \<Rightarrow> lib_Comparer" where
  "seal_Comparer eco defaultComparer = (if eco = Lib_Pip then Pep440Comparer True else defaultComparer)"

definition sealSecurity :: "('v, 'c) lib_env \<Rightarrow> lib_Supplier" where
  "sealSecurity env = \<lparr>sup_Name = ''seal'', sup_Match = seal_Match, sup_BucketPrefix = seal_BucketPrefix env,
     sup_Comparer = seal_Comparer\<rparr>"

definition echoLocalSegmentRe :: "string \<Rightarrow> bool" where
  "echoLocalSegmentRe = matches_at (after_literal ''+echo.'' (\<lambda>s.
     takeWhile is_digit s \<noteq> [] \<and> (case dropWhile is_digit s of [] \<Rightarrow> True | c # _ \<Rightarrow> c \<in> set ''._-'')))"

definition echo_Match :: "lib_ecosystem \<Rightarrow> string \<Rightarrow> string \<Rightarrow> MatchResult" where
  "echo_Match eco pkgName pkgVer =
     (if eco \<notin> {Lib_Pip, Lib_Maven, Lib_Npm} then NoMatch
      else if containsStr pkgVer ''+echo.'' \<and> echoLocalSegmentRe pkgVer then Matched
      else NoMatch)"

definition echo_BucketPrefix :: "('v, 'c) lib_env \<Rightarrow> lib_ecosystem \<Rightarrow> string" where
  "echo_BucketPrefix env eco = ''echo'' @ '' '' @ eco_String env eco @ ''::''"

definition echo_Comparer :: "lib_ecosystem \<Rightarrow> lib_Comparer \<Rightarrow> lib_Comparer" where
  "echo_Comparer eco defaultComparer =
     (case eco of Lib_Pip \<Rightarrow> Pep440Comparer True | Lib_Npm \<Rightarrow> NpmComparer True | _ \<Rightarrow> defaultComparer)"

definition echoSupplier :: "('v, 'c) lib_env \<Rightarrow> lib_Supplier" where
  "echoSupplier env = \<lparr>sup_Name = ''echo'', sup_Match = echo_Match, sup_BucketPrefix = echo_BucketPrefix env,
     sup_Comparer = echo_Comparer\<rparr>"

text \<open>The suppliers of \<open>pkg/detector/library/all\<close>, in the order in which Go initialises their packages.\<close>

definition all_suppliers :: "('v, 'c) lib_env \<Rightarrow> lib_Supplier list" where
  "all_suppliers env = RegisterSupplier (RegisterSupplier [] (echoSupplier env)) (sealSecurity env)"

section \<open>Drivers\<close>

record lib_Driver =
  drv_ecosystem :: lib_ecosystem
  drv_comparer :: lib_Comparer

definition NewDriver :: "LangType \<Rightarrow> lib_Driver option" where
  "NewDriver libType =
     (let driver = (\<lambda>eco comparer. Some \<lparr>drv_ecosystem = eco, drv_comparer = comparer\<rparr>)
      in if libType \<in> {Bundler, GemSpec} then driver Lib_RubyGems RubyGemsComparer
         else if libType \<in> {RustBinary, Cargo} then driver Lib_Cargo GenericComparer
         else if libType \<in> {Composer, ComposerVendor} then driver Lib_Composer GenericComparer
         else if libType \<in> {GoBinary, GoModule} then driver Lib_Go GenericComparer
         else if libType \<in> {Jar, Pom, Gradle, Sbt} then driver Lib_Maven MavenComparer
         else if libType \<in> {Npm, Yarn, Pnpm, Bun, NodePkg, JavaScript} then driver Lib_Npm (NpmComparer False)
         else if libType \<in> {NuGet, DotNetCore, PackagesProps} then driver Lib_NuGet GenericComparer
         else if libType \<in> {Pipenv, Poetry, Pip, PythonPkg, Uv, PyLock} then driver Lib_Pip (Pep440Comparer False)
         else if libType = Pub then driver Lib_Pub GenericComparer
         else if libType = Hex then driver Lib_Erlang GenericComparer
         else if libType = Conan then driver Lib_Conan GenericComparer
         else if libType = Swift then driver Lib_Swift GenericComparer
         else if libType = Cocoapods then driver Lib_Cocoapods RubyGemsComparer
         else if libType = Bitnami then driver Lib_Bitnami BitnamiComparer
         else if libType = K8sUpstream then driver Lib_Kubernetes GenericComparer
         else if libType = Julia then driver Lib_Julia GenericComparer
         else None)"

definition joinFixedVersions :: "string list \<Rightarrow> string" where
  "joinFixedVersions fixedVersions = join (uniqBy (\<lambda>v. v) fixedVersions) '', ''"

definition range_bound :: "string \<Rightarrow> string list" where
  "range_bound s0 =
     (let s = trimSpace s0
      in if \<not> hasPrefix s ''<='' \<and> hasPrefix s ''<'' then [trimSpace (trimPrefix s ''<'')] else [])"

definition createFixedVersions :: "Advisory \<Rightarrow> string" where
  "createFixedVersions advisory =
     (if length (Adv_PatchedVersions advisory) \<noteq> 0 then joinFixedVersions (Adv_PatchedVersions advisory)
      else joinFixedVersions
             (concat (map (\<lambda>version. concat (map range_bound (split CHR '','' version))) (Adv_VulnerableVersions advisory))))"

definition get_bucket :: "('v, 'c) lib_env \<Rightarrow> lib_Driver \<Rightarrow> string \<Rightarrow> string \<Rightarrow> Advisory list result" where
  "get_bucket env d bucket name =
     wrap_err ''failed to get %s advisories: %w'' [eco_String env (drv_ecosystem d)] (GetAdvisories env bucket name)"

definition advisories ::
    "('v, 'c) lib_env \<Rightarrow> lib_Supplier list \<Rightarrow> lib_Driver \<Rightarrow> string \<Rightarrow> string \<Rightarrow> (Advisory list \<times> lib_Comparer) result" where
  "advisories env suppliers d normalizedName pkgVer =
     (let eco = drv_ecosystem d;
          default = bind_result (get_bucket env d (defaultBucketPrefix env eco) normalizedName) (\<lambda>advs.
                      Inr (advs, drv_comparer d))
      in case lookupSupplier suppliers eco normalizedName pkgVer of
           (Some v, res) \<Rightarrow>
             bind_result (get_bucket env d (sup_BucketPrefix v eco) normalizedName) (\<lambda>advs.
               if res = Matched \<or> 0 < length advs then Inr (advs, sup_Comparer v eco (drv_comparer d)) else default)
         | (None, _) \<Rightarrow> default)"

definition lib_vuln :: "string \<Rightarrow> string \<Rightarrow> string \<Rightarrow> Advisory \<Rightarrow> DetectedVulnerability" where
  "lib_vuln pkgID pkgName pkgVer adv =
     DV_empty\<lparr>DV_VulnerabilityID := Adv_VulnerabilityID adv, DV_VendorIDs := Adv_VendorIDs adv, DV_PkgID := pkgID,
       DV_PkgName := pkgName, DV_InstalledVersion := pkgVer, DV_FixedVersion := createFixedVersions adv,
       DV_DataSource := Adv_DataSource adv, DV_Custom := Adv_Custom adv\<rparr>"

definition DetectVulnerabilities ::
    "('v, 'c) lib_env \<Rightarrow> lib_Supplier list \<Rightarrow> lib_Driver \<Rightarrow> string \<Rightarrow> string \<Rightarrow> string \<Rightarrow> DetectedVulnerability list result" where
  "DetectVulnerabilities env suppliers d pkgID pkgName pkgVer =
     bind_result (advisories env suppliers d (NormalizePkgName env (drv_ecosystem d) pkgName) pkgVer) (\<lambda>(advs, comparer).
       Inr (map (lib_vuln pkgID pkgName pkgVer) (filter (Comparer_IsVulnerable env comparer pkgVer) advs)))"

section \<open>Detection\<close>

definition detect_package :: "('v, 'c) lib_env \<Rightarrow> lib_Supplier list \<Rightarrow> lib_Driver \<Rightarrow> Package \<Rightarrow> DetectedVulnerability list result" where
  "detect_package env suppliers d pkg =
     (if Pkg_Version pkg = [] then Inr []
      else bind_result (wrap_err ''failed to detect %s vulnerabilities: %w'' [eco_String env (drv_ecosystem d)]
                          (DetectVulnerabilities env suppliers d (Pkg_ID pkg) (Pkg_Name pkg) (Pkg_Version pkg))) (\<lambda>vulns.
             Inr (map (\<lambda>v. v\<lparr>DV_Layer := Pkg_Layer pkg, DV_PkgPath := Pkg_FilePath pkg, DV_PkgIdentifier := Pkg_Identifier pkg\<rparr>)
                    vulns)))"

definition lib_detect :: "('v, 'c) lib_env \<Rightarrow> lib_Supplier list \<Rightarrow> lib_Driver \<Rightarrow> Package list \<Rightarrow> DetectedVulnerability list result" where
  "lib_detect env suppliers d pkgs = collect (detect_package env suppliers d) pkgs"

definition lib_Detect :: "('v, 'c) lib_env \<Rightarrow> lib_Supplier list \<Rightarrow> LangType \<Rightarrow> Package list \<Rightarrow> DetectedVulnerability list result" where
  "lib_Detect env suppliers libType pkgs =
     (case NewDriver libType of
        None \<Rightarrow> Inr []
      | Some driver \<Rightarrow>
          wrap_err ''failed to scan %s vulnerabilities: %w'' [eco_String env (drv_ecosystem driver)]
            (lib_detect env suppliers driver pkgs))"

section \<open>Version ranges\<close>

text \<open>The library behind each comparer, with its option; the reading of a range, and whether a version lies in it. A version or
  a range that the library cannot parse has no reading.\<close>

fun comparer_lib :: "lib_Comparer \<Rightarrow> version_lib \<times> bool" where
  "comparer_lib GenericComparer = (Go_version, False)"
| "comparer_lib BitnamiComparer = (Bitnami_version, False)"
| "comparer_lib MavenComparer = (Mvn_version, False)"
| "comparer_lib RubyGemsComparer = (Gem_version, False)"
| "comparer_lib (NpmComparer b) = (Npm_version, b)"
| "comparer_lib (Pep440Comparer b) = (Pep440_version, b)"

definition range_of :: "('v, 'c) lib_env \<Rightarrow> lib_Comparer \<Rightarrow> string \<Rightarrow> 'c result" where
  "range_of env comparer = (case comparer_lib comparer of (lib, b) \<Rightarrow> lib_NewConstraints env lib b)"

definition version_of :: "('v, 'c) lib_env \<Rightarrow> lib_Comparer \<Rightarrow> string \<Rightarrow> 'v result" where
  "version_of env comparer = lib_NewVersion env (fst (comparer_lib comparer))"

definition readable :: "('v, 'c) lib_env \<Rightarrow> lib_Comparer \<Rightarrow> string list \<Rightarrow> bool" where
  "readable env comparer cs \<longleftrightarrow> list_all (\<lambda>c. \<not> isl (range_of env comparer c)) cs"

definition in_some_range :: "('v, 'c) lib_env \<Rightarrow> lib_Comparer \<Rightarrow> 'v \<Rightarrow> string list \<Rightarrow> bool" where
  "in_some_range env comparer v cs \<longleftrightarrow>
     list_ex (\<lambda>c. case range_of env comparer c of Inl _ \<Rightarrow> False | Inr k \<Rightarrow> lib_Check env k v) cs"

text \<open>What the comparers rely on of the version libraries: \<open>||\<close> separates alternatives. A constraint of several ranges is
  parsed when each of them is, and a version satisfies it when it satisfies one of them.\<close>

definition alternatives_law :: "('v, 'c) lib_env \<Rightarrow> bool" where
  "alternatives_law env \<longleftrightarrow> (\<forall>comparer cs. cs \<noteq> [] \<and> [] \<notin> set cs \<longrightarrow>
     (case range_of env comparer (join cs '' || '') of
        Inl _ \<Rightarrow> \<not> readable env comparer cs
      | Inr k \<Rightarrow> readable env comparer cs \<and> (\<forall>v. lib_Check env k v \<longleftrightarrow> in_some_range env comparer v cs)))"

lemma match_with_Inr:
  "match_with env lib b verr cerr culprit ver c = Inr m \<longleftrightarrow>
     (\<exists>v k. lib_NewVersion env lib ver = Inr v \<and> lib_NewConstraints env lib b c = Inr k \<and> m = lib_Check env k v)"
  by (cases "lib_NewVersion env lib ver"; cases "lib_NewConstraints env lib b c") (auto simp: match_with_def)

lemma matchVersion_Inr:
  "matchVersion env comparer ver c = Inr m \<longleftrightarrow>
     (\<exists>v k. version_of env comparer ver = Inr v \<and> range_of env comparer c = Inr k \<and> m = lib_Check env k v)"
  by (cases comparer)
    (simp_all add: version_of_def range_of_def match_with_Inr generic_matchVersion_def bitnami_matchVersion_def
       maven_matchVersion_def rubygems_matchVersion_def npm_MatchVersion_def pep440_matchVersion_def)

lemma matchVersion_alternatives:
  assumes "alternatives_law env" "cs \<noteq> []" "[] \<notin> set cs"
  shows "matchVersion env comparer ver (join cs '' || '') = Inr m \<longleftrightarrow>
    (\<exists>v. version_of env comparer ver = Inr v \<and> readable env comparer cs \<and> m = in_some_range env comparer v cs)"
proof -
  have law: "case range_of env comparer (join cs '' || '') of
        Inl _ \<Rightarrow> \<not> readable env comparer cs
      | Inr k \<Rightarrow> readable env comparer cs \<and> (\<forall>v. lib_Check env k v \<longleftrightarrow> in_some_range env comparer v cs)"
    using assms unfolding alternatives_law_def by blast
  show ?thesis
  proof (cases "range_of env comparer (join cs '' || '')")
    case (Inl e)
    then have "\<not> readable env comparer cs" using law by simp
    then show ?thesis using Inl by (simp add: matchVersion_Inr)
  next
    case (Inr k)
    then have "readable env comparer cs \<and> (\<forall>v. lib_Check env k v \<longleftrightarrow> in_some_range env comparer v cs)"
      using law by simp
    then show ?thesis using Inr by (simp add: matchVersion_Inr)
  qed
qed

text \<open>C35. For an advisory whose unaffected ranges are not empty strings, each comparer finds a version vulnerable when one of
  the vulnerable or patched ranges is the empty string, or else when the library reads the version and all ranges that are
  consulted, the version lies in a vulnerable range, if there are any, and in no patched or unaffected one, and the advisory has
  a range at all. A version or a range that cannot be read is never a finding.\<close>

theorem IsVulnerable_spec:
  assumes "alternatives_law env" "[] \<notin> set (Adv_UnaffectedVersions adv)"
  shows "Comparer_IsVulnerable env comparer ver adv \<longleftrightarrow>
    [] \<in> set (Adv_VulnerableVersions adv) \<union> set (Adv_PatchedVersions adv) \<or>
    (\<exists>v. version_of env comparer ver = Inr v \<and>
      (let vulnerable = Adv_VulnerableVersions adv; secure = Adv_PatchedVersions adv @ Adv_UnaffectedVersions adv
       in vulnerable @ secure \<noteq> [] \<and> readable env comparer (vulnerable @ secure) \<and>
          (vulnerable = [] \<or> in_some_range env comparer v vulnerable) \<and> \<not> in_some_range env comparer v secure))"
proof (cases "[] \<in> set (Adv_VulnerableVersions adv) \<union> set (Adv_PatchedVersions adv)")
  case True
  then show ?thesis by (auto simp: Comparer_IsVulnerable_def IsVulnerable_def)
next
  case False
  let ?V = "Adv_VulnerableVersions adv" and ?S = "Adv_PatchedVersions adv @ Adv_UnaffectedVersions adv"
  let ?m = "\<lambda>cs. matchVersion env comparer ver (join cs '' || '')"
  note match = matchVersion_alternatives [OF assms(1), of _ comparer ver]
  have V: "?V \<noteq> [] \<Longrightarrow> ?m ?V = Inr m \<longleftrightarrow>
      (\<exists>v. version_of env comparer ver = Inr v \<and> readable env comparer ?V \<and> m = in_some_range env comparer v ?V)" for m
    using False by (intro match) auto
  have S: "?S \<noteq> [] \<Longrightarrow> ?m ?S = Inr m \<longleftrightarrow>
      (\<exists>v. version_of env comparer ver = Inr v \<and> readable env comparer ?S \<and> m = in_some_range env comparer v ?S)" for m
    using False assms(2) by (intro match) auto
  have vulnerable: "Comparer_IsVulnerable env comparer ver adv \<longleftrightarrow>
      (?V = [] \<or> ?m ?V = Inr True) \<and> (?S = [] \<or> ?m ?S = Inr False) \<and> ?V @ ?S \<noteq> []"
    using False
    by (cases "?m ?V"; cases "?m ?S"; cases "?V = []"; cases "?S = []") (auto simp: Comparer_IsVulnerable_def IsVulnerable_def)
  have none [simp]: "readable env comparer []" "\<not> in_some_range env comparer v []" for v
    by (simp_all add: readable_def in_some_range_def)
  have app: "readable env comparer (?V @ ?S) \<longleftrightarrow> readable env comparer ?V \<and> readable env comparer ?S"
    by (auto simp: readable_def)
  show ?thesis
  proof (cases "?V = []"; cases "?S = []")
    assume "?V = []" "?S = []" then show ?thesis using False vulnerable by simp
  next
    assume *: "?V = []" "?S \<noteq> []"
    show ?thesis unfolding vulnerable using False * S [OF *(2)] app by (auto simp: Let_def)
  next
    assume *: "?V \<noteq> []" "?S = []"
    show ?thesis unfolding vulnerable using False * V [OF *(1)] app by (auto simp: Let_def)
  next
    assume *: "?V \<noteq> []" "?S \<noteq> []"
    show ?thesis unfolding vulnerable V [OF *(1)] S [OF *(2)] Let_def app using False *
      by (cases "version_of env comparer ver") (simp_all, blast)
  qed
qed

section \<open>Suppliers\<close>

lemma matches_at_iff: "matches_at P s \<longleftrightarrow> (\<exists>u t. s = u @ t \<and> P t)"
proof (induction s)
  case (Cons c s)
  have "(\<exists>u t. c # s = u @ t \<and> P t) \<longleftrightarrow> P (c # s) \<or> (\<exists>u t. s = u @ t \<and> P t)"
    by (metis append.left_neutral append_Cons list.exhaust list.sel(3) tl_append2)
  then show ?case using Cons by simp
qed simp

lemma after_literal_iff: "after_literal lit P s \<longleftrightarrow> (\<exists>t. s = lit @ t \<and> P t)"
  by (auto simp: after_literal_def hasPrefix_def prefix_def)

lemma digits_span:
  assumes "list_all is_digit n" "r = [] \<or> \<not> is_digit (hd r)"
  shows "takeWhile is_digit (n @ r) = n" "dropWhile is_digit (n @ r) = r"
  using assms by (cases r; auto simp: list_all_iff takeWhile_append2 dropWhile_append2)+

text \<open>What the expressions for patch levels accept.\<close>

lemma patch_level_iff:
  assumes "\<And>r. P r \<Longrightarrow> r = [] \<or> \<not> is_digit (hd r)"
  shows "patch_level P s \<longleftrightarrow>
    (\<exists>n r. s = n @ r \<and> digits n \<and> (P r \<or> (\<exists>m q. r = ''p'' @ m @ q \<and> digits m \<and> P q)))"
    (is "_ = (\<exists>n r. ?spec n r)")
proof
  let ?d = "takeWhile is_digit" and ?r = "dropWhile is_digit"
  assume *: "patch_level P s"
  have n: "digits (?d t)" if "?d t \<noteq> []" for t
    using that by (auto simp: digits_def list_all_iff dest: set_takeWhileD)
  from * have "?spec (?d s) (?r s)"
  proof -
    have "P (?r s) \<or> (\<exists>m q. ?r s = ''p'' @ m @ q \<and> digits m \<and> P q)"
    proof (cases "P (?r s)")
      case False
      then have "hasPrefix (?r s) ''p''" "?d (tl (?r s)) \<noteq> []" "P (?r (tl (?r s)))" using * by (auto simp: patch_level_def Let_def)
      then obtain zs where zs: "?r s = CHR ''p'' # zs" "?d zs \<noteq> []" "P (?r zs)" by (auto simp: hasPrefix_def prefix_def)
      moreover have "?r s = ''p'' @ ?d zs @ ?r zs" using zs(1) by simp
      ultimately show ?thesis using n by blast
    qed simp
    then show ?thesis using * n [of s] by (auto simp: patch_level_def Let_def)
  qed
  then show "\<exists>n r. ?spec n r" by blast
next
  assume "\<exists>n r. ?spec n r"
  then obtain n r where s: "s = n @ r" "digits n" and r: "P r \<or> (\<exists>m q. r = ''p'' @ m @ q \<and> digits m \<and> P q)" by blast
  have "r = [] \<or> \<not> is_digit (hd r)"
    using r assms by (auto simp: is_digit_def)
  note span = digits_span [of n, OF _ this]
  have "hasPrefix r ''p'' \<and> takeWhile is_digit (tl r) \<noteq> [] \<and> P (dropWhile is_digit (tl r))" if np: "\<not> P r"
  proof -
    obtain m q where "r = ''p'' @ m @ q" "digits m" "P q" using r np by blast
    then show ?thesis using digits_span [of m q] assms [of q] by (simp add: digits_def hasPrefix_def)
  qed
  then show "patch_level P s" using s span by (auto simp: patch_level_def Let_def digits_def)
qed

definition sealed :: "string \<Rightarrow> string \<Rightarrow> bool" where
  "sealed lit v \<longleftrightarrow> (\<exists>u n e. v = u @ lit @ n @ e \<and> digits n \<and> (e = [] \<or> (\<exists>m. e = ''p'' @ m \<and> digits m)))"

lemma sealed_iff: "matches_at (after_literal lit (patch_level at_end)) v \<longleftrightarrow> sealed lit v"
proof -
  have "patch_level at_end t \<longleftrightarrow> (\<exists>n e. t = n @ e \<and> digits n \<and> (e = [] \<or> (\<exists>m. e = ''p'' @ m \<and> digits m)))" for t
    by (subst patch_level_iff) (auto simp: at_end_def)
  then show ?thesis by (simp add: matches_at_iff after_literal_iff sealed_def) metis
qed

lemma seal_Match_spec:
  "seal_Match Lib_Pip name ver = (if hasPrefix name ''seal-'' \<or> sealed ''+sp'' ver then Matched else NoMatch)"
  "seal_Match Lib_Npm name ver =
     (if hasPrefix name ''@seal-security/'' then Matched else if sealed ''-sp'' ver then Candidate else NoMatch)"
  "seal_Match Lib_RubyGems name ver =
     (if hasPrefix name ''seal-'' then Matched else if sealed ''.0.1.sp'' ver then Candidate else NoMatch)"
  by (simp_all add: seal_Match_def plusSealSuffix_def npmSealSuffix_def rubySealSuffix_def sealed_iff)

text \<open>A supplier keeps its advisories apart from those of the ecosystem.\<close>

locale library_supplier =
  fixes env :: "('v, 'c) lib_env" and s :: lib_Supplier
  assumes own_bucket: "sup_BucketPrefix s eco = sup_Name s @ '' '' @ defaultBucketPrefix env eco"
begin

lemma bucket_not_default: "sup_BucketPrefix s eco \<noteq> defaultBucketPrefix env eco"
  unfolding own_bucket by (metis append_self_conv2 list.distinct(1) append_is_Nil_conv append_assoc)

text \<open>Packages of the supplier do not see the advisories of the ecosystem.\<close>

lemma matched_bucket:
  assumes "sup_Match s eco name ver = Matched" "drv_ecosystem d = eco"
  shows "advisories env (s # suppliers) d name ver =
    bind_result (get_bucket env d (sup_Name s @ '' '' @ defaultBucketPrefix env eco) name) (\<lambda>advs.
      Inr (advs, sup_Comparer s eco (drv_comparer d)))"
  using assms by (simp add: advisories_def own_bucket Let_def)

text \<open>A candidate without advisories of the supplier is treated as any other package.\<close>

lemma candidate_fallback:
  assumes "sup_Match s eco name ver = Candidate" "drv_ecosystem d = eco"
    and "GetAdvisories env (sup_Name s @ '' '' @ defaultBucketPrefix env eco) name = Inr []"
  shows "advisories env (s # suppliers) d name ver = advisories env [] d name ver"
  using assms by (simp add: advisories_def own_bucket Let_def get_bucket_def)

end

interpretation seal: library_supplier env "sealSecurity env" for env :: "('v, 'c) lib_env"
  by unfold_locales (simp add: sealSecurity_def seal_BucketPrefix_def defaultBucketPrefix_def)

interpretation echo: library_supplier env "echoSupplier env" for env :: "('v, 'c) lib_env"
  by unfold_locales (simp add: echoSupplier_def echo_BucketPrefix_def defaultBucketPrefix_def)

text \<open>The bucket a package is looked up in, and the comparer of its versions.\<close>

definition bucket_for ::
    "('v, 'c) lib_env \<Rightarrow> lib_Supplier list \<Rightarrow> lib_Driver \<Rightarrow> string \<Rightarrow> string \<Rightarrow> string \<times> lib_Comparer" where
  "bucket_for env suppliers d name ver =
     (let eco = drv_ecosystem d; default = (defaultBucketPrefix env eco, drv_comparer d)
      in case find (\<lambda>s. sup_Match s eco name ver \<noteq> NoMatch) suppliers of
           None \<Rightarrow> default
         | Some s \<Rightarrow>
             if sup_Match s eco name ver = Candidate \<and> GetAdvisories env (sup_BucketPrefix s eco) name = Inr [] then default
             else (sup_BucketPrefix s eco, sup_Comparer s eco (drv_comparer d)))"

lemma lookupSupplier_find:
  "lookupSupplier suppliers eco name ver =
     (case find (\<lambda>s. sup_Match s eco name ver \<noteq> NoMatch) suppliers of
        None \<Rightarrow> (None, NoMatch)
      | Some s \<Rightarrow> (Some s, sup_Match s eco name ver))"
  by (induction suppliers) (simp_all add: Let_def)

lemma advisories_bucket_for:
  "advisories env suppliers d name ver =
     (let (bucket, comparer) = bucket_for env suppliers d name ver
      in bind_result (get_bucket env d bucket name) (\<lambda>advs. Inr (advs, comparer)))"
proof (cases "find (\<lambda>s. sup_Match s (drv_ecosystem d) name ver \<noteq> NoMatch) suppliers")
  case (Some s)
  then have "sup_Match s (drv_ecosystem d) name ver \<noteq> NoMatch" by (auto simp: find_Some_iff)
  then have "sup_Match s (drv_ecosystem d) name ver \<noteq> Candidate \<longleftrightarrow> sup_Match s (drv_ecosystem d) name ver = Matched"
    by (cases "sup_Match s (drv_ecosystem d) name ver") simp_all
  then show ?thesis
    using Some by (cases "GetAdvisories env (sup_BucketPrefix s (drv_ecosystem d)) name")
      (auto simp: advisories_def bucket_for_def lookupSupplier_find get_bucket_def Let_def)
qed (simp add: advisories_def bucket_for_def lookupSupplier_find Let_def)

section \<open>Detection\<close>

text \<open>An advisory of the bucket of a package that covers its version.\<close>

definition affects :: "('v, 'c) lib_env \<Rightarrow> lib_Supplier list \<Rightarrow> lib_Driver \<Rightarrow> Package \<Rightarrow> Advisory \<Rightarrow> bool" where
  "affects env suppliers d pkg adv =
     (let name = NormalizePkgName env (drv_ecosystem d) (Pkg_Name pkg);
          (bucket, comparer) = bucket_for env suppliers d name (Pkg_Version pkg)
      in (case GetAdvisories env bucket name of Inl _ \<Rightarrow> False | Inr advs \<Rightarrow> adv \<in> set advs) \<and>
         Comparer_IsVulnerable env comparer (Pkg_Version pkg) adv)"

definition lookup_of :: "('v, 'c) lib_env \<Rightarrow> lib_Supplier list \<Rightarrow> lib_Driver \<Rightarrow> Package \<Rightarrow> Advisory list result" where
  "lookup_of env suppliers d pkg =
     (let name = NormalizePkgName env (drv_ecosystem d) (Pkg_Name pkg)
      in GetAdvisories env (fst (bucket_for env suppliers d name (Pkg_Version pkg))) name)"

definition finding_of :: "Package \<Rightarrow> Advisory \<Rightarrow> DetectedVulnerability" where
  "finding_of pkg adv = (lib_vuln (Pkg_ID pkg) (Pkg_Name pkg) (Pkg_Version pkg) adv)\<lparr>DV_Layer := Pkg_Layer pkg,
     DV_PkgPath := Pkg_FilePath pkg, DV_PkgIdentifier := Pkg_Identifier pkg\<rparr>"

lemma detect_package_set:
  assumes "detect_package env suppliers d pkg = Inr vs"
  shows "set vs = {finding_of pkg adv | adv. Pkg_Version pkg \<noteq> [] \<and> affects env suppliers d pkg adv}"
  using assms
  by (auto simp: detect_package_def DetectVulnerabilities_def advisories_bucket_for affects_def finding_of_def get_bucket_def Let_def
      split: if_splits prod.splits sum.splits)

lemma detect_package_error:
  assumes "detect_package env suppliers d pkg = Inl e"
  shows "Pkg_Version pkg \<noteq> [] \<and> (\<exists>e'. lookup_of env suppliers d pkg = Inl e')"
  using assms
  by (auto simp: detect_package_def DetectVulnerabilities_def advisories_bucket_for lookup_of_def get_bucket_def Let_def bind_result_def
      wrap_err_def split: if_splits prod.splits sum.splits)

lemma collect_Inr_set: "collect f xs = Inr ys \<Longrightarrow> set ys = (\<Union>x \<in> set xs. \<Union>zs \<in> {zs. f x = Inr zs}. set zs)"
  by (induction xs arbitrary: ys) auto

lemma collect_Inl: "collect f xs = Inl e \<Longrightarrow> \<exists>x \<in> set xs. f x = Inl e"
  by (induction xs) (auto simp: bind_result_def split: sum.splits)

text \<open>C4. The findings of the detector for a package type with a driver are exactly those of a package with a version and an
  advisory of its bucket that covers the version; the bucket is the one of the first supplier that matches the
  package, unless it is only a candidate without advisories there, and otherwise that of the ecosystem. The detector
  fails only when the lookup of such a package fails.\<close>

theorem lib_Detect_spec:
  "case lib_Detect env suppliers libType pkgs of
     Inr vs \<Rightarrow> set vs = {finding_of pkg adv | d pkg adv. NewDriver libType = Some d \<and> pkg \<in> set pkgs \<and>
       Pkg_Version pkg \<noteq> [] \<and> affects env suppliers d pkg adv}
   | Inl e \<Rightarrow> \<exists>d pkg e'. NewDriver libType = Some d \<and> pkg \<in> set pkgs \<and> Pkg_Version pkg \<noteq> [] \<and>
       lookup_of env suppliers d pkg = Inl e'"
proof (cases "NewDriver libType")
  case (Some d)
  let ?f = "detect_package env suppliers d"
  show ?thesis
  proof (cases "collect ?f pkgs")
    case (Inl e)
    from collect_Inl [OF this] obtain pkg where pkg: "pkg \<in> set pkgs" "?f pkg = Inl e" by blast
    have "\<exists>d pkg e'. NewDriver libType = Some d \<and> pkg \<in> set pkgs \<and> Pkg_Version pkg \<noteq> [] \<and> lookup_of env suppliers d pkg = Inl e'"
      using Some pkg(1) detect_package_error [OF pkg(2)] by blast
    then show ?thesis using Some Inl by (simp add: lib_Detect_def lib_detect_def)
  next
    case (Inr vs)
    moreover have "\<forall>pkg \<in> set pkgs. \<exists>zs. ?f pkg = Inr zs"
      using Inr by (induction pkgs arbitrary: vs) auto
    ultimately have "set vs = {finding_of pkg adv | pkg adv. pkg \<in> set pkgs \<and> Pkg_Version pkg \<noteq> [] \<and> affects env suppliers d pkg adv}"
      using detect_package_set by (fastforce dest!: collect_Inr_set)
    then show ?thesis using Some Inr by (simp add: lib_Detect_def lib_detect_def)
  qed
qed (simp add: lib_Detect_def)

text \<open>An Echo revision in a version.\<close>

definition echo_version :: "string \<Rightarrow> bool" where
  "echo_version v \<longleftrightarrow> (\<exists>u n r. v = u @ ''+echo.'' @ n @ r \<and> digits n \<and> (r = [] \<or> hd r \<in> set ''._-''))"

lemma echo_Match_iff: "echo_Match eco name v = Matched \<longleftrightarrow> eco \<in> {Lib_Pip, Lib_Maven, Lib_Npm} \<and> echo_version v"
proof -
  let ?P = "\<lambda>s. takeWhile is_digit s \<noteq> [] \<and> (case dropWhile is_digit s of [] \<Rightarrow> True | c # _ \<Rightarrow> c \<in> set ''._-'')"
  have *: "?P t \<longleftrightarrow> (\<exists>n r. t = n @ r \<and> digits n \<and> (r = [] \<or> hd r \<in> set ''._-''))" for t
  proof
    assume "?P t"
    then have "t = takeWhile is_digit t @ dropWhile is_digit t" "digits (takeWhile is_digit t)"
      "dropWhile is_digit t = [] \<or> hd (dropWhile is_digit t) \<in> set ''._-''"
      by (auto simp: digits_def list_all_iff dest: set_takeWhileD split: list.splits)
    then show "\<exists>n r. t = n @ r \<and> digits n \<and> (r = [] \<or> hd r \<in> set ''._-'')" by blast
  next
    assume "\<exists>n r. t = n @ r \<and> digits n \<and> (r = [] \<or> hd r \<in> set ''._-'')"
    then obtain n r where t: "t = n @ r" "digits n" "r = [] \<or> hd r \<in> set ''._-''" by blast
    then have "r = [] \<or> \<not> is_digit (hd r)" by (auto simp: is_digit_def)
    then show "?P t" using t digits_span [of n r] by (auto simp: digits_def split: list.splits)
  qed
  have "echoLocalSegmentRe v \<longleftrightarrow> (\<exists>u t. v = u @ ''+echo.'' @ t \<and> ?P t)"
    unfolding echoLocalSegmentRe_def matches_at_iff after_literal_iff by metis
  then have "echoLocalSegmentRe v \<longleftrightarrow> echo_version v"
    unfolding * echo_version_def by metis
  moreover have "echo_version v \<Longrightarrow> containsStr v ''+echo.''"
    unfolding echo_version_def containsStr_def sublist_def by blast
  ultimately show ?thesis by (auto simp: echo_Match_def)
qed

text \<open>A Python, Maven or npm package with an Echo revision in its version is looked up in Echo's advisories and nowhere
  else, whatever its name and the rest of its version, and compared with a comparer that keeps the revision.\<close>

theorem echo_bucket:
  assumes "eco \<in> {Lib_Pip, Lib_Maven, Lib_Npm}" "echo_version ver" "drv_ecosystem d = eco"
  shows "advisories env (all_suppliers env) d name ver =
    bind_result (get_bucket env d (''echo '' @ eco_String env eco @ ''::'') name) (\<lambda>advs.
      Inr (advs, if eco = Lib_Pip then Pep440Comparer True else if eco = Lib_Npm then NpmComparer True else drv_comparer d))"
proof -
  have "echo_Match eco name ver = Matched" using assms(1,2) by (simp add: echo_Match_iff)
  then show ?thesis
    using echo.matched_bucket [of env eco name ver d "[sealSecurity env]"] assms(1,3)
    by (auto simp: all_suppliers_def RegisterSupplier_def echoSupplier_def echo_Comparer_def defaultBucketPrefix_def)
qed

section \<open>An example\<close>

text \<open>Versions compared as strings; a constraint lists the digits it accepts.\<close>

definition example_lib_env :: "(string, string) lib_env" where
  "example_lib_env = \<lparr>lib_NewVersion = (\<lambda>_. Inr), lib_NewConstraints = (\<lambda>_ _. Inr),
     lib_Check = (\<lambda>c v. v \<noteq> [] \<and> is_digit (hd v) \<and> hd v \<in> set c), NormalizePkgName = (\<lambda>_ n. n),
     GetAdvisories = (\<lambda>bucket name. Inr (if bucket = ''pip::'' \<and> name = ''django'' then
       [(example_advisory ''CVE-1'' [])\<lparr>Adv_VulnerableVersions := [''12''], Adv_PatchedVersions := [''3'']\<rparr>] else [])),
     eco_String = (\<lambda>_. ''pip'')\<rparr>"

lemma set_join: "set (join xs sep) \<subseteq> (\<Union>x \<in> set xs. set x) \<union> set sep" "(\<Union>x \<in> set xs. set x) \<subseteq> set (join xs sep)"
  by (induction xs sep rule: join.induct) auto

text \<open>The same with a parser: a range with an exclamation mark and a version that does not start with a digit are refused.\<close>

definition example_ranges_env :: "(string, string) lib_env" where
  "example_ranges_env = example_lib_env\<lparr>
     lib_NewVersion := (\<lambda>_ v. if v \<noteq> [] \<and> is_digit (hd v) then Inr v else Inl (Errorf ''malformed version: %s'' [v])),
     lib_NewConstraints := (\<lambda>_ _ c. if CHR ''!'' \<in> set c then Inl (Errorf ''improper constraint: %s'' [c]) else Inr c)\<rparr>"

lemma example_alternatives: "alternatives_law example_ranges_env"
  unfolding alternatives_law_def
proof (intro allI impI)
  fix comparer cs
  have range: "range_of example_ranges_env comparer c =
      (if CHR ''!'' \<in> set c then Inl (Errorf ''improper constraint: %s'' [c]) else Inr c)" for c
    by (simp add: range_of_def example_ranges_env_def case_prod_unfold)
  have check: "lib_Check example_ranges_env c v \<longleftrightarrow> v \<noteq> [] \<and> is_digit (hd v) \<and> hd v \<in> set c" for c v
    by (simp add: example_ranges_env_def example_lib_env_def)
  have chars: "c \<in> set (join cs '' || '') \<longleftrightarrow> (\<exists>x \<in> set cs. c \<in> set x)" if "c \<notin> set '' || ''" for c
    using set_join [of cs "'' || ''"] that by auto
  have bang: "readable example_ranges_env comparer cs \<longleftrightarrow> CHR ''!'' \<notin> set (join cs '' || '')"
    using chars [of "CHR ''!''"] by (auto simp: readable_def range list_all_iff)
  have "lib_Check example_ranges_env (join cs '' || '') v \<longleftrightarrow> in_some_range example_ranges_env comparer v cs"
    if "CHR ''!'' \<notin> set (join cs '' || '')" for v
  proof -
    have "is_digit (hd v) \<Longrightarrow> hd v \<notin> set '' || ''" by (auto simp: is_digit_def)
    then show ?thesis using chars [of "hd v"] chars [of "CHR ''!''"] that
      by (auto simp: in_some_range_def range list_ex_iff check)
  qed
  then show "case range_of example_ranges_env comparer (join cs '' || '') of
      Inl _ \<Rightarrow> \<not> readable example_ranges_env comparer cs
    | Inr k \<Rightarrow> readable example_ranges_env comparer cs \<and>
        (\<forall>v. lib_Check example_ranges_env k v \<longleftrightarrow> in_some_range example_ranges_env comparer v cs)"
    by (simp add: range bang)
qed

theorem IsVulnerable_spec_witness:
  "let adv = (example_advisory ''CVE-1'' [])\<lparr>Adv_VulnerableVersions := [''12'', ''56''], Adv_PatchedVersions := [''3'']\<rparr>
   in Comparer_IsVulnerable example_ranges_env (Pep440Comparer False) ''5'' adv \<and>
      \<not> Comparer_IsVulnerable example_ranges_env (Pep440Comparer False) ''x'' adv \<and>
      \<not> Comparer_IsVulnerable example_ranges_env (Pep440Comparer False) ''5'' (adv\<lparr>Adv_UnaffectedVersions := [''!4'']\<rparr>)"
  using IsVulnerable_spec [OF example_alternatives]
  by (simp add: example_advisory_def version_of_def range_of_def readable_def in_some_range_def is_digit_def
      example_ranges_env_def example_lib_env_def)

theorem echo_bucket_witness:
  "advisories example_lib_env (all_suppliers example_lib_env) \<lparr>drv_ecosystem = Lib_Pip, drv_comparer = Pep440Comparer False\<rparr>
     ''django'' ''4.2+echo.1'' = Inr ([], Pep440Comparer True)"
proof -
  have "echo_version ''4.2+echo.1''"
    unfolding echo_version_def by (rule exI [of _ "''4.2''"], rule exI [of _ "''1''"]) (simp add: digits_def is_digit_def)
  then show ?thesis
    using echo_bucket [of Lib_Pip "''4.2+echo.1''" "\<lparr>drv_ecosystem = Lib_Pip, drv_comparer = Pep440Comparer False\<rparr>" example_lib_env "''django''"]
    by (simp add: example_lib_env_def get_bucket_def)
qed

end
