(* ===== verification/Vuln_Info.thy ===== *)
theory Vuln_Info
  imports Vuln_Types
begin

text \<open>
  Details of vulnerabilities, \<open>pkg/vulnerability/vulnerability.go\<close>: status, severity, its source and the primary URL of
  a detected vulnerability. The database, the names of its sources, statuses and severities, and \<open>strings.ToLower\<close>
  are fields of \<open>info_env\<close>. \<open>getSeverity\<close> and \<open>autoDetectSeverity\<close> call each other: \<open>getSeverity\<close> is a partial
  function with the body of the other one written out in it, and \<^term>\<open>None\<close> stands for a recursion without end.
  Logging is left out.
\<close>

record info_env =
  GetVulnerability :: "string \<Rightarrow> db_Vulnerability result"
  info_severity_String :: "Severity \<Rightarrow> string"
  NewSeverity :: "string \<Rightarrow> Severity result"
  info_lower :: "string \<Rightarrow> string"
  StatusUnknown :: Status
  StatusAffected :: Status
  info_StatusFixed :: Status
  Src_NVD :: SourceID
  Src_GHSA :: SourceID
  Src_Debian :: SourceID
  Src_Ubuntu :: SourceID
  Src_RedHat :: SourceID
  Src_SuseCVRF :: SourceID
  Src_OracleOVAL :: SourceID
  Src_NodejsSecurityWg :: SourceID
  Src_RubySec :: SourceID

abbreviation unknown_severity :: "info_env \<Rightarrow> string" where
  "unknown_severity env \<equiv> info_severity_String env SeverityUnknown"

definition primaryURLPrefixes :: "info_env \<Rightarrow> (SourceID \<times> string list) list" where
  "primaryURLPrefixes env =
     [(Src_Debian env, [''http://www.debian.org'', ''https://www.debian.org'']),
      (Src_Ubuntu env, [''http://www.ubuntu.com'', ''https://usn.ubuntu.com'']),
      (Src_RedHat env, [''https://access.redhat.com'']),
      (Src_SuseCVRF env, [''http://lists.opensuse.org'', ''https://lists.opensuse.org'']),
      (Src_OracleOVAL env, [''http://linux.oracle.com/errata'', ''https://linux.oracle.com/errata'']),
      (Src_NodejsSecurityWg env, [''https://www.npmjs.com'', ''https://hackerone.com'']),
      (Src_RubySec env, [''https://groups.google.com''])]"

fun find_reference :: "string list \<Rightarrow> string list \<Rightarrow> string" where
  "find_reference [] refs = []"
| "find_reference (pre # pres) refs =
     (case find (\<lambda>ref. hasPrefix ref pre) refs of Some ref \<Rightarrow> ref | None \<Rightarrow> find_reference pres refs)"

definition getPrimaryURL :: "info_env \<Rightarrow> string \<Rightarrow> string list \<Rightarrow> SourceID \<Rightarrow> string" where
  "getPrimaryURL env vulnID refs source =
     (if hasPrefix vulnID ''CVE-'' then ''https://avd.aquasec.com/nvd/'' @ info_lower env vulnID
      else if hasPrefix vulnID ''RUSTSEC-'' then ''https://osv.dev/vulnerability/'' @ vulnID
      else if hasPrefix vulnID ''GHSA-'' then ''https://github.com/advisories/'' @ vulnID
      else if hasPrefix vulnID ''TEMP-'' then ''https://security-tracker.debian.org/tracker/'' @ vulnID
      else find_reference (case map_of (primaryURLPrefixes env) source of Some ps \<Rightarrow> ps | None \<Rightarrow> []) refs)"

definition autoSeveritySrcs :: "info_env \<Rightarrow> string \<Rightarrow> SourceID \<Rightarrow> SourceID list" where
  "autoSeveritySrcs env vulnID dataSourceID =
     (if hasPrefix vulnID ''GHSA-'' then [dataSourceID, Src_GHSA env, Src_NVD env] else [dataSourceID, Src_NVD env])"

partial_function (option) getSeverity ::
    "info_env \<Rightarrow> string \<Rightarrow> db_Vulnerability \<Rightarrow> SourceID \<Rightarrow> SourceID list \<Rightarrow> (string \<times> SourceID) option" where
  "getSeverity env vulnID vuln dataSourceID severitySources =
     (case severitySources of
        [] \<Rightarrow> Some (unknown_severity env, [])
      | source # rest \<Rightarrow>
          if source = ''auto'' then
            (case map_of (V_VendorSeverity vuln) dataSourceID of
               Some vs \<Rightarrow> Some (info_severity_String env vs, dataSourceID)
             | None \<Rightarrow>
                 Option.bind (getSeverity env vulnID vuln dataSourceID (autoSeveritySrcs env vulnID dataSourceID)) (\<lambda>r.
                   if fst r \<noteq> unknown_severity env then Some r
                   else if V_Severity vuln = [] then Some (unknown_severity env, [])
                   else Some (V_Severity vuln, [])))
          else
            (case map_of (V_VendorSeverity vuln) source of
               Some severity \<Rightarrow> Some (info_severity_String env severity, source)
             | None \<Rightarrow> getSeverity env vulnID vuln dataSourceID rest))"

definition autoDetectSeverity ::
    "info_env \<Rightarrow> string \<Rightarrow> db_Vulnerability \<Rightarrow> SourceID \<Rightarrow> (string \<times> SourceID) option" where
  "autoDetectSeverity env vulnID vuln dataSourceID =
     (case map_of (V_VendorSeverity vuln) dataSourceID of
        Some vs \<Rightarrow> Some (info_severity_String env vs, dataSourceID)
      | None \<Rightarrow>
          Option.bind (getSeverity env vulnID vuln dataSourceID (autoSeveritySrcs env vulnID dataSourceID)) (\<lambda>r.
            if fst r \<noteq> unknown_severity env then Some r
            else if V_Severity vuln = [] then Some (unknown_severity env, [])
            else Some (V_Severity vuln, [])))"

abbreviation with_Severity :: "string \<Rightarrow> DetectedVulnerability \<Rightarrow> DetectedVulnerability" where
  "with_Severity s v \<equiv> v\<lparr>DV_Vulnerability := (DV_Vulnerability v)\<lparr>V_Severity := s\<rparr>\<rparr>"

definition fill_status :: "info_env \<Rightarrow> DetectedVulnerability \<Rightarrow> DetectedVulnerability" where
  "fill_status env v =
     (if DV_FixedVersion v \<noteq> [] then v\<lparr>DV_Status := info_StatusFixed env\<rparr>
      else if DV_Status v = StatusUnknown env then v\<lparr>DV_Status := StatusAffected env\<rparr>
      else v)"

definition data_source :: "DetectedVulnerability \<Rightarrow> DataSource" where
  "data_source v = (case DV_DataSource v of Some ds \<Rightarrow> ds | None \<Rightarrow> \<lparr>DS_ID = [], DS_BaseID = [], DS_Name = [], DS_URL = []\<rparr>)"

definition severity_source_id :: "DetectedVulnerability \<Rightarrow> SourceID" where
  "severity_source_id v = (let ds = data_source v in if DS_BaseID ds \<noteq> [] then DS_BaseID ds else DS_ID ds)"

definition fill_vuln :: "info_env \<Rightarrow> SourceID list \<Rightarrow> DetectedVulnerability \<Rightarrow> DetectedVulnerability option" where
  "fill_vuln env severitySources v0 =
     (let v = fill_status env v0; vulnID = DV_VulnerabilityID v
      in case GetVulnerability env vulnID of
           Inl _ \<Rightarrow> Some (with_Severity (if DV_Severity v \<noteq> [] then DV_Severity v else unknown_severity env) v)
         | Inr vuln \<Rightarrow>
             Option.bind (getSeverity env vulnID vuln (severity_source_id v) severitySources) (\<lambda>(severity, severitySource).
               let (severity1, severitySource1, vuln1) =
                     (if DV_SeveritySource v \<noteq> []
                      then (DV_Severity v, DV_SeveritySource v,
                            vuln\<lparr>V_VendorSeverity := AList.update (DV_SeveritySource v)
                              (case NewSeverity env (DV_Severity v) of Inr s \<Rightarrow> s | Inl _ \<Rightarrow> SeverityUnknown) (V_VendorSeverity vuln)\<rparr>)
                      else (severity, severitySource, vuln))
               in Some (with_Severity severity1 (v\<lparr>DV_Vulnerability := vuln1\<rparr>)\<lparr>DV_SeveritySource := severitySource1,
                    DV_PrimaryURL := getPrimaryURL env vulnID (V_References vuln1) (DS_ID (data_source v))\<rparr>)))"

fun FillInfo :: "info_env \<Rightarrow> DetectedVulnerability list \<Rightarrow> SourceID list \<Rightarrow> DetectedVulnerability list option" where
  "FillInfo env [] severitySources = Some []"
| "FillInfo env (v # vs) severitySources =
     Option.bind (fill_vuln env severitySources v) (\<lambda>v'. map_option ((#) v') (FillInfo env vs severitySources))"

section \<open>Severities\<close>

lemma getSeverity_Nil: "getSeverity env vulnID vuln ds [] = Some (unknown_severity env, [])"
  by (simp add: getSeverity.simps)

lemma getSeverity_auto: "getSeverity env vulnID vuln ds (''auto'' # rest) = autoDetectSeverity env vulnID vuln ds"
  by (subst getSeverity.simps) (simp add: autoDetectSeverity_def)

lemma getSeverity_source:
  "source \<noteq> ''auto'' \<Longrightarrow> getSeverity env vulnID vuln ds (source # rest) =
     (case map_of (V_VendorSeverity vuln) source of
        Some severity \<Rightarrow> Some (info_severity_String env severity, source)
      | None \<Rightarrow> getSeverity env vulnID vuln ds rest)"
  by (subst getSeverity.simps) simp

lemmas getSeverity_rules = getSeverity_Nil getSeverity_auto getSeverity_source

text \<open>The first of the sources that has a severity, and the severity.\<close>

definition first_severity :: "db_Vulnerability \<Rightarrow> SourceID list \<Rightarrow> (SourceID \<times> Severity) option" where
  "first_severity vuln sources =
     Option.bind (find (\<lambda>s. map_of (V_VendorSeverity vuln) s \<noteq> None) sources) (\<lambda>s.
       map_option (Pair s) (map_of (V_VendorSeverity vuln) s))"

lemma getSeverity_named:
  "''auto'' \<notin> set sources \<Longrightarrow> getSeverity env vulnID vuln ds sources =
     Some (case first_severity vuln sources of
             Some (s, severity) \<Rightarrow> (info_severity_String env severity, s)
           | None \<Rightarrow> (unknown_severity env, []))"
proof (induction sources)
  case (Cons s sources)
  have "s \<noteq> ''auto''" using Cons.prems by auto
  then show ?case using Cons by (cases "map_of (V_VendorSeverity vuln) s") (simp_all add: getSeverity_rules first_severity_def)
qed (simp add: getSeverity_rules first_severity_def)

text \<open>The sources of the automatic choice are never the word itself.\<close>

definition sources_ok :: "info_env \<Rightarrow> bool" where
  "sources_ok env \<longleftrightarrow> Src_NVD env \<noteq> ''auto'' \<and> Src_GHSA env \<noteq> ''auto''"

lemma autoDetectSeverity_eq:
  assumes "sources_ok env" "ds \<noteq> ''auto''"
  shows "autoDetectSeverity env vulnID vuln ds = Some
    (let fallback = (if V_Severity vuln = [] then unknown_severity env else V_Severity vuln, [])
     in case first_severity vuln (ds # (if hasPrefix vulnID ''GHSA-'' then [Src_GHSA env] else []) @ [Src_NVD env]) of
          None \<Rightarrow> fallback
        | Some (s, severity) \<Rightarrow>
            if s = ds \<or> info_severity_String env severity \<noteq> unknown_severity env
            then (info_severity_String env severity, s) else fallback)"
proof -
  let ?srcs = "autoSeveritySrcs env vulnID ds"
  have "''auto'' \<notin> set ?srcs" using assms by (auto simp: autoSeveritySrcs_def sources_ok_def)
  note get = getSeverity_named [OF this, of env vulnID vuln ds]
  have srcs: "?srcs = ds # (if hasPrefix vulnID ''GHSA-'' then [Src_GHSA env] else []) @ [Src_NVD env]"
    by (simp add: autoSeveritySrcs_def)
  show ?thesis
  proof (cases "map_of (V_VendorSeverity vuln) ds")
    case None
    then have "first_severity vuln ?srcs = Some (s, severity) \<Longrightarrow> s \<noteq> ds" for s severity
      by (auto simp: first_severity_def Option.bind_eq_Some_conv find_Some_iff)
    then show ?thesis
      using None by (auto simp: autoDetectSeverity_def get srcs [symmetric] Let_def split: option.splits)
  qed (simp add: autoDetectSeverity_def first_severity_def)
qed

text \<open>The automatic choice of a severity always returns, and takes the first source with a severity among the data source,
  for identifiers of GitHub advisories GitHub, and NVD; when there is none, or it is one of the last two and unknown, it
  takes the severity the entry itself carries, and without that one it is unknown.\<close>

theorem autoDetectSeverity_spec:
  assumes "sources_ok env" "ds \<noteq> ''auto''"
  shows "autoDetectSeverity env vulnID vuln ds = Some
    (let fallback = (if V_Severity vuln = [] then unknown_severity env else V_Severity vuln, [])
     in case first_severity vuln (ds # (if hasPrefix vulnID ''GHSA-'' then [Src_GHSA env] else []) @ [Src_NVD env]) of
          None \<Rightarrow> fallback
        | Some (s, severity) \<Rightarrow>
            if s = ds \<or> info_severity_String env severity \<noteq> unknown_severity env
            then (info_severity_String env severity, s) else fallback)"
  by (rule autoDetectSeverity_eq [OF assms])

lemma getSeverity_returns:
  assumes "sources_ok env" "ds \<noteq> ''auto''"
  shows "\<exists>r. getSeverity env vulnID vuln ds sources = Some r"
proof (induction sources)
  case (Cons s sources)
  then show ?case
    using autoDetectSeverity_eq [OF assms, of vulnID vuln]
    by (cases "s = ''auto''") (auto simp: getSeverity_rules split: option.splits)
qed (simp add: getSeverity_rules)

text \<open>A data source of that name would send the two functions into each other forever.\<close>

lemma autoDetectSeverity_loops:
  assumes "map_of (V_VendorSeverity vuln) ''auto'' = None"
  shows "getSeverity env vulnID vuln ''auto'' (''auto'' # rest) = None"
proof -
  have "e = env \<and> i = vulnID \<and> v = vuln \<and> d = ''auto'' \<longrightarrow> srcs = [] \<or> hd srcs \<noteq> ''auto''"
    if "getSeverity e i v d srcs = Some r" for e :: info_env and i and v :: db_Vulnerability and d srcs r
    using that
  proof (rule getSeverity.raw_induct [rotated])
    fix get :: "info_env \<Rightarrow> string \<Rightarrow> db_Vulnerability \<Rightarrow> SourceID \<Rightarrow> SourceID list \<Rightarrow> (string \<times> SourceID) option" and e :: info_env and i and v :: db_Vulnerability and d srcs and r :: "string \<times> SourceID"
    assume "\<And>e i v d srcs r. get e i v d srcs = Some r \<Longrightarrow> e = env \<and> i = vulnID \<and> v = vuln \<and> d = ''auto'' \<longrightarrow> srcs = [] \<or> hd srcs \<noteq> ''auto''"
    from this [of e i v d "autoSeveritySrcs e i d"]
    show "e = env \<and> i = vulnID \<and> v = vuln \<and> d = ''auto'' \<longrightarrow> srcs = [] \<or> hd srcs \<noteq> ''auto''"
      if "(case srcs of
        [] \<Rightarrow> Some (unknown_severity e, [])
      | source # rest \<Rightarrow>
          if source = ''auto'' then
            (case map_of (V_VendorSeverity v) d of
               Some vs \<Rightarrow> Some (info_severity_String e vs, d)
             | None \<Rightarrow>
                 Option.bind (get e i v d (autoSeveritySrcs e i d)) (\<lambda>r.
                   if fst r \<noteq> unknown_severity e then Some r
                   else if V_Severity v = [] then Some (unknown_severity e, [])
                   else Some (V_Severity v, [])))
          else
            (case map_of (V_VendorSeverity v) source of
               Some severity \<Rightarrow> Some (info_severity_String e severity, source)
             | None \<Rightarrow> get e i v d rest)) = Some r"
      using that assms by (auto simp: autoSeveritySrcs_def Option.bind_eq_Some_conv split: list.splits if_splits)
  qed
  from this [of env vulnID vuln "''auto''" "''auto'' # rest"] show ?thesis
    by (cases "getSeverity env vulnID vuln ''auto'' (''auto'' # rest)") auto
qed

section \<open>Details\<close>

text \<open>Filling in the details leaves alone what identifies the finding.\<close>

definition same_finding :: "DetectedVulnerability \<Rightarrow> DetectedVulnerability \<Rightarrow> bool" where
  "same_finding v w \<longleftrightarrow>
     DV_VulnerabilityID v = DV_VulnerabilityID w \<and> DV_PkgID v = DV_PkgID w \<and> DV_PkgName v = DV_PkgName w \<and>
     DV_PkgPath v = DV_PkgPath w \<and> DV_PkgIdentifier v = DV_PkgIdentifier w \<and> DV_InstalledVersion v = DV_InstalledVersion w \<and>
     DV_FixedVersion v = DV_FixedVersion w \<and> DV_Layer v = DV_Layer w \<and> DV_DataSource v = DV_DataSource w"

lemma fill_vuln_same: "fill_vuln env sources v = Some w \<Longrightarrow> same_finding w v"
  by (auto simp: fill_vuln_def fill_status_def same_finding_def Let_def Option.bind_eq_Some_conv split: sum.splits if_splits prod.splits)

lemma FillInfo_all2: "FillInfo env vs sources = Some ws \<longleftrightarrow> list_all2 (\<lambda>v w. fill_vuln env sources v = Some w) vs ws"
proof (induction vs arbitrary: ws)
  case (Cons v vs)
  then show ?case by (cases ws) (auto simp: Option.bind_eq_Some_conv)
qed auto

lemma DV_Severity_simps [simp]:
  "DV_Severity (v\<lparr>DV_Vulnerability := d\<rparr>) = V_Severity d" "DV_Severity (v\<lparr>DV_Status := st\<rparr>) = DV_Severity v"
  "DV_Severity (v\<lparr>DV_SeveritySource := src\<rparr>) = DV_Severity v" "DV_Severity (v\<lparr>DV_PrimaryURL := u\<rparr>) = DV_Severity v"
  by (simp_all add: DV_Severity_def)

lemma fill_status_simps [simp]:
  "DV_Severity (fill_status env v) = DV_Severity v" "DV_SeveritySource (fill_status env v) = DV_SeveritySource v"
  "DV_DataSource (fill_status env v) = DV_DataSource v" "DV_VulnerabilityID (fill_status env v) = DV_VulnerabilityID v"
  by (auto simp: fill_status_def)

definition names_ok :: "info_env \<Rightarrow> bool" where
  "names_ok env \<longleftrightarrow> (\<forall>s. info_severity_String env s \<noteq> [])"

lemma getSeverity_named_severity:
  assumes "sources_ok env" "names_ok env" "ds \<noteq> ''auto''" "getSeverity env vulnID vuln ds sources = Some (severity, source)"
  shows "severity \<noteq> []"
  using assms(4)
proof (induction sources)
  case Nil
  then show ?case using assms(2) by (auto simp: getSeverity_rules names_ok_def)
next
  case (Cons s sources)
  show ?case
  proof (cases "s = ''auto''")
    case True
    then show ?thesis
      using Cons.prems assms(2) autoDetectSeverity_eq [OF assms(1,3), of vulnID vuln]
      by (auto simp: getSeverity_rules names_ok_def Let_def split: option.splits if_splits)
  next
    case False
    then show ?thesis using Cons assms(2) by (auto simp: getSeverity_rules names_ok_def split: option.splits)
  qed
qed

lemma FillInfo_details:
  assumes "sources_ok env" "names_ok env"
    and "\<forall>v \<in> set vs. severity_source_id v \<noteq> ''auto''"
  shows "\<exists>ws. FillInfo env vs sources = Some ws \<and> list_all2 (\<lambda>v w. same_finding w v \<and>
     (DV_SeveritySource v = [] \<or> DV_Severity v \<noteq> [] \<longrightarrow> DV_Severity w \<noteq> []) \<and>
     DV_Status w = (if DV_FixedVersion v \<noteq> [] then info_StatusFixed env
       else if DV_Status v = StatusUnknown env then StatusAffected env else DV_Status v)) vs ws"
  using assms(3)
proof (induction vs)
  case (Cons v vs)
  then obtain ws where ws: "FillInfo env vs sources = Some ws" "list_all2 (\<lambda>v w. same_finding w v \<and>
     (DV_SeveritySource v = [] \<or> DV_Severity v \<noteq> [] \<longrightarrow> DV_Severity w \<noteq> []) \<and>
     DV_Status w = (if DV_FixedVersion v \<noteq> [] then info_StatusFixed env
       else if DV_Status v = StatusUnknown env then StatusAffected env else DV_Status v)) vs ws" by auto
  have id: "severity_source_id (fill_status env v) = severity_source_id v"
    by (simp add: severity_source_id_def data_source_def)
  have ds: "severity_source_id v \<noteq> ''auto''" using Cons.prems by simp
  have get: "\<exists>s src. getSeverity env (DV_VulnerabilityID v) vuln (severity_source_id v) sources = Some (s, src) \<and> s \<noteq> []" for vuln
    using getSeverity_returns [OF assms(1) ds] getSeverity_named_severity [OF assms(1,2) ds] by (metis surj_pair)
  have status: "DV_Status (fill_status env v) = (if DV_FixedVersion v \<noteq> [] then info_StatusFixed env
       else if DV_Status v = StatusUnknown env then StatusAffected env else DV_Status v)"
    by (simp add: fill_status_def)
  have "\<exists>w. fill_vuln env sources v = Some w \<and>
     (DV_SeveritySource v = [] \<or> DV_Severity v \<noteq> [] \<longrightarrow> DV_Severity w \<noteq> []) \<and> DV_Status w = DV_Status (fill_status env v)"
  proof (cases "GetVulnerability env (DV_VulnerabilityID v)")
    case (Inl e)
    then show ?thesis using assms(2) by (simp add: fill_vuln_def names_ok_def Let_def)
  next
    case (Inr vuln)
    obtain s src where "getSeverity env (DV_VulnerabilityID v) vuln (severity_source_id v) sources = Some (s, src)" "s \<noteq> []"
      using get by blast
    then show ?thesis using Inr by (simp add: fill_vuln_def id Let_def)
  qed
  then show ?case using ws status fill_vuln_same by fastforce
qed simp

text \<open>C34. Filling in the details of the findings returns whatever the database holds, one finding for each and about the
  same package and vulnerability; a finding gets a severity unless a vendor severity without a name was attached before,
  and its status is fixed when there is a fixed version, and otherwise the vendor's, or affected where that is unknown.\<close>

theorem FillInfo_spec:
  assumes "sources_ok env" "names_ok env"
    and "\<forall>v \<in> set vs. severity_source_id v \<noteq> ''auto''"
  shows "\<exists>ws. FillInfo env vs sources = Some ws \<and> list_all2 (\<lambda>v w. same_finding w v \<and>
     (DV_SeveritySource v = [] \<or> DV_Severity v \<noteq> [] \<longrightarrow> DV_Severity w \<noteq> []) \<and>
     DV_Status w = (if DV_FixedVersion v \<noteq> [] then info_StatusFixed env
       else if DV_Status v = StatusUnknown env then StatusAffected env else DV_Status v)) vs ws"
  by (rule FillInfo_details [OF assms])

section \<open>An example\<close>

declare getSeverity.simps [code]

definition example_info_env :: info_env where
  "example_info_env = \<lparr>
     GetVulnerability = (\<lambda>i. if i = ''GHSA-1'' then Inr (db_Vulnerability_empty\<lparr>V_VendorSeverity := [(''ghsa'', 3), (''nvd'', 2)]\<rparr>)
       else Inl (Errorf ''not found'' [])),
     info_severity_String = (\<lambda>s. if s = 3 then ''HIGH'' else if s = 2 then ''MEDIUM'' else ''UNKNOWN''),
     NewSeverity = (\<lambda>_. Inr 0), info_lower = (\<lambda>s. s), StatusUnknown = 0, StatusAffected = 2, info_StatusFixed = 3,
     Src_NVD = ''nvd'', Src_GHSA = ''ghsa'', Src_Debian = ''debian'', Src_Ubuntu = ''ubuntu'', Src_RedHat = ''redhat'',
     Src_SuseCVRF = ''suse-cvrf'', Src_OracleOVAL = ''oracle-oval'', Src_NodejsSecurityWg = ''nodejs-security-wg'',
     Src_RubySec = ''ruby-advisory-db''\<rparr>"

lemma example_info_ok: "sources_ok example_info_env" "names_ok example_info_env"
  by (simp_all add: sources_ok_def names_ok_def example_info_env_def)

theorem autoDetectSeverity_spec_witness:
  "autoDetectSeverity example_info_env ''GHSA-1''
     (db_Vulnerability_empty\<lparr>V_VendorSeverity := [(''ghsa'', 3), (''nvd'', 2)]\<rparr>) ''npm'' = Some (''HIGH'', ''ghsa'')"
  by (subst autoDetectSeverity_spec [OF example_info_ok(1)])
    (simp_all add: first_severity_def hasPrefix_def example_info_env_def)

theorem FillInfo_spec_witness:
  "\<exists>u v w. FillInfo example_info_env [DV_empty\<lparr>DV_VulnerabilityID := ''GHSA-1''\<rparr>, DV_empty\<lparr>DV_FixedVersion := ''2''\<rparr>,
      DV_empty\<lparr>DV_Status := 5\<rparr>] [''auto''] = Some [u, v, w] \<and>
    DV_Severity u \<noteq> [] \<and> DV_Severity v \<noteq> [] \<and> DV_Status u = 2 \<and> DV_Status v = 3 \<and> DV_Status w = 5"
proof -
  let ?vs = "[DV_empty\<lparr>DV_VulnerabilityID := ''GHSA-1''\<rparr>, DV_empty\<lparr>DV_FixedVersion := ''2''\<rparr>, DV_empty\<lparr>DV_Status := 5\<rparr>]"
  have "\<forall>v \<in> set ?vs. severity_source_id v \<noteq> ''auto''"
    by (simp add: severity_source_id_def data_source_def DV_empty_def)
  from FillInfo_spec [OF example_info_ok this, of "[''auto'']"] show ?thesis
    by (auto simp: list_all2_Cons1 DV_empty_def example_info_env_def)
qed

end
