(* ===== verification/Crypto_Types.thy ===== *)
theory Crypto_Types
  imports Fanal_Base
begin

text \<open>
  The cryptographic asset types of \<open>pkg/fanal/types\<close> (\<open>crypto.go\<close>, \<open>crypto_descriptor.go\<close>,
  \<open>crypto_key.go\<close>, \<open>crypto_algorithm.go\<close>, \<open>crypto_certificate.go\<close>, \<open>crypto_relationship.go\<close>):
  descriptors with their canonical string form, its parser and validation, the algorithm
  parameters, the validation of assets and the order of assets.

  The struct \<open>CryptoAsset\<close> embeds \<open>CryptoAssetInfo\<close>, so its record extends that one, and the
  promoted methods are functions on the record scheme. \<open>DigestIdentity\<close> takes the hash function
  and the hexadecimal printer of the standard library as one argument.
\<close>

section \<open>Constants\<close>

type_synonym CryptoKind = string
type_synonym CryptoIdentityMethod = string
type_synonym CryptoKeyType = string
type_synonym CryptoKeyFormat = string

abbreviation CryptoKindCertificate :: CryptoKind where "CryptoKindCertificate \<equiv> ''certificate''"
abbreviation CryptoKindKey :: CryptoKind where "CryptoKindKey \<equiv> ''key''"
abbreviation CryptoKindAlgorithm :: CryptoKind where "CryptoKindAlgorithm \<equiv> ''algorithm''"

abbreviation CryptoMethodSHA256 :: CryptoIdentityMethod where "CryptoMethodSHA256 \<equiv> ''sha256''"
abbreviation CryptoMethodSPKISHA256 :: CryptoIdentityMethod where "CryptoMethodSPKISHA256 \<equiv> ''spki-sha256''"
abbreviation CryptoMethodEncryptedPKCS8SHA256 :: CryptoIdentityMethod where
  "CryptoMethodEncryptedPKCS8SHA256 \<equiv> ''encrypted-pkcs8-sha256''"
abbreviation CryptoMethodEncryptedRFC1423SHA256 :: CryptoIdentityMethod where
  "CryptoMethodEncryptedRFC1423SHA256 \<equiv> ''encrypted-rfc1423-sha256''"
abbreviation CryptoMethodOID :: CryptoIdentityMethod where "CryptoMethodOID \<equiv> ''oid''"

abbreviation CryptoEncodingPEM :: string where "CryptoEncodingPEM \<equiv> ''PEM''"
abbreviation CryptoEncodingDER :: string where "CryptoEncodingDER \<equiv> ''DER''"
abbreviation CryptoKeystorePKCS12 :: string where "CryptoKeystorePKCS12 \<equiv> ''PKCS#12''"

abbreviation CryptoKeyTypePublic :: CryptoKeyType where "CryptoKeyTypePublic \<equiv> ''public''"
abbreviation CryptoKeyTypePrivate :: CryptoKeyType where "CryptoKeyTypePrivate \<equiv> ''private''"

abbreviation CryptoKeyFormatPKCS1 :: CryptoKeyFormat where "CryptoKeyFormatPKCS1 \<equiv> ''PKCS#1''"
abbreviation CryptoKeyFormatPKCS8 :: CryptoKeyFormat where "CryptoKeyFormatPKCS8 \<equiv> ''PKCS#8''"
abbreviation CryptoKeyFormatSEC1 :: CryptoKeyFormat where "CryptoKeyFormatSEC1 \<equiv> ''SEC1''"
abbreviation CryptoKeyFormatPKIX :: CryptoKeyFormat where "CryptoKeyFormatPKIX \<equiv> ''PKIX''"

abbreviation CryptoPrimitiveUnknown :: string where "CryptoPrimitiveUnknown \<equiv> ''unknown''"
abbreviation CryptoPrimitiveSignature :: string where "CryptoPrimitiveSignature \<equiv> ''signature''"
abbreviation CryptoPrimitivePKE :: string where "CryptoPrimitivePKE \<equiv> ''pke''"

abbreviation CryptoCertificateFormatX509 :: string where "CryptoCertificateFormatX509 \<equiv> ''X.509''"

abbreviation CryptoRelationshipContains :: string where "CryptoRelationshipContains \<equiv> ''contains''"
abbreviation CryptoRelationshipSignedWith :: string where "CryptoRelationshipSignedWith \<equiv> ''signed_with''"
abbreviation CryptoRelationshipUsedWith :: string where "CryptoRelationshipUsedWith \<equiv> ''used_with''"
abbreviation CryptoRelationshipCorrespondsTo :: string where
  "CryptoRelationshipCorrespondsTo \<equiv> ''corresponds_to''"

section \<open>Data\<close>

record CryptoIdentity =
  Identity_Method :: CryptoIdentityMethod
  Identity_Value :: string
  Identity_Parameters :: string

record CryptoDescriptor =
  Desc_Kind :: CryptoKind
  Desc_KeyType :: CryptoKeyType
  Desc_Identity :: CryptoIdentity

record CryptoAlgorithmParameters =
  Params_KeySize :: int
  Params_SubgroupSize :: int
  Params_Curve :: string

record CryptoRelationship =
  Rel_Type :: string
  Rel_RelatedAsset :: CryptoDescriptor

record CryptoKey =
  Key_Size :: int
  Key_Curve :: string
  Key_Encrypted :: bool

record CryptoAlgorithm =
  Alg_Family :: string
  Alg_Primitive :: string
  Alg_ClassicalSecurityLevel :: "int option"
  Alg_NISTQuantumSecurityLevel :: "int option"

record CryptoCertificate =
  Cert_Subject :: string
  Cert_Issuer :: string
  Cert_SerialNumber :: string
  Cert_NotBefore :: go_time
  Cert_NotAfter :: go_time
  Cert_Format :: string
  Cert_KeyUsage :: "string list"
  Cert_ExtendedKeyUsage :: "string list"
  Cert_DNSNames :: "string list"
  Cert_EmailAddresses :: "string list"
  Cert_IPAddresses :: "string list"
  Cert_URIs :: "string list"
  Cert_BasicConstraintsValid :: bool
  Cert_IsCA :: bool
  Cert_MaxPathLen :: int
  Cert_MaxPathLenZero :: bool

record CryptoAssetInfo =
  Asset_Kind :: CryptoKind
  Asset_KeyType :: CryptoKeyType
  Asset_Identity :: CryptoIdentity
  Asset_Name :: string
  Asset_Certificate :: "CryptoCertificate option"
  Asset_Key :: "CryptoKey option"
  Asset_Algorithm :: "CryptoAlgorithm option"
  Asset_Relationships :: "CryptoRelationship list"

record CryptoAsset = CryptoAssetInfo +
  Asset_ID :: string
  Asset_FilePath :: string
  Asset_Format :: CryptoKeyFormat
  Asset_Encoding :: string
  Asset_Keystore :: string
  Asset_Layer :: Layer

definition DigestIdentity ::
    "(string \<Rightarrow> string) \<Rightarrow> CryptoIdentityMethod \<Rightarrow> string \<Rightarrow> CryptoIdentity" where
  "DigestIdentity sha256_hex method canonical =
     \<lparr>Identity_Method = method, Identity_Value = sha256_hex canonical, Identity_Parameters = []\<rparr>"

definition Descriptor :: "'a CryptoAssetInfo_scheme \<Rightarrow> CryptoDescriptor" where
  "Descriptor a = \<lparr>Desc_Kind = Asset_Kind a, Desc_KeyType = Asset_KeyType a, Desc_Identity = Asset_Identity a\<rparr>"

section \<open>Query escaping (net/url)\<close>

text \<open>
  \<open>url.QueryEscape\<close> keeps the unreserved characters, writes a space as \<open>+\<close> and every other
  byte as \<open>%\<close> with two upper-case hexadecimal digits. \<open>url.QueryUnescape\<close> reverses it and fails on
  a \<open>%\<close> that is not followed by two hexadecimal digits.
\<close>

definition url_unreserved :: "char \<Rightarrow> bool" where
  "url_unreserved c \<longleftrightarrow>
     (CHR ''a'' \<le> c \<and> c \<le> CHR ''z'') \<or> (CHR ''A'' \<le> c \<and> c \<le> CHR ''Z'') \<or> is_digit c \<or>
     c \<in> {CHR ''-'', CHR ''_'', CHR ''.'', CHR ''~''}"

definition hex_char :: "nat \<Rightarrow> char" where
  "hex_char d = (if d < 10 then char_of (48 + d) else char_of (55 + d))"

definition unhex :: "char \<Rightarrow> nat option" where
  "unhex c =
     (let n = of_char c :: nat in
      if 48 \<le> n \<and> n \<le> 57 then Some (n - 48)
      else if 97 \<le> n \<and> n \<le> 102 then Some (n - 87)
      else if 65 \<le> n \<and> n \<le> 70 then Some (n - 55) else None)"

definition escape_char :: "char \<Rightarrow> string" where
  "escape_char c =
     (if url_unreserved c then [c]
      else if c = CHR '' '' then ''+''
      else [CHR ''%'', hex_char (of_char c div 16), hex_char (of_char c mod 16)])"

definition QueryEscape :: "string \<Rightarrow> string" where
  "QueryEscape s = concat (map escape_char s)"

fun unescape :: "string \<Rightarrow> string option" where
  "unescape [] = Some []"
| "unescape (c # cs) =
     (if c = CHR ''%'' then
        (case cs of
           h # l # rest \<Rightarrow>
             (case (unhex h, unhex l) of
                (Some a, Some b) \<Rightarrow> map_option ((#) (char_of (16 * a + b))) (unescape rest)
              | _ \<Rightarrow> None)
         | _ \<Rightarrow> None)
      else if c = CHR ''+'' then map_option ((#) CHR '' '') (unescape cs)
      else map_option ((#) c) (unescape cs))"

definition QueryUnescape :: "string \<Rightarrow> string result" where
  "QueryUnescape s = (case unescape s of Some t \<Rightarrow> Inr t | None \<Rightarrow> Inl (Errorf ''invalid URL escape'' [s]))"

section \<open>Algorithm parameters\<close>

definition isCanonicalDecimal :: "string \<Rightarrow> bool" where
  "isCanonicalDecimal value =
     (if value = [] \<or> (1 < length value \<and> value ! 0 = CHR ''0'') then False
      else list_all (\<lambda>c. \<not> (c < CHR ''0'' \<or> CHR ''9'' < c)) value)"

definition isCanonicalPositiveDecimal :: "string \<Rightarrow> bool" where
  "isCanonicalPositiveDecimal value \<longleftrightarrow> value \<noteq> ''0'' \<and> isCanonicalDecimal value"

definition decimalGreaterThan39 :: "string \<Rightarrow> bool" where
  "decimalGreaterThan39 value \<longleftrightarrow> 2 < length value \<or> (length value = 2 \<and> ''39'' < value)"

text \<open>On a value out of range \<open>Atoi\<close> returns the largest \<open>int\<close> with its error.\<close>

definition parseBitLength :: "string \<Rightarrow> int \<times> bool" where
  "parseBitLength value =
     (if \<not> isCanonicalPositiveDecimal value then (0, False)
      else case atoi value of Some bits \<Rightarrow> (bits, True) | None \<Rightarrow> (max_int, False))"

definition isLowerSHA256 :: "string \<Rightarrow> bool" where
  "isLowerSHA256 value =
     (if length value \<noteq> 64 then False
      else list_all (\<lambda>c. \<not> ((c < CHR ''0'' \<or> CHR ''9'' < c) \<and> (c < CHR ''a'' \<or> CHR ''f'' < c))) value)"

definition isCanonicalOID :: "string \<Rightarrow> bool" where
  "isCanonicalOID value =
     (let arcs = split CHR ''.'' value
      in if length arcs < 2 then False
         else if \<not> list_all isCanonicalDecimal arcs then False
         else if arcs ! 0 \<noteq> ''0'' \<and> arcs ! 0 \<noteq> ''1'' \<and> arcs ! 0 \<noteq> ''2'' then False
         else if arcs ! 0 \<noteq> ''2'' \<and> decimalGreaterThan39 (arcs ! 1) then False
         else True)"

definition Params_empty :: CryptoAlgorithmParameters where
  "Params_empty = \<lparr>Params_KeySize = 0, Params_SubgroupSize = 0, Params_Curve = []\<rparr>"

definition Params_pairs :: "CryptoAlgorithmParameters \<Rightarrow> string list" where
  "Params_pairs p =
     (if 0 < Params_KeySize p then [''key-size'' @ ''='' @ itoa (Params_KeySize p)] else []) @
     (if 0 < Params_SubgroupSize p then [''subgroup-size'' @ ''='' @ itoa (Params_SubgroupSize p)] else []) @
     (if Params_Curve p \<noteq> [] then [''curve'' @ ''='' @ Params_Curve p] else [])"

definition Params_String :: "CryptoAlgorithmParameters \<Rightarrow> string" where
  "Params_String p = join (Params_pairs p) '',''"

text \<open>The loop of \<open>AlgorithmParameters\<close> over the comma-separated pairs.\<close>

fun params_loop :: "string list \<Rightarrow> CryptoAlgorithmParameters \<Rightarrow> CryptoAlgorithmParameters result" where
  "params_loop [] params = Inr params"
| "params_loop (pair # pairs) params =
     (case cut pair CHR ''='' of (name, value, found) \<Rightarrow>
        if \<not> found then Inl (Errorf ''unknown algorithm parameter %q'' [pair])
        else if name = ''key-size'' then
          (case parseBitLength value of (bits, ok) \<Rightarrow>
             if \<not> ok then Inl (Errorf ''key size parameter must be a canonical positive decimal'' [])
             else params_loop pairs (params\<lparr>Params_KeySize := bits\<rparr>))
        else if name = ''subgroup-size'' then
          (case parseBitLength value of (bits, ok) \<Rightarrow>
             if \<not> ok then Inl (Errorf ''subgroup size parameter must be a canonical positive decimal'' [])
             else params_loop pairs (params\<lparr>Params_SubgroupSize := bits\<rparr>))
        else if name = ''curve'' then
          (if value = [] then Inl (Errorf ''curve parameter must not be empty'' [])
           else params_loop pairs (params\<lparr>Params_Curve := value\<rparr>))
        else Inl (Errorf ''unknown algorithm parameter %q'' [pair]))"

definition AlgorithmParameters :: "CryptoIdentity \<Rightarrow> CryptoAlgorithmParameters result" where
  "AlgorithmParameters i =
     (if Identity_Parameters i = [] then Inr Params_empty
      else bind_result (params_loop (split CHR '','' (Identity_Parameters i)) Params_empty) (\<lambda>params.
        if 0 < Params_SubgroupSize params \<and> Params_KeySize params = 0 then
          Inl (Errorf ''subgroup size parameter requires a key size'' [])
        else if Params_Curve params \<noteq> [] \<and> 0 < Params_KeySize params then
          Inl (Errorf ''curve parameter must not be combined with sizes'' [])
        else if Params_String params \<noteq> Identity_Parameters i then
          Inl (Errorf ''algorithm parameters %q are not canonical'' [Identity_Parameters i])
        else Inr params))"

section \<open>Descriptors\<close>

definition Descriptor_String :: "CryptoDescriptor \<Rightarrow> string" where
  "Descriptor_String d =
     (let segments = [Desc_Kind d];
          segments = (if Desc_Kind d = CryptoKindKey then segments @ [Desc_KeyType d] else segments);
          segments = segments @ [Identity_Method (Desc_Identity d), QueryEscape (Identity_Value (Desc_Identity d))];
          segments = (if Identity_Parameters (Desc_Identity d) \<noteq> []
                      then segments @ [QueryEscape (Identity_Parameters (Desc_Identity d))] else segments)
      in join segments '':'')"

definition Descriptor_Compare :: "CryptoDescriptor \<Rightarrow> CryptoDescriptor \<Rightarrow> int" where
  "Descriptor_Compare d other =
     cmp_or 0
       [compare (Desc_Kind d) (Desc_Kind other),
        compare (Desc_KeyType d) (Desc_KeyType other),
        compare (Identity_Method (Desc_Identity d)) (Identity_Method (Desc_Identity other)),
        compare (Identity_Value (Desc_Identity d)) (Identity_Value (Desc_Identity other)),
        compare (Identity_Parameters (Desc_Identity d)) (Identity_Parameters (Desc_Identity other))]"

definition validateKindKeyTypeMethod :: "CryptoDescriptor \<Rightarrow> unit result" where
  "validateKindKeyTypeMethod d =
     (let kind = Desc_Kind d; keyType = Desc_KeyType d; meth = Identity_Method (Desc_Identity d) in
      if kind = CryptoKindCertificate then
        (if keyType \<noteq> [] then Inl (Errorf ''certificate descriptor must not contain key type %q'' [keyType])
         else if meth \<noteq> CryptoMethodSHA256 then
           Inl (Errorf ''certificate descriptor requires identification method %q'' [CryptoMethodSHA256])
         else Inr ())
      else if kind = CryptoKindKey then
        (if keyType = CryptoKeyTypePublic then
           (if meth \<noteq> CryptoMethodSPKISHA256 then
              Inl (Errorf ''public key descriptor requires identification method %q'' [CryptoMethodSPKISHA256])
            else Inr ())
         else if keyType = CryptoKeyTypePrivate then
           (if meth \<noteq> CryptoMethodSPKISHA256 \<and> meth \<noteq> CryptoMethodEncryptedPKCS8SHA256 \<and>
               meth \<noteq> CryptoMethodEncryptedRFC1423SHA256 then
              Inl (Errorf ''private key descriptor has unknown identification method %q'' [meth])
            else Inr ())
         else Inl (Errorf ''unknown key type %q'' [keyType]))
      else if kind = CryptoKindAlgorithm then
        (if keyType \<noteq> [] then Inl (Errorf ''algorithm descriptor must not contain key type %q'' [keyType])
         else if meth \<noteq> CryptoMethodOID then
           Inl (Errorf ''algorithm descriptor requires identification method %q'' [CryptoMethodOID])
         else Inr ())
      else Inl (Errorf ''unknown asset kind %q'' [kind]))"

definition validateIdentityValue :: "CryptoDescriptor \<Rightarrow> unit result" where
  "validateIdentityValue d =
     (let meth = Identity_Method (Desc_Identity d) in
      if meth = CryptoMethodSHA256 \<or> meth = CryptoMethodSPKISHA256 \<or>
         meth = CryptoMethodEncryptedPKCS8SHA256 \<or> meth = CryptoMethodEncryptedRFC1423SHA256 then
        (if \<not> isLowerSHA256 (Identity_Value (Desc_Identity d)) then
           Inl (Errorf ''identification value must be 64 lowercase hexadecimal characters'' [])
         else Inr ())
      else if meth = CryptoMethodOID then
        (if \<not> isCanonicalOID (Identity_Value (Desc_Identity d)) then
           Inl (Errorf ''identification value must be a canonical OID'' [])
         else Inr ())
      else Inr ())"

definition validateParameters :: "CryptoDescriptor \<Rightarrow> unit result" where
  "validateParameters d =
     (if Identity_Parameters (Desc_Identity d) = [] then Inr ()
      else if Desc_Kind d \<noteq> CryptoKindAlgorithm \<or> Identity_Method (Desc_Identity d) \<noteq> CryptoMethodOID then
        Inl (Errorf ''parameters are only valid for OID algorithm descriptors'' [])
      else (case AlgorithmParameters (Desc_Identity d) of
              Inl e \<Rightarrow> Inl (Wrapf ''validate algorithm parameters: %w'' [] e)
            | Inr _ \<Rightarrow> Inr ()))"

definition Descriptor_Validate :: "CryptoDescriptor \<Rightarrow> unit result" where
  "Descriptor_Validate d =
     bind_result (wrap_err ''validate kind, key type, and method: %w'' [] (validateKindKeyTypeMethod d)) (\<lambda>_.
     bind_result (wrap_err ''validate identity value: %w'' [] (validateIdentityValue d)) (\<lambda>_.
     wrap_err ''validate parameters: %w'' [] (validateParameters d)))"

text \<open>
  \<open>parseDescriptor\<close>: the switch on the first segment gives a descriptor without value and
  parameters, the value segment and the parameters segment.
\<close>

definition Identity_empty :: CryptoIdentity where
  "Identity_empty = \<lparr>Identity_Method = [], Identity_Value = [], Identity_Parameters = []\<rparr>"

definition Descriptor_empty :: CryptoDescriptor where
  "Descriptor_empty = \<lparr>Desc_Kind = [], Desc_KeyType = [], Desc_Identity = Identity_empty\<rparr>"

definition parseSegments :: "string list \<Rightarrow> (CryptoDescriptor \<times> string \<times> string) result" where
  "parseSegments segments =
     (if segments ! 0 = CryptoKindCertificate then
        (if length segments \<noteq> 3 then Inl (Errorf ''certificate descriptor must contain 3 segments'' [])
         else Inr (Descriptor_empty\<lparr>Desc_Kind := CryptoKindCertificate,
                     Desc_Identity := Identity_empty\<lparr>Identity_Method := segments ! 1\<rparr>\<rparr>, segments ! 2, []))
      else if segments ! 0 = CryptoKindKey then
        (if length segments \<noteq> 4 then Inl (Errorf ''key descriptor must contain 4 segments'' [])
         else Inr (Descriptor_empty\<lparr>Desc_Kind := CryptoKindKey, Desc_KeyType := segments ! 1,
                     Desc_Identity := Identity_empty\<lparr>Identity_Method := segments ! 2\<rparr>\<rparr>, segments ! 3, []))
      else if segments ! 0 = CryptoKindAlgorithm then
        (if length segments \<noteq> 3 \<and> length segments \<noteq> 4 then
           Inl (Errorf ''algorithm descriptor must contain 3 or 4 segments'' [])
         else
           let d = Descriptor_empty\<lparr>Desc_Kind := CryptoKindAlgorithm,
                     Desc_Identity := Identity_empty\<lparr>Identity_Method := segments ! 1\<rparr>\<rparr>
           in if length segments = 4 then
                (if segments ! 3 = [] then Inl (Errorf ''algorithm descriptor parameters must not be empty'' [])
                 else Inr (d, segments ! 2, segments ! 3))
              else Inr (d, segments ! 2, []))
      else Inl (Errorf ''unknown descriptor kind %q'' [segments ! 0]))"

definition set_value :: "string \<Rightarrow> CryptoDescriptor \<Rightarrow> CryptoDescriptor" where
  "set_value v d = d\<lparr>Desc_Identity := (Desc_Identity d)\<lparr>Identity_Value := v\<rparr>\<rparr>"

definition set_parameters :: "string \<Rightarrow> CryptoDescriptor \<Rightarrow> CryptoDescriptor" where
  "set_parameters v d = d\<lparr>Desc_Identity := (Desc_Identity d)\<lparr>Identity_Parameters := v\<rparr>\<rparr>"

definition parseDescriptor :: "string \<Rightarrow> CryptoDescriptor result" where
  "parseDescriptor s =
     (let segments = split CHR '':'' s in
      bind_result (parseSegments segments) (\<lambda>(descriptor, valueSegment, parametersSegment).
      bind_result (wrap_err ''decode identification value: %w'' [] (QueryUnescape valueSegment)) (\<lambda>value.
      let descriptor = set_value value descriptor in
      bind_result
        (if length segments = 4 \<and> Desc_Kind descriptor = CryptoKindAlgorithm then
           bind_result (wrap_err ''decode identification parameters: %w'' [] (QueryUnescape parametersSegment))
             (\<lambda>parameters. Inr (set_parameters parameters descriptor))
         else Inr descriptor) (\<lambda>descriptor.
      bind_result (wrap_err ''validate descriptor: %w'' [] (Descriptor_Validate descriptor))
        (\<lambda>_. Inr descriptor)))))"

section \<open>Validation of assets\<close>

definition Relationship_validate :: "CryptoRelationship \<Rightarrow> unit result" where
  "Relationship_validate r =
     (if Rel_Type r \<in> {CryptoRelationshipContains, CryptoRelationshipSignedWith, CryptoRelationshipUsedWith,
           CryptoRelationshipCorrespondsTo} then
        wrap_err ''validate related asset: %w'' [] (Descriptor_Validate (Rel_RelatedAsset r))
      else Inl (Errorf ''unknown relationship type %q'' [Rel_Type r]))"

definition validateCertificate :: "CryptoCertificate \<Rightarrow> unit result" where
  "validateCertificate c =
     (if Cert_Format c \<noteq> CryptoCertificateFormatX509 then
        Inl (Errorf ''unknown certificate format %q'' [Cert_Format c])
      else if Cert_MaxPathLen c < 0 then Inl (Errorf ''certificate path length must not be negative'' [])
      else if Cert_MaxPathLen c \<noteq> 0 \<and> Cert_MaxPathLenZero c then
        Inl (Errorf ''certificate path length zero flag requires zero path length'' [])
      else Inr ())"

definition validateKey :: "'a CryptoAssetInfo_scheme \<Rightarrow> CryptoKey \<Rightarrow> unit result" where
  "validateKey a k =
     (if Key_Size k < 0 then Inl (Errorf ''key size must not be negative'' [])
      else
        let encrypted = (Asset_KeyType a = CryptoKeyTypePrivate \<and>
              (Identity_Method (Asset_Identity a) = CryptoMethodEncryptedPKCS8SHA256 \<or>
               Identity_Method (Asset_Identity a) = CryptoMethodEncryptedRFC1423SHA256))
        in if Key_Encrypted k \<noteq> encrypted then
             Inl (Errorf ''key encrypted flag does not match identification method %q''
                    [Identity_Method (Asset_Identity a)])
           else Inr ())"

definition validateAlgorithm :: "CryptoAlgorithm \<Rightarrow> unit result" where
  "validateAlgorithm a =
     (if Alg_Primitive a \<notin> {CryptoPrimitiveUnknown, CryptoPrimitiveSignature, CryptoPrimitivePKE} then
        Inl (Errorf ''unknown algorithm primitive %q'' [Alg_Primitive a])
      else if (case Alg_ClassicalSecurityLevel a of Some level \<Rightarrow> level \<le> 0 | None \<Rightarrow> False) then
        Inl (Errorf ''classical security level must be positive'' [])
      else if (case Alg_NISTQuantumSecurityLevel a of Some level \<Rightarrow> level < 0 \<or> 6 < level | None \<Rightarrow> False) then
        Inl (Errorf ''NIST quantum security level must be between 0 and 6'' [])
      else Inr ())"

text \<open>The loop over the relationships, with the index the messages name.\<close>

fun relationships_validate :: "CryptoDescriptor \<Rightarrow> nat \<Rightarrow> CryptoRelationship list \<Rightarrow> unit result" where
  "relationships_validate descriptor i [] = Inr ()"
| "relationships_validate descriptor i (r # rs) =
     bind_result (wrap_err ''validate relationship %d: %w'' [itoa (int i)] (Relationship_validate r)) (\<lambda>_.
       if Rel_RelatedAsset r = descriptor then
         Inl (Errorf ''relationship %d refers to the source asset'' [itoa (int i)])
       else relationships_validate descriptor (Suc i) rs)"

definition detailCount :: "'a CryptoAssetInfo_scheme \<Rightarrow> nat" where
  "detailCount a =
     (if Asset_Certificate a \<noteq> None then 1 else 0) + (if Asset_Key a \<noteq> None then 1 else 0) +
     (if Asset_Algorithm a \<noteq> None then 1 else 0)"

definition validateDetail :: "'a CryptoAssetInfo_scheme \<Rightarrow> unit result" where
  "validateDetail a =
     (if Asset_Kind a = CryptoKindCertificate then
        (case Asset_Certificate a of
           None \<Rightarrow> Inl (Errorf ''asset kind %q requires certificate details'' [Asset_Kind a])
         | Some c \<Rightarrow> wrap_err ''validate certificate: %w'' [] (validateCertificate c))
      else if Asset_Kind a = CryptoKindKey then
        (case Asset_Key a of
           None \<Rightarrow> Inl (Errorf ''asset kind %q requires key details'' [Asset_Kind a])
         | Some k \<Rightarrow> wrap_err ''validate key: %w'' [] (validateKey a k))
      else if Asset_Kind a = CryptoKindAlgorithm then
        (case Asset_Algorithm a of
           None \<Rightarrow> Inl (Errorf ''asset kind %q requires algorithm details'' [Asset_Kind a])
         | Some alg \<Rightarrow> wrap_err ''validate algorithm: %w'' [] (validateAlgorithm alg))
      else Inr ())"

definition Info_Validate :: "'a CryptoAssetInfo_scheme \<Rightarrow> unit result" where
  "Info_Validate a =
     (let descriptor = Descriptor a in
      bind_result (wrap_err ''validate descriptor: %w'' [] (Descriptor_Validate descriptor)) (\<lambda>_.
      if detailCount a \<noteq> 1 then
        Inl (Errorf ''asset must contain exactly one detail, got %d'' [itoa (int (detailCount a))])
      else
      bind_result (validateDetail a) (\<lambda>_.
      relationships_validate descriptor 0 (Asset_Relationships a))))"

definition Asset_Validate :: "CryptoAsset \<Rightarrow> unit result" where
  "Asset_Validate a =
     bind_result (wrap_err ''validate description: %w'' [] (Info_Validate a)) (\<lambda>_.
     if Asset_Format a \<notin> {[], CryptoKeyFormatPKCS1, CryptoKeyFormatPKCS8, CryptoKeyFormatSEC1, CryptoKeyFormatPKIX}
     then Inl (Errorf ''unknown key container format %q'' [Asset_Format a])
     else if Asset_Format a \<noteq> [] \<and> Asset_Kind a \<noteq> CryptoKindKey
     then Inl (Errorf ''asset kind %q has no key container'' [Asset_Kind a])
     else if Asset_Encoding a \<notin> {[], CryptoEncodingPEM, CryptoEncodingDER}
     then Inl (Errorf ''unknown encoding %q'' [Asset_Encoding a])
     else if Asset_Encoding a \<noteq> [] \<and> Asset_Kind a = CryptoKindAlgorithm
     then Inl (Errorf ''asset kind %q has no encoded form'' [Asset_Kind a])
     else if Asset_Keystore a \<notin> {[], CryptoKeystorePKCS12}
     then Inl (Errorf ''unknown keystore type %q'' [Asset_Keystore a])
     else if Asset_Keystore a \<noteq> [] \<and> Asset_Encoding a \<noteq> CryptoEncodingDER
     then Inl (Errorf ''keystore %q requires %s encoding'' [Asset_Keystore a, CryptoEncodingDER])
     else Inr ())"

section \<open>The order of assets\<close>

definition CompareCryptoAssets :: "CryptoAsset \<Rightarrow> CryptoAsset \<Rightarrow> int" where
  "CompareCryptoAssets a b =
     cmp_or 0
       [Descriptor_Compare (Descriptor a) (Descriptor b),
        compare (Asset_FilePath a) (Asset_FilePath b),
        compare (Layer_DiffID (Asset_Layer a)) (Layer_DiffID (Asset_Layer b)),
        compare (Asset_Format a) (Asset_Format b)]"

section \<open>Round trip of the query escaping\<close>

lemma unhex_hex_char: "d < 16 \<Longrightarrow> unhex (hex_char d) = Some d"
  by (auto simp: unhex_def hex_char_def Let_def)

lemma hex_char_special: "d < 16 \<Longrightarrow> hex_char d \<noteq> CHR '':'' \<and> hex_char d \<noteq> CHR '','' "
  using unhex_hex_char [of d] by (auto simp: unhex_def)

lemma url_unreserved_special:
  "url_unreserved c \<Longrightarrow> c \<noteq> CHR ''%'' \<and> c \<noteq> CHR ''+'' \<and> c \<noteq> CHR '':'' \<and> c \<noteq> CHR '' ''"
  by (auto simp: url_unreserved_def is_digit_iff less_eq_char_def)

lemma of_char_nibbles: "of_char c div 16 < (16::nat)" "of_char c mod 16 < (16::nat)"
proof -
  have "of_char c < (16 * 16 :: nat)" by simp
  then show "of_char c div 16 < (16::nat)" by (rule less_mult_imp_div_less)
qed simp

lemma char_of_nibbles: "char_of (16 * (of_char c div 16) + of_char c mod 16 :: nat) = c"
  by simp

lemma unescape_escape_char:
  "unescape (escape_char c @ rest) = map_option ((#) c) (unescape rest)"
proof -
  consider "url_unreserved c" | "c = CHR '' ''" "\<not> url_unreserved c" | "c \<noteq> CHR '' ''" "\<not> url_unreserved c" by blast
  then show ?thesis
  proof cases
    case 1
    then show ?thesis using url_unreserved_special [of c] by (simp add: escape_char_def)
  next
    case 2
    then show ?thesis by (simp add: escape_char_def)
  next
    case 3
    then show ?thesis by (simp add: escape_char_def unhex_hex_char of_char_nibbles)
  qed
qed

lemma unescape_QueryEscape: "unescape (QueryEscape s) = Some s"
  unfolding QueryEscape_def by (induction s) (simp_all add: unescape_escape_char)

lemma QueryUnescape_QueryEscape [simp]: "QueryUnescape (QueryEscape s) = Inr s"
  by (simp add: QueryUnescape_def unescape_QueryEscape)

lemma colon_notin_QueryEscape: "CHR '':'' \<notin> set (QueryEscape s)"
proof -
  have "CHR '':'' \<notin> set (escape_char c)" for c
    using hex_char_special [of "of_char c div 16"] hex_char_special [of "of_char c mod 16"] url_unreserved_special [of c]
    by (auto simp: escape_char_def of_char_nibbles dest!: sym [of "CHR '':''"])
  then show ?thesis by (auto simp: QueryEscape_def)
qed

lemma QueryEscape_eq_Nil [simp]: "QueryEscape s = [] \<longleftrightarrow> s = []"
  by (cases s) (auto simp: QueryEscape_def escape_char_def)

section \<open>Descriptors survive printing and parsing\<close>

text \<open>What validation accepts, case by case.\<close>

lemma Descriptor_Validate_ok:
  "is_ok (Descriptor_Validate d) \<longleftrightarrow>
     validateKindKeyTypeMethod d = Inr () \<and> validateIdentityValue d = Inr () \<and> validateParameters d = Inr ()"
  by (auto simp: Descriptor_Validate_def is_ok_iff)

lemma Descriptor_valid_cases:
  assumes "is_ok (Descriptor_Validate d)"
  obtains
    (certificate) "Desc_Kind d = CryptoKindCertificate" "Desc_KeyType d = []"
      "Identity_Method (Desc_Identity d) = CryptoMethodSHA256" "Identity_Parameters (Desc_Identity d) = []"
  | (key) "Desc_Kind d = CryptoKindKey" "Desc_KeyType d \<in> {CryptoKeyTypePublic, CryptoKeyTypePrivate}"
      "Identity_Method (Desc_Identity d) \<in> {CryptoMethodSPKISHA256, CryptoMethodEncryptedPKCS8SHA256,
         CryptoMethodEncryptedRFC1423SHA256}"
      "Identity_Parameters (Desc_Identity d) = []"
  | (algorithm) "Desc_Kind d = CryptoKindAlgorithm" "Desc_KeyType d = []"
      "Identity_Method (Desc_Identity d) = CryptoMethodOID"
  using assms unfolding Descriptor_Validate_ok
  by (auto simp: validateKindKeyTypeMethod_def validateParameters_def Let_def split: if_splits)

lemma descriptor_eqI:
  "Desc_Kind d = Desc_Kind e \<Longrightarrow> Desc_KeyType d = Desc_KeyType e \<Longrightarrow>
   Identity_Method (Desc_Identity d) = Identity_Method (Desc_Identity e) \<Longrightarrow>
   Identity_Value (Desc_Identity d) = Identity_Value (Desc_Identity e) \<Longrightarrow>
   Identity_Parameters (Desc_Identity d) = Identity_Parameters (Desc_Identity e) \<Longrightarrow>
   d = (e :: CryptoDescriptor)"
  by simp

text \<open>C32. Printing a valid descriptor and parsing the result gives back the descriptor.\<close>

theorem descriptor_roundtrip:
  assumes "is_ok (Descriptor_Validate d)"
  shows "parseDescriptor (Descriptor_String d) = Inr d"
proof -
  from assms have ok: "Descriptor_Validate d = Inr ()" by (auto simp: is_ok_iff)
  let ?v = "QueryEscape (Identity_Value (Desc_Identity d))"
  let ?p = "QueryEscape (Identity_Parameters (Desc_Identity d))"
  note defs = parseDescriptor_def parseSegments_def Let_def set_value_def
    set_parameters_def Descriptor_empty_def Identity_empty_def
  from assms show ?thesis
  proof (cases rule: Descriptor_valid_cases)
    case certificate
    have s: "split CHR '':'' (Descriptor_String d) = [CryptoKindCertificate, CryptoMethodSHA256, ?v]"
      unfolding Descriptor_String_def using certificate colon_notin_QueryEscape by (simp add: split_no_sep)
    show ?thesis using s ok certificate by (cases d; cases "Desc_Identity d"; simp add: defs)
  next
    case key
    then have s: "split CHR '':'' (Descriptor_String d) =
        [CryptoKindKey, Desc_KeyType d, Identity_Method (Desc_Identity d), ?v]"
      unfolding Descriptor_String_def using colon_notin_QueryEscape by (auto simp: split_no_sep)
    show ?thesis using s ok key by (cases d; cases "Desc_Identity d"; simp add: defs)
  next
    case algorithm
    have s: "split CHR '':'' (Descriptor_String d) =
        (if Identity_Parameters (Desc_Identity d) = [] then [CryptoKindAlgorithm, CryptoMethodOID, ?v]
         else [CryptoKindAlgorithm, CryptoMethodOID, ?v, ?p])"
      unfolding Descriptor_String_def using algorithm colon_notin_QueryEscape by (auto simp: split_no_sep split_append_sep)
    show ?thesis using s ok algorithm
      by (cases "Identity_Parameters (Desc_Identity d) = []"; cases d; cases "Desc_Identity d"; simp add: defs)
  qed
qed

definition example_descriptor :: CryptoDescriptor where
  "example_descriptor = \<lparr>Desc_Kind = CryptoKindAlgorithm, Desc_KeyType = [],
     Desc_Identity = \<lparr>Identity_Method = CryptoMethodOID, Identity_Value = ''1.2.840.10045.2.1'',
       Identity_Parameters = ''curve=P-256''\<rparr>\<rparr>"

theorem descriptor_roundtrip_witness:
  "Descriptor_String example_descriptor = ''algorithm:oid:1.2.840.10045.2.1:curve%3DP-256'' \<and>
   parseDescriptor ''algorithm:oid:1.2.840.10045.2.1:curve%3DP-256'' = Inr example_descriptor"
proof -
  have "is_ok (Descriptor_Validate example_descriptor)" by code_simp
  then have "parseDescriptor (Descriptor_String example_descriptor) = Inr example_descriptor"
    by (rule descriptor_roundtrip)
  moreover have "Descriptor_String example_descriptor = ''algorithm:oid:1.2.840.10045.2.1:curve%3DP-256''" by code_simp
  ultimately show ?thesis by simp
qed

section \<open>Canonical decimals and object identifiers\<close>

lemma canonical_digits: "isCanonicalDecimal v \<Longrightarrow> v \<noteq> [] \<and> list_all is_digit v"
  by (auto simp: isCanonicalDecimal_def is_digit_def list_all_iff not_less split: if_splits)

lemma digit_char_digit_val: "is_digit c \<Longrightarrow> digit_char (digit_val c) = c"
  by (simp add: digit_char_def digit_val_def is_digit_iff)

lemma digit_val_less: "is_digit c \<Longrightarrow> digit_val c < 10"
  by (auto simp: digit_val_def is_digit_iff)

lemma dec_nat_snoc: "dec_nat (s @ [c]) = 10 * dec_nat s + digit_val c"
  by (simp add: dec_nat_def)

lemma dec_nat_pos:
  "v \<noteq> [] \<Longrightarrow> hd v \<noteq> CHR ''0'' \<Longrightarrow> list_all is_digit v \<Longrightarrow> 0 < dec_nat v"
proof (induction v rule: rev_induct)
  case (snoc c v)
  show ?case
  proof (cases "v = []")
    case True
    then have "digit_val c \<noteq> 0" using snoc.prems digit_char_digit_val [of c] digit_char_eq_0 [of 0] by (auto intro: ccontr)
    then show ?thesis by (simp add: dec_nat_snoc)
  qed (use snoc in \<open>simp add: dec_nat_snoc hd_append\<close>)
qed simp

text \<open>A string of digits without a leading zero is the decimal form of its value.\<close>

lemma nat_dec_dec_nat:
  "v \<noteq> [] \<Longrightarrow> list_all is_digit v \<Longrightarrow> length v = 1 \<or> hd v \<noteq> CHR ''0'' \<Longrightarrow> nat_dec (dec_nat v) = v"
proof (induction v rule: rev_induct)
  case (snoc c v)
  from snoc.prems have c: "is_digit c" by simp
  show ?case
  proof (cases "v = []")
    case True
    have "dec_nat [c] = digit_val c" by (simp add: dec_nat_def)
    then show ?thesis
      using True c by (simp add: nat_dec.simps [of "digit_val c"] digit_val_less digit_char_digit_val)
  next
    case False
    then have hd: "hd v \<noteq> CHR ''0''" using snoc.prems by (auto simp: hd_append)
    then have pos: "0 < dec_nat v" using False snoc.prems by (auto intro: dec_nat_pos)
    have "nat_dec (dec_nat v) = v" using False hd snoc by auto
    then show ?thesis
      using pos c by (simp add: dec_nat_snoc nat_dec.simps [of "10 * dec_nat v + digit_val c"] digit_val_less
          digit_char_digit_val)
  qed
qed simp

lemma isCanonicalDecimal_iff: "isCanonicalDecimal v \<longleftrightarrow> (\<exists>n. v = nat_dec n)"
proof
  assume c: "isCanonicalDecimal v"
  then have "length v = 1 \<or> hd v \<noteq> CHR ''0''"
    by (cases v) (auto simp: isCanonicalDecimal_def split: if_splits)
  then show "\<exists>n. v = nat_dec n"
    using canonical_digits [OF c] nat_dec_dec_nat by metis
next
  assume "\<exists>n. v = nat_dec n"
  then obtain n where v: "v = nat_dec n" by blast
  have "length v = 1 \<or> v ! 0 \<noteq> CHR ''0''"
    using hd_nat_dec [of n] by (cases "n < 10") (auto simp: v nat_dec.simps [of n] hd_conv_nth)
  moreover have "list_all is_digit v" by (simp add: v nat_dec_digits)
  ultimately show "isCanonicalDecimal v"
    by (auto simp: isCanonicalDecimal_def v list_all_iff is_digit_def not_less)
qed

lemma length_nat_dec: "length (nat_dec n) = (if n < 10 then 1 else Suc (length (nat_dec (n div 10))))"
  by (subst nat_dec.simps) simp

lemma digit_char_less: "a < 10 \<Longrightarrow> b < 10 \<Longrightarrow> digit_char a < digit_char b \<longleftrightarrow> a < b"
  by (simp add: less_char_def)

lemma digit_char_eq: "a < 10 \<Longrightarrow> b < 10 \<Longrightarrow> digit_char a = digit_char b \<longleftrightarrow> a = b"
  by (metis digit_val_digit_char)

lemma decimalGreaterThan39_nat_dec: "decimalGreaterThan39 (nat_dec n) \<longleftrightarrow> 39 < n"
proof -
  consider "n < 10" | "10 \<le> n" "n < 100" | "100 \<le> n" by linarith
  then show ?thesis
  proof cases
    case 2
    then have nd: "nat_dec n = [digit_char (n div 10), digit_char (n mod 10)]"
      by (simp add: nat_dec.simps [of n] nat_dec.simps [of "n div 10"])
    have "''39'' = [digit_char 3, digit_char 9]" by code_simp
    then have "''39'' < nat_dec n \<longleftrightarrow> 3 < n div 10 \<or> (3 = n div 10 \<and> 9 < n mod 10)"
      using 2 digit_char_less [of 3 "n div 10"] digit_char_less [of 9 "n mod 10"] digit_char_eq [of 3 "n div 10"]
      by (simp add: nd)
    also have "\<dots> \<longleftrightarrow> 39 < n" using 2 by presburger
    finally show ?thesis by (simp add: decimalGreaterThan39_def nd)
  next
    case 3
    then have "2 < length (nat_dec n)"
      by (simp add: length_nat_dec [of n] length_nat_dec [of "n div 10"] div_le_mono Suc_lessI)
    then show ?thesis using 3 by (simp add: decimalGreaterThan39_def)
  qed (simp add: decimalGreaterThan39_def nat_dec.simps)
qed

lemma nat_dec_eq_iff [simp]: "nat_dec m = nat_dec n \<longleftrightarrow> m = n"
  by (metis dec_nat_nat_dec)

lemma dot_notin_nat_dec: "CHR ''.'' \<notin> set (nat_dec n)"
  using list_all_is_digit_notin [OF nat_dec_digits] by simp

lemma split_dotted: "arcs \<noteq> [] \<Longrightarrow> split CHR ''.'' (join (map nat_dec arcs) ''.'') = map nat_dec arcs"
  by (rule split_join) (auto simp: dot_notin_nat_dec)

lemma nat_dec_012: "nat_dec 0 = ''0''" "nat_dec 1 = ''1''" "nat_dec 2 = ''2''"
  by code_simp+

text \<open>The OID check accepts exactly the dotted decimal forms of object identifiers: at least two
  arcs without leading zeros, a first arc of at most 2, and a second arc of at most 39 below the
  first two roots.\<close>

theorem isCanonicalOID_iff:
  "isCanonicalOID s \<longleftrightarrow>
     (\<exists>arcs. s = join (map nat_dec arcs) ''.'' \<and> 2 \<le> length arcs \<and>
        (arcs ! 0 = 2 \<or> (arcs ! 0 < 2 \<and> arcs ! 1 \<le> 39)))"
proof -
  have dotted: "isCanonicalOID (join (map nat_dec arcs) ''.'') \<longleftrightarrow>
      (arcs ! 0 = 2 \<or> (arcs ! 0 < 2 \<and> arcs ! 1 \<le> 39))" if "2 \<le> length arcs" for arcs
  proof -
    from that obtain a b cs where arcs: "arcs = a # b # cs"
      by (metis One_nat_def Suc_1 Suc_le_length_iff)
    have "list_all isCanonicalDecimal (map nat_dec arcs)"
      by (auto simp: list_all_iff isCanonicalDecimal_iff)
    then show ?thesis
      unfolding isCanonicalOID_def Let_def
      by (simp add: arcs split_dotted decimalGreaterThan39_nat_dec del: join.simps list.map(2) flip: nat_dec_012)
  qed
  have "\<exists>arcs. s = join (map nat_dec arcs) ''.'' \<and> 2 \<le> length arcs" if ok: "isCanonicalOID s"
  proof -
    have *: "\<forall>x \<in> set (split CHR ''.'' s). \<exists>n. x = nat_dec n" "2 \<le> length (split CHR ''.'' s)"
      using ok by (auto simp: isCanonicalOID_def Let_def list_all_iff isCanonicalDecimal_iff split: if_splits)
    then obtain arcs where "split CHR ''.'' s = map nat_dec arcs"
      by (metis ex_map_conv)
    then show ?thesis using * join_split [of "CHR ''.''" s] by (metis length_map)
  qed
  then show ?thesis using dotted by blast
qed

section \<open>Algorithm parameters survive printing and parsing\<close>

text \<open>The parameters that have a canonical string.\<close>

definition params_ok :: "CryptoAlgorithmParameters \<Rightarrow> bool" where
  "params_ok p \<longleftrightarrow>
     0 \<le> Params_KeySize p \<and> Params_KeySize p \<le> max_int \<and>
     0 \<le> Params_SubgroupSize p \<and> Params_SubgroupSize p \<le> max_int \<and>
     (0 < Params_SubgroupSize p \<longrightarrow> 0 < Params_KeySize p) \<and>
     (Params_Curve p \<noteq> [] \<longrightarrow> Params_KeySize p = 0) \<and> CHR '','' \<notin> set (Params_Curve p)"

lemma parseBitLength_itoa:
  assumes "0 < i" "i \<le> max_int"
  shows "parseBitLength (itoa i) = (i, True)"
proof -
  have "isCanonicalDecimal (itoa i)" using assms(1) by (auto simp: isCanonicalDecimal_iff itoa_def)
  moreover have "itoa i \<noteq> ''0''" using assms(1) nat_dec_012(1) by (simp add: itoa_def) (metis nat_dec_eq_iff nat_0_iff not_le)
  ultimately show ?thesis
    using assms by (simp add: parseBitLength_def isCanonicalPositiveDecimal_def atoi_itoa)
qed

lemma parseBitLength_range: "parseBitLength v = (i, True) \<Longrightarrow> 0 \<le> i \<and> i \<le> max_int"
  using canonical_digits [of v]
  by (auto simp: parseBitLength_def isCanonicalPositiveDecimal_def atoi_digits split: if_splits option.splits)

lemma ex_unique2: "(\<And>n w. A n w \<longleftrightarrow> n = x \<and> w = y) \<Longrightarrow> (\<exists>n w. A n w \<and> Q n w) \<longleftrightarrow> Q x y"
  by auto

lemma params_loop_Cons:
  "params_loop (pair # pairs) p0 = Inr p \<longleftrightarrow>
     (\<exists>name v. pair = name @ CHR ''='' # v \<and> CHR ''='' \<notin> set name \<and>
        ((name = ''key-size'' \<and> (\<exists>b. parseBitLength v = (b, True) \<and>
            params_loop pairs (p0\<lparr>Params_KeySize := b\<rparr>) = Inr p)) \<or>
         (name = ''subgroup-size'' \<and> (\<exists>b. parseBitLength v = (b, True) \<and>
            params_loop pairs (p0\<lparr>Params_SubgroupSize := b\<rparr>) = Inr p)) \<or>
         (name = ''curve'' \<and> v \<noteq> [] \<and> params_loop pairs (p0\<lparr>Params_Curve := v\<rparr>) = Inr p)))"
  (is "?lhs \<longleftrightarrow> (\<exists>name v. pair = _ name v \<and> _ name \<and> ?Q name v)" is "_ \<longleftrightarrow> ?rhs")
proof -
  obtain name v found where cut: "cut pair CHR ''='' = (name, v, found)" by (metis prod_cases3)
  show ?thesis
  proof (cases found)
    case True
    then have eq: "pair = name' @ CHR ''='' # v' \<and> CHR ''='' \<notin> set name' \<longleftrightarrow> name' = name \<and> v' = v" for name' v'
      using cut by (auto simp flip: cut_True_iff)
    obtain b ok where b: "parseBitLength v = (b, ok)" by (metis prod.exhaust)
    have "(\<exists>n w. pair = n @ CHR ''='' # w \<and> CHR ''='' \<notin> set n \<and> Q n w) \<longleftrightarrow> Q name v" for Q
      using ex_unique2 [OF eq, of Q] by (simp only: conj_assoc)
    then have "?rhs \<longleftrightarrow> ?Q name v" .
    also have "\<dots> \<longleftrightarrow> ?lhs"
    proof -
      consider "name = ''key-size''" | "name = ''subgroup-size''" | "name = ''curve''"
        | "name \<notin> {''key-size'', ''subgroup-size'', ''curve''}" by blast
      then show ?thesis by cases (use True in \<open>simp_all add: cut b\<close>)
    qed
    finally show ?thesis by blast
  next
    case False
    then have "\<nexists>name v. pair = name @ CHR ''='' # v \<and> CHR ''='' \<notin> set name"
      using cut by (auto simp: cut_found)
    then show ?thesis using False by (simp add: cut) blast
  qed
qed

text \<open>The bounds the loop keeps.\<close>

definition params_bounds :: "CryptoAlgorithmParameters \<Rightarrow> bool" where
  "params_bounds p \<longleftrightarrow>
     0 \<le> Params_KeySize p \<and> Params_KeySize p \<le> max_int \<and>
     0 \<le> Params_SubgroupSize p \<and> Params_SubgroupSize p \<le> max_int \<and> CHR '','' \<notin> set (Params_Curve p)"

lemma params_loop_bounds:
  "params_loop pairs p0 = Inr p \<Longrightarrow> params_bounds p0 \<Longrightarrow> \<forall>pair \<in> set pairs. CHR '','' \<notin> set pair \<Longrightarrow>
   params_bounds p"
proof (induction pairs arbitrary: p0)
  case (Cons pair pairs)
  from Cons.prems(1) [unfolded params_loop_Cons]
  obtain p1 where "params_loop pairs p1 = Inr p" "params_bounds p1"
    using Cons.prems(2,3) parseBitLength_range by (fastforce simp: params_bounds_def)
  then show ?case using Cons by simp
qed simp

lemma params_loop_pairs:
  assumes "params_ok p"
  shows "params_loop (Params_pairs p) Params_empty = Inr p"
proof -
  obtain k s c where p: "p = \<lparr>Params_KeySize = k, Params_SubgroupSize = s, Params_Curve = c\<rparr>" by (cases p)
  define K S C where "K = ''key-size'' @ ''='' @ itoa k" and "S = ''subgroup-size'' @ ''='' @ itoa s"
    and "C = ''curve'' @ ''='' @ c"
  have cuts: "cut K CHR ''='' = (''key-size'', itoa k, True)" "cut S CHR ''='' = (''subgroup-size'', itoa s, True)"
    "cut C CHR ''='' = (''curve'', c, True)"
    by (simp_all add: cut_def K_def S_def C_def)
  have "Params_pairs p = (if 0 < k then [K] else []) @ (if 0 < s then [S] else []) @ (if c \<noteq> [] then [C] else [])"
    by (simp add: Params_pairs_def p K_def S_def C_def)
  then show ?thesis
    using assms
    by (cases "0 < k"; cases "0 < s"; cases "c = []")
      (simp_all add: p params_ok_def Params_empty_def parseBitLength_itoa cuts)
qed

lemma comma_notin_pairs:
  assumes "params_ok p" "x \<in> set (Params_pairs p)"
  shows "CHR '','' \<notin> set x"
proof -
  have "CHR '','' \<notin> set (itoa i)" if "0 < i" for i
    using list_all_is_digit_notin [OF itoa_digits] that by simp
  then show ?thesis
    using assms unfolding Params_pairs_def set_append Un_iff
    by (elim disjE) (simp_all split: if_splits add: params_ok_def)
qed

lemma Params_pairs_Nil: "Params_pairs p = [] \<longleftrightarrow> Params_String p = []"
  by (auto simp: Params_String_def Params_pairs_def)

lemma AlgorithmParameters_canonical:
  "AlgorithmParameters i = Inr p \<longleftrightarrow> params_ok p \<and> Identity_Parameters i = Params_String p"
proof (cases "Identity_Parameters i = []")
  case True
  have "params_ok p \<Longrightarrow> Params_pairs p = [] \<Longrightarrow> p = Params_empty"
    by (cases p) (auto simp: Params_pairs_def Params_empty_def params_ok_def split: if_splits)
  moreover have "params_ok Params_empty" "Params_pairs Params_empty = []"
    by (simp_all add: params_ok_def Params_empty_def Params_pairs_def max_int_def)
  ultimately show ?thesis
    using True Params_pairs_Nil [of p] by (auto simp: AlgorithmParameters_def Params_String_def)
next
  case False
  have "params_bounds Params_empty" by (simp add: params_bounds_def Params_empty_def max_int_def)
  then have bounds: "params_loop (split CHR '','' s) Params_empty = Inr q \<Longrightarrow> params_bounds q" for s q
    using params_loop_bounds split_elem_notin by blast
  show ?thesis
  proof
    assume "AlgorithmParameters i = Inr p"
    then show "params_ok p \<and> Identity_Parameters i = Params_String p"
      using False bounds
      by (fastforce simp: AlgorithmParameters_def params_ok_def params_bounds_def split: if_splits)
  next
    assume ok: "params_ok p \<and> Identity_Parameters i = Params_String p"
    then have ne: "Params_pairs p \<noteq> []" using False by (simp add: Params_pairs_Nil)
    have "split CHR '','' (Params_String p) = Params_pairs p"
      unfolding Params_String_def using ne ok comma_notin_pairs by (intro split_join) auto
    then show "AlgorithmParameters i = Inr p"
      using False ok by (auto simp: AlgorithmParameters_def params_loop_pairs) (auto simp: params_ok_def)
  qed
qed

text \<open>The parser of algorithm parameters accepts exactly the canonical strings of well-formed
  parameters, and returns the parameters they print.\<close>

theorem AlgorithmParameters_iff:
  "AlgorithmParameters i = Inr p \<longleftrightarrow> params_ok p \<and> Identity_Parameters i = Params_String p"
  by (rule AlgorithmParameters_canonical)

section \<open>The order of descriptors and assets\<close>

definition descriptor_key :: "CryptoDescriptor \<Rightarrow> string \<times> string \<times> string \<times> string \<times> string" where
  "descriptor_key d = (Desc_Kind d, Desc_KeyType d, Identity_Method (Desc_Identity d),
     Identity_Value (Desc_Identity d), Identity_Parameters (Desc_Identity d))"

lemma Descriptor_Compare_key: "Descriptor_Compare d e = compare (descriptor_key d) (descriptor_key e)"
  by (simp only: Descriptor_Compare_def descriptor_key_def cmp_or_chain compare_Pair cmp_or.simps(1))
    (simp only: compare_def)

lemma descriptor_key_inj: "descriptor_key d = descriptor_key e \<longleftrightarrow> d = e"
  by (auto simp: descriptor_key_def)

definition asset_key :: "CryptoAsset \<Rightarrow> (string \<times> string \<times> string \<times> string \<times> string) \<times> string \<times> string \<times> string" where
  "asset_key a = (descriptor_key (Descriptor a), Asset_FilePath a, Layer_DiffID (Asset_Layer a), Asset_Format a)"

lemma CompareCryptoAssets_key: "CompareCryptoAssets a b = compare (asset_key a) (asset_key b)"
  by (simp only: CompareCryptoAssets_def asset_key_def Descriptor_Compare_key cmp_or_chain compare_Pair cmp_or.simps(1))
    (simp add: compare_def)

lemma CompareCryptoAssets_strict_weak: "strict_weak CompareCryptoAssets"
  using strict_weak_compare [of asset_key] by (simp add: CompareCryptoAssets_key [abs_def])

section \<open>Which assets validate\<close>

lemma relationships_validate_iff:
  "relationships_validate d i rs = Inr () \<longleftrightarrow>
     (\<forall>r \<in> set rs. Relationship_validate r = Inr () \<and> Rel_RelatedAsset r \<noteq> d)"
  by (induction rs arbitrary: i) auto

lemma Info_Validate_iff:
  "Info_Validate a = Inr () \<longleftrightarrow>
     Descriptor_Validate (Descriptor a) = Inr () \<and> detailCount a = 1 \<and> validateDetail a = Inr () \<and>
     (\<forall>r \<in> set (Asset_Relationships a). Relationship_validate r = Inr () \<and> Rel_RelatedAsset r \<noteq> Descriptor a)"
  by (simp add: Info_Validate_def Let_def relationships_validate_iff)

end
