(* ===== verification/Fanal_Artifact.thy ===== *)
theory Fanal_Artifact
  imports Crypto_Types
begin

text \<open>
  The analysis results of \<open>pkg/fanal/types\<close>: secrets (\<open>secret.go\<close>), license files (\<open>license.go\<close>),
  misconfigurations (\<open>misconf.go\<close>), and the blobs, applications and merged artifact details of
  \<open>artifact.go\<close> with their orders.

  Free-form data is carried as a string, nil as the empty one: no modelled code computes with it. \<open>sort.Sort\<close> is an argument, any function with the contract \<open>sorter\<close> for the
  \<open>Less\<close> method of the slice.
\<close>

section \<open>Code excerpts, causes and policies (misconf.go)\<close>

record Line =
  Line_Number :: int
  Line_Content :: string
  Line_IsCause :: bool
  Line_Annotation :: string
  Line_Truncated :: bool
  Line_Highlighted :: string
  Line_FirstCause :: bool
  Line_LastCause :: bool

record Code =
  Code_Lines :: "Line list"

record Occurrence =
  Occ_Resource :: string
  Occ_Filename :: string
  Occ_Location :: Location

record RenderedCause =
  RC_Raw :: string
  RC_Highlighted :: string

record CauseMetadata =
  Cause_Resource :: string
  Cause_Provider :: string
  Cause_Service :: string
  Cause_StartLine :: int
  Cause_EndLine :: int
  Cause_Code :: Code
  Cause_Occurrences :: "Occurrence list"
  Cause_RenderedCause :: RenderedCause

record PolicyMetadata =
  Policy_ID :: string
  Policy_AVDID :: string
  Policy_Aliases :: "string list"
  Policy_Type :: string
  Policy_Title :: string
  Policy_Description :: string
  Policy_Severity :: string
  Policy_RecommendedActions :: string
  Policy_References :: "string list"

text \<open>The two embedded structs are fields.\<close>

record MisconfResult =
  MR_Namespace :: string
  MR_Query :: string
  MR_Message :: string
  MR_PolicyMetadata :: PolicyMetadata
  MR_CauseMetadata :: CauseMetadata
  MR_Traces :: "string list"

record Misconfiguration =
  MC_FileType :: string
  MC_FilePath :: string
  MC_Successes :: "MisconfResult list"
  MC_Warnings :: "MisconfResult list"
  MC_Failures :: "MisconfResult list"
  MC_Layer :: Layer

definition MisconfResults_Less :: "MisconfResult \<Rightarrow> MisconfResult \<Rightarrow> bool" where
  "MisconfResults_Less r s =
     (let p = MR_PolicyMetadata r; q = MR_PolicyMetadata s
      in if Policy_Type p \<noteq> Policy_Type q then Policy_Type p < Policy_Type q
         else if Policy_AVDID p \<noteq> Policy_AVDID q then Policy_AVDID p < Policy_AVDID q
         else if Policy_ID p \<noteq> Policy_ID q then Policy_ID p < Policy_ID q
         else if Policy_Severity p \<noteq> Policy_Severity q then Policy_Severity p < Policy_Severity q
         else if Cause_Resource (MR_CauseMetadata r) \<noteq> Cause_Resource (MR_CauseMetadata s)
         then Cause_Resource (MR_CauseMetadata r) < Cause_Resource (MR_CauseMetadata s)
         else MR_Message r < MR_Message s)"

text \<open>The key prints the cause with \<open>%v\<close>; the printer is an argument.\<close>

definition uniqueResults :: "(CauseMetadata \<Rightarrow> string) \<Rightarrow> MisconfResult list \<Rightarrow> MisconfResult list" where
  "uniqueResults print_cause results =
     (if length results = 0 then results
      else uniqBy (\<lambda>r. ''ID: '' @ Policy_ID (MR_PolicyMetadata r) @ '', Namespace: '' @ MR_Namespace r @
             '', Messsage: '' @ MR_Message r @ '', Cause: '' @ print_cause (MR_CauseMetadata r)) results)"

definition Misconf_Less :: "Misconfiguration \<Rightarrow> Misconfiguration \<Rightarrow> bool" where
  "Misconf_Less a b =
     (if MC_FileType a \<noteq> MC_FileType b then MC_FileType a < MC_FileType b else MC_FilePath a < MC_FilePath b)"

definition ToMisconfigurations ::
    "(CauseMetadata \<Rightarrow> string) \<Rightarrow> (MisconfResult list \<Rightarrow> MisconfResult list) \<Rightarrow>
     (Misconfiguration list \<Rightarrow> Misconfiguration list) \<Rightarrow>
     ((string \<times> Misconfiguration) list \<Rightarrow> (string \<times> Misconfiguration) list) \<Rightarrow>
     (string \<times> Misconfiguration) list \<Rightarrow> Misconfiguration list" where
  "ToMisconfigurations print_cause sort_results sort_misconfs range_of misconfs =
     sort_misconfs (map (\<lambda>(_, misconf). misconf\<lparr>
       MC_Successes := sort_results (uniqueResults print_cause (MC_Successes misconf)),
       MC_Warnings := sort_results (uniqueResults print_cause (MC_Warnings misconf)),
       MC_Failures := sort_results (uniqueResults print_cause (MC_Failures misconf))\<rparr>) (range_of misconfs))"

section \<open>Secrets (secret.go)\<close>

record SecretFinding =
  SF_RuleID :: string
  SF_Category :: string
  SF_Severity :: string
  SF_Title :: string
  SF_StartLine :: int
  SF_EndLine :: int
  SF_Code :: Code
  SF_Match :: string
  SF_Layer :: Layer
  SF_Offset :: int

record Secret =
  Secret_FilePath :: string
  Secret_Findings :: "SecretFinding list"

section \<open>Licenses (license.go)\<close>

abbreviation LicenseTypeDpkg :: string where "LicenseTypeDpkg \<equiv> ''dpkg''"
abbreviation LicenseTypeHeader :: string where "LicenseTypeHeader \<equiv> ''header''"
abbreviation LicenseTypeFile :: string where "LicenseTypeFile \<equiv> ''license-file''"

record LicenseFinding =
  LF_Category :: string
  LF_Name :: string
  LF_Confidence :: float64
  LF_Link :: string

record LicenseFile =
  License_Type :: string
  License_FilePath :: string
  License_PkgName :: string
  License_Findings :: "LicenseFinding list"
  License_Layer :: Layer

definition LicenseFindings_Less :: "LicenseFinding \<Rightarrow> LicenseFinding \<Rightarrow> bool" where
  "LicenseFindings_Less f g \<longleftrightarrow> LF_Name f < LF_Name g"

definition LicenseFindings_Names :: "LicenseFinding list \<Rightarrow> string list" where
  "LicenseFindings_Names findings = map LF_Name findings"

section \<open>Blobs and artifact details (artifact.go)\<close>

abbreviation (input) ArtifactJSONSchemaVersion :: int where "ArtifactJSONSchemaVersion \<equiv> 1"
abbreviation (input) BlobJSONSchemaVersion :: int where "BlobJSONSchemaVersion \<equiv> 2"

record PackageInfo =
  PI_FilePath :: string
  PI_Packages :: "Package list"

record Application =
  App_Type :: LangType
  App_FilePath :: string
  App_Packages :: "Package list"

definition Applications_Less :: "Application \<Rightarrow> Application \<Rightarrow> bool" where
  "Applications_Less a b =
     (if App_Type a \<noteq> App_Type b then App_Type a < App_Type b
      else if App_FilePath a \<noteq> App_FilePath b then App_FilePath a < App_FilePath b
      else length (App_Packages a) < length (App_Packages b))"

record CustomResource =
  CR_Type :: string
  CR_FilePath :: string
  CR_Layer :: Layer
  CR_Data :: string

record ArtifactInfo =
  AI_SchemaVersion :: int
  AI_Architecture :: string
  AI_Created :: go_time
  AI_DockerVersion :: string
  AI_OS :: string
  AI_Misconfiguration :: "Misconfiguration option"
  AI_Secret :: "Secret option"
  AI_HistoryPackages :: "Package list"

record BlobInfo =
  Blob_SchemaVersion :: int
  Blob_Size :: int
  Blob_Digest :: string
  Blob_DiffID :: string
  Blob_CreatedBy :: string
  Blob_OpaqueDirs :: "string list"
  Blob_WhiteoutFiles :: "string list"
  Blob_OS :: OS
  Blob_Repository :: "Repository option"
  Blob_PackageInfos :: "PackageInfo list"
  Blob_Applications :: "Application list"
  Blob_Misconfigurations :: "Misconfiguration list"
  Blob_Secrets :: "Secret list"
  Blob_Licenses :: "LicenseFile list"
  Blob_CryptoAssets :: "CryptoAsset list"
  Blob_BuildInfo :: "BuildInfo option"
  Blob_CustomResources :: "CustomResource list"

definition Blob_Layer :: "BlobInfo \<Rightarrow> Layer" where
  "Blob_Layer b = \<lparr>Layer_Size = Blob_Size b, Layer_Digest = Blob_Digest b, Layer_DiffID = Blob_DiffID b,
     Layer_CreatedBy = Blob_CreatedBy b\<rparr>"

record ImageConfigDetail =
  IC_Packages :: "Package list"
  IC_Misconfiguration :: "Misconfiguration option"
  IC_Secret :: "Secret option"

record ArtifactDetail =
  AD_OS :: OS
  AD_Repository :: "Repository option"
  AD_Packages :: "Package list"
  AD_Applications :: "Application list"
  AD_Misconfigurations :: "Misconfiguration list"
  AD_Secrets :: "Secret list"
  AD_Licenses :: "LicenseFile list"
  AD_CryptoAssets :: "CryptoAsset list"
  AD_ImageConfig :: ImageConfigDetail
  AD_CustomResources :: "CustomResource list"
  AD_Layers :: "Layer list"

definition ArtifactDetail_empty :: ArtifactDetail where
  "ArtifactDetail_empty = \<lparr>AD_OS = OS_empty, AD_Repository = None, AD_Packages = [], AD_Applications = [],
     AD_Misconfigurations = [], AD_Secrets = [], AD_Licenses = [], AD_CryptoAssets = [],
     AD_ImageConfig = \<lparr>IC_Packages = [], IC_Misconfiguration = None, IC_Secret = None\<rparr>,
     AD_CustomResources = [], AD_Layers = []\<rparr>"

definition Secrets_Less :: "Secret \<Rightarrow> Secret \<Rightarrow> bool" where
  "Secrets_Less s t \<longleftrightarrow> Secret_FilePath s < Secret_FilePath t"

definition LicenseFiles_Less :: "LicenseFile \<Rightarrow> LicenseFile \<Rightarrow> bool" where
  "LicenseFiles_Less k l =
     (if License_Type k \<noteq> License_Type l then License_Type k < License_Type l
      else License_FilePath k < License_FilePath l)"

text \<open>The four sorts that \<open>Sort\<close> calls, and their contract.\<close>

record detail_sorts =
  sort_Packages :: "Package list \<Rightarrow> Package list"
  sort_Applications :: "Application list \<Rightarrow> Application list"
  sort_Secrets :: "Secret list \<Rightarrow> Secret list"
  sort_Licenses :: "LicenseFile list \<Rightarrow> LicenseFile list"

definition sorts_ok :: "detail_sorts \<Rightarrow> bool" where
  "sorts_ok so \<longleftrightarrow>
     sorter (less_cmp Packages_Less) (sort_Packages so) \<and>
     sorter (less_cmp Applications_Less) (sort_Applications so) \<and>
     sorter (less_cmp Secrets_Less) (sort_Secrets so) \<and>
     sorter (less_cmp LicenseFiles_Less) (sort_Licenses so)"

definition ArtifactDetail_Sort :: "detail_sorts \<Rightarrow> ArtifactDetail \<Rightarrow> ArtifactDetail" where
  "ArtifactDetail_Sort so a = a\<lparr>
     AD_Packages := sort_Packages so (AD_Packages a),
     AD_Applications := sort_Applications so (AD_Applications a),
     AD_Secrets := sort_Secrets so (AD_Secrets a),
     AD_Licenses := sort_Licenses so (AD_Licenses a),
     AD_CryptoAssets := sort_stable_func CompareCryptoAssets (AD_CryptoAssets a)\<rparr>"

section \<open>The orders\<close>

definition misconf_result_key :: "MisconfResult \<Rightarrow> string \<times> string \<times> string \<times> string \<times> string \<times> string" where
  "misconf_result_key r = (Policy_Type (MR_PolicyMetadata r), Policy_AVDID (MR_PolicyMetadata r),
     Policy_ID (MR_PolicyMetadata r), Policy_Severity (MR_PolicyMetadata r), Cause_Resource (MR_CauseMetadata r),
     MR_Message r)"

lemma MisconfResults_Less_key: "MisconfResults_Less r s \<longleftrightarrow> misconf_result_key r < misconf_result_key s"
  by (auto simp: MisconfResults_Less_def misconf_result_key_def less_prod_def' Let_def)

lemma Applications_Less_key:
  "Applications_Less a b \<longleftrightarrow>
     (App_Type a, App_FilePath a, length (App_Packages a)) < (App_Type b, App_FilePath b, length (App_Packages b))"
  by (auto simp: Applications_Less_def less_prod_def')

lemma Secrets_Less_key: "Secrets_Less s t \<longleftrightarrow> Secret_FilePath s < Secret_FilePath t"
  by (simp add: Secrets_Less_def)

lemma LicenseFiles_Less_key:
  "LicenseFiles_Less k l \<longleftrightarrow> (License_Type k, License_FilePath k) < (License_Type l, License_FilePath l)"
  by (auto simp: LicenseFiles_Less_def less_prod_def')

lemma Misconf_Less_key: "Misconf_Less a b \<longleftrightarrow> (MC_FileType a, MC_FilePath a) < (MC_FileType b, MC_FilePath b)"
  by (auto simp: Misconf_Less_def less_prod_def')

lemma sort_Packages_sorted: "sorts_ok so \<Longrightarrow> sorted (map package_key (sort_Packages so ps))"
  using sorter.sort_sorted [of "less_cmp Packages_Less" "sort_Packages so" ps] Packages_strict_weak
  by (auto simp: sorts_ok_def sorted_wrt_map Packages_cmp_le)

lemma sorts_sorter:
  assumes "sorts_ok so"
  shows "sorter (less_cmp Packages_Less) (sort_Packages so)"
    and "sorter (less_cmp Applications_Less) (sort_Applications so)"
    and "sorter (less_cmp Secrets_Less) (sort_Secrets so)"
    and "sorter (less_cmp LicenseFiles_Less) (sort_Licenses so)"
  using assms by (simp_all add: sorts_ok_def)

lemma set_sort_Packages: "sorts_ok so \<Longrightarrow> set (sort_Packages so ps) = set ps"
  by (rule sorter.sort_set [OF sorts_sorter(1)])

lemma mset_sort_Packages: "sorts_ok so \<Longrightarrow> mset (sort_Packages so ps) = mset ps"
  by (rule sorter.sort_mset [OF sorts_sorter(1)])

lemma set_sort_Secrets: "sorts_ok so \<Longrightarrow> set (sort_Secrets so ss) = set ss"
  by (rule sorter.sort_set [OF sorts_sorter(3)])

lemma set_sort_Licenses: "sorts_ok so \<Longrightarrow> set (sort_Licenses so ls) = set ls"
  by (rule sorter.sort_set [OF sorts_sorter(4)])

lemma mset_sort_Applications: "sorts_ok so \<Longrightarrow> mset (sort_Applications so as) = mset as"
  by (rule sorter.sort_mset [OF sorts_sorter(2)])

lemma ArtifactDetail_Sort_simps [simp]:
  "AD_OS (ArtifactDetail_Sort so d) = AD_OS d"
  "AD_Packages (ArtifactDetail_Sort so d) = sort_Packages so (AD_Packages d)"
  "AD_Applications (ArtifactDetail_Sort so d) = sort_Applications so (AD_Applications d)"
  "AD_Secrets (ArtifactDetail_Sort so d) = sort_Secrets so (AD_Secrets d)"
  "AD_Licenses (ArtifactDetail_Sort so d) = sort_Licenses so (AD_Licenses d)"
  "AD_Misconfigurations (ArtifactDetail_Sort so d) = AD_Misconfigurations d"
  "AD_CustomResources (ArtifactDetail_Sort so d) = AD_CustomResources d"
  "AD_CryptoAssets (ArtifactDetail_Sort so d) = sort_stable_func CompareCryptoAssets (AD_CryptoAssets d)"
  by (simp_all add: ArtifactDetail_Sort_def)

end
