(* ===== verification/Crypto_Catalog.thy ===== *)
theory Crypto_Catalog
  imports Crypto_Types
begin

text \<open>
  The package \<open>pkg/crypto\<close>: the catalog of algorithms (\<open>catalog.go\<close>), the assessment of their
  strength (\<open>strength.go\<close>), the description of algorithms and keys (\<open>algorithm.go\<close>, \<open>key.go\<close>), the
  links between the halves of a key pair and the identifiers of assets (\<open>key.go\<close>, \<open>id.go\<close>).

  A public key is the Go type the type switches of the package tell apart, with what they read of
  it. The DER encoder and decoder of the standard library, the SHA-256 digest in hexadecimal and
  the structural hash of \<open>hashstructure\<close> are arguments of the functions that call them.
\<close>

section \<open>Strength (strength.go)\<close>

record strengthBasis =
  nistCategory :: "int option"
  classicalStrengths :: "(string \<times> int) list"

definition signatureStrengthBasis :: strengthBasis where
  "signatureStrengthBasis = \<lparr>nistCategory = Some 0, classicalStrengths = []\<rparr>"

definition rsaStrengthBasis :: strengthBasis where
  "rsaStrengthBasis = \<lparr>nistCategory = Some 0, classicalStrengths =
     [(''key-size=1024'', 80),
      (''key-size=2048'', 112),
      (''key-size=3072'', 128),
      (''key-size=4096'', 152),
      (''key-size=6144'', 176),
      (''key-size=8192'', 200)]\<rparr>"

definition ecStrengthBasis :: strengthBasis where
  "ecStrengthBasis = \<lparr>nistCategory = Some 0, classicalStrengths =
     [(''curve=P-224'', 112),
      (''curve=P-256'', 128),
      (''curve=P-384'', 192),
      (''curve=P-521'', 256)]\<rparr>"

definition dsaStrengthBasis :: strengthBasis where
  "dsaStrengthBasis = \<lparr>nistCategory = Some 0, classicalStrengths =
     [(''key-size=1024,subgroup-size=160'', 80),
      (''key-size=2048,subgroup-size=224'', 112),
      (''key-size=2048,subgroup-size=256'', 112),
      (''key-size=3072,subgroup-size=256'', 128)]\<rparr>"

definition ed25519StrengthBasis :: strengthBasis where
  "ed25519StrengthBasis = \<lparr>nistCategory = Some 0, classicalStrengths = [([], 128)]\<rparr>"

definition ed448StrengthBasis :: strengthBasis where
  "ed448StrengthBasis = \<lparr>nistCategory = Some 0, classicalStrengths = [([], 224)]\<rparr>"

definition mldsaStrengthBasis :: "int \<Rightarrow> strengthBasis" where
  "mldsaStrengthBasis category = \<lparr>nistCategory = Some category, classicalStrengths = []\<rparr>"

definition noStrengthBasis :: strengthBasis where
  "noStrengthBasis = \<lparr>nistCategory = None, classicalStrengths = []\<rparr>"

section \<open>The catalog (catalog.go)\<close>

datatype CryptoAlgorithmParameterName =
  CryptoParameterKeySize | CryptoParameterSubgroupSize | CryptoParameterCurve

datatype algorithm = Algorithm
  (algo_name: string)
  (algo_family: string)
  (algo_primitive: string)
  (algo_parameterNames: "CryptoAlgorithmParameterName list")
  (algo_strengthBasis: strengthBasis)

definition algorithms :: "(string \<times> algorithm) list" where
  "algorithms =
     [(''1.2.840.113549.1.1.4'', Algorithm ''RSA-PKCS1-1.5-MD5'' ''RSASSA-PKCS1'' CryptoPrimitiveSignature [] signatureStrengthBasis),
      (''1.2.840.113549.1.1.5'', Algorithm ''RSA-PKCS1-1.5-SHA-1'' ''RSASSA-PKCS1'' CryptoPrimitiveSignature [] signatureStrengthBasis),
      (''1.2.840.113549.1.1.11'', Algorithm ''RSA-PKCS1-1.5-SHA-256'' ''RSASSA-PKCS1'' CryptoPrimitiveSignature [] signatureStrengthBasis),
      (''1.2.840.113549.1.1.12'', Algorithm ''RSA-PKCS1-1.5-SHA-384'' ''RSASSA-PKCS1'' CryptoPrimitiveSignature [] signatureStrengthBasis),
      (''1.2.840.113549.1.1.13'', Algorithm ''RSA-PKCS1-1.5-SHA-512'' ''RSASSA-PKCS1'' CryptoPrimitiveSignature [] signatureStrengthBasis),
      (''1.3.14.3.2.29'', Algorithm ''RSA-PKCS1-1.5-SHA-1'' ''RSASSA-PKCS1'' CryptoPrimitiveSignature [] signatureStrengthBasis),
      (''1.2.840.10040.4.3'', Algorithm ''DSA-SHA-1'' ''DSA'' CryptoPrimitiveSignature [] signatureStrengthBasis),
      (''2.16.840.1.101.3.4.3.2'', Algorithm ''DSA-SHA-256'' ''DSA'' CryptoPrimitiveSignature [] signatureStrengthBasis),
      (''1.2.840.10045.4.1'', Algorithm ''ECDSA-SHA-1'' ''ECDSA'' CryptoPrimitiveSignature [] signatureStrengthBasis),
      (''1.2.840.10045.4.3.2'', Algorithm ''ECDSA-SHA-256'' ''ECDSA'' CryptoPrimitiveSignature [] signatureStrengthBasis),
      (''1.2.840.10045.4.3.3'', Algorithm ''ECDSA-SHA-384'' ''ECDSA'' CryptoPrimitiveSignature [] signatureStrengthBasis),
      (''1.2.840.10045.4.3.4'', Algorithm ''ECDSA-SHA-512'' ''ECDSA'' CryptoPrimitiveSignature [] signatureStrengthBasis),
      (''1.2.840.113549.1.1.1'', Algorithm ''RSA'' '''' CryptoPrimitiveUnknown [CryptoParameterKeySize] rsaStrengthBasis),
      (''1.2.840.10045.2.1'', Algorithm ''EC'' '''' CryptoPrimitiveUnknown [CryptoParameterCurve] ecStrengthBasis),
      (''1.2.840.10040.4.1'', Algorithm ''DSA'' ''DSA'' CryptoPrimitiveSignature [CryptoParameterKeySize, CryptoParameterSubgroupSize] dsaStrengthBasis),
      (''1.3.101.112'', Algorithm ''Ed25519'' ''EdDSA'' CryptoPrimitiveSignature [] ed25519StrengthBasis),
      (''1.3.101.113'', Algorithm ''Ed448'' ''EdDSA'' CryptoPrimitiveSignature [] ed448StrengthBasis),
      (''2.16.840.1.101.3.4.3.17'', Algorithm ''ML-DSA-44'' ''ML-DSA'' CryptoPrimitiveSignature [] (mldsaStrengthBasis 2)),
      (''2.16.840.1.101.3.4.3.18'', Algorithm ''ML-DSA-65'' ''ML-DSA'' CryptoPrimitiveSignature [] (mldsaStrengthBasis 3)),
      (''2.16.840.1.101.3.4.3.19'', Algorithm ''ML-DSA-87'' ''ML-DSA'' CryptoPrimitiveSignature [] (mldsaStrengthBasis 5))]"

definition lookupAlgorithm :: "string \<Rightarrow> algorithm" where
  "lookupAlgorithm oid =
     (case map_of algorithms oid of
        Some found \<Rightarrow> found
      | None \<Rightarrow> Algorithm oid [] CryptoPrimitiveUnknown [] noStrengthBasis)"

definition AlgorithmName :: "string \<Rightarrow> string" where
  "AlgorithmName oid = algo_name (lookupAlgorithm oid)"

text \<open>Indexing the map with an OID it does not have gives the zero algorithm, whose basis is empty.\<close>

definition securityLevels :: "CryptoIdentity \<Rightarrow> int option \<times> int option" where
  "securityLevels identity =
     (let basis = (case map_of algorithms (Identity_Value identity) of
                     Some a \<Rightarrow> algo_strengthBasis a | None \<Rightarrow> noStrengthBasis)
      in case nistCategory basis of
           None \<Rightarrow> (None, None)
         | Some category \<Rightarrow> (map_of (classicalStrengths basis) (Identity_Parameters identity), Some category))"

definition assess :: "CryptoAsset \<Rightarrow> CryptoAsset" where
  "assess asset =
     (case Asset_Algorithm asset of
        None \<Rightarrow> asset
      | Some alg \<Rightarrow>
          if Asset_Kind asset \<noteq> CryptoKindAlgorithm \<or>
             Identity_Method (Asset_Identity asset) \<noteq> CryptoMethodOID
          then asset
          else
            let (classical, category) = securityLevels (Asset_Identity asset);
                assessed = alg\<lparr>Alg_ClassicalSecurityLevel := classical, Alg_NISTQuantumSecurityLevel := category\<rparr>
            in asset\<lparr>Asset_Algorithm := Some assessed\<rparr>)"

definition AssessStrength :: "CryptoAsset list \<Rightarrow> CryptoAsset list" where
  "AssessStrength assets = map assess assets"

section \<open>Algorithms (algorithm.go)\<close>

fun set_parameter :: "int \<Rightarrow> int \<Rightarrow> string \<Rightarrow> CryptoAlgorithmParameterName \<Rightarrow>
    CryptoAlgorithmParameters \<Rightarrow> CryptoAlgorithmParameters" where
  "set_parameter sz subgroupSize curve CryptoParameterKeySize p = p\<lparr>Params_KeySize := sz\<rparr>"
| "set_parameter sz subgroupSize curve CryptoParameterSubgroupSize p = p\<lparr>Params_SubgroupSize := subgroupSize\<rparr>"
| "set_parameter sz subgroupSize curve CryptoParameterCurve p = p\<lparr>Params_Curve := curve\<rparr>"

definition algorithm_params :: "algorithm \<Rightarrow> int \<Rightarrow> int \<Rightarrow> string \<Rightarrow> CryptoAlgorithmParameters" where
  "algorithm_params found sz subgroupSize curve =
     (let p = fold (set_parameter sz subgroupSize curve) (algo_parameterNames found) Params_empty
      in if Params_KeySize p \<le> 0 then p\<lparr>Params_SubgroupSize := 0\<rparr> else p)"

definition DescribeAlgorithm :: "string \<Rightarrow> int \<Rightarrow> int \<Rightarrow> string \<Rightarrow> CryptoAssetInfo" where
  "DescribeAlgorithm oid sz subgroupSize curve =
     (let found = lookupAlgorithm oid;
          parameters = algorithm_params found sz subgroupSize curve;
          name1 = algo_name found;
          name2 = (if 0 < Params_KeySize parameters then name1 @ ''-'' @ itoa (Params_KeySize parameters) else name1);
          name3 = (if Params_Curve parameters \<noteq> [] then name2 @ ''-'' @ Params_Curve parameters else name2)
      in \<lparr>Asset_Kind = CryptoKindAlgorithm, Asset_KeyType = [],
          Asset_Identity = \<lparr>Identity_Method = CryptoMethodOID, Identity_Value = oid,
                            Identity_Parameters = Params_String parameters\<rparr>,
          Asset_Name = name3, Asset_Certificate = None, Asset_Key = None,
          Asset_Algorithm = Some \<lparr>Alg_Family = algo_family found, Alg_Primitive = algo_primitive found,
                                  Alg_ClassicalSecurityLevel = None, Alg_NISTQuantumSecurityLevel = None\<rparr>,
          Asset_Relationships = []\<rparr>)"

section \<open>Keys (key.go)\<close>

text \<open>
  The public keys that \<open>keyDetails\<close> tells apart: an RSA modulus and exponent, the DSA
  parameters and value, an elliptic curve (its size and its name) with a point, the bytes of an
  Ed25519 point, an ML-DSA key (the size of its encoding in bytes, and the encoding), or any other
  value.
\<close>

datatype PublicKey =
    RSA_PublicKey int int
  | DSA_PublicKey (dsa_P: int) (dsa_Q: int) (dsa_G: int) (dsa_Y: int)
  | ECDSA_PublicKey int string int int
  | Ed25519_PublicKey string
  | MLDSA_PublicKey int string
  | Other_PublicKey

text \<open>\<open>big.Int.BitLen\<close>: the length of the absolute value in bits.\<close>

fun nat_BitLen :: "nat \<Rightarrow> int" where
  "nat_BitLen n = (if n = 0 then 0 else 1 + nat_BitLen (n div 2))"

declare nat_BitLen.simps [simp del]

definition BitLen :: "int \<Rightarrow> int" where
  "BitLen i = nat_BitLen (nat \<bar>i\<bar>)"

fun keyDetails :: "PublicKey \<Rightarrow> int \<times> int \<times> string" where
  "keyDetails (RSA_PublicKey n e) = (BitLen n, 0, [])"
| "keyDetails (DSA_PublicKey p q g y) = (BitLen p, BitLen q, [])"
| "keyDetails (ECDSA_PublicKey bitSize curveName x y) = (bitSize, 0, curveName)"
| "keyDetails (Ed25519_PublicKey pub) = (int (length pub) * 8, 0, [])"
| "keyDetails (MLDSA_PublicKey publicKeySize encoding) = (publicKeySize * 8, 0, [])"
| "keyDetails Other_PublicKey = (0, 0, [])"

definition fixedKeySizes :: "(string \<times> int) list" where
  "fixedKeySizes = [(''1.3.101.110'', 256), (''1.3.101.111'', 448), (''1.3.101.113'', 456)]"

definition describeKeyAsset ::
    "CryptoIdentity \<Rightarrow> CryptoAssetInfo \<Rightarrow> CryptoKeyType \<Rightarrow> int \<Rightarrow> string \<Rightarrow> CryptoAssetInfo" where
  "describeKeyAsset identity keyAlgorithm keyType sz curve =
     \<lparr>Asset_Kind = CryptoKindKey, Asset_KeyType = keyType, Asset_Identity = identity,
      Asset_Name = Asset_Name keyAlgorithm @ '' '' @ keyType @ '' key'',
      Asset_Certificate = None,
      Asset_Key = Some \<lparr>Key_Size = sz, Key_Curve = curve, Key_Encrypted = False\<rparr>,
      Asset_Algorithm = None,
      Asset_Relationships = [\<lparr>Rel_Type = CryptoRelationshipUsedWith, Rel_RelatedAsset = Descriptor keyAlgorithm\<rparr>]\<rparr>"

definition DescribeEncryptedKey ::
    "(string \<Rightarrow> string) \<Rightarrow> CryptoIdentityMethod \<Rightarrow> string \<Rightarrow> CryptoKeyFormat \<Rightarrow> CryptoAssetInfo" where
  "DescribeEncryptedKey sha256_hex method canonical format =
     \<lparr>Asset_Kind = CryptoKindKey, Asset_KeyType = CryptoKeyTypePrivate,
      Asset_Identity = DigestIdentity sha256_hex method canonical,
      Asset_Name = ''Encrypted '' @ format @ '' private key'',
      Asset_Certificate = None,
      Asset_Key = Some \<lparr>Key_Size = 0, Key_Curve = [], Key_Encrypted = True\<rparr>,
      Asset_Algorithm = None, Asset_Relationships = []\<rparr>"

text \<open>
  \<open>ParseSubjectPublicKeyInfo\<close>: \<open>asn1.Unmarshal\<close> gives the algorithm identifier (its OID and the
  raw parameters), the bit string and the remaining bytes; \<open>asn1.Marshal\<close> encodes them again.
\<close>

record subjectPublicKeyInfo =
  Info_OID :: string
  Info_Parameters :: string
  Info_Bytes :: string
  Info_BitLength :: int

definition ParseSubjectPublicKeyInfo ::
    "(string \<Rightarrow> (subjectPublicKeyInfo \<times> string) result) \<Rightarrow> (subjectPublicKeyInfo \<Rightarrow> string result) \<Rightarrow>
     string \<Rightarrow> string result" where
  "ParseSubjectPublicKeyInfo unmarshal marshal der =
     bind_result (wrap_err ''unmarshal subject public key info: %w'' [] (unmarshal der)) (\<lambda>(info, rest).
     if rest \<noteq> [] then
       Inl (Errorf ''subject public key info is followed by %d bytes'' [itoa (int (length rest))])
     else
     bind_result (wrap_err ''marshal subject public key info: %w'' [] (marshal info)) (\<lambda>encoded.
     if encoded \<noteq> der then Inl (Errorf ''subject public key info does not round-trip'' [])
     else
       case map_of fixedKeySizes (Info_OID info) of
         Some sz \<Rightarrow>
           if Info_BitLength info \<noteq> sz then
             Inl (Errorf ''%s key is %d bits instead of %d'' [Info_OID info, itoa (Info_BitLength info), itoa sz])
           else Inr (Info_OID info)
       | None \<Rightarrow> Inr (Info_OID info)))"

text \<open>
  \<open>marshalDSAPublicKey\<close> encodes the domain parameters, the public value and the whole; the three
  encoders are those of \<open>encoding/asn1\<close> for the three types.
\<close>

abbreviation oidDSA :: string where "oidDSA \<equiv> ''1.2.840.10040.4.1''"

definition marshalDSAPublicKey ::
    "(int \<Rightarrow> int \<Rightarrow> int \<Rightarrow> string result) \<Rightarrow> (int \<Rightarrow> string result) \<Rightarrow> (subjectPublicKeyInfo \<Rightarrow> string result) \<Rightarrow>
     int \<Rightarrow> int \<Rightarrow> int \<Rightarrow> int \<Rightarrow> string result" where
  "marshalDSAPublicKey marshal3 marshalInt marshal P Q G Y =
     bind_result (wrap_err ''marshal DSA parameters: %w'' [] (marshal3 P Q G)) (\<lambda>parameters.
     bind_result (wrap_err ''marshal DSA public value: %w'' [] (marshalInt Y)) (\<lambda>value.
     wrap_err ''marshal DSA subject public key info: %w'' []
       (marshal \<lparr>Info_OID = oidDSA, Info_Parameters = parameters, Info_Bytes = value,
                 Info_BitLength = int (length value) * 8\<rparr>)))"

definition MarshalPublicKey ::
    "(PublicKey \<Rightarrow> string result) \<Rightarrow> (int \<Rightarrow> int \<Rightarrow> int \<Rightarrow> int \<Rightarrow> string result) \<Rightarrow> PublicKey \<Rightarrow> string result" where
  "MarshalPublicKey marshalPKIX marshalDSA pub =
     (case pub of DSA_PublicKey P Q G Y \<Rightarrow> marshalDSA P Q G Y | _ \<Rightarrow> marshalPKIX pub)"

definition publicKeyInfo ::
    "(string \<Rightarrow> string) \<Rightarrow> (PublicKey \<Rightarrow> string result) \<Rightarrow> (string \<Rightarrow> string result) \<Rightarrow> PublicKey \<Rightarrow>
     (CryptoIdentity \<times> string) result" where
  "publicKeyInfo sha256_hex marshalKey parseSPKI pub =
     bind_result (wrap_err ''marshal public key: %w'' [] (marshalKey pub)) (\<lambda>der.
     bind_result (wrap_err ''read the algorithm of the encoded key: %w'' [] (parseSPKI der)) (\<lambda>oid.
     Inr (DigestIdentity sha256_hex CryptoMethodSPKISHA256 der, oid)))"

definition DescribeKey ::
    "(string \<Rightarrow> string) \<Rightarrow> (PublicKey \<Rightarrow> string result) \<Rightarrow> (string \<Rightarrow> string result) \<Rightarrow> PublicKey \<Rightarrow>
     CryptoKeyType \<Rightarrow> (CryptoAssetInfo \<times> CryptoAssetInfo) result" where
  "DescribeKey sha256_hex marshalKey parseSPKI pub keyType =
     bind_result (publicKeyInfo sha256_hex marshalKey parseSPKI pub) (\<lambda>(identity, algorithmOID).
     let (sz, subgroupSize, curve) = keyDetails pub;
         keyAlgorithm = DescribeAlgorithm algorithmOID sz subgroupSize curve
     in Inr (describeKeyAsset identity keyAlgorithm keyType sz curve, keyAlgorithm))"

definition DescribeRawPublicKey ::
    "(string \<Rightarrow> string) \<Rightarrow> (string \<Rightarrow> string result) \<Rightarrow> string \<Rightarrow> CryptoKeyType \<Rightarrow>
     (CryptoAssetInfo \<times> CryptoAssetInfo) result" where
  "DescribeRawPublicKey sha256_hex parseSPKI spki keyType =
     bind_result (parseSPKI spki) (\<lambda>algorithmOID.
     let identity = DigestIdentity sha256_hex CryptoMethodSPKISHA256 spki;
         sz = (case map_of fixedKeySizes algorithmOID of Some s \<Rightarrow> s | None \<Rightarrow> 0);
         keyAlgorithm = DescribeAlgorithm algorithmOID sz 0 []
     in Inr (describeKeyAsset identity keyAlgorithm keyType sz [], keyAlgorithm))"

text \<open>
  \<open>LinkKeyPairs\<close> collects the public keys by identity, then appends a relationship to every
  private key with a known identity.
\<close>

definition publicKeys :: "CryptoAsset list \<Rightarrow> (CryptoIdentity \<times> CryptoDescriptor) list" where
  "publicKeys assets =
     fold (\<lambda>asset m. if Asset_Kind asset = CryptoKindKey \<and> Asset_KeyType asset = CryptoKeyTypePublic
                     then AList.update (Asset_Identity asset) (Descriptor asset) m else m) assets []"

definition linkKey :: "(CryptoIdentity \<times> CryptoDescriptor) list \<Rightarrow> CryptoAsset \<Rightarrow> CryptoAsset" where
  "linkKey public asset =
     (if Asset_Kind asset \<noteq> CryptoKindKey \<or> Asset_KeyType asset \<noteq> CryptoKeyTypePrivate then asset
      else case map_of public (Asset_Identity asset) of
             None \<Rightarrow> asset
           | Some descriptor \<Rightarrow>
               asset\<lparr>Asset_Relationships := Asset_Relationships asset @
                 [\<lparr>Rel_Type = CryptoRelationshipCorrespondsTo, Rel_RelatedAsset = descriptor\<rparr>]\<rparr>)"

definition LinkKeyPairs :: "CryptoAsset list \<Rightarrow> CryptoAsset list" where
  "LinkKeyPairs assets =
     (let public = publicKeys assets
      in if length public = 0 then assets else map (linkKey public) assets)"

section \<open>Identifiers (id.go)\<close>

text \<open>The hash takes the descriptor's string, the file path and the format.\<close>

definition assetID :: "(string \<Rightarrow> string \<Rightarrow> string \<Rightarrow> string) \<Rightarrow> CryptoAsset \<Rightarrow> string" where
  "assetID hash asset = hash (Descriptor_String (Descriptor asset)) (Asset_FilePath asset) (Asset_Format asset)"

definition AssignIDs :: "(string \<Rightarrow> string \<Rightarrow> string \<Rightarrow> string) \<Rightarrow> CryptoAsset list \<Rightarrow> CryptoAsset list" where
  "AssignIDs hash assets = map (\<lambda>a. a\<lparr>Asset_ID := assetID hash a\<rparr>) assets"

section \<open>What the catalog holds\<close>

text \<open>
  The facts about the table that the results below need, each checked entry by entry: the OIDs are
  canonical and occur once, the primitives are known, the parameter names come in one of four
  combinations, and the strength levels are in their ranges.
\<close>

definition entry_ok :: "string \<times> algorithm \<Rightarrow> bool" where
  "entry_ok e \<longleftrightarrow>
     isCanonicalOID (fst e) \<and>
     algo_primitive (snd e) \<in> {CryptoPrimitiveUnknown, CryptoPrimitiveSignature, CryptoPrimitivePKE} \<and>
     algo_parameterNames (snd e) \<in> {[], [CryptoParameterKeySize], [CryptoParameterCurve],
       [CryptoParameterKeySize, CryptoParameterSubgroupSize]} \<and>
     (case nistCategory (algo_strengthBasis (snd e)) of None \<Rightarrow> False | Some c \<Rightarrow> 0 \<le> c \<and> c \<le> 6) \<and>
     list_all (\<lambda>(_, bits). 0 < bits) (classicalStrengths (algo_strengthBasis (snd e)))"

lemma algorithms_ok: "list_all entry_ok algorithms"
  by code_simp

lemma algorithms_distinct: "map_ok algorithms"
  unfolding map_ok_def by code_simp

lemma catalog_entry: "map_of algorithms oid = Some a \<Longrightarrow> entry_ok (oid, a)"
  using algorithms_ok by (auto simp: list_all_iff dest: map_of_SomeD)

lemma lookup_parameterNames:
  "algo_parameterNames (lookupAlgorithm oid) \<in> {[], [CryptoParameterKeySize], [CryptoParameterCurve],
     [CryptoParameterKeySize, CryptoParameterSubgroupSize]}"
  using catalog_entry [of oid] by (auto simp: lookupAlgorithm_def entry_ok_def split: option.split)

lemma lookup_primitive:
  "algo_primitive (lookupAlgorithm oid) \<in> {CryptoPrimitiveUnknown, CryptoPrimitiveSignature, CryptoPrimitivePKE}"
  using catalog_entry [of oid] by (cases "map_of algorithms oid") (simp_all add: lookupAlgorithm_def entry_ok_def)

section \<open>Descriptions validate\<close>

text \<open>The sizes and the curve of a key that can be printed as parameters.\<close>

definition key_details_ok :: "int \<Rightarrow> int \<Rightarrow> string \<Rightarrow> bool" where
  "key_details_ok sz subgroupSize curve \<longleftrightarrow>
     0 \<le> sz \<and> sz \<le> max_int \<and> 0 \<le> subgroupSize \<and> subgroupSize \<le> max_int \<and> CHR '','' \<notin> set curve"

lemma algorithm_params_ok:
  assumes "key_details_ok sz subgroupSize curve"
  shows "params_ok (algorithm_params (lookupAlgorithm oid) sz subgroupSize curve)"
proof -
  have "(0::int) \<le> max_int" by (simp add: max_int_def)
  then show ?thesis
    using assms lookup_parameterNames [of oid]
    by (auto simp: algorithm_params_def params_ok_def Params_empty_def key_details_ok_def Let_def)
qed

lemma algorithm_descriptor_ok:
  assumes "isCanonicalOID oid" "params_ok p"
  shows "Descriptor_Validate \<lparr>Desc_Kind = CryptoKindAlgorithm, Desc_KeyType = [],
    Desc_Identity = \<lparr>Identity_Method = CryptoMethodOID, Identity_Value = oid,
                      Identity_Parameters = Params_String p\<rparr>\<rparr> = Inr ()"
proof -
  let ?i = "\<lparr>Identity_Method = CryptoMethodOID, Identity_Value = oid, Identity_Parameters = Params_String p\<rparr>"
  have "AlgorithmParameters ?i = Inr p"
    using assms(2) AlgorithmParameters_canonical by simp
  then show ?thesis
    using assms(1)
    by (simp add: Descriptor_Validate_def validateKindKeyTypeMethod_def validateIdentityValue_def validateParameters_def)
qed

lemma DescribeAlgorithm_ok:
  assumes "isCanonicalOID oid" "key_details_ok sz subgroupSize curve"
  shows "Info_Validate (DescribeAlgorithm oid sz subgroupSize curve) = Inr ()"
    and "Descriptor_Validate (Descriptor (DescribeAlgorithm oid sz subgroupSize curve)) = Inr ()"
proof -
  let ?a = "DescribeAlgorithm oid sz subgroupSize curve"
  show d: "Descriptor_Validate (Descriptor ?a) = Inr ()"
    using algorithm_descriptor_ok [OF assms(1) algorithm_params_ok [OF assms(2)]]
    by (simp add: DescribeAlgorithm_def Descriptor_def Let_def)
  have "validateDetail ?a = Inr ()" "detailCount ?a = 1" "Asset_Relationships ?a = []"
    using lookup_primitive [of oid]
    by (simp_all add: DescribeAlgorithm_def Let_def validateDetail_def validateAlgorithm_def detailCount_def)
  then show "Info_Validate ?a = Inr ()" using d by (simp add: Info_Validate_def)
qed

lemma describeKeyAsset_ok:
  assumes "isLowerSHA256 v" "keyType \<in> {CryptoKeyTypePublic, CryptoKeyTypePrivate}" "0 \<le> sz"
    and "isCanonicalOID oid" "key_details_ok sz' subgroupSize curve'"
  shows "Info_Validate (describeKeyAsset \<lparr>Identity_Method = CryptoMethodSPKISHA256, Identity_Value = v,
    Identity_Parameters = []\<rparr> (DescribeAlgorithm oid sz' subgroupSize curve') keyType sz curve) = Inr ()"
  (is "Info_Validate ?a = _")
proof -
  have "Descriptor_Validate (Descriptor ?a) = Inr ()" "validateDetail ?a = Inr ()" "detailCount ?a = 1"
    using assms(1-3)
    by (auto simp: Descriptor_def describeKeyAsset_def Descriptor_Validate_def validateKindKeyTypeMethod_def
        validateIdentityValue_def validateParameters_def validateDetail_def validateKey_def detailCount_def)
  moreover have "Descriptor (DescribeAlgorithm oid sz' subgroupSize curve') \<noteq> Descriptor ?a"
    by (simp add: Descriptor_def describeKeyAsset_def DescribeAlgorithm_def Let_def)
  ultimately show ?thesis
    using DescribeAlgorithm_ok(2) [OF assms(4,5)]
    by (simp add: Info_Validate_iff Relationship_validate_def describeKeyAsset_def)
qed

text \<open>C40. A key and its algorithm, as \<open>DescribeKey\<close> describes them, pass validation whenever the
  digest is 64 lower-case hexadecimal digits, the encoder yields a canonical OID and the sizes of
  the key fit.\<close>

theorem DescribeKey_valid:
  assumes "DescribeKey sha256_hex marshalKey parseSPKI pub keyType = Inr (key, alg)"
    and "\<And>der. isLowerSHA256 (sha256_hex der)"
    and "\<And>der oid. parseSPKI der = Inr oid \<Longrightarrow> isCanonicalOID oid"
    and "case keyDetails pub of (sz, subgroupSize, curve) \<Rightarrow> key_details_ok sz subgroupSize curve"
    and "keyType \<in> {CryptoKeyTypePublic, CryptoKeyTypePrivate}"
  shows "Info_Validate key = Inr () \<and> Info_Validate alg = Inr () \<and> Asset_KeyType key = keyType \<and>
    Asset_Relationships key = [\<lparr>Rel_Type = CryptoRelationshipUsedWith, Rel_RelatedAsset = Descriptor alg\<rparr>]"
proof -
  obtain sz sub curve where d: "keyDetails pub = (sz, sub, curve)" by (metis prod_cases3)
  obtain der oid where o: "parseSPKI der = Inr oid" "alg = DescribeAlgorithm oid sz sub curve"
      "key = describeKeyAsset (DigestIdentity sha256_hex CryptoMethodSPKISHA256 der) alg keyType sz curve"
    using assms(1) by (auto simp: DescribeKey_def publicKeyInfo_def d Let_def)
  have details: "key_details_ok sz sub curve" "0 \<le> sz" using assms(4) by (auto simp: d key_details_ok_def)
  show ?thesis
    using describeKeyAsset_ok [OF assms(2) assms(5) details(2) assms(3) [OF o(1)] details(1), of der curve]
      DescribeAlgorithm_ok(1) [OF assms(3) [OF o(1)] details(1)]
    by (simp add: o DigestIdentity_def describeKeyAsset_def)
qed

text \<open>An encoder and a digest that satisfy the hypotheses.\<close>

definition example_sha256_hex :: "string \<Rightarrow> string" where
  "example_sha256_hex der = replicate 64 CHR ''a''"

definition example_parseSPKI :: "string \<Rightarrow> string result" where
  "example_parseSPKI der = Inr ''1.2.840.113549.1.1.1''"

definition example_key :: "CryptoAssetInfo \<times> CryptoAssetInfo" where
  "example_key =
     (case DescribeKey example_sha256_hex (\<lambda>_. Inr ''der'') example_parseSPKI (RSA_PublicKey 15 3) CryptoKeyTypePublic of
        Inr r \<Rightarrow> r | Inl _ \<Rightarrow> undefined)"

theorem DescribeKey_valid_witness:
  "Info_Validate (fst example_key) = Inr () \<and> Info_Validate (snd example_key) = Inr () \<and>
   Asset_Name (fst example_key) = ''RSA-4 public key''"
proof -
  let ?k = "DescribeKey example_sha256_hex (\<lambda>_. Inr ''der'') example_parseSPKI (RSA_PublicKey 15 3) CryptoKeyTypePublic"
  have "isLowerSHA256 (example_sha256_hex der)" for der
    by (simp add: isLowerSHA256_def example_sha256_hex_def list_all_iff)
  moreover have "isCanonicalOID oid" if "example_parseSPKI der = Inr oid" for der oid
  proof -
    have "isCanonicalOID ''1.2.840.113549.1.1.1''" by code_simp
    then show ?thesis using that by (simp add: example_parseSPKI_def)
  qed
  moreover have "case keyDetails (RSA_PublicKey 15 3) of (sz, subgroupSize, curve) \<Rightarrow> key_details_ok sz subgroupSize curve"
    by code_simp
  moreover have "?k = Inr example_key"
  proof -
    have "is_ok ?k" by (simp add: DescribeKey_def publicKeyInfo_def example_parseSPKI_def Let_def)
    then show ?thesis by (auto simp: example_key_def is_ok_iff)
  qed
  moreover have "Asset_Name (fst example_key) = ''RSA-4 public key''"
    by code_simp
  ultimately show ?thesis
    using DescribeKey_valid [of example_sha256_hex "\<lambda>_. Inr ''der''" example_parseSPKI "RSA_PublicKey 15 3"
        CryptoKeyTypePublic "fst example_key" "snd example_key"]
    by simp
qed

section \<open>Key pairs\<close>

abbreviation is_key :: "CryptoKeyType \<Rightarrow> CryptoAsset \<Rightarrow> bool" where
  "is_key t a \<equiv> Asset_Kind a = CryptoKindKey \<and> Asset_KeyType a = t"

lemma publicKeys_fold:
  "map_of (fold (\<lambda>asset m. if is_key CryptoKeyTypePublic asset
                  then AList.update (Asset_Identity asset) (Descriptor asset) m else m) assets m) i =
   (if \<exists>b \<in> set assets. is_key CryptoKeyTypePublic b \<and> Asset_Identity b = i
    then Some \<lparr>Desc_Kind = CryptoKindKey, Desc_KeyType = CryptoKeyTypePublic, Desc_Identity = i\<rparr>
    else map_of m i)"
  by (induction assets arbitrary: m) (auto simp: update_conv' Descriptor_def)

lemma publicKeys_lookup:
  "map_of (publicKeys assets) i =
   (if \<exists>b \<in> set assets. is_key CryptoKeyTypePublic b \<and> Asset_Identity b = i
    then Some \<lparr>Desc_Kind = CryptoKindKey, Desc_KeyType = CryptoKeyTypePublic, Desc_Identity = i\<rparr> else None)"
  by (simp only: publicKeys_def publicKeys_fold map_of.simps)

lemma LinkKeyPairs_map: "LinkKeyPairs assets = map (linkKey (publicKeys assets)) assets"
  by (auto simp: LinkKeyPairs_def Let_def linkKey_def intro!: map_idI [symmetric])

text \<open>\<open>LinkKeyPairs\<close> changes exactly the private keys for which a public key with the same
  identity was found, and appends to each of them one reference to that public key.\<close>

theorem LinkKeyPairs_spec:
  "LinkKeyPairs assets =
     map (\<lambda>a. if is_key CryptoKeyTypePrivate a \<and>
                 (\<exists>b \<in> set assets. is_key CryptoKeyTypePublic b \<and> Asset_Identity b = Asset_Identity a)
              then a\<lparr>Asset_Relationships := Asset_Relationships a @
                [\<lparr>Rel_Type = CryptoRelationshipCorrespondsTo,
                  Rel_RelatedAsset = \<lparr>Desc_Kind = CryptoKindKey, Desc_KeyType = CryptoKeyTypePublic,
                                      Desc_Identity = Asset_Identity a\<rparr>\<rparr>]\<rparr>
              else a) assets"
  by (auto simp: LinkKeyPairs_map linkKey_def publicKeys_lookup)

text \<open>What validation does not look at.\<close>

lemma validate_update_simps [simp]:
  "validateKey (a\<lparr>Asset_Relationships := rs\<rparr>) = validateKey (a :: CryptoAsset)"
  "validateKey (a\<lparr>Asset_ID := x\<rparr>) = validateKey a"
  "detailCount (a\<lparr>Asset_Relationships := rs\<rparr>) = detailCount (a :: CryptoAsset)"
  "detailCount (a\<lparr>Asset_ID := x\<rparr>) = detailCount a"
  "Descriptor (a\<lparr>Asset_Relationships := rs\<rparr>) = Descriptor (a :: CryptoAsset)"
  "Descriptor (a\<lparr>Asset_Algorithm := alg\<rparr>) = Descriptor (a :: CryptoAsset)"
  "Descriptor (a\<lparr>Asset_ID := x\<rparr>) = Descriptor a"
  by (simp_all add: validateKey_def [abs_def] detailCount_def Descriptor_def Let_def cong: if_cong)

lemma validateDetail_update [simp]:
  "validateDetail (a\<lparr>Asset_Relationships := rs\<rparr>) = validateDetail (a :: CryptoAsset)"
  "validateDetail (a\<lparr>Asset_ID := x\<rparr>) = validateDetail a"
  by (simp_all add: validateDetail_def cong: option.case_cong)

lemma Info_Validate_ID [simp]: "Info_Validate (a\<lparr>Asset_ID := x\<rparr>) = Info_Validate (a :: CryptoAsset)"
  by (simp add: Info_Validate_def Let_def cong: if_cong)

lemma Asset_Info_Validate: "Asset_Validate a = Inr () \<Longrightarrow> Info_Validate a = Inr ()"
  by (auto simp: Asset_Validate_def)

lemma Asset_Validate_cong:
  assumes "Info_Validate b = Inr ()" "Asset_Validate a = Inr ()" "Asset_Kind b = Asset_Kind a"
    "Asset_Format b = Asset_Format a" "Asset_Encoding b = Asset_Encoding a" "Asset_Keystore b = Asset_Keystore a"
  shows "Asset_Validate b = Inr ()"
  using assms Asset_Info_Validate [OF assms(2)]
  by (simp only: Asset_Validate_def wrap_err_Inr bind_result_simps)

lemma linkKey_valid:
  assumes "a \<in> set assets" "\<forall>b \<in> set assets. Asset_Validate b = Inr ()"
  shows "Asset_Validate (linkKey (publicKeys assets) a) = Inr ()"
proof (cases "map_of (publicKeys assets) (Asset_Identity a)")
  case (Some d)
  then obtain b where b: "b \<in> set assets" "d = Descriptor b" and d: "Desc_KeyType d = CryptoKeyTypePublic"
    by (auto simp: publicKeys_lookup Descriptor_def split: if_splits)
  then have valid: "Descriptor_Validate d = Inr ()"
    using assms(2) Asset_Info_Validate [of b] by (simp add: Info_Validate_iff)
  let ?b = "a\<lparr>Asset_Relationships := Asset_Relationships a @
    [\<lparr>Rel_Type = CryptoRelationshipCorrespondsTo, Rel_RelatedAsset = d\<rparr>]\<rparr>"
  have "Info_Validate ?b = Inr ()" if "Asset_KeyType a = CryptoKeyTypePrivate"
  proof -
    have "d \<noteq> Descriptor a" using d that by (auto simp: Descriptor_def)
    then show ?thesis
      using assms Asset_Info_Validate [of a] valid
      by (auto simp: Info_Validate_iff Relationship_validate_def)
  qed
  then show ?thesis
    using assms Some Asset_Validate_cong [of ?b a] by (simp add: linkKey_def)
qed (use assms in \<open>simp add: linkKey_def\<close>)

section \<open>Strength\<close>

lemma securityLevels_range:
  "(case fst (securityLevels i) of None \<Rightarrow> True | Some l \<Rightarrow> 0 < l) \<and>
   (case snd (securityLevels i) of None \<Rightarrow> True | Some c \<Rightarrow> 0 \<le> c \<and> c \<le> 6)"
proof (cases "map_of algorithms (Identity_Value i)")
  case (Some a)
  have "0 < l" if "map_of (classicalStrengths (algo_strengthBasis a)) k = Some l" for k l
    using catalog_entry [OF Some] map_of_SomeD [OF that] by (auto simp: entry_ok_def list_all_iff)
  then show ?thesis
    using catalog_entry [OF Some]
    by (auto simp: securityLevels_def Some entry_ok_def split: option.splits)
qed (simp add: securityLevels_def noStrengthBasis_def)

lemma assess_valid:
  assumes "Asset_Validate a = Inr ()"
  shows "Asset_Validate (assess a) = Inr ()"
proof -
  let ?s = "securityLevels (Asset_Identity a)"
  have "Info_Validate (a\<lparr>Asset_Algorithm := Some (alg\<lparr>Alg_ClassicalSecurityLevel := fst ?s,
      Alg_NISTQuantumSecurityLevel := snd ?s\<rparr>)\<rparr>) = Inr ()"
    if "Asset_Algorithm a = Some alg" "Asset_Kind a = CryptoKindAlgorithm" for alg
    using Asset_Info_Validate [OF assms] that securityLevels_range [of "Asset_Identity a"]
    by (simp add: Info_Validate_iff detailCount_def validateDetail_def validateAlgorithm_def
        split: option.splits if_splits)
  then show ?thesis
    using assms by (auto simp: assess_def Let_def split: option.split prod.split intro: Asset_Validate_cong)
qed

text \<open>C36. The steps the scanner runs on the assets of an artifact - the assessment of strengths, the
  linking of key pairs and the assignment of identifiers - keep every asset valid.\<close>

theorem crypto_pipeline_valid:
  assumes "\<forall>a \<in> set assets. Asset_Validate a = Inr ()"
  shows "\<forall>a \<in> set (AssignIDs hash (LinkKeyPairs (AssessStrength assets))). Asset_Validate a = Inr ()"
proof -
  have "\<forall>a \<in> set (AssessStrength assets). Asset_Validate a = Inr ()"
    using assms assess_valid by (auto simp: AssessStrength_def)
  then have "\<forall>a \<in> set (LinkKeyPairs (AssessStrength assets)). Asset_Validate a = Inr ()"
    using linkKey_valid by (auto simp: LinkKeyPairs_map)
  moreover have "Asset_Validate (a\<lparr>Asset_ID := x\<rparr>) = Asset_Validate a" for a x
    by (simp add: Asset_Validate_def)
  ultimately show ?thesis by (auto simp: AssignIDs_def)
qed

definition example_asset :: CryptoAsset where
  "example_asset = \<lparr>Asset_Kind = CryptoKindAlgorithm, Asset_KeyType = [],
     Asset_Identity = \<lparr>Identity_Method = CryptoMethodOID, Identity_Value = ''1.2.840.113549.1.1.1'',
       Identity_Parameters = ''key-size=2048''\<rparr>,
     Asset_Name = ''RSA-2048'', Asset_Certificate = None, Asset_Key = None,
     Asset_Algorithm = Some \<lparr>Alg_Family = [], Alg_Primitive = CryptoPrimitiveUnknown,
       Alg_ClassicalSecurityLevel = None, Alg_NISTQuantumSecurityLevel = None\<rparr>,
     Asset_Relationships = [], Asset_ID = [], Asset_FilePath = ''key.pem'', Asset_Format = [], Asset_Encoding = [],
     Asset_Keystore = [], Asset_Layer = Layer_empty\<rparr>"

theorem crypto_pipeline_valid_witness:
  "Asset_Validate (hd (AssignIDs (\<lambda>d p f. d) (LinkKeyPairs (AssessStrength [example_asset])))) = Inr () \<and>
   map_option Alg_ClassicalSecurityLevel
     (Asset_Algorithm (hd (AssignIDs (\<lambda>d p f. d) (LinkKeyPairs (AssessStrength [example_asset]))))) = Some (Some 112)"
proof -
  have "Asset_Validate example_asset = Inr ()" by code_simp
  then have "\<forall>a \<in> set (AssignIDs (\<lambda>d p f. d) (LinkKeyPairs (AssessStrength [example_asset]))). Asset_Validate a = Inr ()"
    by (intro crypto_pipeline_valid) simp
  moreover have "AssignIDs (\<lambda>d p f. d) (LinkKeyPairs (AssessStrength [example_asset])) \<noteq> []"
    by (simp add: AssignIDs_def LinkKeyPairs_map AssessStrength_def)
  moreover have "map_option Alg_ClassicalSecurityLevel
     (Asset_Algorithm (hd (AssignIDs (\<lambda>d p f. d) (LinkKeyPairs (AssessStrength [example_asset]))))) = Some (Some 112)"
    by code_simp
  ultimately show ?thesis by simp
qed

end
