(* ===== verification/Applier.thy ===== *)
theory Applier
  imports Fanal_Artifact Crypto_Catalog
begin

text \<open>
  The layer applier of \<open>pkg/fanal/applier\<close>: \<open>docker.go\<close>, which merges the analysis results of the
  layers of an image into one artifact detail, and \<open>applier.go\<close>, which reads the layers from the
  cache.

  The layers write their results into a nested map (\<open>github.com/knqyf263/nested\<close>), addressed by the
  components of the file path, from which whiteouts and opaque directories of the upper layers delete
  whole subtrees. The nested map, the constructor of package URLs, the hashes and the iteration order
  of Go maps are fields of \<open>applier_env\<close>; \<open>nested_ok\<close> states what the code relies on of the first.
  The slices of the layers and of the result share their arrays where the code assigns
  \<open>app.Packages[i]\<close>; the fields written there (layer, package URL and UID) are not read from the
  layers afterwards, so the model updates the result only.
\<close>

section \<open>The environment\<close>

datatype nested_value =
    NPackageInfo PackageInfo
  | NApplication Application
  | NMisconfiguration Misconfiguration
  | NLicenseFile LicenseFile
  | NCryptoAssets "CryptoAsset list"
  | NCustomResource CustomResource

record 'n applier_env =
  nested_empty :: 'n
  SetByString :: "string \<Rightarrow> char \<Rightarrow> nested_value \<Rightarrow> 'n \<Rightarrow> 'n"
  DeleteByString :: "string \<Rightarrow> char \<Rightarrow> 'n \<Rightarrow> 'n"
  Walk :: "'n \<Rightarrow> (string list \<times> nested_value) list"
  purl_New :: "string \<Rightarrow> OS option \<Rightarrow> Package \<Rightarrow> PackageURL option result"
  pkg_hash :: "string \<Rightarrow> Package \<Rightarrow> string"
  asset_hash :: "string \<Rightarrow> string \<Rightarrow> string \<Rightarrow> string"
  range_groups :: "(string \<times> CryptoAsset list) list \<Rightarrow> (string \<times> CryptoAsset list) list"
  range_secrets :: "(string \<times> Secret) list \<Rightarrow> (string \<times> Secret) list"
  range_apps :: "(LangType \<times> Application) list \<Rightarrow> (LangType \<times> Application) list"
  sorts :: detail_sorts

section \<open>Looking up the layer a result comes from (docker.go)\<close>

definition findPackage :: "Package \<Rightarrow> Package list \<Rightarrow> Package option" where
  "findPackage e s =
     find (\<lambda>a. Pkg_Name a = Pkg_Name e \<and> Pkg_Version a = Pkg_Version e \<and> Pkg_Release a = Pkg_Release e) s"

text \<open>The loop from \<open>index - 1\<close> down to 0.\<close>

fun lookupBuildInfo_below :: "nat \<Rightarrow> BlobInfo list \<Rightarrow> BuildInfo option" where
  "lookupBuildInfo_below 0 layers = None"
| "lookupBuildInfo_below (Suc i) layers =
     (if Blob_BuildInfo (layers ! i) \<noteq> None then Blob_BuildInfo (layers ! i)
      else lookupBuildInfo_below i layers)"

text \<open>The callers pass an index inside the slice.\<close>

definition lookupBuildInfo :: "nat \<Rightarrow> BlobInfo list \<Rightarrow> BuildInfo option" where
  "lookupBuildInfo index layers =
     (if Blob_BuildInfo (layers ! index) \<noteq> None then Blob_BuildInfo (layers ! index)
      else if index = 0 then (if 1 < length layers then Blob_BuildInfo (layers ! 1) else None)
      else lookupBuildInfo_below index layers)"

fun lookup_pkg_infos :: "Package \<Rightarrow> PackageInfo list \<Rightarrow> Package option" where
  "lookup_pkg_infos pkg [] = None"
| "lookup_pkg_infos pkg (info # infos) =
     (case findPackage pkg (PI_Packages info) of Some p \<Rightarrow> Some p | None \<Rightarrow> lookup_pkg_infos pkg infos)"

fun lookup_pkg_layers :: "Package \<Rightarrow> BlobInfo list \<Rightarrow> nat \<Rightarrow> BlobInfo list \<Rightarrow>
    string \<times> string \<times> string list \<times> BuildInfo option" where
  "lookup_pkg_layers pkg layers i [] = ([], [], [], None)"
| "lookup_pkg_layers pkg layers i (layer # rest) =
     (case lookup_pkg_infos pkg (Blob_PackageInfos layer) of
        Some p \<Rightarrow> (Blob_Digest layer, Blob_DiffID layer, Pkg_InstalledFiles p, lookupBuildInfo i layers)
      | None \<Rightarrow> lookup_pkg_layers pkg layers (Suc i) rest)"

definition lookupOriginLayerForPkg ::
    "Package \<Rightarrow> BlobInfo list \<Rightarrow> string \<times> string \<times> string list \<times> BuildInfo option" where
  "lookupOriginLayerForPkg pkg layers = lookup_pkg_layers pkg layers 0 layers"

fun lookupOriginLayerForLib :: "string \<Rightarrow> Package \<Rightarrow> BlobInfo list \<Rightarrow> string \<times> string" where
  "lookupOriginLayerForLib filePath lib [] = ([], [])"
| "lookupOriginLayerForLib filePath lib (layer # layers) =
     (if \<exists>layerApp \<in> set (Blob_Applications layer).
           filePath = App_FilePath layerApp \<and> findPackage lib (App_Packages layerApp) \<noteq> None
      then (Blob_Digest layer, Blob_DiffID layer)
      else lookupOriginLayerForLib filePath lib layers)"

fun lookupOriginLayerForCustomResource :: "CustomResource \<Rightarrow> BlobInfo list \<Rightarrow> string \<times> string" where
  "lookupOriginLayerForCustomResource customResource [] = ([], [])"
| "lookupOriginLayerForCustomResource customResource (layer # layers) =
     (if \<exists>layerCR \<in> set (Blob_CustomResources layer).
           CR_FilePath customResource = CR_FilePath layerCR \<and> CR_Type customResource = CR_Type layerCR
      then (Blob_Digest layer, Blob_DiffID layer)
      else lookupOriginLayerForCustomResource customResource layers)"

section \<open>Merging secrets (docker.go)\<close>

definition secretFindingsContains :: "SecretFinding list \<Rightarrow> SecretFinding \<Rightarrow> bool" where
  "secretFindingsContains findings finding \<longleftrightarrow> (\<exists>f \<in> set findings. SF_RuleID f = SF_RuleID finding)"

fun merge_findings :: "SecretFinding list \<Rightarrow> SecretFinding list \<Rightarrow> SecretFinding list" where
  "merge_findings findings [] = findings"
| "merge_findings findings (previousFinding # previous) =
     merge_findings
       (if secretFindingsContains findings previousFinding then findings else findings @ [previousFinding])
       previous"

definition mergeSecrets :: "(string \<times> Secret) list \<Rightarrow> Secret \<Rightarrow> Layer \<Rightarrow> (string \<times> Secret) list" where
  "mergeSecrets secretsMap newSecret layer =
     (let newSecret1 = newSecret\<lparr>Secret_Findings := map (\<lambda>f. f\<lparr>SF_Layer := layer\<rparr>) (Secret_Findings newSecret)\<rparr>
      in case map_of secretsMap (Secret_FilePath newSecret1) of
           None \<Rightarrow> AList.update (Secret_FilePath newSecret1) newSecret1 secretsMap
         | Some secret \<Rightarrow>
             AList.update (Secret_FilePath newSecret1)
               (newSecret1\<lparr>Secret_Findings :=
                  merge_findings (Secret_Findings newSecret1) (Secret_Findings secret)\<rparr>) secretsMap)"

section \<open>Package URLs and the operating system (docker.go)\<close>

definition newPURL :: "'n applier_env \<Rightarrow> string \<Rightarrow> OS option \<Rightarrow> Package \<Rightarrow> PackageURL option" where
  "newPURL env pkgType os pkg =
     (if Pkg_Name pkg = [] then None
      else case purl_New env pkgType os pkg of Inl _ \<Rightarrow> None | Inr p \<Rightarrow> p)"

definition purlMatchesOS :: "Package \<Rightarrow> OSType \<Rightarrow> bool" where
  "purlMatchesOS pkg osFamily =
     (case Id_PURL (Pkg_Identifier pkg) of
        None \<Rightarrow> True
      | Some purl \<Rightarrow>
          if osFamily = [] then True
          else if PURL_Namespace purl = [] then True
          else PURL_Namespace purl = PurlNamespace osFamily)"

definition filterMismatchedOSPkgs :: "OSType \<Rightarrow> Package list \<Rightarrow> Package list" where
  "filterMismatchedOSPkgs osFamily pkgs =
     (if osFamily = [] then pkgs else filter (\<lambda>pkg. purlMatchesOS pkg osFamily) pkgs)"

section \<open>Aggregation (docker.go)\<close>

definition Application_of :: "LangType \<Rightarrow> Application" where
  "Application_of t = \<lparr>App_Type = t, App_FilePath = [], App_Packages = []\<rparr>"

fun aggregate_loop :: "Application list \<Rightarrow> Application list \<Rightarrow> (LangType \<times> Application) list \<Rightarrow>
    Application list \<times> (LangType \<times> Application) list" where
  "aggregate_loop apps [] aggregatedApps = (apps, aggregatedApps)"
| "aggregate_loop apps (app # rest) aggregatedApps =
     (case map_of aggregatedApps (App_Type app) of
        None \<Rightarrow> aggregate_loop (apps @ [app]) rest aggregatedApps
      | Some a \<Rightarrow> aggregate_loop apps rest
          (AList.update (App_Type app) (a\<lparr>App_Packages := App_Packages a @ App_Packages app\<rparr>) aggregatedApps))"

definition aggregate :: "'n applier_env \<Rightarrow> ArtifactDetail \<Rightarrow> ArtifactDetail" where
  "aggregate env detail =
     (let (apps, aggregatedApps) = aggregate_loop [] (AD_Applications detail)
            (map (\<lambda>t. (t, Application_of t)) AggregatingTypes)
      in detail\<lparr>AD_Applications :=
           apps @ filter (\<lambda>app. 0 < length (App_Packages app)) (map snd (range_apps env aggregatedApps))\<rparr>)"

section \<open>Applying the layers (docker.go)\<close>

record 'n apply_state =
  st_nested :: 'n
  st_secrets :: "(string \<times> Secret) list"
  st_merged :: ArtifactDetail

abbreviation sep :: char where "sep \<equiv> CHR ''/''"

text \<open>The first part of the loop body: opaque directories, then whiteouts.\<close>

definition apply_deletes :: "'n applier_env \<Rightarrow> BlobInfo \<Rightarrow> 'n \<Rightarrow> 'n" where
  "apply_deletes env layer n =
     foldl (\<lambda>n whFile. DeleteByString env whFile sep n)
       (foldl (\<lambda>n opqDir. DeleteByString env (trimSuffix opqDir [sep]) sep n) n (Blob_OpaqueDirs layer))
       (Blob_WhiteoutFiles layer)"

definition layer_origin :: "BlobInfo \<Rightarrow> Layer" where
  "layer_origin layer = Layer_empty\<lparr>Layer_Digest := Blob_Digest layer, Layer_DiffID := Blob_DiffID layer\<rparr>"

text \<open>The keys and values a layer writes into the nested map, in the order of the loops.\<close>

definition pkgInfo_entries :: "BlobInfo \<Rightarrow> (string \<times> nested_value) list" where
  "pkgInfo_entries layer =
     map (\<lambda>pkgInfo. (PI_FilePath pkgInfo @ ''/type:ospkg'', NPackageInfo pkgInfo)) (Blob_PackageInfos layer)"

definition app_entries :: "BlobInfo \<Rightarrow> (string \<times> nested_value) list" where
  "app_entries layer =
     map (\<lambda>app. (App_FilePath app @ ''/type:'' @ App_Type app, NApplication app)) (Blob_Applications layer)"

definition config_entries :: "BlobInfo \<Rightarrow> (string \<times> nested_value) list" where
  "config_entries layer =
     map (\<lambda>config. (MC_FilePath config @ ''/type:config'',
                    NMisconfiguration (config\<lparr>MC_Layer := layer_origin layer\<rparr>))) (Blob_Misconfigurations layer)"

definition license_entries :: "BlobInfo \<Rightarrow> (string \<times> nested_value) list" where
  "license_entries layer =
     map (\<lambda>license. (License_FilePath license @ ''/type:license,'' @ License_Type license,
                     NLicenseFile (license\<lparr>License_Layer := layer_origin layer\<rparr>))) (Blob_Licenses layer)"

definition crypto_entries :: "'n applier_env \<Rightarrow> BlobInfo \<Rightarrow> (string \<times> nested_value) list" where
  "crypto_entries env layer =
     map (\<lambda>(filePath, assets). (filePath @ ''/type:crypto'',
            NCryptoAssets (map (\<lambda>a. a\<lparr>Asset_Layer := layer_origin layer\<rparr>) assets)))
       (range_groups env (groupBy Asset_FilePath (Blob_CryptoAssets layer)))"

definition custom_entries :: "BlobInfo \<Rightarrow> (string \<times> nested_value) list" where
  "custom_entries layer =
     map (\<lambda>customResource. (CR_FilePath customResource @ ''/custom:'' @ CR_Type customResource,
                            NCustomResource customResource)) (Blob_CustomResources layer)"

definition layer_entries :: "'n applier_env \<Rightarrow> BlobInfo \<Rightarrow> (string \<times> nested_value) list" where
  "layer_entries env layer =
     pkgInfo_entries layer @ app_entries layer @ config_entries layer @ license_entries layer @
     crypto_entries env layer @ custom_entries layer"

definition apply_sets :: "'n applier_env \<Rightarrow> (string \<times> nested_value) list \<Rightarrow> 'n \<Rightarrow> 'n" where
  "apply_sets env entries n = foldl (\<lambda>n (key, v). SetByString env key sep v n) n entries"

text \<open>The body of the loop over the layers.\<close>

definition apply_layer :: "'n applier_env \<Rightarrow> 'n apply_state \<Rightarrow> BlobInfo \<Rightarrow> 'n apply_state" where
  "apply_layer env st layer =
     (let merged = st_merged st;
          merged1 = merged\<lparr>AD_OS := OS_Merge (AD_OS merged) (Blob_OS layer)\<rparr>;
          merged2 = (if Blob_Repository layer \<noteq> None then merged1\<lparr>AD_Repository := Blob_Repository layer\<rparr>
                     else merged1);
          l = \<lparr>Layer_Size = 0, Layer_Digest = Blob_Digest layer, Layer_DiffID = Blob_DiffID layer,
               Layer_CreatedBy = Blob_CreatedBy layer\<rparr>
      in \<lparr>st_nested = apply_sets env (layer_entries env layer) (apply_deletes env layer (st_nested st)),
          st_secrets = foldl (\<lambda>m secret. mergeSecrets m secret l) (st_secrets st) (Blob_Secrets layer),
          st_merged = merged2\<rparr>)"

text \<open>The callback of \<open>Walk\<close>.\<close>

fun walk_merge :: "ArtifactDetail \<Rightarrow> nested_value \<Rightarrow> ArtifactDetail" where
  "walk_merge d (NPackageInfo v) = d\<lparr>AD_Packages := AD_Packages d @ PI_Packages v\<rparr>"
| "walk_merge d (NApplication v) = d\<lparr>AD_Applications := AD_Applications d @ [v]\<rparr>"
| "walk_merge d (NMisconfiguration v) = d\<lparr>AD_Misconfigurations := AD_Misconfigurations d @ [v]\<rparr>"
| "walk_merge d (NLicenseFile v) = d\<lparr>AD_Licenses := AD_Licenses d @ [v]\<rparr>"
| "walk_merge d (NCryptoAssets v) = d\<lparr>AD_CryptoAssets := AD_CryptoAssets d @ v\<rparr>"
| "walk_merge d (NCustomResource v) = d\<lparr>AD_CustomResources := AD_CustomResources d @ [v]\<rparr>"

text \<open>The license files of dpkg become licenses of the packages.\<close>

definition dpkgLicenses :: "LicenseFile list \<Rightarrow> (string \<times> string list) list" where
  "dpkgLicenses licenses =
     fold (\<lambda>license m. if License_Type license \<noteq> LicenseTypeDpkg then m
                       else AList.update (License_PkgName license) (map LF_Name (License_Findings license)) m)
       licenses []"

definition rejectDpkgLicenses :: "LicenseFile list \<Rightarrow> LicenseFile list" where
  "rejectDpkgLicenses licenses = filter (\<lambda>license. License_Type license \<noteq> LicenseTypeDpkg) licenses"

text \<open>The body of the loop over the OS packages.\<close>

definition enrich_pkg :: "'n applier_env \<Rightarrow> BlobInfo list \<Rightarrow> OS \<Rightarrow> (string \<times> string list) list \<Rightarrow> Package \<Rightarrow> Package" where
  "enrich_pkg env layers os licenses pkg =
     (let p1 = (if Pkg_Layer pkg = Layer_empty then
                  let (digest, diffID, installedFiles, buildInfo) = lookupOriginLayerForPkg pkg layers;
                      q = pkg\<lparr>Pkg_Layer := Layer_empty\<lparr>Layer_Digest := digest, Layer_DiffID := diffID\<rparr>\<rparr>;
                      q1 = (if buildInfo \<noteq> None then q\<lparr>Pkg_BuildInfo := buildInfo\<rparr> else q)
                  in q1\<lparr>Pkg_InstalledFiles := installedFiles\<rparr>
                else pkg);
          p2 = (if OS_Family os \<noteq> [] \<and> Id_PURL (Pkg_Identifier pkg) = None
                then p1\<lparr>Pkg_Identifier := (Pkg_Identifier p1)\<lparr>Id_PURL := newPURL env (OS_Family os) (Some os) pkg\<rparr>\<rparr>
                else p1);
          p3 = p2\<lparr>Pkg_Identifier := (Pkg_Identifier p2)\<lparr>Id_UID := dependency_UID (pkg_hash env) [] pkg\<rparr>\<rparr>
      in case map_of licenses (Pkg_Name pkg) of
           Some ls \<Rightarrow> p3\<lparr>Pkg_Licenses := ls\<rparr>
         | None \<Rightarrow> p3)"

abbreviation TypeSBOM :: string where "TypeSBOM \<equiv> ''sbom''"

definition compareAnalyzedBy :: "Package \<Rightarrow> Package \<Rightarrow> int" where
  "compareAnalyzedBy a b =
     (if Pkg_AnalyzedBy a = Pkg_AnalyzedBy b then 0
      else if Pkg_AnalyzedBy a = TypeSBOM then 1
      else if Pkg_AnalyzedBy b = TypeSBOM then - 1
      else 0)"

definition dedupKey :: "Package \<Rightarrow> string" where
  "dedupKey pkg = cmp_or [] [Pkg_ID pkg, Pkg_Name pkg @ ''@'' @ FormatVersion pkg] @ ''/'' @ Pkg_FilePath pkg"

text \<open>The bodies of the loops over the packages of the applications and over the custom resources.\<close>

definition enrich_lib :: "'n applier_env \<Rightarrow> BlobInfo list \<Rightarrow> Application \<Rightarrow> Package \<Rightarrow> Package" where
  "enrich_lib env layers app pkg =
     (let p1 = (if Pkg_Layer pkg = Layer_empty then
                  let (digest, diffID) = lookupOriginLayerForLib (App_FilePath app) pkg layers
                  in pkg\<lparr>Pkg_Layer := Layer_empty\<lparr>Layer_Digest := digest, Layer_DiffID := diffID\<rparr>\<rparr>
                else pkg);
          p2 = (if Id_PURL (Pkg_Identifier pkg) = None
                then p1\<lparr>Pkg_Identifier := (Pkg_Identifier p1)\<lparr>Id_PURL := newPURL env (App_Type app) None pkg\<rparr>\<rparr>
                else p1)
      in p2\<lparr>Pkg_Identifier :=
              (Pkg_Identifier p2)\<lparr>Id_UID := dependency_UID (pkg_hash env) (App_FilePath app) pkg\<rparr>\<rparr>)"

definition enrich_app :: "'n applier_env \<Rightarrow> BlobInfo list \<Rightarrow> Application \<Rightarrow> Application" where
  "enrich_app env layers app = app\<lparr>App_Packages := map (enrich_lib env layers app) (App_Packages app)\<rparr>"

definition enrich_custom :: "BlobInfo list \<Rightarrow> CustomResource \<Rightarrow> CustomResource" where
  "enrich_custom layers customResource =
     (if CR_Layer customResource = Layer_empty then
        let (digest, diffID) = lookupOriginLayerForCustomResource customResource layers
        in customResource\<lparr>CR_Layer := Layer_empty\<lparr>Layer_Digest := digest, Layer_DiffID := diffID\<rparr>\<rparr>
      else customResource)"

definition apply_start :: "'n applier_env \<Rightarrow> 'n apply_state" where
  "apply_start env = \<lparr>st_nested = nested_empty env, st_secrets = [], st_merged = ArtifactDetail_empty\<rparr>"

text \<open>What the loop over the layers and the walk leave, with the cryptographic assets linked and
  identified and the secrets appended.\<close>

definition apply_collect :: "'n applier_env \<Rightarrow> BlobInfo list \<Rightarrow> ArtifactDetail" where
  "apply_collect env layers =
     (let st = foldl (apply_layer env) (apply_start env) layers;
          d = foldl walk_merge (st_merged st) (map snd (Walk env (st_nested st)))
      in d\<lparr>AD_CryptoAssets := AssignIDs (asset_hash env) (LinkKeyPairs (AD_CryptoAssets d)),
           AD_Secrets := AD_Secrets d @ map snd (range_secrets env (st_secrets st))\<rparr>)"

text \<open>The OS packages before the removal of duplicates.\<close>

definition candidate_packages :: "'n applier_env \<Rightarrow> BlobInfo list \<Rightarrow> ArtifactDetail \<Rightarrow> Package list" where
  "candidate_packages env layers d =
     filterMismatchedOSPkgs (OS_Family (AD_OS d))
       (map (enrich_pkg env layers (AD_OS d) (dpkgLicenses (AD_Licenses d))) (AD_Packages d))"

definition ApplyLayers :: "'n applier_env \<Rightarrow> BlobInfo list \<Rightarrow> ArtifactDetail" where
  "ApplyLayers env layers =
     (let d = apply_collect env layers;
          pkgs = sort_stable_func compareAnalyzedBy (candidate_packages env layers d)
      in ArtifactDetail_Sort (sorts env) (aggregate env (d\<lparr>
           AD_Licenses := rejectDpkgLicenses (AD_Licenses d),
           AD_Packages := uniqBy dedupKey pkgs,
           AD_Applications := map (enrich_app env layers) (AD_Applications d),
           AD_CustomResources := map (enrich_custom layers) (AD_CustomResources d)\<rparr>)))"

section \<open>Reading the layers from the cache (applier.go)\<close>

record cache =
  GetBlob :: "string \<Rightarrow> BlobInfo \<times> go_error option"
  GetArtifact :: "string \<Rightarrow> ArtifactInfo \<times> go_error option"

abbreviation ErrUnknownOS :: go_error where "ErrUnknownOS \<equiv> Errorf ''unknown OS'' []"
abbreviation ErrNoPkgsDetected :: go_error where "ErrNoPkgsDetected \<equiv> Errorf ''no packages detected'' []"

fun read_layers :: "cache \<Rightarrow> string list \<Rightarrow> BlobInfo list \<Rightarrow> Layer list \<Rightarrow> (BlobInfo list \<times> Layer list) result" where
  "read_layers c [] layers layerInfoList = Inr (layers, layerInfoList)"
| "read_layers c (key # keys) layers layerInfoList =
     (let blob = fst (GetBlob c key)
      in if Blob_SchemaVersion blob = 0 then Inl (Errorf ''layer cache missing: %s'' [key])
         else read_layers c keys (layers @ [blob])
                (if Blob_Layer blob \<noteq> Layer_empty then layerInfoList @ [Blob_Layer blob] else layerInfoList))"

definition applier_ApplyLayers ::
    "'n applier_env \<Rightarrow> cache \<Rightarrow> string \<Rightarrow> string list \<Rightarrow> ArtifactDetail \<times> go_error option" where
  "applier_ApplyLayers env c imageID layerKeys =
     (case read_layers c layerKeys [] [] of
        Inl e \<Rightarrow> (ArtifactDetail_empty, Some e)
      | Inr (layers, layerInfoList) \<Rightarrow>
          let mergedLayer = ApplyLayers env layers;
              imageInfo = fst (GetArtifact c imageID);
              mergedLayer1 = mergedLayer\<lparr>AD_ImageConfig := \<lparr>IC_Packages = AI_HistoryPackages imageInfo,
                IC_Misconfiguration = AI_Misconfiguration imageInfo, IC_Secret = AI_Secret imageInfo\<rparr>,
                AD_Layers := layerInfoList\<rparr>
          in if \<not> OS_Detected (AD_OS mergedLayer1) then (mergedLayer1, Some ErrUnknownOS)
             else if AD_Packages mergedLayer1 = [] then (mergedLayer1, Some ErrNoPkgsDetected)
             else (mergedLayer1, None))"

section \<open>Secrets of the layers\<close>

abbreviation of_rule :: "string \<Rightarrow> SecretFinding list \<Rightarrow> SecretFinding list" where
  "of_rule r fs \<equiv> filter (\<lambda>f. SF_RuleID f = r) fs"

definition findings_at :: "(string \<times> Secret) list \<Rightarrow> string \<Rightarrow> SecretFinding list" where
  "findings_at m path = (case map_of m path of Some s \<Rightarrow> Secret_Findings s | None \<Rightarrow> [])"

lemma of_rule_merge_findings:
  "of_rule r (merge_findings fs previous) =
     (if \<exists>f \<in> set fs. SF_RuleID f = r then of_rule r fs else take 1 (of_rule r previous))"
proof (induction previous arbitrary: fs)
  case Nil
  show ?case by (auto simp: filter_empty_conv)
next
  case (Cons p previous)
  let ?fs = "if secretFindingsContains fs p then fs else fs @ [p]"
  have "(\<exists>f \<in> set ?fs. SF_RuleID f = r) \<longleftrightarrow> (\<exists>f \<in> set fs. SF_RuleID f = r) \<or> SF_RuleID p = r"
    by (auto simp: secretFindingsContains_def)
  moreover have "of_rule r ?fs = (if (\<exists>f \<in> set fs. SF_RuleID f = r) then of_rule r fs
      else if SF_RuleID p = r then [p] else [])"
    by (auto simp: secretFindingsContains_def filter_empty_conv)
  ultimately show ?case using Cons.IH [of ?fs] by simp
qed

lemma mergeSecrets_lookup:
  "findings_at (mergeSecrets m new l) path =
     (let fs = map (\<lambda>f. f\<lparr>SF_Layer := l\<rparr>) (Secret_Findings new)
      in if path = Secret_FilePath new then merge_findings fs (findings_at m path) else findings_at m path)"
  by (auto simp: findings_at_def mergeSecrets_def Let_def update_conv' split: option.splits)

text \<open>Merging the secrets of an upper layer into those of the lower ones: for its file, a rule that
  the upper layer reports has exactly the findings of the upper layer, labelled with that layer; of a
  rule that only lower layers report, the first finding is kept. Other files are unchanged.\<close>

theorem mergeSecrets_spec:
  "of_rule r (findings_at (mergeSecrets m new l) path) =
     (if path \<noteq> Secret_FilePath new then of_rule r (findings_at m path)
      else if \<exists>f \<in> set (Secret_Findings new). SF_RuleID f = r
      then map (\<lambda>f. f\<lparr>SF_Layer := l\<rparr>) (of_rule r (Secret_Findings new))
      else take 1 (of_rule r (findings_at m path)))"
  by (auto simp: mergeSecrets_lookup Let_def of_rule_merge_findings filter_map comp_def)

definition secrets_ok :: "(string \<times> Secret) list \<Rightarrow> bool" where
  "secrets_ok m \<longleftrightarrow> map_ok m \<and> (\<forall>(p, s) \<in> set m. Secret_FilePath s = p)"

lemma mergeSecrets_ok: "secrets_ok m \<Longrightarrow> secrets_ok (mergeSecrets m new l)"
  using set_update_subset by (fastforce simp: secrets_ok_def mergeSecrets_def Let_def map_ok_update split: option.splits)

definition rules_at :: "(string \<times> Secret) list \<Rightarrow> string \<Rightarrow> string set" where
  "rules_at m path = SF_RuleID ` set (findings_at m path)"

lemma rules_of_rule: "r \<in> SF_RuleID ` set fs \<longleftrightarrow> of_rule r fs \<noteq> []"
  by (auto simp: filter_empty_conv)

lemma rules_merge_findings:
  "SF_RuleID ` set (merge_findings fs old) = SF_RuleID ` set fs \<union> SF_RuleID ` set old"
proof (rule set_eqI)
  fix r
  show "r \<in> SF_RuleID ` set (merge_findings fs old) \<longleftrightarrow> r \<in> SF_RuleID ` set fs \<union> SF_RuleID ` set old"
    by (simp add: rules_of_rule of_rule_merge_findings del: image_iff) (auto simp: filter_empty_conv)
qed

lemma rules_at_mergeSecrets:
  "rules_at (mergeSecrets m new l) path =
     rules_at m path \<union> (if path = Secret_FilePath new then SF_RuleID ` set (Secret_Findings new) else {})"
  by (auto simp: rules_at_def mergeSecrets_lookup Let_def rules_merge_findings image_image simp del: image_iff)

definition blob_rules :: "BlobInfo \<Rightarrow> string \<Rightarrow> string set" where
  "blob_rules layer path = (\<Union>s \<in> {s \<in> set (Blob_Secrets layer). Secret_FilePath s = path}. SF_RuleID ` set (Secret_Findings s))"

lemma rules_at_foldl:
  "rules_at (foldl (\<lambda>m secret. mergeSecrets m secret l) m secrets) path =
     rules_at m path \<union> (\<Union>s \<in> {s \<in> set secrets. Secret_FilePath s = path}. SF_RuleID ` set (Secret_Findings s))"
  by (induction secrets arbitrary: m) (auto simp: rules_at_mergeSecrets simp del: image_iff)

lemma secrets_ok_foldl: "secrets_ok m \<Longrightarrow> secrets_ok (foldl (\<lambda>m secret. mergeSecrets m secret l) m secrets)"
  by (induction secrets arbitrary: m) (auto simp: mergeSecrets_ok)

lemma apply_layer_secrets:
  "rules_at (st_secrets (foldl (apply_layer env) st layers)) path =
     rules_at (st_secrets st) path \<union> (\<Union>layer \<in> set layers. blob_rules layer path)"
  by (induction layers arbitrary: st) (auto simp: apply_layer_def Let_def rules_at_foldl blob_rules_def)

lemma apply_layer_secrets_ok:
  "secrets_ok (st_secrets st) \<Longrightarrow> secrets_ok (st_secrets (foldl (apply_layer env) st layers))"
  by (induction layers arbitrary: st) (auto simp: apply_layer_def Let_def secrets_ok_foldl)

lemma walk_merge_keeps [simp]:
  "AD_Secrets (foldl walk_merge d vs) = AD_Secrets d"
  "AD_OS (foldl walk_merge d vs) = AD_OS d"
  "AD_Repository (foldl walk_merge d vs) = AD_Repository d"
proof (induction vs arbitrary: d)
  case (Cons v vs)
  { case 1 then show ?case using Cons by (cases v) simp_all }
  { case 2 then show ?case using Cons by (cases v) simp_all }
  { case 3 then show ?case using Cons by (cases v) simp_all }
qed simp_all

text \<open>The fields of the merged detail that the later phases leave alone.\<close>

lemma aggregate_keeps [simp]:
  "AD_OS (aggregate env d) = AD_OS d" "AD_Packages (aggregate env d) = AD_Packages d"
  "AD_Secrets (aggregate env d) = AD_Secrets d" "AD_Licenses (aggregate env d) = AD_Licenses d"
  "AD_Misconfigurations (aggregate env d) = AD_Misconfigurations d"
  "AD_CryptoAssets (aggregate env d) = AD_CryptoAssets d"
  "AD_CustomResources (aggregate env d) = AD_CustomResources d"
  by (simp_all add: aggregate_def split: prod.splits)

lemma ApplyLayers_simps:
  "AD_OS (ApplyLayers env layers) = AD_OS (apply_collect env layers)"
  "AD_Packages (ApplyLayers env layers) = sort_Packages (sorts env)
     (uniqBy dedupKey (sort_stable_func compareAnalyzedBy (candidate_packages env layers (apply_collect env layers))))"
  "AD_Secrets (ApplyLayers env layers) = sort_Secrets (sorts env) (AD_Secrets (apply_collect env layers))"
  "AD_Licenses (ApplyLayers env layers) =
     sort_Licenses (sorts env) (rejectDpkgLicenses (AD_Licenses (apply_collect env layers)))"
  "AD_Misconfigurations (ApplyLayers env layers) = AD_Misconfigurations (apply_collect env layers)"
  by (simp_all add: ApplyLayers_def Let_def)

lemma apply_collect_AD_OS:
  "AD_OS (apply_collect env layers) = foldl OS_Merge OS_empty (map Blob_OS layers)"
proof -
  have "AD_OS (st_merged (foldl (apply_layer env) st layers)) =
      foldl OS_Merge (AD_OS (st_merged st)) (map Blob_OS layers)" for st
    by (induction layers arbitrary: st) (auto simp: apply_layer_def Let_def)
  then show ?thesis by (simp add: apply_collect_def Let_def apply_start_def ArtifactDetail_empty_def)
qed

lemma apply_collect_secrets:
  "AD_Secrets (apply_collect env layers) =
     map snd (range_secrets env (st_secrets (foldl (apply_layer env) (apply_start env) layers)))"
proof -
  have "AD_Secrets (st_merged (foldl (apply_layer env) st layers)) = AD_Secrets (st_merged st)" for st
    by (induction layers arbitrary: st) (auto simp: apply_layer_def Let_def)
  then show ?thesis by (simp add: apply_collect_def Let_def apply_start_def ArtifactDetail_empty_def)
qed

definition env_ranges_ok :: "'n applier_env \<Rightarrow> bool" where
  "env_ranges_ok env \<longleftrightarrow> is_range (range_groups env) \<and> is_range (range_secrets env) \<and> is_range (range_apps env) \<and>
     sorts_ok (sorts env)"

lemma rules_at_iff:
  assumes "secrets_ok m"
  shows "r \<in> rules_at m path \<longleftrightarrow>
     (\<exists>s \<in> snd ` set m. Secret_FilePath s = path \<and> r \<in> SF_RuleID ` set (Secret_Findings s))"
proof -
  have "map_of m path = Some s \<longleftrightarrow> s \<in> snd ` set m \<and> Secret_FilePath s = path" for s
    using assms map_of_eq_Some_iff [of m path s] by (force simp: secrets_ok_def map_ok_def)
  moreover have "r \<in> rules_at m path \<longleftrightarrow> (\<exists>s. map_of m path = Some s \<and> r \<in> SF_RuleID ` set (Secret_Findings s))"
    by (cases "map_of m path") (simp_all add: rules_at_def findings_at_def)
  ultimately show ?thesis by blast
qed

text \<open>C38. Secrets survive every upper layer: after \<open>ApplyLayers\<close>, a rule is reported for a file exactly
  when some layer reported it for that file, even if an upper layer deleted or replaced the file.\<close>

theorem ApplyLayers_secrets:
  assumes "env_ranges_ok env"
  shows "(\<exists>s \<in> set (AD_Secrets (ApplyLayers env layers)).
            Secret_FilePath s = path \<and> r \<in> SF_RuleID ` set (Secret_Findings s)) \<longleftrightarrow>
         (\<exists>layer \<in> set layers. \<exists>s \<in> set (Blob_Secrets layer).
            Secret_FilePath s = path \<and> r \<in> SF_RuleID ` set (Secret_Findings s))"
proof -
  let ?m = "st_secrets (foldl (apply_layer env) (apply_start env) layers)"
  have ok: "secrets_ok ?m"
    by (rule apply_layer_secrets_ok) (simp add: apply_start_def secrets_ok_def)
  have rules: "rules_at ?m path = (\<Union>layer \<in> set layers. blob_rules layer path)"
    by (simp add: apply_layer_secrets) (simp add: apply_start_def rules_at_def findings_at_def)
  have "set (AD_Secrets (ApplyLayers env layers)) = snd ` set ?m"
    using assms by (simp add: ApplyLayers_simps apply_collect_secrets env_ranges_ok_def set_sort_Secrets is_range_set)
  moreover have "r \<in> rules_at ?m path \<longleftrightarrow> (\<exists>layer \<in> set layers. \<exists>s \<in> set (Blob_Secrets layer).
      Secret_FilePath s = path \<and> r \<in> SF_RuleID ` set (Secret_Findings s))"
    unfolding rules blob_rules_def by blast
  ultimately show ?thesis using rules_at_iff [OF ok, of r path] by simp
qed

section \<open>The OS packages of the result\<close>

lemma compareAnalyzedBy_key:
  "compareAnalyzedBy a b = compare (Pkg_AnalyzedBy a = TypeSBOM) (Pkg_AnalyzedBy b = TypeSBOM)"
  by (auto simp: compareAnalyzedBy_def compare_def)

text \<open>C37. The OS packages of the result are sorted, have distinct identifiers and file paths, cover all
  candidates (the packages left after deletions and the check of their URLs), and of the candidates
  with the same key the one kept is reported by a package manager unless only SBOMs report it.\<close>

theorem ApplyLayers_packages:
  assumes "env_ranges_ok env"
  shows "sorted (map package_key (AD_Packages (ApplyLayers env layers))) \<and>
    distinct (map dedupKey (AD_Packages (ApplyLayers env layers))) \<and>
    (\<forall>q \<in> set (candidate_packages env layers (apply_collect env layers)).
       \<exists>p \<in> set (AD_Packages (ApplyLayers env layers)). dedupKey p = dedupKey q \<and>
         (Pkg_AnalyzedBy p = TypeSBOM \<longrightarrow> Pkg_AnalyzedBy q = TypeSBOM)) \<and>
    set (AD_Packages (ApplyLayers env layers)) \<subseteq> set (candidate_packages env layers (apply_collect env layers))"
proof -
  let ?cand = "candidate_packages env layers (apply_collect env layers)"
  let ?xs = "sort_stable_func compareAnalyzedBy ?cand"
  have so: "sorts_ok (sorts env)" using assms by (simp add: env_ranges_ok_def)
  have pkgs: "AD_Packages (ApplyLayers env layers) = sort_Packages (sorts env) (uniqBy dedupKey ?xs)"
    by (simp add: ApplyLayers_simps)
  have split: "?xs = filter (\<lambda>p. Pkg_AnalyzedBy p \<noteq> TypeSBOM) ?cand @ filter (\<lambda>p. Pkg_AnalyzedBy p = TypeSBOM) ?cand"
    by (rule sort_stable_bool) (rule compareAnalyzedBy_key)
  have first: "\<exists>p \<in> set (uniqBy dedupKey ?xs). dedupKey p = dedupKey q \<and> (Pkg_AnalyzedBy p = TypeSBOM \<longrightarrow> Pkg_AnalyzedBy q = TypeSBOM)"
    if q: "q \<in> set ?cand" for q
  proof -
    have "dedupKey q \<in> dedupKey ` set (uniqBy dedupKey ?xs)" using q by (simp add: uniqBy_keys)
    then obtain p where p: "p \<in> set (uniqBy dedupKey ?xs)" "dedupKey p = dedupKey q" by auto
    moreover have "Pkg_AnalyzedBy q = TypeSBOM" if sbom: "Pkg_AnalyzedBy p = TypeSBOM"
    proof (rule ccontr)
      assume "Pkg_AnalyzedBy q \<noteq> TypeSBOM"
      then have "find (\<lambda>y. dedupKey y = dedupKey p) (filter (\<lambda>p. Pkg_AnalyzedBy p \<noteq> TypeSBOM) ?cand) \<noteq> None"
        using q p(2) by (auto simp: find_None_iff)
      then obtain z where z: "find (\<lambda>y. dedupKey y = dedupKey p) (filter (\<lambda>p. Pkg_AnalyzedBy p \<noteq> TypeSBOM) ?cand) = Some z"
        by auto
      then have "z = p" using uniqBy_mem [OF p(1)] by (simp add: split find_append)
      then have "Pkg_AnalyzedBy p \<noteq> TypeSBOM" using find_mem [OF z] by simp
      then show False using sbom by simp
    qed
    ultimately show ?thesis by auto
  qed
  show ?thesis
    using first uniqBy_subset [of dedupKey ?xs] uniqBy_distinct [of dedupKey ?xs]
    by (simp add: pkgs so sort_Packages_sorted set_sort_Packages sort_mset_distinct [OF mset_sort_Packages [OF so]])
qed

section \<open>Aggregation\<close>

definition app_extend :: "Application list \<Rightarrow> Application \<Rightarrow> Application" where
  "app_extend apps a = a\<lparr>App_Packages := App_Packages a @ concat (map App_Packages (filter (\<lambda>x. App_Type x = App_Type a) apps))\<rparr>"

definition types_ok :: "(LangType \<times> Application) list \<Rightarrow> bool" where
  "types_ok m \<longleftrightarrow> map_ok m \<and> list_all (\<lambda>(k, a). App_Type a = k) m"

lemma app_extend_Nil [simp]: "app_extend [] a = a"
  by (simp add: app_extend_def)

lemma aggregate_loop_eq:
  "types_ok m \<Longrightarrow> aggregate_loop apps rest m =
     (apps @ filter (\<lambda>a. App_Type a \<notin> fst ` set m) rest, map (\<lambda>(k, a). (k, app_extend rest a)) m)"
proof (induction rest arbitrary: apps m)
  case (Cons app rest)
  show ?case
  proof (cases "map_of m (App_Type app)")
    case None
    then have "App_Type app \<notin> fst ` set m" by (simp add: map_of_eq_None_iff)
    moreover from this have "map (\<lambda>(k, a). (k, app_extend (app # rest) a)) m = map (\<lambda>(k, a). (k, app_extend rest a)) m"
      using Cons.prems by (force simp: types_ok_def list_all_iff app_extend_def)
    ultimately show ?thesis using None Cons by simp
  next
    case (Some a)
    let ?f = "\<lambda>a. a\<lparr>App_Packages := App_Packages a @ App_Packages app\<rparr>"
    let ?m = "map (\<lambda>(k, a). (k, if k = App_Type app then ?f a else a)) m"
    have "AList.update (App_Type app) (?f a) m = ?m"
      using update_map [of m "App_Type app" a ?f] Some Cons.prems by (simp add: types_ok_def)
    moreover have "types_ok ?m" using Cons.prems by (auto simp: types_ok_def map_ok_def list_all_iff comp_def case_prod_unfold)
    moreover have "map (\<lambda>(k, a). (k, app_extend rest a)) ?m = map (\<lambda>(k, a). (k, app_extend (app # rest) a)) m"
      using Cons.prems by (auto simp: types_ok_def list_all_iff app_extend_def)
    moreover have "fst ` set ?m = fst ` set m" by (force simp: image_iff)
    moreover have "App_Type app \<in> fst ` set m" using Some by (force dest: map_of_SomeD)
    ultimately show ?thesis using Some Cons.IH [of ?m apps] by simp
  qed
qed (simp add: case_prod_unfold)

lemma filter_app_extend:
  "distinct ts \<Longrightarrow>
   filter (\<lambda>a. App_Type a = t \<and> 0 < length (App_Packages a)) (map (\<lambda>t. app_extend apps (Application_of t)) ts) =
   (let ps = concat (map App_Packages (filter (\<lambda>a. App_Type a = t) apps))
    in if t \<in> set ts \<and> ps \<noteq> [] then [\<lparr>App_Type = t, App_FilePath = [], App_Packages = ps\<rparr>] else [])"
proof (induction ts)
  case (Cons t' ts)
  have "App_Type (app_extend apps (Application_of t')) = t'"
    by (simp add: app_extend_def Application_of_def)
  moreover have "app_extend apps (Application_of t') = \<lparr>App_Type = t', App_FilePath = [],
      App_Packages = concat (map App_Packages (filter (\<lambda>a. App_Type a = t') apps))\<rparr>"
    by (simp add: app_extend_def Application_of_def)
  ultimately show ?case using Cons by (auto simp: Let_def)
qed simp

lemma distinct_AggregatingTypes: "distinct AggregatingTypes"
  by (simp add: AggregatingTypes_def)

text \<open>\<open>aggregate\<close> leaves the applications of the other types as they are and merges those of each
  aggregating type into one application without a file path that holds their packages in order, or
  into none if they have no packages.\<close>

theorem aggregate_spec:
  assumes "is_range (range_apps env)"
  shows "filter (\<lambda>a. App_Type a = t) (AD_Applications (aggregate env d)) =
    (let apps = filter (\<lambda>a. App_Type a = t) (AD_Applications d); ps = concat (map App_Packages apps)
     in if t \<notin> set AggregatingTypes then apps
        else if ps = [] then [] else [\<lparr>App_Type = t, App_FilePath = [], App_Packages = ps\<rparr>])"
proof -
  let ?apps = "AD_Applications d"
  let ?m = "map (\<lambda>t. (t, Application_of t)) AggregatingTypes"
  let ?agg = "map (\<lambda>(k, a). (k, app_extend ?apps a)) ?m"
  let ?P = "\<lambda>a. App_Type a = t \<and> 0 < length (App_Packages a)"
  let ?ps = "concat (map App_Packages (filter (\<lambda>a. App_Type a = t) ?apps))"
  have "types_ok ?m" by (simp add: types_ok_def map_ok_def AggregatingTypes_def Application_of_def)
  then have loop: "aggregate_loop [] ?apps ?m = (filter (\<lambda>a. App_Type a \<notin> set AggregatingTypes) ?apps, ?agg)"
    by (simp add: aggregate_loop_eq image_image)
  have eq: "filter ?P (map snd ?agg) = (if t \<in> set AggregatingTypes \<and> ?ps \<noteq> []
      then [\<lparr>App_Type = t, App_FilePath = [], App_Packages = ?ps\<rparr>] else [])"
    using filter_app_extend [of AggregatingTypes t ?apps] by (simp add: comp_def Let_def distinct_AggregatingTypes)
  have ms: "mset (map snd (range_apps env ?agg)) = mset (map snd ?agg)"
    using is_range_mset [OF assms] by (simp only: mset_map)
  have agg: "filter ?P (map snd (range_apps env ?agg)) = (if t \<in> set AggregatingTypes \<and> ?ps \<noteq> []
      then [\<lparr>App_Type = t, App_FilePath = [], App_Packages = ?ps\<rparr>] else [])"
    by (rule filter_singleton_mset [OF ms eq]) simp
  have "filter (\<lambda>a. App_Type a = t) (AD_Applications (aggregate env d)) =
      filter (\<lambda>a. App_Type a \<notin> set AggregatingTypes \<and> App_Type a = t) ?apps @ filter ?P (map snd (range_apps env ?agg))"
    by (simp only: aggregate_def loop Let_def prod.case) (simp add: conj_commute)
  also have "filter (\<lambda>a. App_Type a \<notin> set AggregatingTypes \<and> App_Type a = t) ?apps =
      (if t \<in> set AggregatingTypes then [] else filter (\<lambda>a. App_Type a = t) ?apps)"
    by (auto simp: filter_empty_conv intro: filter_cong)
  finally show ?thesis unfolding agg Let_def by (simp del: concat_eq_Nil_conv)
qed

section \<open>Errors of the applier\<close>

lemma read_layers_eq:
  "read_layers c keys layers infos =
     (case find (\<lambda>k. Blob_SchemaVersion (fst (GetBlob c k)) = 0) keys of
        Some k \<Rightarrow> Inl (Errorf ''layer cache missing: %s'' [k])
      | None \<Rightarrow> Inr (layers @ map (\<lambda>k. fst (GetBlob c k)) keys,
          infos @ filter (\<lambda>l. l \<noteq> Layer_empty) (map (\<lambda>k. Blob_Layer (fst (GetBlob c k))) keys)))"
  by (induction keys arbitrary: layers infos) (auto simp: Let_def split: option.splits)

lemma OS_Merge_family_Nil: "OS_Family (OS_Merge o1 n) = [] \<longleftrightarrow> OS_Family o1 = [] \<and> OS_Family n = []"
  by (auto simp: OS_Merge_def Let_def)

lemma foldl_OS_Merge_Nil:
  "OS_Family (foldl OS_Merge o1 ns) = [] \<longleftrightarrow> OS_Family o1 = [] \<and> (\<forall>n \<in> set ns. OS_Family n = [])"
  by (induction ns arbitrary: o1) (auto simp: OS_Merge_family_Nil)

lemma ApplyLayers_packages_Nil:
  assumes "env_ranges_ok env"
  shows "AD_Packages (ApplyLayers env layers) = [] \<longleftrightarrow> candidate_packages env layers (apply_collect env layers) = []"
proof -
  have "set (AD_Packages (ApplyLayers env layers)) = {} \<longleftrightarrow>
      uniqBy dedupKey (sort_stable_func compareAnalyzedBy (candidate_packages env layers (apply_collect env layers))) = []"
    using assms by (simp add: ApplyLayers_simps env_ranges_ok_def set_sort_Packages)
  then show ?thesis by (simp add: sort_stable_Nil_iff)
qed

lemma ApplyLayers_Detected:
  "OS_Detected (AD_OS (ApplyLayers env layers)) \<longleftrightarrow> (\<exists>l \<in> set layers. OS_Family (Blob_OS l) \<noteq> [])"
  by (auto simp: OS_Detected_def ApplyLayers_simps apply_collect_AD_OS foldl_OS_Merge_Nil)

lemma applier_errors:
  assumes "env_ranges_ok env"
  shows "snd (applier_ApplyLayers env c img keys) =
    (let layers = map (\<lambda>k. fst (GetBlob c k)) keys
     in case find (\<lambda>k. Blob_SchemaVersion (fst (GetBlob c k)) = 0) keys of
          Some k \<Rightarrow> Some (Errorf ''layer cache missing: %s'' [k])
        | None \<Rightarrow>
            if \<exists>l \<in> set layers. OS_Family (Blob_OS l) \<noteq> []
            then (if candidate_packages env layers (apply_collect env layers) = [] then Some ErrNoPkgsDetected
                  else None)
            else Some ErrUnknownOS)"
proof (cases "find (\<lambda>k. Blob_SchemaVersion (fst (GetBlob c k)) = 0) keys")
  case None
  let ?layers = "map (\<lambda>k. fst (GetBlob c k)) keys"
  have "snd (applier_ApplyLayers env c img keys) =
      (if \<not> OS_Detected (AD_OS (ApplyLayers env ?layers)) then Some ErrUnknownOS
       else if AD_Packages (ApplyLayers env ?layers) = [] then Some ErrNoPkgsDetected else None)"
    by (simp add: applier_ApplyLayers_def read_layers_eq None Let_def)
  then show ?thesis
    by (simp add: None Let_def ApplyLayers_Detected ApplyLayers_packages_Nil [OF assms])
qed (simp add: applier_ApplyLayers_def read_layers_eq)

text \<open>C39. The applier fails with the first layer missing from the cache. Otherwise it returns the merged
  layers together with an unknown-OS error when no layer names an OS family, with a no-packages error
  when no OS package is left, and without an error in every other case.\<close>

theorem applier_ApplyLayers_errors:
  assumes "env_ranges_ok env"
  shows "snd (applier_ApplyLayers env c img keys) =
    (let layers = map (\<lambda>k. fst (GetBlob c k)) keys
     in case find (\<lambda>k. Blob_SchemaVersion (fst (GetBlob c k)) = 0) keys of
          Some k \<Rightarrow> Some (Errorf ''layer cache missing: %s'' [k])
        | None \<Rightarrow>
            if \<exists>l \<in> set layers. OS_Family (Blob_OS l) \<noteq> []
            then (if candidate_packages env layers (apply_collect env layers) = [] then Some ErrNoPkgsDetected
                  else None)
            else Some ErrUnknownOS)"
  by (rule applier_errors [OF assms])

section \<open>The overlay of the layers\<close>

text \<open>
  What the code relies on of the nested map, in terms of the values a walk visits: keys are split at
  the separator; setting a key that neither runs through a stored value nor replaces a subtree stores
  the value; deleting a key removes it with everything below and fails silently when it is absent.
\<close>

definition free_for :: "string list \<Rightarrow> string list set \<Rightarrow> bool" where
  "free_for k ks \<longleftrightarrow> (\<forall>k' \<in> ks. \<not> strict_prefix k k' \<and> \<not> strict_prefix k' k)"

definition nested_ok :: "'n applier_env \<Rightarrow> bool" where
  "nested_ok env \<longleftrightarrow>
     Walk env (nested_empty env) = [] \<and>
     (\<forall>n. map_ok (Walk env n)) \<and>
     (\<forall>n key v. free_for (split sep key) (fst ` set (Walk env n)) \<longrightarrow>
        map_of (Walk env (SetByString env key sep v n)) = (map_of (Walk env n))(split sep key \<mapsto> v)) \<and>
     (\<forall>n key k. map_of (Walk env (DeleteByString env key sep n)) k =
        (if prefix (split sep key) k then None else map_of (Walk env n) k))"

text \<open>The specification: looking down from the top layer, the first layer that has a result under the
  key decides, unless a layer above it hides the key.\<close>

definition layer_result :: "'n applier_env \<Rightarrow> BlobInfo \<Rightarrow> string list \<Rightarrow> nested_value option" where
  "layer_result env layer k = map_of (rev (map (\<lambda>(key, v). (split sep key, v)) (layer_entries env layer))) k"

definition hides :: "BlobInfo \<Rightarrow> string list \<Rightarrow> bool" where
  "hides layer k \<longleftrightarrow>
     (\<exists>d \<in> set (Blob_OpaqueDirs layer). prefix (split sep (trimSuffix d [sep])) k) \<or>
     (\<exists>w \<in> set (Blob_WhiteoutFiles layer). prefix (split sep w) k)"

fun visible :: "'n applier_env \<Rightarrow> BlobInfo list \<Rightarrow> string list \<Rightarrow> nested_value option" where
  "visible env [] k = None"
| "visible env (layer # lower) k =
     (case layer_result env layer k of
        Some v \<Rightarrow> Some v
      | None \<Rightarrow> if hides layer k then None else visible env lower k)"

definition layer_keys :: "'n applier_env \<Rightarrow> BlobInfo \<Rightarrow> string list set" where
  "layer_keys env layer = (\<lambda>(key, v). split sep key) ` set (layer_entries env layer)"

text \<open>No path of a result runs through another result.\<close>

definition keys_ok :: "'n applier_env \<Rightarrow> BlobInfo list \<Rightarrow> bool" where
  "keys_ok env layers \<longleftrightarrow>
     (\<forall>l \<in> set layers. \<forall>k \<in> layer_keys env l. free_for k (\<Union>l' \<in> set layers. layer_keys env l'))"

lemma map_of_apply_deletes:
  assumes "nested_ok env"
  shows "map_of (Walk env (apply_deletes env layer n)) k = (if hides layer k then None else map_of (Walk env n) k)"
proof -
  have *: "map_of (Walk env (foldl (\<lambda>n d. DeleteByString env (g d) sep n) n ds)) k =
      (if \<exists>d \<in> set ds. prefix (split sep (g d)) k then None else map_of (Walk env n) k)" for g ds n
    using assms by (induction ds arbitrary: n) (auto simp: nested_ok_def)
  show ?thesis
    using *[of "\<lambda>d. trimSuffix d [sep]"] *[of "\<lambda>w. w"] by (auto simp: apply_deletes_def hides_def)
qed

lemma keys_Walk: "fst ` set (Walk env n) = dom (map_of (Walk env n))"
  by (simp add: dom_map_of_conv_image_fst)

lemma free_for_mono: "free_for k ks \<Longrightarrow> ks' \<subseteq> ks \<Longrightarrow> free_for k ks'"
  by (auto simp: free_for_def)

lemma map_of_apply_sets:
  assumes "nested_ok env"
    and "\<And>k. k \<in> (\<lambda>(key, v). split sep key) ` set entries \<Longrightarrow> free_for k (K \<union> (\<lambda>(key, v). split sep key) ` set entries)"
    and "dom (map_of (Walk env n)) \<subseteq> K"
  shows "map_of (Walk env (apply_sets env entries n)) =
    map_of (Walk env n) ++ map_of (rev (map (\<lambda>(key, v). (split sep key, v)) entries))"
  using assms(2,3)
proof (induction entries arbitrary: n K)
  case (Cons e entries)
  obtain key v where e: "e = (key, v)" by (cases e)
  let ?n = "SetByString env key sep v n"
  have "free_for (split sep key) (fst ` set (Walk env n))"
    using Cons.prems(2) by (intro free_for_mono [OF Cons.prems(1)]) (auto simp: e keys_Walk)
  then have upd: "map_of (Walk env ?n) = (map_of (Walk env n))(split sep key \<mapsto> v)"
    using assms(1) by (simp add: nested_ok_def)
  have "map_of (Walk env (apply_sets env entries ?n)) =
    map_of (Walk env ?n) ++ map_of (rev (map (\<lambda>(key, v). (split sep key, v)) entries))"
  proof (rule Cons.IH)
    show "dom (map_of (Walk env ?n)) \<subseteq> insert (split sep key) K" using Cons.prems(2) by (auto simp: upd)
    show "free_for k (insert (split sep key) K \<union> (\<lambda>(key, v). split sep key) ` set entries)"
      if "k \<in> (\<lambda>(key, v). split sep key) ` set entries" for k
      using that Cons.prems(1) [of k] by (auto simp: e)
  qed
  then show ?case by (simp add: apply_sets_def e upd map_add_def fun_eq_iff split: option.splits)
qed (simp add: apply_sets_def)

lemma visible_keys: "dom (visible env layers) \<subseteq> (\<Union>l \<in> set layers. layer_keys env l)"
proof (induction layers)
  case (Cons l layers)
  have "dom (layer_result env l) \<subseteq> layer_keys env l"
    by (force simp: layer_result_def layer_keys_def dest: map_of_SomeD)
  then show ?case using Cons by (auto simp: dom_def split: option.splits if_splits)
qed auto

lemma nested_overlay:
  assumes "nested_ok env" "keys_ok env layers"
  shows "map_of (Walk env (st_nested (foldl (apply_layer env) (apply_start env) layers))) = visible env (rev layers)"
  using assms(2)
proof (induction layers rule: rev_induct)
  case Nil
  show ?case using assms(1) by (auto simp: apply_start_def nested_ok_def)
next
  case (snoc l layers)
  let ?n = "st_nested (foldl (apply_layer env) (apply_start env) layers)"
  let ?K = "\<Union>l \<in> set layers. layer_keys env l"
  have "keys_ok env layers" using snoc.prems by (auto simp: keys_ok_def intro: free_for_mono)
  then have IH: "map_of (Walk env ?n) = visible env (rev layers)" by (rule snoc.IH)
  have del: "map_of (Walk env (apply_deletes env l ?n)) =
      (\<lambda>k. if hides l k then None else visible env (rev layers) k)"
    by (simp add: fun_eq_iff map_of_apply_deletes [OF assms(1)] IH)
  have "map_of (Walk env (apply_sets env (layer_entries env l) (apply_deletes env l ?n))) =
    map_of (Walk env (apply_deletes env l ?n)) ++ layer_result env l"
    unfolding layer_result_def [abs_def]
  proof (rule map_of_apply_sets [OF assms(1), where K = ?K])
    show "dom (map_of (Walk env (apply_deletes env l ?n))) \<subseteq> ?K"
      using visible_keys [of env "rev layers"] by (auto simp: del dom_def split: if_splits)
    show "free_for k (?K \<union> (\<lambda>(key, v). split sep key) ` set (layer_entries env l))"
      if "k \<in> (\<lambda>(key, v). split sep key) ` set (layer_entries env l)" for k
      using snoc.prems that by (auto simp: keys_ok_def layer_keys_def Un_commute)
  qed
  moreover have "st_nested (apply_layer env st l) = apply_sets env (layer_entries env l) (apply_deletes env l (st_nested st))" for st
    by (simp add: apply_layer_def Let_def)
  ultimately show ?case
    by (simp add: del map_add_def fun_eq_iff split: option.splits)
qed

lemma walk_merge_collect:
  "AD_Packages (foldl walk_merge d vs) = AD_Packages d @ concat (map (\<lambda>v. case v of NPackageInfo i \<Rightarrow> PI_Packages i | _ \<Rightarrow> []) vs)"
  "AD_Applications (foldl walk_merge d vs) = AD_Applications d @ concat (map (\<lambda>v. case v of NApplication a \<Rightarrow> [a] | _ \<Rightarrow> []) vs)"
  "AD_Misconfigurations (foldl walk_merge d vs) = AD_Misconfigurations d @ concat (map (\<lambda>v. case v of NMisconfiguration c \<Rightarrow> [c] | _ \<Rightarrow> []) vs)"
  "AD_Licenses (foldl walk_merge d vs) = AD_Licenses d @ concat (map (\<lambda>v. case v of NLicenseFile c \<Rightarrow> [c] | _ \<Rightarrow> []) vs)"
  "AD_CryptoAssets (foldl walk_merge d vs) = AD_CryptoAssets d @ concat (map (\<lambda>v. case v of NCryptoAssets as \<Rightarrow> as | _ \<Rightarrow> []) vs)"
  "AD_CustomResources (foldl walk_merge d vs) = AD_CustomResources d @ concat (map (\<lambda>v. case v of NCustomResource c \<Rightarrow> [c] | _ \<Rightarrow> []) vs)"
proof (induction vs arbitrary: d)
  case (Cons v vs)
  { case 1 then show ?case using Cons by (cases v) simp_all }
  { case 2 then show ?case using Cons by (cases v) simp_all }
  { case 3 then show ?case using Cons by (cases v) simp_all }
  { case 4 then show ?case using Cons by (cases v) simp_all }
  { case 5 then show ?case using Cons by (cases v) simp_all }
  { case 6 then show ?case using Cons by (cases v) simp_all }
qed simp_all

lemma merged_start:
  "AD_Packages (st_merged (foldl (apply_layer env) (apply_start env) layers)) = []"
  "AD_Applications (st_merged (foldl (apply_layer env) (apply_start env) layers)) = []"
  "AD_Misconfigurations (st_merged (foldl (apply_layer env) (apply_start env) layers)) = []"
  "AD_Licenses (st_merged (foldl (apply_layer env) (apply_start env) layers)) = []"
  "AD_CryptoAssets (st_merged (foldl (apply_layer env) (apply_start env) layers)) = []"
  "AD_CustomResources (st_merged (foldl (apply_layer env) (apply_start env) layers)) = []"
  by (induction layers rule: rev_induct)
     (simp_all add: apply_start_def ArtifactDetail_empty_def apply_layer_def Let_def)

lemma visible_values:
  assumes "nested_ok env" "keys_ok env layers"
  shows "snd ` set (Walk env (st_nested (foldl (apply_layer env) (apply_start env) layers))) = ran (visible env (rev layers))"
  using snd_set_map_of [of "Walk env (st_nested (foldl (apply_layer env) (apply_start env) layers))"] assms
  by (simp add: nested_overlay) (simp add: nested_ok_def)

lemma collect_visible:
  assumes "nested_ok env" "keys_ok env layers"
  shows "set (AD_Packages (apply_collect env layers)) =
      {p. \<exists>i. NPackageInfo i \<in> ran (visible env (rev layers)) \<and> p \<in> set (PI_Packages i)}"
    and "set (AD_Applications (apply_collect env layers)) = {a. NApplication a \<in> ran (visible env (rev layers))}"
    and "set (AD_Misconfigurations (apply_collect env layers)) = {a. NMisconfiguration a \<in> ran (visible env (rev layers))}"
    and "set (AD_Licenses (apply_collect env layers)) = {a. NLicenseFile a \<in> ran (visible env (rev layers))}"
    and "set (AD_CustomResources (apply_collect env layers)) = {a. NCustomResource a \<in> ran (visible env (rev layers))}"
  using visible_values [OF assms, symmetric]
  by (simp_all add: apply_collect_def Let_def walk_merge_collect merged_start)
     (force split: nested_value.splits)+

lemma collect_crypto:
  assumes "nested_ok env" "keys_ok env layers"
  shows "\<exists>assets. set assets = {a. \<exists>as. NCryptoAssets as \<in> ran (visible env (rev layers)) \<and> a \<in> set as} \<and>
    AD_CryptoAssets (apply_collect env layers) = AssignIDs (asset_hash env) (LinkKeyPairs assets)"
proof -
  let ?d = "foldl walk_merge (st_merged (foldl (apply_layer env) (apply_start env) layers))
      (map snd (Walk env (st_nested (foldl (apply_layer env) (apply_start env) layers))))"
  have "set (AD_CryptoAssets ?d) = {a. \<exists>as. NCryptoAssets as \<in> ran (visible env (rev layers)) \<and> a \<in> set as}"
    using visible_values [OF assms, symmetric] by (simp add: walk_merge_collect merged_start) (force split: nested_value.splits)
  then show ?thesis by (intro exI [of _ "AD_CryptoAssets ?d"]) (simp add: apply_collect_def Let_def)
qed

text \<open>The packages of the applications, with the type of the application: aggregation keeps them.\<close>

definition typed_packages :: "Application list \<Rightarrow> (LangType \<times> Package) set" where
  "typed_packages apps = {(App_Type a, p) | a p. a \<in> set apps \<and> p \<in> set (App_Packages a)}"

lemma typed_packages_iff: "(t, p) \<in> typed_packages apps \<longleftrightarrow> p \<in> set (concat (map App_Packages (filter (\<lambda>a. App_Type a = t) apps)))"
  by (auto simp: typed_packages_def)

lemma typed_packages_aggregate:
  assumes "is_range (range_apps env)"
  shows "typed_packages (AD_Applications (aggregate env d)) = typed_packages (AD_Applications d)"
proof (rule set_eqI)
  fix x :: "LangType \<times> Package"
  obtain t p where x: "x = (t, p)" by (cases x)
  show "x \<in> typed_packages (AD_Applications (aggregate env d)) \<longleftrightarrow> x \<in> typed_packages (AD_Applications d)"
    unfolding x typed_packages_iff aggregate_spec [OF assms] Let_def by simp
qed

lemma typed_packages_set: "set xs = set ys \<Longrightarrow> typed_packages xs = typed_packages ys"
  by (simp add: typed_packages_def)

lemma UN_collect: "(\<Union>a \<in> {a. P a}. (\<lambda>p. (f a, g a p)) ` A a) = {(f a, g a p) | a p. P a \<and> p \<in> A a}"
  by auto

lemma typed_packages_enriched:
  "typed_packages (map (enrich_app env layers) apps) = (\<Union>a \<in> set apps. (\<lambda>p. (App_Type a, enrich_lib env layers a p)) ` set (App_Packages a))"
proof -
  have "typed_packages xs = (\<Union>a \<in> set xs. Pair (App_Type a) ` set (App_Packages a))" for xs by (auto simp: typed_packages_def)
  then show ?thesis by (simp add: enrich_app_def image_image)
qed

text \<open>C5. When no path of a result runs through another result, the results of an image that are kept by path are the overlay of
  its layers. A result is visible from the top when a layer has it and no layer above replaces it or hides its path by a whiteout or
  an opaque directory. The detail has exactly the visible misconfigurations, the visible license files other than those of
  dpkg, the visible custom resources, by type of application the packages of the visible applications, and the visible
  cryptographic assets linked and identified, each completed with its origin; and the candidates for its OS packages are the packages
  of the visible package databases that fit the detected OS. Secrets are not kept by path.\<close>

theorem ApplyLayers_overlay:
  assumes "nested_ok env" "env_ranges_ok env" "keys_ok env layers"
  shows "let shown = ran (visible env (rev layers)); d = apply_collect env layers in
    set (AD_Misconfigurations (ApplyLayers env layers)) = {c. NMisconfiguration c \<in> shown} \<and>
    set (AD_Licenses (ApplyLayers env layers)) = {l. NLicenseFile l \<in> shown \<and> License_Type l \<noteq> LicenseTypeDpkg} \<and>
    set (AD_CustomResources (ApplyLayers env layers)) = {enrich_custom layers c | c. NCustomResource c \<in> shown} \<and>
    {(App_Type a, p) | a p. a \<in> set (AD_Applications (ApplyLayers env layers)) \<and> p \<in> set (App_Packages a)} =
      {(App_Type a, enrich_lib env layers a p) | a p. NApplication a \<in> shown \<and> p \<in> set (App_Packages a)} \<and>
    (\<exists>assets. set assets = {a. \<exists>as. NCryptoAssets as \<in> shown \<and> a \<in> set as} \<and>
      AD_CryptoAssets (ApplyLayers env layers) =
        sort_stable_func CompareCryptoAssets (AssignIDs (asset_hash env) (LinkKeyPairs assets))) \<and>
    set (candidate_packages env layers d) =
      {q. \<exists>i p. NPackageInfo i \<in> shown \<and> p \<in> set (PI_Packages i) \<and>
           q = enrich_pkg env layers (AD_OS d) (dpkgLicenses (AD_Licenses d)) p \<and>
           purlMatchesOS q (OS_Family (AD_OS d))}"
proof -
  let ?shown = "ran (visible env (rev layers))" and ?d = "apply_collect env layers"
  have so: "sorts_ok (sorts env)" and range: "is_range (range_apps env)" using assms(2) by (simp_all add: env_ranges_ok_def)
  note collect = collect_visible [OF assms(1,3)]
  have "purlMatchesOS q []" for q by (simp add: purlMatchesOS_def split: option.splits)
  then have "set (filterMismatchedOSPkgs f qs) = {q \<in> set qs. purlMatchesOS q f}" for f qs
    by (auto simp: filterMismatchedOSPkgs_def)
  then have candidates: "set (candidate_packages env layers ?d) =
      {q. \<exists>i p. NPackageInfo i \<in> ?shown \<and> p \<in> set (PI_Packages i) \<and>
           q = enrich_pkg env layers (AD_OS ?d) (dpkgLicenses (AD_Licenses ?d)) p \<and> purlMatchesOS q (OS_Family (AD_OS ?d))}"
    by (auto simp: candidate_packages_def collect)
  have "typed_packages (AD_Applications (ApplyLayers env layers)) = typed_packages (map (enrich_app env layers) (AD_Applications ?d))"
    using typed_packages_set [OF mset_eq_setD [OF mset_sort_Applications [OF so]]] typed_packages_aggregate [OF range]
    by (simp add: ApplyLayers_def Let_def)
  also have "\<dots> = {(App_Type a, enrich_lib env layers a p) | a p. NApplication a \<in> ?shown \<and> p \<in> set (App_Packages a)}"
    by (simp add: typed_packages_enriched collect(2) UN_collect)
  finally have apps: "{(App_Type a, p) | a p. a \<in> set (AD_Applications (ApplyLayers env layers)) \<and> p \<in> set (App_Packages a)} =
      {(App_Type a, enrich_lib env layers a p) | a p. NApplication a \<in> ?shown \<and> p \<in> set (App_Packages a)}"
    by (simp add: typed_packages_def)
  have crypto: "\<exists>assets. set assets = {a. \<exists>as. NCryptoAssets as \<in> ?shown \<and> a \<in> set as} \<and>
      AD_CryptoAssets (ApplyLayers env layers) = sort_stable_func CompareCryptoAssets (AssignIDs (asset_hash env) (LinkKeyPairs assets))"
    using collect_crypto [OF assms(1,3)] unfolding ApplyLayers_def Let_def by auto blast
  have custom: "set (AD_CustomResources (ApplyLayers env layers)) = {enrich_custom layers c | c. NCustomResource c \<in> ?shown}"
    using collect(5) by (auto simp: ApplyLayers_def Let_def)
  show ?thesis
    unfolding Let_def
  proof (intro conjI candidates apps crypto custom)
    show "set (AD_Misconfigurations (ApplyLayers env layers)) = {c. NMisconfiguration c \<in> ?shown}"
      by (simp add: ApplyLayers_simps collect)
    show "set (AD_Licenses (ApplyLayers env layers)) = {l. NLicenseFile l \<in> ?shown \<and> License_Type l \<noteq> LicenseTypeDpkg}"
      by (simp add: ApplyLayers_simps collect set_sort_Licenses [OF so] rejectDpkgLicenses_def)
  qed
qed

section \<open>An example environment\<close>

text \<open>An association list with the paths as keys is a nested map in the sense of \<open>nested_ok\<close>.\<close>

definition example_sorts :: detail_sorts where
  "example_sorts = \<lparr>sort_Packages = sort_stable_func (less_cmp Packages_Less),
     sort_Applications = sort_stable_func (less_cmp Applications_Less),
     sort_Secrets = sort_stable_func (less_cmp Secrets_Less),
     sort_Licenses = sort_stable_func (less_cmp LicenseFiles_Less)\<rparr>"

definition example_applier_env :: "(string list \<times> nested_value) list applier_env" where
  "example_applier_env = \<lparr>nested_empty = [],
     SetByString = (\<lambda>key c v n. AList.update (split c key) v n),
     DeleteByString = (\<lambda>key c n. filter (\<lambda>e. \<not> prefix (split c key) (fst e)) n),
     Walk = AList.clearjunk,
     purl_New = (\<lambda>ptype os pkg. Inr None), pkg_hash = (\<lambda>path pkg. path @ Pkg_Name pkg),
     asset_hash = (\<lambda>desc path format. desc @ path), range_groups = (\<lambda>xs. xs), range_secrets = (\<lambda>xs. xs),
     range_apps = (\<lambda>xs. xs), sorts = example_sorts\<rparr>"

lemma example_ranges_ok: "env_ranges_ok example_applier_env"
  by (simp add: env_ranges_ok_def example_applier_env_def sorts_ok_def example_sorts_def stable.sorter_axioms)

lemma example_nested_ok: "nested_ok example_applier_env"
  by (simp add: nested_ok_def example_applier_env_def map_ok_def map_of_clearjunk distinct_clearjunk update_conv'
      map_of_filter_key)

definition example_blob :: BlobInfo where
  "example_blob = \<lparr>Blob_SchemaVersion = 2, Blob_Size = 0, Blob_Digest = ''sha256:a'', Blob_DiffID = ''sha256:b'',
     Blob_CreatedBy = [], Blob_OpaqueDirs = [], Blob_WhiteoutFiles = [],
     Blob_OS = OS_empty\<lparr>OS_Family := Debian, OS_Name := ''12''\<rparr>, Blob_Repository = None,
     Blob_PackageInfos = [\<lparr>PI_FilePath = ''var/lib/dpkg/status'',
       PI_Packages = [Package_empty\<lparr>Pkg_ID := ''bash@5.2'', Pkg_Name := ''bash'', Pkg_Version := ''5.2'',
         Pkg_AnalyzedBy := ''dpkg''\<rparr>]\<rparr>],
     Blob_Applications = [],
     Blob_Misconfigurations = [\<lparr>MC_FileType = ''dockerfile'', MC_FilePath = ''app/Dockerfile'', MC_Successes = [],
       MC_Warnings = [], MC_Failures = [], MC_Layer = Layer_empty\<rparr>],
     Blob_Secrets = [\<lparr>Secret_FilePath = ''app/key'', Secret_Findings = [\<lparr>SF_RuleID = ''aws'', SF_Category = [],
       SF_Severity = ''HIGH'', SF_Title = [], SF_StartLine = 1, SF_EndLine = 1, SF_Code = \<lparr>Code_Lines = []\<rparr>,
       SF_Match = [], SF_Layer = Layer_empty, SF_Offset = 0\<rparr>]\<rparr>],
     Blob_Licenses = [], Blob_CryptoAssets = [], Blob_BuildInfo = None, Blob_CustomResources = []\<rparr>"

definition example_upper :: BlobInfo where
  "example_upper = example_blob\<lparr>Blob_OpaqueDirs := [''app/''], Blob_OS := OS_empty, Blob_PackageInfos := [],
     Blob_Misconfigurations := [], Blob_Secrets := []\<rparr>"

theorem ApplyLayers_overlay_witness:
  "set (AD_Misconfigurations (ApplyLayers example_applier_env [example_blob, example_upper])) =
     {c. NMisconfiguration c \<in> ran (visible example_applier_env [example_upper, example_blob])} \<and>
   visible example_applier_env [example_blob] [''app'', ''Dockerfile'', ''type:config''] \<noteq> None \<and>
   visible example_applier_env [example_upper, example_blob] [''app'', ''Dockerfile'', ''type:config''] = None \<and>
   visible example_applier_env [example_upper, example_blob] [''var'', ''lib'', ''dpkg'', ''status'', ''type:ospkg''] \<noteq> None"
proof -
  have "keys_ok example_applier_env [example_blob, example_upper]" by code_simp
  then have "set (AD_Misconfigurations (ApplyLayers example_applier_env [example_blob, example_upper])) =
      {c. NMisconfiguration c \<in> ran (visible example_applier_env [example_upper, example_blob])}"
    using ApplyLayers_overlay [OF example_nested_ok example_ranges_ok] by (simp add: Let_def)
  moreover have "visible example_applier_env [example_blob] [''app'', ''Dockerfile'', ''type:config''] \<noteq> None"
    by code_simp
  moreover have "visible example_applier_env [example_upper, example_blob] [''app'', ''Dockerfile'', ''type:config''] = None"
    by code_simp
  moreover have "visible example_applier_env [example_upper, example_blob]
      [''var'', ''lib'', ''dpkg'', ''status'', ''type:ospkg''] \<noteq> None"
    by code_simp
  ultimately show ?thesis by blast
qed

theorem ApplyLayers_secrets_witness:
  "\<exists>s \<in> set (AD_Secrets (ApplyLayers example_applier_env [example_blob, example_upper])).
     Secret_FilePath s = ''app/key'' \<and> ''aws'' \<in> SF_RuleID ` set (Secret_Findings s)"
proof -
  have "\<exists>layer \<in> set [example_blob, example_upper]. \<exists>s \<in> set (Blob_Secrets layer).
      Secret_FilePath s = ''app/key'' \<and> ''aws'' \<in> SF_RuleID ` set (Secret_Findings s)"
    by code_simp
  then show ?thesis using ApplyLayers_secrets [OF example_ranges_ok] by blast
qed

theorem ApplyLayers_packages_witness:
  "distinct (map dedupKey (AD_Packages (ApplyLayers example_applier_env [example_blob, example_upper]))) \<and>
   map Pkg_Name (AD_Packages (ApplyLayers example_applier_env [example_blob, example_upper])) = [''bash'']"
proof
  show "distinct (map dedupKey (AD_Packages (ApplyLayers example_applier_env [example_blob, example_upper])))"
    using ApplyLayers_packages [OF example_ranges_ok] by blast
  show "map Pkg_Name (AD_Packages (ApplyLayers example_applier_env [example_blob, example_upper])) = [''bash'']"
    by code_simp
qed

theorem aggregate_spec_witness:
  "map App_Packages (filter (\<lambda>a. App_Type a = Jar) (AD_Applications (aggregate example_applier_env
     (ArtifactDetail_empty\<lparr>AD_Applications := [
        \<lparr>App_Type = Jar, App_FilePath = ''a.jar'', App_Packages = [Package_empty]\<rparr>,
        \<lparr>App_Type = Jar, App_FilePath = ''b.jar'', App_Packages = [Package_empty]\<rparr>]\<rparr>)))) =
   [[Package_empty, Package_empty]]"
  using aggregate_spec [of example_applier_env Jar] example_ranges_ok
  by (simp add: env_ranges_ok_def AggregatingTypes_def Let_def del: concat_eq_Nil_conv)

theorem applier_ApplyLayers_errors_witness:
  "snd (applier_ApplyLayers example_applier_env
     \<lparr>GetBlob = (\<lambda>k. (example_upper, None)),
      GetArtifact = (\<lambda>k. (\<lparr>AI_SchemaVersion = 0, AI_Architecture = [], AI_Created = 0, AI_DockerVersion = [], AI_OS = [],
        AI_Misconfiguration = None, AI_Secret = None, AI_HistoryPackages = []\<rparr>, None))\<rparr> ''img'' [''l1'']) = Some ErrUnknownOS"
  by (simp add: applier_ApplyLayers_errors [OF example_ranges_ok] example_upper_def example_blob_def)

end
