(* ===== verification/Licensing.thy ===== *)
theory Licensing
  imports Fanal_Artifact Go_Set Vuln_Types
begin

text \<open>
  License expressions (\<open>pkg/licensing/expression\<close>: \<open>types.go\<close>, \<open>expression.go\<close>, the category lists of
  \<open>category.go\<close>) and the classification of licenses (\<open>pkg/licensing/scanner.go\<close>).

  The parser of expressions, the normalization table and the embedded SPDX lists are arguments
  (\<open>license_env\<close>), as are \<open>strings.ToUpper\<close>, \<open>strings.ToLower\<close>, regular expressions and the names that
  \<open>trivy-db\<close> gives to severities. The recursion of \<open>normalize\<close> descends into whatever the callback
  returns, so it need not end for every callback: it is a partial function, \<^term>\<open>None\<close> standing for no
  result. A callback of the code that keeps state in captured variables passes the state explicitly.
\<close>

section \<open>Expressions (types.go)\<close>

record Token =
  token :: int
  literal :: string

abbreviation (input) IDENT :: int where "IDENT \<equiv> 57346"
abbreviation (input) TOK_OR :: int where "TOK_OR \<equiv> 57347"
abbreviation (input) TOK_AND :: int where "TOK_AND \<equiv> 57348"
abbreviation (input) TOK_WITH :: int where "TOK_WITH \<equiv> 57349"

definition TokenAnd :: Token where "TokenAnd = \<lparr>token = TOK_AND, literal = ''AND''\<rparr>"
definition TokenOR :: Token where "TokenOR = \<lparr>token = TOK_OR, literal = ''OR''\<rparr>"
definition TokenWith :: Token where "TokenWith = \<lparr>token = TOK_WITH, literal = ''WITH''\<rparr>"

datatype Expression =
    SimpleExpr string bool
  | CompoundExpr Expression Token Expression

definition GnuLicenses :: "string list" where
  "GnuLicenses =
    [''AGPL-1.0'', ''AGPL-3.0'', ''GFDL-1.1-invariants'', ''GFDL-1.1-no-invariants'', ''GFDL-1.1'',
     ''GFDL-1.2-invariants'', ''GFDL-1.2-no-invariants'', ''GFDL-1.2'', ''GFDL-1.3-invariants'',
     ''GFDL-1.3-no-invariants'', ''GFDL-1.3'', ''GPL-1.0'', ''GPL-2.0'', ''GPL-3.0'', ''LGPL-2.0'',
     ''LGPL-2.1'', ''LGPL-3.0'']"

definition ForbiddenLicenses :: "string list" where
  "ForbiddenLicenses =
    [''AGPL-1.0'', ''AGPL-3.0'', ''CC-BY-NC-1.0'', ''CC-BY-NC-2.0'', ''CC-BY-NC-2.5'', ''CC-BY-NC-3.0'',
     ''CC-BY-NC-4.0'', ''CC-BY-NC-ND-1.0'', ''CC-BY-NC-ND-2.0'', ''CC-BY-NC-ND-2.5'', ''CC-BY-NC-ND-3.0'',
     ''CC-BY-NC-ND-4.0'', ''CC-BY-NC-SA-1.0'', ''CC-BY-NC-SA-2.0'', ''CC-BY-NC-SA-2.5'', ''CC-BY-NC-SA-3.0'',
     ''CC-BY-NC-SA-4.0'', ''Commons-Clause'', ''Facebook-2-Clause'', ''Facebook-3-Clause'',
     ''Facebook-Examples'', ''WTFPL'']"

definition RestrictedLicenses :: "string list" where
  "RestrictedLicenses =
    [''BCL'', ''CC-BY-ND-1.0'', ''CC-BY-ND-2.0'', ''CC-BY-ND-2.5'', ''CC-BY-ND-3.0'', ''CC-BY-ND-4.0'',
     ''CC-BY-SA-1.0'', ''CC-BY-SA-2.0'', ''CC-BY-SA-2.5'', ''CC-BY-SA-3.0'', ''CC-BY-SA-4.0'', ''GPL-1.0'',
     ''GPL-2.0'', ''GPL-2.0-with-autoconf-exception'', ''GPL-2.0-with-bison-exception'',
     ''GPL-2.0-with-classpath-exception'', ''GPL-2.0-with-font-exception'', ''GPL-2.0-with-GCC-exception'',
     ''GPL-3.0'', ''GPL-3.0-with-autoconf-exception'', ''GPL-3.0-with-GCC-exception'', ''LGPL-2.0'',
     ''LGPL-2.1'', ''LGPL-3.0'', ''NPL-1.0'', ''NPL-1.1'', ''OSL-1.0'', ''OSL-1.1'', ''OSL-2.0'',
     ''OSL-2.1'', ''OSL-3.0'', ''QPL-1.0'', ''Sleepycat'']"

definition ReciprocalLicenses :: "string list" where
  "ReciprocalLicenses =
    [''APSL-1.0'', ''APSL-1.1'', ''APSL-1.2'', ''APSL-2.0'', ''CDDL-1.0'', ''CDDL-1.1'', ''CPL-1.0'',
     ''EPL-1.0'', ''EPL-2.0'', ''FreeImage'', ''IPL-1.0'', ''MPL-1.0'', ''MPL-1.1'', ''MPL-2.0'', ''Ruby'']"

definition NoticeLicenses :: "string list" where
  "NoticeLicenses =
    [''AFL-1.1'', ''AFL-1.2'', ''AFL-2.0'', ''AFL-2.1'', ''AFL-3.0'', ''Apache-1.0'', ''Apache-1.1'',
     ''Apache-2.0'', ''Artistic-1.0-cl8'', ''Artistic-1.0-Perl'', ''Artistic-1.0'', ''Artistic-2.0'',
     ''BSL-1.0'', ''BSD-1-Clause'', ''BSD-2-Clause-FreeBSD'', ''BSD-2-Clause-NetBSD'', ''BSD-2-Clause'',
     ''BSD-3-Clause-Attribution'', ''BSD-3-Clause-Clear'', ''BSD-3-Clause-LBNL'', ''BSD-3-Clause'',
     ''BSD-4-Clause'', ''BSD-4-Clause-UC'', ''BSD-Protection'', ''CC-BY-1.0'', ''CC-BY-2.0'', ''CC-BY-2.5'',
     ''CC-BY-3.0'', ''CC-BY-4.0'', ''FTL'', ''ISC'', ''ImageMagick'', ''Libpng'', ''Lil-1.0'',
     ''Linux-OpenIB'', ''LPL-1.02'', ''LPL-1.0'', ''MS-PL'', ''MIT'', ''NCSA'', ''OpenSSL'', ''PHP-3.01'',
     ''PHP-3.0'', ''PIL'', ''Python-2.0'', ''Python-2.0-complete'', ''PostgreSQL'', ''SGI-B-1.0'',
     ''SGI-B-1.1'', ''SGI-B-2.0'', ''Unicode-DFS-2015'', ''Unicode-DFS-2016'', ''Unicode-TOU'', ''UPL-1.0'',
     ''W3C-19980720'', ''W3C-20150513'', ''W3C'', ''X11'', ''Xnet'', ''Zend-2.0'', ''zlib-acknowledgement'',
     ''Zlib'', ''ZPL-1.1'', ''ZPL-2.0'', ''ZPL-2.1'']"

definition UnencumberedLicenses :: "string list" where
  "UnencumberedLicenses =
    [''CC0-1.0'', ''Unlicense'', ''0BSD'']"

definition PermissiveLicenses :: "string list" where
  "PermissiveLicenses = []"

definition SimpleExpr_String :: "string \<Rightarrow> bool \<Rightarrow> string" where
  "SimpleExpr_String license hasPlus =
     (if license \<in> set GnuLicenses
      then (if hasPlus then license @ ''-or-later'' else license @ ''-only'')
      else if hasPlus then license @ ''+''
      else license)"

fun Expression_String :: "Expression \<Rightarrow> string" where
  "Expression_String (SimpleExpr license hasPlus) = SimpleExpr_String license hasPlus"
| "Expression_String (CompoundExpr left conjunction right) =
     (let l = (case left of
                 CompoundExpr _ lconj _ \<Rightarrow>
                   if token conjunction > token lconj then ''('' @ Expression_String left @ '')'' else Expression_String left
               | SimpleExpr _ _ \<Rightarrow> Expression_String left);
          r = (case right of
                 CompoundExpr _ rconj _ \<Rightarrow>
                   if token conjunction > token rconj then ''('' @ Expression_String right @ '')'' else Expression_String right
               | SimpleExpr _ _ \<Rightarrow> Expression_String right)
      in l @ '' '' @ literal conjunction @ '' '' @ r)"

section \<open>Normalization (expression.go)\<close>

record license_env =
  expr_parse :: "string \<Rightarrow> Expression result"
  NormalizeLicenseExpression :: "Expression \<Rightarrow> Expression"
  ValidateSPDXLicense :: "string \<Rightarrow> bool"
  ValidateSPDXException :: "string \<Rightarrow> bool"
  toUpper :: "string \<Rightarrow> string"
  toLower :: "string \<Rightarrow> string"
  regexp_MatchString :: "string \<Rightarrow> string \<Rightarrow> bool result"
  severity_String :: "Severity \<Rightarrow> string"

fun IsSPDXExpression :: "license_env \<Rightarrow> Expression \<Rightarrow> bool" where
  "IsSPDXExpression env (SimpleExpr license hasPlus) = ValidateSPDXLicense env (SimpleExpr_String license hasPlus)"
| "IsSPDXExpression env (CompoundExpr left conjunction right) =
     (if token conjunction = TOK_WITH
      then IsSPDXExpression env left \<and> ValidateSPDXException env (Expression_String right)
      else IsSPDXExpression env left \<and> IsSPDXExpression env right)"

type_synonym 's normalizer = "'s \<Rightarrow> Expression \<Rightarrow> Expression \<times> 's"

partial_function (option) normalize ::
    "license_env \<Rightarrow> 's normalizer \<Rightarrow> 's \<Rightarrow> Expression \<Rightarrow> (Expression \<times> 's) option" where
  [code]: "normalize env fn st expr =
     (case fn st expr of
        (SimpleExpr license hasPlus, st1) \<Rightarrow> Some (SimpleExpr license hasPlus, st1)
      | (CompoundExpr left conjunction right, st1) \<Rightarrow>
          Option.bind (normalize env fn st1 left) (\<lambda>(left', st2).
          Option.bind (normalize env fn st2 right) (\<lambda>(right', st3).
          Some (CompoundExpr left' (conjunction\<lparr>literal := toUpper env (literal conjunction)\<rparr>) right', st3))))"

text \<open>A callback without state.\<close>

definition pure_fn :: "(Expression \<Rightarrow> Expression) \<Rightarrow> unit normalizer" where
  "pure_fn f st expr = (f expr, st)"

text \<open>\<open>Normalize\<close> with the callbacks of its two callers: the normalization alone, and the normalization
  followed by a callback with state.\<close>

definition Normalize_names :: "license_env \<Rightarrow> string \<Rightarrow> Expression result option" where
  "Normalize_names env license =
     (case expr_parse env license of
        Inl e \<Rightarrow> Some (Inl (Wrapf ''license (%s) parse error: %w'' [license] e))
      | Inr expr \<Rightarrow>
          Option.bind (normalize env (pure_fn (NormalizeLicenseExpression env)) () expr) (\<lambda>(expr', _). Some (Inr expr')))"

definition Normalize_with ::
    "license_env \<Rightarrow> 's normalizer \<Rightarrow> 's \<Rightarrow> string \<Rightarrow> (Expression \<times> 's) result option" where
  "Normalize_with env fn st license =
     (case Normalize_names env license of
        None \<Rightarrow> None
      | Some (Inl e) \<Rightarrow> Some (Inl e)
      | Some (Inr expr) \<Rightarrow> Option.bind (normalize env fn st expr) (\<lambda>r. Some (Inr r)))"

section \<open>Classification (scanner.go)\<close>

type_synonym LicenseCategory = string

abbreviation CategoryForbidden :: LicenseCategory where "CategoryForbidden \<equiv> ''forbidden''"
abbreviation CategoryRestricted :: LicenseCategory where "CategoryRestricted \<equiv> ''restricted''"
abbreviation CategoryReciprocal :: LicenseCategory where "CategoryReciprocal \<equiv> ''reciprocal''"
abbreviation CategoryNotice :: LicenseCategory where "CategoryNotice \<equiv> ''notice''"
abbreviation CategoryPermissive :: LicenseCategory where "CategoryPermissive \<equiv> ''permissive''"
abbreviation CategoryUnencumbered :: LicenseCategory where "CategoryUnencumbered \<equiv> ''unencumbered''"
abbreviation CategoryUnknown :: LicenseCategory where "CategoryUnknown \<equiv> ''unknown''"

abbreviation (input) SeverityLow :: Severity where "SeverityLow \<equiv> 1"
abbreviation (input) SeverityMedium :: Severity where "SeverityMedium \<equiv> 2"
abbreviation (input) SeverityHigh :: Severity where "SeverityHigh \<equiv> 3"
abbreviation (input) SeverityCritical :: Severity where "SeverityCritical \<equiv> 4"

type_synonym license_Scanner = "(LicenseCategory \<times> ciSet) list"

definition NewScanner :: "license_env \<Rightarrow> (LicenseCategory \<times> string list) list \<Rightarrow> license_Scanner" where
  "NewScanner env categories = map (\<lambda>(c, v). (c, ci_New (toLower env) v)) categories"

definition categoryToSeverity :: "LicenseCategory \<Rightarrow> Severity" where
  "categoryToSeverity category =
     (if category = CategoryForbidden then SeverityCritical
      else if category = CategoryRestricted then SeverityHigh
      else if category = CategoryReciprocal then SeverityMedium
      else if category = CategoryNotice \<or> category = CategoryPermissive \<or> category = CategoryUnencumbered then SeverityLow
      else SeverityUnknown)"

text \<open>The scanner arrives in the order in which Go ranges over its map.\<close>

definition licenseToCategory :: "license_env \<Rightarrow> license_Scanner \<Rightarrow> string \<Rightarrow> bool \<Rightarrow> LicenseCategory" where
  "licenseToCategory env s license hasPlus =
     (let normalizedNames = ci_Append (toLower env) (ci_New (toLower env) [SimpleExpr_String license hasPlus]) [license]
      in case find (\<lambda>(category, names).
                0 < ci_Size (ci_Intersection (toLower env) normalizedNames (ci_Contains (toLower env) names))) s of
           Some (category, _) \<Rightarrow> category
         | None \<Rightarrow> CategoryUnknown)"

text \<open>\<open>lo.MaxBy\<close> on two elements: the second one if the comparison puts it above the first.\<close>

fun detectCategory :: "license_env \<Rightarrow> license_Scanner \<Rightarrow> Expression \<Rightarrow> LicenseCategory" where
  "detectCategory env s (SimpleExpr license hasPlus) = licenseToCategory env s license hasPlus"
| "detectCategory env s (CompoundExpr l conjunction r) =
     (if conjunction = TokenWith
      then licenseToCategory env s (Expression_String (CompoundExpr l conjunction r)) False
      else
        let left = detectCategory env s l; right = detectCategory env s r
        in if left = CategoryUnknown \<or> right = CategoryUnknown then CategoryUnknown
           else
             let comparison = (\<lambda>a b. if conjunction = TokenAnd then categoryToSeverity a > categoryToSeverity b
                                     else categoryToSeverity a < categoryToSeverity b)
             in if comparison right left then right else left)"

definition Scan :: "license_env \<Rightarrow> license_Scanner \<Rightarrow> string \<Rightarrow> (LicenseCategory \<times> string) option" where
  "Scan env s licenseName =
     (case Normalize_names env licenseName of
        None \<Rightarrow> None
      | Some (Inl _) \<Rightarrow> Some (CategoryUnknown, severity_String env SeverityUnknown)
      | Some (Inr expr) \<Rightarrow>
          let category = detectCategory env s expr
          in Some (category, severity_String env (categoryToSeverity category)))"

abbreviation LicenseTextPrefix :: string where "LicenseTextPrefix \<equiv> ''text://''"

definition text_matches :: "license_env \<Rightarrow> string \<Rightarrow> string \<Rightarrow> bool" where
  "text_matches env licenseText name =
     (hasPrefix name LicenseTextPrefix \<and>
      (case regexp_MatchString env (drop (length LicenseTextPrefix) name) licenseText of Inl _ \<Rightarrow> False | Inr m \<Rightarrow> m))"

definition ScanTextLicense :: "license_env \<Rightarrow> license_Scanner \<Rightarrow> string \<Rightarrow> LicenseCategory \<times> string" where
  "ScanTextLicense env s licenseText =
     (case find (\<lambda>(_, names). list_ex (text_matches env licenseText) (ci_Items names)) s of
        Some (cat, _) \<Rightarrow> (cat, severity_String env (categoryToSeverity cat))
      | None \<Rightarrow> (CategoryUnknown, severity_String env SeverityUnknown))"

section \<open>Termination of the normalization\<close>

definition shrinks :: "'s normalizer \<Rightarrow> bool" where
  "shrinks fn \<longleftrightarrow> (\<forall>st e. size (fst (fn st e)) \<le> size e)"

lemma normalize_returns:
  assumes "shrinks fn"
  shows "\<exists>r. normalize env fn st e = Some r"
proof (induction e arbitrary: st rule: measure_induct_rule [where f = size])
  case (less e)
  obtain e1 st1 where fn: "fn st e = (e1, st1)" by (cases "fn st e")
  then have le: "size e1 \<le> size e" using assms unfolding shrinks_def by (metis fst_conv)
  show ?case
  proof (cases e1)
    case (SimpleExpr l p)
    then show ?thesis by (simp add: normalize.simps [of env fn st] fn)
  next
    case (CompoundExpr l cj r)
    then have "size l < size e" "size r < size e" using le by auto
    then obtain l' st2 r' st3 where "normalize env fn st1 l = Some (l', st2)" "normalize env fn st2 r = Some (r', st3)"
      using less.IH by (metis surj_pair)
    then show ?thesis by (simp add: normalize.simps [of env fn st] fn CompoundExpr)
  qed
qed

lemma shrinks_pure: "(\<And>e. size (f e) \<le> size e) \<Longrightarrow> shrinks (pure_fn f)"
  by (simp add: shrinks_def pure_fn_def)

definition normalizer_ok :: "license_env \<Rightarrow> bool" where
  "normalizer_ok env \<longleftrightarrow> (\<forall>e. size (NormalizeLicenseExpression env e) \<le> size e)"

lemma Normalize_names_total:
  assumes "normalizer_ok env"
  shows "Normalize_names env license \<noteq> None"
proof (cases "expr_parse env license")
  case (Inr e)
  have "shrinks (pure_fn (NormalizeLicenseExpression env))"
    using assms by (intro shrinks_pure) (simp add: normalizer_ok_def)
  then obtain r where "normalize env (pure_fn (NormalizeLicenseExpression env)) () e = Some r"
    using normalize_returns [of _ env "()" e] by auto
  then show ?thesis by (simp add: Normalize_names_def Inr split: prod.splits)
qed (simp add: Normalize_names_def)

section \<open>The category of an expression\<close>

text \<open>The atoms of an expression: its simple licenses and its \<open>WITH\<close> expressions.\<close>

fun expr_atoms :: "Expression \<Rightarrow> Expression list" where
  "expr_atoms (SimpleExpr l p) = [SimpleExpr l p]"
| "expr_atoms (CompoundExpr l cj r) = (if cj = TokenWith then [CompoundExpr l cj r] else expr_atoms l @ expr_atoms r)"

text \<open>The severity of the obligations: an \<open>AND\<close> imposes both sides, with any other operator one may choose.\<close>

fun expr_severity :: "(Expression \<Rightarrow> Severity) \<Rightarrow> Expression \<Rightarrow> Severity" where
  "expr_severity f (SimpleExpr l p) = f (SimpleExpr l p)"
| "expr_severity f (CompoundExpr l cj r) =
     (if cj = TokenWith then f (CompoundExpr l cj r)
      else if cj = TokenAnd then max (expr_severity f l) (expr_severity f r)
      else min (expr_severity f l) (expr_severity f r))"

text \<open>C25. The category of a license expression is unknown exactly when that of one of its atoms is;
  otherwise its severity is the maximum over \<open>AND\<close> and the minimum over \<open>OR\<close> of the severities of the atoms.\<close>

theorem detectCategory_severity:
  "(detectCategory env s e = CategoryUnknown \<longleftrightarrow>
      (\<exists>a \<in> set (expr_atoms e). detectCategory env s a = CategoryUnknown)) \<and>
   (detectCategory env s e = CategoryUnknown \<or>
    categoryToSeverity (detectCategory env s e) = expr_severity (\<lambda>a. categoryToSeverity (detectCategory env s a)) e)"
proof (induction e)
  case (SimpleExpr l p)
  show ?case by simp
next
  case (CompoundExpr l cj r)
  show ?case
  proof (cases "cj = TokenWith")
    case True
    then show ?thesis by simp
  next
    case False
    have un: "detectCategory env s (CompoundExpr l cj r) = CategoryUnknown \<longleftrightarrow>
        detectCategory env s l = CategoryUnknown \<or> detectCategory env s r = CategoryUnknown"
      using False by (auto simp: Let_def)
    moreover have "categoryToSeverity (detectCategory env s (CompoundExpr l cj r)) =
        (if cj = TokenAnd
         then max (categoryToSeverity (detectCategory env s l)) (categoryToSeverity (detectCategory env s r))
         else min (categoryToSeverity (detectCategory env s l)) (categoryToSeverity (detectCategory env s r)))"
      if "detectCategory env s l \<noteq> CategoryUnknown" "detectCategory env s r \<noteq> CategoryUnknown"
      using False that by (auto simp: Let_def max_def min_def)
    ultimately show ?thesis using CompoundExpr.IH False by (auto simp del: detectCategory.simps)
  qed
qed

section \<open>The default categories\<close>

definition default_categories :: "(LicenseCategory \<times> string list) list" where
  "default_categories = [(CategoryForbidden, ForbiddenLicenses), (CategoryRestricted, RestrictedLicenses),
     (CategoryReciprocal, ReciprocalLicenses), (CategoryNotice, NoticeLicenses), (CategoryPermissive, PermissiveLicenses),
     (CategoryUnencumbered, UnencumberedLicenses)]"

definition lower_char :: "char \<Rightarrow> char" where
  "lower_char c = (if CHR ''A'' \<le> c \<and> c \<le> CHR ''Z'' then char_of ((of_char c :: nat) + 32) else c)"

definition ascii_lower :: "string \<Rightarrow> string" where
  "ascii_lower s = map lower_char s"

lemma lower_table:
  "list_all (\<lambda>(c, d). lower_char c = d)
     (zip ''ABCDEFGHIJKLMNOPQRSTUVWXYZabcdefghijklmnopqrstuvwxyz0123456789-.+''
          ''abcdefghijklmnopqrstuvwxyzabcdefghijklmnopqrstuvwxyz0123456789-.+'')"
  by code_simp

lemmas lower_simps = lower_table [simplified]

lemmas default_names = default_categories_def ForbiddenLicenses_def RestrictedLicenses_def ReciprocalLicenses_def
  NoticeLicenses_def PermissiveLicenses_def UnencumberedLicenses_def

abbreviation lowered_names :: "string list" where
  "lowered_names \<equiv> concat (map (\<lambda>(c, ns). map ascii_lower ns) default_categories)"

lemma lowered_names_distinct: "distinct lowered_names"
  by (simp add: default_names ascii_lower_def lower_simps)

text \<open>No name ends like the printed form of a license with a suffix.\<close>

lemma lowered_names_suffix:
  "list_all (\<lambda>n. last n \<noteq> CHR ''+'' \<and> drop (length n - 5) n \<noteq> ''-only'' \<and> drop (length n - 9) n \<noteq> ''-or-later'') lowered_names"
  by (simp add: default_names ascii_lower_def lower_simps)

lemma SimpleExpr_String_suffix:
  "SimpleExpr_String l p \<in> {l, l @ ''+'', l @ ''-only'', l @ ''-or-later''}"
  by (simp add: SimpleExpr_String_def)

lemma find_map: "find P (map f xs) = map_option f (find (P \<circ> f) xs)"
  by (induction xs) auto

lemma licenseToCategory_find:
  "licenseToCategory env (NewScanner env cats) l p =
     (case find (\<lambda>(c, ns). \<exists>x \<in> {l, SimpleExpr_String l p}. toLower env x \<in> toLower env ` set ns) cats of
        Some (c, _) \<Rightarrow> c | None \<Rightarrow> CategoryUnknown)"
proof -
  let ?low = "toLower env"
  let ?N = "ci_Append ?low (ci_New ?low [SimpleExpr_String l p]) [l]"
  have inv: "ci_inv ?low (ci_New ?low xs)" "ci_inv ?low ?N" for xs
    by (simp_all add: ci_New_def ci_inv_Append)
  have "fst ` set ?N = {?low l, ?low (SimpleExpr_String l p)}"
    by (auto simp: ci_New_def dom_ci_Append)
  moreover have "0 < ci_Size (ci_Intersection ?low ?N (ci_Contains ?low (ci_New ?low ns))) \<longleftrightarrow>
      fst ` set ?N \<inter> fst ` set (ci_New ?low ns) \<noteq> {}" for ns
    using ci.abs_intersection_self [OF inv(2) inv(1) [of ns]] ci.size_card [OF ci.inv_intersection [OF inv(2)]]
    by (simp add: card_gt_0_iff)
  moreover have "fst ` set (ci_New ?low ns) = ?low ` set ns" for ns
    by (simp add: ci_New_def dom_ci_Append)
  ultimately have match: "0 < ci_Size (ci_Intersection ?low ?N (ci_Contains ?low (ci_New ?low ns))) \<longleftrightarrow>
      (\<exists>x \<in> {l, SimpleExpr_String l p}. ?low x \<in> ?low ` set ns)" for ns
    by auto
  have eq: "(\<lambda>(c, names). 0 < ci_Size (ci_Intersection ?low ?N (ci_Contains ?low names))) \<circ> (\<lambda>(c, v). (c, ci_New ?low v)) =
      (\<lambda>(c, ns). \<exists>x \<in> {l, SimpleExpr_String l p}. ?low x \<in> ?low ` set ns)"
    by (simp add: fun_eq_iff match del: neq0_conv bex_simps)
  show ?thesis
    unfolding licenseToCategory_def NewScanner_def Let_def find_map eq
    by (simp add: case_prod_unfold option.case_eq_if option.map_sel)
qed

lemma find_unique_mset:
  assumes "mset xs = mset ys" "\<And>x y. x \<in> set xs \<Longrightarrow> y \<in> set xs \<Longrightarrow> P x \<Longrightarrow> P y \<Longrightarrow> x = y"
  shows "find P xs = find P ys"
proof (cases "find P xs")
  case None
  then show ?thesis using assms(1) by (metis find_None_iff mset_eq_setD)
next
  case (Some x)
  then have x: "x \<in> set xs" "P x" by (auto simp: find_Some_iff)
  moreover have "set ys = set xs" using assms(1) by (metis mset_eq_setD)
  ultimately obtain y where y: "find P ys = Some y" by (metis find_None_iff option.exhaust)
  then have "y \<in> set ys" "P y" by (auto simp: find_Some_iff)
  then have "y = x" using assms(2) x \<open>set ys = set xs\<close> by auto
  then show ?thesis using Some y by simp
qed

lemma distinct_concat_eq:
  "distinct (concat (map f xs)) \<Longrightarrow> a \<in> set xs \<Longrightarrow> b \<in> set xs \<Longrightarrow> z \<in> set (f a) \<Longrightarrow> z \<in> set (f b) \<Longrightarrow> a = b"
  by (induction xs) auto

text \<open>Two categories of the default table cannot both claim a license.\<close>

lemma lowered_suffix_absent:
  assumes "s \<in> {''+'', ''-only'', ''-or-later''}"
  shows "ascii_lower z @ s \<notin> set lowered_names"
proof
  assume mem: "ascii_lower z @ s \<in> set lowered_names"
  have "\<forall>n \<in> set lowered_names. last n \<noteq> CHR ''+'' \<and> drop (length n - 5) n \<noteq> ''-only'' \<and> drop (length n - 9) n \<noteq> ''-or-later''"
    using lowered_names_suffix by (simp only: list_all_iff)
  from bspec [OF this mem] show False using assms by auto
qed

lemma lowered_String:
  assumes "x \<in> {l, SimpleExpr_String l p}" "ascii_lower x \<in> set lowered_names"
  shows "ascii_lower x = ascii_lower l"
proof -
  consider "x = l" | s where "s \<in> {''+'', ''-only'', ''-or-later''}" "x = l @ s"
    using assms(1) SimpleExpr_String_suffix [of l p] by blast
  then show ?thesis
  proof cases
    case 2
    have "ascii_lower s = s" using 2(1) by (auto simp: ascii_lower_def lower_simps)
    then have "ascii_lower x = ascii_lower l @ s" by (simp add: 2(2) ascii_lower_def)
    then show ?thesis using lowered_suffix_absent [OF 2(1), of l] assms(2) by metis
  qed simp
qed

lemma default_unique:
  assumes "(c, ns) \<in> set default_categories" "(c', ns') \<in> set default_categories"
    and x: "x \<in> {l, SimpleExpr_String l p}" "ascii_lower x \<in> ascii_lower ` set ns"
    and y: "y \<in> {l, SimpleExpr_String l p}" "ascii_lower y \<in> ascii_lower ` set ns'"
  shows "(c, ns) = (c', ns')"
proof -
  let ?f = "\<lambda>(c :: LicenseCategory, ns). map ascii_lower ns"
  have mem: "z \<in> set lowered_names" if "z \<in> set (?f e)" "e \<in> set default_categories" for z e
    using that by (simp only: set_concat set_map) blast
  have in_f: "ascii_lower x \<in> set (?f (c, ns))" "ascii_lower y \<in> set (?f (c', ns'))" using x(2) y(2) by simp_all
  have "ascii_lower x = ascii_lower y"
    using lowered_String [OF x(1) mem [OF in_f(1) assms(1)]] lowered_String [OF y(1) mem [OF in_f(2) assms(2)]] by simp
  then show ?thesis
    using distinct_concat_eq [OF lowered_names_distinct assms(1,2) in_f(1)] in_f(2) by simp
qed

text \<open>With the built-in category lists the category of a license with an ASCII name does not depend on the
  order in which Go visits the map of categories: no license is claimed by two of them, neither by its name
  nor by its name with the suffix for later versions.\<close>

theorem default_categories_order:
  assumes "toLower env = ascii_lower" "is_range range_cats"
  shows "licenseToCategory env (NewScanner env (range_cats default_categories)) l p =
    licenseToCategory env (NewScanner env default_categories) l p"
proof -
  let ?P = "\<lambda>(c, ns). \<exists>x \<in> {l, SimpleExpr_String l p}. toLower env x \<in> toLower env ` set ns"
  have "find ?P default_categories = find ?P (range_cats default_categories)"
  proof (rule find_unique_mset)
    show "mset default_categories = mset (range_cats default_categories)"
      by (simp only: is_range_mset [OF assms(2)])
    fix e e'
    assume e: "e \<in> set default_categories" "e' \<in> set default_categories" "?P e" "?P e'"
    obtain c ns c' ns' where eq: "e = (c, ns)" "e' = (c', ns')" by (metis surj_pair)
    obtain x y where "x \<in> {l, SimpleExpr_String l p}" "ascii_lower x \<in> ascii_lower ` set ns"
        "y \<in> {l, SimpleExpr_String l p}" "ascii_lower y \<in> ascii_lower ` set ns'"
      using e(3,4) unfolding eq assms(1) prod.case by blast
    then show "e = e'" using default_unique e(1,2) unfolding eq by blast
  qed
  then show ?thesis by (simp only: licenseToCategory_find)
qed

definition example_license_env :: license_env where
  "example_license_env = \<lparr>expr_parse = (\<lambda>s. Inr (SimpleExpr s False)), NormalizeLicenseExpression = (\<lambda>e. e),
     ValidateSPDXLicense = (\<lambda>s. s = ''MIT''), ValidateSPDXException = (\<lambda>_. False), toUpper = (\<lambda>s. s), toLower = ascii_lower,
     regexp_MatchString = (\<lambda>_ _. Inr False), severity_String = (\<lambda>s. if s = 3 then ''HIGH'' else ''UNKNOWN'')\<rparr>"

theorem default_categories_order_witness:
  "licenseToCategory example_license_env (NewScanner example_license_env (rev default_categories)) ''AGPL-1.0'' True =
     CategoryForbidden"
proof -
  have "licenseToCategory example_license_env (NewScanner example_license_env (rev default_categories)) ''AGPL-1.0'' True =
      licenseToCategory example_license_env (NewScanner example_license_env default_categories) ''AGPL-1.0'' True"
    by (rule default_categories_order) (simp_all add: example_license_env_def)
  also have "\<dots> = CategoryForbidden"
    by (simp add: licenseToCategory_find default_categories_def ForbiddenLicenses_def)
  finally show ?thesis .
qed

lemma example_normalizer_ok: "normalizer_ok example_license_env"
  by (simp add: normalizer_ok_def example_license_env_def)

end
