(* ===== verification/Crypto_Check.thy ===== *)
theory Crypto_Check
  imports Crypto_Catalog
begin

text \<open>
  The built-in checks of cryptographic assets: the findings of \<open>pkg/types/crypto.go\<close>, the rules of
  \<open>pkg/crypto/check/rules.go\<close> and their evaluation in \<open>pkg/crypto/check/check.go\<close>.

  \<open>Evaluate\<close> sorts with \<open>slices.SortFunc\<close>, which is not stable: the sort is an argument, any
  function with the contract \<open>sorter\<close>.
\<close>

section \<open>Findings (pkg/types/crypto.go)\<close>

record CryptoEvidence =
  Ev_SignatureAlgorithm :: string
  Ev_SignatureAlgorithmOID :: string
  Ev_KeySize :: int
  Ev_Curve :: string
  Ev_ClassicalSecurityLevel :: "int option"
  Ev_NotAfter :: go_time

record CryptoFinding =
  Finding_RuleID :: string
  Finding_Title :: string
  Finding_Severity :: string
  Finding_AssetID :: string
  Finding_Evidence :: CryptoEvidence

definition Evidence_empty :: CryptoEvidence where
  "Evidence_empty = \<lparr>Ev_SignatureAlgorithm = [], Ev_SignatureAlgorithmOID = [], Ev_KeySize = 0, Ev_Curve = [],
     Ev_ClassicalSecurityLevel = None, Ev_NotAfter = 0\<rparr>"

section \<open>Rules (rules.go)\<close>

abbreviation oidRSAEncryption :: string where "oidRSAEncryption \<equiv> ''1.2.840.113549.1.1.1''"
abbreviation oidECPublicKey :: string where "oidECPublicKey \<equiv> ''1.2.840.10045.2.1''"

definition sha1SignatureOIDs :: "string list" where
  "sha1SignatureOIDs =
     [''1.2.840.113549.1.1.5'',
      ''1.3.14.3.2.29'',
      ''1.2.840.10040.4.3'',
      ''1.2.840.10045.4.1'']"

text \<open>The match functions return the evidence and whether the rule matched.\<close>

fun relatedAlgorithm_loop :: "string \<Rightarrow> CryptoRelationship list \<Rightarrow> CryptoIdentity \<times> bool" where
  "relatedAlgorithm_loop relationship [] = (Identity_empty, False)"
| "relatedAlgorithm_loop relationship (r # rs) =
     (if Rel_Type r = relationship \<and> Desc_Kind (Rel_RelatedAsset r) = CryptoKindAlgorithm \<and>
         Identity_Method (Desc_Identity (Rel_RelatedAsset r)) = CryptoMethodOID
      then (Desc_Identity (Rel_RelatedAsset r), True)
      else relatedAlgorithm_loop relationship rs)"

definition relatedAlgorithm :: "CryptoAsset \<Rightarrow> string \<Rightarrow> CryptoIdentity \<times> bool" where
  "relatedAlgorithm asset relationship = relatedAlgorithm_loop relationship (Asset_Relationships asset)"

definition matchSHA1Signature :: "CryptoAsset \<Rightarrow> go_time \<Rightarrow> CryptoEvidence \<times> bool" where
  "matchSHA1Signature asset now =
     (let (signature, found) = relatedAlgorithm asset CryptoRelationshipSignedWith
      in if \<not> found \<or> Identity_Value signature \<notin> set sha1SignatureOIDs then (Evidence_empty, False)
         else (Evidence_empty\<lparr>Ev_SignatureAlgorithm := AlgorithmName (Identity_Value signature),
                              Ev_SignatureAlgorithmOID := Identity_Value signature\<rparr>, True))"

definition matchSmallRSAKey :: "CryptoAsset \<Rightarrow> go_time \<Rightarrow> CryptoEvidence \<times> bool" where
  "matchSmallRSAKey asset now =
     (case Asset_Key asset of
        None \<Rightarrow> (Evidence_empty, False)
      | Some key \<Rightarrow>
          if Key_Size key \<le> 0 \<or> 2048 \<le> Key_Size key then (Evidence_empty, False)
          else
            let (algorithm, found) = relatedAlgorithm asset CryptoRelationshipUsedWith
            in if \<not> found \<or> Identity_Value algorithm \<noteq> oidRSAEncryption then (Evidence_empty, False)
               else (Evidence_empty\<lparr>Ev_KeySize := Key_Size key\<rparr>, True))"

text \<open>
  A parse error of the parameters is ignored; \<open>AlgorithmParameters\<close> then returns the zero value.
\<close>

definition matchWeakCurve :: "CryptoAsset \<Rightarrow> go_time \<Rightarrow> CryptoEvidence \<times> bool" where
  "matchWeakCurve asset now =
     (case Asset_Algorithm asset of
        None \<Rightarrow> (Evidence_empty, False)
      | Some alg \<Rightarrow>
          if Identity_Method (Asset_Identity asset) \<noteq> CryptoMethodOID \<or>
             Identity_Value (Asset_Identity asset) \<noteq> oidECPublicKey
          then (Evidence_empty, False)
          else case Alg_ClassicalSecurityLevel alg of
                 None \<Rightarrow> (Evidence_empty, False)
               | Some level \<Rightarrow>
                   if 112 \<le> level then (Evidence_empty, False)
                   else
                     let parameters = (case AlgorithmParameters (Asset_Identity asset) of
                                         Inr p \<Rightarrow> p | Inl _ \<Rightarrow> Params_empty)
                     in (Evidence_empty\<lparr>Ev_Curve := Params_Curve parameters,
                                        Ev_ClassicalSecurityLevel := Some level\<rparr>, True))"

definition matchExpiredCertificate :: "CryptoAsset \<Rightarrow> go_time \<Rightarrow> CryptoEvidence \<times> bool" where
  "matchExpiredCertificate asset now =
     (case Asset_Certificate asset of
        None \<Rightarrow> (Evidence_empty, False)
      | Some c \<Rightarrow>
          if time_IsZero (Cert_NotAfter c) \<or> \<not> time_Before (Cert_NotAfter c) now then (Evidence_empty, False)
          else (Evidence_empty\<lparr>Ev_NotAfter := Cert_NotAfter c\<rparr>, True))"

section \<open>Evaluation (check.go)\<close>

text \<open>The severities of \<open>trivy-db\<close> by their names.\<close>

record rule =
  rule_id :: string
  rule_title :: string
  rule_severity :: string
  rule_kind :: CryptoKind
  rule_match :: "CryptoAsset \<Rightarrow> go_time \<Rightarrow> CryptoEvidence \<times> bool"

record crypto_match =
  match_asset :: CryptoAsset
  match_finding :: CryptoFinding

definition rules :: "rule list" where
  "rules =
     [\<lparr>rule_id = ''CRYPTO-0001'', rule_title = ''SHA-1 certificate signature'', rule_severity = ''MEDIUM'',
       rule_kind = CryptoKindCertificate, rule_match = matchSHA1Signature\<rparr>,
      \<lparr>rule_id = ''CRYPTO-0002'', rule_title = ''Small RSA key'', rule_severity = ''HIGH'',
       rule_kind = CryptoKindKey, rule_match = matchSmallRSAKey\<rparr>,
      \<lparr>rule_id = ''CRYPTO-0003'', rule_title = ''Weak elliptic curve'', rule_severity = ''HIGH'',
       rule_kind = CryptoKindAlgorithm, rule_match = matchWeakCurve\<rparr>,
      \<lparr>rule_id = ''CRYPTO-0004'', rule_title = ''Expired certificate'', rule_severity = ''MEDIUM'',
       rule_kind = CryptoKindCertificate, rule_match = matchExpiredCertificate\<rparr>]"

definition rule_matches :: "CryptoAsset \<Rightarrow> go_time \<Rightarrow> rule \<Rightarrow> crypto_match list" where
  "rule_matches asset now r =
     (if rule_kind r \<noteq> Asset_Kind asset then []
      else let (evidence, matched) = rule_match r asset now
           in if \<not> matched then []
              else [\<lparr>match_asset = asset,
                     match_finding = \<lparr>Finding_RuleID = rule_id r, Finding_Title = rule_title r,
                       Finding_Severity = rule_severity r, Finding_AssetID = Asset_ID asset,
                       Finding_Evidence = evidence\<rparr>\<rparr>])"

definition compareMatches :: "crypto_match \<Rightarrow> crypto_match \<Rightarrow> int" where
  "compareMatches a b =
     cmp_or 0
       [compare (Asset_FilePath (match_asset a)) (Asset_FilePath (match_asset b)),
        compare (Finding_RuleID (match_finding a)) (Finding_RuleID (match_finding b)),
        Descriptor_Compare (Descriptor (match_asset a)) (Descriptor (match_asset b)),
        compare (Asset_Format (match_asset a)) (Asset_Format (match_asset b)),
        compare (Layer_DiffID (Asset_Layer (match_asset a))) (Layer_DiffID (Asset_Layer (match_asset b)))]"

definition all_matches :: "CryptoAsset list \<Rightarrow> go_time \<Rightarrow> crypto_match list" where
  "all_matches assets now = concat (map (\<lambda>asset. concat (map (rule_matches asset now) rules)) assets)"

definition Evaluate ::
    "(crypto_match list \<Rightarrow> crypto_match list) \<Rightarrow> CryptoAsset list \<Rightarrow> go_time \<Rightarrow> CryptoFinding list" where
  "Evaluate sort_func assets now = map match_finding (sort_func (all_matches assets now))"

section \<open>The order of matches\<close>

definition match_key :: "crypto_match \<Rightarrow> string \<times> string \<times> (string \<times> string \<times> string \<times> string \<times> string) \<times> string \<times> string" where
  "match_key m = (Asset_FilePath (match_asset m), Finding_RuleID (match_finding m),
     descriptor_key (Descriptor (match_asset m)), Asset_Format (match_asset m), Layer_DiffID (Asset_Layer (match_asset m)))"

lemma compareMatches_key: "compareMatches a b = compare (match_key a) (match_key b)"
  by (simp only: compareMatches_def match_key_def Descriptor_Compare_key cmp_or_chain compare_Pair cmp_or.simps(1))
    (simp only: compare_def)

lemma compareMatches_strict_weak: "strict_weak compareMatches"
  using strict_weak_compare [of match_key] by (simp add: compareMatches_key [abs_def])

section \<open>What the rules match\<close>

text \<open>The specification of the four rules on an asset, independent of the search for relationships.\<close>

definition first_algorithm :: "string \<Rightarrow> CryptoAsset \<Rightarrow> CryptoIdentity option" where
  "first_algorithm relationship asset =
     map_option (\<lambda>r. Desc_Identity (Rel_RelatedAsset r))
       (find (\<lambda>r. Rel_Type r = relationship \<and> Desc_Kind (Rel_RelatedAsset r) = CryptoKindAlgorithm \<and>
          Identity_Method (Desc_Identity (Rel_RelatedAsset r)) = CryptoMethodOID) (Asset_Relationships asset))"

lemma relatedAlgorithm_first:
  "relatedAlgorithm asset relationship =
     (case first_algorithm relationship asset of Some i \<Rightarrow> (i, True) | None \<Rightarrow> (Identity_empty, False))"
proof -
  have "relatedAlgorithm_loop relationship rs =
     (case map_option (\<lambda>r. Desc_Identity (Rel_RelatedAsset r))
       (find (\<lambda>r. Rel_Type r = relationship \<and> Desc_Kind (Rel_RelatedAsset r) = CryptoKindAlgorithm \<and>
          Identity_Method (Desc_Identity (Rel_RelatedAsset r)) = CryptoMethodOID) rs) of
        Some i \<Rightarrow> (i, True) | None \<Rightarrow> (Identity_empty, False))" for rs
    by (induction rs) auto
  then show ?thesis by (simp add: relatedAlgorithm_def first_algorithm_def)
qed

definition violates :: "string \<Rightarrow> CryptoAsset \<Rightarrow> go_time \<Rightarrow> bool" where
  "violates rid asset now \<longleftrightarrow>
     (rid = ''CRYPTO-0001'' \<and> Asset_Kind asset = CryptoKindCertificate \<and>
        (\<exists>i. first_algorithm CryptoRelationshipSignedWith asset = Some i \<and> Identity_Value i \<in> set sha1SignatureOIDs)) \<or>
     (rid = ''CRYPTO-0002'' \<and> Asset_Kind asset = CryptoKindKey \<and>
        (\<exists>k. Asset_Key asset = Some k \<and> 0 < Key_Size k \<and> Key_Size k < 2048) \<and>
        (\<exists>i. first_algorithm CryptoRelationshipUsedWith asset = Some i \<and> Identity_Value i = oidRSAEncryption)) \<or>
     (rid = ''CRYPTO-0003'' \<and> Asset_Kind asset = CryptoKindAlgorithm \<and>
        Identity_Method (Asset_Identity asset) = CryptoMethodOID \<and>
        Identity_Value (Asset_Identity asset) = oidECPublicKey \<and>
        (\<exists>alg l. Asset_Algorithm asset = Some alg \<and> Alg_ClassicalSecurityLevel alg = Some l \<and> l < 112)) \<or>
     (rid = ''CRYPTO-0004'' \<and> Asset_Kind asset = CryptoKindCertificate \<and>
        (\<exists>c. Asset_Certificate asset = Some c \<and> Cert_NotAfter c \<noteq> 0 \<and> Cert_NotAfter c < now))"

lemma matchSHA1_iff:
  "snd (matchSHA1Signature asset now) \<longleftrightarrow>
     (\<exists>i. first_algorithm CryptoRelationshipSignedWith asset = Some i \<and> Identity_Value i \<in> set sha1SignatureOIDs)"
  by (cases "first_algorithm CryptoRelationshipSignedWith asset")
    (simp_all add: matchSHA1Signature_def relatedAlgorithm_first)

lemma matchRSA_iff:
  "snd (matchSmallRSAKey asset now) \<longleftrightarrow>
     (\<exists>k. Asset_Key asset = Some k \<and> 0 < Key_Size k \<and> Key_Size k < 2048) \<and>
     (\<exists>i. first_algorithm CryptoRelationshipUsedWith asset = Some i \<and> Identity_Value i = oidRSAEncryption)"
  by (cases "first_algorithm CryptoRelationshipUsedWith asset"; cases "Asset_Key asset")
    (simp_all add: matchSmallRSAKey_def relatedAlgorithm_first not_le)

lemma matchCurve_iff:
  "snd (matchWeakCurve asset now) \<longleftrightarrow>
     Identity_Method (Asset_Identity asset) = CryptoMethodOID \<and>
     Identity_Value (Asset_Identity asset) = oidECPublicKey \<and>
     (\<exists>alg l. Asset_Algorithm asset = Some alg \<and> Alg_ClassicalSecurityLevel alg = Some l \<and> l < 112)"
  by (auto simp: matchWeakCurve_def Let_def not_le split: option.splits)

lemma matchExpired_iff:
  "snd (matchExpiredCertificate asset now) \<longleftrightarrow>
     (\<exists>c. Asset_Certificate asset = Some c \<and> Cert_NotAfter c \<noteq> 0 \<and> Cert_NotAfter c < now)"
  by (auto simp: matchExpiredCertificate_def time_IsZero_def time_Before_def split: option.split)

lemma rule_matches_iff:
  "m \<in> set (rule_matches asset now r) \<longleftrightarrow>
     rule_kind r = Asset_Kind asset \<and> snd (rule_match r asset now) \<and>
     m = \<lparr>match_asset = asset,
           match_finding = \<lparr>Finding_RuleID = rule_id r, Finding_Title = rule_title r,
             Finding_Severity = rule_severity r, Finding_AssetID = Asset_ID asset,
             Finding_Evidence = fst (rule_match r asset now)\<rparr>\<rparr>"
  by (cases "rule_match r asset now"; cases "rule_kind r = Asset_Kind asset") (simp_all add: rule_matches_def)

lemma violates_rules:
  "violates rid asset now \<longleftrightarrow>
     (\<exists>r \<in> set rules. rule_id r = rid \<and> rule_kind r = Asset_Kind asset \<and> snd (rule_match r asset now))"
  by (simp add: rules_def violates_def matchSHA1_iff matchRSA_iff matchCurve_iff matchExpired_iff
      eq_commute [of rid] eq_commute [of "Asset_Kind asset"])

lemma all_matches_iff:
  "(\<exists>m \<in> set (all_matches assets now). Finding_RuleID (match_finding m) = rid \<and> match_asset m = a) \<longleftrightarrow>
     a \<in> set assets \<and> violates rid a now"
  by (auto simp: all_matches_def violates_rules rule_matches_iff)

lemma all_matches_AssetID: "m \<in> set (all_matches assets now) \<Longrightarrow> Finding_AssetID (match_finding m) = Asset_ID (match_asset m)"
  by (auto simp: all_matches_def rule_matches_iff)

section \<open>The findings\<close>

lemma Evaluate_set:
  assumes "sorter compareMatches sort_func"
  shows "set (Evaluate sort_func assets now) = match_finding ` set (all_matches assets now)"
  using sorter.sort_set [OF assms] by (simp add: Evaluate_def)

text \<open>C33. Sound and complete: a finding of a rule for an asset identifier is reported exactly when an
  asset with that identifier violates the rule.\<close>

theorem Evaluate_sound_complete:
  assumes "sorter compareMatches sort_func"
  shows "(\<exists>f \<in> set (Evaluate sort_func assets now). Finding_RuleID f = rid \<and> Finding_AssetID f = aid) \<longleftrightarrow>
    (\<exists>a \<in> set assets. Asset_ID a = aid \<and> violates rid a now)"
proof -
  have "(\<exists>f \<in> set (Evaluate sort_func assets now). Finding_RuleID f = rid \<and> Finding_AssetID f = aid) \<longleftrightarrow>
    (\<exists>m \<in> set (all_matches assets now). Finding_RuleID (match_finding m) = rid \<and> Asset_ID (match_asset m) = aid)"
    using all_matches_AssetID by (fastforce simp: Evaluate_set [OF assms])
  also have "\<dots> \<longleftrightarrow> (\<exists>a. Asset_ID a = aid \<and>
      (\<exists>m \<in> set (all_matches assets now). Finding_RuleID (match_finding m) = rid \<and> match_asset m = a))"
    by blast
  finally show ?thesis by (simp only: all_matches_iff) blast
qed

text \<open>An expired certificate with an old signature.\<close>

definition example_certificate :: CryptoAsset where
  "example_certificate = example_asset\<lparr>Asset_Kind := CryptoKindCertificate, Asset_Algorithm := None,
     Asset_Certificate := Some \<lparr>Cert_Subject = [], Cert_Issuer = [], Cert_SerialNumber = [], Cert_NotBefore = 1,
       Cert_NotAfter = 5, Cert_Format = CryptoCertificateFormatX509, Cert_KeyUsage = [], Cert_ExtendedKeyUsage = [],
       Cert_DNSNames = [], Cert_EmailAddresses = [], Cert_IPAddresses = [], Cert_URIs = [],
       Cert_BasicConstraintsValid = False, Cert_IsCA = False, Cert_MaxPathLen = 0, Cert_MaxPathLenZero = False\<rparr>,
     Asset_Relationships := [\<lparr>Rel_Type = CryptoRelationshipSignedWith,
       Rel_RelatedAsset = \<lparr>Desc_Kind = CryptoKindAlgorithm, Desc_KeyType = [],
         Desc_Identity = \<lparr>Identity_Method = CryptoMethodOID, Identity_Value = ''1.3.14.3.2.29'',
           Identity_Parameters = []\<rparr>\<rparr>\<rparr>], Asset_ID := ''id1''\<rparr>"

theorem Evaluate_sound_complete_witness:
  "\<exists>f \<in> set (Evaluate (sort_stable_func compareMatches) [example_asset, example_certificate] 10).
     Finding_RuleID f = ''CRYPTO-0001'' \<and> Finding_AssetID f = ''id1''"
proof -
  have "violates ''CRYPTO-0001'' example_certificate 10"
    by (simp add: violates_def example_certificate_def first_algorithm_def sha1SignatureOIDs_def)
  moreover have "Asset_ID example_certificate = ''id1''" by (simp add: example_certificate_def)
  ultimately show ?thesis
    using Evaluate_sound_complete [OF stable.sorter_axioms, of "[example_asset, example_certificate]" 10] by simp
qed

lemma all_matches_mset:
  "mset assets = mset assets' \<Longrightarrow> mset (all_matches assets now) = mset (all_matches assets' now)"
  by (simp add: all_matches_def mset_concat flip: sum_mset_sum_list)

lemma sorted_matches:
  assumes "sorter compareMatches sort_func"
  shows "sorted (map match_key (sort_func ms))"
  using sorter.sort_sorted [OF assms compareMatches_strict_weak, of ms]
  by (simp add: compareMatches_key sorted_wrt_map)

text \<open>The report does not depend on the order of the assets nor on the sorting algorithm, as long
  as no two matches agree in file path, rule, descriptor, format and layer.\<close>

theorem Evaluate_deterministic:
  assumes "sorter compareMatches sort1" "sorter compareMatches sort2"
    and "mset assets = mset assets'" "distinct (map match_key (all_matches assets now))"
  shows "Evaluate sort1 assets now = Evaluate sort2 assets' now"
proof -
  let ?m = "all_matches assets now" and ?m' = "all_matches assets' now"
  have mset: "mset (sort1 ?m) = mset ?m" "mset (sort2 ?m') = mset ?m"
    using sorter.sort_mset [OF assms(1)] sorter.sort_mset [OF assms(2)] all_matches_mset [OF assms(3)] by simp_all
  then have sets: "set (sort1 ?m) = set ?m" "set (sort2 ?m') = set ?m" by (metis mset_eq_setD)+
  have dist: "distinct (map match_key (sort1 ?m))" "distinct (map match_key (sort2 ?m'))"
    using assms(4) mset by (metis mset_map mset_eq_imp_distinct_iff)+
  have "inj_on match_key (set ?m)" using assms(4) by (simp add: distinct_map)
  then have "sort1 ?m = sort2 ?m'"
    using dist sets sorted_matches [OF assms(1)] sorted_matches [OF assms(2)]
    by (intro map_sorted_distinct_set_unique [of match_key]) auto
  then show ?thesis by (simp add: Evaluate_def)
qed

theorem Evaluate_deterministic_witness:
  "Evaluate (sort_stable_func compareMatches) [example_asset, example_certificate] 10 =
   Evaluate (sort_stable_func compareMatches) [example_certificate, example_asset] 10"
proof -
  have "distinct (map match_key (all_matches [example_asset, example_certificate] 10))" by code_simp
  then show ?thesis by (intro Evaluate_deterministic stable.sorter_axioms) simp_all
qed

section \<open>The curve rule on assessed assets\<close>

lemma ec_levels: "fst (securityLevels i) = Some l \<Longrightarrow> Identity_Value i = oidECPublicKey \<Longrightarrow> 112 \<le> l"
  by (auto simp: securityLevels_def algorithms_def ecStrengthBasis_def split: if_splits)

lemma assess_not_weak: "\<not> violates ''CRYPTO-0003'' (assess a) now"
proof
  assume v: "violates ''CRYPTO-0003'' (assess a) now"
  then obtain alg l where *: "Asset_Kind (assess a) = CryptoKindAlgorithm"
    "Identity_Method (Asset_Identity (assess a)) = CryptoMethodOID"
    "Identity_Value (Asset_Identity (assess a)) = oidECPublicKey"
    "Asset_Algorithm (assess a) = Some alg" "Alg_ClassicalSecurityLevel alg = Some l" "l < 112"
    by (auto simp: violates_def)
  then have "fst (securityLevels (Asset_Identity a)) = Some l" "Identity_Value (Asset_Identity a) = oidECPublicKey"
    by (auto simp: assess_def split: option.splits prod.splits if_splits)
  then show False using ec_levels *(6) by fastforce
qed

text \<open>On assets whose strength was assessed from the catalog, the rule for weak elliptic curves
  never reports anything: the catalog holds no elliptic curve below 112 bits.\<close>

theorem weak_curve_never_reported:
  assumes "sorter compareMatches sort_func"
  shows "f \<in> set (Evaluate sort_func (AssessStrength assets) now) \<Longrightarrow> Finding_RuleID f \<noteq> ''CRYPTO-0003''"
proof
  assume "f \<in> set (Evaluate sort_func (AssessStrength assets) now)" "Finding_RuleID f = ''CRYPTO-0003''"
  then obtain m where "m \<in> set (all_matches (AssessStrength assets) now)"
    "Finding_RuleID (match_finding m) = ''CRYPTO-0003''"
    by (auto simp: Evaluate_set [OF assms])
  then have "match_asset m \<in> set (AssessStrength assets) \<and> violates ''CRYPTO-0003'' (match_asset m) now"
    using all_matches_iff by blast
  then show False using assess_not_weak by (auto simp: AssessStrength_def)
qed

text \<open>Even an elliptic curve that carries a weak level before the assessment is not reported.\<close>

definition example_weak_curve :: CryptoAsset where
  "example_weak_curve = example_asset\<lparr>
     Asset_Identity := \<lparr>Identity_Method = CryptoMethodOID, Identity_Value = oidECPublicKey,
       Identity_Parameters = ''curve=P-192''\<rparr>,
     Asset_Algorithm := Some \<lparr>Alg_Family = [], Alg_Primitive = CryptoPrimitiveUnknown,
       Alg_ClassicalSecurityLevel = Some 96, Alg_NISTQuantumSecurityLevel = None\<rparr>\<rparr>"

theorem weak_curve_never_reported_witness:
  "violates ''CRYPTO-0003'' example_weak_curve 10 \<and>
   (\<exists>f \<in> set (Evaluate (sort_stable_func compareMatches) (AssessStrength [example_weak_curve, example_certificate]) 10).
      Finding_RuleID f = ''CRYPTO-0004'' \<and> Finding_RuleID f \<noteq> ''CRYPTO-0003'')"
proof -
  let ?e = "Evaluate (sort_stable_func compareMatches) (AssessStrength [example_weak_curve, example_certificate]) 10"
  have "violates ''CRYPTO-0003'' example_weak_curve 10"
    by (simp add: violates_def example_weak_curve_def example_asset_def)
  moreover have "map Finding_RuleID ?e = [''CRYPTO-0001'', ''CRYPTO-0004'']" by code_simp
  then have "''CRYPTO-0004'' \<in> set (map Finding_RuleID ?e)" by simp
  then obtain f where "f \<in> set ?e" "Finding_RuleID f = ''CRYPTO-0004''" unfolding set_map by force
  ultimately show ?thesis
    using weak_curve_never_reported [OF stable.sorter_axioms, of f "[example_weak_curve, example_certificate]" 10] by blast
qed

end
