(* ===== verification/Purl.thy ===== *)
theory Purl
  imports Fanal_Base
begin

text \<open>
  Package URLs, \<open>pkg/purl/purl.go\<close>: their construction from packages (\<open>New\<close>), the way back
  (\<open>LangType\<close>, \<open>Class\<close>, \<open>Package\<close>) and the matching of constraints (\<open>Match\<close>).

  \<open>purl_env\<close> holds what the code takes from other packages: the constructor and the printer of
  \<open>packageurl-go\<close>, the parser of image digests, the RPM version parser, and \<open>strings.ToLower\<close>, whose
  Unicode tables are not modelled. \<open>New\<close> dereferences the OS of the metadata for Bottlerocket
  and CoreOS packages without a check: \<^term>\<open>None\<close> stands for the panic.
\<close>

section \<open>Types and constants\<close>

type_synonym ResultClass = string

abbreviation ClassUnknown :: ResultClass where "ClassUnknown \<equiv> ''unknown''"
abbreviation ClassOSPkg :: ResultClass where "ClassOSPkg \<equiv> ''os-pkgs''"
abbreviation ClassLangPkg :: ResultClass where "ClassLangPkg \<equiv> ''lang-pkgs''"

abbreviation purl_TypeK8s :: string where "purl_TypeK8s \<equiv> ''k8s''"
abbreviation TypeUnknown :: string where "TypeUnknown \<equiv> ''unknown''"
abbreviation packageurlTypeBottlerocket :: string where "packageurlTypeBottlerocket \<equiv> ''bottlerocket''"

text \<open>The fields of the report metadata that \<open>New\<close> and the SBOM encoder read; of the image configuration these are the
  architecture and the labels. The zero reference is \<^term>\<open>None\<close>.\<close>

record Metadata =
  Meta_Size :: int
  Meta_OS :: "OS option"
  Meta_ImageID :: string
  Meta_DiffIDs :: "string list"
  Meta_RepoTags :: "string list"
  Meta_RepoDigests :: "string list"
  Meta_Reference :: "string option"
  Meta_Architecture :: string
  Meta_Labels :: "(string \<times> string) list"

definition Metadata_of :: "OS option \<Rightarrow> Metadata" where
  "Metadata_of os = \<lparr>Meta_Size = 0, Meta_OS = os, Meta_ImageID = [], Meta_DiffIDs = [], Meta_RepoTags = [],
     Meta_RepoDigests = [], Meta_Reference = None, Meta_Architecture = [], Meta_Labels = []\<rparr>"

text \<open>A digest reference of \<open>go-containerregistry\<close>: \<open>RepositoryStr\<close>, \<open>Repository.Name\<close> and \<open>DigestStr\<close>.\<close>

record image_digest =
  RepositoryStr :: string
  RepositoryName :: string
  DigestStr :: string

type_synonym Qualifiers = "(string \<times> string) list"

record purl_env =
  NewPackageURL :: "string \<Rightarrow> string \<Rightarrow> string \<Rightarrow> string \<Rightarrow> Qualifiers \<Rightarrow> string \<Rightarrow> PackageURL"
  purl_String :: "PackageURL \<Rightarrow> string"
  NewDigest :: "string \<Rightarrow> image_digest result"
  rpm_version_release :: "string \<Rightarrow> string \<times> string"
  purl_lower :: "string \<Rightarrow> string"

text \<open>The documented behaviour of the constructor.\<close>

definition purl_env_ok :: "purl_env \<Rightarrow> bool" where
  "purl_env_ok env \<longleftrightarrow>
     (\<forall>t ns n v qs sp. NewPackageURL env t ns n v qs sp =
        \<lparr>PURL_Type = t, PURL_Namespace = ns, PURL_Name = n, PURL_Version = v, PURL_Qualifiers = qs, PURL_Subpath = sp\<rparr>)"

section \<open>Parsing of names\<close>

text \<open>\<open>strings.CutLast\<close> with a separator of one byte, and \<open>strings.ReplaceAll\<close> of one byte by another.\<close>

definition cutLast :: "string \<Rightarrow> char \<Rightarrow> string \<times> string \<times> bool" where
  "cutLast s c =
     (if c \<in> set s
      then (rev (tl (dropWhile (\<lambda>x. x \<noteq> c) (rev s))), rev (takeWhile (\<lambda>x. x \<noteq> c) (rev s)), True)
      else (s, [], False))"

definition replaceChar :: "char \<Rightarrow> char \<Rightarrow> string \<Rightarrow> string" where
  "replaceChar a b s = map (\<lambda>c. if c = a then b else c) s"

definition parsePkgName :: "string \<Rightarrow> string \<times> string" where
  "parsePkgName name =
     (case cutLast name CHR ''/'' of (namespace, base, found) \<Rightarrow> if found then (namespace, base) else ([], name))"

definition parseQualifier :: "Package \<Rightarrow> Qualifiers" where
  "parseQualifier pkg =
     (if Pkg_Arch pkg \<noteq> [] then [(''arch'', Pkg_Arch pkg)] else []) @
     (if Pkg_Epoch pkg \<noteq> 0 then [(''epoch'', itoa (Pkg_Epoch pkg))] else [])"

definition parseOCI :: "purl_env \<Rightarrow> Metadata \<Rightarrow> PackageURL option result" where
  "parseOCI env metadata =
     (case Meta_RepoDigests metadata of
        [] \<Rightarrow> Inr None
      | d # _ \<Rightarrow>
          (case NewDigest env d of
             Inl e \<Rightarrow> Inl (Wrapf ''failed to parse digest: %w'' [] e)
           | Inr digest \<Rightarrow>
               let lname = purl_lower env (RepositoryStr digest);
                   name = (case cutLast lname CHR ''/'' of (_, base, found) \<Rightarrow> if found then base else lname);
                   qualifiers =
                     (if RepositoryName digest \<noteq> [] then [(''repository_url'', RepositoryName digest)] else []) @
                     (if Meta_Architecture metadata \<noteq> [] then [(''arch'', Meta_Architecture metadata)] else [])
               in Inr (Some (NewPackageURL env ''oci'' [] name (DigestStr digest) qualifiers []))))"

definition parseApk :: "purl_env \<Rightarrow> string \<Rightarrow> OS option \<Rightarrow> string \<times> string \<times> Qualifiers" where
  "parseApk env pkgName fos =
     (let name = purl_lower env pkgName
      in case fos of
           None \<Rightarrow> (name, [], [])
         | Some os \<Rightarrow> (name, purl_lower env (OS_Family os), [(''distro'', OS_Name os)]))"

definition parseDeb :: "OS option \<Rightarrow> Qualifiers" where
  "parseDeb fos = (case fos of None \<Rightarrow> [] | Some os \<Rightarrow> [(''distro'', OS_Family os @ ''-'' @ OS_Name os)])"

definition parseRPM :: "OS option \<Rightarrow> string \<Rightarrow> string \<times> Qualifiers" where
  "parseRPM fos modularityLabel =
     (case fos of
        None \<Rightarrow> ([], [])
      | Some os \<Rightarrow>
          (PurlNamespace (OS_Family os),
           [(''distro'', OS_Family os @ ''-'' @ OS_Name os)] @
           (if modularityLabel \<noteq> [] then [(''modularitylabel'', modularityLabel)] else [])))"

definition parseMaven :: "string \<Rightarrow> string \<times> string" where
  "parseMaven pkgName = parsePkgName (replaceChar CHR '':'' CHR ''/'' pkgName)"

definition parseGolang :: "purl_env \<Rightarrow> string \<Rightarrow> string \<times> string" where
  "parseGolang env pkgName =
     (if hasPrefix pkgName ''./'' \<or> hasPrefix pkgName ''../'' then ([], [])
      else parsePkgName (purl_lower env pkgName))"

definition parsePyPI :: "purl_env \<Rightarrow> string \<Rightarrow> string" where
  "parsePyPI env pkgName = purl_lower env (replaceChar CHR ''_'' CHR ''-'' pkgName)"

definition parseComposer :: "string \<Rightarrow> string \<times> string" where
  "parseComposer pkgName = parsePkgName pkgName"

definition parseSwift :: "string \<Rightarrow> string \<times> string" where
  "parseSwift pkgName = parsePkgName pkgName"

definition parseCocoapods :: "string \<Rightarrow> string \<times> string" where
  "parseCocoapods pkgName = (case cut pkgName CHR ''/'' of (name, subpath, _) \<Rightarrow> (name, subpath))"

definition parseNpm :: "purl_env \<Rightarrow> string \<Rightarrow> string \<times> string" where
  "parseNpm env pkgName = parsePkgName (purl_lower env pkgName)"

definition parseJulia :: "string \<Rightarrow> string \<Rightarrow> string \<times> string \<times> Qualifiers" where
  "parseJulia pkgName pkgUUID =
     (case parsePkgName pkgName of (namespace, name) \<Rightarrow> (namespace, name, [(''uuid'', pkgUUID)]))"

section \<open>Construction\<close>

definition purlType :: "string \<Rightarrow> string" where
  "purlType t =
     (if t = ''alire'' then ''generic''
      else if t \<in> {''jar'', ''pom'', ''gradle'', ''sbt''} then ''maven''
      else if t \<in> {''bundler'', ''gemspec''} then ''gem''
      else if t \<in> {''nuget'', ''dotnet-core'', ''packages-props''} then ''nuget''
      else if t \<in> {''composer'', ''composer-vendor''} then ''composer''
      else if t \<in> {''conda-pkg'', ''conda-environment''} then ''conda''
      else if t \<in> {''python-pkg'', ''pip'', ''pipenv'', ''poetry'', ''uv'', ''pylock''} then ''pypi''
      else if t \<in> {''gobinary'', ''gomod''} then ''golang''
      else if t \<in> {''npm'', ''node-pkg'', ''yarn'', ''pnpm'', ''bun''} then ''npm''
      else if t = ''cocoapods'' then ''cocoapods''
      else if t = ''swift'' then ''swift''
      else if t = ''hex'' then ''hex''
      else if t = ''conan'' then ''conan''
      else if t = ''pub'' then ''pub''
      else if t \<in> {''rustbinary'', ''cargo''} then ''cargo''
      else if t \<in> {Alpine, Chainguard, Wolfi, MinimOS} then ''apk''
      else if t \<in> {Debian, Ubuntu, Echo} then ''deb''
      else if t \<in> {RedHat, CentOS, CentOSStream, Rocky, Alma, Amazon, Fedora, Oracle, OpenSUSE, OpenSUSELeap,
                   OpenSUSETumbleweed, SLES, SLEMicro, Photon, Azure, CBLMariner, CoreOS} then ''rpm''
      else if t = Bottlerocket then packageurlTypeBottlerocket
      else if t = ''oci'' then ''oci''
      else if t = ''julia'' then ''julia''
      else t)"

text \<open>The namespace, name, subpath and further qualifiers of the switch in \<open>New\<close>, for the types other
  than OCI; \<^term>\<open>None\<close> is the panic.\<close>

definition new_parts :: "purl_env \<Rightarrow> string \<Rightarrow> string \<Rightarrow> OS option \<Rightarrow> Package \<Rightarrow>
    (string \<times> string \<times> string \<times> Qualifiers) option" where
  "new_parts env t ptype os pkg =
     (let name = Pkg_Name pkg in
      if ptype = ''generic'' then Some (if t = ''alire'' then ''alire'' else [], name, [], [])
      else if ptype = ''rpm'' then
        (case parseRPM os (Pkg_Modularitylabel pkg) of (ns, qs) \<Rightarrow> Some (ns, name, [], qs))
      else if ptype = ''deb'' then
        Some (case os of Some os' \<Rightarrow> OS_Family os' | None \<Rightarrow> [], name, [], parseDeb os)
      else if ptype = packageurlTypeBottlerocket then
        map_option (\<lambda>os'. ([], name, [], [(''distro'', ''bottlerocket-'' @ OS_Name os')])) os
      else if ptype = ''coreos'' then
        map_option (\<lambda>os'. ([], name, [], [(''distro'', ''coreos-'' @ OS_Name os')])) os
      else if ptype = ''apk'' then
        (case parseApk env name os of (name', ns, qs) \<Rightarrow> Some (ns, name', [], qs))
      else if ptype = ''maven'' \<or> ptype = ''gradle'' then
        (case parseMaven name of (ns, name') \<Rightarrow> Some (ns, name', [], []))
      else if ptype = ''pypi'' then Some ([], parsePyPI env name, [], [])
      else if ptype = ''composer'' then (case parseComposer name of (ns, name') \<Rightarrow> Some (ns, name', [], []))
      else if ptype = ''golang'' then (case parseGolang env name of (ns, name') \<Rightarrow> Some (ns, name', [], []))
      else if ptype = ''npm'' then (case parseNpm env name of (ns, name') \<Rightarrow> Some (ns, name', [], []))
      else if ptype = ''swift'' then (case parseSwift name of (ns, name') \<Rightarrow> Some (ns, name', [], []))
      else if ptype = ''cocoapods'' then
        (case parseCocoapods name of (name', subpath) \<Rightarrow> Some ([], name', subpath, []))
      else if ptype = ''julia'' then
        (case parseJulia name (Pkg_ID pkg) of (ns, name', qs) \<Rightarrow> Some (ns, name', [], qs))
      else Some ([], name, [], []))"

definition New :: "purl_env \<Rightarrow> string \<Rightarrow> Metadata \<Rightarrow> Package \<Rightarrow> PackageURL option result option" where
  "New env t metadata pkg =
     (let qualifiers = parseQualifier pkg;
          pkg1 = pkg\<lparr>Pkg_Epoch := 0\<rparr>;
          ptype = purlType t;
          ver = FormatVersion pkg1
      in if ptype = ''oci'' then Some (parseOCI env metadata)
         else case new_parts env t ptype (Meta_OS metadata) pkg1 of
                None \<Rightarrow> None
              | Some (namespace, name, subpath, qs) \<Rightarrow>
                  if ptype = ''golang'' \<and> name = [] then Some (Inr None)
                  else Some (Inr (Some (NewPackageURL env ptype namespace name ver (qualifiers @ qs) subpath))))"

section \<open>The way back\<close>

definition purl_LangType :: "PackageURL \<Rightarrow> LangType" where
  "purl_LangType p =
     (let t = PURL_Type p in
      if t = ''generic'' then (if PURL_Namespace p = ''alire'' then ''alire'' else TypeUnknown)
      else if t = ''composer'' then ''composer''
      else if t = ''maven'' then Jar
      else if t = ''gem'' then GemSpec
      else if t = ''conda'' then CondaPkg
      else if t = ''pypi'' then PythonPkg
      else if t = ''golang'' then ''gobinary''
      else if t = ''npm'' then NodePkg
      else if t = ''cargo'' then ''cargo''
      else if t = ''nuget'' then ''nuget''
      else if t = ''swift'' then ''swift''
      else if t = ''cocoapods'' then ''cocoapods''
      else if t = ''hex'' then ''hex''
      else if t = ''conan'' then ''conan''
      else if t = ''pub'' then ''pub''
      else if t = ''julia'' then ''julia''
      else if t = ''bitnami'' then ''bitnami''
      else if t = purl_TypeK8s then
        (if PURL_Namespace p = ''eks'' then ''eks''
         else if PURL_Namespace p = ''gke'' then ''gke''
         else if PURL_Namespace p = ''aks'' then ''aks''
         else if PURL_Namespace p = ''ocp'' then ''ocp''
         else if PURL_Namespace p = [] then ''kubernetes''
         else TypeUnknown)
      else TypeUnknown)"

definition purl_Class :: "PackageURL \<Rightarrow> ResultClass" where
  "purl_Class p =
     (if PURL_Type p \<in> {''apk'', ''deb'', ''rpm'', packageurlTypeBottlerocket} then ClassOSPkg
      else if purl_LangType p = TypeUnknown then ClassUnknown
      else ClassLangPkg)"

text \<open>The loop over the qualifiers in \<open>Package\<close>.\<close>

definition apply_qualifier :: "string \<times> string \<Rightarrow> Package \<Rightarrow> Package" where
  "apply_qualifier q pkg =
     (if fst q = ''arch'' then pkg\<lparr>Pkg_Arch := snd q\<rparr>
      else if fst q = ''modularitylabel'' then pkg\<lparr>Pkg_Modularitylabel := snd q\<rparr>
      else if fst q = ''epoch'' then (case atoi (snd q) of Some e \<Rightarrow> pkg\<lparr>Pkg_Epoch := e\<rparr> | None \<Rightarrow> pkg)
      else pkg)"

definition purl_pkg_name :: "PackageURL \<Rightarrow> string" where
  "purl_pkg_name p =
     (let name = (if PURL_Namespace p \<noteq> [] \<and> purl_Class p \<noteq> ClassOSPkg \<and> purl_LangType p \<noteq> ''alire''
                  then (if PURL_Type p = ''maven'' \<or> PURL_Type p = ''gradle''
                        then PURL_Namespace p @ '':'' @ PURL_Name p else PURL_Namespace p @ ''/'' @ PURL_Name p)
                  else PURL_Name p)
      in if PURL_Subpath p \<noteq> [] \<and> PURL_Type p = ''cocoapods'' then PURL_Name p @ ''/'' @ PURL_Subpath p else name)"

definition purl_Package :: "purl_env \<Rightarrow> PackageURL \<Rightarrow> Package" where
  "purl_Package env p =
     (let pkgName = purl_pkg_name p;
          pkg = Package_empty\<lparr>Pkg_ID := dependency_ID (purl_LangType p) pkgName (PURL_Version p),
                  Pkg_Name := pkgName, Pkg_Version := PURL_Version p,
                  Pkg_Identifier := PkgIdentifier_empty\<lparr>Id_PURL := Some p\<rparr>\<rparr>;
          pkg1 = (if purl_LangType p = ''alire'' then pkg\<lparr>Pkg_ID := purl_String env p\<rparr> else pkg);
          pkg2 = fold apply_qualifier (PURL_Qualifiers p) pkg1
      in if PURL_Type p = ''rpm''
         then pkg2\<lparr>Pkg_Release := snd (rpm_version_release env (PURL_Version p)),
                   Pkg_Version := fst (rpm_version_release env (PURL_Version p))\<rparr>
         else pkg2)"

section \<open>Matching\<close>

text \<open>\<open>Qualifiers.Map\<close>: the last value of each key.\<close>

definition Qualifiers_Map :: "Qualifiers \<Rightarrow> (string \<times> string) list" where
  "Qualifiers_Map qs = fold (\<lambda>(k, v) m. AList.update k v m) qs []"

definition purl_Match :: "PackageURL \<Rightarrow> PackageURL option \<Rightarrow> bool" where
  "purl_Match p target =
     (case target of
        None \<Rightarrow> False
      | Some t \<Rightarrow>
          if PURL_Type p \<noteq> PURL_Type t then False
          else if PURL_Namespace p \<noteq> PURL_Namespace t then False
          else if PURL_Name p \<noteq> PURL_Name t then False
          else if PURL_Version p \<noteq> [] \<and> PURL_Version p \<noteq> PURL_Version t then False
          else if PURL_Subpath p \<noteq> [] \<and> PURL_Subpath p \<noteq> PURL_Subpath t then False
          else list_all (\<lambda>(k, v1). map_of (Qualifiers_Map (PURL_Qualifiers t)) k = Some v1)
                 (Qualifiers_Map (PURL_Qualifiers p)))"

section \<open>Round trips\<close>

lemma cutLast_found: "c \<notin> set b \<Longrightarrow> cutLast (a @ c # b) c = (a, b, True)"
  by (simp add: cutLast_def dropWhile_append takeWhile_append)

lemma cutLast_cases:
  obtains "c \<notin> set s" "cutLast s c = (s, [], False)"
    | a b where "s = a @ c # b" "c \<notin> set b" "cutLast s c = (a, b, True)"
  using split_list_last [of c s] cutLast_found [of c] by (cases "c \<in> set s") (auto simp: cutLast_def [of s])

lemma parsePkgName_join:
  assumes "parsePkgName name = (ns, base)" "\<not> hasPrefix name ''/''"
  shows "(if ns \<noteq> [] then ns @ ''/'' @ base else base) = name"
  using assms
  by (cases rule: cutLast_cases [of "CHR ''/''" name])
     (auto simp: parsePkgName_def hasPrefix_def)

text \<open>The names that survive: the rules of the type do not change them, and they do not begin or end with the
  separator.\<close>

definition name_stable :: "purl_env \<Rightarrow> string \<Rightarrow> string \<Rightarrow> bool" where
  "name_stable env ptype name =
     (if ptype = ''maven'' \<or> ptype = ''gradle''
      then CHR ''/'' \<notin> set name \<and> length (filter (\<lambda>c. c = CHR '':'') name) \<le> 1 \<and> \<not> hasPrefix name '':''
      else if ptype = ''pypi'' then purl_lower env (replaceChar CHR ''_'' CHR ''-'' name) = name
      else if ptype = ''apk'' then purl_lower env name = name
      else if ptype = ''golang'' \<or> ptype = ''npm'' then purl_lower env name = name \<and> \<not> hasPrefix name ''/''
      else if ptype = ''composer'' \<or> ptype = ''swift'' \<or> ptype = ''julia'' then \<not> hasPrefix name ''/''
      else if ptype = ''cocoapods'' then \<not> hasSuffix name ''/''
      else True)"

lemma replaceChar_noop: "a \<notin> set s \<Longrightarrow> replaceChar a b s = s"
  by (auto simp: replaceChar_def intro!: map_idI)

lemma parseMaven_join:
  assumes "parseMaven name = (ns, base)" "CHR ''/'' \<notin> set name"
    "length (filter (\<lambda>c. c = CHR '':'') name) \<le> 1" "\<not> hasPrefix name '':''"
  shows "(if ns \<noteq> [] then ns @ '':'' @ base else base) = name"
proof (cases "CHR '':'' \<in> set name")
  case False
  then show ?thesis using assms(1,2) by (auto simp: parseMaven_def replaceChar_noop parsePkgName_def cutLast_def)
next
  case True
  then obtain a b where name: "name = a @ CHR '':'' # b" by (metis split_list)
  then have ab: "CHR '':'' \<notin> set a" "CHR '':'' \<notin> set b" "CHR ''/'' \<notin> set b"
    using assms(2,3) by (auto simp: filter_empty_conv)
  have "replaceChar CHR '':'' CHR ''/'' name = a @ CHR ''/'' # b"
    using replaceChar_noop [OF ab(1), of "CHR ''/''"] replaceChar_noop [OF ab(2), of "CHR ''/''"]
    by (simp add: replaceChar_def name)
  then have "ns = a" "base = b" using assms(1) cutLast_found [OF ab(3), of a] by (auto simp: parseMaven_def parsePkgName_def)
  moreover have "a \<noteq> []" using assms(4) by (auto simp: name hasPrefix_def)
  ultimately show ?thesis by (simp add: name)
qed

lemma parseCocoapods_join:
  assumes "parseCocoapods name = (base, sub)" "\<not> hasSuffix name ''/''"
  shows "(if sub \<noteq> [] then base @ ''/'' @ sub else base) = name"
proof (cases "CHR ''/'' \<in> set name")
  case True
  then obtain a b where "name = a @ CHR ''/'' # b" "CHR ''/'' \<notin> set a" by (metis split_list_first)
  then show ?thesis using assms by (auto simp: parseCocoapods_def cut_found hasSuffix_def suffix_def)
qed (use assms in \<open>auto simp: parseCocoapods_def cut_not_found\<close>)

text \<open>The parts that \<open>New\<close> computes give back the name.\<close>

lemma new_parts_name:
  assumes "new_parts env t ptype os pkg = Some (ns, base, sub, qs)" "name_stable env ptype (Pkg_Name pkg)"
    and "ptype = ''golang'' \<Longrightarrow> base \<noteq> []"
    and p: "PURL_Type p = ptype" "PURL_Namespace p = ns" "PURL_Name p = base" "PURL_Subpath p = sub"
  shows "purl_pkg_name p = Pkg_Name pkg"
proof -
  let ?n = "Pkg_Name pkg"
  have lang: "purl_Class p \<noteq> ClassOSPkg \<and> purl_LangType p \<noteq> ''alire''"
    if "ptype \<in> {''maven'', ''gradle'', ''composer'', ''golang'', ''npm'', ''swift'', ''julia''}"
    using that by (auto simp: purl_Class_def purl_LangType_def p Let_def)
  show ?thesis
  proof (cases "ptype \<in> {''composer'', ''golang'', ''npm'', ''swift'', ''julia''}")
    case True
    then have "parsePkgName ?n = (ns, base) \<and> sub = [] \<and> \<not> hasPrefix ?n ''/''"
      using assms(1-3)
      by (auto simp: new_parts_def name_stable_def Let_def parseComposer_def parseGolang_def parseNpm_def parseSwift_def parseJulia_def
          split: prod.splits if_splits)
    moreover have "ptype \<noteq> ''maven'' \<and> ptype \<noteq> ''gradle''" using True by auto
    moreover have "purl_Class p \<noteq> ClassOSPkg \<and> purl_LangType p \<noteq> ''alire''" using True by (intro lang) auto
    ultimately show ?thesis
      using parsePkgName_join [of ?n ns base] by (auto simp: purl_pkg_name_def Let_def p)
  next
    case F1: False
    show ?thesis
    proof (cases "ptype = ''maven'' \<or> ptype = ''gradle''")
      case True
      then have "parseMaven ?n = (ns, base) \<and> sub = []"
        using assms(1) by (auto simp: new_parts_def Let_def split: prod.splits)
      moreover have "CHR ''/'' \<notin> set ?n \<and> length (filter (\<lambda>c. c = CHR '':'') ?n) \<le> 1 \<and> \<not> hasPrefix ?n '':''"
        using assms(2) True by (auto simp: name_stable_def)
      moreover have "purl_Class p \<noteq> ClassOSPkg \<and> purl_LangType p \<noteq> ''alire''" using True by (intro lang) auto
      ultimately show ?thesis
        using parseMaven_join [of ?n ns base] True by (auto simp: purl_pkg_name_def Let_def p)
    next
      case F2: False
      show ?thesis
      proof (cases "ptype = ''cocoapods''")
        case True
        then have "parseCocoapods ?n = (base, sub) \<and> ns = []" "\<not> hasSuffix ?n ''/''"
          using assms(1,2) by (auto simp: new_parts_def name_stable_def Let_def split: prod.splits)
        then show ?thesis
          using parseCocoapods_join [of ?n base sub] True by (auto simp: purl_pkg_name_def Let_def p)
      next
        case F3: False
        consider "ptype = ''generic''" | "ptype = ''rpm'' \<or> ptype = ''deb'' \<or> ptype = ''apk''"
          | "ptype \<noteq> ''generic''" "ptype \<noteq> ''rpm''" "ptype \<noteq> ''deb''" "ptype \<noteq> ''apk''" by blast
        then show ?thesis
        proof cases
          case 1
          then show ?thesis using assms(1) p
            by (cases "t = ''alire''") (simp_all add: new_parts_def Let_def purl_pkg_name_def purl_LangType_def)
        next
          case 2
          then have "base = ?n \<and> purl_Class p = ClassOSPkg \<and> ptype \<noteq> ''cocoapods''" using assms(1,2) p
            by (elim disjE) (simp_all add: new_parts_def name_stable_def purl_Class_def parseApk_def Let_def
                split: prod.splits option.splits)
          then show ?thesis using p by (simp add: purl_pkg_name_def Let_def)
        next
          case 3
          then have "ns = [] \<and> base = ?n" using assms(1,2) F1 F2 F3
            by (cases "ptype = ''pypi''"; cases os)
               (simp_all add: new_parts_def name_stable_def parsePyPI_def Let_def split: if_splits)
          then show ?thesis using F3 p by (simp add: purl_pkg_name_def Let_def)
        qed
      qed
    qed
  qed
qed

lemma apply_qualifier_other:
  "fst q \<notin> {''arch'', ''epoch'', ''modularitylabel''} \<Longrightarrow> apply_qualifier q pkg = pkg"
  by (simp add: apply_qualifier_def)

lemma apply_qualifier_keeps [simp]:
  "Pkg_Name (apply_qualifier q pkg) = Pkg_Name pkg" "Pkg_Version (apply_qualifier q pkg) = Pkg_Version pkg"
  "Pkg_Release (apply_qualifier q pkg) = Pkg_Release pkg"
  by (simp_all add: apply_qualifier_def split: option.splits)

lemma fold_qualifier_keeps [simp]:
  "Pkg_Name (fold apply_qualifier qs pkg) = Pkg_Name pkg" "Pkg_Version (fold apply_qualifier qs pkg) = Pkg_Version pkg"
  "Pkg_Release (fold apply_qualifier qs pkg) = Pkg_Release pkg"
  by (induction qs arbitrary: pkg) simp_all

lemma new_parts_qualifiers:
  "new_parts env t ptype os pkg = Some (ns, base, sub, qs) \<Longrightarrow> fst ` set qs \<subseteq> {''distro'', ''modularitylabel'', ''uuid''}"
  by (auto simp: new_parts_def Let_def parseRPM_def parseDeb_def parseApk_def parseJulia_def
      split: if_splits prod.splits option.splits)

lemma fold_qualifier_other:
  "fst ` set qs \<subseteq> {''distro'', ''modularitylabel'', ''uuid''} \<Longrightarrow>
     Pkg_Arch (fold apply_qualifier qs pkg) = Pkg_Arch pkg \<and> Pkg_Epoch (fold apply_qualifier qs pkg) = Pkg_Epoch pkg"
proof (induction qs arbitrary: pkg)
  case (Cons q qs)
  then have "fst q \<in> {''distro'', ''modularitylabel'', ''uuid''}" by auto
  then have "Pkg_Arch (apply_qualifier q pkg) = Pkg_Arch pkg \<and> Pkg_Epoch (apply_qualifier q pkg) = Pkg_Epoch pkg"
    by (auto simp: apply_qualifier_def)
  then show ?case using Cons by simp
qed simp

lemma fold_parseQualifier:
  assumes "0 \<le> Pkg_Epoch pkg" "Pkg_Epoch pkg \<le> max_int" "Pkg_Arch q = []" "Pkg_Epoch q = 0"
  shows "Pkg_Arch (fold apply_qualifier (parseQualifier pkg) q) = Pkg_Arch pkg \<and>
    Pkg_Epoch (fold apply_qualifier (parseQualifier pkg) q) = Pkg_Epoch pkg"
  using assms atoi_itoa [OF assms(1,2)] by (simp add: parseQualifier_def apply_qualifier_def)

text \<open>C24. A package survives the way through its package URL: name, version with release and epoch, and
  architecture of the package read back from the URL are those of the package it was built from, for names that
  the rules of the package type leave alone.\<close>

theorem purl_roundtrip:
  assumes "purl_env_ok env" "New env t metadata pkg = Some (Inr (Some p))"
    and "purlType t \<noteq> ''oci''" "name_stable env (purlType t) (Pkg_Name pkg)"
    and "0 \<le> Pkg_Epoch pkg" "Pkg_Epoch pkg \<le> max_int"
    and "purlType t = ''rpm'' \<Longrightarrow>
      rpm_version_release env (FormatVersion (pkg\<lparr>Pkg_Epoch := 0\<rparr>)) = (Pkg_Version pkg, Pkg_Release pkg)"
  shows "Pkg_Name (purl_Package env p) = Pkg_Name pkg \<and> FormatVersion (purl_Package env p) = FormatVersion pkg \<and>
    Pkg_Epoch (purl_Package env p) = Pkg_Epoch pkg \<and> Pkg_Arch (purl_Package env p) = Pkg_Arch pkg"
proof -
  let ?t = "purlType t"
  let ?pkg = "pkg\<lparr>Pkg_Epoch := 0\<rparr>"
  obtain ns base sub qs where parts: "new_parts env t ?t (Meta_OS metadata) ?pkg = Some (ns, base, sub, qs)"
    and go: "?t = ''golang'' \<Longrightarrow> base \<noteq> []"
    and p: "p = NewPackageURL env ?t ns base (FormatVersion ?pkg) (parseQualifier pkg @ qs) sub"
    using assms(2,3) by (auto simp: New_def Let_def split: option.splits if_splits prod.splits)
  have fields: "PURL_Type p = ?t" "PURL_Namespace p = ns" "PURL_Name p = base" "PURL_Subpath p = sub"
    "PURL_Version p = FormatVersion ?pkg" "PURL_Qualifiers p = parseQualifier pkg @ qs"
    using assms(1) by (simp_all add: p purl_env_ok_def)
  have name: "purl_pkg_name p = Pkg_Name pkg"
    using new_parts_name [OF parts] assms(4) go fields by simp
  have "Pkg_Arch (purl_Package env p) = Pkg_Arch pkg \<and> Pkg_Epoch (purl_Package env p) = Pkg_Epoch pkg"
    using fold_parseQualifier [OF assms(5,6)] fold_qualifier_other [OF new_parts_qualifiers [OF parts]]
    by (simp add: purl_Package_def Let_def fields Package_empty_def)
  moreover have "Pkg_Name (purl_Package env p) = Pkg_Name pkg"
    by (simp add: purl_Package_def Let_def name)
  moreover have "Pkg_Version (purl_Package env p) = (if ?t = ''rpm'' then Pkg_Version pkg else FormatVersion ?pkg)"
    "Pkg_Release (purl_Package env p) = (if ?t = ''rpm'' then Pkg_Release pkg else [])"
    using assms(7) by (simp_all add: purl_Package_def Let_def fields Package_empty_def)
  ultimately show ?thesis
    by (simp add: FormatVersion_def formatVersion_def Let_def)
qed

definition example_purl_env :: purl_env where
  "example_purl_env = \<lparr>NewPackageURL = (\<lambda>t ns n v qs sp. \<lparr>PURL_Type = t, PURL_Namespace = ns, PURL_Name = n, PURL_Version = v,
       PURL_Qualifiers = qs, PURL_Subpath = sp\<rparr>),
     purl_String = PURL_Name, NewDigest = (\<lambda>_. Inl (Errorf ''invalid'' [])),
     rpm_version_release = (\<lambda>s. case cut s CHR ''-'' of (v, r, _) \<Rightarrow> (v, r)), purl_lower = (\<lambda>s. s)\<rparr>"

lemma example_purl_env_ok: "purl_env_ok example_purl_env"
  by (simp add: purl_env_ok_def example_purl_env_def)

definition example_rpm :: Package where
  "example_rpm = Package_empty\<lparr>Pkg_Name := ''bash'', Pkg_Version := ''5.1.8'', Pkg_Release := ''6.el9'', Pkg_Epoch := 1,
     Pkg_Arch := ''x86_64''\<rparr>"

definition example_metadata :: Metadata where
  "example_metadata = Metadata_of (Some (OS_empty\<lparr>OS_Family := RedHat, OS_Name := ''9.2''\<rparr>))"

definition example_purl :: PackageURL where
  "example_purl = (case New example_purl_env RedHat example_metadata example_rpm of Some (Inr (Some p)) \<Rightarrow> p)"

theorem purl_roundtrip_witness:
  "FormatVersion (purl_Package example_purl_env example_purl) = ''1:5.1.8-6.el9'' \<and>
   FormatVersion (purl_Package example_purl_env example_purl) = FormatVersion example_rpm"
proof -
  have "New example_purl_env RedHat example_metadata example_rpm = Some (Inr (Some example_purl))" by code_simp
  moreover have "purlType RedHat \<noteq> ''oci''" by code_simp
  moreover have "name_stable example_purl_env (purlType RedHat) (Pkg_Name example_rpm)" by code_simp
  moreover have "0 \<le> Pkg_Epoch example_rpm" "Pkg_Epoch example_rpm \<le> max_int" by code_simp+
  moreover have "rpm_version_release example_purl_env (FormatVersion (example_rpm\<lparr>Pkg_Epoch := 0\<rparr>)) =
      (Pkg_Version example_rpm, Pkg_Release example_rpm)" by code_simp
  ultimately have "FormatVersion (purl_Package example_purl_env example_purl) = FormatVersion example_rpm"
    using purl_roundtrip [OF example_purl_env_ok] by blast
  moreover have "FormatVersion example_rpm = ''1:5.1.8-6.el9''" by code_simp
  ultimately show ?thesis by simp
qed

end
