(* ===== verification/Report_Types.thy ===== *)
theory Report_Types
  imports Fanal_Artifact Crypto_Check Vuln_Types Purl
begin

text \<open>
  The report of a scan, \<open>pkg/types\<close>: results and their findings (\<open>report.go\<close>), modified findings
  (\<open>finding.go\<close>), detected misconfigurations, secrets and licenses. The interface \<open>Finding\<close> is the sum of its
  four implementations and nil, on which no method is called.
\<close>

section \<open>Findings\<close>

type_synonym MisconfStatus = string

abbreviation MisconfStatusPassed :: MisconfStatus where "MisconfStatusPassed \<equiv> ''PASS''"
abbreviation MisconfStatusFailure :: MisconfStatus where "MisconfStatusFailure \<equiv> ''FAIL''"
abbreviation MisconfStatusException :: MisconfStatus where "MisconfStatusException \<equiv> ''EXCEPTION''"

record DetectedMisconfiguration =
  DM_Type :: string
  DM_ID :: string
  DM_AVDID :: string
  DM_Aliases :: "string list"
  DM_Title :: string
  DM_Description :: string
  DM_Message :: string
  DM_Namespace :: string
  DM_Query :: string
  DM_Resolution :: string
  DM_Severity :: string
  DM_PrimaryURL :: string
  DM_References :: "string list"
  DM_Status :: MisconfStatus
  DM_Layer :: Layer
  DM_CauseMetadata :: CauseMetadata
  DM_Traces :: "string list"

type_synonym DetectedSecret = SecretFinding

record DetectedLicense =
  DL_Severity :: string
  DL_Category :: string
  DL_PkgName :: string
  DL_FilePath :: string
  DL_Name :: string
  DL_Text :: string
  DL_Confidence :: float64
  DL_Link :: string

datatype Finding =
    NilFinding
  | FVulnerability DetectedVulnerability
  | FMisconfiguration DetectedMisconfiguration
  | FSecret DetectedSecret
  | FLicense DetectedLicense

fun FindingType :: "Finding \<Rightarrow> string" where
  "FindingType NilFinding = []"
| "FindingType (FVulnerability _) = ''vulnerability''"
| "FindingType (FMisconfiguration _) = ''misconfiguration''"
| "FindingType (FSecret _) = ''secret''"
| "FindingType (FLicense _) = ''license''"

abbreviation FindingStatusIgnored :: string where "FindingStatusIgnored \<equiv> ''ignored''"

record ModifiedFinding =
  MF_Type :: string
  MF_Status :: string
  MF_Statement :: string
  MF_Source :: string
  MF_Finding :: Finding

definition NewModifiedFinding :: "Finding \<Rightarrow> string \<Rightarrow> string \<Rightarrow> string \<Rightarrow> ModifiedFinding" where
  "NewModifiedFinding f status statement source =
     \<lparr>MF_Type = FindingType f, MF_Status = status, MF_Statement = statement, MF_Source = source, MF_Finding = f\<rparr>"

section \<open>Results\<close>

record MisconfSummary =
  Successes :: int
  Failures :: int

definition MisconfSummary_Empty :: "MisconfSummary \<Rightarrow> bool" where
  "MisconfSummary_Empty s \<longleftrightarrow> Successes s = 0 \<and> Failures s = 0"

record Result =
  Res_Target :: string
  Res_Class :: ResultClass
  Res_Type :: string
  Res_Packages :: "Package list"
  Res_Vulnerabilities :: "DetectedVulnerability list"
  Res_MisconfSummary :: "MisconfSummary option"
  Res_Misconfigurations :: "DetectedMisconfiguration list"
  Res_Secrets :: "DetectedSecret list"
  Res_Licenses :: "DetectedLicense list"
  Res_CryptoAssets :: "CryptoAsset list"
  Res_CryptoFindings :: "CryptoFinding list"
  Res_CustomResources :: "CustomResource list"
  Res_ModifiedFindings :: "ModifiedFinding list"

definition Result_empty :: Result where
  "Result_empty = \<lparr>Res_Target = [], Res_Class = [], Res_Type = [], Res_Packages = [], Res_Vulnerabilities = [],
     Res_MisconfSummary = None, Res_Misconfigurations = [], Res_Secrets = [], Res_Licenses = [], Res_CryptoAssets = [],
     Res_CryptoFindings = [], Res_CustomResources = [], Res_ModifiedFindings = []\<rparr>"

definition Result_IsEmpty :: "Result \<Rightarrow> bool" where
  "Result_IsEmpty r \<longleftrightarrow>
     length (Res_Packages r) = 0 \<and> length (Res_Vulnerabilities r) = 0 \<and> length (Res_Misconfigurations r) = 0 \<and>
     length (Res_Secrets r) = 0 \<and> length (Res_Licenses r) = 0 \<and> length (Res_CryptoAssets r) = 0 \<and>
     length (Res_CryptoFindings r) = 0 \<and> length (Res_CustomResources r) = 0 \<and> length (Res_ModifiedFindings r) = 0"

fun Results_Failed :: "Result list \<Rightarrow> bool" where
  "Results_Failed [] = False"
| "Results_Failed (r # rs) =
     (if 0 < length (Res_Vulnerabilities r) then True
      else if \<exists>m \<in> set (Res_Misconfigurations r). DM_Status m = MisconfStatusFailure then True
      else if 0 < length (Res_Secrets r) then True
      else if 0 < length (Res_Licenses r) then True
      else if 0 < length (Res_CryptoFindings r) then True
      else Results_Failed rs)"

definition DropCryptoFindings :: "Result list \<Rightarrow> Result list" where
  "DropCryptoFindings results = map (\<lambda>r. r\<lparr>Res_CryptoFindings := []\<rparr>) results"

end
