(* ===== verification/Scan_Service.thy ===== *)
theory Scan_Service
  imports Ospkg_Detect Lib_Detect Vuln_Info Applier Licensing Report_Types
begin

text \<open>
  The local scan service: options and targets (\<open>pkg/types/scan.go\<close>), hooks (\<open>pkg/extension/hook.go\<close>), the scanners of OS
  and language packages (\<open>pkg/scan/ospkg/scan.go\<close>, \<open>pkg/scan/langpkg/scan.go\<close>) and the service that runs them on the
  merged layers (\<open>pkg/scan/local/service.go\<close>).

  \<open>scan_env\<close> collects the environments of the components it calls, the sorts, the clock and the registered hooks; the
  hooks in the map of \<open>hook.go\<close> have distinct names. A slice that a callee sorts in place is returned sorted. The outer
  option of a result is \<^term>\<open>None\<close> where the code would not return or panic: the normalization of a license, the search
  for a severity, the construction of a package URL. Logging is left out.
\<close>

section \<open>Options and targets (scan.go)\<close>

type_synonym Scanner = string

abbreviation PkgTypeOS :: string where "PkgTypeOS \<equiv> ''os''"
abbreviation PkgTypeLibrary :: string where "PkgTypeLibrary \<equiv> ''library''"

abbreviation SBOMScanner :: Scanner where "SBOMScanner \<equiv> ''sbom''"
abbreviation VulnerabilityScanner :: Scanner where "VulnerabilityScanner \<equiv> ''vuln''"
abbreviation MisconfigScanner :: Scanner where "MisconfigScanner \<equiv> ''misconfig''"
abbreviation SecretScanner :: Scanner where "SecretScanner \<equiv> ''secret''"
abbreviation RBACScanner :: Scanner where "RBACScanner \<equiv> ''rbac''"
abbreviation LicenseScanner :: Scanner where "LicenseScanner \<equiv> ''license''"
abbreviation CryptoScanner :: Scanner where "CryptoScanner \<equiv> ''crypto''"

definition Enabled :: "Scanner list \<Rightarrow> Scanner \<Rightarrow> bool" where
  "Enabled scanners s \<longleftrightarrow> s \<in> set scanners"

definition Enable :: "Scanner list \<Rightarrow> Scanner \<Rightarrow> Scanner list" where
  "Enable scanners s = (if \<not> Enabled scanners s then scanners @ [s] else scanners)"

definition AnyEnabled :: "Scanner list \<Rightarrow> Scanner list \<Rightarrow> bool" where
  "AnyEnabled scanners ss \<longleftrightarrow> list_ex (Enabled scanners) ss"

record scan_Target = ScanTarget +
  Target_Name :: string
  Target_Applications :: "Application list"
  Target_Misconfigurations :: "Misconfiguration list"
  Target_Secrets :: "Secret list"
  Target_Licenses :: "LicenseFile list"
  Target_CryptoAssets :: "CryptoAsset list"
  Target_CustomResources :: "CustomResource list"

record ScanOptions =
  SO_PkgTypes :: "string list"
  SO_PkgRelationships :: "Relationship list"
  SO_Scanners :: "Scanner list"
  SO_ImageConfigScanners :: "Scanner list"
  SO_ScanRemovedPackages :: bool
  SO_LicenseCategories :: "(LicenseCategory \<times> string list) list"
  SO_LicenseFull :: bool
  SO_CryptoChecks :: bool
  SO_IncludeDevDeps :: bool
  SO_Distro :: OS
  SO_VulnSeveritySources :: "SourceID list"

record ScanResponse =
  SR_Results :: "Result list"
  SR_OS :: OS
  SR_Layers :: "Layer list"

section \<open>Hooks (hook.go)\<close>

text \<open>A hook that is no \<open>ScanHook\<close> has no scan methods.\<close>

record Hook =
  Hook_Name :: string
  Hook_Scan :: "((scan_Target \<Rightarrow> ScanOptions \<Rightarrow> scan_Target result) \<times> (Result list \<Rightarrow> Result list result)) option"

definition RegisterHook :: "(string \<times> Hook) list \<Rightarrow> Hook \<Rightarrow> (string \<times> Hook) list" where
  "RegisterHook hooks s = AList.update (Hook_Name s) s hooks"

definition DeregisterHook :: "(string \<times> Hook) list \<Rightarrow> string \<Rightarrow> (string \<times> Hook) list" where
  "DeregisterHook hooks name = AList.delete name hooks"

definition Hooks :: "(Hook list \<Rightarrow> Hook list) \<Rightarrow> (string \<times> Hook) list \<Rightarrow> Hook list" where
  "Hooks sort_hooks hooks = sort_hooks (map snd hooks)"

fun PreScan :: "Hook list \<Rightarrow> scan_Target \<Rightarrow> ScanOptions \<Rightarrow> scan_Target result" where
  "PreScan [] target options = Inr target"
| "PreScan (e # es) target options =
     (case Hook_Scan e of
        None \<Rightarrow> PreScan es target options
      | Some (pre, _) \<Rightarrow>
          bind_result (wrap_err ''%s pre scan error: %w'' [Hook_Name e] (pre target options)) (\<lambda>target1.
            PreScan es target1 options))"

fun PostScan :: "Hook list \<Rightarrow> Result list \<Rightarrow> Result list result" where
  "PostScan [] results = Inr results"
| "PostScan (e # es) results =
     (case Hook_Scan e of
        None \<Rightarrow> PostScan es results
      | Some (_, post) \<Rightarrow>
          bind_result (wrap_err ''%s post scan error: %w'' [Hook_Name e] (post results)) (\<lambda>results1. PostScan es results1))"

section \<open>The environment\<close>

record ('n, 'v, 'c, 'd, 'a, 'r) scan_env =
  sc_applier :: "'n applier_env"
  sc_cache :: cache
  sc_purl :: purl_env
  sc_vuln :: "('d, 'a, 'r) vuln_env"
  sc_ospkg_opts :: "detector_option list"
  sc_lib :: "('v, 'c) lib_env"
  sc_lib_suppliers :: "lib_Supplier list"
  sc_info :: info_env
  sc_license :: license_env
  sc_hooks :: "(string \<times> Hook) list"
  sc_sort_hooks :: "Hook list \<Rightarrow> Hook list"
  sc_sort_packages :: "Package list \<Rightarrow> Package list"
  sc_sort_results :: "Result list \<Rightarrow> Result list"
  sc_sort_matches :: "crypto_match list \<Rightarrow> crypto_match list"
  sc_range_categories :: "license_Scanner \<Rightarrow> license_Scanner"
  sc_builtin_namespace :: "string \<Rightarrow> bool"
  sc_now :: go_time

abbreviation ClassConfig :: ResultClass where "ClassConfig \<equiv> ''config''"
abbreviation ClassSecret :: ResultClass where "ClassSecret \<equiv> ''secret''"
abbreviation ClassLicense :: ResultClass where "ClassLicense \<equiv> ''license''"
abbreviation ClassLicenseFile :: ResultClass where "ClassLicenseFile \<equiv> ''license-file''"
abbreviation scan_ClassCrypto :: ResultClass where "scan_ClassCrypto \<equiv> ''crypto''"
abbreviation ClassCustom :: ResultClass where "ClassCustom \<equiv> ''custom''"

section \<open>OS packages (ospkg/scan.go)\<close>

text \<open>The result, whether the OS is past its end of life, the error, and the packages of the target afterwards.\<close>

definition ospkg_Scan ::
    "('n, 'v, 'c, 'd, 'a, 'r) scan_env \<Rightarrow> scan_Target \<Rightarrow> ScanOptions \<Rightarrow>
      (Result \<times> bool \<times> go_error option) \<times> Package list" where
  "ospkg_Scan env target opts =
     (if \<not> OS_Detected (Target_OS target) then ((Result_empty, False, None), Target_Packages target)
      else if \<not> HasOSPackages (OS_Family (Target_OS target)) then ((Result_empty, False, None), Target_Packages target)
      else
        let os = (if OS_Extended (Target_OS target)
                  then (Target_OS target)\<lparr>OS_Name := OS_Name (Target_OS target) @ ''-ESM''\<rparr> else Target_OS target);
            pkgs = sc_sort_packages env (Target_Packages target);
            target1 = target\<lparr>Target_OS := os, Target_Packages := pkgs\<rparr>;
            result = Result_empty\<lparr>
              Res_Target := Target_Name target1 @ '' ('' @ OS_Family os @ '' '' @ OS_Name os @ '')'',
              Res_Class := ClassOSPkg, Res_Type := OS_Family os, Res_Packages := pkgs\<rparr>
        in (if \<not> Enabled (SO_Scanners opts) VulnerabilityScanner then (result, False, None)
            else case NewDetector (sc_vuln env) (ScanTarget.truncate target1) (sc_ospkg_opts env) of
                   Inl e \<Rightarrow> (result, False, Some (Wrapf ''unable to initialize Detector for OS packages: %w'' [] e))
                 | Inr detector \<Rightarrow>
                     (case Detect detector (sc_now env) of
                        Inl e \<Rightarrow> (result, False, Some (Wrapf ''failed vulnerability detection of OS packages: %w'' [] e))
                      | Inr (vulns, eosl) \<Rightarrow> (result\<lparr>Res_Vulnerabilities := vulns\<rparr>, eosl, None)), pkgs))"

section \<open>Language packages (langpkg/scan.go)\<close>

definition PkgTargets :: "(LangType \<times> string) list" where
  "PkgTargets =
     [(PythonPkg, ''Python''), (CondaPkg, ''Conda''), (GemSpec, ''Ruby''), (NodePkg, ''Node.js''), (Jar, ''Java''),
      (K8sUpstream, ''Kubernetes'')]"

definition langpkg_targetName :: "LangType \<Rightarrow> string \<Rightarrow> string" where
  "langpkg_targetName appType filePath =
     (case map_of PkgTargets appType of
        Some t \<Rightarrow> if filePath = [] then t else filePath
      | None \<Rightarrow> filePath)"

definition langpkg_scanVulnerabilities ::
    "('n, 'v, 'c, 'd, 'a, 'r) scan_env \<Rightarrow> Application \<Rightarrow> DetectedVulnerability list result" where
  "langpkg_scanVulnerabilities env app =
     wrap_err ''failed vulnerability detection of libraries: %w'' []
       (lib_Detect (sc_lib env) (sc_lib_suppliers env) (App_Type app) (App_Packages app))"

text \<open>The loop over the applications: their results, and the applications with sorted packages.\<close>

fun scan_apps ::
    "('n, 'v, 'c, 'd, 'a, 'r) scan_env \<Rightarrow> ScanOptions \<Rightarrow> Application list \<Rightarrow> (Result list \<times> Application list) result" where
  "scan_apps env opts [] = Inr ([], [])"
| "scan_apps env opts (app # apps) =
     (if length (App_Packages app) = 0
      then bind_result (scan_apps env opts apps) (\<lambda>(rs, apps1). Inr (rs, app # apps1))
      else
        let app1 = app\<lparr>App_Packages := sc_sort_packages env (App_Packages app)\<rparr>;
            result = Result_empty\<lparr>Res_Target := langpkg_targetName (App_Type app) (App_FilePath app), Res_Class := ClassLangPkg,
              Res_Type := App_Type app, Res_Packages := App_Packages app1\<rparr>
        in bind_result (if Enabled (SO_Scanners opts) VulnerabilityScanner then langpkg_scanVulnerabilities env app1 else Inr [])
             (\<lambda>vulns.
               let result1 = result\<lparr>Res_Vulnerabilities := vulns\<rparr>
               in bind_result (scan_apps env opts apps) (\<lambda>(rs, apps1).
                    Inr (if length (Res_Packages result1) = 0 \<and> length (Res_Vulnerabilities result1) = 0 then rs
                         else result1 # rs, app1 # apps1))))"

definition langpkg_Scan ::
    "('n, 'v, 'c, 'd, 'a, 'r) scan_env \<Rightarrow> scan_Target \<Rightarrow> ScanOptions \<Rightarrow> (Result list \<times> Application list) result" where
  "langpkg_Scan env target opts =
     (if length (Target_Applications target) = 0 then Inr ([], Target_Applications target)
      else bind_result (scan_apps env opts (Target_Applications target)) (\<lambda>(rs, apps). Inr (sc_sort_results env rs, apps)))"

section \<open>Selecting packages (local/service.go)\<close>

definition filterPkgByRelationship :: "scan_Target \<Rightarrow> ScanOptions \<Rightarrow> scan_Target" where
  "filterPkgByRelationship target options =
     (if SO_PkgRelationships options = Relationships then target
      else
        let keep = filter (\<lambda>pkg. Pkg_Relationship pkg \<in> set (SO_PkgRelationships options))
        in target\<lparr>Target_Packages := keep (Target_Packages target),
             Target_Applications := map (\<lambda>app. app\<lparr>App_Packages := keep (App_Packages app)\<rparr>) (Target_Applications target)\<rparr>)"

definition exclude_app :: "Application \<Rightarrow> Application" where
  "exclude_app app =
     (let devDeps = set (map Pkg_ID (filter Pkg_Dev (App_Packages app)));
          pkgs = filter (\<lambda>pkg. \<not> Pkg_Dev pkg) (App_Packages app)
      in app\<lparr>App_Packages := map (\<lambda>pkg.
           if Pkg_Relationship pkg \<noteq> RelationshipRoot \<and> Pkg_Relationship pkg \<noteq> RelationshipWorkspace then pkg
           else pkg\<lparr>Pkg_DependsOn := filter (\<lambda>dep. dep \<notin> devDeps) (Pkg_DependsOn pkg)\<rparr>) pkgs\<rparr>)"

definition excludeDevDeps :: "Application list \<Rightarrow> bool \<Rightarrow> Application list" where
  "excludeDevDeps apps include = (if include then apps else map exclude_app apps)"

definition excludePackages :: "scan_Target \<Rightarrow> ScanOptions \<Rightarrow> scan_Target" where
  "excludePackages target options =
     (let target1 = filterPkgByRelationship target options
      in target1\<lparr>Target_Applications := excludeDevDeps (Target_Applications target1) (SO_IncludeDevDeps options)\<rparr>)"

definition mergePkgs :: "Package list \<Rightarrow> Package list \<Rightarrow> ScanOptions \<Rightarrow> Package list" where
  "mergePkgs pkgs pkgsFromCommands options =
     (if \<not> SO_ScanRemovedPackages options \<or> length pkgsFromCommands = 0 then pkgs
      else pkgs @ filter (\<lambda>pkg. Pkg_Name pkg \<notin> set (map Pkg_Name pkgs)) pkgsFromCommands)"

definition mergeMisconfigurations :: "string \<Rightarrow> ArtifactDetail \<Rightarrow> Misconfiguration list" where
  "mergeMisconfigurations targetName detail =
     (case IC_Misconfiguration (AD_ImageConfig detail) of
        None \<Rightarrow> AD_Misconfigurations detail
      | Some misconf \<Rightarrow> AD_Misconfigurations detail @ [misconf\<lparr>MC_FilePath := targetName\<rparr>])"

definition local_mergeSecrets :: "string \<Rightarrow> ArtifactDetail \<Rightarrow> Secret list" where
  "local_mergeSecrets targetName detail =
     (case IC_Secret (AD_ImageConfig detail) of
        None \<Rightarrow> AD_Secrets detail
      | Some secret \<Rightarrow> AD_Secrets detail @ [secret\<lparr>Secret_FilePath := targetName\<rparr>])"

section \<open>Findings of the analysis (local/service.go)\<close>

definition toDetectedMisconfiguration ::
    "('n, 'v, 'c, 'd, 'a, 'r) scan_env \<Rightarrow> MisconfResult \<Rightarrow> Severity \<Rightarrow> MisconfStatus \<Rightarrow> Layer \<Rightarrow> DetectedMisconfiguration" where
  "toDetectedMisconfiguration env res defaultSeverity status layer =
     (let policy = MR_PolicyMetadata res;
          severity = (case NewSeverity (sc_info env) (Policy_Severity policy) of Inl _ \<Rightarrow> defaultSeverity | Inr sev \<Rightarrow> sev);
          msg = (if trimSpace (MR_Message res) = [] then ''No issues found'' else trimSpace (MR_Message res));
          builtin = (MR_Namespace res = [] \<or> sc_builtin_namespace env (MR_Namespace res));
          url = ''https://avd.aquasec.com/misconfig/'' @ info_lower (sc_info env) (Policy_ID policy);
          references = (if builtin then Policy_References policy @ [url] else Policy_References policy);
          primaryURL = (if builtin then url else if 0 < length references then references ! 0 else [])
      in \<lparr>DM_Type = Policy_Type policy, DM_ID = Policy_ID policy, DM_AVDID = Policy_AVDID policy,
          DM_Aliases = Policy_Aliases policy, DM_Title = Policy_Title policy, DM_Description = Policy_Description policy,
          DM_Message = msg, DM_Namespace = MR_Namespace res, DM_Query = MR_Query res,
          DM_Resolution = Policy_RecommendedActions policy, DM_Severity = info_severity_String (sc_info env) severity,
          DM_PrimaryURL = primaryURL, DM_References = references, DM_Status = status, DM_Layer = layer,
          DM_CauseMetadata = MR_CauseMetadata res, DM_Traces = MR_Traces res\<rparr>)"

definition misconf_result :: "('n, 'v, 'c, 'd, 'a, 'r) scan_env \<Rightarrow> Misconfiguration \<Rightarrow> Result" where
  "misconf_result env misconf =
     (let detected = (\<lambda>severity status. map (\<lambda>f. toDetectedMisconfiguration env f severity status (MC_Layer misconf)))
      in Result_empty\<lparr>Res_Target := MC_FilePath misconf, Res_Class := ClassConfig, Res_Type := MC_FileType misconf,
           Res_Misconfigurations :=
             detected SeverityCritical MisconfStatusFailure (MC_Failures misconf) @
             detected SeverityMedium MisconfStatusFailure (MC_Warnings misconf) @
             detected SeverityUnknown MisconfStatusPassed (MC_Successes misconf)\<rparr>)"

definition MisconfsToResults :: "('n, 'v, 'c, 'd, 'a, 'r) scan_env \<Rightarrow> Misconfiguration list \<Rightarrow> Result list" where
  "MisconfsToResults env misconfs = sc_sort_results env (map (misconf_result env) misconfs)"

definition ShouldScanMisconfigOrRbac :: "Scanner list \<Rightarrow> bool" where
  "ShouldScanMisconfigOrRbac scanners = AnyEnabled scanners [MisconfigScanner, RBACScanner]"

definition misconfsToResults ::
    "('n, 'v, 'c, 'd, 'a, 'r) scan_env \<Rightarrow> Misconfiguration list \<Rightarrow> ScanOptions \<Rightarrow> Result list" where
  "misconfsToResults env misconfs options =
     (if \<not> ShouldScanMisconfigOrRbac (SO_Scanners options) \<and> \<not> Enabled (SO_ImageConfigScanners options) MisconfigScanner
      then [] else MisconfsToResults env misconfs)"

definition secretsToResults :: "Secret list \<Rightarrow> ScanOptions \<Rightarrow> Result list" where
  "secretsToResults secrets options =
     (if \<not> Enabled (SO_Scanners options) SecretScanner then []
      else map (\<lambda>secret. Result_empty\<lparr>Res_Target := Secret_FilePath secret, Res_Class := ClassSecret,
             Res_Secrets := Secret_Findings secret\<rparr>) secrets)"

section \<open>Licenses (local/service.go)\<close>

abbreviation CustomLicensePrefix :: string where "CustomLicensePrefix \<equiv> ''CUSTOM License''"

definition TrimLicenseText :: "string \<Rightarrow> string" where
  "TrimLicenseText text =
     (let s = split CHR '' '' text; n = min (length s) 3
      in join (take n s) '' '' @ ''...'')"

text \<open>The bit pattern of the confidence 1.0.\<close>

abbreviation confidence_one :: float64 where "confidence_one \<equiv> 4607182418800017408"

definition toDetectedLicense :: "license_env \<Rightarrow> license_Scanner \<Rightarrow> string \<Rightarrow> string \<Rightarrow> string \<Rightarrow> DetectedLicense option" where
  "toDetectedLicense env scanner license pkgName filePath =
     (let detected = (\<lambda>(category, severity) name text. \<lparr>DL_Severity = severity, DL_Category = category, DL_PkgName = pkgName,
            DL_FilePath = filePath, DL_Name = name, DL_Text = text, DL_Confidence = confidence_one, DL_Link = []\<rparr>)
      in if hasPrefix license LicenseTextPrefix
         then let licenseText = drop (length LicenseTextPrefix) license
              in Some (detected (ScanTextLicense env scanner licenseText)
                   (CustomLicensePrefix @ '': '' @ TrimLicenseText licenseText) licenseText)
         else map_option (\<lambda>c. detected c license []) (Scan env scanner license))"

fun detect_licenses :: "('x \<Rightarrow> 'y option) \<Rightarrow> 'x list \<Rightarrow> 'y list option" where
  "detect_licenses f [] = Some []"
| "detect_licenses f (x # xs) = Option.bind (f x) (\<lambda>y. map_option ((#) y) (detect_licenses f xs))"

text \<open>The licenses of packages, with the file of each; a license without a name is not reported.\<close>

definition package_licenses :: "(Package \<Rightarrow> string) \<Rightarrow> Package list \<Rightarrow> (string \<times> string \<times> string) list" where
  "package_licenses file_of pkgs =
     concat (map (\<lambda>pkg. map (\<lambda>license. (license, Pkg_Name pkg, file_of pkg))
       (filter (\<lambda>license. trimSpace license \<noteq> []) (Pkg_Licenses pkg))) pkgs)"

definition scanOSPackageLicenses :: "license_env \<Rightarrow> license_Scanner \<Rightarrow> Package list \<Rightarrow> Result option option" where
  "scanOSPackageLicenses env scanner packages =
     (if length packages = 0 then Some None
      else map_option (\<lambda>ls. Some (Result_empty\<lparr>Res_Target := ''OS Packages'', Res_Class := ClassLicense, Res_Licenses := ls\<rparr>))
             (detect_licenses (\<lambda>(license, name, file). toDetectedLicense env scanner license name file)
                (package_licenses (\<lambda>_. []) packages)))"

definition app_licenses :: "license_env \<Rightarrow> license_Scanner \<Rightarrow> Application \<Rightarrow> Result list option" where
  "app_licenses env scanner app =
     map_option (\<lambda>ls.
         if length ls \<noteq> 0
         then [Result_empty\<lparr>Res_Target := langpkg_targetName (App_Type app) (App_FilePath app), Res_Class := ClassLicense, Res_Licenses := ls\<rparr>]
         else [])
       (detect_licenses (\<lambda>(license, name, file). toDetectedLicense env scanner license name file)
          (package_licenses (\<lambda>lib. if Pkg_FilePath lib \<noteq> [] then Pkg_FilePath lib else App_FilePath app) (App_Packages app)))"

definition scanApplicationLicenses :: "license_env \<Rightarrow> license_Scanner \<Rightarrow> Application list \<Rightarrow> Result list option" where
  "scanApplicationLicenses env scanner apps = map_option concat (detect_licenses (app_licenses env scanner) apps)"

definition file_license :: "license_env \<Rightarrow> license_Scanner \<Rightarrow> string \<times> LicenseFinding \<Rightarrow> DetectedLicense option" where
  "file_license env scanner x =
     (case x of (path, finding) \<Rightarrow>
        map_option (\<lambda>(category, severity). \<lparr>DL_Severity = severity, DL_Category = category, DL_PkgName = [], DL_FilePath = path,
            DL_Name = LF_Name finding, DL_Text = [], DL_Confidence = LF_Confidence finding, DL_Link = LF_Link finding\<rparr>)
          (Scan env scanner (LF_Name finding)))"

definition scanFileLicenses ::
    "license_env \<Rightarrow> license_Scanner \<Rightarrow> LicenseFile list \<Rightarrow> ScanOptions \<Rightarrow> Result option option" where
  "scanFileLicenses env scanner licenses options =
     (if \<not> SO_LicenseFull options then Some None
      else map_option (\<lambda>ls. Some (Result_empty\<lparr>Res_Target := ''Loose File License(s)'', Res_Class := ClassLicenseFile, Res_Licenses := ls\<rparr>))
             (detect_licenses (file_license env scanner)
               (concat (map (\<lambda>license. map (Pair (License_FilePath license)) (License_Findings license)) licenses))))"

definition scanLicenses :: "('n, 'v, 'c, 'd, 'a, 'r) scan_env \<Rightarrow> scan_Target \<Rightarrow> ScanOptions \<Rightarrow> Result list option" where
  "scanLicenses env target options =
     (if \<not> Enabled (SO_Scanners options) LicenseScanner then Some []
      else
        let lenv = sc_license env;
            scanner = sc_range_categories env (NewScanner lenv (SO_LicenseCategories options))
        in Option.bind (if PkgTypeOS \<in> set (SO_PkgTypes options) then scanOSPackageLicenses lenv scanner (Target_Packages target)
                        else Some None) (\<lambda>os.
           Option.bind (if PkgTypeLibrary \<in> set (SO_PkgTypes options)
                        then scanApplicationLicenses lenv scanner (Target_Applications target) else Some []) (\<lambda>apps.
           Option.bind (scanFileLicenses lenv scanner (Target_Licenses target) options) (\<lambda>files.
           Some ((case os of Some r \<Rightarrow> [r] | None \<Rightarrow> []) @ apps @ (case files of Some r \<Rightarrow> [r] | None \<Rightarrow> []))))))"

section \<open>The scan (local/service.go)\<close>

text \<open>The OS packages: their result if there is one, the end of life and the target afterwards.\<close>

definition scan_os ::
    "('n, 'v, 'c, 'd, 'a, 'r) scan_env \<Rightarrow> scan_Target \<Rightarrow> ScanOptions \<Rightarrow> (Result list \<times> bool \<times> scan_Target) result" where
  "scan_os env target options =
     (if PkgTypeOS \<in> set (SO_PkgTypes options) then
        (case ospkg_Scan env target options of
           ((vuln, detectedEOSL, err), pkgs) \<Rightarrow>
             let target1 = target\<lparr>Target_Packages := pkgs\<rparr>
             in case err of
                  Some e \<Rightarrow> if is_error e ErrUnsupportedOS then Inr ([], False, target1)
                            else Inl (Wrapf ''unable to scan OS packages: %w'' [] e)
                | None \<Rightarrow> if Res_Target vuln \<noteq> [] then Inr ([vuln], detectedEOSL, target1) else Inr ([], False, target1))
      else Inr ([], False, target))"

definition scan_libraries ::
    "('n, 'v, 'c, 'd, 'a, 'r) scan_env \<Rightarrow> scan_Target \<Rightarrow> ScanOptions \<Rightarrow> (Result list \<times> scan_Target) result" where
  "scan_libraries env target options =
     (if PkgTypeLibrary \<in> set (SO_PkgTypes options)
      then bind_result (wrap_err ''failed to scan application libraries: %w'' [] (langpkg_Scan env target options))
             (\<lambda>(vulns, apps). Inr (vulns, target\<lparr>Target_Applications := apps\<rparr>))
      else Inr ([], target))"

definition scanVulnerabilities ::
    "('n, 'v, 'c, 'd, 'a, 'r) scan_env \<Rightarrow> scan_Target \<Rightarrow> ScanOptions \<Rightarrow> (Result list \<times> bool \<times> scan_Target) result" where
  "scanVulnerabilities env target options =
     (if \<not> AnyEnabled (SO_Scanners options) [SBOMScanner, VulnerabilityScanner] then Inr ([], False, target)
      else bind_result (scan_os env target options) (\<lambda>(results, eosl, target1).
           bind_result (scan_libraries env target1 options) (\<lambda>(vulns, target2). Inr (results @ vulns, eosl, target2))))"

fun fill_results :: "info_env \<Rightarrow> Result list \<Rightarrow> SourceID list \<Rightarrow> Result list option" where
  "fill_results env [] sources = Some []"
| "fill_results env (r # rs) sources =
     Option.bind (FillInfo env (Res_Vulnerabilities r) sources) (\<lambda>vs.
       map_option ((#) (r\<lparr>Res_Vulnerabilities := vs\<rparr>)) (fill_results env rs sources))"

definition crypto_results :: "('n, 'v, 'c, 'd, 'a, 'r) scan_env \<Rightarrow> scan_Target \<Rightarrow> ScanOptions \<Rightarrow> Result list" where
  "crypto_results env target options =
     (if Enabled (SO_Scanners options) CryptoScanner \<and> length (Target_CryptoAssets target) \<noteq> 0
      then let assets = AssessStrength (Target_CryptoAssets target);
               result = Result_empty\<lparr>Res_Target := Target_Name target, Res_Class := scan_ClassCrypto, Res_CryptoAssets := assets\<rparr>
           in [if SO_CryptoChecks options
               then result\<lparr>Res_CryptoFindings := Evaluate (sc_sort_matches env) assets (sc_now env)\<rparr> else result]
      else [])"

definition custom_results :: "scan_Target \<Rightarrow> Result list" where
  "custom_results target =
     (if length (Target_CustomResources target) \<noteq> 0
      then [Result_empty\<lparr>Res_Class := ClassCustom, Res_CustomResources := Target_CustomResources target\<rparr>] else [])"

definition service_ScanTarget ::
    "('n, 'v, 'c, 'd, 'a, 'r) scan_env \<Rightarrow> scan_Target \<Rightarrow> ScanOptions \<Rightarrow> (Result list \<times> OS) result option" where
  "service_ScanTarget env target0 options =
     (let hooks = Hooks (sc_sort_hooks env) (sc_hooks env)
      in case wrap_err ''pre scan error: %w'' [] (PreScan hooks target0 options) of
           Inl e \<Rightarrow> Some (Inl e)
         | Inr target1 \<Rightarrow>
             let target2 = excludePackages target1 options
             in case wrap_err ''failed to detect vulnerabilities: %w'' [] (scanVulnerabilities env target2 options) of
                  Inl e \<Rightarrow> Some (Inl e)
                | Inr (vulnResults, eosl, target3) \<Rightarrow>
                    let target4 = target3\<lparr>Target_OS := (Target_OS target3)\<lparr>OS_Eosl := eosl\<rparr>\<rparr>
                    in Option.bind (scanLicenses env target4 options) (\<lambda>licenses.
                       Option.bind (fill_results (sc_info env)
                         (vulnResults @ misconfsToResults env (Target_Misconfigurations target4) options @
                          secretsToResults (Target_Secrets target4) options @ licenses @
                          crypto_results env target4 options @ custom_results target4)
                         (SO_VulnSeveritySources options)) (\<lambda>results.
                       Some (bind_result (wrap_err ''post scan error: %w'' [] (PostScan hooks results)) (\<lambda>results1.
                         Inr (results1, Target_OS target4))))))"

fun override_purls :: "purl_env \<Rightarrow> OS \<Rightarrow> Package list \<Rightarrow> Package list option" where
  "override_purls env os [] = Some []"
| "override_purls env os (pkg # pkgs) =
     Option.bind
       (if Pkg_Name pkg = [] then Some pkg
        else Option.bind (New env (OS_Family os) (Metadata_of (Some os)) pkg) (\<lambda>r.
               case r of
                 Inr (Some p) \<Rightarrow> Some (pkg\<lparr>Pkg_Identifier := (Pkg_Identifier pkg)\<lparr>Id_PURL := Some p\<rparr>\<rparr>)
               | _ \<Rightarrow> Some pkg))
       (\<lambda>pkg1. map_option ((#) pkg1) (override_purls env os pkgs))"

text \<open>The switch on the error of the applier: the detail to go on with, or the error.\<close>

definition applied_detail :: "ArtifactDetail \<times> go_error option \<Rightarrow> ArtifactDetail result" where
  "applied_detail r =
     (case r of (detail, err) \<Rightarrow>
        if err \<noteq> None \<and> is_error (the err) ErrUnknownOS then
          let detail1 = (if length (AD_Packages detail) \<noteq> 0 then detail\<lparr>AD_OS := OS_empty\<lparr>OS_Family := ''none''\<rparr>\<rparr> else detail)
          in Inr (case AD_Repository detail1 of
                    Some repo \<Rightarrow> detail1\<lparr>AD_OS := OS_empty\<lparr>OS_Family := Repo_Family repo, OS_Name := Repo_Release repo\<rparr>\<rparr>
                  | None \<Rightarrow> detail1)
        else if \<not> HasOSPackages (OS_Family (AD_OS detail)) then Inr detail
        else if err \<noteq> None \<and> is_error (the err) ErrNoPkgsDetected then Inr detail
        else if err \<noteq> None then Inl (Wrapf ''failed to apply layers: %w'' [] (the err))
        else Inr detail)"

definition override_distro :: "purl_env \<Rightarrow> ScanOptions \<Rightarrow> ArtifactDetail \<Rightarrow> ArtifactDetail option" where
  "override_distro env options detail =
     (if SO_Distro options \<noteq> OS_empty \<and> AD_OS detail \<noteq> OS_empty
      then map_option (\<lambda>pkgs. detail\<lparr>AD_OS := SO_Distro options, AD_Packages := pkgs\<rparr>)
             (override_purls env (SO_Distro options) (AD_Packages detail))
      else Some detail)"

definition target_of :: "string \<Rightarrow> ArtifactDetail \<Rightarrow> ScanOptions \<Rightarrow> scan_Target" where
  "target_of targetName detail options =
     \<lparr>Target_OS = AD_OS detail,
      Target_Repository = (if SO_Distro options = OS_empty then AD_Repository detail else None),
      Target_Packages = mergePkgs (AD_Packages detail) (IC_Packages (AD_ImageConfig detail)) options,
      Target_Name = targetName,
      Target_Applications = AD_Applications detail,
      Target_Misconfigurations = mergeMisconfigurations targetName detail,
      Target_Secrets = local_mergeSecrets targetName detail,
      Target_Licenses = AD_Licenses detail,
      Target_CryptoAssets = AD_CryptoAssets detail,
      Target_CustomResources = AD_CustomResources detail\<rparr>"

definition service_Scan ::
    "('n, 'v, 'c, 'd, 'a, 'r) scan_env \<Rightarrow> string \<Rightarrow> string \<Rightarrow> string list \<Rightarrow> ScanOptions \<Rightarrow> ScanResponse result option" where
  "service_Scan env targetName artifactKey blobKeys options =
     (case applied_detail (applier_ApplyLayers (sc_applier env) (sc_cache env) artifactKey blobKeys) of
        Inl e \<Rightarrow> Some (Inl e)
      | Inr detail0 \<Rightarrow>
          Option.bind (override_distro (sc_purl env) options detail0) (\<lambda>detail.
          map_option (\<lambda>r. bind_result r (\<lambda>(results, os).
              Inr \<lparr>SR_Results = results, SR_OS = os, SR_Layers = AD_Layers detail\<rparr>))
            (service_ScanTarget env (target_of targetName detail options) options)))"

section \<open>What is scanned\<close>

text \<open>The contract of the sorts, and a service without hooks or detector options.\<close>

definition scan_ok :: "('n, 'v, 'c, 'd, 'a, 'r) scan_env \<Rightarrow> bool" where
  "scan_ok env \<longleftrightarrow>
     env_ok (sc_vuln env) \<and> sc_ospkg_opts env = [] \<and> sc_hooks env = [] \<and>
     sorter (less_cmp (\<lambda>a b. Hook_Name a < Hook_Name b)) (sc_sort_hooks env) \<and>
     sorter (less_cmp Packages_Less) (sc_sort_packages env) \<and>
     sorter (less_cmp (\<lambda>a b. Res_Target a < Res_Target b)) (sc_sort_results env)"

lemma scan_ok_sets:
  assumes "scan_ok env"
  shows "set (sc_sort_packages env ps) = set ps" "set (sc_sort_results env rs) = set rs"
  using assms sorter.sort_set unfolding scan_ok_def by blast+

lemma scan_ok_Hooks: "scan_ok env \<Longrightarrow> Hooks (sc_sort_hooks env) (sc_hooks env) = []"
  using sorter.sort_Nil by (auto simp: scan_ok_def Hooks_def)

text \<open>A package of the target that the options select.\<close>

definition selected :: "ScanOptions \<Rightarrow> Package \<Rightarrow> bool" where
  "selected options p \<longleftrightarrow> SO_PkgRelationships options = Relationships \<or> Pkg_Relationship p \<in> set (SO_PkgRelationships options)"

text \<open>The packages of an application after the selection, up to dropped dependencies.\<close>

definition from_app :: "ScanOptions \<Rightarrow> scan_Target \<Rightarrow> LangType \<Rightarrow> Package \<Rightarrow> bool" where
  "from_app options target t p \<longleftrightarrow>
     (\<exists>app \<in> set (Target_Applications target). App_Type app = t \<and>
       (\<exists>q \<in> set (App_Packages app). q = p\<lparr>Pkg_DependsOn := Pkg_DependsOn q\<rparr> \<and> (\<not> SO_IncludeDevDeps options \<longrightarrow> \<not> Pkg_Dev q)))"

lemma excludePackages_os:
  "set (Target_Packages (excludePackages target options)) = {p \<in> set (Target_Packages target). selected options p}"
  by (auto simp: excludePackages_def filterPkgByRelationship_def selected_def Let_def)

lemma exclude_app_packages:
  "p \<in> set (App_Packages (exclude_app app)) \<Longrightarrow>
     \<exists>q \<in> set (App_Packages app). q = p\<lparr>Pkg_DependsOn := Pkg_DependsOn q\<rparr> \<and> \<not> Pkg_Dev q"
proof -
  assume "p \<in> set (App_Packages (exclude_app app))"
  then obtain q ds where "q \<in> set (App_Packages app)" "\<not> Pkg_Dev q" "p = q \<or> p = q\<lparr>Pkg_DependsOn := ds\<rparr>"
    by (auto simp: exclude_app_def Let_def split: if_splits)
  then show ?thesis by (intro bexI [of _ q]) auto
qed

lemma App_Type_exclude_app [simp]: "App_Type (exclude_app app) = App_Type app"
  by (simp add: exclude_app_def Let_def)

lemma excludePackages_apps:
  assumes "app \<in> set (Target_Applications (excludePackages target options))" "p \<in> set (App_Packages app)"
  shows "from_app options target (App_Type app) p \<and> selected options p"
proof -
  let ?t1 = "filterPkgByRelationship target options"
  have sel: "\<exists>a1 \<in> set (Target_Applications target). App_Type a1 = App_Type a \<and> q \<in> set (App_Packages a1) \<and> selected options q"
    if "a \<in> set (Target_Applications ?t1)" "q \<in> set (App_Packages a)" for a q
    using that by (auto simp: filterPkgByRelationship_def selected_def Let_def split: if_splits)
  show ?thesis
  proof (cases "SO_IncludeDevDeps options")
    case True
    then have "app \<in> set (Target_Applications ?t1)" using assms(1) by (simp add: excludePackages_def excludeDevDeps_def Let_def)
    from sel [OF this assms(2)] show ?thesis using True unfolding from_app_def by (metis Package.surjective Package.update_convs(21))
  next
    case False
    then obtain a where a: "a \<in> set (Target_Applications ?t1)" "app = exclude_app a"
      using assms(1) by (auto simp: excludePackages_def excludeDevDeps_def Let_def)
    then obtain q where q: "q \<in> set (App_Packages a)" "q = p\<lparr>Pkg_DependsOn := Pkg_DependsOn q\<rparr>" "\<not> Pkg_Dev q"
      using exclude_app_packages assms(2) by blast
    have "selected options p \<longleftrightarrow> selected options q" using q(2) unfolding selected_def by (metis Package.select_convs(20) Package.surjective Package.update_convs(21))
    then show ?thesis using sel [OF a(1) q(1)] q a(2) unfolding from_app_def by auto
  qed
qed

text \<open>What the scan of the packages yields.\<close>

lemma ospkg_Scan_about:
  assumes "scan_ok env" "ospkg_Scan env target opts = ((r, eosl, None), pkgs)" "v \<in> set (Res_Vulnerabilities r)"
  shows "Res_Class r = ClassOSPkg \<and> Enabled (SO_Scanners opts) VulnerabilityScanner \<and>
    (\<exists>p \<in> set (Res_Packages r). about v p \<and> p \<in> set (Target_Packages target) \<and> Pkg_Name p \<noteq> ''gpg-pubkey'')"
proof -
  let ?os = "if OS_Extended (Target_OS target)
    then (Target_OS target)\<lparr>OS_Name := OS_Name (Target_OS target) @ ''-ESM''\<rparr> else Target_OS target"
  let ?pkgs = "sc_sort_packages env (Target_Packages target)"
  let ?t = "ScanTarget.truncate (target\<lparr>Target_OS := ?os, Target_Packages := ?pkgs\<rparr>)"
  have "Enabled (SO_Scanners opts) VulnerabilityScanner"
    using assms(2,3) by (auto simp: ospkg_Scan_def Result_empty_def Let_def split: if_splits)
  then obtain d vs where d: "NewDetector (sc_vuln env) ?t [] = Inr d" "Detect d (sc_now env) = Inr (vs, eosl)"
    "Res_Vulnerabilities r = vs" "Res_Packages r = ?pkgs" "Res_Class r = ClassOSPkg"
    using assms(1,2,3) by (auto simp: ospkg_Scan_def scan_ok_def Result_empty_def Let_def split: if_splits sum.splits)
  have "env_ok (sc_vuln env)" using assms(1) by (simp add: scan_ok_def)
  from Detect_about [OF this d(1,2)] assms(3) obtain p where "p \<in> set (Target_Packages ?t)" "about v p" "Pkg_Name p \<noteq> ''gpg-pubkey''"
    unfolding d(3) by blast
  moreover have "Target_Packages ?t = ?pkgs" by (simp add: ScanTarget.defs)
  ultimately show ?thesis
    using d(4,5) scan_ok_sets(1) [OF assms(1)] \<open>Enabled (SO_Scanners opts) VulnerabilityScanner\<close> by auto
qed

lemma lib_Detect_about:
  assumes "lib_Detect env sups t pkgs = Inr vs" "v \<in> set vs"
  shows "\<exists>p \<in> set pkgs. about v p"
proof -
  obtain d where "collect (detect_package env sups d) pkgs = Inr vs"
    using assms by (auto simp: lib_Detect_def lib_detect_def split: option.splits)
  then show ?thesis
    using assms(2) detect_package_set
    by (fastforce dest!: collect_Inr_set simp: finding_of_def about_def lib_vuln_def)
qed

lemma scan_apps_about:
  assumes "scan_ok env" "scan_apps env opts apps = Inr (rs, apps1)" "r \<in> set rs"
  shows "Res_Class r = ClassLangPkg \<and>
    (\<exists>app \<in> set apps. App_Type app = Res_Type r \<and> set (Res_Packages r) = set (App_Packages app)) \<and>
    (\<forall>v \<in> set (Res_Vulnerabilities r). Enabled (SO_Scanners opts) VulnerabilityScanner \<and> (\<exists>p \<in> set (Res_Packages r). about v p))"
  using assms(2,3)
proof (induction apps arbitrary: rs apps1)
  case (Cons app apps)
  show ?case
  proof (cases "App_Packages app = []")
    case True
    then show ?thesis using Cons by auto
  next
    case False
    let ?app = "app\<lparr>App_Packages := sc_sort_packages env (App_Packages app)\<rparr>"
    obtain vs rs1 apps2 where 1:
      "(if Enabled (SO_Scanners opts) VulnerabilityScanner then langpkg_scanVulnerabilities env ?app else Inr []) = Inr vs"
      "scan_apps env opts apps = Inr (rs1, apps2)"
      using Cons.prems(1) False by (auto simp: Let_def)
    let ?r = "Result_empty\<lparr>Res_Target := langpkg_targetName (App_Type app) (App_FilePath app), Res_Class := ClassLangPkg,
      Res_Type := App_Type app, Res_Packages := App_Packages ?app, Res_Vulnerabilities := vs\<rparr>"
    have "r = ?r \<or> r \<in> set rs1"
      using Cons.prems False 1 by (auto simp: Let_def split: if_splits)
    moreover have "Enabled (SO_Scanners opts) VulnerabilityScanner \<and> (\<exists>p \<in> set (App_Packages ?app). about v p)" if "v \<in> set vs" for v
      using 1(1) that lib_Detect_about by (auto simp: langpkg_scanVulnerabilities_def split: if_splits)
    ultimately show ?thesis
      using Cons.IH [OF 1(2)] scan_ok_sets(1) [OF assms(1)] by auto
  qed
qed simp

text \<open>Where a result of the package scan comes from.\<close>

definition vuln_result_ok :: "ScanOptions \<Rightarrow> scan_Target \<Rightarrow> Result \<Rightarrow> bool" where
  "vuln_result_ok opts target r \<longleftrightarrow>
     Res_Misconfigurations r = [] \<and> Res_Secrets r = [] \<and> Res_Licenses r = [] \<and> Res_CryptoAssets r = [] \<and> Res_CryptoFindings r = [] \<and>
     (\<forall>v \<in> set (Res_Vulnerabilities r). Enabled (SO_Scanners opts) VulnerabilityScanner \<and>
       (\<exists>p \<in> set (Res_Packages r). about v p \<and> selected opts p \<and>
         (Res_Class r = ClassOSPkg \<and> p \<in> set (Target_Packages target) \<and> Pkg_Name p \<noteq> ''gpg-pubkey'' \<or>
          Res_Class r = ClassLangPkg \<and> from_app opts target (Res_Type r) p)))"

lemma scan_apps_plain:
  "scan_apps env opts apps = Inr (rs, apps1) \<Longrightarrow> r \<in> set rs \<Longrightarrow>
     Res_Misconfigurations r = [] \<and> Res_Secrets r = [] \<and> Res_Licenses r = [] \<and> Res_CryptoAssets r = [] \<and> Res_CryptoFindings r = []"
proof (induction apps arbitrary: rs apps1)
  case (Cons app apps)
  then show ?case by (auto simp: Let_def Result_empty_def split: if_splits)
qed simp

lemma ospkg_Scan_plain:
  "ospkg_Scan env target opts = ((r, eosl, err), pkgs) \<Longrightarrow>
     Res_Misconfigurations r = [] \<and> Res_Secrets r = [] \<and> Res_Licenses r = [] \<and> Res_CryptoAssets r = [] \<and> Res_CryptoFindings r = []"
  by (auto simp: ospkg_Scan_def Let_def Result_empty_def split: if_splits sum.splits prod.splits)

lemma os_results_ok:
  assumes "scan_ok env" "ospkg_Scan env (excludePackages target opts) opts = ((r, eosl, None), pkgs)"
  shows "vuln_result_ok opts target r"
  using ospkg_Scan_about [OF assms] ospkg_Scan_plain [OF assms(2)] excludePackages_os [of target opts]
  unfolding vuln_result_ok_def by blast

lemma lang_results_ok:
  assumes "scan_ok env" "Target_Applications t1 = Target_Applications (excludePackages target opts)"
    and "langpkg_Scan env t1 opts = Inr (rs, apps)" "r \<in> set rs"
  shows "vuln_result_ok opts target r"
proof -
  obtain rs1 where rs1: "scan_apps env opts (Target_Applications t1) = Inr (rs1, apps)" "r \<in> set rs1"
    using assms(3,4) scan_ok_sets(2) [OF assms(1)] by (auto simp: langpkg_Scan_def split: if_splits)
  note a = scan_apps_about [OF assms(1) rs1] scan_apps_plain [OF rs1]
  then obtain app where app: "app \<in> set (Target_Applications (excludePackages target opts))" "App_Type app = Res_Type r"
    "set (Res_Packages r) = set (App_Packages app)" unfolding assms(2) by blast
  have "from_app opts target (Res_Type r) p \<and> selected opts p" if "p \<in> set (Res_Packages r)" for p
    using excludePackages_apps [OF app(1), of p] app(2,3) that by simp
  then show ?thesis using a unfolding vuln_result_ok_def by blast
qed

lemma scanVulnerabilities_ok:
  assumes "scan_ok env" "scanVulnerabilities env (excludePackages target opts) opts = Inr (rs, eosl, t')" "r \<in> set rs"
  shows "vuln_result_ok opts target r"
proof -
  let ?t = "excludePackages target opts"
  obtain results eosl1 t1 vulns where os: "scan_os env ?t opts = Inr (results, eosl1, t1)"
    and libs: "scan_libraries env t1 opts = Inr (vulns, t')" and r: "r \<in> set results \<or> r \<in> set vulns"
    using assms(2,3) unfolding scanVulnerabilities_def by (auto split: if_splits)
  obtain vuln e err pkgs where scan: "ospkg_Scan env ?t opts = ((vuln, e, err), pkgs)" by (metis surj_pair)
  have apps: "Target_Applications t1 = Target_Applications ?t" and results: "set results \<subseteq> (if err = None then {vuln} else {})"
    using os by (auto simp: scan_os_def scan Let_def split: if_splits option.splits)
  show ?thesis
  proof (cases "r \<in> set results")
    case True
    then have "r = vuln" "err = None" using results by (auto split: if_splits)
    then show ?thesis using os_results_ok [OF assms(1)] scan by blast
  next
    case False
    then obtain as where "langpkg_Scan env t1 opts = Inr (vulns, as)" "r \<in> set vulns"
      using libs r by (auto simp: scan_libraries_def split: if_splits)
    then show ?thesis using lang_results_ok [OF assms(1) apps] by blast
  qed
qed

lemma fill_results_all2:
  "fill_results env rs sources = Some rs' \<longleftrightarrow>
     list_all2 (\<lambda>r r'. \<exists>vs. FillInfo env (Res_Vulnerabilities r) sources = Some vs \<and> r' = r\<lparr>Res_Vulnerabilities := vs\<rparr>) rs rs'"
proof (induction rs arbitrary: rs')
  case (Cons r rs)
  then show ?case by (cases rs') (auto simp: Option.bind_eq_Some_conv)
qed auto

lemma same_finding_about: "same_finding w v \<Longrightarrow> about w p \<longleftrightarrow> about v p"
  by (simp add: same_finding_def about_def)

lemma vuln_result_ok_filled:
  assumes "vuln_result_ok opts target r" "FillInfo env (Res_Vulnerabilities r) sources = Some vs"
  shows "vuln_result_ok opts target (r\<lparr>Res_Vulnerabilities := vs\<rparr>)"
proof -
  have "\<exists>v0 \<in> set (Res_Vulnerabilities r). same_finding v v0" if "v \<in> set vs" for v
    using assms(2) that fill_vuln_same unfolding FillInfo_all2 by (fastforce simp: list_all2_conv_all_nth in_set_conv_nth)
  then show ?thesis using assms(1) same_finding_about unfolding vuln_result_ok_def by simp meson
qed

text \<open>The other results.\<close>

definition other_result_ok :: "ScanOptions \<Rightarrow> Result \<Rightarrow> bool" where
  "other_result_ok opts r \<longleftrightarrow>
     Res_Vulnerabilities r = [] \<and>
     (Res_Misconfigurations r \<noteq> [] \<longrightarrow>
        AnyEnabled (SO_Scanners opts) [MisconfigScanner, RBACScanner] \<or> Enabled (SO_ImageConfigScanners opts) MisconfigScanner) \<and>
     (Res_Secrets r \<noteq> [] \<longrightarrow> Enabled (SO_Scanners opts) SecretScanner) \<and>
     (Res_Licenses r \<noteq> [] \<longrightarrow> Enabled (SO_Scanners opts) LicenseScanner) \<and>
     (Res_CryptoAssets r \<noteq> [] \<or> Res_CryptoFindings r \<noteq> [] \<longrightarrow> Enabled (SO_Scanners opts) CryptoScanner) \<and>
     (Res_CryptoFindings r \<noteq> [] \<longrightarrow> SO_CryptoChecks opts)"

definition license_only :: "Result \<Rightarrow> bool" where
  "license_only r \<longleftrightarrow> Res_Vulnerabilities r = [] \<and> Res_Misconfigurations r = [] \<and> Res_Secrets r = [] \<and> Res_CryptoAssets r = [] \<and>
     Res_CryptoFindings r = []"

lemma detect_licenses_set: "detect_licenses f xs = Some ys \<Longrightarrow> y \<in> set ys \<Longrightarrow> \<exists>x \<in> set xs. f x = Some y"
  by (induction xs arbitrary: ys) (auto simp: Option.bind_eq_Some_conv)

lemma scanOSPackageLicenses_only: "scanOSPackageLicenses lenv sc ps = Some (Some r) \<Longrightarrow> license_only r"
  by (auto simp: scanOSPackageLicenses_def license_only_def Result_empty_def split: if_splits)

lemma scanFileLicenses_only: "scanFileLicenses lenv sc ls opts = Some (Some r) \<Longrightarrow> license_only r"
  by (auto simp: scanFileLicenses_def license_only_def Result_empty_def split: if_splits)

lemma scanApplicationLicenses_only:
  assumes "scanApplicationLicenses lenv sc apps = Some rs" "r \<in> set rs"
  shows "license_only r"
proof -
  obtain rss where "detect_licenses (app_licenses lenv sc) apps = Some rss" "rs = concat rss"
    using assms(1) by (auto simp: scanApplicationLicenses_def)
  then obtain app rs1 where "app_licenses lenv sc app = Some rs1" "r \<in> set rs1"
    using assms(2) detect_licenses_set by fastforce
  then show ?thesis by (auto simp: app_licenses_def license_only_def Result_empty_def split: if_splits)
qed

lemma scanLicenses_ok:
  assumes "scanLicenses env target opts = Some rs" "r \<in> set rs"
  shows "other_result_ok opts r"
proof -
  let ?sc = "sc_range_categories env (NewScanner (sc_license env) (SO_LicenseCategories opts))"
  have enabled: "Enabled (SO_Scanners opts) LicenseScanner" using assms by (auto simp: scanLicenses_def split: if_splits)
  let ?a = "if PkgTypeOS \<in> set (SO_PkgTypes opts) then scanOSPackageLicenses (sc_license env) ?sc (Target_Packages target) else Some None"
  let ?b = "if PkgTypeLibrary \<in> set (SO_PkgTypes opts) then scanApplicationLicenses (sc_license env) ?sc (Target_Applications target) else Some []"
  let ?c = "scanFileLicenses (sc_license env) ?sc (Target_Licenses target) opts"
  have "Option.bind ?a (\<lambda>a. Option.bind ?b (\<lambda>b. Option.bind ?c (\<lambda>c.
      Some ((case a of Some r \<Rightarrow> [r] | None \<Rightarrow> []) @ b @ (case c of Some r \<Rightarrow> [r] | None \<Rightarrow> []))))) = Some rs"
    using assms(1) enabled by (simp add: scanLicenses_def Let_def)
  then obtain a b c where parts: "?a = Some a" "?b = Some b" "?c = Some c"
    and rs: "rs = (case a of Some r \<Rightarrow> [r] | None \<Rightarrow> []) @ b @ (case c of Some r \<Rightarrow> [r] | None \<Rightarrow> [])"
    by (cases ?a; cases ?b; cases ?c) (simp_all del: if_split)
  have "a = Some r \<or> r \<in> set b \<or> c = Some r" using assms(2) rs by (auto split: option.splits)
  then have "license_only r"
  proof (elim disjE)
    assume "a = Some r"
    then show ?thesis using parts(1) scanOSPackageLicenses_only by (simp split: if_split_asm)
  next
    assume "r \<in> set b"
    then show ?thesis using parts(2) scanApplicationLicenses_only by (auto split: if_split_asm)
  next
    assume "c = Some r"
    then show ?thesis using parts(3) scanFileLicenses_only by simp
  qed
  then show ?thesis using enabled by (auto simp: other_result_ok_def license_only_def)
qed

lemma other_results_ok:
  assumes "scan_ok env" "scanLicenses env target opts = Some licenses"
    and "r \<in> set (misconfsToResults env misconfs opts @ secretsToResults secrets opts @ licenses @ crypto_results env target opts @
      custom_results target)"
  shows "other_result_ok opts r"
proof -
  have "other_result_ok opts r" if "r \<in> set (misconfsToResults env misconfs opts)"
    using that scan_ok_sets(2) [OF assms(1)]
    by (auto simp: misconfsToResults_def MisconfsToResults_def misconf_result_def other_result_ok_def Result_empty_def
        ShouldScanMisconfigOrRbac_def Let_def split: if_splits)
  moreover have "other_result_ok opts r" if "r \<in> set (secretsToResults secrets opts)"
    using that by (auto simp: secretsToResults_def other_result_ok_def Result_empty_def split: if_splits)
  moreover have "other_result_ok opts r" if "r \<in> set (crypto_results env target opts @ custom_results target)"
    using that by (auto simp: crypto_results_def custom_results_def other_result_ok_def Result_empty_def Let_def split: if_splits)
  ultimately show ?thesis using assms(3) scanLicenses_ok [OF assms(2)] by auto
qed

text \<open>The steps of a scan without hooks.\<close>

lemma ScanTarget_steps:
  assumes "scan_ok env"
  shows "service_ScanTarget env target opts =
    (case scanVulnerabilities env (excludePackages target opts) opts of
       Inl e \<Rightarrow> Some (Inl (Wrapf ''failed to detect vulnerabilities: %w'' [] e))
     | Inr (vulnResults, eosl, t) \<Rightarrow>
         let t1 = t\<lparr>Target_OS := (Target_OS t)\<lparr>OS_Eosl := eosl\<rparr>\<rparr>
         in Option.bind (scanLicenses env t1 opts) (\<lambda>licenses.
            map_option (\<lambda>results. Inr (results, Target_OS t1))
              (fill_results (sc_info env)
                 (vulnResults @ misconfsToResults env (Target_Misconfigurations t1) opts @
                  secretsToResults (Target_Secrets t1) opts @ licenses @ crypto_results env t1 opts @ custom_results t1)
                 (SO_VulnSeveritySources opts))))"
  by (simp add: service_ScanTarget_def scan_ok_Hooks [OF assms] Let_def split: sum.splits prod.splits option.splits)
    (simp add: map_conv_bind_option comp_def)

lemma other_result_ok_filled:
  assumes "other_result_ok opts r" "FillInfo env (Res_Vulnerabilities r) sources = Some vs"
  shows "other_result_ok opts (r\<lparr>Res_Vulnerabilities := vs\<rparr>)"
  using assms by (auto simp: other_result_ok_def)

lemma ScanTarget_results_ok:
  assumes "scan_ok env" "service_ScanTarget env target opts = Some (Inr (results, os))" "r \<in> set results"
  shows "vuln_result_ok opts target r \<or> other_result_ok opts r"
proof -
  obtain vrs eosl t where v: "scanVulnerabilities env (excludePackages target opts) opts = Inr (vrs, eosl, t)"
    using assms(2) unfolding ScanTarget_steps [OF assms(1)] by (auto split: sum.splits)
  let ?t = "t\<lparr>Target_OS := (Target_OS t)\<lparr>OS_Eosl := eosl\<rparr>\<rparr>"
  let ?others = "\<lambda>licenses. misconfsToResults env (Target_Misconfigurations ?t) opts @ secretsToResults (Target_Secrets ?t) opts @
    licenses @ crypto_results env ?t opts @ custom_results ?t"
  obtain licenses where l: "scanLicenses env ?t opts = Some licenses"
    and f: "fill_results (sc_info env) (vrs @ ?others licenses) (SO_VulnSeveritySources opts) = Some results"
    using assms(2) unfolding ScanTarget_steps [OF assms(1)] v by (auto simp: Let_def Option.bind_eq_Some_conv)
  obtain r0 vs where r0: "r0 \<in> set (vrs @ ?others licenses)"
    "FillInfo (sc_info env) (Res_Vulnerabilities r0) (SO_VulnSeveritySources opts) = Some vs" "r = r0\<lparr>Res_Vulnerabilities := vs\<rparr>"
    using f assms(3) unfolding fill_results_all2 list_all2_conv_all_nth in_set_conv_nth by metis
  show ?thesis
  proof (cases "r0 \<in> set vrs")
    case True
    then show ?thesis using vuln_result_ok_filled [OF scanVulnerabilities_ok [OF assms(1) v] r0(2)] r0(3) by blast
  next
    case False
    then have "r0 \<in> set (?others licenses)" using r0(1) by simp
    from other_results_ok [OF assms(1) l this] show ?thesis using other_result_ok_filled r0(2,3) by blast
  qed
qed

text \<open>C2. Every vulnerability that a scan reports is about a package listed in the same result, which the options select: an OS
  package of the target, or a package of an application of the target of the result's type that is no
  development dependency unless these are included.\<close>

theorem ScanTarget_findings:
  assumes "scan_ok env" "service_ScanTarget env target opts = Some (Inr (results, os))"
    and "r \<in> set results" "v \<in> set (Res_Vulnerabilities r)"
  shows "\<exists>p \<in> set (Res_Packages r). about v p \<and> selected opts p \<and>
    (Res_Class r = ClassOSPkg \<and> p \<in> set (Target_Packages target) \<and> Pkg_Name p \<noteq> ''gpg-pubkey'' \<or>
     Res_Class r = ClassLangPkg \<and> from_app opts target (Res_Type r) p)"
  using ScanTarget_results_ok [OF assms(1-3)] assms(4) by (auto simp: vuln_result_ok_def other_result_ok_def)

text \<open>C16. A scan reports findings only of the scanners that are enabled: vulnerabilities, misconfigurations, secrets,
  licenses and cryptographic assets, and findings on the latter only with the checks.\<close>

theorem ScanTarget_enabled:
  assumes "scan_ok env" "service_ScanTarget env target opts = Some (Inr (results, os))" "r \<in> set results"
  shows "(Res_Vulnerabilities r \<noteq> [] \<longrightarrow> VulnerabilityScanner \<in> set (SO_Scanners opts)) \<and>
    (Res_Misconfigurations r \<noteq> [] \<longrightarrow> MisconfigScanner \<in> set (SO_Scanners opts) \<union> set (SO_ImageConfigScanners opts) \<or>
       RBACScanner \<in> set (SO_Scanners opts)) \<and>
    (Res_Secrets r \<noteq> [] \<longrightarrow> SecretScanner \<in> set (SO_Scanners opts)) \<and>
    (Res_Licenses r \<noteq> [] \<longrightarrow> LicenseScanner \<in> set (SO_Scanners opts)) \<and>
    (Res_CryptoAssets r \<noteq> [] \<longrightarrow> CryptoScanner \<in> set (SO_Scanners opts)) \<and>
    (Res_CryptoFindings r \<noteq> [] \<longrightarrow> CryptoScanner \<in> set (SO_Scanners opts) \<and> SO_CryptoChecks opts)"
  using ScanTarget_results_ok [OF assms]
proof
  assume *: "vuln_result_ok opts target r"
  show ?thesis using * by (cases "Res_Vulnerabilities r") (simp_all add: vuln_result_ok_def Enabled_def)
next
  assume *: "other_result_ok opts r"
  then show ?thesis by (auto simp: other_result_ok_def Enabled_def AnyEnabled_def)
qed

section \<open>Scans return\<close>

lemma Scan_total: "normalizer_ok lenv \<Longrightarrow> \<exists>x. Scan lenv sc l = Some x"
  using Normalize_names_total [of lenv l] by (auto simp: Scan_def Let_def split: option.splits sum.splits)

lemma detect_licenses_total: "(\<And>x. x \<in> set xs \<Longrightarrow> \<exists>y. f x = Some y) \<Longrightarrow> \<exists>ys. detect_licenses f xs = Some ys"
  by (induction xs) (auto simp: Option.bind_eq_Some_conv)

lemma toDetectedLicense_total: "normalizer_ok lenv \<Longrightarrow> \<exists>x. toDetectedLicense lenv sc l n f = Some x"
  using Scan_total [of lenv sc l] by (auto simp: toDetectedLicense_def Let_def)

lemma scanLicenses_total:
  assumes "normalizer_ok (sc_license env)"
  shows "\<exists>rs. scanLicenses env target opts = Some rs"
proof -
  let ?l = "sc_license env"
  have pkgs: "\<exists>ls. detect_licenses (\<lambda>(l, n, f). toDetectedLicense ?l sc l n f) xs = Some ls" for sc xs
    using toDetectedLicense_total [OF assms] by (intro detect_licenses_total) auto
  have os: "\<exists>r. scanOSPackageLicenses ?l sc ps = Some r" for sc ps
    using pkgs [of sc "package_licenses (\<lambda>_. []) ps"] by (auto simp: scanOSPackageLicenses_def)
  have "\<exists>rs. app_licenses ?l sc app = Some rs" for sc app
    using pkgs by (simp add: app_licenses_def)
  then have apps: "\<exists>rs. scanApplicationLicenses ?l sc as = Some rs" for sc as
    using detect_licenses_total [of as "app_licenses ?l sc"] by (auto simp: scanApplicationLicenses_def)
  have "\<exists>x. file_license ?l sc f = Some x" for sc f
    using Scan_total [OF assms, of sc "LF_Name (snd f)"] by (auto simp: file_license_def split: prod.splits)
  then have "\<exists>ys. detect_licenses (file_license ?l sc) xs = Some ys" for sc xs by (intro detect_licenses_total) simp
  then have files: "\<exists>r. scanFileLicenses ?l sc ls opts = Some r" for sc ls by (simp add: scanFileLicenses_def)
  let ?sc = "sc_range_categories env (NewScanner ?l (SO_LicenseCategories opts))"
  obtain a b c where "scanOSPackageLicenses ?l ?sc (Target_Packages target) = Some a"
    "scanApplicationLicenses ?l ?sc (Target_Applications target) = Some b"
    "scanFileLicenses ?l ?sc (Target_Licenses target) opts = Some c"
    using os apps files by metis
  then show ?thesis by (simp add: scanLicenses_def Let_def)
qed

lemma FillInfo_returns:
  assumes "sources_ok env" "\<forall>v \<in> set vs. severity_source_id v \<noteq> ''auto''"
  shows "\<exists>ws. FillInfo env vs sources = Some ws"
  using assms(2)
proof (induction vs)
  case (Cons v vs)
  have "severity_source_id (fill_status env v) \<noteq> ''auto''"
    using Cons.prems by (simp add: severity_source_id_def data_source_def)
  note get = getSeverity_returns [OF assms(1) this]
  have "\<exists>w. fill_vuln env sources v = Some w"
  proof (cases "GetVulnerability env (DV_VulnerabilityID v)")
    case (Inr vuln)
    obtain r where "getSeverity env (DV_VulnerabilityID v) vuln (severity_source_id (fill_status env v)) sources = Some r"
      using get by blast
    then show ?thesis using Inr by (simp add: fill_vuln_def Let_def split_beta)
  qed (simp add: fill_vuln_def Let_def)
  then show ?case using Cons by auto
qed simp

lemma fill_results_returns:
  assumes "sources_ok env" "\<forall>r \<in> set rs. \<forall>v \<in> set (Res_Vulnerabilities r). severity_source_id v \<noteq> ''auto''"
  shows "\<exists>rs'. fill_results env rs sources = Some rs'"
  using assms(2)
proof (induction rs)
  case (Cons r rs)
  then show ?case using FillInfo_returns [OF assms(1), of "Res_Vulnerabilities r" sources] by auto
qed simp

text \<open>C26. A scan of a target always returns, with results or an error, when the normalization of licenses shrinks their
  expressions and no data source of the findings bears the name of the automatic choice.\<close>

theorem ScanTarget_returns:
  assumes "scan_ok env" "normalizer_ok (sc_license env)" "sources_ok (sc_info env)"
    and "\<And>rs eosl t r v. scanVulnerabilities env (excludePackages target opts) opts = Inr (rs, eosl, t) \<Longrightarrow> r \<in> set rs \<Longrightarrow>
      v \<in> set (Res_Vulnerabilities r) \<Longrightarrow> severity_source_id v \<noteq> ''auto''"
  shows "\<exists>x. service_ScanTarget env target opts = Some x"
proof (cases "scanVulnerabilities env (excludePackages target opts) opts")
  case (Inr x)
  obtain rs eosl t where x: "x = (rs, eosl, t)" by (cases x)
  let ?t = "t\<lparr>Target_OS := (Target_OS t)\<lparr>OS_Eosl := eosl\<rparr>\<rparr>"
  obtain licenses where l: "scanLicenses env ?t opts = Some licenses" using scanLicenses_total [OF assms(2)] by blast
  let ?others = "misconfsToResults env (Target_Misconfigurations ?t) opts @ secretsToResults (Target_Secrets ?t) opts @
    licenses @ crypto_results env ?t opts @ custom_results ?t"
  have "other_result_ok opts r" if "r \<in> set ?others" for r by (rule other_results_ok [OF assms(1) l that])
  then have "severity_source_id v \<noteq> ''auto''" if "r \<in> set (rs @ ?others)" "v \<in> set (Res_Vulnerabilities r)" for r v
    using that assms(4) [OF Inr [unfolded x]] by (fastforce simp: other_result_ok_def)
  from fill_results_returns [OF assms(3), of "rs @ ?others"] this
  obtain results where "fill_results (sc_info env) (rs @ ?others) (SO_VulnSeveritySources opts) = Some results" by blast
  then show ?thesis using Inr x l by (simp add: ScanTarget_steps [OF assms(1)] Let_def)
qed (simp add: ScanTarget_steps [OF assms(1)])

section \<open>The layers of a scan\<close>

text \<open>A scan fails with the first layer missing from the cache. Otherwise it goes on with the merged layers: when no layer
  names an operating system, the package repository stands in for it, or without one the OS is called none if
  there are packages nevertheless.\<close>

theorem Scan_layers:
  assumes "env_ranges_ok (sc_applier env)"
  defines "c \<equiv> sc_cache env"
  shows "service_Scan env name art keys opts =
    (case find (\<lambda>k. Blob_SchemaVersion (fst (GetBlob c k)) = 0) keys of
       Some k \<Rightarrow> Some (Inl (Wrapf ''failed to apply layers: %w'' [] (Errorf ''layer cache missing: %s'' [k])))
     | None \<Rightarrow>
         let d = fst (applier_ApplyLayers (sc_applier env) c art keys);
             os = (if \<exists>k \<in> set keys. OS_Family (Blob_OS (fst (GetBlob c k))) \<noteq> [] then AD_OS d
                   else case AD_Repository d of
                          Some repo \<Rightarrow> OS_empty\<lparr>OS_Family := Repo_Family repo, OS_Name := Repo_Release repo\<rparr>
                        | None \<Rightarrow> if AD_Packages d \<noteq> [] then OS_empty\<lparr>OS_Family := ''none''\<rparr> else AD_OS d)
         in Option.bind (override_distro (sc_purl env) opts (d\<lparr>AD_OS := os\<rparr>)) (\<lambda>detail.
            map_option (\<lambda>r. bind_result r (\<lambda>(results, os).
                Inr \<lparr>SR_Results = results, SR_OS = os, SR_Layers = AD_Layers detail\<rparr>))
              (service_ScanTarget env (target_of name detail opts) opts)))"
proof -
  let ?r = "applier_ApplyLayers (sc_applier env) c art keys"
  note errs = applier_errors [OF assms(1), of c art keys]
  show ?thesis
  proof (cases "find (\<lambda>k. Blob_SchemaVersion (fst (GetBlob c k)) = 0) keys")
    case (Some k)
    then have "?r = (ArtifactDetail_empty, Some (Errorf ''layer cache missing: %s'' [k]))"
      by (simp add: applier_ApplyLayers_def read_layers_eq)
    then have "applied_detail ?r = Inl (Wrapf ''failed to apply layers: %w'' [] (Errorf ''layer cache missing: %s'' [k]))"
      by (simp add: applied_detail_def ArtifactDetail_empty_def OS_empty_def HasOSPackages_def)
    then show ?thesis using Some by (simp add: service_Scan_def c_def)
  next
    case None
    obtain d err where r: "?r = (d, err)" by (cases ?r)
    let ?named = "\<exists>k \<in> set keys. OS_Family (Blob_OS (fst (GetBlob c k))) \<noteq> []"
    have err: "err = (if ?named then if candidate_packages (sc_applier env) (map (\<lambda>k. fst (GetBlob c k)) keys)
        (apply_collect (sc_applier env) (map (\<lambda>k. fst (GetBlob c k)) keys)) = [] then Some ErrNoPkgsDetected else None
        else Some ErrUnknownOS)"
      using errs None r by (simp add: Let_def)
    have "applied_detail ?r = Inr (d\<lparr>AD_OS := (if ?named then AD_OS d
        else case AD_Repository d of
               Some repo \<Rightarrow> OS_empty\<lparr>OS_Family := Repo_Family repo, OS_Name := Repo_Release repo\<rparr>
             | None \<Rightarrow> if AD_Packages d \<noteq> [] then OS_empty\<lparr>OS_Family := ''none''\<rparr> else AD_OS d)\<rparr>)"
      unfolding r err by (simp add: applied_detail_def Let_def split: option.splits)
    then show ?thesis using None r by (simp add: service_Scan_def c_def Let_def)
  qed
qed

section \<open>An example\<close>

definition example_scan_env ::
    "((string list \<times> nested_value) list, string, string, string, string, string) scan_env" where
  "example_scan_env = \<lparr>sc_applier = example_applier_env,
     sc_cache = \<lparr>GetBlob = (\<lambda>k. (if k = ''l1'' then example_blob else example_blob\<lparr>Blob_SchemaVersion := 0\<rparr>, None)),
       GetArtifact = (\<lambda>k. (\<lparr>AI_SchemaVersion = 0, AI_Architecture = [], AI_Created = 0, AI_DockerVersion = [], AI_OS = [],
         AI_Misconfiguration = None, AI_Secret = None, AI_HistoryPackages = []\<rparr>, None))\<rparr>,
     sc_purl = example_purl_env, sc_vuln = example_env, sc_ospkg_opts = [], sc_lib = example_lib_env,
     sc_lib_suppliers = all_suppliers example_lib_env, sc_info = example_info_env, sc_license = example_license_env, sc_hooks = [],
     sc_sort_hooks = sort_stable_func (less_cmp (\<lambda>a b. Hook_Name a < Hook_Name b)),
     sc_sort_packages = sort_stable_func (less_cmp Packages_Less),
     sc_sort_results = sort_stable_func (less_cmp (\<lambda>a b. Res_Target a < Res_Target b)),
     sc_sort_matches = (\<lambda>ms. ms), sc_range_categories = (\<lambda>cs. cs), sc_builtin_namespace = (\<lambda>_. False),
     sc_now = time_Date 2025 1 1 0 0 0 0\<rparr>"

lemma example_scan_ok: "scan_ok example_scan_env"
  by (simp add: scan_ok_def example_scan_env_def example_env_ok stable.sorter_axioms)

definition example_scan_target :: scan_Target where
  "example_scan_target = \<lparr>Target_OS = OS_empty\<lparr>OS_Family := Alma, OS_Name := ''8.4''\<rparr>, Target_Repository = None,
     Target_Packages = [example_package], Target_Name = ''image'',
     Target_Applications = [\<lparr>App_Type = Pip, App_FilePath = ''requirements.txt'', App_Packages =
       [Package_empty\<lparr>Pkg_Name := ''django'', Pkg_Version := ''2''\<rparr>, Package_empty\<lparr>Pkg_Name := ''django'', Pkg_Version := ''1'', Pkg_Dev := True\<rparr>]\<rparr>],
     Target_Misconfigurations = [], Target_Secrets = [\<lparr>Secret_FilePath = ''key'', Secret_Findings = []\<rparr>], Target_Licenses = [],
     Target_CryptoAssets = [], Target_CustomResources = []\<rparr>"

definition example_scan_options :: ScanOptions where
  "example_scan_options = \<lparr>SO_PkgTypes = [PkgTypeOS, PkgTypeLibrary], SO_PkgRelationships = Relationships,
     SO_Scanners = [VulnerabilityScanner], SO_ImageConfigScanners = [], SO_ScanRemovedPackages = False,
     SO_LicenseCategories = [], SO_LicenseFull = False, SO_CryptoChecks = False, SO_IncludeDevDeps = False, SO_Distro = OS_empty,
     SO_VulnSeveritySources = [''auto'']\<rparr>"

definition example_results :: "Result list" where
  "example_results = (case service_ScanTarget example_scan_env example_scan_target example_scan_options of
     Some (Inr (rs, _)) \<Rightarrow> rs | _ \<Rightarrow> [])"

lemma example_ScanTarget:
  "\<exists>os. service_ScanTarget example_scan_env example_scan_target example_scan_options = Some (Inr (example_results, os))"
proof -
  have "case service_ScanTarget example_scan_env example_scan_target example_scan_options of Some (Inr _) \<Rightarrow> True | _ \<Rightarrow> False"
    by code_simp
  then show ?thesis by (auto simp: example_results_def split: option.splits sum.splits)
qed

lemma example_results_shape:
  "map (\<lambda>r. (Res_Target r, map DV_VulnerabilityID (Res_Vulnerabilities r))) example_results =
     [(''image (alma 8.4)'', [''CVE-2'']), (''requirements.txt'', [''CVE-1''])]"
  by code_simp

theorem ScanTarget_findings_witness:
  "\<exists>p \<in> set (Res_Packages (example_results ! 1)). Pkg_Name p = DV_PkgName (hd (Res_Vulnerabilities (example_results ! 1))) \<and>
     (Res_Class (example_results ! 1) = ClassOSPkg \<or> from_app example_scan_options example_scan_target (Res_Type (example_results ! 1)) p)"
proof -
  let ?r = "example_results ! 1"
  obtain os where os: "service_ScanTarget example_scan_env example_scan_target example_scan_options = Some (Inr (example_results, os))"
    using example_ScanTarget by blast
  have len: "length example_results = 2" using arg_cong [OF example_results_shape, of length] by simp
  then have r: "?r \<in> set example_results" by simp
  have "map DV_VulnerabilityID (Res_Vulnerabilities ?r) = [''CVE-1'']"
    using arg_cong [OF example_results_shape, of "\<lambda>xs. snd (xs ! 1)"] len by simp
  then have "hd (Res_Vulnerabilities ?r) \<in> set (Res_Vulnerabilities ?r)" by (cases "Res_Vulnerabilities ?r") simp_all
  from ScanTarget_findings [OF example_scan_ok os r this] show ?thesis by (auto simp: about_def)
qed

theorem ScanTarget_enabled_witness:
  "Res_Secrets (example_results ! 0) = []"
proof -
  obtain os where os: "service_ScanTarget example_scan_env example_scan_target example_scan_options = Some (Inr (example_results, os))"
    using example_ScanTarget by blast
  have "length example_results = 2" using arg_cong [OF example_results_shape, of length] by simp
  then have "example_results ! 0 \<in> set example_results" by simp
  from ScanTarget_enabled [OF example_scan_ok os this] show ?thesis by (simp add: example_scan_options_def)
qed

theorem ScanTarget_returns_witness:
  "\<exists>x. service_ScanTarget example_scan_env example_scan_target example_scan_options = Some x"
proof (rule ScanTarget_returns [OF example_scan_ok])
  show "normalizer_ok (sc_license example_scan_env)" by (simp add: example_scan_env_def example_normalizer_ok)
  show "sources_ok (sc_info example_scan_env)" by (simp add: example_scan_env_def example_info_ok)
  let ?scan = "scanVulnerabilities example_scan_env (excludePackages example_scan_target example_scan_options) example_scan_options"
  have "case ?scan of Inl _ \<Rightarrow> False | Inr (rs, _) \<Rightarrow> list_all (\<lambda>r. list_all (\<lambda>v. severity_source_id v \<noteq> ''auto'') (Res_Vulnerabilities r)) rs"
    by code_simp
  then show "severity_source_id v \<noteq> ''auto''" if "?scan = Inr (rs, eosl, t)" "r \<in> set rs" "v \<in> set (Res_Vulnerabilities r)" for rs eosl t r v
    using that by (auto simp: list_all_iff)
qed

theorem Scan_layers_witness:
  "service_Scan example_scan_env ''image'' ''artifact'' [''l1'', ''l2''] example_scan_options =
     Some (Inl (Wrapf ''failed to apply layers: %w'' [] (Errorf ''layer cache missing: %s'' [''l2''])))"
proof -
  have "env_ranges_ok (sc_applier example_scan_env)" by (simp add: example_scan_env_def example_ranges_ok)
  from Scan_layers [OF this, of "''image''" "''artifact''" "[''l1'', ''l2'']" example_scan_options] show ?thesis
    by (simp add: example_scan_env_def example_blob_def)
qed

end
