(* ===== verification/Ignore.thy ===== *)
theory Ignore
  imports Report_Types Licensing Purl
begin

text \<open>
  Ignore files, \<open>pkg/result/ignore.go\<close>: their entries with paths, package URLs and expiration dates,
  the matching of findings, and the parser of \<open>.trivyignore\<close>.

  Glob patterns (\<open>doublestar\<close>), the YAML decoder and the file system are fields of \<open>ignore_env\<close>. White
  space is that of ASCII. Lines arrive from the scanner of \<open>bufio\<close>, with the error it ends with.
\<close>

section \<open>Entries and matching\<close>

record IgnoreFinding =
  IF_ID :: string
  IF_Paths :: "string list"
  IF_PURLs :: "PackageURL list"
  IF_ExpiredAt :: go_time
  IF_Statement :: string

definition IgnoreFinding_of :: "string \<Rightarrow> IgnoreFinding" where
  "IgnoreFinding_of i = \<lparr>IF_ID = i, IF_Paths = [], IF_PURLs = [], IF_ExpiredAt = 0, IF_Statement = []\<rparr>"

type_synonym IgnoreFindings = "IgnoreFinding list"

record IgnoreConfig =
  IC_FilePath :: string
  IC_Vulnerabilities :: IgnoreFindings
  IC_Misconfigurations :: IgnoreFindings
  IC_Secrets :: IgnoreFindings
  IC_Licenses :: IgnoreFindings
  IC_Crypto :: IgnoreFindings

definition IgnoreConfig_empty :: IgnoreConfig where
  "IgnoreConfig_empty = \<lparr>IC_FilePath = [], IC_Vulnerabilities = [], IC_Misconfigurations = [], IC_Secrets = [],
     IC_Licenses = [], IC_Crypto = []\<rparr>"

text \<open>The part of a YAML entry that the decoder fills in: the plain struct and the URLs as strings.\<close>

record yaml_finding =
  Yaml_plain :: IgnoreFinding
  Yaml_PURLs :: "string list"

record yaml_config =
  Yaml_Vulnerabilities :: "yaml_finding list"
  Yaml_Misconfigurations :: "yaml_finding list"
  Yaml_Secrets :: "yaml_finding list"
  Yaml_Licenses :: "yaml_finding list"
  Yaml_Crypto :: "yaml_finding list"

record ignore_env =
  doublestar_Match :: "string \<Rightarrow> string \<Rightarrow> bool"
  doublestar_ValidatePattern :: "string \<Rightarrow> bool"
  purl_FromString :: "string \<Rightarrow> PackageURL result"
  file_NotExist :: "string \<Rightarrow> bool"
  file_Lines :: "string \<Rightarrow> (string list \<times> go_error option) result"
  yaml_Decode :: "string \<Rightarrow> yaml_config result result"
  path_Clean :: "string \<Rightarrow> string"
  lic_env :: license_env

fun unmarshal_purls :: "ignore_env \<Rightarrow> string list \<Rightarrow> PackageURL list result" where
  "unmarshal_purls env [] = Inr []"
| "unmarshal_purls env (s # ss) =
     (case purl_FromString env s of
        Inl e \<Rightarrow> Inl (Wrapf ''purl error in the ignore file: %w'' [] e)
      | Inr p \<Rightarrow> bind_result (unmarshal_purls env ss) (\<lambda>ps. Inr (p # ps)))"

definition UnmarshalYAML :: "ignore_env \<Rightarrow> yaml_finding \<Rightarrow> IgnoreFinding result" where
  "UnmarshalYAML env tmp =
     (let i = (Yaml_plain tmp)\<lparr>IF_PURLs := []\<rparr>
      in case find (\<lambda>pattern. \<not> doublestar_ValidatePattern env pattern) (IF_Paths i) of
           Some pattern \<Rightarrow> Inl (Errorf ''invalid path pattern in the ignore file, id: %s, path: %s'' [IF_ID i, pattern])
         | None \<Rightarrow> bind_result (unmarshal_purls env (Yaml_PURLs tmp)) (\<lambda>ps. Inr (i\<lparr>IF_PURLs := ps\<rparr>)))"

definition matchPath :: "ignore_env \<Rightarrow> string \<Rightarrow> string list \<Rightarrow> bool" where
  "matchPath env path patterns =
     (if length patterns = 0 then True else list_ex (\<lambda>pattern. doublestar_Match env pattern path) patterns)"

definition matchPURL :: "PackageURL option \<Rightarrow> PackageURL list \<Rightarrow> bool" where
  "matchPURL target purls =
     (if target = None \<or> length purls = 0 then True else list_ex (\<lambda>p. purl_Match p target) purls)"

fun IgnoreFindings_Match ::
    "ignore_env \<Rightarrow> IgnoreFindings \<Rightarrow> string \<Rightarrow> string \<Rightarrow> PackageURL option \<Rightarrow> IgnoreFinding option" where
  "IgnoreFindings_Match env [] i path pkg = None"
| "IgnoreFindings_Match env (finding # f) i path pkg =
     (if i \<noteq> IF_ID finding then IgnoreFindings_Match env f i path pkg
      else if \<not> matchPath env path (IF_Paths finding) \<or> \<not> matchPURL pkg (IF_PURLs finding)
      then IgnoreFindings_Match env f i path pkg
      else Some finding)"

definition Prune :: "go_time \<Rightarrow> IgnoreFindings \<Rightarrow> IgnoreFindings" where
  "Prune now f = filter (\<lambda>finding. \<not> (\<not> time_IsZero (IF_ExpiredAt finding) \<and> time_Before (IF_ExpiredAt finding) now)) f"

definition MatchVulnerability ::
    "ignore_env \<Rightarrow> IgnoreConfig \<Rightarrow> string \<Rightarrow> string \<Rightarrow> string \<Rightarrow> PackageURL option \<Rightarrow> IgnoreFinding option" where
  "MatchVulnerability env c vulnID filePath pkgPath pkg =
     (case IgnoreFindings_Match env (IC_Vulnerabilities c) vulnID filePath pkg of
        Some f \<Rightarrow> Some f
      | None \<Rightarrow> IgnoreFindings_Match env (IC_Vulnerabilities c) vulnID pkgPath pkg)"

fun MatchMisconfiguration :: "ignore_env \<Rightarrow> IgnoreConfig \<Rightarrow> string list \<Rightarrow> string \<Rightarrow> IgnoreFinding option" where
  "MatchMisconfiguration env c [] filePath = None"
| "MatchMisconfiguration env c (i # ids) filePath =
     (case IgnoreFindings_Match env (IC_Misconfigurations c) i filePath None of
        Some f \<Rightarrow> Some f
      | None \<Rightarrow> MatchMisconfiguration env c ids filePath)"

definition MatchSecret :: "ignore_env \<Rightarrow> IgnoreConfig \<Rightarrow> string \<Rightarrow> string \<Rightarrow> IgnoreFinding option" where
  "MatchSecret env c secretID filePath = IgnoreFindings_Match env (IC_Secrets c) secretID filePath None"

definition MatchCrypto :: "ignore_env \<Rightarrow> IgnoreConfig \<Rightarrow> string \<Rightarrow> string \<Rightarrow> IgnoreFinding option" where
  "MatchCrypto env c ruleID filePath = IgnoreFindings_Match env (IC_Crypto c) ruleID filePath None"

text \<open>The callback of \<open>MatchLicense\<close>; its state is the captured flag \<open>licenseNotMatch\<close>.\<close>

definition matchLicenses :: "ignore_env \<Rightarrow> IgnoreConfig \<Rightarrow> string \<Rightarrow> bool normalizer" where
  "matchLicenses env c filePath licenseNotMatch expr =
     (if licenseNotMatch then (expr, licenseNotMatch)
      else
        let check = (if \<not> IsSPDXExpression (lic_env env) expr \<or>
                        IgnoreFindings_Match env (IC_Licenses c) (Expression_String expr) filePath None = None
                     then (expr, True) else (expr, licenseNotMatch))
        in case expr of
             CompoundExpr _ conjunction _ \<Rightarrow> if conjunction \<noteq> TokenWith then (expr, licenseNotMatch) else check
           | SimpleExpr _ _ \<Rightarrow> check)"

text \<open>The outer option is that of \<open>normalize\<close>.\<close>

definition MatchLicense :: "ignore_env \<Rightarrow> IgnoreConfig \<Rightarrow> string \<Rightarrow> string \<Rightarrow> IgnoreFinding option option" where
  "MatchLicense env c licenseID filePath =
     (case IgnoreFindings_Match env (IC_Licenses c) licenseID filePath None of
        Some f \<Rightarrow> Some (Some f)
      | None \<Rightarrow>
          (case Normalize_with (lic_env env) (matchLicenses env c filePath) False licenseID of
             None \<Rightarrow> None
           | Some (Inl _) \<Rightarrow> Some None
           | Some (Inr (_, licenseNotMatch)) \<Rightarrow>
               if \<not> licenseNotMatch
               then Some (Some ((IgnoreFinding_of licenseID)\<lparr>IF_Statement := ''All license components are individually ignored''\<rparr>))
               else Some None))"

section \<open>Parsing\<close>

text \<open>\<open>strings.Fields\<close>: the maximal runs of non-space characters.\<close>

function str_fields :: "string \<Rightarrow> string list" where
  "str_fields [] = []"
| "str_fields (c # cs) =
     (if is_space c then str_fields cs
      else (c # takeWhile (\<lambda>x. \<not> is_space x) cs) # str_fields (dropWhile (\<lambda>x. \<not> is_space x) cs))"
  by pat_completeness auto
termination
  by (relation "measure length") (auto simp: le_imp_less_Suc length_dropWhile_le)

text \<open>\<open>time.Parse\<close> with the layout \<open>2006-01-02\<close>.\<close>

definition days_in_month :: "int \<Rightarrow> nat \<Rightarrow> int" where
  "days_in_month y m = [31, if is_leap y then 29 else 28, 31, 30, 31, 30, 31, 31, 30, 31, 30, 31] ! (m - 1)"

definition parse_date :: "string \<Rightarrow> go_time result" where
  "parse_date s =
     (let y = take 4 s; m = take 2 (drop 5 s); d = take 2 (drop 8 s); mn = dec_nat m; dn = int (dec_nat d); yn = int (dec_nat y)
      in if length s = 10 \<and> list_all is_digit (y @ m @ d) \<and> s ! 4 = CHR ''-'' \<and> s ! 7 = CHR ''-'' \<and>
            1 \<le> mn \<and> mn \<le> 12 \<and> 1 \<le> dn \<and> dn \<le> days_in_month yn mn
         then Inr (time_Date yn mn dn 0 0 0 0)
         else Inl (Errorf ''parsing time %q'' [s]))"

fun getExpirationDate :: "string list \<Rightarrow> go_time result" where
  "getExpirationDate [] = Inr 0"
| "getExpirationDate (field # fs) =
     (if hasPrefix field ''exp:'' then parse_date (drop (length ''exp:'') field) else getExpirationDate fs)"

text \<open>The body of the loop over the lines: an entry, or nothing for comments, empty lines and lines with
  an unreadable date.\<close>

definition parse_line :: "string \<Rightarrow> IgnoreFinding option" where
  "parse_line text =
     (let line = trimSpace text
      in if hasPrefix line ''#'' \<or> line = [] then None
         else
           let fs = str_fields line
           in if 1 < length fs
              then (case getExpirationDate fs of
                      Inl _ \<Rightarrow> None
                    | Inr exp \<Rightarrow> Some ((IgnoreFinding_of (fs ! 0))\<lparr>IF_ExpiredAt := exp\<rparr>))
              else Some (IgnoreFinding_of (fs ! 0)))"

definition parseIgnore :: "ignore_env \<Rightarrow> string \<Rightarrow> IgnoreFindings result" where
  "parseIgnore env ignoreFile =
     (case file_Lines env ignoreFile of
        Inl e \<Rightarrow> Inl (Wrapf ''file open error: %w'' [] e)
      | Inr (lines, err) \<Rightarrow>
          (case err of
             Some e \<Rightarrow> Inl (Wrapf ''scan error: %w'' [] e)
           | None \<Rightarrow> Inr (List.map_filter parse_line lines)))"

fun unmarshal_all :: "ignore_env \<Rightarrow> yaml_finding list \<Rightarrow> IgnoreFindings result" where
  "unmarshal_all env [] = Inr []"
| "unmarshal_all env (y # ys) =
     bind_result (UnmarshalYAML env y) (\<lambda>f. bind_result (unmarshal_all env ys) (\<lambda>fs. Inr (f # fs)))"

text \<open>The outer result of \<open>yaml_Decode\<close> is that of reading the file, the inner one that of the decoder, which
  calls \<open>UnmarshalYAML\<close> for every entry and fails with its error.\<close>

definition parseIgnoreYAML :: "ignore_env \<Rightarrow> string \<Rightarrow> IgnoreConfig result" where
  "parseIgnoreYAML env ignoreFile =
     (case yaml_Decode env ignoreFile of
        Inl e \<Rightarrow> Inl (Wrapf ''file open error: %w'' [] e)
      | Inr r \<Rightarrow>
          wrap_err ''yaml decode error: %w'' []
            (bind_result r (\<lambda>y.
             bind_result (unmarshal_all env (Yaml_Vulnerabilities y)) (\<lambda>vs.
             bind_result (unmarshal_all env (Yaml_Misconfigurations y)) (\<lambda>ms.
             bind_result (unmarshal_all env (Yaml_Secrets y)) (\<lambda>ss.
             bind_result (unmarshal_all env (Yaml_Licenses y)) (\<lambda>ls.
             bind_result (unmarshal_all env (Yaml_Crypto y)) (\<lambda>cs.
             Inr \<lparr>IC_FilePath = [], IC_Vulnerabilities = vs, IC_Misconfigurations = ms, IC_Secrets = ss,
                  IC_Licenses = ls, IC_Crypto = cs\<rparr>))))))))"

text \<open>\<open>filepath.Ext\<close>: the suffix from the last dot of the last path element.\<close>

definition path_Ext :: "string \<Rightarrow> string" where
  "path_Ext p =
     (let b = rev (takeWhile (\<lambda>c. c \<noteq> CHR ''/'') (rev p))
      in if CHR ''.'' \<in> set b then CHR ''.'' # rev (takeWhile (\<lambda>c. c \<noteq> CHR ''.'') (rev b)) else [])"

definition Prune_all :: "go_time \<Rightarrow> IgnoreConfig \<Rightarrow> IgnoreConfig" where
  "Prune_all now c = c\<lparr>IC_Vulnerabilities := Prune now (IC_Vulnerabilities c),
     IC_Misconfigurations := Prune now (IC_Misconfigurations c), IC_Secrets := Prune now (IC_Secrets c),
     IC_Licenses := Prune now (IC_Licenses c), IC_Crypto := Prune now (IC_Crypto c)\<rparr>"

definition ParseIgnoreFile :: "ignore_env \<Rightarrow> go_time \<Rightarrow> string \<Rightarrow> IgnoreConfig result" where
  "ParseIgnoreFile env now ignoreFile =
     (if ignoreFile = [] then Inr IgnoreConfig_empty
      else if file_NotExist env ignoreFile then Inr IgnoreConfig_empty
      else
        bind_result
          (wrap_err ''%s parse error: %w'' [ignoreFile]
            (if path_Ext ignoreFile = ''.yml'' \<or> path_Ext ignoreFile = ''.yaml''
             then parseIgnoreYAML env ignoreFile
             else bind_result (parseIgnore env ignoreFile) (\<lambda>fs. Inr (IgnoreConfig_empty\<lparr>
                    IC_Vulnerabilities := fs, IC_Misconfigurations := fs, IC_Secrets := fs, IC_Licenses := fs,
                    IC_Crypto := fs\<rparr>))))
          (\<lambda>conf. Inr ((Prune_all now conf)\<lparr>IC_FilePath := path_Clean env ignoreFile\<rparr>)))"

section \<open>License expressions against the ignore file\<close>

text \<open>The components that have to be ignored: every simple license and every \<open>WITH\<close> expression, the parts of a
  \<open>WITH\<close> expression included.\<close>

fun license_components :: "Expression \<Rightarrow> Expression list" where
  "license_components (SimpleExpr l p) = [SimpleExpr l p]"
| "license_components (CompoundExpr l cj r) =
     (if cj = TokenWith then [CompoundExpr l cj r] else []) @ license_components l @ license_components r"

definition component_ignored :: "ignore_env \<Rightarrow> IgnoreConfig \<Rightarrow> string \<Rightarrow> Expression \<Rightarrow> bool" where
  "component_ignored env c path e \<longleftrightarrow>
     IsSPDXExpression (lic_env env) e \<and> IgnoreFindings_Match env (IC_Licenses c) (Expression_String e) path None \<noteq> None"

fun upper_tokens :: "license_env \<Rightarrow> Expression \<Rightarrow> Expression" where
  "upper_tokens env (SimpleExpr l p) = SimpleExpr l p"
| "upper_tokens env (CompoundExpr l cj r) =
     CompoundExpr (upper_tokens env l) (cj\<lparr>literal := toUpper env (literal cj)\<rparr>) (upper_tokens env r)"

lemma matchLicenses_flag:
  "matchLicenses env c path st e =
     (e, st \<or> (case e of SimpleExpr _ _ \<Rightarrow> \<not> component_ignored env c path e
                | CompoundExpr _ cj _ \<Rightarrow> cj = TokenWith \<and> \<not> component_ignored env c path e))"
  by (auto simp: matchLicenses_def component_ignored_def Let_def split: Expression.splits)

lemma shrinks_matchLicenses: "shrinks (matchLicenses env c path)"
  by (simp add: shrinks_def matchLicenses_flag)

lemma normalize_matchLicenses:
  "normalize lenv (matchLicenses env c path) st e =
     Some (upper_tokens lenv e, st \<or> \<not> list_all (component_ignored env c path) (license_components e))"
proof (induction e arbitrary: st)
  case (SimpleExpr l p)
  show ?case
    by (simp add: normalize.simps [of lenv "matchLicenses env c path" st "SimpleExpr l p"]
        matchLicenses_flag [of env c path st "SimpleExpr l p"])
next
  case (CompoundExpr l cj r)
  show ?case
    by (simp add: normalize.simps [of lenv "matchLicenses env c path" st "CompoundExpr l cj r"]
        matchLicenses_flag [of env c path st "CompoundExpr l cj r"] CompoundExpr.IH)
qed

text \<open>A license expression is ignored when the ignore file lists it as it stands, or when all components of
  its normal form are SPDX expressions listed there. The parts of a \<open>WITH\<close> expression count as
  components too, so an expression with an exception is ignored by components only if the exception by itself
  passes as an SPDX license.\<close>

theorem MatchLicense_spec:
  assumes "Normalize_names (lic_env env) licenseID = Some (Inr ne)"
  shows "MatchLicense env c licenseID path = Some
    (case IgnoreFindings_Match env (IC_Licenses c) licenseID path None of
       Some f \<Rightarrow> Some f
     | None \<Rightarrow>
         if list_all (component_ignored env c path) (license_components ne)
         then Some ((IgnoreFinding_of licenseID)\<lparr>IF_Statement := ''All license components are individually ignored''\<rparr>)
         else None)"
  by (simp add: MatchLicense_def Normalize_with_def assms normalize_matchLicenses split: option.splits)

lemma MatchLicense_total:
  assumes "normalizer_ok (lic_env env)"
  shows "\<exists>r. MatchLicense env c licenseID path = Some r"
proof -
  obtain x where "Normalize_names (lic_env env) licenseID = Some x"
    using Normalize_names_total [OF assms, of licenseID] by blast
  then show ?thesis
    by (cases x) (auto simp: MatchLicense_def Normalize_with_def normalize_matchLicenses split: option.splits)
qed

section \<open>Pruning\<close>

definition all_entries :: "IgnoreConfig \<Rightarrow> IgnoreFinding list" where
  "all_entries c = IC_Vulnerabilities c @ IC_Misconfigurations c @ IC_Secrets c @ IC_Licenses c @ IC_Crypto c"

lemma Match_Some:
  "IgnoreFindings_Match env fs i path pkg = Some f \<Longrightarrow>
     f \<in> set fs \<and> IF_ID f = i \<and> matchPath env path (IF_Paths f) \<and> matchPURL pkg (IF_PURLs f)"
  by (induction fs) (auto split: if_splits)

lemma Match_None:
  "IgnoreFindings_Match env fs i path pkg = None \<longleftrightarrow>
     \<not> (\<exists>f \<in> set fs. IF_ID f = i \<and> matchPath env path (IF_Paths f) \<and> matchPURL pkg (IF_PURLs f))"
  by (induction fs) auto

lemma Prune_all_live:
  "f \<in> set (all_entries (Prune_all now c)) \<longleftrightarrow> f \<in> set (all_entries c) \<and> (IF_ExpiredAt f = 0 \<or> now \<le> IF_ExpiredAt f)"
  by (auto simp: all_entries_def Prune_all_def Prune_def time_IsZero_def time_Before_def)

text \<open>No entry of a parsed ignore file has expired.\<close>

lemma ParseIgnoreFile_live:
  assumes "ParseIgnoreFile env now file = Inr c" "f \<in> set (all_entries c)"
  shows "IF_ExpiredAt f = 0 \<or> now \<le> IF_ExpiredAt f"
proof -
  consider "c = IgnoreConfig_empty" | conf where "c = (Prune_all now conf)\<lparr>IC_FilePath := path_Clean env file\<rparr>"
    using assms(1) by (auto simp: ParseIgnoreFile_def split: if_splits)
  then show ?thesis
  proof cases
    case 1
    then show ?thesis using assms(2) by (simp add: all_entries_def IgnoreConfig_empty_def)
  next
    case 2
    then have "all_entries c = all_entries (Prune_all now conf)" by (simp add: all_entries_def)
    then show ?thesis using assms(2) Prune_all_live by simp
  qed
qed

definition example_ignore_env :: ignore_env where
  "example_ignore_env = \<lparr>doublestar_Match = (\<lambda>p s. p = s), doublestar_ValidatePattern = (\<lambda>_. True),
     purl_FromString = (\<lambda>s. Inl (Errorf ''invalid'' [])), file_NotExist = (\<lambda>_. False),
     file_Lines = (\<lambda>_. Inr ([], None)), yaml_Decode = (\<lambda>_. Inl (Errorf ''unreadable'' [])), path_Clean = (\<lambda>p. p),
     lic_env = example_license_env\<rparr>"

theorem MatchLicense_spec_witness:
  "MatchLicense example_ignore_env (IgnoreConfig_empty\<lparr>IC_Licenses := [IgnoreFinding_of ''Apache-2.0'']\<rparr>) ''MIT'' ''LICENSE'' = Some None"
proof -
  have "Normalize_names (lic_env example_ignore_env) ''MIT'' = Some (Inr (SimpleExpr ''MIT'' False))" by code_simp
  from MatchLicense_spec [OF this, of "IgnoreConfig_empty\<lparr>IC_Licenses := [IgnoreFinding_of ''Apache-2.0'']\<rparr>" "''LICENSE''"]
  show ?thesis by (simp add: IgnoreConfig_empty_def IgnoreFinding_of_def component_ignored_def SimpleExpr_String_def GnuLicenses_def)
qed

end
