(* ===== verification/Sbom_Core.thy ===== *)
theory Sbom_Core
  imports Purl Crypto_Types Vuln_Types
begin

text \<open>
  The intermediate representation of SBOMs, \<open>pkg/sbom/core/bom.go\<close>: components, the bill of materials and the
  operations that build it. Maps are association lists.

  A component is a pointer in the code. Its identifier is filled in when it is first added to a BOM, so the operations
  that may add a component return it as well. The identifiers come from a random source: \<open>uuid_New env k\<close> is the
  value its \<open>k\<close>-th call returns, and the number of calls made so far is part of the state. A UUID is the number its
  sixteen bytes form.

  The deep copies of \<open>Clone\<close> are identities on values.
\<close>

section \<open>Types\<close>

type_synonym UUID = nat

abbreviation (input) uuid_Nil :: UUID where "uuid_Nil \<equiv> 0"

type_synonym ComponentType = string
type_synonym RelationshipType = string

abbreviation core_TypeFilesystem :: ComponentType where "core_TypeFilesystem \<equiv> ''filesystem''"
abbreviation core_TypeRepository :: ComponentType where "core_TypeRepository \<equiv> ''repository''"
abbreviation core_TypeContainerImage :: ComponentType where "core_TypeContainerImage \<equiv> ''container_image''"
abbreviation core_TypeVM :: ComponentType where "core_TypeVM \<equiv> ''vm''"
abbreviation core_TypeApplication :: ComponentType where "core_TypeApplication \<equiv> ''application''"
abbreviation core_TypeLibrary :: ComponentType where "core_TypeLibrary \<equiv> ''library''"
abbreviation core_TypeOS :: ComponentType where "core_TypeOS \<equiv> ''os''"

abbreviation PropertySchemaVersion :: string where "PropertySchemaVersion \<equiv> ''SchemaVersion''"
abbreviation PropertyType :: string where "PropertyType \<equiv> ''Type''"
abbreviation PropertyClass :: string where "PropertyClass \<equiv> ''Class''"
abbreviation PropertySize :: string where "PropertySize \<equiv> ''Size''"
abbreviation PropertyImageID :: string where "PropertyImageID \<equiv> ''ImageID''"
abbreviation PropertyRepoDigest :: string where "PropertyRepoDigest \<equiv> ''RepoDigest''"
abbreviation PropertyDiffID :: string where "PropertyDiffID \<equiv> ''DiffID''"
abbreviation PropertyRepoTag :: string where "PropertyRepoTag \<equiv> ''RepoTag''"
abbreviation PropertyReference :: string where "PropertyReference \<equiv> ''Reference''"
abbreviation PropertyLabelsPrefix :: string where "PropertyLabelsPrefix \<equiv> ''Labels''"
abbreviation PropertyPkgID :: string where "PropertyPkgID \<equiv> ''PkgID''"
abbreviation PropertyPkgRelationship :: string where "PropertyPkgRelationship \<equiv> ''PkgRelationship''"
abbreviation PropertyPkgType :: string where "PropertyPkgType \<equiv> ''PkgType''"
abbreviation PropertySrcName :: string where "PropertySrcName \<equiv> ''SrcName''"
abbreviation PropertySrcVersion :: string where "PropertySrcVersion \<equiv> ''SrcVersion''"
abbreviation PropertySrcRelease :: string where "PropertySrcRelease \<equiv> ''SrcRelease''"
abbreviation PropertySrcEpoch :: string where "PropertySrcEpoch \<equiv> ''SrcEpoch''"
abbreviation PropertyModularitylabel :: string where "PropertyModularitylabel \<equiv> ''Modularitylabel''"
abbreviation PropertyFilePath :: string where "PropertyFilePath \<equiv> ''FilePath''"
abbreviation PropertyLayerDigest :: string where "PropertyLayerDigest \<equiv> ''LayerDigest''"
abbreviation PropertyLayerDiffID :: string where "PropertyLayerDiffID \<equiv> ''LayerDiffID''"
abbreviation PropertyContentSet :: string where "PropertyContentSet \<equiv> ''ContentSet''"
abbreviation PropertyNVR :: string where "PropertyNVR \<equiv> ''NVR''"
abbreviation PropertyArch :: string where "PropertyArch \<equiv> ''Arch''"

abbreviation RelationshipContains :: RelationshipType where "RelationshipContains \<equiv> ''contains''"
abbreviation RelationshipDependsOn :: RelationshipType where "RelationshipDependsOn \<equiv> ''depends_on''"

abbreviation ExternalReferenceVEX :: string where "ExternalReferenceVEX \<equiv> ''external_reference_vex''"

record Property =
  Prop_Name :: string
  Prop_Value :: string
  Prop_Namespace :: string
  Prop_External :: bool

definition Prop :: "string \<Rightarrow> string \<Rightarrow> Property" where
  "Prop name value = \<lparr>Prop_Name = name, Prop_Value = value, Prop_Namespace = [], Prop_External = False\<rparr>"

definition Properties_Less :: "Property \<Rightarrow> Property \<Rightarrow> bool" where
  "Properties_Less p q =
     (if Prop_Name p \<noteq> Prop_Name q then Prop_Name p < Prop_Name q else Prop_Value p < Prop_Value q)"

record File =
  File_Path :: string
  File_Digests :: "string list"

definition File_IsEmpty :: "File \<Rightarrow> bool" where
  "File_IsEmpty f \<longleftrightarrow> File_Path f = [] \<and> length (File_Digests f) = 0"

record Component =
  Comp_id :: UUID
  Comp_Type :: ComponentType
  Comp_Root :: bool
  Comp_Name :: string
  Comp_Group :: string
  Comp_Version :: string
  Comp_SrcName :: string
  Comp_SrcVersion :: string
  Comp_SrcFile :: string
  Comp_Licenses :: "string list"
  Comp_PkgIdentifier :: PkgIdentifier
  Comp_Supplier :: string
  Comp_Files :: "File list"
  Comp_Properties :: "Property list"

definition Component_empty :: Component where
  "Component_empty = \<lparr>Comp_id = uuid_Nil, Comp_Type = [], Comp_Root = False, Comp_Name = [], Comp_Group = [],
     Comp_Version = [], Comp_SrcName = [], Comp_SrcVersion = [], Comp_SrcFile = [], Comp_Licenses = [],
     Comp_PkgIdentifier = PkgIdentifier_empty, Comp_Supplier = [], Comp_Files = [], Comp_Properties = []\<rparr>"

record core_Occurrence =
  CO_Location :: string
  CO_LayerDiffID :: string

record CryptoComponent =
  CC_Asset :: CryptoAssetInfo
  CC_Occurrences :: "core_Occurrence list"

definition CryptoBOMRef :: "CryptoDescriptor \<Rightarrow> string" where
  "CryptoBOMRef descriptor = ''crypto:'' @ Descriptor_String descriptor"

definition CryptoComponent_BOMRef :: "CryptoComponent \<Rightarrow> string" where
  "CryptoComponent_BOMRef c = CryptoBOMRef (Descriptor (CC_Asset c))"

record sbom_Relationship =
  SR_Dependency :: UUID
  SR_Type :: RelationshipType

record ExternalReference =
  ER_URL :: string
  ER_Type :: string

record core_Vulnerability =
  CV_Vulnerability :: db_Vulnerability
  CV_ID :: string
  CV_PkgName :: string
  CV_InstalledVersion :: string
  CV_FixedVersion :: string
  CV_PrimaryURL :: string
  CV_DataSource :: "DataSource option"

record bom_Options =
  GenerateBOMRef :: bool
  Opt_Parents :: bool

record BOM =
  BOM_SerialNumber :: string
  BOM_Version :: int
  BOM_rootID :: UUID
  BOM_components :: "(UUID \<times> Component) list"
  BOM_relationships :: "(UUID \<times> sbom_Relationship list) list"
  BOM_cryptoComponents :: "CryptoComponent list"
  BOM_externalReferences :: "ExternalReference list"
  BOM_vulnerabilities :: "(UUID \<times> core_Vulnerability list) list"
  BOM_purls :: "(string \<times> UUID list) list"
  BOM_parents :: "(UUID \<times> UUID list) list"
  BOM_opts :: bom_Options

text \<open>\<open>sbom_env\<close> holds the source of UUIDs and their printer, the printer of package URLs and the sorting algorithm
  behind \<open>sort.Sort\<close>, which is not stable.\<close>

record sbom_env =
  uuid_New :: "nat \<Rightarrow> UUID"
  uuid_String :: "UUID \<Rightarrow> string"
  sbom_purl :: purl_env
  sort_properties :: "Property list \<Rightarrow> Property list"

abbreviation purl_str :: "sbom_env \<Rightarrow> PackageURL \<Rightarrow> string" where
  "purl_str env \<equiv> purl_String (sbom_purl env)"

type_synonym bom_state = "BOM \<times> nat"

section \<open>Operations\<close>

definition NewBOM :: "bom_Options \<Rightarrow> BOM" where
  "NewBOM opts = \<lparr>BOM_SerialNumber = [], BOM_Version = 0, BOM_rootID = uuid_Nil, BOM_components = [], BOM_relationships = [],
     BOM_cryptoComponents = [], BOM_externalReferences = [], BOM_vulnerabilities = [], BOM_purls = [], BOM_parents = [],
     BOM_opts = opts\<rparr>"

text \<open>\<open>m[k] = append(m[k], v)\<close>.\<close>

definition map_append :: "'k \<Rightarrow> 'v \<Rightarrow> ('k \<times> 'v list) list \<Rightarrow> ('k \<times> 'v list) list" where
  "map_append k v m = AList.update k (lookup_list m k @ [v]) m"

definition setupComponent :: "sbom_env \<Rightarrow> bom_state \<Rightarrow> Component \<Rightarrow> bom_state \<times> Component" where
  "setupComponent env s c =
     (let (b, n) = s;
          (c1, n1) = (if Comp_id c = uuid_Nil then (c\<lparr>Comp_id := uuid_New env n\<rparr>, Suc n) else (c, n));
          b1 = (case Id_PURL (Comp_PkgIdentifier c1) of
                  Some purl \<Rightarrow> b\<lparr>BOM_purls := map_append (purl_str env purl) (Comp_id c1) (BOM_purls b)\<rparr>
                | None \<Rightarrow> b)
      in ((b1, n1), c1\<lparr>Comp_Properties := sort_properties env (Comp_Properties c1)\<rparr>))"

definition AddComponent :: "sbom_env \<Rightarrow> bom_state \<Rightarrow> Component \<Rightarrow> bom_state \<times> Component" where
  "AddComponent env s c =
     (let ((b, n), c1) = setupComponent env s c;
          b1 = (if Comp_Root c1 then b\<lparr>BOM_rootID := Comp_id c1\<rparr> else b)
      in ((b1\<lparr>BOM_components := AList.update (Comp_id c1) c1 (BOM_components b1)\<rparr>, n), c1))"

definition AddCryptoComponent :: "BOM \<Rightarrow> CryptoComponent \<Rightarrow> BOM" where
  "AddCryptoComponent b c = b\<lparr>BOM_cryptoComponents := BOM_cryptoComponents b @ [c]\<rparr>"

definition ensure_added :: "sbom_env \<Rightarrow> bom_state \<Rightarrow> Component \<Rightarrow> bom_state \<times> Component" where
  "ensure_added env s c = (if Comp_id c = uuid_Nil then AddComponent env s c else (s, c))"

definition AddRelationship ::
    "sbom_env \<Rightarrow> bom_state \<Rightarrow> Component option \<Rightarrow> Component option \<Rightarrow> RelationshipType \<Rightarrow>
      bom_state \<times> Component option \<times> Component option" where
  "AddRelationship env s parent child t =
     (case parent of
        None \<Rightarrow> (s, parent, child)
      | Some p \<Rightarrow>
          let (s1, p1) = ensure_added env s p
          in case child of
               None \<Rightarrow>
                 let (b, n) = s1
                 in ((if map_of (BOM_relationships b) (Comp_id p1) = None
                      then (b\<lparr>BOM_relationships := AList.update (Comp_id p1) [] (BOM_relationships b)\<rparr>, n) else (b, n)),
                     Some p1, None)
             | Some c \<Rightarrow>
                 let ((b, n), c1) = ensure_added env s1 c;
                     b1 = b\<lparr>BOM_relationships :=
                              map_append (Comp_id p1) \<lparr>SR_Dependency = Comp_id c1, SR_Type = t\<rparr> (BOM_relationships b)\<rparr>;
                     b2 = (if Opt_Parents (BOM_opts b1)
                           then b1\<lparr>BOM_parents := map_append (Comp_id c1) (Comp_id p1) (BOM_parents b1)\<rparr> else b1)
                 in ((b2, n), Some p1, Some c1))"

definition AddVulnerabilities ::
    "sbom_env \<Rightarrow> bom_state \<Rightarrow> Component \<Rightarrow> core_Vulnerability list \<Rightarrow> bom_state \<times> Component" where
  "AddVulnerabilities env s c vulns =
     (let ((b, n), c1) = ensure_added env s c
      in if map_of (BOM_vulnerabilities b) (Comp_id c1) \<noteq> None then ((b, n), c1)
         else ((b\<lparr>BOM_vulnerabilities := AList.update (Comp_id c1) vulns (BOM_vulnerabilities b)\<rparr>, n), c1))"

definition AddExternalReferences :: "BOM \<Rightarrow> ExternalReference list \<Rightarrow> BOM" where
  "AddExternalReferences b refs = b\<lparr>BOM_externalReferences := BOM_externalReferences b @ refs\<rparr>"

definition bomRef :: "sbom_env \<Rightarrow> BOM \<Rightarrow> Component \<Rightarrow> string" where
  "bomRef env b c =
     (if Id_BOMRef (Comp_PkgIdentifier c) \<noteq> [] then Id_BOMRef (Comp_PkgIdentifier c)
      else case Id_PURL (Comp_PkgIdentifier c) of
             None \<Rightarrow> uuid_String env (Comp_id c)
           | Some purl \<Rightarrow>
               let p = purl_str env purl
               in if 1 < length (lookup_list (BOM_purls b) p) then uuid_String env (Comp_id c) else p)"

definition fill_BOMRef :: "sbom_env \<Rightarrow> BOM \<Rightarrow> Component \<Rightarrow> Component" where
  "fill_BOMRef env b c = c\<lparr>Comp_PkgIdentifier := (Comp_PkgIdentifier c)\<lparr>Id_BOMRef := bomRef env b c\<rparr>\<rparr>"

text \<open>\<open>Root\<close> and \<open>Components\<close> fill in the references of the components they return, in the BOM itself.\<close>

definition BOM_Root :: "sbom_env \<Rightarrow> BOM \<Rightarrow> BOM \<times> Component option" where
  "BOM_Root env b =
     (case map_of (BOM_components b) (BOM_rootID b) of
        None \<Rightarrow> (b, None)
      | Some root \<Rightarrow>
          if GenerateBOMRef (BOM_opts b)
          then (let r = fill_BOMRef env b root
                in (b\<lparr>BOM_components := AList.update (BOM_rootID b) r (BOM_components b)\<rparr>, Some r))
          else (b, Some root))"

definition Components :: "sbom_env \<Rightarrow> BOM \<Rightarrow> BOM" where
  "Components env b =
     (if GenerateBOMRef (BOM_opts b)
      then b\<lparr>BOM_components := map (\<lambda>(id, c). (id, fill_BOMRef env b c)) (BOM_components b)\<rparr> else b)"

section \<open>The invariant of a BOM\<close>

abbreviation comp_of :: "BOM \<Rightarrow> UUID \<Rightarrow> Component option" where
  "comp_of b \<equiv> map_of (BOM_components b)"

text \<open>Components are stored under their identifiers, each once; relationships connect components of the BOM, and the parents are
  the inverse of the relationships.\<close>

definition bom_ok :: "BOM \<Rightarrow> bool" where
  "bom_ok b \<longleftrightarrow>
     distinct (map fst (BOM_components b)) \<and> (\<forall>k c. comp_of b k = Some c \<longrightarrow> Comp_id c = k) \<and>
     (\<forall>p rs. map_of (BOM_relationships b) p = Some rs \<longrightarrow>
        p \<in> dom (comp_of b) \<and> SR_Dependency ` set rs \<subseteq> dom (comp_of b)) \<and>
     (\<forall>c p. p \<in> set (lookup_list (BOM_parents b) c) \<longleftrightarrow>
        Opt_Parents (BOM_opts b) \<and> c \<in> SR_Dependency ` set (lookup_list (BOM_relationships b) p))"

text \<open>A component that an operation may be given: it is new, or in the BOM.\<close>

definition known :: "BOM \<Rightarrow> Component \<Rightarrow> bool" where
  "known b c \<longleftrightarrow> Comp_id c = uuid_Nil \<or> Comp_id c \<in> dom (comp_of b)"

text \<open>The documented behaviour of the source of UUIDs: it does not repeat itself and does not return the nil UUID. All
  identifiers of a BOM come from it.\<close>

definition uuid_ok :: "sbom_env \<Rightarrow> bool" where
  "uuid_ok env \<longleftrightarrow> inj (uuid_New env) \<and> (\<forall>n. uuid_New env n \<noteq> uuid_Nil)"

definition drawn :: "sbom_env \<Rightarrow> bom_state \<Rightarrow> bool" where
  "drawn env s \<longleftrightarrow> dom (comp_of (fst s)) \<subseteq> uuid_New env ` {..<snd s}"

abbreviation parents_of :: "BOM \<Rightarrow> UUID \<Rightarrow> UUID set" where
  "parents_of b k \<equiv> set (lookup_list (BOM_parents b) k)"

text \<open>An operation extends a BOM: it keeps the invariant and the options, and only adds components and parents. The
  components themselves do not change when their identifiers are new.\<close>

definition extends :: "sbom_env \<Rightarrow> bom_state \<Rightarrow> bom_state \<Rightarrow> bool" where
  "extends env s s' \<longleftrightarrow>
     (bom_ok (fst s) \<longrightarrow> bom_ok (fst s')) \<and> dom (comp_of (fst s)) \<subseteq> dom (comp_of (fst s')) \<and>
     BOM_opts (fst s') = BOM_opts (fst s) \<and> (\<forall>k. parents_of (fst s) k \<subseteq> parents_of (fst s') k) \<and>
     (uuid_ok env \<and> drawn env s \<longrightarrow> drawn env s' \<and> comp_of (fst s) \<subseteq>\<^sub>m comp_of (fst s'))"

lemma extends_refl [simp]: "extends env s s"
  by (simp add: extends_def)

lemma extends_trans: "extends env a b \<Longrightarrow> extends env b c \<Longrightarrow> extends env a c"
  unfolding extends_def by (metis (no_types, lifting) map_le_trans order_trans)

lemma extends_fields:
  "\<lbrakk>bom_ok (fst s) \<Longrightarrow> bom_ok (fst s'); BOM_components (fst s') = BOM_components (fst s); BOM_opts (fst s') = BOM_opts (fst s);
    \<And>k. parents_of (fst s) k \<subseteq> parents_of (fst s') k; snd s' = snd s\<rbrakk> \<Longrightarrow> extends env s s'"
  by (simp add: extends_def drawn_def)

lemma extends_dom: "extends env s s' \<Longrightarrow> k \<in> dom (comp_of (fst s)) \<Longrightarrow> k \<in> dom (comp_of (fst s'))"
  by (auto simp: extends_def)

lemma extends_known: "extends env s s' \<Longrightarrow> known (fst s) c \<Longrightarrow> known (fst s') c"
  by (auto simp: extends_def known_def)

lemma extends_parent: "extends env s s' \<Longrightarrow> p \<in> parents_of (fst s) k \<Longrightarrow> p \<in> parents_of (fst s') k"
  by (auto simp: extends_def)

lemma extends_drawn: "\<lbrakk>extends env s s'; uuid_ok env; drawn env s\<rbrakk> \<Longrightarrow> drawn env s'"
  by (simp add: extends_def)

lemma extends_comp:
  "\<lbrakk>extends env s s'; uuid_ok env; drawn env s; comp_of (fst s) k = Some c\<rbrakk> \<Longrightarrow> comp_of (fst s') k = Some c"
  unfolding extends_def by (metis domI map_le_def)

lemma lookup_map_append [simp]:
  "lookup_list (map_append k v m) j = lookup_list m j @ (if j = k then [v] else [])"
  by (simp add: map_append_def lookup_list_def update_conv')

lemma map_of_map_append [simp]:
  "map_of (map_append k v m) j = (if j = k then Some (lookup_list m k @ [v]) else map_of m j)"
  by (simp add: map_append_def update_conv')

lemma bom_ok_NewBOM: "bom_ok (NewBOM opts)"
  by (simp add: bom_ok_def NewBOM_def lookup_list_def)

text \<open>Fields that the invariant does not look at.\<close>

lemma bom_ok_other [simp]:
  "bom_ok (b\<lparr>BOM_purls := x\<rparr>) = bom_ok b" "bom_ok (b\<lparr>BOM_rootID := r\<rparr>) = bom_ok b"
  "bom_ok (b\<lparr>BOM_vulnerabilities := v\<rparr>) = bom_ok b" "bom_ok (b\<lparr>BOM_cryptoComponents := cc\<rparr>) = bom_ok b"
  "bom_ok (b\<lparr>BOM_SerialNumber := sn\<rparr>) = bom_ok b" "bom_ok (b\<lparr>BOM_Version := ver\<rparr>) = bom_ok b"
  by (simp_all add: bom_ok_def)

lemma setupComponent_ok:
  assumes "setupComponent env s c = (s', c')"
  shows "bom_ok (fst s') = bom_ok (fst s) \<and> BOM_components (fst s') = BOM_components (fst s) \<and> BOM_opts (fst s') = BOM_opts (fst s) \<and>
    Comp_Root c' = Comp_Root c \<and> Comp_PkgIdentifier c' = Comp_PkgIdentifier c"
  using assms by (auto simp: setupComponent_def Let_def split: prod.splits if_splits option.splits)

lemma bom_ok_add:
  "bom_ok b \<Longrightarrow> bom_ok (b\<lparr>BOM_components := AList.update (Comp_id c) c (BOM_components b)\<rparr>)"
  by (fastforce simp: bom_ok_def update_conv' distinct_update)

lemma setupComponent_id:
  assumes "setupComponent env s c = (s', c')" "Comp_id c = uuid_Nil"
  shows "Comp_id c' = uuid_New env (snd s) \<and> snd s' = Suc (snd s) \<and> BOM_parents (fst s') = BOM_parents (fst s)"
  using assms by (auto simp: setupComponent_def Let_def split: prod.splits option.splits)

lemma AddComponent_ok:
  assumes "AddComponent env s c = (s', c')" "Comp_id c = uuid_Nil"
  shows "extends env s s' \<and> comp_of (fst s') (Comp_id c') = Some c' \<and>
    Comp_Root c' = Comp_Root c \<and> Comp_PkgIdentifier c' = Comp_PkgIdentifier c"
proof -
  obtain b n where s: "setupComponent env s c = ((b, n), c')"
    using assms by (auto simp: AddComponent_def Let_def split: prod.splits)
  note ok = setupComponent_ok [OF s] setupComponent_id [OF s assms(2)]
  let ?b = "if Comp_Root c' then b\<lparr>BOM_rootID := Comp_id c'\<rparr> else b"
  have s': "fst s' = ?b\<lparr>BOM_components := AList.update (Comp_id c') c' (BOM_components ?b)\<rparr>" "snd s' = n"
    using assms s by (auto simp: AddComponent_def Let_def)
  have "bom_ok (fst s')" if "bom_ok (fst s)"
    using ok that bom_ok_add [of ?b c'] by (auto simp: s')
  moreover have "drawn env s' \<and> comp_of (fst s) \<subseteq>\<^sub>m comp_of (fst s')" if "uuid_ok env" "drawn env s"
  proof -
    have "uuid_New env (snd s) \<notin> uuid_New env ` {..<snd s}"
      using that(1) by (auto simp: uuid_ok_def dest: injD)
    then have "Comp_id c' \<notin> dom (comp_of (fst s))" using that(2) ok by (auto simp: drawn_def)
    then show ?thesis using that(2) ok by (auto simp: drawn_def s' update_conv' map_le_def)
  qed
  ultimately show ?thesis
    using ok by (auto simp: extends_def s' update_conv')
qed

lemma ensure_added_ok:
  assumes "ensure_added env s c = (s', c')" "known (fst s) c"
  shows "extends env s s' \<and> Comp_id c' \<in> dom (comp_of (fst s')) \<and> (Comp_id c \<noteq> uuid_Nil \<longrightarrow> s' = s \<and> c' = c)"
  using assms AddComponent_ok [of env s c s' c'] by (auto simp: ensure_added_def known_def split: if_splits)

lemma bom_ok_relate:
  fixes t :: RelationshipType
  assumes "bom_ok b" "p \<in> dom (comp_of b)" "c \<in> dom (comp_of b)"
  defines "b1 \<equiv> b\<lparr>BOM_relationships := map_append p \<lparr>SR_Dependency = c, SR_Type = t\<rparr> (BOM_relationships b)\<rparr>"
  shows "bom_ok (if Opt_Parents (BOM_opts b1) then b1\<lparr>BOM_parents := map_append c p (BOM_parents b1)\<rparr> else b1)"
proof -
  let ?b2 = "if Opt_Parents (BOM_opts b1) then b1\<lparr>BOM_parents := map_append c p (BOM_parents b1)\<rparr> else b1"
  have same: "BOM_components ?b2 = BOM_components b" "BOM_opts ?b2 = BOM_opts b"
    "BOM_relationships ?b2 = map_append p \<lparr>SR_Dependency = c, SR_Type = t\<rparr> (BOM_relationships b)"
    "BOM_parents ?b2 = (if Opt_Parents (BOM_opts b) then map_append c p (BOM_parents b) else BOM_parents b)"
    by (simp_all add: b1_def)
  have "SR_Dependency ` set (lookup_list (BOM_relationships b) p) \<subseteq> dom (comp_of b)"
    using assms(1) by (cases "map_of (BOM_relationships b) p") (simp_all add: bom_ok_def lookup_list_def)
  then have "\<forall>q rs. map_of (BOM_relationships ?b2) q = Some rs \<longrightarrow>
      q \<in> dom (comp_of ?b2) \<and> SR_Dependency ` set rs \<subseteq> dom (comp_of ?b2)"
    using assms(1-3) unfolding same bom_ok_def map_of_map_append by (auto split: if_splits)
  moreover have "\<forall>d q. q \<in> set (lookup_list (BOM_parents ?b2) d) \<longleftrightarrow>
      Opt_Parents (BOM_opts ?b2) \<and> d \<in> SR_Dependency ` set (lookup_list (BOM_relationships ?b2) q)"
    using assms(1) unfolding same bom_ok_def by auto
  ultimately show ?thesis using assms(1) unfolding bom_ok_def same by blast
qed

lemma bom_ok_declare:
  "\<lbrakk>bom_ok b; p \<in> dom (comp_of b); map_of (BOM_relationships b) p = None\<rbrakk> \<Longrightarrow>
     bom_ok (b\<lparr>BOM_relationships := AList.update p [] (BOM_relationships b)\<rparr>)"
  by (auto simp: bom_ok_def update_conv' lookup_list_def)

definition known_ptr :: "BOM \<Rightarrow> Component option \<Rightarrow> bool" where
  "known_ptr b c \<longleftrightarrow> (\<forall>x. c = Some x \<longrightarrow> known b x)"

lemma AddRelationship_ok:
  assumes "AddRelationship env s parent child t = (s', parent', child')"
    and "known_ptr (fst s) parent" "known_ptr (fst s) child"
  shows "extends env s s'"
proof (cases parent)
  case None
  then show ?thesis using assms(1) by (simp add: AddRelationship_def)
next
  case (Some p)
  obtain s1 p1 where p1: "ensure_added env s p = (s1, p1)" by (cases "ensure_added env s p")
  have e1: "extends env s s1" "Comp_id p1 \<in> dom (comp_of (fst s1))"
    using ensure_added_ok [OF p1] assms(2) by (auto simp: Some known_ptr_def)
  show ?thesis
  proof (cases child)
    case None
    obtain b n where s1: "s1 = (b, n)" by force
    have "extends env s1 s'"
      using assms(1) e1(2) bom_ok_declare [of b "Comp_id p1"]
      by (intro extends_fields) (auto simp: AddRelationship_def Some None p1 s1 split: if_splits)
    then show ?thesis using e1(1) by (blast intro: extends_trans)
  next
    case (Some c)
    obtain b n c1 where c1: "ensure_added env s1 c = ((b, n), c1)" by (metis surj_pair)
    have e2: "extends env s1 (b, n)" "Comp_id c1 \<in> dom (comp_of b)"
      using ensure_added_ok [OF c1] assms(3) extends_known [OF e1(1), of c] by (auto simp: Some known_ptr_def)
    let ?b1 = "b\<lparr>BOM_relationships := map_append (Comp_id p1) \<lparr>SR_Dependency = Comp_id c1, SR_Type = t\<rparr> (BOM_relationships b)\<rparr>"
    have s': "s' = (if Opt_Parents (BOM_opts ?b1) then ?b1\<lparr>BOM_parents := map_append (Comp_id c1) (Comp_id p1) (BOM_parents ?b1)\<rparr> else ?b1, n)"
      using assms(1) by (auto simp: AddRelationship_def \<open>parent = Some p\<close> Some p1 c1 Let_def)
    have "extends env (b, n) s'"
      using bom_ok_relate [of b "Comp_id p1" "Comp_id c1" t] extends_dom [OF e2(1) e1(2)] e2(2)
      by (intro extends_fields) (auto simp: s')
    then show ?thesis using e1(1) e2(1) by (blast intro: extends_trans)
  qed
qed

lemma AddRelationship_child:
  assumes "AddRelationship env s (Some p) (Some c) t = (s', parent', child')" "known (fst s) p" "known (fst s) c"
  shows "\<exists>c'. child' = Some c' \<and> Comp_id c' \<in> dom (comp_of (fst s')) \<and>
    (Opt_Parents (BOM_opts (fst s)) \<and> Comp_id p \<noteq> uuid_Nil \<longrightarrow> Comp_id p \<in> parents_of (fst s') (Comp_id c')) \<and>
    (Comp_id c \<noteq> uuid_Nil \<longrightarrow> c' = c)"
proof -
  obtain s1 p1 where p1: "ensure_added env s p = (s1, p1)" by (cases "ensure_added env s p")
  obtain b n c1 where c1: "ensure_added env s1 c = ((b, n), c1)" by (metis surj_pair)
  have e1: "extends env s s1" "Comp_id p \<noteq> uuid_Nil \<longrightarrow> p1 = p" using ensure_added_ok [OF p1 assms(2)] by auto
  then have "Comp_id c1 \<in> dom (comp_of b)" "extends env s1 (b, n)" "Comp_id c \<noteq> uuid_Nil \<longrightarrow> c1 = c"
    using ensure_added_ok [OF c1 extends_known [OF e1(1) assms(3)]] by auto
  moreover have "BOM_opts b = BOM_opts (fst s)" using e1(1) calculation(2) by (simp add: extends_def)
  ultimately show ?thesis using assms(1) e1(2) by (auto simp: AddRelationship_def p1 c1 Let_def split: if_splits)
qed

lemma AddVulnerabilities_ok:
  assumes "AddVulnerabilities env s c vulns = (s', c')" "known (fst s) c"
  shows "extends env s s'"
proof -
  obtain b n c1 where c1: "ensure_added env s c = ((b, n), c1)" by (metis surj_pair)
  have "extends env s (b, n)" using ensure_added_ok [OF c1 assms(2)] by simp
  moreover have "extends env (b, n) s'"
    using assms(1) by (intro extends_fields) (auto simp: AddVulnerabilities_def c1 split: if_splits)
  ultimately show ?thesis by (rule extends_trans)
qed

section \<open>The graph of components\<close>

definition parent_of :: "(UUID \<Rightarrow> Component option) \<Rightarrow> (UUID \<Rightarrow> UUID list) \<Rightarrow> Component \<Rightarrow> Component \<Rightarrow> bool" where
  "parent_of comps parents c d \<longleftrightarrow> (\<exists>p \<in> set (parents (Comp_id c)). comps p = Some d)"

abbreviation bom_parent :: "BOM \<Rightarrow> Component \<Rightarrow> Component \<Rightarrow> bool" where
  "bom_parent b \<equiv> parent_of (comp_of b) (lookup_list (BOM_parents b))"

definition reaches_root :: "BOM \<Rightarrow> Component \<Rightarrow> bool" where
  "reaches_root b c \<longleftrightarrow> (\<exists>r. (bom_parent b)\<^sup>*\<^sup>* c r \<and> Comp_Root r)"

lemma reaches_root_step: "bom_parent b c d \<Longrightarrow> reaches_root b d \<Longrightarrow> reaches_root b c"
  by (auto simp: reaches_root_def intro: converse_rtranclp_into_rtranclp)

lemma extends_reaches:
  assumes "extends env s s'" "uuid_ok env" "drawn env s" "reaches_root (fst s) c"
  shows "reaches_root (fst s') c"
proof -
  have "bom_parent (fst s) \<le> bom_parent (fst s')"
    using extends_comp [OF assms(1-3)] extends_parent [OF assms(1)] by (fastforce simp: parent_of_def)
  then have "(bom_parent (fst s))\<^sup>*\<^sup>* \<le> (bom_parent (fst s'))\<^sup>*\<^sup>*" by (rule rtranclp_mono)
  then show ?thesis using assms(4) by (auto simp: reaches_root_def)
qed

text \<open>Relating components that are in the BOM already adds no component.\<close>

lemma AddRelationship_comps:
  assumes "\<forall>p. parent = Some p \<longrightarrow> Comp_id p \<noteq> uuid_Nil" "\<forall>c. child = Some c \<longrightarrow> Comp_id c \<noteq> uuid_Nil"
  shows "BOM_components (fst (fst (AddRelationship env s parent child t))) = BOM_components (fst s)"
  using assms
  by (auto simp: AddRelationship_def ensure_added_def Let_def split_beta split: option.splits)

end
