(* ===== verification/Sbom_Encode.thy ===== *)
theory Sbom_Encode
  imports Sbom_Core Report_Types
begin

text \<open>
  The encoder of reports as SBOMs, \<open>pkg/sbom/io/encode.go\<close>. The state of the encoder is the BOM under construction
  together with the number of UUIDs drawn; \<open>encodePackages\<close> also writes identifiers into the packages of the report, so
  the encoder returns the results as well.
\<close>

section \<open>The report and the encoder\<close>

type_synonym ArtifactType = string

abbreviation TypeContainerImage :: ArtifactType where "TypeContainerImage \<equiv> ''container_image''"
abbreviation TypeFilesystem :: ArtifactType where "TypeFilesystem \<equiv> ''filesystem''"
abbreviation TypeRepository :: ArtifactType where "TypeRepository \<equiv> ''repository''"
abbreviation TypeCycloneDX :: ArtifactType where "TypeCycloneDX \<equiv> ''cyclonedx''"
abbreviation TypeSPDX :: ArtifactType where "TypeSPDX \<equiv> ''spdx''"
abbreviation TypeVM :: ArtifactType where "TypeVM \<equiv> ''vm''"

abbreviation ClassCrypto :: ResultClass where "ClassCrypto \<equiv> ''crypto''"

record Report =
  Rep_SchemaVersion :: int
  Rep_ArtifactName :: string
  Rep_ArtifactType :: ArtifactType
  Rep_Metadata :: Metadata
  Rep_Results :: "Result list"
  Rep_BOM :: "BOM option"

record Encoder =
  bomOpts :: bom_Options
  forceRegenerate :: bool

text \<open>The order in which Go ranges over the maps is an argument.\<close>

record encode_env = sbom_env +
  range_labels :: "(string \<times> string) list \<Rightarrow> (string \<times> string) list"
  range_comps :: "(UUID \<times> Component) list \<Rightarrow> (UUID \<times> Component) list"
  range_refs :: "(string \<times> core_Vulnerability list) list \<Rightarrow> (string \<times> core_Vulnerability list) list"

abbreviation core_env :: "encode_env \<Rightarrow> sbom_env" where
  "core_env env \<equiv> sbom_env.truncate env"

section \<open>Components\<close>

definition filterProperties :: "Property list \<Rightarrow> Property list" where
  "filterProperties props =
     filter (\<lambda>p. Prop_Value p \<noteq> [] \<and> (Prop_Name p \<noteq> PropertySrcEpoch \<or> Prop_Value p \<noteq> ''0'')) props"

definition rootComponent :: "encode_env \<Rightarrow> Report \<Rightarrow> Component result option" where
  "rootComponent env r =
     (let m = Rep_Metadata r;
          root = Component_empty\<lparr>Comp_Root := True, Comp_Name := Rep_ArtifactName r\<rparr>;
          props = [Prop PropertySchemaVersion (itoa (Rep_SchemaVersion r))];
          finish = (\<lambda>root props.
            root\<lparr>Comp_Properties := filterProperties (props @
              (if Meta_Size m \<noteq> 0 then [Prop PropertySize (itoa (Meta_Size m))] else []) @
              map (Prop PropertyRepoDigest) (Meta_RepoDigests m) @
              map (Prop PropertyDiffID) (Meta_DiffIDs m) @
              map (Prop PropertyRepoTag) (Meta_RepoTags m) @
              (case Meta_Reference m of Some ref \<Rightarrow> [Prop PropertyReference ref] | None \<Rightarrow> []))\<rparr>)
      in if Rep_ArtifactType r = TypeContainerImage then
           let root1 = root\<lparr>Comp_Type := core_TypeContainerImage\<rparr>;
               props1 = props @ [Prop PropertyImageID (Meta_ImageID m)] @
                 map (\<lambda>(label, value). Prop (PropertyLabelsPrefix @ '':'' @ label) value) (range_labels env (Meta_Labels m))
           in case New (sbom_purl env) ''oci'' m Package_empty of
                None \<Rightarrow> None
              | Some (Inl e) \<Rightarrow> Some (Inl (Wrapf ''failed to new package url for oci: %w'' [] e))
              | Some (Inr p) \<Rightarrow>
                  Some (Inr (finish (root1\<lparr>Comp_PkgIdentifier := PkgIdentifier_empty\<lparr>Id_PURL := p\<rparr>\<rparr>) props1))
         else
           Some (Inr (finish
             (if Rep_ArtifactType r = TypeVM then root\<lparr>Comp_Type := core_TypeVM\<rparr>
              else if Rep_ArtifactType r = TypeFilesystem then root\<lparr>Comp_Type := core_TypeFilesystem\<rparr>
              else if Rep_ArtifactType r = TypeRepository then root\<lparr>Comp_Type := core_TypeRepository\<rparr>
              else if Rep_ArtifactType r = TypeCycloneDX \<or> Rep_ArtifactType r = TypeSPDX
                then root\<lparr>Comp_Type := core_TypeFilesystem\<rparr>
              else root) props)))"

text \<open>The version with the epoch that the package URL carries as a qualifier.\<close>

definition epoch_version :: "PackageURL \<Rightarrow> string" where
  "epoch_version pu =
     fold (\<lambda>q version. if fst q = ''epoch'' \<and> snd q \<noteq> ''0'' then snd q @ '':'' @ version else version)
       (PURL_Qualifiers pu) (PURL_Version pu)"

definition component_properties :: "Result \<Rightarrow> Package \<Rightarrow> Property list" where
  "component_properties result pkg =
     [Prop PropertyPkgID (Pkg_ID pkg),
      Prop PropertyPkgType (Res_Type result),
      Prop PropertyFilePath (Pkg_FilePath pkg),
      Prop PropertySrcName (Pkg_SrcName pkg),
      Prop PropertySrcVersion (Pkg_SrcVersion pkg),
      Prop PropertySrcRelease (Pkg_SrcRelease pkg),
      Prop PropertySrcEpoch (itoa (Pkg_SrcEpoch pkg)),
      Prop PropertyModularitylabel (Pkg_Modularitylabel pkg),
      Prop PropertyLayerDigest (Layer_Digest (Pkg_Layer pkg)),
      Prop PropertyLayerDiffID (Layer_DiffID (Pkg_Layer pkg))] @
     (if Res_Type result = ''alire'' \<and> Pkg_Relationship pkg \<noteq> RelationshipUnknown
      then [Prop PropertyPkgRelationship (Relationship_String (Pkg_Relationship pkg))] else []) @
     (case Pkg_BuildInfo pkg of
        None \<Rightarrow> []
      | Some bi \<Rightarrow>
          map (Prop PropertyContentSet) (ContentSets bi) @
          (if Nvr bi \<noteq> [] then [Prop PropertyNVR (Nvr bi)] else []) @
          (if Build_Arch bi \<noteq> [] then [Prop PropertyArch (Build_Arch bi)] else []))"

definition Encoder_component :: "Result \<Rightarrow> Package \<Rightarrow> Component" where
  "Encoder_component result pkg =
     (let pu = Id_PURL (Pkg_Identifier pkg);
          version = (case pu of Some p \<Rightarrow> epoch_version p | None \<Rightarrow> FormatVersion pkg);
          (name, grp) = (case pu of
             Some p \<Rightarrow> if PURL_Type p = ''maven'' \<or> PURL_Type p = ''npm'' then (PURL_Name p, PURL_Namespace p) else (Pkg_Name pkg, [])
           | None \<Rightarrow> (Pkg_Name pkg, []));
          files = (if Pkg_FilePath pkg \<noteq> [] \<or> Pkg_Digest pkg \<noteq> []
                   then [\<lparr>File_Path = Pkg_FilePath pkg, File_Digests = (if Pkg_Digest pkg \<noteq> [] then [Pkg_Digest pkg] else [])\<rparr>]
                   else []);
          srcFile = (if Res_Class result = ClassLangPkg \<and> Res_Type result \<notin> set AggregatingTypes then Res_Target result else [])
      in Component_empty\<lparr>Comp_Type := core_TypeLibrary, Comp_Name := name, Comp_Group := grp, Comp_Version := version,
           Comp_SrcName := Pkg_SrcName pkg, Comp_SrcVersion := FormatSrcVersion pkg, Comp_SrcFile := srcFile,
           Comp_PkgIdentifier := Pkg_Identifier pkg, Comp_Supplier := Pkg_Maintainer pkg, Comp_Licenses := Pkg_Licenses pkg,
           Comp_Files := files, Comp_Properties := filterProperties (component_properties result pkg)\<rparr>)"

definition Encoder_vulnerability :: "DetectedVulnerability \<Rightarrow> core_Vulnerability" where
  "Encoder_vulnerability vuln = \<lparr>CV_Vulnerability = DV_Vulnerability vuln, CV_ID = DV_VulnerabilityID vuln,
     CV_PkgName = DV_PkgName vuln, CV_InstalledVersion = DV_InstalledVersion vuln, CV_FixedVersion = DV_FixedVersion vuln,
     CV_PrimaryURL = DV_PrimaryURL vuln, CV_DataSource = DV_DataSource vuln\<rparr>"

definition belongToParent :: "Package \<Rightarrow> (string \<times> Package list) list \<Rightarrow> bool \<Rightarrow> bool" where
  "belongToParent pkg parents hasRoot =
     (if Pkg_Relationship pkg = RelationshipDirect then \<not> hasRoot
      else length (lookup_list parents (Pkg_ID pkg)) = 0)"

definition result_component :: "Result \<Rightarrow> OS option \<Rightarrow> Component" where
  "result_component r osFound =
     (let component = Component_empty\<lparr>Comp_Name := Res_Target r,
            Comp_Properties := [Prop PropertyType (Res_Type r), Prop PropertyClass (Res_Class r)]\<rparr>
      in if Res_Class r = ClassOSPkg then
           (case osFound of
              Some os \<Rightarrow> component\<lparr>Comp_Name := OS_Family os, Comp_Version := OS_Name os\<rparr>
            | None \<Rightarrow> component)\<lparr>Comp_Type := core_TypeOS\<rparr>
         else if Res_Class r = ClassLangPkg then component\<lparr>Comp_Type := core_TypeApplication\<rparr>
         else component)"

definition resultComponent ::
    "encode_env \<Rightarrow> bom_state \<Rightarrow> Component \<Rightarrow> Result \<Rightarrow> OS option \<Rightarrow> bom_state \<times> Component" where
  "resultComponent env s root r osFound =
     (let component = result_component r osFound
      in case AddRelationship (core_env env) s (Some root) (Some component) RelationshipContains of
           (s1, _, Some c) \<Rightarrow> (s1, c)
         | (s1, _, None) \<Rightarrow> (s1, component))"

section \<open>Packages\<close>

type_synonym component_map = "(string \<times> Component) list"

definition vulns_by_UID :: "DetectedVulnerability list \<Rightarrow> (string \<times> core_Vulnerability list) list" where
  "vulns_by_UID vulns =
     fold (\<lambda>v m. map_append (Id_UID (DV_PkgIdentifier v)) (Encoder_vulnerability v) m) vulns []"

definition package_ID :: "Package \<Rightarrow> string" where
  "package_ID pkg = (if Pkg_ID pkg = [] then Pkg_Name pkg @ ''@'' @ Pkg_Version pkg else Pkg_ID pkg)"

text \<open>The first loop of \<open>encodePackages\<close>: one component per package, kept under its UID and its identifier.\<close>

definition encode_package ::
    "encode_env \<Rightarrow> Result \<Rightarrow> (string \<times> core_Vulnerability list) list \<Rightarrow> Package \<Rightarrow>
      bom_state \<times> component_map \<times> component_map \<Rightarrow> bom_state \<times> component_map \<times> component_map" where
  "encode_package env result vulns pkg st =
     (let (s, components, dependencies) = st;
          uid = Id_UID (Pkg_Identifier pkg);
          (s1, c) = AddComponent (core_env env) s (Encoder_component result pkg);
          s2 = (case map_of vulns uid of Some vv \<Rightarrow> fst (AddVulnerabilities (core_env env) s1 c vv) | None \<Rightarrow> s1)
      in (s2, AList.update uid c components, AList.update (package_ID pkg) c dependencies))"

text \<open>The second loop: the edges of the dependency graph.\<close>

definition add_dependency ::
    "encode_env \<Rightarrow> component_map \<Rightarrow> Component option \<Rightarrow> string \<Rightarrow> bom_state \<Rightarrow> bom_state" where
  "add_dependency env dependencies c dep s =
     (case map_of dependencies dep of
        None \<Rightarrow> s
      | Some d \<Rightarrow> fst (AddRelationship (core_env env) s c (Some d) RelationshipDependsOn))"

definition encode_edges ::
    "encode_env \<Rightarrow> Component \<Rightarrow> (string \<times> Package list) list \<Rightarrow> bool \<Rightarrow> component_map \<Rightarrow> component_map \<Rightarrow>
      Package \<Rightarrow> bom_state \<Rightarrow> bom_state" where
  "encode_edges env parent parents hasRoot components dependencies pkg s =
     (let c = map_of components (Id_UID (Pkg_Identifier pkg));
          s1 = (if belongToParent pkg parents hasRoot
                then fst (AddRelationship (core_env env) s (Some parent) c RelationshipContains) else s);
          s2 = fold (add_dependency env dependencies c) (Pkg_DependsOn pkg) s1
      in if length (Pkg_DependsOn pkg) = 0 then fst (AddRelationship (core_env env) s2 c None []) else s2)"

definition encodePackages :: "encode_env \<Rightarrow> bom_state \<Rightarrow> Component \<Rightarrow> Result \<Rightarrow> bom_state \<times> Result" where
  "encodePackages env s parent result =
     (let parents = ParentDeps (Res_Packages result);
          vulns = vulns_by_UID (Res_Vulnerabilities result);
          (s1, components, dependencies) = fold (encode_package env result vulns) (Res_Packages result) (s, [], []);
          hasRoot = list_ex (\<lambda>pkg. Pkg_Relationship pkg = RelationshipRoot) (Res_Packages result);
          pkgs = map (\<lambda>pkg. pkg\<lparr>Pkg_ID := package_ID pkg\<rparr>) (Res_Packages result)
      in (fold (encode_edges env parent parents hasRoot components dependencies) pkgs s1,
          result\<lparr>Res_Packages := pkgs\<rparr>))"

definition encodeResult ::
    "encode_env \<Rightarrow> bom_state \<Rightarrow> Component \<Rightarrow> Metadata \<Rightarrow> Result \<Rightarrow> bom_state \<times> Result" where
  "encodeResult env s root metadata result =
     (if Res_Type result \<in> set AggregatingTypes then encodePackages env s root result
      else if Res_Class result = ClassOSPkg \<or> Res_Class result = ClassLangPkg then
        let (s1, appComponent) = resultComponent env s root result (Meta_OS metadata)
        in encodePackages env s1 appComponent result
      else (s, result))"

fun encode_results ::
    "encode_env \<Rightarrow> bom_state \<Rightarrow> Component \<Rightarrow> Metadata \<Rightarrow> Result list \<Rightarrow> bom_state \<times> Result list" where
  "encode_results env s root metadata [] = (s, [])"
| "encode_results env s root metadata (r # rs) =
     (let (s1, r1) = encodeResult env s root metadata r;
          (s2, rs1) = encode_results env s1 root metadata rs
      in (s2, r1 # rs1))"

section \<open>Cryptographic assets\<close>

type_synonym crypto_state =
  "(CryptoDescriptor \<times> CryptoAssetInfo) list \<times> (CryptoDescriptor \<times> core_Occurrence list) list \<times> CryptoDescriptor list"

definition collect_asset :: "CryptoAsset \<Rightarrow> crypto_state \<Rightarrow> crypto_state" where
  "collect_asset asset st =
     (let (descriptions, occurrences, descriptors) = st;
          descriptor = Descriptor asset;
          (descriptions1, descriptors1) =
            (if map_of descriptions descriptor = None
             then (AList.update descriptor (CryptoAssetInfo.truncate asset) descriptions, descriptors @ [descriptor])
             else (descriptions, descriptors));
          occurrence = \<lparr>CO_Location = Asset_FilePath asset, CO_LayerDiffID = Layer_DiffID (Asset_Layer asset)\<rparr>;
          occurrences1 =
            (if occurrence \<notin> set (lookup_list occurrences descriptor)
             then map_append descriptor occurrence occurrences else occurrences)
      in (descriptions1, occurrences1, descriptors1))"

definition encodeCryptoAssets :: "BOM \<Rightarrow> Result list \<Rightarrow> BOM" where
  "encodeCryptoAssets b results =
     (let cryptoAssets = concat (map (\<lambda>r. if Res_Class r = ClassCrypto then Res_CryptoAssets r else []) results);
          (descriptions, occurrences, descriptors) =
            fold collect_asset (sort_stable_func CompareCryptoAssets cryptoAssets) ([], [], [])
      in fold (\<lambda>descriptor b.
           case map_of descriptions descriptor of
             Some asset \<Rightarrow> AddCryptoComponent b \<lparr>CC_Asset = asset, CC_Occurrences = lookup_list occurrences descriptor\<rparr>
           | None \<Rightarrow> b) descriptors b)"

section \<open>Encoding\<close>

text \<open>\<open>reuseExistingBOM\<close> changes the BOM of the report too: \<open>Components\<close> fills in its references. The copy is made
  before that.\<close>

definition reuse_result :: "encode_env \<Rightarrow> component_map \<Rightarrow> Result \<Rightarrow> bom_state \<Rightarrow> bom_state" where
  "reuse_result env components result s =
     (let vulns = fold (\<lambda>v m. map_append (Id_BOMRef (DV_PkgIdentifier v)) (Encoder_vulnerability v) m)
                    (Res_Vulnerabilities result) []
      in fold (\<lambda>(ref, vv) s.
           case map_of components ref of
             None \<Rightarrow> s
           | Some c \<Rightarrow> fst (AddVulnerabilities (core_env env) s c vv)) (range_refs env vulns) s)"

definition reuseExistingBOM :: "encode_env \<Rightarrow> nat \<Rightarrow> BOM \<Rightarrow> Result list \<Rightarrow> bom_state \<times> BOM" where
  "reuseExistingBOM env n bom results =
     (let bom1 = Components (core_env env) bom;
          components = fold (\<lambda>(_, c) m. AList.update (Id_BOMRef (Comp_PkgIdentifier c)) c m) (range_comps env (BOM_components bom1)) []
      in (fold (reuse_result env components) results (bom, n), bom1))"

definition Encode :: "encode_env \<Rightarrow> Encoder \<Rightarrow> nat \<Rightarrow> Report \<Rightarrow> (bom_state \<times> Report) result option" where
  "Encode env e n report =
     (case (Rep_BOM report, forceRegenerate e) of
        (Some bom, False) \<Rightarrow>
          let (s, bom1) = reuseExistingBOM env n bom (Rep_Results report)
          in Some (Inr (s, report\<lparr>Rep_BOM := Some bom1\<rparr>))
      | _ \<Rightarrow>
          (case rootComponent env report of
             None \<Rightarrow> None
           | Some (Inl err) \<Rightarrow> Some (Inl (Wrapf ''failed to create root component: %w'' [] err))
           | Some (Inr root) \<Rightarrow>
               let b = (case Rep_BOM report of
                          Some old \<Rightarrow> (NewBOM (bomOpts e))\<lparr>BOM_SerialNumber := BOM_SerialNumber old, BOM_Version := BOM_Version old\<rparr>
                        | None \<Rightarrow> NewBOM (bomOpts e));
                   (s1, root1) = AddComponent (core_env env) (b, n) root;
                   ((b2, n2), results) = encode_results env s1 root1 (Rep_Metadata report) (Rep_Results report);
                   b3 = encodeCryptoAssets b2 results;
                   s4 = (if map_of (BOM_relationships b3) (Comp_id root1) = None
                         then fst (AddRelationship (core_env env) (b3, n2) (Some root1) None []) else (b3, n2))
               in Some (Inr (s4, report\<lparr>Rep_Results := results\<rparr>))))"

section \<open>The encoder keeps the invariant\<close>

definition components_ok :: "BOM \<Rightarrow> component_map \<Rightarrow> bool" where
  "components_ok b m \<longleftrightarrow> (\<forall>k c. map_of m k = Some c \<longrightarrow> Comp_id c \<in> dom (comp_of b))"

lemma components_ok_ptr: "components_ok b m \<Longrightarrow> known_ptr b (map_of m k)"
  by (simp add: components_ok_def known_ptr_def known_def)

lemma components_ok_extends: "extends env s s' \<Longrightarrow> components_ok (fst s) m \<Longrightarrow> components_ok (fst s') m"
  using extends_dom unfolding components_ok_def by blast

lemma components_ok_update: "components_ok b m \<Longrightarrow> Comp_id c \<in> dom (comp_of b) \<Longrightarrow> components_ok b (AList.update k c m)"
  by (auto simp: components_ok_def update_conv')

lemma AddRelationship_extends:
  "\<lbrakk>known_ptr (fst s) parent; known_ptr (fst s) child\<rbrakk> \<Longrightarrow> extends env s (fst (AddRelationship env s parent child t))"
  using AddRelationship_ok by (cases "AddRelationship env s parent child t") fastforce

lemma Encoder_component_id [simp]:
  "Comp_id (Encoder_component result pkg) = uuid_Nil" "Comp_Root (Encoder_component result pkg) = False"
  "Comp_PkgIdentifier (Encoder_component result pkg) = Pkg_Identifier pkg"
  by (simp_all add: Encoder_component_def Component_empty_def Let_def split: option.splits)

lemma encode_package_ok:
  assumes "encode_package env result vulns pkg (s, cm, dm) = (s', cm', dm')" "components_ok (fst s) cm" "components_ok (fst s) dm"
  shows "extends (core_env env) s s' \<and> components_ok (fst s') cm' \<and> components_ok (fst s') dm'"
proof -
  obtain s1 c where c: "AddComponent (core_env env) s (Encoder_component result pkg) = (s1, c)"
    by (cases "AddComponent (core_env env) s (Encoder_component result pkg)")
  have e1: "extends (core_env env) s s1" "Comp_id c \<in> dom (comp_of (fst s1))"
    using AddComponent_ok [OF c] by (auto simp: Encoder_component_id)
  then have "extends (core_env env) s1 (fst (AddVulnerabilities (core_env env) s1 c vv))" for vv
    using AddVulnerabilities_ok [of "core_env env" s1 c vv] by (cases "AddVulnerabilities (core_env env) s1 c vv") (auto simp: known_def)
  then have e2: "extends (core_env env) s1 s'"
    using assms(1) by (auto simp: encode_package_def Let_def c split: option.splits)
  note ext = extends_trans [OF e1(1) e2]
  have "components_ok (fst s') (AList.update k c m)" if "components_ok (fst s) m" for k m
    using components_ok_update [OF components_ok_extends [OF ext that]] extends_dom [OF e2 e1(2)] .
  then show ?thesis using assms ext by (auto simp: encode_package_def Let_def c)
qed

lemma encode_packages_ok:
  assumes "fold (encode_package env result vulns) pkgs (s, cm, dm) = (s', cm', dm')" "components_ok (fst s) cm" "components_ok (fst s) dm"
  shows "extends (core_env env) s s' \<and> components_ok (fst s') cm' \<and> components_ok (fst s') dm'"
  using assms
proof (induction pkgs arbitrary: s cm dm)
  case (Cons pkg pkgs)
  obtain s1 cm1 dm1 where 1: "encode_package env result vulns pkg (s, cm, dm) = (s1, cm1, dm1)" by (metis surj_pair)
  show ?case
    using encode_package_ok [OF 1 Cons.prems(2,3)] Cons.IH [of s1 cm1 dm1] Cons.prems(1) extends_trans by (fastforce simp: 1)
qed simp

lemma add_dependency_ok:
  "\<lbrakk>known_ptr (fst s) c; components_ok (fst s) dm\<rbrakk> \<Longrightarrow> extends (core_env env) s (add_dependency env dm c dep s)"
  using components_ok_ptr [of "fst s" dm dep] AddRelationship_extends [of s c]
  by (auto simp: add_dependency_def split: option.splits)

lemma add_dependencies_ok:
  "\<lbrakk>known_ptr (fst s) c; components_ok (fst s) dm\<rbrakk> \<Longrightarrow> extends (core_env env) s (fold (add_dependency env dm c) deps s)"
proof (induction deps arbitrary: s)
  case (Cons dep deps)
  have e: "extends (core_env env) s (add_dependency env dm c dep s)" by (rule add_dependency_ok [OF Cons.prems])
  have "known_ptr (fst (add_dependency env dm c dep s)) c" "components_ok (fst (add_dependency env dm c dep s)) dm"
    using e Cons.prems extends_known [OF e] components_ok_extends [OF e] by (auto simp: known_ptr_def)
  from Cons.IH [OF this] show ?case using e by (auto intro: extends_trans)
qed simp

lemma encode_edges_ok:
  assumes "known (fst s) parent" "components_ok (fst s) cm" "components_ok (fst s) dm"
  shows "extends (core_env env) s (encode_edges env parent parents hasRoot cm dm pkg s)"
proof -
  let ?c = "map_of cm (Id_UID (Pkg_Identifier pkg))"
  let ?s1 = "if belongToParent pkg parents hasRoot
    then fst (AddRelationship (core_env env) s (Some parent) ?c RelationshipContains) else s"
  let ?s2 = "fold (add_dependency env dm ?c) (Pkg_DependsOn pkg) ?s1"
  have keep: "known_ptr (fst s') ?c \<and> components_ok (fst s') dm" if "extends (core_env env) s s'" for s'
    using components_ok_extends [OF that] components_ok_ptr assms by blast
  have e1: "extends (core_env env) s ?s1"
    using AddRelationship_extends [of s "Some parent" ?c] components_ok_ptr [OF assms(2)] assms(1) by (simp add: known_ptr_def)
  have e2: "extends (core_env env) s ?s2"
    using add_dependencies_ok [of ?s1 ?c dm] keep [OF e1] extends_trans [OF e1] by blast
  have "extends (core_env env) ?s2 (fst (AddRelationship (core_env env) ?s2 ?c None []))"
    using AddRelationship_extends [of ?s2 ?c None] keep [OF e2] by (simp add: known_ptr_def)
  then have e3: "extends (core_env env) s (fst (AddRelationship (core_env env) ?s2 ?c None []))" by (rule extends_trans [OF e2])
  have "encode_edges env parent parents hasRoot cm dm pkg s =
      (if length (Pkg_DependsOn pkg) = 0 then fst (AddRelationship (core_env env) ?s2 ?c None []) else ?s2)"
    by (simp only: encode_edges_def Let_def)
  then show ?thesis using e2 e3 by (simp only: split: if_split) blast
qed

lemma encode_all_edges_ok:
  assumes "known (fst s) parent" "components_ok (fst s) cm" "components_ok (fst s) dm"
  shows "extends (core_env env) s (fold (encode_edges env parent parents hasRoot cm dm) pkgs s)"
  using assms
proof (induction pkgs arbitrary: s)
  case (Cons pkg pkgs)
  note e = encode_edges_ok [OF Cons.prems, of env parents hasRoot pkg]
  show ?case
    using Cons.IH [OF extends_known [OF e] components_ok_extends [OF e] components_ok_extends [OF e]] Cons.prems extends_trans [OF e] by simp
qed simp

lemma encodePackages_ok:
  assumes "known (fst s) parent"
  shows "extends (core_env env) s (fst (encodePackages env s parent result))"
proof -
  obtain s1 cm dm where 1: "fold (encode_package env result (vulns_by_UID (Res_Vulnerabilities result))) (Res_Packages result) (s, [], []) =
      (s1, cm, dm)" by (metis surj_pair)
  have e: "extends (core_env env) s s1" "components_ok (fst s1) cm" "components_ok (fst s1) dm"
    using encode_packages_ok [OF 1] by (auto simp: components_ok_def)
  then show ?thesis
    using encode_all_edges_ok [OF extends_known [OF e(1) assms] e(2,3)] extends_trans by (simp add: encodePackages_def 1 Let_def)
qed

lemma resultComponent_ok:
  assumes "resultComponent env s root r os = (s', c)" "known (fst s) root"
  shows "extends (core_env env) s s' \<and> known (fst s') c"
proof -
  obtain s1 p1 c1 where 1: "AddRelationship (core_env env) s (Some root) (Some (result_component r os)) RelationshipContains = (s1, p1, c1)"
    by (metis surj_pair)
  have new: "known b (result_component r os)" for b
    by (simp add: known_def result_component_def Component_empty_def Let_def split: option.splits)
  obtain c' where "c1 = Some c'" "Comp_id c' \<in> dom (comp_of (fst s1))"
    using AddRelationship_child [OF 1 assms(2) new] by blast
  moreover have "extends (core_env env) s s1" using AddRelationship_ok [OF 1] assms(2) new by (simp add: known_ptr_def)
  ultimately show ?thesis using assms(1) by (auto simp: resultComponent_def 1 known_def)
qed

lemma encodeResult_ok:
  assumes "known (fst s) root"
  shows "extends (core_env env) s (fst (encodeResult env s root metadata result))"
proof -
  obtain s1 c where 1: "resultComponent env s root result (Meta_OS metadata) = (s1, c)"
    by (cases "resultComponent env s root result (Meta_OS metadata)")
  have "extends (core_env env) s (fst (encodePackages env s1 c result))"
    using resultComponent_ok [OF 1 assms] encodePackages_ok [of s1 c] extends_trans by blast
  then show ?thesis using encodePackages_ok [OF assms] by (simp add: encodeResult_def 1)
qed

lemma encode_results_ok:
  "known (fst s) root \<Longrightarrow> extends (core_env env) s (fst (encode_results env s root metadata results))"
proof (induction results arbitrary: s)
  case (Cons r rs)
  obtain s1 r1 where 1: "encodeResult env s root metadata r = (s1, r1)" by (cases "encodeResult env s root metadata r")
  have e: "extends (core_env env) s s1" using encodeResult_ok [OF Cons.prems, of env metadata r] by (simp add: 1)
  show ?case using Cons.IH [OF extends_known [OF e Cons.prems]] extends_trans [OF e] by (simp add: 1 split_beta)
qed simp

section \<open>Every component reaches the root\<close>

lemma ParentDeps_nonempty:
  "lookup_list (ParentDeps pkgs) d \<noteq> [] \<Longrightarrow> \<exists>p \<in> set pkgs. d \<in> set (Pkg_DependsOn p)"
  using dom_parents [of pkgs "[]" d]
  by (auto simp: lookup_list_def ParentDeps_def Let_def map_of_map_snd split: option.splits)

abbreviation pkg_uid :: "Package \<Rightarrow> string" where
  "pkg_uid pkg \<equiv> Id_UID (Pkg_Identifier pkg)"

text \<open>The component that stands for a package.\<close>

definition stands_for :: "bom_state \<Rightarrow> component_map \<Rightarrow> component_map \<Rightarrow> Package \<Rightarrow> Component \<Rightarrow> bool" where
  "stands_for s cm dm pkg c \<longleftrightarrow>
     map_of cm (pkg_uid pkg) = Some c \<and> map_of dm (package_ID pkg) = Some c \<and> comp_of (fst s) (Comp_id c) = Some c \<and>
     Comp_PkgIdentifier c = Pkg_Identifier pkg \<and> Comp_id c \<noteq> uuid_Nil"

lemma drawn_not_Nil: "\<lbrakk>uuid_ok env; drawn env s; comp_of (fst s) k = Some c\<rbrakk> \<Longrightarrow> k \<noteq> uuid_Nil"
  unfolding uuid_ok_def drawn_def by (metis domI imageE subsetD)

lemma encode_package_stands:
  assumes "encode_package env result vulns pkg (s, cm, dm) = (s', cm', dm')" "uuid_ok (core_env env)" "drawn (core_env env) s"
    and "components_ok (fst s) cm" "components_ok (fst s) dm"
  shows "(\<exists>c. stands_for s' cm' dm' pkg c \<and> (\<forall>k d. comp_of (fst s') k = Some d \<longrightarrow> comp_of (fst s) k = Some d \<or> d = c)) \<and>
    (\<forall>q d. stands_for s cm dm q d \<and> pkg_uid q \<noteq> pkg_uid pkg \<and> package_ID q \<noteq> package_ID pkg \<longrightarrow> stands_for s' cm' dm' q d)"
proof -
  obtain s1 c where c: "AddComponent (core_env env) s (Encoder_component result pkg) = (s1, c)"
    by (cases "AddComponent (core_env env) s (Encoder_component result pkg)")
  note add = AddComponent_ok [OF c Encoder_component_id(1)]
  have d1: "drawn (core_env env) s1" using add extends_drawn assms(2,3) by blast
  have id: "Comp_id c \<noteq> uuid_Nil" using drawn_not_Nil [OF assms(2) d1] add by blast
  have new: "comp_of (fst s1) k = Some d \<longrightarrow> comp_of (fst s) k = Some d \<or> d = c" for k d
    using c setupComponent_ok [of "core_env env" s "Encoder_component result pkg"]
    by (auto simp: AddComponent_def Let_def update_conv' split: prod.splits if_splits)
  have s': "comp_of (fst s') = comp_of (fst s1)" "cm' = AList.update (pkg_uid pkg) c cm" "dm' = AList.update (package_ID pkg) c dm"
    using assms(1) id by (auto simp: encode_package_def Let_def c AddVulnerabilities_def ensure_added_def split: option.splits prod.splits if_splits)
  have "stands_for s' cm' dm' pkg c"
    using add id by (simp add: stands_for_def s' update_conv')
  moreover have "stands_for s' cm' dm' q d" if "stands_for s cm dm q d" "pkg_uid q \<noteq> pkg_uid pkg" "package_ID q \<noteq> package_ID pkg" for q d
    using that extends_comp [of "core_env env" s s1] add assms(2,3) by (auto simp: stands_for_def s' update_conv')
  ultimately show ?thesis using new by (simp add: s'(1)) blast
qed

lemma encode_packages_stand:
  assumes "fold (encode_package env result vulns) pkgs (s, cm, dm) = (s', cm', dm')" "uuid_ok (core_env env)" "drawn (core_env env) s"
    and "components_ok (fst s) cm" "components_ok (fst s) dm" "distinct (map pkg_uid pkgs)" "distinct (map package_ID pkgs)"
  shows "(\<forall>pkg \<in> set pkgs. \<exists>c. stands_for s' cm' dm' pkg c) \<and>
    (\<forall>k d. comp_of (fst s') k = Some d \<longrightarrow> comp_of (fst s) k = Some d \<or> (\<exists>pkg \<in> set pkgs. stands_for s' cm' dm' pkg d)) \<and>
    (\<forall>q d. stands_for s cm dm q d \<and> pkg_uid q \<notin> pkg_uid ` set pkgs \<and> package_ID q \<notin> package_ID ` set pkgs \<longrightarrow> stands_for s' cm' dm' q d)"
  using assms(1,3-)
proof (induction pkgs arbitrary: s cm dm)
  case (Cons pkg pkgs)
  obtain s1 cm1 dm1 where 1: "encode_package env result vulns pkg (s, cm, dm) = (s1, cm1, dm1)" by (metis surj_pair)
  note ok = encode_package_ok [OF 1 Cons.prems(3,4)]
  note st = encode_package_stands [OF 1 assms(2) Cons.prems(2-4)]
  have d1: "drawn (core_env env) s1" using ok extends_drawn assms(2) Cons.prems(2) by blast
  have rest: "fold (encode_package env result vulns) pkgs (s1, cm1, dm1) = (s', cm', dm')" using Cons.prems(1) by (simp add: 1)
  note IH = Cons.IH [OF rest d1 conjunct1 [OF conjunct2 [OF ok]] conjunct2 [OF conjunct2 [OF ok]]]
  from st obtain c where c: "stands_for s1 cm1 dm1 pkg c" "\<forall>k d. comp_of (fst s1) k = Some d \<longrightarrow> comp_of (fst s) k = Some d \<or> d = c"
    by blast
  have "pkg_uid pkg \<notin> pkg_uid ` set pkgs" "package_ID pkg \<notin> package_ID ` set pkgs" using Cons.prems(5,6) by auto
  then have "stands_for s' cm' dm' pkg c" using IH c(1) Cons.prems(5,6) by auto
  then show ?case using IH c(2) st Cons.prems(5,6) by simp blast
qed simp

text \<open>The edges of the second loop.\<close>

definition all_drawn :: "component_map \<Rightarrow> bool" where
  "all_drawn m \<longleftrightarrow> (\<forall>k c. map_of m k = Some c \<longrightarrow> Comp_id c \<noteq> uuid_Nil)"

lemma components_ok_drawn: "\<lbrakk>uuid_ok env; drawn env s; components_ok (fst s) m\<rbrakk> \<Longrightarrow> all_drawn m"
  unfolding all_drawn_def components_ok_def by (metis domD drawn_not_Nil)

lemma add_dependencies_comps:
  assumes "\<forall>p. c = Some p \<longrightarrow> Comp_id p \<noteq> uuid_Nil" "all_drawn dm"
  shows "BOM_components (fst (fold (add_dependency env dm c) deps s)) = BOM_components (fst s)"
proof (induction deps arbitrary: s)
  case (Cons dep deps)
  have "BOM_components (fst (add_dependency env dm c dep s)) = BOM_components (fst s)"
    using assms by (auto simp: add_dependency_def all_drawn_def AddRelationship_comps split: option.splits)
  then show ?case using Cons.IH by simp
qed simp

lemma encode_edges_comps:
  assumes "Comp_id parent \<noteq> uuid_Nil" "all_drawn cm" "all_drawn dm"
  shows "BOM_components (fst (encode_edges env parent parents hasRoot cm dm pkg s)) = BOM_components (fst s)"
proof -
  have "\<forall>p. map_of cm (pkg_uid pkg) = Some p \<longrightarrow> Comp_id p \<noteq> uuid_Nil" using assms(2) by (simp add: all_drawn_def)
  then show ?thesis
    using add_dependencies_comps [OF _ assms(3)] assms(1)
    by (simp add: encode_edges_def Let_def AddRelationship_comps)
qed

lemma all_edges_comps:
  assumes "Comp_id parent \<noteq> uuid_Nil" "all_drawn cm" "all_drawn dm"
  shows "BOM_components (fst (fold (encode_edges env parent parents hasRoot cm dm) pkgs s)) = BOM_components (fst s)"
  by (induction pkgs arbitrary: s) (simp_all add: encode_edges_comps [OF assms])

lemma AddRelationship_parent:
  assumes "known (fst s) p" "known (fst s) c" "Comp_id p \<noteq> uuid_Nil" "Comp_id c \<noteq> uuid_Nil" "Opt_Parents (BOM_opts (fst s))"
  shows "Comp_id p \<in> parents_of (fst (fst (AddRelationship env s (Some p) (Some c) t))) (Comp_id c)"
  using AddRelationship_child [of env s p c t] assms by (cases "AddRelationship env s (Some p) (Some c) t") fastforce

lemma add_dependencies_parent:
  assumes "known (fst s) c" "components_ok (fst s) dm" "Comp_id c \<noteq> uuid_Nil" "all_drawn dm" "Opt_Parents (BOM_opts (fst s))"
    and "dep \<in> set deps" "map_of dm dep = Some d"
  shows "Comp_id c \<in> parents_of (fst (fold (add_dependency env dm (Some c)) deps s)) (Comp_id d)"
  using assms
proof (induction deps arbitrary: s)
  case (Cons x deps)
  let ?s = "add_dependency env dm (Some c) x s"
  have e: "extends (core_env env) s ?s" using add_dependency_ok [of s "Some c"] Cons.prems(1,2) by (simp add: known_ptr_def)
  have keep: "known (fst ?s) c" "components_ok (fst ?s) dm" "Opt_Parents (BOM_opts (fst ?s))"
    using extends_known [OF e] components_ok_extends [OF e] Cons.prems e by (auto simp: extends_def)
  show ?case
  proof (cases "dep = x")
    case True
    have "known (fst s) d" "Comp_id d \<noteq> uuid_Nil"
      using Cons.prems(2,4,7) components_ok_ptr [of "fst s" dm dep] by (auto simp: all_drawn_def known_ptr_def)
    then have "Comp_id c \<in> parents_of (fst ?s) (Comp_id d)"
      using AddRelationship_parent [of s c d] Cons.prems(1,3,5,7) by (simp add: add_dependency_def True)
    moreover have "extends (core_env env) ?s (fold (add_dependency env dm (Some c)) deps ?s)"
      using add_dependencies_ok [of ?s "Some c" dm] keep by (simp add: known_ptr_def)
    ultimately show ?thesis using extends_parent by simp
  next
    case False
    then show ?thesis using Cons.IH [OF keep(1,2) Cons.prems(3,4) keep(3)] Cons.prems(6,7) by simp
  qed
qed simp

lemma encode_edges_parent:
  assumes "known (fst s) parent" "Comp_id parent \<noteq> uuid_Nil" "Opt_Parents (BOM_opts (fst s))"
    and "components_ok (fst s) cm" "all_drawn cm" "components_ok (fst s) dm" "all_drawn dm" "map_of cm (pkg_uid pkg) = Some c"
  shows "(belongToParent pkg parents hasRoot \<longrightarrow>
      Comp_id parent \<in> parents_of (fst (encode_edges env parent parents hasRoot cm dm pkg s)) (Comp_id c)) \<and>
    (\<forall>dep \<in> set (Pkg_DependsOn pkg). \<forall>d. map_of dm dep = Some d \<longrightarrow>
      Comp_id c \<in> parents_of (fst (encode_edges env parent parents hasRoot cm dm pkg s)) (Comp_id d))"
proof -
  let ?s1 = "if belongToParent pkg parents hasRoot
    then fst (AddRelationship (core_env env) s (Some parent) (Some c) RelationshipContains) else s"
  let ?s2 = "fold (add_dependency env dm (Some c)) (Pkg_DependsOn pkg) ?s1"
  let ?s3 = "encode_edges env parent parents hasRoot cm dm pkg s"
  have c: "known (fst s) c" "Comp_id c \<noteq> uuid_Nil"
    using assms(4,5,8) components_ok_ptr [of "fst s" cm "pkg_uid pkg"] by (auto simp: all_drawn_def known_ptr_def)
  have s3: "?s3 = (if length (Pkg_DependsOn pkg) = 0 then fst (AddRelationship (core_env env) ?s2 (Some c) None []) else ?s2)"
    by (simp only: encode_edges_def Let_def assms(8))
  have e1: "extends (core_env env) s ?s1"
    using AddRelationship_extends [of s "Some parent" "Some c"] assms(1) c by (simp add: known_ptr_def)
  have k1: "known (fst ?s1) c" "components_ok (fst ?s1) dm" "Opt_Parents (BOM_opts (fst ?s1))"
    using extends_known [OF e1 c(1)] components_ok_extends [OF e1 assms(6)] e1 assms(3) by (simp_all only: extends_def)
  have e2: "extends (core_env env) ?s1 ?s2" using add_dependencies_ok [of ?s1 "Some c" dm] k1(1,2) by (simp only: known_ptr_def) blast
  have e3: "extends (core_env env) ?s2 ?s3"
    using AddRelationship_extends [of ?s2 "Some c" None] extends_known [OF e2 k1(1)] unfolding s3
    by (simp only: known_ptr_def split: if_split) auto
  have "Comp_id parent \<in> parents_of (fst ?s1) (Comp_id c)" if "belongToParent pkg parents hasRoot"
    using AddRelationship_parent [of s parent c] assms(1-3) c that by simp
  then have "belongToParent pkg parents hasRoot \<longrightarrow> Comp_id parent \<in> parents_of (fst ?s3) (Comp_id c)"
    using extends_parent [OF extends_trans [OF e2 e3]] by blast
  moreover have "Comp_id c \<in> parents_of (fst ?s3) (Comp_id d)" if "dep \<in> set (Pkg_DependsOn pkg)" "map_of dm dep = Some d" for dep d
    using extends_parent [OF e3 add_dependencies_parent [OF k1(1,2) c(2) assms(7) k1(3) that]] .
  ultimately show ?thesis by blast
qed

lemma all_edges_parent:
  assumes "known (fst s) parent" "Comp_id parent \<noteq> uuid_Nil" "Opt_Parents (BOM_opts (fst s))"
    and "components_ok (fst s) cm" "all_drawn cm" "components_ok (fst s) dm" "all_drawn dm" "map_of cm (pkg_uid pkg) = Some c" "pkg \<in> set pkgs"
  shows "(belongToParent pkg parents hasRoot \<longrightarrow>
      Comp_id parent \<in> parents_of (fst (fold (encode_edges env parent parents hasRoot cm dm) pkgs s)) (Comp_id c)) \<and>
    (\<forall>dep \<in> set (Pkg_DependsOn pkg). \<forall>d. map_of dm dep = Some d \<longrightarrow>
      Comp_id c \<in> parents_of (fst (fold (encode_edges env parent parents hasRoot cm dm) pkgs s)) (Comp_id d))"
  using assms
proof (induction pkgs arbitrary: s)
  case (Cons x pkgs)
  let ?s = "encode_edges env parent parents hasRoot cm dm x s"
  have e: "extends (core_env env) s ?s" by (rule encode_edges_ok [OF Cons.prems(1,4,6)])
  have keep: "known (fst ?s) parent" "Opt_Parents (BOM_opts (fst ?s))" "components_ok (fst ?s) cm" "components_ok (fst ?s) dm"
    using extends_known [OF e] components_ok_extends [OF e] Cons.prems e by (auto simp: extends_def)
  show ?case
  proof (cases "pkg = x")
    case True
    have "extends (core_env env) ?s (fold (encode_edges env parent parents hasRoot cm dm) pkgs ?s)"
      by (rule encode_all_edges_ok [OF keep(1,3,4)])
    then show ?thesis
      using encode_edges_parent [OF Cons.prems(1-8)] True extends_parent by simp
  next
    case False
    then show ?thesis
      using Cons.IH [OF keep(1) Cons.prems(2) keep(2,3) Cons.prems(5) keep(4) Cons.prems(7,8)] Cons.prems(9) by simp
  qed
qed simp

text \<open>What the analyzers are to provide: UIDs and identifiers are unique, the dependencies have no cycle, and with a root
  package the direct dependencies are listed by some package.\<close>

definition depends :: "Package list \<Rightarrow> (Package \<times> Package) set" where
  "depends pkgs = {(a, b). a \<in> set pkgs \<and> b \<in> set pkgs \<and> package_ID b \<in> set (Pkg_DependsOn a)}"

definition packages_rooted :: "Package list \<Rightarrow> bool" where
  "packages_rooted pkgs \<longleftrightarrow>
     distinct (map pkg_uid pkgs) \<and> distinct (map package_ID pkgs) \<and> acyclic (depends pkgs) \<and>
     (\<forall>b \<in> set pkgs. Pkg_Relationship b = RelationshipDirect \<and> (\<exists>a \<in> set pkgs. Pkg_Relationship a = RelationshipRoot) \<longrightarrow>
        (\<exists>a \<in> set pkgs. (a, b) \<in> depends pkgs))"

lemma wf_depends: "acyclic (depends pkgs) \<Longrightarrow> wf (depends pkgs)"
proof (rule finite_acyclic_wf)
  have "depends pkgs \<subseteq> set pkgs \<times> set pkgs" by (auto simp: depends_def)
  then show "finite (depends pkgs)" by (rule finite_subset) simp
qed

text \<open>A package that is not put under the parent is a dependency of another one.\<close>

lemma dependent_exists:
  assumes "packages_rooted pkgs" "b \<in> set pkgs"
    and "\<not> belongToParent (b\<lparr>Pkg_ID := package_ID b\<rparr>) (ParentDeps pkgs) (list_ex (\<lambda>pkg. Pkg_Relationship pkg = RelationshipRoot) pkgs)"
  shows "\<exists>a. (a, b) \<in> depends pkgs"
proof (cases "Pkg_Relationship b = RelationshipDirect")
  case True
  then show ?thesis using assms by (auto simp: packages_rooted_def belongToParent_def list_ex_iff)
next
  case False
  then have "lookup_list (ParentDeps pkgs) (package_ID b) \<noteq> []" using assms(3) by (simp add: belongToParent_def)
  from ParentDeps_nonempty [OF this] show ?thesis using assms(2) by (auto simp: depends_def)
qed

lemma encodePackages_connected:
  assumes "uuid_ok (core_env env)" "drawn (core_env env) s" "Opt_Parents (BOM_opts (fst s))" "packages_rooted (Res_Packages result)"
    and "comp_of (fst s) (Comp_id parent) = Some parent" "reaches_root (fst s) parent"
    and "\<forall>k c. comp_of (fst s) k = Some c \<longrightarrow> reaches_root (fst s) c"
  defines "s' \<equiv> fst (encodePackages env s parent result)"
  shows "\<forall>k c. comp_of (fst s') k = Some c \<longrightarrow> reaches_root (fst s') c"
proof -
  let ?pkgs = "Res_Packages result" and ?id = "\<lambda>pkg. pkg\<lparr>Pkg_ID := package_ID pkg\<rparr>"
  let ?hasRoot = "list_ex (\<lambda>pkg. Pkg_Relationship pkg = RelationshipRoot) ?pkgs"
  obtain s1 cm dm where 1: "fold (encode_package env result (vulns_by_UID (Res_Vulnerabilities result))) ?pkgs (s, [], []) = (s1, cm, dm)"
    by (metis surj_pair)
  let ?edges = "encode_edges env parent (ParentDeps ?pkgs) ?hasRoot cm dm"
  have s': "s' = fold ?edges (map ?id ?pkgs) s1" by (simp add: s'_def encodePackages_def 1 Let_def)
  have ok: "extends (core_env env) s s1" "components_ok (fst s1) cm" "components_ok (fst s1) dm"
    using encode_packages_ok [OF 1] by (auto simp: components_ok_def)
  have d1: "drawn (core_env env) s1" by (rule extends_drawn [OF ok(1) assms(1,2)])
  have stand: "\<forall>pkg \<in> set ?pkgs. \<exists>c. stands_for s1 cm dm pkg c"
    "\<forall>k d. comp_of (fst s1) k = Some d \<longrightarrow> comp_of (fst s) k = Some d \<or> (\<exists>pkg \<in> set ?pkgs. stands_for s1 cm dm pkg d)"
    using encode_packages_stand [OF 1 assms(1,2)] assms(4) by (auto simp: components_ok_def packages_rooted_def)
  have dr: "all_drawn cm" "all_drawn dm"
    using components_ok_drawn [OF assms(1) d1] ok(2,3) by blast+
  have par: "comp_of (fst s1) (Comp_id parent) = Some parent" by (rule extends_comp [OF ok(1) assms(1,2,5)])
  have pk: "known (fst s1) parent" "Comp_id parent \<noteq> uuid_Nil" "Opt_Parents (BOM_opts (fst s1))"
    using par drawn_not_Nil [OF assms(1) d1 par] ok(1) assms(3) by (auto simp: known_def extends_def)
  have e: "extends (core_env env) s1 s'" unfolding s' by (rule encode_all_edges_ok [OF pk(1) ok(2,3)])
  have comps: "comp_of (fst s') = comp_of (fst s1)" unfolding s' by (simp add: all_edges_comps [OF pk(2) dr])
  have e0: "extends (core_env env) s s'" by (rule extends_trans [OF ok(1) e])
  have edge: "(belongToParent (?id b) (ParentDeps ?pkgs) ?hasRoot \<longrightarrow> bom_parent (fst s') d parent) \<and>
      (\<forall>b' d'. (b, b') \<in> depends ?pkgs \<and> stands_for s1 cm dm b' d' \<longrightarrow> bom_parent (fst s') d' d)"
    if "b \<in> set ?pkgs" "stands_for s1 cm dm b d" for b d
    using all_edges_parent [OF pk ok(2) dr(1) ok(3) dr(2), of "?id b" d "map ?id ?pkgs" "ParentDeps ?pkgs" ?hasRoot env] that par
    by (auto simp: s' [symmetric] stands_for_def parent_of_def comps depends_def)
  have wf: "wf (depends ?pkgs)" using assms(4) wf_depends by (simp add: packages_rooted_def)
  have "reaches_root (fst s') d" if "b \<in> set ?pkgs" "stands_for s1 cm dm b d" for b d
    using wf that
  proof (induction b arbitrary: d rule: wf_induct_rule)
    case (less b)
    show ?case
    proof (cases "belongToParent (?id b) (ParentDeps ?pkgs) ?hasRoot")
      case True
      then show ?thesis
        using edge [OF less.prems] reaches_root_step extends_reaches [OF e0 assms(1,2,6)] by blast
    next
      case False
      then obtain a where a: "(a, b) \<in> depends ?pkgs" "a \<in> set ?pkgs"
        using dependent_exists [OF assms(4) less.prems(1)] by (auto simp: depends_def)
      then obtain c where c: "stands_for s1 cm dm a c" using stand(1) by blast
      then have "bom_parent (fst s') d c" using edge [OF a(2) c] a(1) less.prems(2) by blast
      then show ?thesis using reaches_root_step less.IH [OF a c] by blast
    qed
  qed
  then show ?thesis
    using stand(2) assms(7) extends_reaches [OF e0 assms(1,2)] unfolding comps by blast
qed

text \<open>The state between two results: the root is there, and every component reaches a root.\<close>

definition connected :: "sbom_env \<Rightarrow> Component \<Rightarrow> bom_state \<Rightarrow> bool" where
  "connected env root s \<longleftrightarrow>
     drawn env s \<and> Opt_Parents (BOM_opts (fst s)) \<and> comp_of (fst s) (Comp_id root) = Some root \<and>
     (\<forall>k c. comp_of (fst s) k = Some c \<longrightarrow> reaches_root (fst s) c)"

lemma connected_extends:
  assumes "extends env s s'" "uuid_ok env" "connected env root s" "\<forall>k c. comp_of (fst s') k = Some c \<longrightarrow> reaches_root (fst s') c"
  shows "connected env root s'"
proof -
  note c = assms(3) [unfolded connected_def]
  have "drawn env s'" using extends_drawn [OF assms(1,2)] c by blast
  moreover have "Opt_Parents (BOM_opts (fst s'))" using assms(1) c by (simp add: extends_def)
  moreover have "comp_of (fst s') (Comp_id root) = Some root" using extends_comp [OF assms(1,2)] c by blast
  ultimately show ?thesis unfolding connected_def using assms(4) by blast
qed

lemma connected_known: "connected env root s \<Longrightarrow> comp_of (fst s) (Comp_id c) = Some c \<Longrightarrow> known (fst s) c"
  by (auto simp: known_def)

lemma connected_packages:
  assumes "uuid_ok (core_env env)" "connected (core_env env) root s" "packages_rooted (Res_Packages result)"
    and "comp_of (fst s) (Comp_id parent) = Some parent"
  shows "connected (core_env env) root (fst (encodePackages env s parent result))"
proof (rule connected_extends)
  note c = assms(2) [unfolded connected_def]
  show "extends (core_env env) s (fst (encodePackages env s parent result))"
    by (rule encodePackages_ok [OF connected_known [OF assms(2,4)]])
  have "drawn (core_env env) s" "Opt_Parents (BOM_opts (fst s))" "reaches_root (fst s) parent"
    "\<forall>k c. comp_of (fst s) k = Some c \<longrightarrow> reaches_root (fst s) c"
    using c assms(4) by blast+
  then show "\<forall>k c. comp_of (fst (fst (encodePackages env s parent result))) k = Some c \<longrightarrow>
      reaches_root (fst (fst (encodePackages env s parent result))) c"
    using encodePackages_connected [OF assms(1) _ _ assms(3,4)] by blast
qed (use assms in blast)+

lemma connected_result:
  assumes "resultComponent env s root r os = (s', c)" "uuid_ok (core_env env)" "connected (core_env env) root s"
  shows "connected (core_env env) root s' \<and> comp_of (fst s') (Comp_id c) = Some c"
proof -
  let ?c = "result_component r os" and ?env = "core_env env"
  have root: "comp_of (fst s) (Comp_id root) = Some root" "Comp_id root \<noteq> uuid_Nil"
    using assms(3) drawn_not_Nil [OF assms(2)] unfolding connected_def by blast+
  have new: "Comp_id ?c = uuid_Nil"
    by (simp add: result_component_def Component_empty_def Let_def split: option.splits)
  obtain s1 c1 where c1: "AddComponent ?env s ?c = (s1, c1)" by (cases "AddComponent ?env s ?c")
  note add = AddComponent_ok [OF c1 new]
  have r: "fst (fst (AddRelationship ?env s (Some root) (Some ?c) RelationshipContains)) = fst s' \<and> c = c1 \<and>
      BOM_components (fst s') = BOM_components (fst s1)"
    using assms(1) root(2) new by (auto simp: resultComponent_def AddRelationship_def ensure_added_def c1 Let_def split_beta split: option.splits)
  obtain s2 p2 c2 where 2: "AddRelationship ?env s (Some root) (Some ?c) RelationshipContains = (s2, p2, c2)" by (metis surj_pair)
  have k: "known (fst s) root" "known (fst s) ?c" using connected_known [OF assms(3) root(1)] new by (auto simp: known_def)
  have s2: "c2 = Some c" "s' = s2"
    using AddRelationship_child [OF 2 k] assms(1) 2 by (auto simp: resultComponent_def)
  have e: "extends ?env s s'" using AddRelationship_ok [OF 2] k s2 by (simp add: known_ptr_def)
  have comps: "comp_of (fst s') k = Some d \<longrightarrow> comp_of (fst s) k = Some d \<or> d = c" for k d
    using r c1 setupComponent_ok [of ?env s ?c]
    by (auto simp: AddComponent_def Let_def update_conv' split: prod.splits if_splits)
  have "reaches_root (fst s') root" using extends_reaches [OF e assms(2)] assms(3) root(1) unfolding connected_def by blast
  moreover have "Comp_id root \<in> parents_of (fst s') (Comp_id c)"
    using AddRelationship_child [OF 2 k] assms(3) root(2) s2 unfolding connected_def by blast
  then have "bom_parent (fst s') c root"
    using extends_comp [OF e assms(2)] assms(3) root(1) unfolding parent_of_def connected_def by blast
  ultimately have "reaches_root (fst s') c" by (rule reaches_root_step [rotated])
  moreover have "\<forall>k d. comp_of (fst s) k = Some d \<longrightarrow> reaches_root (fst s') d"
    using extends_reaches [OF e assms(2)] assms(3) unfolding connected_def by blast
  ultimately have "connected ?env root s'" using comps by (intro connected_extends [OF e assms(2,3)]) blast
  moreover have "comp_of (fst s') (Comp_id c) = Some c" using r add by auto
  ultimately show ?thesis by blast
qed

lemma connected_encodeResult:
  assumes "uuid_ok (core_env env)" "connected (core_env env) root s" "packages_rooted (Res_Packages result)"
  shows "connected (core_env env) root (fst (encodeResult env s root metadata result))"
proof -
  obtain s1 c where 1: "resultComponent env s root result (Meta_OS metadata) = (s1, c)"
    by (cases "resultComponent env s root result (Meta_OS metadata)")
  have "connected (core_env env) root (fst (encodePackages env s root result))"
    using connected_packages [OF assms] assms(2) unfolding connected_def by blast
  then show ?thesis
    using connected_packages [OF assms(1) _ assms(3)] connected_result [OF 1 assms(1,2)] assms(2) by (simp add: encodeResult_def 1)
qed

lemma connected_encode_results:
  assumes "uuid_ok (core_env env)" "connected (core_env env) root s" "\<forall>r \<in> set results. packages_rooted (Res_Packages r)"
  shows "connected (core_env env) root (fst (encode_results env s root metadata results))"
  using assms(2,3)
proof (induction results arbitrary: s)
  case (Cons r rs)
  then show ?case
    using connected_encodeResult [OF assms(1) Cons.prems(1), of r metadata] by (simp add: split_beta)
qed simp

section \<open>The encoded BOM\<close>

lemma encodeCryptoAssets_other:
  "\<exists>cc. encodeCryptoAssets b results = b\<lparr>BOM_cryptoComponents := cc\<rparr>"
proof -
  have "\<exists>cc. fold (\<lambda>d b. case f d of Some a \<Rightarrow> AddCryptoComponent b (g d a) | None \<Rightarrow> b) ds b = b\<lparr>BOM_cryptoComponents := cc\<rparr>" for f g ds
  proof (induction ds arbitrary: b)
    case Nil
    show ?case by (rule exI [of _ "BOM_cryptoComponents b"]) simp
  next
    case (Cons d ds)
    show ?case
    proof (cases "f d")
      case (Some a)
      then show ?thesis using Cons.IH [of "AddCryptoComponent b (g d a)"] by (auto simp: AddCryptoComponent_def)
    qed (simp add: Cons.IH)
  qed
  then show ?thesis by (simp add: encodeCryptoAssets_def Let_def split_beta)
qed

text \<open>The steps of an encoding that does not reuse a BOM.\<close>

lemma Encode_steps:
  assumes "Encode env e n report = Some (Inr ((b, n'), report'))" "Rep_BOM report = None \<or> forceRegenerate e"
  obtains root b0 s1 root1 s2 cc where "rootComponent env report = Some (Inr root)" "AddComponent (core_env env) (b0, n) root = (s1, root1)"
    "bom_ok b0" "BOM_components b0 = []" "BOM_opts b0 = bomOpts e" "BOM_parents b0 = []"
    "s2 = fst (encode_results env s1 root1 (Rep_Metadata report) (Rep_Results report))"
    "(b, n') = ((fst s2)\<lparr>BOM_cryptoComponents := cc\<rparr>, snd s2) \<or>
     (b, n') = fst (AddRelationship (core_env env) ((fst s2)\<lparr>BOM_cryptoComponents := cc\<rparr>, snd s2) (Some root1) None [])"
proof -
  obtain root where root: "rootComponent env report = Some (Inr root)"
    using assms by (auto simp: Encode_def Let_def split: option.splits bool.splits sum.splits)
  define b0 where "b0 = (case Rep_BOM report of
    Some old \<Rightarrow> (NewBOM (bomOpts e))\<lparr>BOM_SerialNumber := BOM_SerialNumber old, BOM_Version := BOM_Version old\<rparr> | None \<Rightarrow> NewBOM (bomOpts e))"
  obtain s1 root1 where 1: "AddComponent (core_env env) (b0, n) root = (s1, root1)" by (cases "AddComponent (core_env env) (b0, n) root")
  obtain b2 n2 rs where 2: "encode_results env s1 root1 (Rep_Metadata report) (Rep_Results report) = ((b2, n2), rs)" by (metis surj_pair)
  obtain cc where cc: "encodeCryptoAssets b2 rs = b2\<lparr>BOM_cryptoComponents := cc\<rparr>" using encodeCryptoAssets_other by blast
  have enc: "Encode env e n report = Some (Inr ((if map_of (BOM_relationships (b2\<lparr>BOM_cryptoComponents := cc\<rparr>)) (Comp_id root1) = None
      then fst (AddRelationship (core_env env) (b2\<lparr>BOM_cryptoComponents := cc\<rparr>, n2) (Some root1) None []) else (b2\<lparr>BOM_cryptoComponents := cc\<rparr>, n2)),
      report\<lparr>Rep_Results := rs\<rparr>))"
    using assms(2) 1 2 cc unfolding b0_def
    by (cases "Rep_BOM report"; cases "forceRegenerate e") (simp_all add: Encode_def root Let_def)
  show ?thesis
  proof (rule that [OF root 1])
    show "bom_ok b0" using bom_ok_NewBOM by (simp add: b0_def split: option.split)
    show "BOM_components b0 = []" "BOM_opts b0 = bomOpts e" "BOM_parents b0 = []"
      by (auto simp: b0_def NewBOM_def split: option.splits)
    show "(b2, n2) = fst (encode_results env s1 root1 (Rep_Metadata report) (Rep_Results report))" by (simp add: 2)
    show "(b, n') = ((fst (b2, n2))\<lparr>BOM_cryptoComponents := cc\<rparr>, snd (b2, n2)) \<or>
      (b, n') = fst (AddRelationship (core_env env) ((fst (b2, n2))\<lparr>BOM_cryptoComponents := cc\<rparr>, snd (b2, n2)) (Some root1) None [])"
      using assms(1) enc by (auto split: if_splits)
  qed
qed

lemma rootComponent_new:
  assumes "rootComponent env report = Some (Inr root)"
  shows "Comp_id root = uuid_Nil \<and> Comp_Root root"
  using assms by (auto simp: rootComponent_def Component_empty_def Let_def split: if_splits option.splits sum.splits)

lemma Encode_extends:
  assumes "Encode env e n report = Some (Inr ((b, n'), report'))" "Rep_BOM report = None \<or> forceRegenerate e"
  obtains s1 root1 s2 where "Comp_Root root1" "comp_of (fst s1) (Comp_id root1) = Some root1"
    "\<forall>k c. comp_of (fst s1) k = Some c \<longrightarrow> c = root1" "bom_ok (fst s1)" "BOM_opts (fst s1) = bomOpts e"
    "uuid_ok (core_env env) \<longrightarrow> drawn (core_env env) s1"
    "s2 = fst (encode_results env s1 root1 (Rep_Metadata report) (Rep_Results report))"
    "extends (core_env env) s1 s2" "extends (core_env env) s2 (b, n')"
    "uuid_ok (core_env env) \<longrightarrow> BOM_components b = BOM_components (fst s2)"
  using assms
proof (rule Encode_steps)
  fix root b0 s1 root1 s2 cc
  assume a: "rootComponent env report = Some (Inr root)" "AddComponent (core_env env) (b0, n) root = (s1, root1)"
    "bom_ok b0" "BOM_components b0 = []" "BOM_opts b0 = bomOpts e" "BOM_parents b0 = []"
    "s2 = fst (encode_results env s1 root1 (Rep_Metadata report) (Rep_Results report))"
    "(b, n') = ((fst s2)\<lparr>BOM_cryptoComponents := cc\<rparr>, snd s2) \<or>
     (b, n') = fst (AddRelationship (core_env env) ((fst s2)\<lparr>BOM_cryptoComponents := cc\<rparr>, snd s2) (Some root1) None [])"
  note new = rootComponent_new [OF a(1)]
  note add = AddComponent_ok [OF a(2) conjunct1 [OF new]]
  let ?s3 = "((fst s2)\<lparr>BOM_cryptoComponents := cc\<rparr>, snd s2)"
  have comps: "\<forall>k c. comp_of (fst s1) k = Some c \<longrightarrow> c = root1"
    using a(2,4) setupComponent_ok [of "core_env env" "(b0, n)" root]
    by (auto simp: AddComponent_def Let_def update_conv' split: prod.splits if_splits)
  have k: "known (fst s1) root1" using add by (auto simp: known_def)
  have e2: "extends (core_env env) s1 s2" unfolding a(7) by (rule encode_results_ok [OF k])
  have e3: "extends (core_env env) s2 ?s3" by (rule extends_fields) simp_all
  have e4: "extends (core_env env) ?s3 (fst (AddRelationship (core_env env) ?s3 (Some root1) None []))"
    using extends_known [OF extends_trans [OF e2 e3] k] by (intro AddRelationship_extends) (simp_all add: known_ptr_def)
  have d0: "drawn (core_env env) (b0, n)" by (simp add: drawn_def a(4))
  have "BOM_components (fst (fst (AddRelationship (core_env env) ?s3 (Some root1) None []))) = BOM_components (fst s2)"
    if "uuid_ok (core_env env)"
  proof -
    have "drawn (core_env env) s1" using extends_drawn [OF _ that d0] add by blast
    then have "Comp_id root1 \<noteq> uuid_Nil" using drawn_not_Nil [OF that] add by blast
    then show ?thesis by (subst AddRelationship_comps) simp_all
  qed
  then have e5: "extends (core_env env) s2 (b, n')" "uuid_ok (core_env env) \<longrightarrow> BOM_components b = BOM_components (fst s2)"
    using a(8) e3 extends_trans [OF e3 e4] by (auto simp: prod_eq_iff)
  have e1: "extends (core_env env) (b0, n) s1" using add by blast
  show thesis
  proof (rule that [OF _ _ comps _ _ _ a(7) e2 e5])
    show "Comp_Root root1" "comp_of (fst s1) (Comp_id root1) = Some root1" using add new by blast+
    show "bom_ok (fst s1)" "BOM_opts (fst s1) = bomOpts e" using e1 a(3,5) by (simp_all add: extends_def)
    show "uuid_ok (core_env env) \<longrightarrow> drawn (core_env env) s1" using extends_drawn [OF e1 _ d0] by blast
  qed
qed

text \<open>C19. An encoded BOM is well formed: components are stored under their identifiers, relationships connect components of
  the BOM, and with the option the map of parents is the inverse of the relationships.\<close>

theorem Encode_bom_ok:
  assumes "Encode env e n report = Some (Inr ((b, n'), report'))" "Rep_BOM report = None \<or> forceRegenerate e"
  shows "bom_ok b \<and> BOM_opts b = bomOpts e"
  using assms
proof (rule Encode_extends)
  fix s1 s2 root1
  assume "bom_ok (fst s1)" "BOM_opts (fst s1) = bomOpts e" "extends (core_env env) s1 s2" "extends (core_env env) s2 (b, n')"
  then show ?thesis by (simp add: extends_def)
qed

text \<open>C15. When the packages of every result have unique identifiers, acyclic dependencies and listed direct dependencies,
  every component of the encoded BOM reaches a root component along the parents.\<close>

theorem Encode_connected:
  assumes "Encode env e n report = Some (Inr ((b, n'), report'))" "Rep_BOM report = None \<or> forceRegenerate e"
    and "uuid_ok (core_env env)" "Opt_Parents (bomOpts e)" "\<forall>r \<in> set (Rep_Results report). packages_rooted (Res_Packages r)"
  shows "\<forall>k c. comp_of b k = Some c \<longrightarrow> reaches_root b c"
  using assms(1,2)
proof (rule Encode_extends)
  fix s1 s2 root1
  let ?env = "core_env env"
  assume a: "Comp_Root root1" "comp_of (fst s1) (Comp_id root1) = Some root1" "\<forall>k c. comp_of (fst s1) k = Some c \<longrightarrow> c = root1"
    "BOM_opts (fst s1) = bomOpts e" "uuid_ok ?env \<longrightarrow> drawn ?env s1"
    "s2 = fst (encode_results env s1 root1 (Rep_Metadata report) (Rep_Results report))" "extends ?env s2 (b, n')"
    "uuid_ok ?env \<longrightarrow> BOM_components b = BOM_components (fst s2)"
  have "reaches_root (fst s1) root1" using a(1) by (auto simp: reaches_root_def)
  then have "connected ?env root1 s1" unfolding connected_def using a(2-5) assms(3,4) by metis
  from connected_encode_results [OF assms(3) this assms(5)]
  have c: "drawn ?env s2" "\<forall>k c. comp_of (fst s2) k = Some c \<longrightarrow> reaches_root (fst s2) c"
    unfolding a(6) connected_def by blast+
  have "comp_of b = comp_of (fst s2)" using a(8) assms(3) by simp
  then show ?thesis using extends_reaches [OF a(7) assms(3) c(1)] c(2) unfolding fst_conv by metis
qed

section \<open>Cryptographic components\<close>

abbreviation asset_occurrence :: "CryptoAsset \<Rightarrow> core_Occurrence" where
  "asset_occurrence a \<equiv> \<lparr>CO_Location = Asset_FilePath a, CO_LayerDiffID = Layer_DiffID (Asset_Layer a)\<rparr>"

text \<open>What the loop has collected from a set of assets.\<close>

definition collected :: "CryptoAsset set \<Rightarrow> crypto_state \<Rightarrow> bool" where
  "collected A st =
     (case st of (descriptions, occurrences, descriptors) \<Rightarrow>
        distinct descriptors \<and> set descriptors = Descriptor ` A \<and>
        (\<forall>d. map_of descriptions d = None \<longrightarrow> d \<notin> set descriptors) \<and>
        (\<forall>d i. map_of descriptions d = Some i \<longrightarrow> (\<exists>a \<in> A. i = CryptoAssetInfo.truncate a \<and> Descriptor a = d)) \<and>
        (\<forall>d. distinct (lookup_list occurrences d) \<and>
             set (lookup_list occurrences d) = asset_occurrence ` {a \<in> A. Descriptor a = d}))"

lemma collect_step:
  assumes "collected A st"
  shows "collected (insert a A) (collect_asset a st)"
proof -
  obtain ds oc ks where st: "st = (ds, oc, ks)" by (cases st)
  have c: "distinct ks" "set ks = Descriptor ` A" "\<And>d. map_of ds d = None \<Longrightarrow> d \<notin> set ks"
    "\<And>d i. map_of ds d = Some i \<Longrightarrow> \<exists>a \<in> A. i = CryptoAssetInfo.truncate a \<and> Descriptor a = d"
    "\<And>d. distinct (lookup_list oc d)" "\<And>d. set (lookup_list oc d) = asset_occurrence ` {a \<in> A. Descriptor a = d}"
    using assms unfolding collected_def st prod.case by blast+
  define oc' where "oc' = (if asset_occurrence a \<notin> set (lookup_list oc (Descriptor a))
    then map_append (Descriptor a) (asset_occurrence a) oc else oc)"
  have occ: "distinct (lookup_list oc' d)" "set (lookup_list oc' d) = asset_occurrence ` {b \<in> insert a A. Descriptor b = d}" for d
    using c(5) [of d] c(6) [of d] by (auto simp: oc'_def)
  show ?thesis
  proof (cases "map_of ds (Descriptor a)")
    case None
    have "collect_asset a st = (AList.update (Descriptor a) (CryptoAssetInfo.truncate a) ds, oc', ks @ [Descriptor a])"
      by (simp add: collect_asset_def st None oc'_def Let_def)
    then show ?thesis
      using c(1,2,3) c(4) occ None by (auto simp: collected_def update_conv' split: if_splits)
  next
    case (Some i)
    have "collect_asset a st = (ds, oc', ks)" by (simp add: collect_asset_def st Some oc'_def Let_def)
    moreover have "Descriptor a \<in> Descriptor ` A" using c(4) [OF Some] by (metis imageI)
    ultimately show ?thesis
      using c(1,2,3) c(4) occ by (auto simp: collected_def)
  qed
qed

lemma collect_all: "collected A st \<Longrightarrow> collected (A \<union> set as) (fold collect_asset as st)"
proof (induction as arbitrary: A st)
  case (Cons a as)
  then show ?case using Cons.IH [OF collect_step, of A st a] by simp
qed simp

lemma fold_AddCryptoComponent:
  assumes "\<forall>d \<in> set ds. f d \<noteq> None"
  shows "fold (\<lambda>d b. case f d of Some a \<Rightarrow> AddCryptoComponent b (g d a) | None \<Rightarrow> b) ds b =
    b\<lparr>BOM_cryptoComponents := BOM_cryptoComponents b @ map (\<lambda>d. g d (the (f d))) ds\<rparr>"
  using assms by (induction ds arbitrary: b) (auto simp: AddCryptoComponent_def)

abbreviation crypto_assets :: "Result list \<Rightarrow> CryptoAsset list" where
  "crypto_assets results \<equiv> concat (map (\<lambda>r. if Res_Class r = ClassCrypto then Res_CryptoAssets r else []) results)"

text \<open>The BOM gets one cryptographic component per identity found in the results, described by an asset with that
  identity, and each place where such an asset was found is one of its occurrences, once.\<close>

theorem encodeCryptoAssets_spec:
  "\<exists>cs. encodeCryptoAssets b results = b\<lparr>BOM_cryptoComponents := BOM_cryptoComponents b @ cs\<rparr> \<and>
     distinct (map (\<lambda>c. Descriptor (CC_Asset c)) cs) \<and>
     (\<lambda>c. Descriptor (CC_Asset c)) ` set cs = Descriptor ` set (crypto_assets results) \<and>
     CC_Asset ` set cs \<subseteq> CryptoAssetInfo.truncate ` set (crypto_assets results) \<and>
     set cs \<subseteq> {c. distinct (CC_Occurrences c) \<and>
       set (CC_Occurrences c) = asset_occurrence ` {a \<in> set (crypto_assets results). Descriptor a = Descriptor (CC_Asset c)}}"
proof -
  define A where "A = set (crypto_assets results)"
  obtain ds oc ks where st: "fold collect_asset (sort_stable_func CompareCryptoAssets (crypto_assets results)) ([], [], []) = (ds, oc, ks)"
    by (cases "fold collect_asset (sort_stable_func CompareCryptoAssets (crypto_assets results)) ([], [], [])")
  have "collected ({} \<union> set (sort_stable_func CompareCryptoAssets (crypto_assets results))) (ds, oc, ks)"
    unfolding st [symmetric] by (rule collect_all) (simp add: collected_def lookup_list_def)
  then have "collected A (ds, oc, ks)" by (simp only: A_def Un_empty_left set_sort_stable)
  then have c: "distinct ks" "set ks = Descriptor ` A" "\<And>d. map_of ds d = None \<Longrightarrow> d \<notin> set ks"
    "\<And>d i. map_of ds d = Some i \<Longrightarrow> \<exists>a \<in> A. i = CryptoAssetInfo.truncate a \<and> Descriptor a = d"
    "\<And>d. distinct (lookup_list oc d)" "\<And>d. set (lookup_list oc d) = asset_occurrence ` {a \<in> A. Descriptor a = d}"
    unfolding collected_def prod.case by blast+
  let ?c = "\<lambda>d. \<lparr>CC_Asset = the (map_of ds d), CC_Occurrences = lookup_list oc d\<rparr>"
  have enc: "encodeCryptoAssets b results = b\<lparr>BOM_cryptoComponents := BOM_cryptoComponents b @ map ?c ks\<rparr>"
    using c(3) fold_AddCryptoComponent [of ks "map_of ds" "\<lambda>d a. \<lparr>CC_Asset = a, CC_Occurrences = lookup_list oc d\<rparr>" b]
    by (auto simp: encodeCryptoAssets_def st)
  have d: "\<exists>a \<in> A. the (map_of ds d) = CryptoAssetInfo.truncate a \<and> Descriptor a = d" if "d \<in> set ks" for d
    using c(3,4) that by (cases "map_of ds d") fastforce+
  have desc: "Descriptor (the (map_of ds d)) = d" if "d \<in> set ks" for d
    using d [OF that] by (auto simp: Descriptor_def CryptoAssetInfo.defs)
  have "map (\<lambda>c. Descriptor (CC_Asset c)) (map ?c ks) = ks" using desc by (simp add: map_idI)
  then have "distinct (map (\<lambda>c. Descriptor (CC_Asset c)) (map ?c ks))" "(\<lambda>c. Descriptor (CC_Asset c)) ` set (map ?c ks) = Descriptor ` A"
    using c(1,2) by (metis, metis image_set)
  moreover have "CC_Asset ` set (map ?c ks) \<subseteq> CryptoAssetInfo.truncate ` A" using d by fastforce
  moreover have "set (map ?c ks) \<subseteq> {c. distinct (CC_Occurrences c) \<and>
      set (CC_Occurrences c) = asset_occurrence ` {a \<in> A. Descriptor a = Descriptor (CC_Asset c)}}"
    using c(5,6) desc by auto
  ultimately show ?thesis using enc unfolding A_def by blast
qed

section \<open>An example\<close>

definition example_encode_env :: encode_env where
  "example_encode_env = \<lparr>uuid_New = Suc, uuid_String = (\<lambda>n. itoa (int n)), sbom_purl = example_purl_env,
     sort_properties = sort_stable_func (less_cmp Properties_Less), range_labels = (\<lambda>xs. xs), range_comps = rev,
     range_refs = (\<lambda>xs. xs)\<rparr>"

definition example_pkg :: "string \<Rightarrow> string list \<Rightarrow> Package" where
  "example_pkg name deps = Package_empty\<lparr>Pkg_ID := name @ ''@1'', Pkg_Name := name, Pkg_Version := ''1'', Pkg_DependsOn := deps,
     Pkg_Identifier := PkgIdentifier_empty\<lparr>Id_UID := name,
       Id_PURL := Some \<lparr>PURL_Type = ''npm'', PURL_Namespace = [], PURL_Name = name, PURL_Version = ''1'', PURL_Qualifiers = [], PURL_Subpath = []\<rparr>\<rparr>\<rparr>"

definition example_report :: Report where
  "example_report = \<lparr>Rep_SchemaVersion = 2, Rep_ArtifactName = ''app'', Rep_ArtifactType = TypeFilesystem, Rep_Metadata = Metadata_of None,
     Rep_Results = [Result_empty\<lparr>Res_Target := ''package-lock.json'', Res_Class := ClassLangPkg, Res_Type := ''npm'',
       Res_Packages := [example_pkg ''express'' [''qs@1''], example_pkg ''qs'' []],
       Res_Vulnerabilities := [DV_empty\<lparr>DV_VulnerabilityID := ''CVE-1'', DV_PkgName := ''qs'',
         DV_PkgIdentifier := Pkg_Identifier (example_pkg ''qs'' [])\<rparr>]\<rparr>],
     Rep_BOM = None\<rparr>"

definition example_encoder :: Encoder where
  "example_encoder = \<lparr>bomOpts = \<lparr>GenerateBOMRef = False, Opt_Parents = True\<rparr>, forceRegenerate = True\<rparr>"

definition example_bom :: BOM where
  "example_bom = (case Encode example_encode_env example_encoder 0 example_report of Some (Inr ((b, _), _)) \<Rightarrow> b | _ \<Rightarrow> NewBOM (bomOpts example_encoder))"

lemma example_Encode: "\<exists>n r. Encode example_encode_env example_encoder 0 example_report = Some (Inr ((example_bom, n), r))"
proof -
  have "case Encode example_encode_env example_encoder 0 example_report of Some (Inr _) \<Rightarrow> True | _ \<Rightarrow> False" by code_simp
  then show ?thesis by (auto simp: example_bom_def split: option.splits sum.splits)
qed

lemma rooted_pair:
  assumes "a \<noteq> b" "pkg_uid a \<noteq> pkg_uid b" "package_ID a \<noteq> package_ID b" "Pkg_DependsOn a = [package_ID b]" "Pkg_DependsOn b = []"
    and "Pkg_Relationship a = RelationshipUnknown" "Pkg_Relationship b = RelationshipUnknown"
  shows "packages_rooted [a, b]"
proof -
  have "depends [a, b] = {(a, b)}" using assms by (auto simp: depends_def)
  moreover have "acyclic {(a, b)}" using assms(1) by (simp add: acyclic_insert) (simp add: acyclic_def)
  ultimately show ?thesis using assms by (simp add: packages_rooted_def)
qed

lemma example_rooted: "\<forall>r \<in> set (Rep_Results example_report). packages_rooted (Res_Packages r)"
proof -
  have "packages_rooted [example_pkg ''express'' [''qs@1''], example_pkg ''qs'' []]" by (rule rooted_pair) code_simp+
  then show ?thesis by (simp add: example_report_def)
qed

lemma example_uuid_ok: "uuid_ok (core_env example_encode_env)"
  by (simp add: uuid_ok_def example_encode_env_def sbom_env.defs)

theorem Encode_bom_ok_witness:
  "bom_ok example_bom \<and> length (BOM_components example_bom) = 4"
proof -
  obtain n r where "Encode example_encode_env example_encoder 0 example_report = Some (Inr ((example_bom, n), r))"
    using example_Encode by blast
  from Encode_bom_ok [OF this] have "bom_ok example_bom" by (simp add: example_report_def)
  moreover have "length (BOM_components example_bom) = 4" by code_simp
  ultimately show ?thesis by blast
qed

theorem Encode_connected_witness:
  "list_all (\<lambda>k. case comp_of example_bom k of None \<Rightarrow> False | Some c \<Rightarrow> reaches_root example_bom c) [1, 2, 3, 4]"
proof -
  obtain n r where "Encode example_encode_env example_encoder 0 example_report = Some (Inr ((example_bom, n), r))"
    using example_Encode by blast
  from Encode_connected [OF this _ example_uuid_ok _ example_rooted]
  have *: "comp_of example_bom k = Some c \<Longrightarrow> reaches_root example_bom c" for k c
    by (simp add: example_report_def example_encoder_def)
  have "\<not> Option.is_none (comp_of example_bom 1)" "\<not> Option.is_none (comp_of example_bom 2)"
    "\<not> Option.is_none (comp_of example_bom 3)" "\<not> Option.is_none (comp_of example_bom 4)" by code_simp+
  then obtain a b c d where "comp_of example_bom 1 = Some a" "comp_of example_bom 2 = Some b"
    "comp_of example_bom 3 = Some c" "comp_of example_bom 4 = Some d" by (auto simp: Option.is_none_def)
  then show ?thesis using * by simp
qed

end
