(* ===== verification/Vex.thy ===== *)
theory Vex
  imports Sbom_Encode "HOL-Library.Transitive_Closure_Table"
begin

text \<open>
  VEX, \<open>pkg/vex\<close>: the documents (\<open>openvex.go\<close>, \<open>csaf.go\<close>, \<open>cyclonedx.go\<close>, \<open>document.go\<close>), the repositories
  (\<open>repo.go\<close>), the documents referenced by an SBOM (\<open>sbomref.go\<close>) and the filter (\<open>vex.go\<close>).

  The outer \<^term>\<open>None\<close> of a result stands for a panic or for a computation that does not end. A value of the
  interface \<open>VEX\<close> is a pointer to one of its implementations, and that pointer may be nil although the interface value is
  not: the constructors of \<open>Document\<close> and \<open>VEX\<close> carry options for this reason.

  \<open>vex_env\<close> holds the decoders, the network and the file system, the parsers of package URLs and BOM links, and
  the orders in which Go ranges over maps. Documents of \<open>go-vex\<close> and product trees of \<open>csaf\<close> are
  records with their methods as fields. A nil product tree panics in both its uses.
\<close>

section \<open>Third-party documents\<close>

record openvex_Statement =
  St_Status :: string
  St_Justification :: string

record openvex_doc =
  ov_Context :: string
  ov_Matches :: "string \<Rightarrow> string \<Rightarrow> string list \<Rightarrow> openvex_Statement list"

abbreviation StatusNotAffected :: string where "StatusNotAffected \<equiv> ''not_affected''"
abbreviation StatusFixed :: string where "StatusFixed \<equiv> ''fixed''"
abbreviation StatusUnderInvestigation :: string where "StatusUnderInvestigation \<equiv> ''under_investigation''"

record csaf_ProductStatus =
  KnownNotAffected :: "string option list"
  Status_Fixed :: "string option list"

record csaf_Threat =
  Threat_Category :: "string option"
  Threat_Details :: "string option"

record csaf_Vulnerability =
  CVE :: "string option"
  ProductStatus :: "csaf_ProductStatus option"
  Threats :: "csaf_Threat option list"

text \<open>The name of a full product is the pointer to its identifier.\<close>

record csaf_Relationship =
  CR_Category :: "string option"
  CR_FullProductName :: "string option option"
  CR_RelatesToProductReference :: "string option"
  CR_ProductReference :: "string option"

record csaf_ProductTree =
  RelationShips :: "csaf_Relationship option list option"
  CollectHelpers :: "string \<Rightarrow> string option option list"

record csaf_Advisory =
  CA_Vulnerabilities :: "csaf_Vulnerability option list option"
  CA_ProductTree :: "csaf_ProductTree option"

record cdx_Vulnerability =
  CdxV_ID :: string
  CdxV_Affects :: "string list"
  CdxV_State :: string
  CdxV_Justification :: string

record BOMLink =
  Link_SerialNumber :: string
  Link_Version :: int
  Link_Reference :: string

text \<open>A file or an HTTP body: its content, and the error that seeking gives.\<close>

record reader =
  rd_content :: string
  rd_seek :: "go_error option"

record PackageEntry =
  PE_ID :: string
  PE_Location :: string
  PE_Format :: string

record Index =
  Ix_Path :: string
  Ix_Packages :: "(string \<times> PackageEntry) list"

record vex_Repository =
  Repo_Name :: string
  Repo_URL :: string
  Repo_Enabled :: bool

record RepositoryIndex =
  RI_Name :: string
  RI_URL :: string
  RI_Index :: Index

record vex_env =
  enc_env :: encode_env
  packageurl_FromString :: "string \<Rightarrow> PackageURL result"
  ParseBOMLink :: "string \<Rightarrow> BOMLink result"
  range_status :: "(string \<times> string option list) list \<Rightarrow> (string \<times> string option list) list"
  json_BOMFormat :: "string \<Rightarrow> string option"
  json_openvex :: "string \<Rightarrow> openvex_doc result"
  json_csaf :: "string \<Rightarrow> csaf_Advisory result"
  json_cyclonedx :: "string \<Rightarrow> cdx_Vulnerability list result"
  multierror_Append :: "go_error option \<Rightarrow> go_error \<Rightarrow> go_error"
  os_Open :: "string \<Rightarrow> reader result"
  os_OpenInRoot :: "string \<Rightarrow> string \<Rightarrow> reader result"
  path_Dir :: "string \<Rightarrow> string"
  manager_Config :: "string \<Rightarrow> vex_Repository list result"
  repo_Index :: "vex_Repository \<Rightarrow> Index option result"
  oci_Discover :: "PackageURL option \<Rightarrow> openvex_doc option result"
  url_Scheme :: "string \<Rightarrow> string option"
  http_Get :: "string \<Rightarrow> (int \<times> string result) result"

section \<open>OpenVEX (openvex.go)\<close>

record OpenVEX =
  OV_vex :: openvex_doc
  OV_source :: string

definition newOpenVEX :: "openvex_doc \<Rightarrow> string \<Rightarrow> OpenVEX" where
  "newOpenVEX vex source = \<lparr>OV_vex = vex, OV_source = source\<rparr>"

abbreviation FindingStatusUnknown :: string where "FindingStatusUnknown \<equiv> ''unknown''"
abbreviation FindingStatusNotAffected :: string where "FindingStatusNotAffected \<equiv> ''not_affected''"
abbreviation FindingStatusAffected :: string where "FindingStatusAffected \<equiv> ''affected''"
abbreviation FindingStatusFixed :: string where "FindingStatusFixed \<equiv> ''fixed''"
abbreviation FindingStatusUnderInvestigation :: string where "FindingStatusUnderInvestigation \<equiv> ''under_investigation''"

definition findingStatus :: "string \<Rightarrow> string" where
  "findingStatus status =
     (if status = StatusNotAffected then FindingStatusNotAffected
      else if status = StatusFixed then FindingStatusFixed
      else if status = StatusUnderInvestigation then FindingStatusUnderInvestigation
      else FindingStatusUnknown)"

definition component_PURL :: "Component option \<Rightarrow> PackageURL option" where
  "component_PURL c = Option.bind c (\<lambda>c. Id_PURL (Comp_PkgIdentifier c))"

definition OpenVEX_Matches ::
    "vex_env \<Rightarrow> OpenVEX option \<Rightarrow> DetectedVulnerability \<Rightarrow> Component option \<Rightarrow> Component option \<Rightarrow>
      openvex_Statement list option" where
  "OpenVEX_Matches env v vuln product subComponent =
     (case component_PURL product of
        None \<Rightarrow> Some []
      | Some p \<Rightarrow>
          let subComponentPURL =
            (case component_PURL subComponent of Some q \<Rightarrow> purl_str (core_env (enc_env env)) q | None \<Rightarrow> [])
          in map_option (\<lambda>v. ov_Matches (OV_vex v) (DV_VulnerabilityID vuln) (purl_str (core_env (enc_env env)) p) [subComponentPURL]) v)"

type_synonym verdict = "ModifiedFinding option"

definition OpenVEX_NotAffected ::
    "vex_env \<Rightarrow> OpenVEX option \<Rightarrow> DetectedVulnerability \<Rightarrow> Component option \<Rightarrow> Component option \<Rightarrow> verdict option" where
  "OpenVEX_NotAffected env v vuln product subComponent =
     (case OpenVEX_Matches env v vuln product subComponent of
        None \<Rightarrow> None
      | Some [] \<Rightarrow> Some None
      | Some stmts \<Rightarrow>
          let stmt = last stmts
          in if St_Status stmt = StatusNotAffected \<or> St_Status stmt = StatusFixed
             then map_option (\<lambda>v. Some (NewModifiedFinding (FVulnerability vuln) (findingStatus (St_Status stmt))
                                          (St_Justification stmt) (OV_source v))) v
             else Some None)"

section \<open>CSAF (csaf.go)\<close>

record CSAF =
  CSAF_advisory :: csaf_Advisory
  CSAF_source :: string

record csaf_relationship =
  Rel_Product :: PackageURL
  Rel_SubProducts :: "PackageURL list"

definition newCSAF :: "csaf_Advisory \<Rightarrow> string \<Rightarrow> CSAF" where
  "newCSAF advisory source = \<lparr>CSAF_advisory = advisory, CSAF_source = source\<rparr>"

text \<open>\<open>lo.FromPtr\<close> on strings, and \<open>lo.Find\<close> over pointers that the predicate dereferences.\<close>

definition from_ptr :: "string option \<Rightarrow> string" where
  "from_ptr p = (case p of Some s \<Rightarrow> s | None \<Rightarrow> [])"

fun find_ptr :: "('a \<Rightarrow> bool) \<Rightarrow> 'a option list \<Rightarrow> 'a option option" where
  "find_ptr P [] = Some None"
| "find_ptr P (None # xs) = None"
| "find_ptr P (Some x # xs) = (if P x then Some (Some x) else find_ptr P xs)"

definition purl_FromString :: "vex_env \<Rightarrow> string \<Rightarrow> PackageURL result" where
  "purl_FromString env s = wrap_err ''failed to parse purl(%s): %w'' [s] (packageurl_FromString env s)"

definition purlsFromProductIdentificationHelpers :: "vex_env \<Rightarrow> string option option list \<Rightarrow> PackageURL list" where
  "purlsFromProductIdentificationHelpers env helpers =
     List.map_filter (\<lambda>helper.
       case helper of
         Some (Some s) \<Rightarrow> (case purl_FromString env s of Inr p \<Rightarrow> Some p | Inl _ \<Rightarrow> None)
       | _ \<Rightarrow> None) helpers"

definition productPURLs :: "vex_env \<Rightarrow> CSAF \<Rightarrow> string \<Rightarrow> PackageURL list option" where
  "productPURLs env v product =
     map_option (\<lambda>tree. purlsFromProductIdentificationHelpers env (CollectHelpers tree product))
       (CA_ProductTree (CSAF_advisory v))"

abbreviation relationship_categories :: "string list" where
  "relationship_categories \<equiv> [''default_component_of'', ''installed_on'', ''installed_with'']"

text \<open>The relationships of a product. The code keeps them per category, in a map whose categories only appear in log
  messages.\<close>

fun inspect_relationships ::
    "vex_env \<Rightarrow> CSAF \<Rightarrow> string \<Rightarrow> csaf_Relationship option list \<Rightarrow> (string \<times> csaf_relationship) list option" where
  "inspect_relationships env v fullProductID [] = Some []"
| "inspect_relationships env v fullProductID (None # rels) = inspect_relationships env v fullProductID rels"
| "inspect_relationships env v fullProductID (Some rel # rels) =
     (case CR_FullProductName rel of
        None \<Rightarrow> inspect_relationships env v fullProductID rels
      | Some fpn \<Rightarrow>
          if from_ptr fpn \<noteq> fullProductID then inspect_relationships env v fullProductID rels
          else if from_ptr (CR_Category rel) \<in> set relationship_categories then
            Option.bind (productPURLs env v (from_ptr (CR_RelatesToProductReference rel))) (\<lambda>ps.
            Option.bind (productPURLs env v (from_ptr (CR_ProductReference rel))) (\<lambda>subs.
            map_option (\<lambda>rs. map (\<lambda>p. (from_ptr (CR_Category rel), \<lparr>Rel_Product = p, Rel_SubProducts = subs\<rparr>)) ps @ rs)
              (inspect_relationships env v fullProductID rels)))
          else inspect_relationships env v fullProductID rels)"

definition inspectProductRelationships :: "vex_env \<Rightarrow> CSAF \<Rightarrow> string \<Rightarrow> (string \<times> csaf_relationship) list option" where
  "inspectProductRelationships env v fullProductID =
     Option.bind (CA_ProductTree (CSAF_advisory v)) (\<lambda>tree.
       case RelationShips tree of
         None \<Rightarrow> Some []
       | Some rels \<Rightarrow> inspect_relationships env v fullProductID rels)"

definition matchRelationship :: "vex_env \<Rightarrow> CSAF \<Rightarrow> string \<Rightarrow> Component \<Rightarrow> Component option \<Rightarrow> bool option" where
  "matchRelationship env v fullProductID product subProduct =
     (case subProduct of
        None \<Rightarrow> Some False
      | Some sub \<Rightarrow>
          map_option (\<lambda>rels. list_ex (\<lambda>(_, rel).
              purl_Match (Rel_Product rel) (Id_PURL (Comp_PkgIdentifier product)) \<and>
              list_ex (\<lambda>q. purl_Match q (Id_PURL (Comp_PkgIdentifier sub))) (Rel_SubProducts rel)) rels)
            (inspectProductRelationships env v fullProductID))"

definition matchProduct :: "vex_env \<Rightarrow> CSAF \<Rightarrow> string \<Rightarrow> Component \<Rightarrow> bool option" where
  "matchProduct env v productID product =
     map_option (list_ex (\<lambda>p. purl_Match p (Id_PURL (Comp_PkgIdentifier product)))) (productPURLs env v productID)"

fun match_products :: "vex_env \<Rightarrow> CSAF \<Rightarrow> Component \<Rightarrow> Component option \<Rightarrow> string option list \<Rightarrow> bool option" where
  "match_products env v product subProduct [] = Some False"
| "match_products env v product subProduct (p # ps) =
     Option.bind (matchProduct env v (from_ptr p) product) (\<lambda>m.
       if m then Some True
       else Option.bind (matchRelationship env v (from_ptr p) product subProduct) (\<lambda>r.
         if r then Some True else match_products env v product subProduct ps))"

fun match_status ::
    "vex_env \<Rightarrow> CSAF \<Rightarrow> Component \<Rightarrow> Component option \<Rightarrow> (string \<times> string option list) list \<Rightarrow> string option" where
  "match_status env v product subProduct [] = Some []"
| "match_status env v product subProduct ((status, ps) # rest) =
     Option.bind (match_products env v product subProduct ps) (\<lambda>m.
       if m then Some status else match_status env v product subProduct rest)"

definition CSAF_match :: "vex_env \<Rightarrow> CSAF \<Rightarrow> csaf_Vulnerability \<Rightarrow> Component option \<Rightarrow> Component option \<Rightarrow> string option" where
  "CSAF_match env v vuln product subProduct =
     (case (product, component_PURL product, ProductStatus vuln) of
        (Some c, Some _, Some ps) \<Rightarrow>
          match_status env v c subProduct
            (range_status env [(FindingStatusNotAffected, KnownNotAffected ps), (FindingStatusFixed, Status_Fixed ps)])
      | _ \<Rightarrow> Some [])"

definition CSAF_statement :: "csaf_Vulnerability \<Rightarrow> string option" where
  "CSAF_statement vuln =
     map_option (\<lambda>t. case t of None \<Rightarrow> [] | Some threat \<Rightarrow> from_ptr (Threat_Details threat))
       (find_ptr (\<lambda>threat. from_ptr (Threat_Category threat) = ''impact'') (Threats vuln))"

definition CSAF_NotAffected ::
    "vex_env \<Rightarrow> CSAF option \<Rightarrow> DetectedVulnerability \<Rightarrow> Component option \<Rightarrow> Component option \<Rightarrow> verdict option" where
  "CSAF_NotAffected env v vuln product subProduct =
     Option.bind v (\<lambda>v.
     Option.bind (find_ptr (\<lambda>item. CVE item = Some (DV_VulnerabilityID vuln))
                    (case CA_Vulnerabilities (CSAF_advisory v) of Some vs \<Rightarrow> vs | None \<Rightarrow> [])) (\<lambda>found.
       case found of
         None \<Rightarrow> Some None
       | Some item \<Rightarrow>
           Option.bind (CSAF_match env v item product subProduct) (\<lambda>status.
             if status = [] then Some None
             else map_option (\<lambda>st. Some (NewModifiedFinding (FVulnerability vuln) status st (CSAF_source v)))
                    (CSAF_statement item))))"

section \<open>CycloneDX (cyclonedx.go)\<close>

record vex_Statement =
  Stmt_Affects :: "string list"
  Stmt_Status :: string
  Stmt_Justification :: string

record CycloneDX =
  CD_sbom :: "BOM option"
  CD_statements :: "(string \<times> vex_Statement) list"

definition cdxStatus :: "string \<Rightarrow> string" where
  "cdxStatus s =
     (if s \<in> {''resolved'', ''resolved_with_pedigree''} then FindingStatusFixed
      else if s = ''exploitable'' then FindingStatusAffected
      else if s = ''in_triage'' then FindingStatusUnderInvestigation
      else if s \<in> {''false_positive'', ''not_affected''} then FindingStatusNotAffected
      else FindingStatusUnknown)"

definition newCycloneDX :: "BOM option \<Rightarrow> cdx_Vulnerability list \<Rightarrow> CycloneDX" where
  "newCycloneDX sbom vulns =
     \<lparr>CD_sbom = sbom,
      CD_statements = fold (\<lambda>vuln m. AList.update (CdxV_ID vuln)
        \<lparr>Stmt_Affects = CdxV_Affects vuln, Stmt_Status = cdxStatus (CdxV_State vuln),
         Stmt_Justification = CdxV_Justification vuln\<rparr> m) vulns []\<rparr>"

definition packageurl_option :: "vex_env \<Rightarrow> string \<Rightarrow> PackageURL option" where
  "packageurl_option env s = (case packageurl_FromString env s of Inr p \<Rightarrow> Some p | Inl _ \<Rightarrow> None)"

fun match_affects ::
    "vex_env \<Rightarrow> CycloneDX \<Rightarrow> vex_Statement \<Rightarrow> DetectedVulnerability \<Rightarrow> Component option \<Rightarrow> string list \<Rightarrow> verdict option" where
  "match_affects env v stmt vuln product [] = Some None"
| "match_affects env v stmt vuln product (affect # affects) =
     (if Stmt_Status stmt \<noteq> FindingStatusNotAffected \<and> Stmt_Status stmt \<noteq> FindingStatusFixed
      then match_affects env v stmt vuln product affects
      else case ParseBOMLink env affect of
             Inl _ \<Rightarrow> match_affects env v stmt vuln product affects
           | Inr link \<Rightarrow>
               Option.bind (CD_sbom v) (\<lambda>sbom.
                 if BOM_SerialNumber sbom \<noteq> Link_SerialNumber link \<or> BOM_Version sbom \<noteq> Link_Version link
                 then match_affects env v stmt vuln product affects
                 else Option.bind product (\<lambda>c.
                   if PkgIdentifier_Match (packageurl_option env) (purl_str (core_env (enc_env env)))
                        (Comp_PkgIdentifier c) (Link_Reference link)
                   then Some (Some (NewModifiedFinding (FVulnerability vuln) (Stmt_Status stmt)
                                      (Stmt_Justification stmt) ''CycloneDX VEX''))
                   else match_affects env v stmt vuln product affects)))"

definition CycloneDX_NotAffected ::
    "vex_env \<Rightarrow> CycloneDX option \<Rightarrow> DetectedVulnerability \<Rightarrow> Component option \<Rightarrow> verdict option" where
  "CycloneDX_NotAffected env v vuln product =
     Option.bind v (\<lambda>v.
       case map_of (CD_statements v) (DV_VulnerabilityID vuln) of
         None \<Rightarrow> Some None
       | Some stmt \<Rightarrow> match_affects env v stmt vuln product (Stmt_Affects stmt))"

section \<open>Decoding (document.go)\<close>

datatype Document = DocOpenVEX "OpenVEX option" | DocCSAF "CSAF option" | DocCycloneDX "CycloneDX option"

fun Document_NotAffected ::
    "vex_env \<Rightarrow> Document \<Rightarrow> DetectedVulnerability \<Rightarrow> Component option \<Rightarrow> Component option \<Rightarrow> verdict option" where
  "Document_NotAffected env (DocOpenVEX v) vuln product sub = OpenVEX_NotAffected env v vuln product sub"
| "Document_NotAffected env (DocCSAF v) vuln product sub = CSAF_NotAffected env v vuln product sub"
| "Document_NotAffected env (DocCycloneDX v) vuln product sub = CycloneDX_NotAffected env v vuln product"

definition with_seek :: "reader \<Rightarrow> (string \<Rightarrow> 'a result) \<Rightarrow> 'a result" where
  "with_seek r f = (case rd_seek r of Some e \<Rightarrow> Inl (Wrapf ''seek error: %w'' [] e) | None \<Rightarrow> f (rd_content r))"

definition IsCycloneDXJSON :: "vex_env \<Rightarrow> reader \<Rightarrow> bool result" where
  "IsCycloneDXJSON env r = with_seek r (\<lambda>s. Inr (json_BOMFormat env s = Some ''CycloneDX''))"

definition decodeCycloneDXJSON :: "vex_env \<Rightarrow> reader \<Rightarrow> Report \<Rightarrow> CycloneDX result" where
  "decodeCycloneDXJSON env r report =
     with_seek r (\<lambda>s.
       bind_result (wrap_err ''json decode error: %w'' [] (json_cyclonedx env s)) (\<lambda>vex.
       if Rep_ArtifactType report \<noteq> TypeCycloneDX then Inl (Errorf ''CycloneDX VEX can be used with CycloneDX SBOM'' [])
       else Inr (newCycloneDX (Rep_BOM report) vex)))"

definition decodeOpenVEX :: "vex_env \<Rightarrow> reader \<Rightarrow> string \<Rightarrow> OpenVEX option result" where
  "decodeOpenVEX env r source =
     with_seek r (\<lambda>s. bind_result (json_openvex env s) (\<lambda>doc.
       if ov_Context doc = [] then Inr None else Inr (Some (newOpenVEX doc source))))"

definition decodeCSAF :: "vex_env \<Rightarrow> reader \<Rightarrow> string \<Rightarrow> CSAF option result" where
  "decodeCSAF env r source =
     with_seek r (\<lambda>s. bind_result (json_csaf env s) (\<lambda>adv.
       if CA_Vulnerabilities adv = None then Inr None else Inr (Some (newCSAF adv source))))"

text \<open>The three attempts of \<open>decodeVEX\<close>; the errors of the failed ones are collected.\<close>

definition decode_fail :: "go_error option \<Rightarrow> Document result" where
  "decode_fail errs =
     Inl (case errs of Some e \<Rightarrow> Wrapf ''unable to decode VEX: %w'' [] e | None \<Rightarrow> Errorf ''unable to decode VEX: %w'' [])"

definition try_CSAF :: "vex_env \<Rightarrow> reader \<Rightarrow> string \<Rightarrow> go_error option \<Rightarrow> Document result" where
  "try_CSAF env r source errs =
     (case decodeCSAF env r source of
        Inl e \<Rightarrow> decode_fail (Some (multierror_Append env errs e))
      | Inr (Some v) \<Rightarrow> Inr (DocCSAF (Some v))
      | Inr None \<Rightarrow> decode_fail errs)"

definition try_OpenVEX :: "vex_env \<Rightarrow> reader \<Rightarrow> string \<Rightarrow> go_error option \<Rightarrow> Document result" where
  "try_OpenVEX env r source errs =
     (case decodeOpenVEX env r source of
        Inl e \<Rightarrow> try_CSAF env r source (Some (multierror_Append env errs e))
      | Inr (Some v) \<Rightarrow> Inr (DocOpenVEX (Some v))
      | Inr None \<Rightarrow> try_CSAF env r source errs)"

definition decodeVEX :: "vex_env \<Rightarrow> reader \<Rightarrow> string \<Rightarrow> Report \<Rightarrow> Document result" where
  "decodeVEX env r source report =
     (case IsCycloneDXJSON env r of
        Inl e \<Rightarrow> try_OpenVEX env r source (Some (multierror_Append env None e))
      | Inr True \<Rightarrow> bind_result (decodeCycloneDXJSON env r report) (\<lambda>v. Inr (DocCycloneDX (Some v)))
      | Inr False \<Rightarrow> try_OpenVEX env r source None)"

definition NewDocument :: "vex_env \<Rightarrow> string \<Rightarrow> Report \<Rightarrow> Document result" where
  "NewDocument env filePath report =
     (if filePath = [] then Inl (Errorf ''VEX file path is empty'' [])
      else bind_result (wrap_err ''file open error: %w'' [] (os_Open env filePath)) (\<lambda>f.
           wrap_err ''unable to load VEX from file: %w'' [] (decodeVEX env f filePath report)))"

section \<open>Repositories (repo.go)\<close>

text \<open>\<open>repo_Index\<close> returns \<^term>\<open>Inr None\<close> when the index file does not exist. The outcome of the construction is a set, the
  absence of repositories, or an error.\<close>

fun repository_indexes :: "vex_env \<Rightarrow> vex_Repository list \<Rightarrow> RepositoryIndex list result" where
  "repository_indexes env [] = Inr []"
| "repository_indexes env (r # rs) =
     (case repo_Index env r of
        Inl e \<Rightarrow> Inl (Wrapf ''failed to get VEX repository index: %w'' [] e)
      | Inr None \<Rightarrow> repository_indexes env rs
      | Inr (Some index) \<Rightarrow>
          bind_result (repository_indexes env rs) (\<lambda>ixs.
            Inr (\<lparr>RI_Name = Repo_Name r, RI_URL = Repo_URL r, RI_Index = index\<rparr> # ixs)))"

definition NewRepositorySet :: "vex_env \<Rightarrow> string \<Rightarrow> RepositoryIndex list option result" where
  "NewRepositorySet env cacheDir =
     bind_result (wrap_err ''failed to get VEX repository config: %w'' [] (manager_Config env cacheDir)) (\<lambda>repos.
     bind_result (repository_indexes env (filter Repo_Enabled repos)) (\<lambda>indexes.
       Inr (if indexes = [] then None else Some indexes)))"

definition OpenDocument :: "vex_env \<Rightarrow> string \<Rightarrow> string \<Rightarrow> PackageEntry \<Rightarrow> Document result" where
  "OpenDocument env source dir entry =
     bind_result (wrap_err ''failed to open the VEX document: %w'' [] (os_OpenInRoot env dir (PE_Location entry))) (\<lambda>f.
       if PE_Format entry = ''openvex'' \<or> PE_Format entry = [] then
         bind_result (decodeOpenVEX env f source) (\<lambda>v. Inr (DocOpenVEX v))
       else if PE_Format entry = ''csaf'' then bind_result (decodeCSAF env f source) (\<lambda>v. Inr (DocCSAF v))
       else Inl (Errorf ''unsupported VEX format: %s'' [PE_Format entry]))"

text \<open>The package URL that the index uses as its key.\<close>

definition index_PURL :: "PackageURL \<Rightarrow> PackageURL" where
  "index_PURL p = p\<lparr>PURL_Version := [], PURL_Subpath := [], PURL_Qualifiers :=
     (if PURL_Type p = ''oci''
      then (case find (\<lambda>q. fst q = ''repository_url'') (PURL_Qualifiers p) of Some q \<Rightarrow> [q] | None \<Rightarrow> [])
      else [])\<rparr>"

definition RepositorySet_NotAffected ::
    "vex_env \<Rightarrow> RepositoryIndex list \<Rightarrow> DetectedVulnerability \<Rightarrow> Component option \<Rightarrow> Component option \<Rightarrow> verdict option" where
  "RepositorySet_NotAffected env indexes vuln product subComponent =
     (case component_PURL product of
        None \<Rightarrow> Some None
      | Some purl \<Rightarrow>
          let pkgID = purl_str (core_env (enc_env env)) (index_PURL purl)
          in case find (\<lambda>ix. map_of (Ix_Packages (RI_Index ix)) pkgID \<noteq> None) indexes of
               None \<Rightarrow> Some None
             | Some ix \<Rightarrow>
                 let source = ''VEX Repository: '' @ RI_Name ix @ '' ('' @ RI_URL ix @ '')'';
                     entry = the (map_of (Ix_Packages (RI_Index ix)) pkgID)
                 in case OpenDocument env source (path_Dir env (Ix_Path (RI_Index ix))) entry of
                      Inl _ \<Rightarrow> Some None
                    | Inr doc \<Rightarrow> Document_NotAffected env doc vuln product subComponent)"

section \<open>Documents referenced by an SBOM (sbomref.go)\<close>

definition parseToURLs :: "vex_env \<Rightarrow> ExternalReference list \<Rightarrow> string list" where
  "parseToURLs env refs =
     map ER_URL (filter (\<lambda>ref. ER_Type ref = ExternalReferenceVEX \<and>
       (url_Scheme env (ER_URL ref) = Some ''https'' \<or> url_Scheme env (ER_URL ref) = Some ''http'')) refs)"

definition retrieveExternalVEXDocument :: "vex_env \<Rightarrow> string \<Rightarrow> Report \<Rightarrow> Document result" where
  "retrieveExternalVEXDocument env url report =
     bind_result (wrap_err ''unable to fetch file via HTTP: %w'' [] (http_Get env url)) (\<lambda>(status, body).
       if status \<noteq> 200 then Inl (Errorf ''unexpected status code %d from %s'' [itoa status, url])
       else bind_result (wrap_err ''unable to read response into memory: %w'' [] body) (\<lambda>val.
         wrap_err ''unable to load VEX from external reference: %w'' []
           (decodeVEX env \<lparr>rd_content = val, rd_seek = None\<rparr> url report)))"

fun retrieve_documents :: "vex_env \<Rightarrow> string list \<Rightarrow> Report \<Rightarrow> Document list result" where
  "retrieve_documents env [] report = Inr []"
| "retrieve_documents env (ref # refs) report =
     bind_result (wrap_err ''failed to retrieve external VEX document: %w'' [] (retrieveExternalVEXDocument env ref report)) (\<lambda>doc.
     bind_result (retrieve_documents env refs report) (\<lambda>docs. Inr (doc # docs)))"

text \<open>The pointer to the set is nil when there is no document.\<close>

definition NewSBOMReferenceSet :: "vex_env \<Rightarrow> Report \<Rightarrow> Document list option result option" where
  "NewSBOMReferenceSet env report =
     (if Rep_ArtifactType report \<noteq> TypeCycloneDX
      then Some (Inl (Errorf ''externalReferences can only be used when scanning CycloneDX SBOMs: %w'' [Rep_ArtifactType report]))
      else map_option (\<lambda>bom.
        bind_result (wrap_err ''failed to fetch external VEX documents: %w'' []
            (retrieve_documents env (parseToURLs env (BOM_externalReferences bom)) report)) (\<lambda>docs.
          Inr (if docs = [] then None else Some docs))) (Rep_BOM report))"

section \<open>The client (vex.go, openvex.go)\<close>

datatype VEX = VDocument Document | VRepositorySet "RepositoryIndex list" | VSBOMReferenceSet "Document list option"

fun first_verdict :: "('a \<Rightarrow> verdict option) \<Rightarrow> 'a list \<Rightarrow> verdict option" where
  "first_verdict f [] = Some None"
| "first_verdict f (x # xs) =
     Option.bind (f x) (\<lambda>v. case v of Some m \<Rightarrow> Some (Some m) | None \<Rightarrow> first_verdict f xs)"

fun VEX_NotAffected ::
    "vex_env \<Rightarrow> VEX \<Rightarrow> DetectedVulnerability \<Rightarrow> Component option \<Rightarrow> Component option \<Rightarrow> verdict option" where
  "VEX_NotAffected env (VDocument d) vuln product sub = Document_NotAffected env d vuln product sub"
| "VEX_NotAffected env (VRepositorySet ixs) vuln product sub = RepositorySet_NotAffected env ixs vuln product sub"
| "VEX_NotAffected env (VSBOMReferenceSet docs) vuln product sub =
     Option.bind docs (first_verdict (\<lambda>d. Document_NotAffected env d vuln product sub))"

datatype SourceType = SrcFile string | SrcRepository | SrcOCI | SrcSBOMReference | SrcOther string

definition NewSource :: "string \<Rightarrow> SourceType" where
  "NewSource src =
     (if src = ''repository'' \<or> src = ''repo'' then SrcRepository
      else if src = ''oci'' then SrcOCI
      else if src = ''sbom-ref'' then SrcSBOMReference
      else SrcFile src)"

record vex_Options =
  VO_CacheDir :: string
  VO_Sources :: "SourceType list"

definition NewOCI :: "vex_env \<Rightarrow> Report \<Rightarrow> OpenVEX option result option" where
  "NewOCI env report =
     (if Rep_ArtifactType report \<noteq> TypeContainerImage \<or> length (Meta_RepoDigests (Rep_Metadata report)) = 0
      then Some (Inl (Errorf ''--vex oci can be used only when scanning OCI artifacts stored in registries'' []))
      else map_option (\<lambda>r.
        bind_result (wrap_err ''failed to create a package URL: %w'' [] r) (\<lambda>p.
        bind_result (wrap_err ''failed to retrieve VEX attestation: %w'' [] (oci_Discover env p)) (\<lambda>doc.
          Inr (map_option (\<lambda>d. newOpenVEX d (''VEX attestation in OCI registry ('' @
            (case p of Some q \<Rightarrow> purl_str (core_env (enc_env env)) q | None \<Rightarrow> []) @ '')'')) doc))))
        (New (sbom_purl (enc_env env)) ''oci'' (Rep_Metadata report) Package_empty))"

text \<open>One turn of the loop in \<open>New\<close>: no VEX to append, a VEX, or an error. The result of \<open>NewSBOMReferenceSet\<close> is
  stored in a variable of the interface type before it is compared with nil, so a nil pointer does not
  compare as nil and is appended.\<close>

definition load_source :: "vex_env \<Rightarrow> Report \<Rightarrow> vex_Options \<Rightarrow> SourceType \<Rightarrow> VEX option result option" where
  "load_source env report opts src =
     (case src of
        SrcFile path \<Rightarrow>
          Some (bind_result (wrap_err ''unable to load VEX: %w'' [] (NewDocument env path report)) (\<lambda>d. Inr (Some (VDocument d))))
      | SrcRepository \<Rightarrow>
          Some (bind_result (wrap_err ''failed to create a vex repository set: %w'' [] (NewRepositorySet env (VO_CacheDir opts)))
            (\<lambda>ixs. Inr (map_option VRepositorySet ixs)))
      | SrcOCI \<Rightarrow>
          map_option (\<lambda>r. bind_result (wrap_err ''VEX OCI error: %w'' [] r) (\<lambda>v.
            Inr (map_option (\<lambda>d. VDocument (DocOpenVEX (Some d))) v))) (NewOCI env report)
      | SrcSBOMReference \<Rightarrow>
          map_option (\<lambda>r. bind_result (wrap_err ''failed to create set of external VEX documents: %w'' [] r) (\<lambda>set.
            Inr (Some (VSBOMReferenceSet set)))) (NewSBOMReferenceSet env report)
      | SrcOther _ \<Rightarrow> Some (Inr None))"

fun load_sources :: "vex_env \<Rightarrow> Report \<Rightarrow> vex_Options \<Rightarrow> SourceType list \<Rightarrow> VEX list result option" where
  "load_sources env report opts [] = Some (Inr [])"
| "load_sources env report opts (src # srcs) =
     Option.bind (load_source env report opts src) (\<lambda>r.
       case r of
         Inl e \<Rightarrow> Some (Inl e)
       | Inr v \<Rightarrow> map_option (\<lambda>r. bind_result r (\<lambda>vs. Inr (case v of Some x \<Rightarrow> x # vs | None \<Rightarrow> vs)))
                    (load_sources env report opts srcs))"

text \<open>The client; \<^term>\<open>Inr None\<close> when filtering is disabled.\<close>

definition vex_New :: "vex_env \<Rightarrow> Report \<Rightarrow> vex_Options \<Rightarrow> VEX list option result option" where
  "vex_New env report opts =
     map_option (\<lambda>r. bind_result r (\<lambda>vexes. Inr (if length vexes = 0 then None else Some vexes)))
       (load_sources env report opts (VO_Sources opts))"

definition Client_NotAffected ::
    "vex_env \<Rightarrow> VEX list \<Rightarrow> DetectedVulnerability \<Rightarrow> Component option \<Rightarrow> Component option \<Rightarrow> verdict option" where
  "Client_NotAffected env vexes vuln product sub = first_verdict (\<lambda>v. VEX_NotAffected env v vuln product sub) vexes"

section \<open>Reaching the root\<close>

text \<open>The loop over the parents: it stops at the first one that reaches the root, and carries the last modified finding
  that the closure over \<open>modified\<close> saw.\<close>

fun any_parent :: "('p \<Rightarrow> 's \<Rightarrow> (bool \<times> 's) option) \<Rightarrow> 'p list \<Rightarrow> 's \<Rightarrow> (bool \<times> 's) option" where
  "any_parent f [] st = Some (False, st)"
| "any_parent f (p # ps) st =
     Option.bind (f p st) (\<lambda>x. if fst x then Some (True, snd x) else any_parent f ps (snd x))"

lemma any_parent_mono [partial_function_mono]:
  assumes "\<And>p st. mono_option (\<lambda>g. F g p st)"
  shows "mono_option (\<lambda>g. any_parent (F g) ps st)"
proof (induction ps arbitrary: st)
  case Nil
  show ?case by (simp add: option.const_mono)
next
  case (Cons p ps)
  have "mono_option (\<lambda>g. Option.bind (F g p st)
          (\<lambda>x. if fst x then Some (True, snd x) else any_parent (F g) ps (snd x)))"
    by (intro bind_mono if_mono assms option.const_mono Cons.IH)
  then show ?case by simp
qed

partial_function (option) dfs ::
    "(UUID \<Rightarrow> Component option) \<Rightarrow> (UUID \<Rightarrow> UUID list) \<Rightarrow> (Component option \<Rightarrow> verdict option) \<Rightarrow>
      UUID list \<Rightarrow> Component option \<Rightarrow> verdict \<Rightarrow> (bool \<times> verdict) option" where
  "dfs components parents notAffected visited c modified =
     Option.bind (notAffected c) (\<lambda>m.
       case m of
         Some x \<Rightarrow> Some (False, Some x)
       | None \<Rightarrow>
           Option.bind c (\<lambda>c.
             if Comp_Root c then Some (True, modified)
             else if set (parents (Comp_id c)) \<subseteq> set visited then Some (True, modified)
             else
               let visited1 = Comp_id c # visited
               in any_parent (\<lambda>p modified.
                    if p \<in> set visited1 then Some (False, modified)
                    else dfs components parents notAffected visited1 (components p) modified)
                  (parents (Comp_id c)) modified))"

definition reachRoot ::
    "Component \<Rightarrow> (UUID \<Rightarrow> Component option) \<Rightarrow> (UUID \<Rightarrow> UUID list) \<Rightarrow>
      (Component option \<Rightarrow> Component option \<Rightarrow> verdict option) \<Rightarrow> (bool \<times> verdict) option" where
  "reachRoot leaf components parents notAffected =
     Option.bind (notAffected (Some leaf) None) (\<lambda>m.
       case m of
         Some x \<Rightarrow> Some (False, Some x)
       | None \<Rightarrow> dfs components parents (\<lambda>c. notAffected c (Some leaf)) [] (Some leaf) None)"

section \<open>The filter\<close>

definition ModifiedFinding_zero :: ModifiedFinding where
  "ModifiedFinding_zero = \<lparr>MF_Type = [], MF_Status = [], MF_Statement = [], MF_Source = [], MF_Finding = NilFinding\<rparr>"

definition components_by_UID :: "vex_env \<Rightarrow> BOM \<Rightarrow> (string \<times> Component) list" where
  "components_by_UID env bom =
     fold (\<lambda>(_, c) m. AList.update (Id_UID (Comp_PkgIdentifier c)) c m)
       (range_comps (enc_env env) (BOM_components (Components (core_env (enc_env env)) bom))) []"

fun filter_loop ::
    "(UUID \<Rightarrow> Component option) \<Rightarrow> (UUID \<Rightarrow> UUID list) \<Rightarrow> (string \<Rightarrow> Component option) \<Rightarrow>
      (DetectedVulnerability \<Rightarrow> Component option \<Rightarrow> Component option \<Rightarrow> verdict option) \<Rightarrow>
      DetectedVulnerability list \<Rightarrow> (DetectedVulnerability list \<times> ModifiedFinding list) option" where
  "filter_loop comps parents by_uid fn [] = Some ([], [])"
| "filter_loop comps parents by_uid fn (vuln # vulns) =
     (case by_uid (Id_UID (DV_PkgIdentifier vuln)) of
        None \<Rightarrow> map_option (\<lambda>(vs, ms). (vuln # vs, ms)) (filter_loop comps parents by_uid fn vulns)
      | Some c \<Rightarrow>
          Option.bind (reachRoot c comps parents (fn vuln)) (\<lambda>(reached, modified).
          map_option (\<lambda>(vs, ms).
              if reached then (vuln # vs, ms)
              else (vs, (case modified of Some m \<Rightarrow> m | None \<Rightarrow> ModifiedFinding_zero) # ms))
            (filter_loop comps parents by_uid fn vulns)))"

definition vex_filterVulnerabilities ::
    "vex_env \<Rightarrow> Result \<Rightarrow> BOM \<Rightarrow>
      (DetectedVulnerability \<Rightarrow> Component option \<Rightarrow> Component option \<Rightarrow> verdict option) \<Rightarrow> Result option" where
  "vex_filterVulnerabilities env result bom fn =
     map_option (\<lambda>(vs, ms). result\<lparr>Res_Vulnerabilities := vs, Res_ModifiedFindings := Res_ModifiedFindings result @ ms\<rparr>)
       (filter_loop (map_of (BOM_components (Components (core_env (enc_env env)) bom))) (lookup_list (BOM_parents bom))
          (map_of (components_by_UID env bom)) fn (Res_Vulnerabilities result))"

fun vex_filter_results ::
    "vex_env \<Rightarrow> BOM \<Rightarrow> (DetectedVulnerability \<Rightarrow> Component option \<Rightarrow> Component option \<Rightarrow> verdict option) \<Rightarrow>
      Result list \<Rightarrow> Result list option" where
  "vex_filter_results env bom fn [] = Some []"
| "vex_filter_results env bom fn (r # rs) =
     (if length (Res_Vulnerabilities r) = 0 then map_option ((#) r) (vex_filter_results env bom fn rs)
      else Option.bind (vex_filterVulnerabilities env r bom fn) (\<lambda>r1.
           map_option ((#) r1) (vex_filter_results env bom fn rs)))"

definition vex_encoder :: Encoder where
  "vex_encoder = \<lparr>bomOpts = \<lparr>GenerateBOMRef = False, Opt_Parents = True\<rparr>, forceRegenerate = True\<rparr>"

definition vex_Filter :: "vex_env \<Rightarrow> nat \<Rightarrow> Report \<Rightarrow> vex_Options \<Rightarrow> Report result option" where
  "vex_Filter env n report opts =
     Option.bind (vex_New env report opts) (\<lambda>r.
       case r of
         Inl e \<Rightarrow> Some (Inl (Wrapf ''VEX error: %w'' [] e))
       | Inr None \<Rightarrow> Some (Inr report)
       | Inr (Some client) \<Rightarrow>
           Option.bind (Encode (enc_env env) vex_encoder n report) (\<lambda>r.
             case r of
               Inl e \<Rightarrow> Some (Inl (Wrapf ''unable to encode the SBOM: %w'' [] e))
             | Inr ((bom, _), report1) \<Rightarrow>
                 map_option (\<lambda>rs. Inr (report1\<lparr>Rep_Results := rs\<rparr>))
                   (vex_filter_results env bom (Client_NotAffected env client) (Rep_Results report1))))"

section \<open>Which components reach the root\<close>

text \<open>A component escapes when an upward path of components without a verdict leads from it to a root, or to a component
  all of whose parents are on the path already.\<close>

inductive escapes ::
    "(UUID \<Rightarrow> Component option) \<Rightarrow> (UUID \<Rightarrow> UUID list) \<Rightarrow> (Component \<Rightarrow> verdict) \<Rightarrow> UUID set \<Rightarrow> Component \<Rightarrow> bool"
  for comps parents g where
  root: "\<lbrakk>g c = None; Comp_Root c\<rbrakk> \<Longrightarrow> escapes comps parents g V c"
| dead_end: "\<lbrakk>g c = None; set (parents (Comp_id c)) \<subseteq> V\<rbrakk> \<Longrightarrow> escapes comps parents g V c"
| step: "\<lbrakk>g c = None; parent_of comps parents c d; Comp_id d \<notin> insert (Comp_id c) V;
    escapes comps parents g (insert (Comp_id c) V) d\<rbrakk> \<Longrightarrow> escapes comps parents g V c"

inductive_simps escapes_iff: "escapes comps parents g V c"

text \<open>A walk upwards along components without a verdict.\<close>

definition unaffected_walk ::
    "(UUID \<Rightarrow> Component option) \<Rightarrow> (UUID \<Rightarrow> UUID list) \<Rightarrow> (Component \<Rightarrow> verdict) \<Rightarrow> Component \<Rightarrow> Component \<Rightarrow> bool" where
  "unaffected_walk comps parents g c r \<longleftrightarrow>
     g c = None \<and> (\<lambda>c d. parent_of comps parents c d \<and> g d = None)\<^sup>*\<^sup>* c r"

text \<open>The graph of components that the search walks: identifiers are those of the components, and parents exist.\<close>

locale component_graph =
  fixes comps :: "UUID \<Rightarrow> Component option" and parents :: "UUID \<Rightarrow> UUID list"
  assumes comp_id: "comps k = Some c \<Longrightarrow> Comp_id c = k"
    and parents_closed: "\<lbrakk>comps k = Some c; p \<in> set (parents k)\<rbrakk> \<Longrightarrow> comps p \<noteq> None"
    and finite_comps: "finite (dom comps)"
begin

abbreviation in_graph :: "Component \<Rightarrow> bool" where
  "in_graph c \<equiv> comps (Comp_id c) = Some c"

lemma parent_in_graph: "parent_of comps parents c d \<Longrightarrow> in_graph d"
  using comp_id by (auto simp: parent_of_def)

definition verdicts :: "(Component \<Rightarrow> verdict) \<Rightarrow> verdict set" where
  "verdicts g = {m. m \<noteq> None \<and> (\<exists>c. in_graph c \<and> g c = m)}"

end

text \<open>The loop over the parents, when every call returns.\<close>

lemma any_parent_total:
  assumes "\<And>p st. p \<in> set ps \<Longrightarrow> \<exists>st'. f p st = Some (B p, st') \<and> st' \<in> insert st S \<and> (live p \<and> \<not> B p \<longrightarrow> st' \<in> S)"
  shows "\<exists>st'. any_parent f ps st = Some (\<exists>p \<in> set ps. B p, st') \<and> st' \<in> insert st S \<and>
    ((\<exists>p \<in> set ps. live p) \<and> \<not> (\<exists>p \<in> set ps. B p) \<longrightarrow> st' \<in> S)"
  using assms
proof (induction ps arbitrary: st)
  case (Cons p ps)
  obtain st1 where 1: "f p st = Some (B p, st1)" "st1 \<in> insert st S" "live p \<and> \<not> B p \<longrightarrow> st1 \<in> S"
    using Cons.prems [of p st] by auto
  obtain st2 where 2: "any_parent f ps st1 = Some (\<exists>p \<in> set ps. B p, st2)" "st2 \<in> insert st1 S"
    "(\<exists>p \<in> set ps. live p) \<and> \<not> (\<exists>p \<in> set ps. B p) \<longrightarrow> st2 \<in> S"
    using Cons.IH [of st1] Cons.prems by auto
  show ?case using 1 2 by (cases "B p") auto
qed simp

context component_graph
begin

text \<open>The search returns, with the answer that the paths of the graph give. When it does not reach the root, it has met a
  verdict, unless a component is its own parent.\<close>

lemma dfs_correct:
  assumes "\<And>c. in_graph c \<Longrightarrow> na (Some c) = Some (g c)" "in_graph c" "Comp_id c \<notin> set V"
  shows "\<exists>st'. dfs comps parents na V (Some c) st = Some (escapes comps parents g (set V) c, st') \<and> st' \<in> insert st (verdicts g) \<and>
    ((\<forall>k. k \<notin> set (parents k)) \<and> \<not> escapes comps parents g (set V) c \<longrightarrow> st' \<in> verdicts g)"
  using assms(2,3)
proof (induction "card (dom comps - set V)" arbitrary: V c st rule: less_induct)
  case less
  note na = assms(1) [OF less.prems(1)]
  note unfold = dfs.simps [of comps parents na V "Some c" st]
  let ?V = "Comp_id c # V"
  let ?f = "\<lambda>p modified. if p \<in> set ?V then Some (False, modified) else dfs comps parents na ?V (comps p) modified"
  consider (verdict) m where "g c = Some m" | (root) "g c = None" "Comp_Root c"
    | (stuck) "g c = None" "\<not> Comp_Root c" "set (parents (Comp_id c)) \<subseteq> set V"
    | (loop) "g c = None" "\<not> Comp_Root c" "\<not> set (parents (Comp_id c)) \<subseteq> set V"
    by (cases "g c") auto
  then show ?case
  proof cases
    case verdict
    then show ?thesis using less.prems(1) by (auto simp: unfold na escapes_iff [of _ _ g _ c] verdicts_def)
  next
    case root
    then show ?thesis by (simp add: unfold na escapes.root)
  next
    case stuck
    then show ?thesis by (simp add: unfold na escapes.dead_end)
  next
    case loop
    let ?B = "\<lambda>p. p \<notin> set ?V \<and> (\<exists>d. comps p = Some d \<and> escapes comps parents g (set ?V) d)"
    let ?live = "\<lambda>p. p \<notin> set ?V \<and> (\<forall>k. k \<notin> set (parents k))"
    have "\<exists>st'. ?f p st = Some (?B p, st') \<and> st' \<in> insert st (verdicts g) \<and> (?live p \<and> \<not> ?B p \<longrightarrow> st' \<in> verdicts g)"
      if p: "p \<in> set (parents (Comp_id c))" for p st
    proof (cases "p \<in> set ?V")
      case False
      obtain d where d: "comps p = Some d"
        using parents_closed [of "Comp_id c" c p] less.prems(1) p by auto
      then have d': "in_graph d" "Comp_id d \<notin> set ?V" using comp_id [OF d] False by auto
      have "dom comps - set ?V \<subset> dom comps - set V" using less.prems by auto
      then have "card (dom comps - set ?V) < card (dom comps - set V)"
        using finite_comps by (intro psubset_card_mono) auto
      then show ?thesis using less.hyps [OF _ d', of st] False d by auto
    qed simp
    then obtain st' where st': "any_parent ?f (parents (Comp_id c)) st = Some (\<exists>p \<in> set (parents (Comp_id c)). ?B p, st')"
      "st' \<in> insert st (verdicts g)"
      "(\<exists>p \<in> set (parents (Comp_id c)). ?live p) \<and> \<not> (\<exists>p \<in> set (parents (Comp_id c)). ?B p) \<longrightarrow> st' \<in> verdicts g"
      using any_parent_total [of "parents (Comp_id c)" ?f ?B "verdicts g" ?live st] by blast
    have esc: "escapes comps parents g (set V) c \<longleftrightarrow> (\<exists>p \<in> set (parents (Comp_id c)). ?B p)"
      using loop comp_id by (subst escapes_iff) (auto simp: parent_of_def)
    have "\<exists>p \<in> set (parents (Comp_id c)). ?live p" if "\<forall>k. k \<notin> set (parents k)"
    proof -
      obtain p where "p \<in> set (parents (Comp_id c))" "p \<notin> set V" using loop(3) by blast
      moreover have "p \<noteq> Comp_id c" using calculation(1) that by metis
      ultimately show ?thesis using that by auto
    qed
    then show ?thesis
      using st' esc by (simp add: unfold na loop(1,2,3) Let_def)
  qed
qed

lemma path_in_graph: "\<lbrakk>rtrancl_path (parent_of comps parents) c ds r; d \<in> set ds\<rbrakk> \<Longrightarrow> in_graph d"
  by (induction rule: rtrancl_path.induct) (auto dest: parent_in_graph)

text \<open>An upward path without verdicts to a root suffices.\<close>

lemma path_escapes:
  assumes "rtrancl_path (parent_of comps parents) c ds r" "distinct (c # ds)" "in_graph c"
    and "\<forall>d \<in> set (c # ds). g d = None \<and> Comp_id d \<notin> V" "Comp_Root r"
  shows "escapes comps parents g V c"
  using assms
proof (induction arbitrary: V)
  case (base x)
  then show ?case by (auto intro: escapes.root)
next
  case (step x y ys z)
  have y: "in_graph y" using parent_in_graph [OF step.hyps(1)] .
  have ids: "Comp_id d \<noteq> Comp_id x" if "d \<in> set (y # ys)" for d
  proof
    assume "Comp_id d = Comp_id x"
    moreover have "in_graph d" using set_ConsD [OF that] y path_in_graph [OF step.hyps(2)] by blast
    ultimately have "d = x" using step.prems(2) by (metis option.inject)
    then show False using that step.prems(1) by simp
  qed
  have "distinct (y # ys)" using step.prems(1) by simp
  moreover have "\<forall>d \<in> set (y # ys). g d = None \<and> Comp_id d \<notin> insert (Comp_id x) V"
    using step.prems(3) ids by simp
  ultimately have "escapes comps parents g (insert (Comp_id x) V) y"
    using y step.prems(4) step.IH by blast
  then show ?case using step.hyps(1) step.prems(3) ids [of y]
    by (intro escapes.step [of g x _ _ y]) simp_all
qed

lemma clear_path:
  assumes "rtrancl_path (\<lambda>c d. parent_of comps parents c d \<and> g d = None) c ds r"
  shows "rtrancl_path (parent_of comps parents) c ds r \<and> (\<forall>d \<in> set ds. g d = None)"
  using assms by (induction rule: rtrancl_path.induct) (auto intro: rtrancl_path.intros)

lemma root_walk_escapes:
  assumes "unaffected_walk comps parents g c r" "Comp_Root r" "in_graph c"
  shows "escapes comps parents g {} c"
proof -
  obtain ds where "rtrancl_path (\<lambda>c d. parent_of comps parents c d \<and> g d = None) c ds r" "distinct (c # ds)"
    using assms(1) by (auto simp: unaffected_walk_def rtranclp_eq_rtrancl_path elim: rtrancl_path_distinct)
  then show ?thesis
    using clear_path assms by (intro path_escapes [of c ds r]) (auto simp: unaffected_walk_def)
qed

lemma escapes_walk:
  assumes "escapes comps parents g V c" "in_graph c"
  shows "\<exists>r. unaffected_walk comps parents g c r \<and> (Comp_Root r \<or>
    (\<forall>p \<in> set (parents (Comp_id r)). p \<in> V \<or>
      (\<exists>d. comps p = Some d \<and> unaffected_walk comps parents g c d \<and> unaffected_walk comps parents g d r)))"
  using assms
proof induction
  case (root c V)
  then show ?case by (auto simp: unaffected_walk_def)
next
  case (dead_end c V)
  then show ?case by (auto simp: unaffected_walk_def)
next
  case (step c d V)
  obtain r where r: "unaffected_walk comps parents g d r" and cases: "Comp_Root r \<or>
      (\<forall>p \<in> set (parents (Comp_id r)). p \<in> insert (Comp_id c) V \<or>
        (\<exists>e. comps p = Some e \<and> unaffected_walk comps parents g d e \<and> unaffected_walk comps parents g e r))"
    using step.IH parent_in_graph [OF step.hyps(2)] by blast
  have ext: "unaffected_walk comps parents g c e" if "unaffected_walk comps parents g d e" for e
    using that step.hyps(1,2) by (auto simp: unaffected_walk_def intro: converse_rtranclp_into_rtranclp)
  have "unaffected_walk comps parents g c c" using step.hyps(1) by (simp add: unaffected_walk_def)
  then show ?case using ext [OF r] cases ext step.prems by fastforce
qed

end

context component_graph
begin

lemma reachRoot_correct:
  assumes "in_graph leaf" "\<And>c. in_graph c \<Longrightarrow> na (Some c) (Some leaf) = Some (g c)" "na (Some leaf) None = Some m0"
  shows "\<exists>st. reachRoot leaf comps parents na = Some (m0 = None \<and> escapes comps parents g {} leaf, st) \<and>
    ((\<forall>k. k \<notin> set (parents k)) \<and> \<not> (m0 = None \<and> escapes comps parents g {} leaf) \<longrightarrow>
      st \<noteq> None \<and> (st = m0 \<or> st \<in> verdicts g))"
proof (cases m0)
  case None
  obtain st where "dfs comps parents (\<lambda>c. na c (Some leaf)) [] (Some leaf) None = Some (escapes comps parents g {} leaf, st)"
    "(\<forall>k. k \<notin> set (parents k)) \<and> \<not> escapes comps parents g {} leaf \<longrightarrow> st \<in> verdicts g"
    using dfs_correct [of "\<lambda>c. na c (Some leaf)" g leaf "[]" None, OF assms(2,1)] by auto
  then show ?thesis using None assms(3) by (auto simp: reachRoot_def verdicts_def)
next
  case (Some m)
  then show ?thesis using assms(3) by (simp add: reachRoot_def)
qed

text \<open>What the result of the search means for the walks of the graph.\<close>

lemma reachRoot_walks:
  assumes "in_graph leaf" "\<And>c. in_graph c \<Longrightarrow> na (Some c) (Some leaf) = Some (g c)" "na (Some leaf) None = Some m0"
  shows "\<exists>reached modified. reachRoot leaf comps parents na = Some (reached, modified) \<and>
    (m0 = None \<and> (\<exists>r. unaffected_walk comps parents g leaf r \<and> Comp_Root r) \<longrightarrow> reached) \<and>
    (reached \<longrightarrow> m0 = None \<and> (\<exists>r. unaffected_walk comps parents g leaf r \<and> (Comp_Root r \<or>
       (\<forall>p \<in> set (parents (Comp_id r)). \<exists>d. comps p = Some d \<and> unaffected_walk comps parents g d r)))) \<and>
    (\<not> reached \<and> (\<forall>k. k \<notin> set (parents k)) \<longrightarrow>
       (\<exists>m. modified = Some m \<and> (m0 = Some m \<or> (\<exists>c. in_graph c \<and> g c = Some m))))"
proof -
  obtain st where st: "reachRoot leaf comps parents na = Some (m0 = None \<and> escapes comps parents g {} leaf, st)"
    "(\<forall>k. k \<notin> set (parents k)) \<and> \<not> (m0 = None \<and> escapes comps parents g {} leaf) \<longrightarrow> st \<noteq> None \<and> (st = m0 \<or> st \<in> verdicts g)"
    using reachRoot_correct [of leaf na g m0, OF assms] by blast
  have "escapes comps parents g {} leaf \<Longrightarrow> \<exists>r. unaffected_walk comps parents g leaf r \<and> (Comp_Root r \<or>
       (\<forall>p \<in> set (parents (Comp_id r)). \<exists>d. comps p = Some d \<and> unaffected_walk comps parents g d r))"
    using escapes_walk [OF _ assms(1)] by (metis empty_iff)
  moreover have "unaffected_walk comps parents g leaf r \<Longrightarrow> Comp_Root r \<Longrightarrow> escapes comps parents g {} leaf" for r
    by (rule root_walk_escapes [OF _ _ assms(1)])
  moreover have "\<exists>m. st = Some m \<and> (m0 = Some m \<or> (\<exists>c. in_graph c \<and> g c = Some m))"
    if "(\<forall>k. k \<notin> set (parents k))" "\<not> (m0 = None \<and> escapes comps parents g {} leaf)"
    using st(2) that by (auto simp: verdicts_def)
  ultimately show ?thesis using st(1) by blast
qed

end

text \<open>C18. The search from a component up to the root always returns. The root counts as reached when a walk upwards leads to
  a root without meeting a verdict, and then only when such a walk leads to a root or to a component whose parents all
  lie on a cycle with it. When it is not reached, a verdict on the way is the result, unless some component
  is its own parent.\<close>

theorem reachRoot_spec:
  assumes "component_graph comps parents" "comps (Comp_id leaf) = Some leaf"
    and "\<And>c. comps (Comp_id c) = Some c \<Longrightarrow> na (Some c) (Some leaf) = Some (g c)" "na (Some leaf) None = Some m0"
  shows "\<exists>reached modified. reachRoot leaf comps parents na = Some (reached, modified) \<and>
    (m0 = None \<and> (\<exists>r. unaffected_walk comps parents g leaf r \<and> Comp_Root r) \<longrightarrow> reached) \<and>
    (reached \<longrightarrow> m0 = None \<and> (\<exists>r. unaffected_walk comps parents g leaf r \<and> (Comp_Root r \<or>
       (\<forall>p \<in> set (parents (Comp_id r)). \<exists>d. comps p = Some d \<and> unaffected_walk comps parents g d r)))) \<and>
    (\<not> reached \<and> (\<forall>k. k \<notin> set (parents k)) \<longrightarrow>
       (\<exists>m. modified = Some m \<and> (m0 = Some m \<or> (\<exists>c. comps (Comp_id c) = Some c \<and> g c = Some m))))"
  by (rule component_graph.reachRoot_walks [OF assms(1), of leaf na g m0, OF assms(2-)])

section \<open>The BOM of the filter\<close>

lemma bom_ok_graph:
  assumes "bom_ok b"
  shows "component_graph (comp_of b) (lookup_list (BOM_parents b))"
proof
  fix k c p
  show "comp_of b k = Some c \<Longrightarrow> Comp_id c = k" using assms by (simp add: bom_ok_def)
  assume "p \<in> parents_of b k"
  then have "lookup_list (BOM_relationships b) p \<noteq> []" using assms by (auto simp: bom_ok_def)
  then obtain rs where "map_of (BOM_relationships b) p = Some rs" by (auto simp: lookup_list_def split: option.splits)
  then show "comp_of b p \<noteq> None" using assms unfolding bom_ok_def by blast
qed (simp add: finite_dom_map_of)

text \<open>The BOM that the filter encodes; the empty one when the encoding fails.\<close>

definition filter_bom :: "encode_env \<Rightarrow> nat \<Rightarrow> Report \<Rightarrow> BOM" where
  "filter_bom env n report =
     (case Encode env vex_encoder n report of Some (Inr ((b, _), _)) \<Rightarrow> b | _ \<Rightarrow> NewBOM (bomOpts vex_encoder))"

lemma filter_bom_ok: "bom_ok (filter_bom env n report) \<and> BOM_opts (filter_bom env n report) = bomOpts vex_encoder"
proof -
  have "bom_ok b \<and> BOM_opts b = bomOpts vex_encoder" if "Encode env vex_encoder n report = Some (Inr ((b, n'), report'))" for b n' report'
    using that
  proof (rule Encode_extends)
    fix s1 s2 root1
    assume "bom_ok (fst s1)" "BOM_opts (fst s1) = bomOpts vex_encoder" "extends (core_env env) s1 s2" "extends (core_env env) s2 (b, n')"
    then show ?thesis by (simp add: extends_def)
  qed (simp add: vex_encoder_def)
  then show ?thesis
    using bom_ok_NewBOM by (auto simp: filter_bom_def NewBOM_def split: option.splits sum.splits)
qed

interpretation filter_graph: component_graph "comp_of (filter_bom env n report)" "lookup_list (BOM_parents (filter_bom env n report))"
  for env n report
  by (rule bom_ok_graph) (simp add: filter_bom_ok)

section \<open>Verdicts\<close>

text \<open>Documents on which no method panics: the pointers are not nil, and neither are the entries and the product tree of
  a CSAF advisory or the SBOM of a CycloneDX document.\<close>

definition csaf_ok :: "CSAF \<Rightarrow> bool" where
  "csaf_ok v \<longleftrightarrow> CA_ProductTree (CSAF_advisory v) \<noteq> None \<and>
     (\<forall>vs. CA_Vulnerabilities (CSAF_advisory v) = Some vs \<longrightarrow>
        (\<forall>x \<in> set vs. \<exists>vuln. x = Some vuln \<and> None \<notin> set (Threats vuln)))"

fun doc_ok :: "Document \<Rightarrow> bool" where
  "doc_ok (DocOpenVEX v) = (v \<noteq> None)"
| "doc_ok (DocCSAF v) = (\<exists>x. v = Some x \<and> csaf_ok x)"
| "doc_ok (DocCycloneDX v) = (\<exists>x. v = Some x \<and> CD_sbom x \<noteq> None)"

fun vex_ok :: "vex_env \<Rightarrow> VEX \<Rightarrow> bool" where
  "vex_ok env (VDocument d) = doc_ok d"
| "vex_ok env (VRepositorySet ixs) =
     (\<forall>ix \<in> set ixs. \<forall>entry \<in> snd ` set (Ix_Packages (RI_Index ix)). \<forall>source d.
        OpenDocument env source (path_Dir env (Ix_Path (RI_Index ix))) entry = Inr d \<longrightarrow> doc_ok d)"
| "vex_ok env (VSBOMReferenceSet docs) = (\<exists>ds. docs = Some ds \<and> (\<forall>d \<in> set ds. doc_ok d))"

lemma find_ptr_total: "None \<notin> set xs \<Longrightarrow> find_ptr P xs \<noteq> None"
  by (induction P xs rule: find_ptr.induct) auto

lemma find_ptr_in: "find_ptr P xs = Some (Some x) \<Longrightarrow> Some x \<in> set xs"
  by (induction P xs rule: find_ptr.induct) (auto split: if_splits)

lemma inspect_total: "CA_ProductTree (CSAF_advisory v) \<noteq> None \<Longrightarrow> inspect_relationships env v p rels \<noteq> None"
  by (induction env v p rels rule: inspect_relationships.induct)
     (auto simp: productPURLs_def split: option.splits)

lemma match_products_total:
  assumes "CA_ProductTree (CSAF_advisory v) \<noteq> None"
  shows "match_products env v c sub ps \<noteq> None"
proof (induction ps)
  case (Cons p ps)
  have "matchProduct env v (from_ptr p) c \<noteq> None" using assms by (auto simp: matchProduct_def productPURLs_def)
  moreover have "matchRelationship env v (from_ptr p) c sub \<noteq> None"
    using assms inspect_total [OF assms] by (auto simp: matchRelationship_def inspectProductRelationships_def split: option.splits)
  ultimately show ?case using Cons.IH by auto
qed simp

lemma match_status_total:
  assumes "CA_ProductTree (CSAF_advisory v) \<noteq> None"
  shows "match_status env v c sub sts \<noteq> None"
proof (induction sts)
  case (Cons st sts)
  obtain m where "match_products env v c sub (snd st) = Some m" using match_products_total [OF assms] by blast
  then show ?case using Cons.IH by (cases st) auto
qed simp

lemma CSAF_total: "csaf_ok v \<Longrightarrow> CSAF_NotAffected env (Some v) vuln p sub \<noteq> None"
proof -
  assume ok: "csaf_ok v"
  let ?vs = "case CA_Vulnerabilities (CSAF_advisory v) of Some vs \<Rightarrow> vs | None \<Rightarrow> []"
  let ?P = "\<lambda>item. CVE item = Some (DV_VulnerabilityID vuln)"
  have vs: "\<forall>x \<in> set ?vs. \<exists>item. x = Some item \<and> None \<notin> set (Threats item)"
    using ok by (cases "CA_Vulnerabilities (CSAF_advisory v)") (auto simp: csaf_ok_def)
  then have "find_ptr ?P ?vs \<noteq> None" by (intro find_ptr_total) auto
  then obtain found where found: "find_ptr ?P ?vs = Some found" by blast
  show ?thesis
  proof (cases found)
    case None
    then show ?thesis using found by (simp add: CSAF_NotAffected_def)
  next
    case (Some item)
    then have "CSAF_statement item \<noteq> None"
      using find_ptr_in [of ?P ?vs item] found vs find_ptr_total [of "Threats item"] by (auto simp: CSAF_statement_def)
    moreover have "CSAF_match env v item p sub \<noteq> None"
      using match_status_total [of v] ok by (auto simp: CSAF_match_def csaf_ok_def split: option.splits)
    ultimately show ?thesis using found Some by (auto simp: CSAF_NotAffected_def)
  qed
qed

lemma match_affects_total: "CD_sbom v \<noteq> None \<Longrightarrow> match_affects env v stmt vuln (Some c) affects \<noteq> None"
  by (induction env v stmt vuln "Some c" affects rule: match_affects.induct) (auto split: sum.splits)

lemma Document_total: "doc_ok d \<Longrightarrow> Document_NotAffected env d vuln (Some c) sub \<noteq> None"
proof (induction d rule: doc_ok.induct)
  case (1 v)
  then show ?case by (auto simp: OpenVEX_NotAffected_def OpenVEX_Matches_def Let_def split: option.splits list.splits)
next
  case (2 v)
  then show ?case using CSAF_total by auto
next
  case (3 v)
  then show ?case using match_affects_total by (auto simp: CycloneDX_NotAffected_def split: option.splits)
qed

lemma first_verdict_total: "(\<And>x. x \<in> set xs \<Longrightarrow> f x \<noteq> None) \<Longrightarrow> first_verdict f xs \<noteq> None"
proof (induction xs)
  case (Cons x xs)
  obtain v where "f x = Some v" using Cons.prems [of x] by auto
  then show ?case using Cons by (cases v) auto
qed simp

lemma VEX_total: "vex_ok env v \<Longrightarrow> VEX_NotAffected env v vuln (Some c) sub \<noteq> None"
proof (induction env v rule: vex_ok.induct)
  case (1 env d)
  then show ?case using Document_total by simp
next
  case (2 env ixs)
  show ?case
  proof (cases "component_PURL (Some c)")
    case (Some purl)
    let ?id = "purl_str (core_env (enc_env env)) (index_PURL purl)"
    show ?thesis
    proof (cases "find (\<lambda>ix. map_of (Ix_Packages (RI_Index ix)) ?id \<noteq> None) ixs")
      case (Some ix)
      then obtain entry where "ix \<in> set ixs" "map_of (Ix_Packages (RI_Index ix)) ?id = Some entry"
        by (auto simp: find_Some_iff)
      moreover from this have "entry \<in> snd ` set (Ix_Packages (RI_Index ix))" by (force dest: map_of_SomeD)
      ultimately show ?thesis
        using 2 Document_total \<open>component_PURL (Some c) = Some purl\<close> Some
        by (auto simp: RepositorySet_NotAffected_def Let_def split: sum.splits)
    qed (simp add: RepositorySet_NotAffected_def \<open>component_PURL (Some c) = Some purl\<close>)
  qed (simp add: RepositorySet_NotAffected_def)
next
  case (3 env docs)
  then obtain ds where "docs = Some ds" "\<forall>d \<in> set ds. doc_ok d" by auto
  then show ?case
    using first_verdict_total [of ds "\<lambda>d. Document_NotAffected env d vuln (Some c) sub"] Document_total by auto
qed

lemma Client_total: "\<forall>v \<in> set client. vex_ok env v \<Longrightarrow> Client_NotAffected env client vuln (Some c) sub \<noteq> None"
  unfolding Client_NotAffected_def using VEX_total by (intro first_verdict_total) blast

text \<open>A verdict is about the vulnerability, and says that it does not affect the product or is fixed.\<close>

definition verdict_on :: "DetectedVulnerability \<Rightarrow> ModifiedFinding \<Rightarrow> bool" where
  "verdict_on vuln m \<longleftrightarrow>
     MF_Finding m = FVulnerability vuln \<and> (MF_Status m = FindingStatusNotAffected \<or> MF_Status m = FindingStatusFixed)"

lemma match_status_in: "match_status env v c sub sts = Some st \<Longrightarrow> st = [] \<or> st \<in> fst ` set sts"
  by (induction sts) (auto simp: Option.bind_eq_Some_conv split: if_splits)

lemma Document_verdict:
  assumes "is_range (range_status env)" "Document_NotAffected env d vuln p sub = Some (Some m)"
  shows "verdict_on vuln m"
proof (cases d)
  case (DocOpenVEX v)
  then show ?thesis using assms(2)
    by (auto simp: OpenVEX_NotAffected_def findingStatus_def verdict_on_def NewModifiedFinding_def Let_def
        split: option.splits list.splits if_splits)
next
  case (DocCSAF v)
  then obtain item x status where "CSAF_match env x item p sub = Some status" "status \<noteq> []"
    "m = NewModifiedFinding (FVulnerability vuln) status (the (CSAF_statement item)) (CSAF_source x)"
    using assms(2) by (auto simp: CSAF_NotAffected_def Option.bind_eq_Some_conv split: option.splits if_splits)
  then show ?thesis
    using match_status_in is_range_set [OF assms(1)]
    by (fastforce simp: CSAF_match_def verdict_on_def NewModifiedFinding_def split: option.splits)
next
  case (DocCycloneDX v)
  have "verdict_on vuln m" if "match_affects env v stmt vuln p affects = Some (Some m)" for v stmt affects
    using that
    by (induction affects) (auto simp: Option.bind_eq_Some_conv verdict_on_def NewModifiedFinding_def split: if_splits sum.splits)
  then show ?thesis using DocCycloneDX assms(2)
    by (auto simp: CycloneDX_NotAffected_def Option.bind_eq_Some_conv split: option.splits)
qed

lemma first_verdict_some: "first_verdict f xs = Some (Some m) \<Longrightarrow> \<exists>x \<in> set xs. f x = Some (Some m)"
  by (induction xs) (auto simp: Option.bind_eq_Some_conv split: option.splits)

lemma Client_verdict:
  assumes "is_range (range_status env)" "Client_NotAffected env client vuln p sub = Some (Some m)"
  shows "verdict_on vuln m"
proof -
  obtain v where "VEX_NotAffected env v vuln p sub = Some (Some m)"
    using first_verdict_some assms(2) by (fastforce simp: Client_NotAffected_def)
  then show ?thesis
  proof (cases v)
    case (VDocument d)
    then show ?thesis using Document_verdict [OF assms(1)] \<open>VEX_NotAffected env v vuln p sub = Some (Some m)\<close> by simp
  next
    case (VRepositorySet ixs)
    then show ?thesis using Document_verdict [OF assms(1)] \<open>VEX_NotAffected env v vuln p sub = Some (Some m)\<close>
      by (auto simp: RepositorySet_NotAffected_def Let_def split: option.splits sum.splits)
  next
    case (VSBOMReferenceSet docs)
    then show ?thesis
      using first_verdict_some Document_verdict [OF assms(1)] \<open>VEX_NotAffected env v vuln p sub = Some (Some m)\<close>
      by (fastforce simp: Option.bind_eq_Some_conv)
  qed
qed

section \<open>The filter\<close>

text \<open>The outcome of the search for the component of a vulnerability.\<close>

definition outcome ::
    "(UUID \<Rightarrow> Component option) \<Rightarrow> (UUID \<Rightarrow> UUID list) \<Rightarrow> (string \<Rightarrow> Component option) \<Rightarrow>
      (DetectedVulnerability \<Rightarrow> Component option \<Rightarrow> Component option \<Rightarrow> verdict option) \<Rightarrow>
      DetectedVulnerability \<Rightarrow> bool \<times> verdict" where
  "outcome comps parents by_uid fn v =
     (case by_uid (Id_UID (DV_PkgIdentifier v)) of
        None \<Rightarrow> (True, None)
      | Some c \<Rightarrow> the (reachRoot c comps parents (fn v)))"

definition modified_of :: "verdict \<Rightarrow> ModifiedFinding" where
  "modified_of m = (case m of Some x \<Rightarrow> x | None \<Rightarrow> ModifiedFinding_zero)"

context component_graph
begin

lemma filter_loop_eq:
  assumes "\<And>v c sub. fn v (Some c) sub \<noteq> None" "\<And>u c. by_uid u = Some c \<Longrightarrow> in_graph c"
  shows "filter_loop comps parents by_uid fn vulns =
    Some (filter (\<lambda>v. fst (outcome comps parents by_uid fn v)) vulns,
          map (\<lambda>v. modified_of (snd (outcome comps parents by_uid fn v))) (filter (\<lambda>v. \<not> fst (outcome comps parents by_uid fn v)) vulns))"
proof (induction vulns)
  case (Cons v vulns)
  show ?case
  proof (cases "by_uid (Id_UID (DV_PkgIdentifier v))")
    case None
    then show ?thesis using Cons.IH by (simp add: outcome_def)
  next
    case (Some c)
    obtain m0 where m0: "fn v (Some c) None = Some m0" using assms(1) by blast
    have "fn v (Some d) (Some c) = Some (the (fn v (Some d) (Some c)))" for d using assms(1) by simp
    then obtain b st where "reachRoot c comps parents (fn v) = Some (b, st)"
      using reachRoot_correct [of c "fn v" "\<lambda>d. the (fn v (Some d) (Some c))" m0, OF assms(2) [OF Some] _ m0] by blast
    then show ?thesis using Cons.IH Some by (simp add: outcome_def modified_of_def)
  qed
qed simp

end

text \<open>The components that the filter finds by UID are those of the BOM.\<close>

lemma fold_update_in:
  "map_of (fold (\<lambda>(_, c) m. AList.update (f c) c m) xs m) u = Some c \<Longrightarrow> (c \<in> snd ` set xs \<and> f c = u) \<or> map_of m u = Some c"
proof (induction xs arbitrary: m)
  case (Cons x xs)
  obtain k d where x: "x = (k, d)" by force
  from Cons.prems have "map_of (fold (\<lambda>(_, c) m. AList.update (f c) c m) xs (AList.update (f d) d m)) u = Some c" by (simp add: x)
  from Cons.IH [OF this] show ?case by (auto simp: x update_conv' split: if_splits)
qed simp

lemma components_by_UID_in:
  assumes "bom_ok b" "\<not> GenerateBOMRef (BOM_opts b)" "is_range (range_comps (enc_env env))" "map_of (components_by_UID env b) u = Some c"
  shows "comp_of b (Comp_id c) = Some c \<and> Id_UID (Comp_PkgIdentifier c) = u"
proof -
  have "c \<in> snd ` set (BOM_components b)" "Id_UID (Comp_PkgIdentifier c) = u"
    using fold_update_in [of "\<lambda>c. Id_UID (Comp_PkgIdentifier c)"] assms(2,4) is_range_set [OF assms(3)]
    by (fastforce simp: components_by_UID_def Components_def)+
  moreover obtain k where "comp_of b k = Some c"
    using calculation(1) assms(1) by (auto simp: bom_ok_def)
  moreover have "Comp_id c = k" using calculation(3) assms(1) by (simp add: bom_ok_def)
  ultimately show ?thesis by simp
qed

lemma encodeResult_keep [simp]:
  "Res_Vulnerabilities (snd (encodeResult env s root md r)) = Res_Vulnerabilities r"
  "Res_ModifiedFindings (snd (encodeResult env s root md r)) = Res_ModifiedFindings r"
  by (simp_all add: encodeResult_def encodePackages_def Let_def split_beta)

lemma encode_results_keep:
  "map Res_Vulnerabilities (snd (encode_results env s root md rs)) = map Res_Vulnerabilities rs \<and>
   map Res_ModifiedFindings (snd (encode_results env s root md rs)) = map Res_ModifiedFindings rs"
proof (induction rs arbitrary: s)
  case (Cons r rs)
  show ?case using Cons.IH [of "fst (encodeResult env s root md r)"] by (simp add: split_beta Let_def)
qed simp

lemma Encode_keep:
  assumes "Encode env vex_encoder n report = Some (Inr (s, report1))"
  shows "map Res_Vulnerabilities (Rep_Results report1) = map Res_Vulnerabilities (Rep_Results report) \<and>
    map Res_ModifiedFindings (Rep_Results report1) = map Res_ModifiedFindings (Rep_Results report)"
  using assms
  by (cases "Rep_BOM report"; cases "rootComponent env report")
     (auto simp: Encode_def vex_encoder_def Let_def split_beta encode_results_keep split: sum.splits)

text \<open>The filter on one result, in terms of the outcomes.\<close>

abbreviation client_outcome :: "vex_env \<Rightarrow> BOM \<Rightarrow> VEX list \<Rightarrow> DetectedVulnerability \<Rightarrow> bool \<times> verdict" where
  "client_outcome env b client \<equiv>
     outcome (comp_of b) (lookup_list (BOM_parents b)) (map_of (components_by_UID env b)) (Client_NotAffected env client)"

definition filtered_result :: "vex_env \<Rightarrow> BOM \<Rightarrow> VEX list \<Rightarrow> Result \<Rightarrow> Result" where
  "filtered_result env b client r = r\<lparr>
     Res_Vulnerabilities := filter (\<lambda>v. fst (client_outcome env b client v)) (Res_Vulnerabilities r),
     Res_ModifiedFindings := Res_ModifiedFindings r @
       map (\<lambda>v. modified_of (snd (client_outcome env b client v))) (filter (\<lambda>v. \<not> fst (client_outcome env b client v)) (Res_Vulnerabilities r))\<rparr>"

lemma filter_results_eq:
  assumes "bom_ok b" "\<not> GenerateBOMRef (BOM_opts b)" "is_range (range_comps (enc_env env))" "\<forall>v \<in> set client. vex_ok env v"
  shows "vex_filter_results env b (Client_NotAffected env client) rs = Some (map (filtered_result env b client) rs)"
proof (induction rs)
  case (Cons r rs)
  have "filter_loop (comp_of b) (lookup_list (BOM_parents b)) (map_of (components_by_UID env b)) (Client_NotAffected env client) vulns =
    Some (filter (\<lambda>v. fst (client_outcome env b client v)) vulns,
      map (\<lambda>v. modified_of (snd (client_outcome env b client v))) (filter (\<lambda>v. \<not> fst (client_outcome env b client v)) vulns))" for vulns
    using component_graph.filter_loop_eq [OF bom_ok_graph [OF assms(1)]] Client_total [OF assms(4)] components_by_UID_in [OF assms(1-3)]
    by blast
  then show ?case using Cons.IH assms(2) by (simp add: vex_filterVulnerabilities_def Components_def filtered_result_def)
qed simp

text \<open>The steps of a run with sources.\<close>

lemma vex_Filter_steps:
  assumes "vex_New env report opts = Some (Inr (Some client))" "\<forall>v \<in> set client. vex_ok env v" "is_range (range_comps (enc_env env))"
  shows "vex_Filter env n report opts = Option.bind (Encode (enc_env env) vex_encoder n report) (\<lambda>r. Some (
    case r of
      Inl e \<Rightarrow> Inl (Wrapf ''unable to encode the SBOM: %w'' [] e)
    | Inr (_, report1) \<Rightarrow>
        Inr (report1\<lparr>Rep_Results := map (filtered_result env (filter_bom (enc_env env) n report) client) (Rep_Results report1)\<rparr>)))"
proof (cases "Encode (enc_env env) vex_encoder n report")
  case (Some x)
  show ?thesis
  proof (cases x)
    case (Inr y)
    obtain b n' report1 where y: "y = ((b, n'), report1)" by (metis surj_pair)
    have b: "filter_bom (enc_env env) n report = b" by (simp add: filter_bom_def Some Inr y)
    have "bom_ok b" "\<not> GenerateBOMRef (BOM_opts b)"
      using filter_bom_ok [of "enc_env env" n report] by (simp_all add: b vex_encoder_def)
    from filter_results_eq [OF this assms(3,2)] show ?thesis by (simp add: vex_Filter_def assms(1) Some Inr y b)
  qed (simp add: vex_Filter_def assms(1) Some)
qed (simp add: vex_Filter_def assms(1))

lemma rootComponent_total: "rootComponent env report \<noteq> None"
proof -
  have "purlType ''oci'' = ''oci''" by code_simp
  then obtain r where "New (sbom_purl env) ''oci'' (Rep_Metadata report) Package_empty = Some r" by (simp add: New_def Let_def)
  then show ?thesis by (auto simp: rootComponent_def Let_def split: option.splits sum.splits)
qed

lemma Encode_total: "Encode env e n report \<noteq> None"
proof -
  obtain r where "rootComponent env report = Some r" using rootComponent_total by blast
  then show ?thesis
    by (cases "Rep_BOM report"; cases "forceRegenerate e"; cases r) (simp_all add: Encode_def Let_def split_beta)
qed

text \<open>The VEX filter always returns, with a report or an error, when the documents of the client are complete: the
  search for the root ends on every BOM the encoder builds, cycles included, and no pointer is nil.\<close>

theorem vex_Filter_returns:
  assumes "vex_New env report opts = Some (Inr (Some client))" "\<forall>v \<in> set client. vex_ok env v" "is_range (range_comps (enc_env env))"
  shows "\<exists>r. vex_Filter env n report opts = Some r"
  using Encode_total [of "enc_env env" vex_encoder n report] by (auto simp: vex_Filter_steps [OF assms])

text \<open>A removed vulnerability has a component from which every way to a root is closed by a verdict.\<close>

lemma outcome_removed:
  assumes "bom_ok b" "\<not> GenerateBOMRef (BOM_opts b)" "is_range (range_comps (enc_env env))" "\<forall>v \<in> set client. vex_ok env v"
    and "is_range (range_status env)" "\<not> fst (client_outcome env b client v)"
  shows "\<exists>c. comp_of b (Comp_id c) = Some c \<and> Id_UID (Comp_PkgIdentifier c) = Id_UID (DV_PkgIdentifier v) \<and>
    ((\<exists>m. Client_NotAffected env client v (Some c) None = Some (Some m)) \<or>
     (\<nexists>r. Comp_Root r \<and> unaffected_walk (comp_of b) (lookup_list (BOM_parents b))
        (\<lambda>d. the (Client_NotAffected env client v (Some d) (Some c))) c r)) \<and>
    ((\<forall>k. k \<notin> parents_of b k) \<longrightarrow> verdict_on v (modified_of (snd (client_outcome env b client v))))"
proof -
  let ?fn = "Client_NotAffected env client" and ?parents = "lookup_list (BOM_parents b)"
  obtain c where c: "map_of (components_by_UID env b) (Id_UID (DV_PkgIdentifier v)) = Some c"
    using assms(6) by (auto simp: outcome_def split: option.splits)
  note in_bom = components_by_UID_in [OF assms(1-3) c]
  let ?g = "\<lambda>d. the (?fn v (Some d) (Some c))"
  obtain m0 where m0: "?fn v (Some c) None = Some m0" using Client_total [OF assms(4)] by blast
  have g: "?fn v (Some d) (Some c) = Some (?g d)" for d using Client_total [OF assms(4), of v d "Some c"] by auto
  obtain reached st where st: "reachRoot c (comp_of b) ?parents (?fn v) = Some (reached, st)"
    "m0 = None \<and> (\<exists>r. unaffected_walk (comp_of b) ?parents ?g c r \<and> Comp_Root r) \<longrightarrow> reached"
    "\<not> reached \<and> (\<forall>k. k \<notin> parents_of b k) \<longrightarrow>
       (\<exists>m. st = Some m \<and> (m0 = Some m \<or> (\<exists>c. comp_of b (Comp_id c) = Some c \<and> ?g c = Some m)))"
    using component_graph.reachRoot_walks [OF bom_ok_graph [OF assms(1)], of c "?fn v" ?g m0, OF conjunct1 [OF in_bom] g m0] by blast
  have out: "client_outcome env b client v = (reached, st)" by (simp add: outcome_def c st(1))
  have "verdict_on v m" if "m0 = Some m \<or> ?g d = Some m" for m d
    using that Client_verdict [OF assms(5)] m0 g [of d] by auto
  then have "\<exists>m. st = Some m \<and> verdict_on v m" if "\<forall>k. k \<notin> parents_of b k"
    using st(3) assms(6) that unfolding out fst_conv by blast
  then have "verdict_on v (modified_of st)" if "\<forall>k. k \<notin> parents_of b k"
    using that by (auto simp: modified_of_def)
  then show ?thesis using in_bom st(2) assms(6) m0 by (cases m0) (auto simp: out)
qed

text \<open>C10. The VEX filter removes a vulnerability only with a reason: a VEX source clears the component of its package by
  itself, or every way from that component up to a root of the BOM passes a component for which a source clears it.
  Provided no component is its own parent, the removed vulnerability is recorded with the verdict.\<close>

theorem vex_Filter_removed:
  assumes "vex_New env report opts = Some (Inr (Some client))" "\<forall>v \<in> set client. vex_ok env v"
    and "is_range (range_comps (enc_env env))" "is_range (range_status env)"
    and "vex_Filter env n report opts = Some (Inr report')"
    and "i < length (Rep_Results report)" "v \<in> set (Res_Vulnerabilities (Rep_Results report ! i))"
    and "v \<notin> set (Res_Vulnerabilities (Rep_Results report' ! i))"
  defines "b \<equiv> filter_bom (enc_env env) n report"
  shows "\<exists>c. comp_of b (Comp_id c) = Some c \<and> Id_UID (Comp_PkgIdentifier c) = Id_UID (DV_PkgIdentifier v) \<and>
    ((\<exists>m. Client_NotAffected env client v (Some c) None = Some (Some m)) \<or>
     (\<nexists>r. Comp_Root r \<and> unaffected_walk (comp_of b) (lookup_list (BOM_parents b))
        (\<lambda>d. the (Client_NotAffected env client v (Some d) (Some c))) c r)) \<and>
    ((\<forall>k. k \<notin> parents_of b k) \<longrightarrow> (\<exists>m \<in> set (Res_ModifiedFindings (Rep_Results report' ! i)). verdict_on v m))"
proof -
  obtain x where x: "Encode (enc_env env) vex_encoder n report = Some x" using Encode_total by blast
  then obtain s report1 where enc: "Encode (enc_env env) vex_encoder n report = Some (Inr (s, report1))"
    using assms(5) unfolding vex_Filter_steps [OF assms(1-3)] by (cases x) auto
  have report': "Rep_Results report' = map (filtered_result env b client) (Rep_Results report1)"
    using assms(5) unfolding vex_Filter_steps [OF assms(1-3)] enc b_def by auto
  have keep: "map Res_Vulnerabilities (Rep_Results report1) = map Res_Vulnerabilities (Rep_Results report)" using Encode_keep [OF enc] by blast
  have i: "i < length (Rep_Results report1)" using map_eq_imp_length_eq [OF keep] assms(6) by simp
  have v: "v \<in> set (Res_Vulnerabilities (Rep_Results report1 ! i))"
    using arg_cong [OF keep, of "\<lambda>xs. xs ! i"] i assms(6,7) by simp
  then have removed: "\<not> fst (client_outcome env b client v)" using assms(8) i by (auto simp: report' filtered_result_def)
  have b: "bom_ok b" "\<not> GenerateBOMRef (BOM_opts b)"
    using filter_bom_ok [of "enc_env env" n report] by (simp_all add: b_def vex_encoder_def)
  have "modified_of (snd (client_outcome env b client v)) \<in> set (Res_ModifiedFindings (Rep_Results report' ! i))"
    using v removed i by (auto simp: report' filtered_result_def)
  then show ?thesis using outcome_removed [OF b assms(3,2,4) removed] by blast
qed

section \<open>Two cases the code does not handle\<close>

lemma filter_loop_panics:
  assumes "\<And>v c sub. fn v c sub = None" "v \<in> set vulns" "by_uid (Id_UID (DV_PkgIdentifier v)) \<noteq> None"
  shows "filter_loop comps parents by_uid fn vulns = None"
  using assms(2)
proof (induction vulns)
  case (Cons w vulns)
  show ?case
  proof (cases "by_uid (Id_UID (DV_PkgIdentifier w))")
    case None
    then show ?thesis using Cons assms(3) by auto
  qed (simp add: reachRoot_def assms(1))
qed simp

lemma filter_results_panics:
  assumes "\<And>v c sub. fn v c sub = None" "r \<in> set rs" "v \<in> set (Res_Vulnerabilities r)"
    and "map_of (components_by_UID env b) (Id_UID (DV_PkgIdentifier v)) \<noteq> None"
  shows "vex_filter_results env b fn rs = None"
  using assms(2)
proof (induction rs)
  case (Cons x rs)
  show ?case
  proof (cases "x = r")
    case True
    have "vex_filterVulnerabilities env r b fn = None"
      by (simp add: vex_filterVulnerabilities_def filter_loop_panics [of fn v _ "map_of (components_by_UID env b)", OF assms(1,3,4)])
    then show ?thesis using assms(3) True by auto
  next
    case False
    then show ?thesis using Cons by (auto split: if_splits)
  qed
qed simp

text \<open>Scanning a CycloneDX SBOM that refers to no VEX document with \<open>--vex sbom-ref\<close> panics as soon as one
  vulnerability belongs to a component of the report: the nil set of documents passes the comparison with nil, because it
  is compared as an interface value, and is dereferenced by the first query.\<close>

theorem sbom_ref_without_documents_panics:
  assumes "Rep_ArtifactType report = TypeCycloneDX" "Rep_BOM report = Some bom" "parseToURLs env (BOM_externalReferences bom) = []"
    and "VO_Sources opts = [SrcSBOMReference]" "Encode (enc_env env) vex_encoder n report = Some (Inr ((b, n'), report1))"
    and "r \<in> set (Rep_Results report1)" "v \<in> set (Res_Vulnerabilities r)"
    and "map_of (components_by_UID env b) (Id_UID (DV_PkgIdentifier v)) \<noteq> None"
  shows "vex_Filter env n report opts = None"
proof -
  have "vex_New env report opts = Some (Inr (Some [VSBOMReferenceSet None]))"
    using assms(1-4) by (simp add: vex_New_def load_source_def NewSBOMReferenceSet_def wrap_err_def bind_result_def)
  moreover have "vex_filter_results env b (Client_NotAffected env [VSBOMReferenceSet None]) (Rep_Results report1) = None"
    using assms(6-8) by (intro filter_results_panics) (auto simp: Client_NotAffected_def)
  ultimately show ?thesis by (simp add: vex_Filter_def assms(5))
qed

text \<open>A component that is its own and only parent, as a package that depends on itself gives it, does not reach the
  root, although nothing was said about it: the fail-safe of the search asks for parents that were not visited before
  the component itself is marked as visited. Its vulnerabilities are removed without a verdict.\<close>

theorem self_parent_removed:
  assumes "parents (Comp_id c) = [Comp_id c]" "\<not> Comp_Root c" "na (Some c) None = Some None" "na (Some c) (Some c) = Some None"
  shows "reachRoot c comps parents na = Some (False, None)"
  using assms by (simp add: reachRoot_def dfs.simps)

section \<open>An example\<close>

declare dfs.simps [code]

definition example_openvex :: openvex_doc where
  "example_openvex = \<lparr>ov_Context = ''https://openvex.dev/ns'', ov_Matches = (\<lambda>vuln product subs.
     if vuln = ''CVE-1'' \<and> product = ''express'' \<and> subs = [''qs''] then [\<lparr>St_Status = StatusNotAffected, St_Justification = ''unused''\<rparr>] else [])\<rparr>"

definition example_vex_env :: vex_env where
  "example_vex_env = \<lparr>enc_env = example_encode_env, packageurl_FromString = (\<lambda>_. Inl (Errorf ''invalid'' [])),
     ParseBOMLink = (\<lambda>_. Inl (Errorf ''invalid'' [])), range_status = (\<lambda>xs. xs), json_BOMFormat = (\<lambda>_. None),
     json_openvex = (\<lambda>_. Inr example_openvex), json_csaf = (\<lambda>_. Inl (Errorf ''invalid'' [])),
     json_cyclonedx = (\<lambda>_. Inr []), multierror_Append = (\<lambda>_ e. e),
     os_Open = (\<lambda>_. Inr \<lparr>rd_content = [], rd_seek = None\<rparr>), os_OpenInRoot = (\<lambda>_ _. Inr \<lparr>rd_content = [], rd_seek = None\<rparr>),
     path_Dir = (\<lambda>s. s), manager_Config = (\<lambda>_. Inr []), repo_Index = (\<lambda>_. Inr None), oci_Discover = (\<lambda>_. Inr None),
     url_Scheme = (\<lambda>_. None), http_Get = (\<lambda>_. Inl (Errorf ''offline'' []))\<rparr>"

definition example_client :: "VEX list" where
  "example_client = [VDocument (DocOpenVEX (Some (newOpenVEX example_openvex ''vex.json'')))]"

abbreviation example_sources :: vex_Options where
  "example_sources \<equiv> \<lparr>VO_CacheDir = [], VO_Sources = [NewSource ''vex.json'']\<rparr>"

lemma example_New: "vex_New example_vex_env example_report example_sources = Some (Inr (Some example_client))"
  by (simp add: vex_New_def NewSource_def load_source_def NewDocument_def decodeVEX_def IsCycloneDXJSON_def with_seek_def try_OpenVEX_def
      decodeOpenVEX_def wrap_err_def bind_result_def example_vex_env_def example_openvex_def example_client_def)

lemma example_vex_env_ok:
  "is_range (range_comps (enc_env example_vex_env))" "is_range (range_status example_vex_env)" "\<forall>v \<in> set example_client. vex_ok example_vex_env v"
  by (simp_all add: example_vex_env_def example_encode_env_def example_client_def)

definition example_vex_report :: Report where
  "example_vex_report = (case vex_Filter example_vex_env 0 example_report example_sources of Some (Inr r) \<Rightarrow> r | _ \<Rightarrow> example_report)"

lemma example_vex_Filter: "vex_Filter example_vex_env 0 example_report example_sources = Some (Inr example_vex_report)"
proof -
  have "case vex_Filter example_vex_env 0 example_report example_sources of Some (Inr _) \<Rightarrow> True | _ \<Rightarrow> False" by code_simp
  then show ?thesis by (auto simp: example_vex_report_def split: option.splits sum.splits)
qed

lemma lookup_list_all: "list_all (\<lambda>(k, vs). P k vs) m \<Longrightarrow> map_of m k = Some vs \<Longrightarrow> P k vs"
  by (auto simp: list_all_iff dest: map_of_SomeD)

lemma example_no_self: "\<forall>k. k \<notin> parents_of (filter_bom example_encode_env 0 example_report) k"
proof
  fix k
  have "list_all (\<lambda>(k, ps). k \<notin> set ps) (BOM_parents (filter_bom example_encode_env 0 example_report))" by code_simp
  from lookup_list_all [OF this, of k] show "k \<notin> parents_of (filter_bom example_encode_env 0 example_report) k"
    by (cases "map_of (BOM_parents (filter_bom example_encode_env 0 example_report)) k") (simp_all add: lookup_list_def)
qed

theorem vex_Filter_returns_witness: "\<exists>r. vex_Filter example_vex_env 0 example_report example_sources = Some r"
  by (rule vex_Filter_returns [OF example_New example_vex_env_ok(3,1)])

theorem vex_Filter_removed_witness:
  "\<exists>c. Id_UID (Comp_PkgIdentifier c) = ''qs'' \<and> comp_of (filter_bom example_encode_env 0 example_report) (Comp_id c) = Some c \<and>
     (\<exists>m \<in> set (Res_ModifiedFindings (Rep_Results example_vex_report ! 0)). MF_Status m = FindingStatusNotAffected \<or> MF_Status m = FindingStatusFixed)"
proof -
  let ?b = "filter_bom example_encode_env 0 example_report"
  let ?v = "hd (Res_Vulnerabilities (Rep_Results example_report ! 0))"
  have "0 < length (Rep_Results example_report)" "?v \<in> set (Res_Vulnerabilities (Rep_Results example_report ! 0))"
    "?v \<notin> set (Res_Vulnerabilities (Rep_Results example_vex_report ! 0))" by code_simp+
  note removed = vex_Filter_removed [OF example_New example_vex_env_ok(3,1,2) example_vex_Filter this]
  have uid: "Id_UID (DV_PkgIdentifier ?v) = ''qs''" by code_simp
  note no_self = example_no_self
  have "enc_env example_vex_env = example_encode_env" by (simp add: example_vex_env_def)
  then show ?thesis using removed uid no_self unfolding verdict_on_def by metis
qed

definition qs_component :: Component where
  "qs_component = the (map_of (components_by_UID example_vex_env (filter_bom example_encode_env 0 example_report)) ''qs'')"

theorem reachRoot_spec_witness:
  "\<exists>m. reachRoot qs_component (comp_of (filter_bom example_encode_env 0 example_report)) (lookup_list (BOM_parents (filter_bom example_encode_env 0 example_report)))
     (Client_NotAffected example_vex_env example_client (hd (Res_Vulnerabilities (hd (Rep_Results example_report))))) = Some (False, Some m)"
proof -
  let ?b = "filter_bom example_encode_env 0 example_report"
  let ?na = "Client_NotAffected example_vex_env example_client (hd (Res_Vulnerabilities (hd (Rep_Results example_report))))"
  have "comp_of ?b (Comp_id qs_component) = Some qs_component" by code_simp
  moreover have "?na (Some c) (Some qs_component) = Some (the (?na (Some c) (Some qs_component)))" for c
    using Client_total [OF example_vex_env_ok(3)] by simp
  moreover have "?na (Some qs_component) None = Some (the (?na (Some qs_component) None))"
    using Client_total [OF example_vex_env_ok(3)] by simp
  ultimately obtain reached m where r: "reachRoot qs_component (comp_of ?b) (lookup_list (BOM_parents ?b)) ?na = Some (reached, m)"
    "\<not> reached \<and> (\<forall>k. k \<notin> parents_of ?b k) \<longrightarrow> m \<noteq> None"
    using reachRoot_spec [OF filter_graph.component_graph_axioms, of example_encode_env 0 example_report qs_component ?na
        "\<lambda>c. the (?na (Some c) (Some qs_component))" "the (?na (Some qs_component) None)"] by blast
  note no_self = example_no_self
  have "map_option fst (reachRoot qs_component (comp_of ?b) (lookup_list (BOM_parents ?b)) ?na) = Some False" by code_simp
  then show ?thesis using r no_self by auto
qed

text \<open>A package that depends on itself, in the report and in its BOM.\<close>

definition self_report :: Report where
  "self_report = example_report\<lparr>Rep_Results := [(hd (Rep_Results example_report))\<lparr>Res_Packages := [example_pkg ''qs'' [''qs@1'']]\<rparr>]\<rparr>"

definition self_component :: Component where
  "self_component = the (map_of (components_by_UID example_vex_env (filter_bom example_encode_env 0 self_report)) ''qs'')"

theorem self_parent_removed_witness:
  "reachRoot self_component (comp_of (filter_bom example_encode_env 0 self_report)) (lookup_list (BOM_parents (filter_bom example_encode_env 0 self_report)))
     (Client_NotAffected example_vex_env example_client (hd (Res_Vulnerabilities (hd (Rep_Results self_report))))) = Some (False, None)"
proof (rule self_parent_removed)
  show "lookup_list (BOM_parents (filter_bom example_encode_env 0 self_report)) (Comp_id self_component) = [Comp_id self_component]"
    "\<not> Comp_Root self_component" by code_simp+
  let ?na = "Client_NotAffected example_vex_env example_client (hd (Res_Vulnerabilities (hd (Rep_Results self_report))))"
  have "map_option (\<lambda>m. m = None) (?na (Some self_component) None) = Some True" "map_option (\<lambda>m. m = None) (?na (Some self_component) (Some self_component)) = Some True"
    by code_simp+
  then show "?na (Some self_component) None = Some None" "?na (Some self_component) (Some self_component) = Some None" by auto
qed

text \<open>An SBOM without references.\<close>

definition sbom_report :: Report where
  "sbom_report = example_report\<lparr>Rep_ArtifactType := TypeCycloneDX, Rep_BOM := Some (NewBOM (bomOpts vex_encoder))\<rparr>"

theorem sbom_ref_without_documents_panics_witness:
  "vex_Filter example_vex_env 0 sbom_report \<lparr>VO_CacheDir = [], VO_Sources = [SrcSBOMReference]\<rparr> = None"
proof -
  obtain x where x: "Encode (enc_env example_vex_env) vex_encoder 0 sbom_report = Some x" using Encode_total by blast
  have "case Encode (enc_env example_vex_env) vex_encoder 0 sbom_report of
      Some (Inr ((b, _), report1)) \<Rightarrow> (case Rep_Results report1 of [r] \<Rightarrow> (case Res_Vulnerabilities r of [v] \<Rightarrow>
        \<not> Option.is_none (map_of (components_by_UID example_vex_env b) (Id_UID (DV_PkgIdentifier v))) | _ \<Rightarrow> False) | _ \<Rightarrow> False)
    | _ \<Rightarrow> False" by code_simp
  then obtain b n' report1 r v where enc: "Encode (enc_env example_vex_env) vex_encoder 0 sbom_report = Some (Inr ((b, n'), report1))"
    and r: "Rep_Results report1 = [r]" "Res_Vulnerabilities r = [v]"
    and v: "map_of (components_by_UID example_vex_env b) (Id_UID (DV_PkgIdentifier v)) \<noteq> None"
    by (auto simp: x Option.is_none_def split: sum.splits list.splits)
  have "Rep_BOM sbom_report = Some (NewBOM (bomOpts vex_encoder))" "Rep_ArtifactType sbom_report = TypeCycloneDX"
    by (simp_all add: sbom_report_def)
  moreover have "parseToURLs example_vex_env (BOM_externalReferences (NewBOM (bomOpts vex_encoder))) = []"
    by (simp add: parseToURLs_def NewBOM_def)
  moreover have "r \<in> set (Rep_Results report1)" "v \<in> set (Res_Vulnerabilities r)" by (simp_all add: r)
  ultimately show ?thesis using sbom_ref_without_documents_panics [OF _ _ _ _ enc _ _ v] by simp
qed

end
