(* ===== verification/Result_Filter.thy ===== *)
theory Result_Filter
  imports Ignore Vex
begin

text \<open>
  Filtering of the scan results, \<open>pkg/result/filter.go\<close>: by severity, status, ignore file and a Rego
  policy, with the removal of duplicate vulnerabilities.

  The Rego engine is a field of \<open>filter_env\<close>: the value of the query for a finding, \<^term>\<open>None\<close> standing for an
  undefined result. \<open>range_vulns\<close> is the iteration order of the map of vulnerabilities,
  \<open>sort_severity\<close> the sort by \<open>BySeverity\<close>, and \<open>flt_vex\<close> the environment of the VEX filter, which \<open>Filter\<close> runs
  last with the UUIDs from \<open>n\<close> on. The loop that adjusts the misconfiguration summary dereferences it without a check: \<open>adjust_summary\<close> returns \<^term>\<open>None\<close> where Go would
  panic.
\<close>

datatype rego_value = RBool bool | ROther

record filter_env =
  severity_name :: "Severity \<Rightarrow> string"
  range_vulns :: "(string \<times> DetectedVulnerability) list \<Rightarrow> (string \<times> DetectedVulnerability) list"
  sort_severity :: "DetectedVulnerability list \<Rightarrow> DetectedVulnerability list"
  read_policy :: "string \<Rightarrow> unit result"
  prepare_policy :: "string \<Rightarrow> unit result"
  rego_Eval :: "Finding \<Rightarrow> rego_value option result"
  flt_vex :: vex_env
  ign_env :: ignore_env

record FilterOptions =
  Opt_Severities :: "Severity list"
  Opt_IgnoreStatuses :: "Status list"
  Opt_IncludeNonFailures :: bool
  Opt_IgnoreFile :: string
  Opt_PolicyFile :: string
  Opt_IgnoreLicenses :: "string list"
  Opt_CacheDir :: string
  Opt_VEXSources :: "SourceType list"

section \<open>Vulnerabilities\<close>

definition shouldOverwrite :: "DetectedVulnerability \<Rightarrow> DetectedVulnerability \<Rightarrow> bool" where
  "shouldOverwrite oldVuln newVuln \<longleftrightarrow> DV_FixedVersion oldVuln < DV_FixedVersion newVuln"

definition vuln_key :: "DetectedVulnerability \<Rightarrow> string" where
  "vuln_key v = DV_VulnerabilityID v @ ''/'' @ DV_PkgID v @ ''/'' @ DV_PkgName v @ ''/'' @ DV_InstalledVersion v @ ''/'' @
     DV_PkgPath v"

definition default_severity :: "filter_env \<Rightarrow> DetectedVulnerability \<Rightarrow> DetectedVulnerability" where
  "default_severity env v =
     (if DV_Severity v = []
      then v\<lparr>DV_Vulnerability := (DV_Vulnerability v)\<lparr>V_Severity := severity_name env SeverityUnknown\<rparr>\<rparr> else v)"

fun filter_vulns_loop :: "filter_env \<Rightarrow> string \<Rightarrow> string list \<Rightarrow> Status list \<Rightarrow> IgnoreConfig \<Rightarrow>
    DetectedVulnerability list \<Rightarrow> (string \<times> DetectedVulnerability) list \<times> ModifiedFinding list \<Rightarrow>
    (string \<times> DetectedVulnerability) list \<times> ModifiedFinding list" where
  "filter_vulns_loop env target severities ignoreStatuses c [] st = st"
| "filter_vulns_loop env target severities ignoreStatuses c (vuln0 # vulns) (uniqVulns, modified) =
     (let vuln = default_severity env vuln0 in
      if DV_Severity vuln \<notin> set severities \<or> DV_Status vuln \<in> set ignoreStatuses
      then filter_vulns_loop env target severities ignoreStatuses c vulns (uniqVulns, modified)
      else
        case MatchVulnerability (ign_env env) c (DV_VulnerabilityID vuln) target (DV_PkgPath vuln)
               (Id_PURL (DV_PkgIdentifier vuln)) of
          Some f \<Rightarrow>
            filter_vulns_loop env target severities ignoreStatuses c vulns
              (uniqVulns, modified @ [NewModifiedFinding (FVulnerability vuln) FindingStatusIgnored (IF_Statement f) (IC_FilePath c)])
        | None \<Rightarrow>
            let skip = (case map_of uniqVulns (vuln_key vuln) of Some old \<Rightarrow> \<not> shouldOverwrite old vuln | None \<Rightarrow> False)
            in filter_vulns_loop env target severities ignoreStatuses c vulns
                 (if skip then uniqVulns else AList.update (vuln_key vuln) vuln uniqVulns, modified))"

definition filterVulnerabilities ::
    "filter_env \<Rightarrow> Result \<Rightarrow> string list \<Rightarrow> Status list \<Rightarrow> IgnoreConfig \<Rightarrow> Result" where
  "filterVulnerabilities env result severities ignoreStatuses c =
     (case filter_vulns_loop env (Res_Target result) severities ignoreStatuses c (Res_Vulnerabilities result)
             ([], Res_ModifiedFindings result) of
        (uniqVulns, modified) \<Rightarrow>
          result\<lparr>Res_Vulnerabilities := map snd (range_vulns env uniqVulns), Res_ModifiedFindings := modified\<rparr>)"

section \<open>Misconfigurations\<close>

definition updateMisconfSummary :: "MisconfStatus \<Rightarrow> MisconfSummary \<Rightarrow> MisconfSummary" where
  "updateMisconfSummary status summary =
     (if status = MisconfStatusFailure then summary\<lparr>Failures := Failures summary + 1\<rparr>
      else if status = MisconfStatusPassed then summary\<lparr>Successes := Successes summary + 1\<rparr>
      else summary)"

fun filter_misconfs_loop :: "filter_env \<Rightarrow> string \<Rightarrow> string list \<Rightarrow> bool \<Rightarrow> IgnoreConfig \<Rightarrow>
    DetectedMisconfiguration list \<Rightarrow> DetectedMisconfiguration list \<times> MisconfSummary \<times> ModifiedFinding list \<Rightarrow>
    DetectedMisconfiguration list \<times> MisconfSummary \<times> ModifiedFinding list" where
  "filter_misconfs_loop env target severities includeNonFailures c [] st = st"
| "filter_misconfs_loop env target severities includeNonFailures c (misconf # misconfs) (filtered, summary, modified) =
     (if DM_Severity misconf \<notin> set severities
      then filter_misconfs_loop env target severities includeNonFailures c misconfs (filtered, summary, modified)
      else
        case MatchMisconfiguration (ign_env env) c ([DM_ID misconf, DM_AVDID misconf] @ DM_Aliases misconf) target of
          Some f \<Rightarrow>
            filter_misconfs_loop env target severities includeNonFailures c misconfs
              (filtered, summary,
               modified @ [NewModifiedFinding (FMisconfiguration misconf) FindingStatusIgnored (IF_Statement f) (IC_FilePath c)])
        | None \<Rightarrow>
            filter_misconfs_loop env target severities includeNonFailures c misconfs
              (if DM_Status misconf \<noteq> MisconfStatusFailure \<and> \<not> includeNonFailures then filtered else filtered @ [misconf],
               updateMisconfSummary (DM_Status misconf) summary, modified))"

definition filterMisconfigurations :: "filter_env \<Rightarrow> Result \<Rightarrow> string list \<Rightarrow> bool \<Rightarrow> IgnoreConfig \<Rightarrow> Result" where
  "filterMisconfigurations env result severities includeNonFailures c =
     (case filter_misconfs_loop env (Res_Target result) severities includeNonFailures c (Res_Misconfigurations result)
             ([], \<lparr>Successes = 0, Failures = 0\<rparr>, Res_ModifiedFindings result) of
        (filtered, summary, modified) \<Rightarrow>
          if MisconfSummary_Empty summary
          then result\<lparr>Res_Misconfigurations := [], Res_MisconfSummary := None, Res_ModifiedFindings := modified\<rparr>
          else result\<lparr>Res_Misconfigurations := filtered, Res_MisconfSummary := Some summary, Res_ModifiedFindings := modified\<rparr>)"

section \<open>Secrets, cryptographic findings and licenses\<close>

fun filter_secrets_loop :: "filter_env \<Rightarrow> string \<Rightarrow> string list \<Rightarrow> IgnoreConfig \<Rightarrow> DetectedSecret list \<Rightarrow>
    DetectedSecret list \<times> ModifiedFinding list \<Rightarrow> DetectedSecret list \<times> ModifiedFinding list" where
  "filter_secrets_loop env target severities c [] st = st"
| "filter_secrets_loop env target severities c (secret # secrets) (filtered, modified) =
     (if SF_Severity secret \<notin> set severities
      then filter_secrets_loop env target severities c secrets (filtered, modified)
      else
        case MatchSecret (ign_env env) c (SF_RuleID secret) target of
          Some f \<Rightarrow>
            filter_secrets_loop env target severities c secrets
              (filtered, modified @ [NewModifiedFinding (FSecret secret) FindingStatusIgnored (IF_Statement f) (IC_FilePath c)])
        | None \<Rightarrow> filter_secrets_loop env target severities c secrets (filtered @ [secret], modified))"

definition filterSecrets :: "filter_env \<Rightarrow> Result \<Rightarrow> string list \<Rightarrow> IgnoreConfig \<Rightarrow> Result" where
  "filterSecrets env result severities c =
     (case filter_secrets_loop env (Res_Target result) severities c (Res_Secrets result) ([], Res_ModifiedFindings result) of
        (filtered, modified) \<Rightarrow> result\<lparr>Res_Secrets := filtered, Res_ModifiedFindings := modified\<rparr>)"

text \<open>A missing key of the map of file paths reads as the empty string.\<close>

definition filterCryptoFindings :: "filter_env \<Rightarrow> Result \<Rightarrow> string list \<Rightarrow> IgnoreConfig \<Rightarrow> Result" where
  "filterCryptoFindings env result severities c =
     (let filePaths = (if 0 < length (Res_CryptoFindings result) \<and> 0 < length (IC_Crypto c)
                       then fold (\<lambda>asset m. AList.update (Asset_ID asset) (Asset_FilePath asset) m) (Res_CryptoAssets result) []
                       else []);
          path = (\<lambda>i. case map_of filePaths i of Some p \<Rightarrow> p | None \<Rightarrow> [])
      in result\<lparr>Res_CryptoFindings :=
           filter (\<lambda>finding. Finding_Severity finding \<in> set severities \<and>
                     MatchCrypto (ign_env env) c (Finding_RuleID finding) (path (Finding_AssetID finding)) = None)
             (Res_CryptoFindings result)\<rparr>)"

fun filter_licenses_loop :: "filter_env \<Rightarrow> string list \<Rightarrow> IgnoreConfig \<Rightarrow> IgnoreConfig \<Rightarrow> DetectedLicense list \<Rightarrow>
    DetectedLicense list \<times> ModifiedFinding list \<Rightarrow> (DetectedLicense list \<times> ModifiedFinding list) option" where
  "filter_licenses_loop env severities ignoreLicenses c [] st = Some st"
| "filter_licenses_loop env severities ignoreLicenses c (l # ls) (filtered, modified) =
     (if DL_Severity l \<notin> set severities
      then filter_licenses_loop env severities ignoreLicenses c ls (filtered, modified)
      else
        Option.bind (MatchLicense (ign_env env) ignoreLicenses (DL_Name l) (DL_FilePath l)) (\<lambda>m1.
        case m1 of
          Some f \<Rightarrow>
            filter_licenses_loop env severities ignoreLicenses c ls
              (filtered, modified @ [NewModifiedFinding (FLicense l) FindingStatusIgnored [] ''--ignored-licenses''])
        | None \<Rightarrow>
            Option.bind (MatchLicense (ign_env env) c (DL_Name l) (DL_FilePath l)) (\<lambda>m2.
            case m2 of
              Some f \<Rightarrow>
                filter_licenses_loop env severities ignoreLicenses c ls
                  (filtered, modified @ [NewModifiedFinding (FLicense l) FindingStatusIgnored (IF_Statement f) (IC_FilePath c)])
            | None \<Rightarrow> filter_licenses_loop env severities ignoreLicenses c ls (filtered @ [l], modified))))"

definition filterLicenses :: "filter_env \<Rightarrow> Result \<Rightarrow> string list \<Rightarrow> string list \<Rightarrow> IgnoreConfig \<Rightarrow> Result option" where
  "filterLicenses env result severities ignoreLicenseNames c =
     (let ignoreLicenses = IgnoreConfig_empty\<lparr>IC_Licenses := map IgnoreFinding_of ignoreLicenseNames\<rparr>
      in map_option (\<lambda>(filtered, modified). result\<lparr>Res_Licenses := filtered, Res_ModifiedFindings := modified\<rparr>)
           (filter_licenses_loop env severities ignoreLicenses c (Res_Licenses result) ([], Res_ModifiedFindings result)))"

section \<open>The Rego policy\<close>

definition rego_evaluate :: "filter_env \<Rightarrow> Finding \<Rightarrow> bool result" where
  "rego_evaluate env finding =
     (case rego_Eval env finding of
        Inl e \<Rightarrow> Inl (Wrapf ''unable to evaluate the policy: %w'' [] e)
      | Inr None \<Rightarrow> Inr False
      | Inr (Some (RBool ignore)) \<Rightarrow> Inr ignore
      | Inr (Some ROther) \<Rightarrow> Inl (Errorf ''the policy must return boolean'' []))"

fun filter_rego_loop :: "filter_env \<Rightarrow> ('t \<Rightarrow> Finding) \<Rightarrow> string \<Rightarrow> 't list \<Rightarrow> 't list \<Rightarrow> ModifiedFinding list \<Rightarrow>
    ('t list \<times> ModifiedFinding list) result" where
  "filter_rego_loop env inject policyFile [] filtered modified = Inr (filtered, modified)"
| "filter_rego_loop env inject policyFile (finding # findings) filtered modified =
     bind_result (rego_evaluate env (inject finding)) (\<lambda>ignored.
       if ignored
       then filter_rego_loop env inject policyFile findings filtered
              (modified @ [NewModifiedFinding (inject finding) FindingStatusIgnored ''Filtered by Rego'' policyFile])
       else filter_rego_loop env inject policyFile findings (filtered @ [finding]) modified)"

definition filterFindingsByRego :: "filter_env \<Rightarrow> ('t \<Rightarrow> Finding) \<Rightarrow> 't list \<Rightarrow> string \<Rightarrow> ('t list \<times> ModifiedFinding list) result" where
  "filterFindingsByRego env inject findings policyFile = filter_rego_loop env inject policyFile findings [] []"

text \<open>The loop over the modified misconfigurations; \<^term>\<open>None\<close> is the panic on a nil summary.\<close>

fun adjust_summary :: "ModifiedFinding list \<Rightarrow> MisconfSummary option \<Rightarrow> MisconfSummary option option" where
  "adjust_summary [] summary = Some summary"
| "adjust_summary (m # ms) summary =
     (case MF_Finding m of
        FMisconfiguration misconf \<Rightarrow>
          if DM_Status misconf = MisconfStatusFailure then
            (case summary of None \<Rightarrow> None | Some s \<Rightarrow> adjust_summary ms (Some (s\<lparr>Failures := Failures s - 1\<rparr>)))
          else if DM_Status misconf = MisconfStatusPassed then
            (case summary of None \<Rightarrow> None | Some s \<Rightarrow> adjust_summary ms (Some (s\<lparr>Successes := Successes s - 1\<rparr>)))
          else adjust_summary ms summary
      | _ \<Rightarrow> adjust_summary ms summary)"

definition applyPolicy :: "filter_env \<Rightarrow> Result \<Rightarrow> string \<Rightarrow> Result result option" where
  "applyPolicy env result policyFile =
     (case wrap_err ''unable to read the policy file: %w'' [] (read_policy env policyFile) of
        Inl e \<Rightarrow> Some (Inl e)
      | Inr _ \<Rightarrow>
     (case wrap_err ''unable to prepare for eval: %w'' [] (prepare_policy env policyFile) of
        Inl e \<Rightarrow> Some (Inl e)
      | Inr _ \<Rightarrow>
     (case filterFindingsByRego env FVulnerability (Res_Vulnerabilities result) policyFile of
        Inl e \<Rightarrow> Some (Inl e)
      | Inr (filteredVulns, modifiedVulns) \<Rightarrow>
     (case filterFindingsByRego env FMisconfiguration (Res_Misconfigurations result) policyFile of
        Inl e \<Rightarrow> Some (Inl e)
      | Inr (filteredMisconfs, modifiedMisconfs) \<Rightarrow>
     (case adjust_summary modifiedMisconfs (Res_MisconfSummary result) of
        None \<Rightarrow> None
      | Some summary \<Rightarrow>
     (case filterFindingsByRego env FSecret (Res_Secrets result) policyFile of
        Inl e \<Rightarrow> Some (Inl e)
      | Inr (filteredSecrets, modifiedSecrets) \<Rightarrow>
     (case filterFindingsByRego env FLicense (Res_Licenses result) policyFile of
        Inl e \<Rightarrow> Some (Inl e)
      | Inr (filteredLicenses, modifiedLicenses) \<Rightarrow>
          Some (Inr (result\<lparr>Res_Vulnerabilities := filteredVulns, Res_Misconfigurations := filteredMisconfs,
            Res_MisconfSummary := summary, Res_Secrets := filteredSecrets, Res_Licenses := filteredLicenses,
            Res_ModifiedFindings := Res_ModifiedFindings result @ modifiedVulns @ modifiedMisconfs @ modifiedSecrets @
              modifiedLicenses\<rparr>)))))))))"

section \<open>The filter\<close>

text \<open>The outer option of the following functions is \<^term>\<open>None\<close> when the normalization of a license expression does
  not end or the policy loop panics.\<close>

definition FilterResult :: "filter_env \<Rightarrow> Result \<Rightarrow> IgnoreConfig \<Rightarrow> FilterOptions \<Rightarrow> Result result option" where
  "FilterResult env result ignoreConf opt =
     (let severities = map (severity_name env) (Opt_Severities opt);
          r1 = filterVulnerabilities env result severities (Opt_IgnoreStatuses opt) ignoreConf;
          r2 = filterMisconfigurations env r1 severities (Opt_IncludeNonFailures opt) ignoreConf;
          r3 = filterSecrets env r2 severities ignoreConf
      in Option.bind (filterLicenses env r3 severities (Opt_IgnoreLicenses opt) ignoreConf) (\<lambda>r4.
         let r5 = filterCryptoFindings env r4 severities ignoreConf
         in Option.bind
              (if Opt_PolicyFile opt \<noteq> []
               then map_option (wrap_err ''failed to apply the policy: %w'' [])
                      (applyPolicy env r5 (path_Clean (ign_env env) (Opt_PolicyFile opt)))
               else Some (Inr r5))
              (\<lambda>r. Some (bind_result r (\<lambda>r6. Inr (r6\<lparr>Res_Vulnerabilities := sort_severity env (Res_Vulnerabilities r6)\<rparr>))))))"

fun filter_results :: "filter_env \<Rightarrow> Result list \<Rightarrow> IgnoreConfig \<Rightarrow> FilterOptions \<Rightarrow> Result list result option" where
  "filter_results env [] ignoreConf opt = Some (Inr [])"
| "filter_results env (r # rs) ignoreConf opt =
     Option.bind (FilterResult env r ignoreConf opt) (\<lambda>x.
     case wrap_err ''unable to filter vulnerabilities: %w'' [] x of
       Inl e \<Rightarrow> Some (Inl e)
     | Inr r' \<Rightarrow> map_option (\<lambda>y. bind_result y (\<lambda>rs'. Inr (r' # rs'))) (filter_results env rs ignoreConf opt))"

definition Filter :: "filter_env \<Rightarrow> go_time \<Rightarrow> nat \<Rightarrow> Report \<Rightarrow> FilterOptions \<Rightarrow> Report result option" where
  "Filter env now n report opts =
     (case wrap_err ''%s error: %w'' [Opt_IgnoreFile opts] (ParseIgnoreFile (ign_env env) now (Opt_IgnoreFile opts)) of
        Inl e \<Rightarrow> Some (Inl e)
      | Inr ignoreConf \<Rightarrow>
          Option.bind (filter_results env (Rep_Results report) ignoreConf opts) (\<lambda>x.
          case x of
            Inl e \<Rightarrow> Some (Inl e)
          | Inr rs \<Rightarrow>
              map_option (wrap_err ''VEX error: %w'' [])
                (vex_Filter (flt_vex env) n (report\<lparr>Rep_Results := rs\<rparr>)
                   \<lparr>VO_CacheDir = Opt_CacheDir opts, VO_Sources = Opt_VEXSources opts\<rparr>)))"

section \<open>Vulnerabilities\<close>

definition vuln_selected :: "string list \<Rightarrow> Status list \<Rightarrow> DetectedVulnerability \<Rightarrow> bool" where
  "vuln_selected severities ignoreStatuses v \<longleftrightarrow> DV_Severity v \<in> set severities \<and> DV_Status v \<notin> set ignoreStatuses"

definition vuln_ignored_by ::
    "filter_env \<Rightarrow> IgnoreConfig \<Rightarrow> string \<Rightarrow> DetectedVulnerability \<Rightarrow> IgnoreFinding option" where
  "vuln_ignored_by env c target v =
     MatchVulnerability (ign_env env) c (DV_VulnerabilityID v) target (DV_PkgPath v) (Id_PURL (DV_PkgIdentifier v))"

text \<open>The vulnerabilities that take part, those the ignore file leaves, and the records of those it hits.\<close>

definition vulns_selected :: "filter_env \<Rightarrow> string list \<Rightarrow> Status list \<Rightarrow> DetectedVulnerability list \<Rightarrow> DetectedVulnerability list" where
  "vulns_selected env severities ignoreStatuses vs =
     filter (vuln_selected severities ignoreStatuses) (map (default_severity env) vs)"

definition vulns_kept :: "filter_env \<Rightarrow> string \<Rightarrow> string list \<Rightarrow> Status list \<Rightarrow> IgnoreConfig \<Rightarrow>
    DetectedVulnerability list \<Rightarrow> DetectedVulnerability list" where
  "vulns_kept env target severities ignoreStatuses c vs =
     filter (\<lambda>v. vuln_ignored_by env c target v = None) (vulns_selected env severities ignoreStatuses vs)"

definition vulns_modified :: "filter_env \<Rightarrow> string \<Rightarrow> string list \<Rightarrow> Status list \<Rightarrow> IgnoreConfig \<Rightarrow>
    DetectedVulnerability list \<Rightarrow> ModifiedFinding list" where
  "vulns_modified env target severities ignoreStatuses c vs =
     List.map_filter (\<lambda>v. map_option (\<lambda>f. NewModifiedFinding (FVulnerability v) FindingStatusIgnored (IF_Statement f) (IC_FilePath c))
                            (vuln_ignored_by env c target v))
       (vulns_selected env severities ignoreStatuses vs)"

definition put_vuln :: "DetectedVulnerability \<Rightarrow> (string \<times> DetectedVulnerability) list \<Rightarrow> (string \<times> DetectedVulnerability) list" where
  "put_vuln v m =
     (if case map_of m (vuln_key v) of Some old \<Rightarrow> \<not> shouldOverwrite old v | None \<Rightarrow> False then m
      else AList.update (vuln_key v) v m)"

lemma filter_vulns_loop_eq:
  "filter_vulns_loop env target sevs sts c vs (m, mods) =
     (fold put_vuln (vulns_kept env target sevs sts c vs) m, mods @ vulns_modified env target sevs sts c vs)"
proof (induction vs arbitrary: m mods)
  case Nil
  show ?case by (simp add: vulns_kept_def vulns_modified_def vulns_selected_def map_filter_def)
next
  case (Cons v vs)
  let ?v = "default_severity env v"
  show ?case
  proof (cases "vuln_selected sevs sts ?v")
    case False
    then have "DV_Severity ?v \<notin> set sevs \<or> DV_Status ?v \<in> set sts" by (auto simp: vuln_selected_def)
    then show ?thesis
      using Cons False by (simp add: Let_def vulns_kept_def vulns_modified_def vulns_selected_def)
  next
    case True
    then have sel: "\<not> (DV_Severity ?v \<notin> set sevs \<or> DV_Status ?v \<in> set sts)" by (auto simp: vuln_selected_def)
    show ?thesis
    proof (cases "vuln_ignored_by env c target ?v")
      case (Some f)
      then show ?thesis using Cons True sel
        by (simp add: Let_def vulns_kept_def vulns_modified_def vulns_selected_def vuln_ignored_by_def map_filter_def)
    next
      case None
      then show ?thesis using Cons True sel
        by (simp add: Let_def vulns_kept_def vulns_modified_def vulns_selected_def vuln_ignored_by_def map_filter_def put_vuln_def)
    qed
  qed
qed

text \<open>The invariant of the map: keys are those of the values, and every value seen is covered.\<close>

definition uniq_ok :: "(string \<times> DetectedVulnerability) list \<Rightarrow> DetectedVulnerability list \<Rightarrow> bool" where
  "uniq_ok m seen \<longleftrightarrow>
     map_ok m \<and> (\<forall>(k, v) \<in> set m. k = vuln_key v \<and> v \<in> set seen) \<and>
     (\<forall>w \<in> set seen. \<exists>v. map_of m (vuln_key w) = Some v \<and> DV_FixedVersion w \<le> DV_FixedVersion v)"

lemma uniq_ok_put:
  assumes "uniq_ok m seen"
  shows "uniq_ok (put_vuln v m) (seen @ [v])"
proof (cases "case map_of m (vuln_key v) of Some old \<Rightarrow> \<not> shouldOverwrite old v | None \<Rightarrow> False")
  case True
  then obtain old where "map_of m (vuln_key v) = Some old" "DV_FixedVersion v \<le> DV_FixedVersion old"
    by (auto simp: shouldOverwrite_def split: option.splits)
  then show ?thesis using assms True unfolding uniq_ok_def put_vuln_def by fastforce
next
  case False
  let ?m = "AList.update (vuln_key v) v m"
  have put: "put_vuln v m = ?m" using False by (simp only: put_vuln_def if_False)
  have "map_ok ?m" using assms by (simp add: uniq_ok_def map_ok_update)
  moreover have "\<forall>(k, w) \<in> set ?m. k = vuln_key w \<and> w \<in> set (seen @ [v])"
    using assms set_update_subset [of "vuln_key v" v m] unfolding uniq_ok_def by fastforce
  moreover have "\<exists>x. map_of ?m (vuln_key w) = Some x \<and> DV_FixedVersion w \<le> DV_FixedVersion x" if w: "w \<in> set (seen @ [v])" for w
  proof (cases "vuln_key w = vuln_key v")
    case True
    have "DV_FixedVersion w \<le> DV_FixedVersion v"
    proof (cases "w = v")
      case False
      then obtain x where x: "map_of m (vuln_key v) = Some x" "DV_FixedVersion w \<le> DV_FixedVersion x"
        using w assms True unfolding uniq_ok_def by auto
      then have "DV_FixedVersion x < DV_FixedVersion v"
        using \<open>\<not> (case map_of m (vuln_key v) of Some old \<Rightarrow> \<not> shouldOverwrite old v | None \<Rightarrow> False)\<close>
        by (simp add: shouldOverwrite_def)
      then show ?thesis using x(2) by order
    qed simp
    then show ?thesis using True by (simp add: update_conv')
  next
    case False
    then show ?thesis using w assms unfolding uniq_ok_def by (auto simp: update_conv')
  qed
  ultimately show ?thesis by (simp add: uniq_ok_def put)
qed

lemma uniq_ok_fold: "uniq_ok m seen \<Longrightarrow> uniq_ok (fold put_vuln vs m) (seen @ vs)"
proof (induction vs arbitrary: m seen)
  case (Cons v vs)
  then show ?case using Cons.IH [OF uniq_ok_put [OF Cons.prems, of v]] by simp
qed simp

lemma filterVulnerabilities_uniq:
  "uniq_ok (fold put_vuln vs []) vs"
  using uniq_ok_fold [of "[]" "[]" vs] by (simp add: uniq_ok_def)

lemma filterVulnerabilities_list:
  "Res_Vulnerabilities (filterVulnerabilities env r sevs sts c) =
     map snd (range_vulns env (fold put_vuln (vulns_kept env (Res_Target r) sevs sts c (Res_Vulnerabilities r)) []))"
  by (simp add: filterVulnerabilities_def filter_vulns_loop_eq)

lemma filterVulnerabilities_covers:
  assumes "is_range (range_vulns env)" "w \<in> set (vulns_kept env (Res_Target r) sevs sts c (Res_Vulnerabilities r))"
  shows "\<exists>v \<in> set (Res_Vulnerabilities (filterVulnerabilities env r sevs sts c)).
    vuln_key v = vuln_key w \<and> DV_FixedVersion w \<le> DV_FixedVersion v"
proof -
  let ?kept = "vulns_kept env (Res_Target r) sevs sts c (Res_Vulnerabilities r)"
  let ?m = "fold put_vuln ?kept []"
  have ok: "uniq_ok ?m ?kept" by (rule filterVulnerabilities_uniq)
  obtain v where v: "map_of ?m (vuln_key w) = Some v" "DV_FixedVersion w \<le> DV_FixedVersion v"
    using ok assms(2) by (auto simp: uniq_ok_def)
  then have mem: "(vuln_key w, v) \<in> set ?m" by (simp add: map_of_SomeD)
  then have "vuln_key w = vuln_key v" using ok by (auto simp: uniq_ok_def)
  moreover have "v \<in> snd ` set ?m" using mem by (rule rev_image_eqI) simp
  ultimately show ?thesis
    using v(2) by (auto simp: filterVulnerabilities_list is_range_set [OF assms(1)])
qed

text \<open>C6. Of the vulnerabilities with a selected severity and status, the ignore file moves the listed ones to the
  modified findings; of the others the result has one per vulnerability, package and version, with the greatest
  fixed version, and nothing else.\<close>

theorem filterVulnerabilities_spec:
  assumes "is_range (range_vulns env)"
  shows "let r = filterVulnerabilities env result sevs sts c;
             kept = vulns_kept env (Res_Target result) sevs sts c (Res_Vulnerabilities result)
         in distinct (map vuln_key (Res_Vulnerabilities r)) \<and>
            set (Res_Vulnerabilities r) \<subseteq> set kept \<and>
            (\<forall>w \<in> set kept. \<exists>v \<in> set (Res_Vulnerabilities r). vuln_key v = vuln_key w \<and> DV_FixedVersion w \<le> DV_FixedVersion v) \<and>
            Res_ModifiedFindings r = Res_ModifiedFindings result @
              vulns_modified env (Res_Target result) sevs sts c (Res_Vulnerabilities result)"
  unfolding Let_def
proof (intro conjI ballI)
  let ?kept = "vulns_kept env (Res_Target result) sevs sts c (Res_Vulnerabilities result)"
  let ?m = "fold put_vuln ?kept []"
  have ok: "uniq_ok ?m ?kept" by (rule filterVulnerabilities_uniq)
  have mset: "mset (map vuln_key (map snd (range_vulns env ?m))) = mset (map vuln_key (map snd ?m))"
    using is_range_mset [OF assms] by (simp only: mset_map)
  have "map vuln_key (map snd ?m) = map fst ?m" using ok by (auto simp: uniq_ok_def)
  then have "distinct (map vuln_key (map snd ?m))" using ok by (simp only: uniq_ok_def map_ok_def)
  then show "distinct (map vuln_key (Res_Vulnerabilities (filterVulnerabilities env result sevs sts c)))"
    unfolding filterVulnerabilities_list using mset_eq_imp_distinct_iff [OF mset] by simp
  show "set (Res_Vulnerabilities (filterVulnerabilities env result sevs sts c)) \<subseteq> set ?kept"
    using ok by (auto simp: filterVulnerabilities_list is_range_set [OF assms] uniq_ok_def)
  show "Res_ModifiedFindings (filterVulnerabilities env result sevs sts c) = Res_ModifiedFindings result @
      vulns_modified env (Res_Target result) sevs sts c (Res_Vulnerabilities result)"
    by (simp add: filterVulnerabilities_def filter_vulns_loop_eq)
qed (rule filterVulnerabilities_covers [OF assms])

section \<open>Misconfigurations\<close>

definition misconf_ignored_by :: "filter_env \<Rightarrow> IgnoreConfig \<Rightarrow> string \<Rightarrow> DetectedMisconfiguration \<Rightarrow> IgnoreFinding option" where
  "misconf_ignored_by env c target m =
     MatchMisconfiguration (ign_env env) c ([DM_ID m, DM_AVDID m] @ DM_Aliases m) target"

definition misconfs_kept :: "filter_env \<Rightarrow> string \<Rightarrow> string list \<Rightarrow> IgnoreConfig \<Rightarrow>
    DetectedMisconfiguration list \<Rightarrow> DetectedMisconfiguration list" where
  "misconfs_kept env target sevs c ms =
     filter (\<lambda>m. DM_Severity m \<in> set sevs \<and> misconf_ignored_by env c target m = None) ms"

definition misconfs_modified :: "filter_env \<Rightarrow> string \<Rightarrow> string list \<Rightarrow> IgnoreConfig \<Rightarrow>
    DetectedMisconfiguration list \<Rightarrow> ModifiedFinding list" where
  "misconfs_modified env target sevs c ms =
     List.map_filter (\<lambda>m. map_option (\<lambda>f. NewModifiedFinding (FMisconfiguration m) FindingStatusIgnored (IF_Statement f) (IC_FilePath c))
       (misconf_ignored_by env c target m)) (filter (\<lambda>m. DM_Severity m \<in> set sevs) ms)"

abbreviation with_status :: "MisconfStatus \<Rightarrow> DetectedMisconfiguration list \<Rightarrow> DetectedMisconfiguration list" where
  "with_status s ms \<equiv> filter (\<lambda>m. DM_Status m = s) ms"

lemma filter_misconfs_loop_eq:
  "filter_misconfs_loop env target sevs incl c ms (filtered, s, mods) =
     (filtered @ filter (\<lambda>m. DM_Status m = MisconfStatusFailure \<or> incl) (misconfs_kept env target sevs c ms),
      \<lparr>Successes = Successes s + int (length (with_status MisconfStatusPassed (misconfs_kept env target sevs c ms))),
       Failures = Failures s + int (length (with_status MisconfStatusFailure (misconfs_kept env target sevs c ms)))\<rparr>,
      mods @ misconfs_modified env target sevs c ms)"
proof (induction ms arbitrary: filtered s mods)
  case Nil
  show ?case by (simp add: misconfs_kept_def misconfs_modified_def map_filter_def)
next
  case (Cons m ms)
  show ?case
  proof (cases "DM_Severity m \<in> set sevs")
    case False
    then show ?thesis using Cons by (simp add: misconfs_kept_def misconfs_modified_def)
  next
    case True
    show ?thesis
    proof (cases "misconf_ignored_by env c target m")
      case (Some f)
      then show ?thesis using True Cons
        by (simp add: misconfs_kept_def misconfs_modified_def misconf_ignored_by_def map_filter_def)
    next
      case None
      then show ?thesis using True Cons
        by (simp add: misconfs_kept_def misconfs_modified_def misconf_ignored_by_def map_filter_def updateMisconfSummary_def)
    qed
  qed
qed

text \<open>The summary of a result agrees with its misconfigurations: it is nil only when there are none, counts the
  failures, and, when the others are listed, the successes.\<close>

definition summary_ok :: "bool \<Rightarrow> Result \<Rightarrow> bool" where
  "summary_ok incl r =
     (case Res_MisconfSummary r of
        None \<Rightarrow> Res_Misconfigurations r = []
      | Some s \<Rightarrow>
          Failures s = int (length (with_status MisconfStatusFailure (Res_Misconfigurations r))) \<and>
          (incl = False \<or> Successes s = int (length (with_status MisconfStatusPassed (Res_Misconfigurations r)))))"

lemma filterMisconfigurations_summary: "summary_ok incl (filterMisconfigurations env r sevs incl c)"
proof -
  let ?kept = "misconfs_kept env (Res_Target r) sevs c (Res_Misconfigurations r)"
  have "with_status MisconfStatusFailure (filter (\<lambda>m. DM_Status m = MisconfStatusFailure \<or> incl) ?kept) =
      with_status MisconfStatusFailure ?kept"
    by (auto intro: filter_cong)
  moreover have "incl \<Longrightarrow> filter (\<lambda>m. DM_Status m = MisconfStatusFailure \<or> incl) ?kept = ?kept" by simp
  ultimately show ?thesis
    by (auto simp: filterMisconfigurations_def filter_misconfs_loop_eq summary_ok_def MisconfSummary_Empty_def)
qed

section \<open>Secrets and licenses\<close>

definition secrets_kept :: "filter_env \<Rightarrow> string \<Rightarrow> string list \<Rightarrow> IgnoreConfig \<Rightarrow> DetectedSecret list \<Rightarrow> DetectedSecret list" where
  "secrets_kept env target sevs c ss =
     filter (\<lambda>s. SF_Severity s \<in> set sevs \<and> MatchSecret (ign_env env) c (SF_RuleID s) target = None) ss"

definition secrets_modified :: "filter_env \<Rightarrow> string \<Rightarrow> string list \<Rightarrow> IgnoreConfig \<Rightarrow> DetectedSecret list \<Rightarrow> ModifiedFinding list" where
  "secrets_modified env target sevs c ss =
     List.map_filter (\<lambda>s. map_option (\<lambda>f. NewModifiedFinding (FSecret s) FindingStatusIgnored (IF_Statement f) (IC_FilePath c))
       (MatchSecret (ign_env env) c (SF_RuleID s) target)) (filter (\<lambda>s. SF_Severity s \<in> set sevs) ss)"

lemma filter_secrets_loop_eq:
  "filter_secrets_loop env target sevs c ss (filtered, mods) =
     (filtered @ secrets_kept env target sevs c ss, mods @ secrets_modified env target sevs c ss)"
proof (induction ss arbitrary: filtered mods)
  case (Cons s ss)
  show ?case
    by (cases "MatchSecret (ign_env env) c (SF_RuleID s) target")
       (simp_all add: Cons.IH secrets_kept_def secrets_modified_def map_filter_def)
qed (simp add: secrets_kept_def secrets_modified_def map_filter_def)

lemma filter_licenses_loop_total:
  assumes "normalizer_ok (lic_env (ign_env env))"
  shows "\<exists>r. filter_licenses_loop env sevs ign c ls st = Some r"
proof (induction ls arbitrary: st)
  case (Cons l ls)
  obtain filtered mods where st: "st = (filtered, mods)" by (cases st)
  obtain m1 where m1: "MatchLicense (ign_env env) ign (DL_Name l) (DL_FilePath l) = Some m1"
    using MatchLicense_total [OF assms] by blast
  obtain m2 where m2: "MatchLicense (ign_env env) c (DL_Name l) (DL_FilePath l) = Some m2"
    using MatchLicense_total [OF assms] by blast
  show ?case using Cons.IH by (auto simp: st m1 m2 split: option.splits)
qed simp

text \<open>The decisions to ignore a finding, and the record each of them leaves: an entry of the ignore file, with its statement and
  the file as the source; for a license also the names given on the command line; and the policy.\<close>

definition ignored_by_file :: "filter_env \<Rightarrow> string \<Rightarrow> IgnoreConfig \<Rightarrow> Finding \<Rightarrow> IgnoreFinding \<Rightarrow> bool" where
  "ignored_by_file env target c f g =
     (case f of
        NilFinding \<Rightarrow> False
      | FVulnerability v \<Rightarrow> vuln_ignored_by env c target v = Some g
      | FMisconfiguration m \<Rightarrow> misconf_ignored_by env c target m = Some g
      | FSecret s \<Rightarrow> MatchSecret (ign_env env) c (SF_RuleID s) target = Some g
      | FLicense l \<Rightarrow> MatchLicense (ign_env env) c (DL_Name l) (DL_FilePath l) = Some (Some g))"

definition ignored_by_option :: "filter_env \<Rightarrow> string list \<Rightarrow> Finding \<Rightarrow> bool" where
  "ignored_by_option env names f =
     (case f of
        FLicense l \<Rightarrow> \<exists>g. MatchLicense (ign_env env) (IgnoreConfig_empty\<lparr>IC_Licenses := map IgnoreFinding_of names\<rparr>)
          (DL_Name l) (DL_FilePath l) = Some (Some g)
      | _ \<Rightarrow> False)"

definition decision :: "filter_env \<Rightarrow> string \<Rightarrow> IgnoreConfig \<Rightarrow> FilterOptions \<Rightarrow> Finding \<Rightarrow> ModifiedFinding \<Rightarrow> bool" where
  "decision env target c opt f m \<longleftrightarrow>
     (\<exists>g. ignored_by_file env target c f g \<and> m = NewModifiedFinding f FindingStatusIgnored (IF_Statement g) (IC_FilePath c)) \<or>
     ignored_by_option env (Opt_IgnoreLicenses opt) f \<and> m = NewModifiedFinding f FindingStatusIgnored [] ''--ignored-licenses'' \<or>
     Opt_PolicyFile opt \<noteq> [] \<and> rego_evaluate env f = Inr True \<and>
       m = NewModifiedFinding f FindingStatusIgnored ''Filtered by Rego'' (path_Clean (ign_env env) (Opt_PolicyFile opt))"

definition recorded :: "filter_env \<Rightarrow> string \<Rightarrow> IgnoreConfig \<Rightarrow> FilterOptions \<Rightarrow> ModifiedFinding list \<Rightarrow> Finding \<Rightarrow> bool" where
  "recorded env target c opt mods f \<longleftrightarrow> list_ex (decision env target c opt f) mods"

text \<open>Records that stem from a decision about their finding.\<close>

definition sound_records :: "filter_env \<Rightarrow> string \<Rightarrow> IgnoreConfig \<Rightarrow> FilterOptions \<Rightarrow> ModifiedFinding list \<Rightarrow> bool" where
  "sound_records env target c opt mods \<longleftrightarrow> list_all (\<lambda>m. decision env target c opt (MF_Finding m) m) mods"

lemma NewModifiedFinding_Finding [simp]: "MF_Finding (NewModifiedFinding f st s src) = f"
  by (simp add: NewModifiedFinding_def)

lemma decision_Finding: "decision env target c opt f m \<Longrightarrow> MF_Finding m = f"
  by (auto simp: decision_def)

lemma recorded_append [simp]:
  "recorded env target c opt (xs @ ys) f \<longleftrightarrow> recorded env target c opt xs f \<or> recorded env target c opt ys f"
  by (simp add: recorded_def)

lemma sound_records_append [simp]:
  "sound_records env target c opt [] " "sound_records env target c opt (xs @ ys) \<longleftrightarrow>
     sound_records env target c opt xs \<and> sound_records env target c opt ys"
  by (simp_all add: sound_records_def)

text \<open>No license with a selected severity is lost.\<close>

definition licenses_accounted :: "filter_env \<Rightarrow> string \<Rightarrow> IgnoreConfig \<Rightarrow> FilterOptions \<Rightarrow>
    string list \<Rightarrow> DetectedLicense list \<Rightarrow> DetectedLicense list \<Rightarrow> ModifiedFinding list \<Rightarrow> bool" where
  "licenses_accounted env target c opt sevs ls kept mods \<longleftrightarrow>
     (\<forall>l \<in> set ls. DL_Severity l \<in> set sevs \<longrightarrow> l \<in> set kept \<or> recorded env target c opt mods (FLicense l))"

abbreviation option_licenses :: "FilterOptions \<Rightarrow> IgnoreConfig" where
  "option_licenses opt \<equiv> IgnoreConfig_empty\<lparr>IC_Licenses := map IgnoreFinding_of (Opt_IgnoreLicenses opt)\<rparr>"

lemma filter_licenses_loop_cases:
  assumes "DL_Severity l \<in> set sevs"
    and "filter_licenses_loop env sevs (option_licenses opt) c (l # ls) (filtered, mods) = Some r"
  obtains x where "decision env target c opt (FLicense l) x"
      "filter_licenses_loop env sevs (option_licenses opt) c ls (filtered, mods @ [x]) = Some r"
    | "filter_licenses_loop env sevs (option_licenses opt) c ls (filtered @ [l], mods) = Some r"
proof -
  let ?m1 = "MatchLicense (ign_env env) (option_licenses opt) (DL_Name l) (DL_FilePath l)"
    and ?m2 = "MatchLicense (ign_env env) c (DL_Name l) (DL_FilePath l)"
  obtain m1 where m1: "?m1 = Some m1" using assms by (cases ?m1) auto
  show ?thesis
  proof (cases m1)
    case (Some g)
    let ?x = "NewModifiedFinding (FLicense l) FindingStatusIgnored [] ''--ignored-licenses''"
    have "decision env target c opt (FLicense l) ?x" using m1 Some by (simp add: decision_def ignored_by_option_def)
    then show ?thesis using assms m1 Some by (intro that(1) [of ?x]) simp_all
  next
    case None
    then obtain m2 where m2: "?m2 = Some m2" using assms m1 by (cases ?m2) auto
    show ?thesis
    proof (cases m2)
      case (Some g)
      let ?x = "NewModifiedFinding (FLicense l) FindingStatusIgnored (IF_Statement g) (IC_FilePath c)"
      have "decision env target c opt (FLicense l) ?x" using m2 Some by (auto simp: decision_def ignored_by_file_def)
      then show ?thesis using assms m1 m2 None Some by (intro that(1) [of ?x]) simp_all
    next
      case N: None
      then show ?thesis using assms m1 m2 None that(2) by simp
    qed
  qed
qed

lemma filter_licenses_loop_accounts:
  "filter_licenses_loop env sevs (option_licenses opt) c ls (filtered, mods) = Some (f', m') \<Longrightarrow>
     licenses_accounted env target c opt sevs ls f' m' \<and> set filtered \<subseteq> set f' \<and>
     (\<exists>xs. m' = mods @ xs \<and> sound_records env target c opt xs)"
proof (induction ls arbitrary: filtered mods)
  case (Cons l ls)
  show ?case
  proof (cases "DL_Severity l \<in> set sevs")
    case False
    then show ?thesis using Cons by (auto simp: licenses_accounted_def)
  next
    case True
    show ?thesis
      using True Cons.prems
    proof (cases rule: filter_licenses_loop_cases [where target = target])
      case (1 x)
      obtain xs where xs: "m' = mods @ [x] @ xs" "sound_records env target c opt xs" using Cons.IH [OF 1(2)] by auto
      then have rec: "recorded env target c opt m' (FLicense l)" using 1(1) by (simp add: recorded_def)
      have "sound_records env target c opt ([x] @ xs)"
        using xs(2) 1(1) decision_Finding [OF 1(1)] by (simp add: sound_records_def)
      then have "\<exists>ys. m' = mods @ ys \<and> sound_records env target c opt ys" using xs(1) by blast
      then show ?thesis using Cons.IH [OF 1(2)] rec by (simp add: licenses_accounted_def)
    next
      case 2
      then show ?thesis using Cons.IH [OF 2] by (simp add: licenses_accounted_def)
    qed
  qed
qed (simp add: licenses_accounted_def)

section \<open>The policy\<close>

lemma filter_rego_loop_Inr:
  "filter_rego_loop env inject pf xs filtered mods = Inr (f', m') \<Longrightarrow>
     f' = filtered @ filter (\<lambda>x. rego_evaluate env (inject x) = Inr False) xs \<and>
     m' = mods @ map (\<lambda>x. NewModifiedFinding (inject x) FindingStatusIgnored ''Filtered by Rego'' pf)
                   (filter (\<lambda>x. rego_evaluate env (inject x) = Inr True) xs) \<and>
     list_all (\<lambda>x. rego_evaluate env (inject x) \<in> {Inr True, Inr False}) xs"
proof (induction xs arbitrary: filtered mods)
  case (Cons x xs)
  obtain b where b: "rego_evaluate env (inject x) = Inr b" using Cons.prems by auto
  show ?case
  proof (cases b)
    case True
    then show ?thesis
      using Cons.IH [of filtered "mods @ [NewModifiedFinding (inject x) FindingStatusIgnored ''Filtered by Rego'' pf]"]
        Cons.prems b by simp
  next
    case False
    then show ?thesis using Cons.IH [of "filtered @ [x]" mods] Cons.prems b by simp
  qed
qed simp

definition rego_mods :: "('t \<Rightarrow> Finding) \<Rightarrow> string \<Rightarrow> 't list \<Rightarrow> ModifiedFinding list" where
  "rego_mods inject pf xs = map (\<lambda>x. NewModifiedFinding (inject x) FindingStatusIgnored ''Filtered by Rego'' pf) xs"

lemma adjust_summary_Some:
  "adjust_summary (rego_mods FMisconfiguration pf ms) (Some s) =
     Some (Some \<lparr>Successes = Successes s - int (length (with_status MisconfStatusPassed ms)),
                 Failures = Failures s - int (length (with_status MisconfStatusFailure ms))\<rparr>)"
  unfolding rego_mods_def by (induction ms arbitrary: s) auto

lemma filter_Inr_split:
  assumes "list_all (\<lambda>x. f x \<in> {Inr True, Inr False}) xs"
  shows "length (filter P xs) = length (filter P (filter (\<lambda>x. f x = Inr False) xs)) + length (filter P (filter (\<lambda>x. f x = Inr True) xs))"
  using assms by (induction xs) auto

text \<open>The policy keeps the summary right and never meets a nil summary.\<close>

lemma applyPolicy_total: "summary_ok incl r \<Longrightarrow> \<exists>x. applyPolicy env r pf = Some x"
proof -
  assume ok: "summary_ok incl r"
  have "adjust_summary ms (Res_MisconfSummary r) \<noteq> None"
    if "filterFindingsByRego env FMisconfiguration (Res_Misconfigurations r) pf = Inr (fs, ms)" for fs ms
  proof (cases "Res_MisconfSummary r")
    case None
    then have "ms = []" using ok that by (simp add: summary_ok_def filterFindingsByRego_def)
    then show ?thesis by simp
  next
    case (Some s)
    have "ms = rego_mods FMisconfiguration pf (filter (\<lambda>x. rego_evaluate env (FMisconfiguration x) = Inr True) (Res_Misconfigurations r))"
      using filter_rego_loop_Inr that by (fastforce simp: filterFindingsByRego_def rego_mods_def)
    then show ?thesis using adjust_summary_Some by (metis Some option.distinct(1))
  qed
  then show ?thesis
    by (fastforce simp: applyPolicy_def split: sum.splits option.splits)
qed

abbreviation rego_keeps :: "filter_env \<Rightarrow> ('t \<Rightarrow> Finding) \<Rightarrow> 't list \<Rightarrow> 't list" where
  "rego_keeps env inject xs \<equiv> filter (\<lambda>x. rego_evaluate env (inject x) = Inr False) xs"

abbreviation rego_drops :: "filter_env \<Rightarrow> ('t \<Rightarrow> Finding) \<Rightarrow> 't list \<Rightarrow> 't list" where
  "rego_drops env inject xs \<equiv> filter (\<lambda>x. rego_evaluate env (inject x) = Inr True) xs"

abbreviation rego_decides :: "filter_env \<Rightarrow> ('t \<Rightarrow> Finding) \<Rightarrow> 't list \<Rightarrow> bool" where
  "rego_decides env inject xs \<equiv> list_all (\<lambda>x. rego_evaluate env (inject x) \<in> {Inr True, Inr False}) xs"

lemma filterFindingsByRego_Inr:
  "filterFindingsByRego env inject xs pf = Inr (f, m) \<Longrightarrow>
     f = rego_keeps env inject xs \<and> m = rego_mods inject pf (rego_drops env inject xs) \<and> rego_decides env inject xs"
  unfolding filterFindingsByRego_def rego_mods_def by (drule filter_rego_loop_Inr) simp

lemma applyPolicy_Inr:
  assumes "applyPolicy env r pf = Some (Inr r')"
  obtains s where
    "adjust_summary (rego_mods FMisconfiguration pf (rego_drops env FMisconfiguration (Res_Misconfigurations r))) (Res_MisconfSummary r) = Some s"
    "r' = r\<lparr>Res_Vulnerabilities := rego_keeps env FVulnerability (Res_Vulnerabilities r),
            Res_Misconfigurations := rego_keeps env FMisconfiguration (Res_Misconfigurations r),
            Res_MisconfSummary := s,
            Res_Secrets := rego_keeps env FSecret (Res_Secrets r),
            Res_Licenses := rego_keeps env FLicense (Res_Licenses r),
            Res_ModifiedFindings := Res_ModifiedFindings r @
              rego_mods FVulnerability pf (rego_drops env FVulnerability (Res_Vulnerabilities r)) @
              rego_mods FMisconfiguration pf (rego_drops env FMisconfiguration (Res_Misconfigurations r)) @
              rego_mods FSecret pf (rego_drops env FSecret (Res_Secrets r)) @
              rego_mods FLicense pf (rego_drops env FLicense (Res_Licenses r))\<rparr>"
    "rego_decides env FVulnerability (Res_Vulnerabilities r)" "rego_decides env FMisconfiguration (Res_Misconfigurations r)"
    "rego_decides env FSecret (Res_Secrets r)" "rego_decides env FLicense (Res_Licenses r)"
  using assms
  by (auto simp: applyPolicy_def split: sum.splits option.splits dest!: filterFindingsByRego_Inr)

lemma applyPolicy_summary:
  assumes "applyPolicy env r pf = Some (Inr r')" "summary_ok incl r"
  shows "summary_ok incl r'"
  using assms(1)
proof (rule applyPolicy_Inr)
  fix s
  let ?ms = "Res_Misconfigurations r"
  assume adj: "adjust_summary (rego_mods FMisconfiguration pf (rego_drops env FMisconfiguration ?ms)) (Res_MisconfSummary r) = Some s"
    and r': "r' = r\<lparr>Res_Vulnerabilities := rego_keeps env FVulnerability (Res_Vulnerabilities r),
            Res_Misconfigurations := rego_keeps env FMisconfiguration ?ms, Res_MisconfSummary := s,
            Res_Secrets := rego_keeps env FSecret (Res_Secrets r), Res_Licenses := rego_keeps env FLicense (Res_Licenses r),
            Res_ModifiedFindings := Res_ModifiedFindings r @
              rego_mods FVulnerability pf (rego_drops env FVulnerability (Res_Vulnerabilities r)) @
              rego_mods FMisconfiguration pf (rego_drops env FMisconfiguration ?ms) @
              rego_mods FSecret pf (rego_drops env FSecret (Res_Secrets r)) @
              rego_mods FLicense pf (rego_drops env FLicense (Res_Licenses r))\<rparr>"
    and dec: "rego_decides env FMisconfiguration ?ms"
  show ?thesis
  proof (cases "Res_MisconfSummary r")
    case None
    then have "?ms = []" using assms(2) by (simp add: summary_ok_def)
    then show ?thesis using adj None by (simp add: r' summary_ok_def rego_mods_def)
  next
    case (Some s0)
    have cnt: "length (with_status st ?ms) = length (with_status st (rego_keeps env FMisconfiguration ?ms)) +
        length (with_status st (rego_drops env FMisconfiguration ?ms))" for st
      by (rule filter_Inr_split [OF dec])
    have "s = Some \<lparr>Successes = Successes s0 - int (length (with_status MisconfStatusPassed (rego_drops env FMisconfiguration ?ms))),
        Failures = Failures s0 - int (length (with_status MisconfStatusFailure (rego_drops env FMisconfiguration ?ms)))\<rparr>"
      using adj by (simp only: Some adjust_summary_Some option.inject)
    then show ?thesis
      using assms(2) cnt [of MisconfStatusFailure] cnt [of MisconfStatusPassed] Some
      by (simp add: summary_ok_def r' del: filter_filter)
  qed
qed

section \<open>The filter as a whole\<close>

text \<open>The result before the policy.\<close>

definition before_policy :: "filter_env \<Rightarrow> Result \<Rightarrow> IgnoreConfig \<Rightarrow> FilterOptions \<Rightarrow> Result option" where
  "before_policy env r c opt =
     (let sevs = map (severity_name env) (Opt_Severities opt)
      in map_option (\<lambda>r4. filterCryptoFindings env r4 sevs c)
           (filterLicenses env
             (filterSecrets env
               (filterMisconfigurations env (filterVulnerabilities env r sevs (Opt_IgnoreStatuses opt) c) sevs
                 (Opt_IncludeNonFailures opt) c) sevs c)
             sevs (Opt_IgnoreLicenses opt) c))"

definition with_policy :: "filter_env \<Rightarrow> Result \<Rightarrow> FilterOptions \<Rightarrow> Result result option" where
  "with_policy env r opt =
     (if Opt_PolicyFile opt \<noteq> []
      then map_option (wrap_err ''failed to apply the policy: %w'' []) (applyPolicy env r (path_Clean (ign_env env) (Opt_PolicyFile opt)))
      else Some (Inr r))"

lemma FilterResult_split:
  "FilterResult env r c opt =
     Option.bind (before_policy env r c opt) (\<lambda>r5. Option.bind (with_policy env r5 opt) (\<lambda>x.
       Some (bind_result x (\<lambda>r6. Inr (r6\<lparr>Res_Vulnerabilities := sort_severity env (Res_Vulnerabilities r6)\<rparr>)))))"
  by (simp add: FilterResult_def before_policy_def with_policy_def Let_def bind_map_option comp_def)

lemma filterMisconfigurations_other [simp]:
  "Res_Target (filterMisconfigurations env r sevs incl c) = Res_Target r"
  "Res_Vulnerabilities (filterMisconfigurations env r sevs incl c) = Res_Vulnerabilities r"
  "Res_Secrets (filterMisconfigurations env r sevs incl c) = Res_Secrets r"
  "Res_Licenses (filterMisconfigurations env r sevs incl c) = Res_Licenses r"
  "Res_ModifiedFindings (filterMisconfigurations env r sevs incl c) =
     Res_ModifiedFindings r @ misconfs_modified env (Res_Target r) sevs c (Res_Misconfigurations r)"
  by (simp_all add: filterMisconfigurations_def filter_misconfs_loop_eq)

lemma filterVulnerabilities_other [simp]:
  "Res_Target (filterVulnerabilities env r sevs sts c) = Res_Target r"
  "Res_Misconfigurations (filterVulnerabilities env r sevs sts c) = Res_Misconfigurations r"
  "Res_Secrets (filterVulnerabilities env r sevs sts c) = Res_Secrets r"
  "Res_Licenses (filterVulnerabilities env r sevs sts c) = Res_Licenses r"
  "Res_ModifiedFindings (filterVulnerabilities env r sevs sts c) =
     Res_ModifiedFindings r @ vulns_modified env (Res_Target r) sevs sts c (Res_Vulnerabilities r)"
  by (simp_all add: filterVulnerabilities_def filter_vulns_loop_eq)

lemma filterSecrets_simps [simp]:
  "filterSecrets env r sevs c = r\<lparr>Res_Secrets := secrets_kept env (Res_Target r) sevs c (Res_Secrets r),
     Res_ModifiedFindings := Res_ModifiedFindings r @ secrets_modified env (Res_Target r) sevs c (Res_Secrets r)\<rparr>"
  by (simp add: filterSecrets_def filter_secrets_loop_eq)

lemma filterLicenses_Some:
  assumes "filterLicenses env r sevs (Opt_IgnoreLicenses opt) c = Some r'"
  obtains ls xs where "r' = r\<lparr>Res_Licenses := ls, Res_ModifiedFindings := Res_ModifiedFindings r @ xs\<rparr>"
    "licenses_accounted env target c opt sevs (Res_Licenses r) ls (Res_ModifiedFindings r @ xs)" "sound_records env target c opt xs"
proof -
  obtain ls ms where loop: "filter_licenses_loop env sevs (option_licenses opt) c
      (Res_Licenses r) ([], Res_ModifiedFindings r) = Some (ls, ms)"
    and r': "r' = r\<lparr>Res_Licenses := ls, Res_ModifiedFindings := ms\<rparr>"
    using assms by (auto simp: filterLicenses_def)
  note acc = filter_licenses_loop_accounts [OF loop, of target]
  obtain xs where "ms = Res_ModifiedFindings r @ xs" "sound_records env target c opt xs" using acc by auto
  then show ?thesis using acc r' that by simp
qed

lemma filterLicenses_total:
  "normalizer_ok (lic_env (ign_env env)) \<Longrightarrow> \<exists>r'. filterLicenses env r sevs names c = Some r'"
  using filter_licenses_loop_total by (fastforce simp: filterLicenses_def)

lemma before_policy_total: "normalizer_ok (lic_env (ign_env env)) \<Longrightarrow> \<exists>r'. before_policy env r c opt = Some r'"
  unfolding before_policy_def Let_def by (metis (no_types, lifting) filterLicenses_total option.map(2))

lemma filterCrypto_other [simp]:
  "Res_MisconfSummary (filterCryptoFindings env r sevs c) = Res_MisconfSummary r"
  "Res_Misconfigurations (filterCryptoFindings env r sevs c) = Res_Misconfigurations r"
  "Res_Secrets (filterCryptoFindings env r sevs c) = Res_Secrets r"
  "Res_Licenses (filterCryptoFindings env r sevs c) = Res_Licenses r"
  "Res_Vulnerabilities (filterCryptoFindings env r sevs c) = Res_Vulnerabilities r"
  "Res_ModifiedFindings (filterCryptoFindings env r sevs c) = Res_ModifiedFindings r"
  by (simp_all add: filterCryptoFindings_def Let_def)

lemma summary_ok_cong:
  "Res_MisconfSummary r = Res_MisconfSummary r' \<Longrightarrow> Res_Misconfigurations r = Res_Misconfigurations r' \<Longrightarrow>
     summary_ok incl r = summary_ok incl r'"
  by (simp only: summary_ok_def)

lemma before_policy_summary:
  assumes "before_policy env r c opt = Some r'"
  shows "summary_ok (Opt_IncludeNonFailures opt) r'"
proof -
  let ?sevs = "map (severity_name env) (Opt_Severities opt)"
  let ?r2 = "filterMisconfigurations env (filterVulnerabilities env r ?sevs (Opt_IgnoreStatuses opt) c) ?sevs (Opt_IncludeNonFailures opt) c"
  obtain r4 where r4: "filterLicenses env (filterSecrets env ?r2 ?sevs c) ?sevs (Opt_IgnoreLicenses opt) c = Some r4"
    and r': "r' = filterCryptoFindings env r4 ?sevs c"
    using assms by (auto simp: before_policy_def Let_def)
  have "Res_MisconfSummary r4 = Res_MisconfSummary ?r2 \<and> Res_Misconfigurations r4 = Res_Misconfigurations ?r2"
    using r4 by (rule filterLicenses_Some) simp
  then show ?thesis
    using filterMisconfigurations_summary summary_ok_cong [of r' ?r2] by (simp add: r')
qed

text \<open>Filtering a result always comes to an end without a panic, in a filtered result or an error: the
  normalization of license expressions terminates, and the policy loop never meets a nil misconfiguration
  summary.\<close>

theorem FilterResult_total:
  assumes "normalizer_ok (lic_env (ign_env env))"
  shows "\<exists>x. FilterResult env r c opt = Some x"
proof -
  obtain r5 where r5: "before_policy env r c opt = Some r5" using before_policy_total [OF assms] by blast
  obtain x where "with_policy env r5 opt = Some x"
    using applyPolicy_total [OF before_policy_summary [OF r5]] by (fastforce simp: with_policy_def)
  then show ?thesis by (simp add: FilterResult_split r5)
qed

text \<open>C17. The misconfiguration summary of a filtered result counts exactly the failures it lists, after the policy
  too, and the successes when those are included; without a summary there are no misconfigurations.\<close>

theorem FilterResult_summary:
  assumes "FilterResult env r c opt = Some (Inr r')"
  shows "case Res_MisconfSummary r' of
      None \<Rightarrow> Res_Misconfigurations r' = []
    | Some s \<Rightarrow>
        Failures s = int (length (with_status MisconfStatusFailure (Res_Misconfigurations r'))) \<and>
        (Opt_IncludeNonFailures opt = False \<or>
         Successes s = int (length (with_status MisconfStatusPassed (Res_Misconfigurations r'))))"
proof -
  obtain r5 r6 where r5: "before_policy env r c opt = Some r5" and r6: "with_policy env r5 opt = Some (Inr r6)"
    and r': "r' = r6\<lparr>Res_Vulnerabilities := sort_severity env (Res_Vulnerabilities r6)\<rparr>"
    using assms by (auto simp: FilterResult_split Option.bind_eq_Some_conv)
  have "summary_ok (Opt_IncludeNonFailures opt) r6"
    using r6 before_policy_summary [OF r5] by (auto simp: with_policy_def split: if_splits intro: applyPolicy_summary)
  then have "summary_ok (Opt_IncludeNonFailures opt) r'" using summary_ok_cong [of r' r6] by (simp add: r')
  then show ?thesis unfolding summary_ok_def .
qed

text \<open>A finding is accounted for when the result still lists it or records the decision to ignore it.\<close>

definition listed :: "Result \<Rightarrow> Finding \<Rightarrow> bool" where
  "listed r f =
     (case f of
        NilFinding \<Rightarrow> False
      | FVulnerability v \<Rightarrow> v \<in> set (Res_Vulnerabilities r)
      | FMisconfiguration m \<Rightarrow> m \<in> set (Res_Misconfigurations r)
      | FSecret s \<Rightarrow> s \<in> set (Res_Secrets r)
      | FLicense l \<Rightarrow> l \<in> set (Res_Licenses r))"

lemma recorded_map_filter:
  assumes "x \<in> set xs" "g x = Some y" "decision env target c opt f y"
  shows "recorded env target c opt (List.map_filter g xs) f"
proof -
  have "y \<in> set (List.map_filter g xs)" using assms(1,2) by (force simp: map_filter_def)
  then show ?thesis using assms(3) by (auto simp: recorded_def list_ex_iff)
qed

lemma sound_map_filter:
  assumes "\<And>x y. g x = Some y \<Longrightarrow> decision env target c opt (inject x) y"
  shows "sound_records env target c opt (List.map_filter g xs)"
proof -
  have "decision env target c opt (MF_Finding y) y" if "y \<in> set (List.map_filter g xs)" for y
  proof -
    from that obtain x where "g x = Some y" by (auto simp: map_filter_def)
    from assms [OF this] show ?thesis using decision_Finding by metis
  qed
  then show ?thesis by (simp add: sound_records_def list_all_iff)
qed

lemma modified_sound:
  "sound_records env target c opt (vulns_modified env target sevs sts c vs)"
  "sound_records env target c opt (misconfs_modified env target sevs c ms)"
  "sound_records env target c opt (secrets_modified env target sevs c ss)"
  unfolding vulns_modified_def misconfs_modified_def secrets_modified_def
    by (rule sound_map_filter [where inject = FVulnerability], auto simp: decision_def ignored_by_file_def)
       (rule sound_map_filter [where inject = FMisconfiguration], auto simp: decision_def ignored_by_file_def,
        rule sound_map_filter [where inject = FSecret], auto simp: decision_def ignored_by_file_def)

lemma before_policy_fields:
  assumes "before_policy env r c opt = Some r5"
  defines "sevs \<equiv> map (severity_name env) (Opt_Severities opt)"
  obtains xs where
    "Res_Vulnerabilities r5 = Res_Vulnerabilities (filterVulnerabilities env r sevs (Opt_IgnoreStatuses opt) c)"
    "Res_Misconfigurations r5 = Res_Misconfigurations (filterMisconfigurations env (filterVulnerabilities env r sevs (Opt_IgnoreStatuses opt) c) sevs (Opt_IncludeNonFailures opt) c)"
    "Res_Secrets r5 = secrets_kept env (Res_Target r) sevs c (Res_Secrets r)"
    "Res_ModifiedFindings r5 = Res_ModifiedFindings r @
       vulns_modified env (Res_Target r) sevs (Opt_IgnoreStatuses opt) c (Res_Vulnerabilities r) @
       misconfs_modified env (Res_Target r) sevs c (Res_Misconfigurations r) @
       secrets_modified env (Res_Target r) sevs c (Res_Secrets r) @ xs"
    "licenses_accounted env (Res_Target r) c opt sevs (Res_Licenses r) (Res_Licenses r5) (Res_ModifiedFindings r5)"
    "sound_records env (Res_Target r) c opt xs"
proof -
  let ?r3 = "filterSecrets env (filterMisconfigurations env (filterVulnerabilities env r sevs (Opt_IgnoreStatuses opt) c) sevs
      (Opt_IncludeNonFailures opt) c) sevs c"
  obtain r4 where r4: "filterLicenses env ?r3 sevs (Opt_IgnoreLicenses opt) c = Some r4"
    and r5: "r5 = filterCryptoFindings env r4 sevs c"
    using assms(1) by (auto simp: before_policy_def Let_def sevs_def)
  from r4 show ?thesis
  proof (rule filterLicenses_Some [where target = "Res_Target r"])
    fix ls xs
    assume "r4 = ?r3\<lparr>Res_Licenses := ls, Res_ModifiedFindings := Res_ModifiedFindings ?r3 @ xs\<rparr>"
      "licenses_accounted env (Res_Target r) c opt sevs (Res_Licenses ?r3) ls (Res_ModifiedFindings ?r3 @ xs)"
      "sound_records env (Res_Target r) c opt xs"
    then show ?thesis by (intro that [of xs]) (simp_all add: r5)
  qed
qed

lemma misconf_kept_or_recorded:
  assumes "m \<in> set ms" "DM_Severity m \<in> set sevs" "m \<notin> set (misconfs_kept env target sevs c ms)"
  shows "recorded env target c opt (misconfs_modified env target sevs c ms) (FMisconfiguration m)"
proof -
  obtain f where "misconf_ignored_by env c target m = Some f" using assms by (auto simp: misconfs_kept_def)
  then show ?thesis
    unfolding misconfs_modified_def using assms(1,2)
    by (intro recorded_map_filter) (auto simp: decision_def ignored_by_file_def)
qed

lemma secret_kept_or_recorded:
  assumes "s \<in> set ss" "SF_Severity s \<in> set sevs" "s \<notin> set (secrets_kept env target sevs c ss)"
  shows "recorded env target c opt (secrets_modified env target sevs c ss) (FSecret s)"
proof -
  obtain f where "MatchSecret (ign_env env) c (SF_RuleID s) target = Some f" using assms by (auto simp: secrets_kept_def)
  then show ?thesis
    unfolding secrets_modified_def using assms(1,2)
    by (intro recorded_map_filter) (auto simp: decision_def ignored_by_file_def)
qed

lemma vuln_kept_or_recorded:
  assumes "v \<in> set (vulns_selected env sevs sts vs)" "v \<notin> set (vulns_kept env target sevs sts c vs)"
  shows "recorded env target c opt (vulns_modified env target sevs sts c vs) (FVulnerability v)"
proof -
  obtain f where "vuln_ignored_by env c target v = Some f" using assms by (auto simp: vulns_kept_def)
  then show ?thesis
    unfolding vulns_modified_def using assms(1)
    by (intro recorded_map_filter) (auto simp: decision_def ignored_by_file_def)
qed

lemma filterMisconfigurations_failures:
  assumes "m \<in> set (misconfs_kept env (Res_Target r) sevs c (Res_Misconfigurations r))" "DM_Status m = MisconfStatusFailure"
  shows "m \<in> set (Res_Misconfigurations (filterMisconfigurations env r sevs incl c))"
proof -
  have "with_status MisconfStatusFailure (misconfs_kept env (Res_Target r) sevs c (Res_Misconfigurations r)) \<noteq> []"
    using assms by (auto simp: filter_empty_conv)
  then show ?thesis
    using assms by (auto simp: filterMisconfigurations_def filter_misconfs_loop_eq MisconfSummary_Empty_def)
qed

text \<open>What the policy drops it records.\<close>

lemma policy_accounts:
  assumes "applyPolicy env r (path_Clean (ign_env env) (Opt_PolicyFile opt)) = Some (Inr r')" "Opt_PolicyFile opt \<noteq> []"
  shows "listed r f \<or> recorded env target c opt (Res_ModifiedFindings r) f \<Longrightarrow>
      listed r' f \<or> recorded env target c opt (Res_ModifiedFindings r') f"
    and "\<exists>xs. Res_ModifiedFindings r' = Res_ModifiedFindings r @ xs \<and> sound_records env target c opt xs"
proof -
  let ?pf = "path_Clean (ign_env env) (Opt_PolicyFile opt)"
  obtain s where r': "r' = r\<lparr>Res_Vulnerabilities := rego_keeps env FVulnerability (Res_Vulnerabilities r),
            Res_Misconfigurations := rego_keeps env FMisconfiguration (Res_Misconfigurations r), Res_MisconfSummary := s,
            Res_Secrets := rego_keeps env FSecret (Res_Secrets r), Res_Licenses := rego_keeps env FLicense (Res_Licenses r),
            Res_ModifiedFindings := Res_ModifiedFindings r @
              rego_mods FVulnerability ?pf (rego_drops env FVulnerability (Res_Vulnerabilities r)) @
              rego_mods FMisconfiguration ?pf (rego_drops env FMisconfiguration (Res_Misconfigurations r)) @
              rego_mods FSecret ?pf (rego_drops env FSecret (Res_Secrets r)) @
              rego_mods FLicense ?pf (rego_drops env FLicense (Res_Licenses r))\<rparr>"
    and dec: "rego_decides env FVulnerability (Res_Vulnerabilities r)" "rego_decides env FMisconfiguration (Res_Misconfigurations r)"
      "rego_decides env FSecret (Res_Secrets r)" "rego_decides env FLicense (Res_Licenses r)"
    using assms(1) by (rule applyPolicy_Inr)
  have drops: "decision env target c opt f (NewModifiedFinding f FindingStatusIgnored ''Filtered by Rego'' ?pf)"
    if "rego_evaluate env f = Inr True" for f
    using that assms(2) by (simp add: decision_def)
  have rec: "recorded env target c opt (rego_mods inject ?pf (rego_drops env inject xs)) (inject x)"
    if "x \<in> set xs" "rego_evaluate env (inject x) = Inr True" for inject xs and x :: 'x
    using that drops [of "inject x"] by (auto simp: recorded_def rego_mods_def list_ex_iff intro: exI [of _ x])
  have sound: "sound_records env target c opt (rego_mods inject ?pf (rego_drops env inject xs))" for inject and xs :: "'x list"
    using drops by (simp add: sound_records_def rego_mods_def list_all_iff)
  show "\<exists>xs. Res_ModifiedFindings r' = Res_ModifiedFindings r @ xs \<and> sound_records env target c opt xs"
    by (simp add: r' sound)
  show "listed r' f \<or> recorded env target c opt (Res_ModifiedFindings r') f"
    if "listed r f \<or> recorded env target c opt (Res_ModifiedFindings r) f"
    using that dec by (cases f) (auto simp: r' listed_def list_all_iff intro: rec)
qed

lemma before_policy_accounts:
  assumes "before_policy env r c opt = Some r5" "is_range (range_vulns env)"
  defines "sevs \<equiv> map (severity_name env) (Opt_Severities opt)"
    and "accounted \<equiv> \<lambda>f. listed r5 f \<or> recorded env (Res_Target r) c opt (Res_ModifiedFindings r5) f"
  shows "s \<in> set (Res_Secrets r) \<Longrightarrow> SF_Severity s \<in> set sevs \<Longrightarrow> accounted (FSecret s)"
    and "l \<in> set (Res_Licenses r) \<Longrightarrow> DL_Severity l \<in> set sevs \<Longrightarrow> accounted (FLicense l)"
    and "m \<in> set (Res_Misconfigurations r) \<Longrightarrow> DM_Severity m \<in> set sevs \<Longrightarrow> DM_Status m = MisconfStatusFailure \<Longrightarrow>
      accounted (FMisconfiguration m)"
    and "v \<in> set (vulns_selected env sevs (Opt_IgnoreStatuses opt) (Res_Vulnerabilities r)) \<Longrightarrow>
      \<exists>w. vuln_key w = vuln_key v \<and> DV_FixedVersion v \<le> DV_FixedVersion w \<and> accounted (FVulnerability w)"
    and "\<exists>xs. Res_ModifiedFindings r5 = Res_ModifiedFindings r @ xs \<and> sound_records env (Res_Target r) c opt xs"
proof -
  let ?sts = "Opt_IgnoreStatuses opt"
  obtain xs where f:
    "Res_Vulnerabilities r5 = Res_Vulnerabilities (filterVulnerabilities env r sevs ?sts c)"
    "Res_Misconfigurations r5 = Res_Misconfigurations (filterMisconfigurations env (filterVulnerabilities env r sevs ?sts c) sevs (Opt_IncludeNonFailures opt) c)"
    "Res_Secrets r5 = secrets_kept env (Res_Target r) sevs c (Res_Secrets r)"
    "Res_ModifiedFindings r5 = Res_ModifiedFindings r @
       vulns_modified env (Res_Target r) sevs ?sts c (Res_Vulnerabilities r) @
       misconfs_modified env (Res_Target r) sevs c (Res_Misconfigurations r) @
       secrets_modified env (Res_Target r) sevs c (Res_Secrets r) @ xs"
    "licenses_accounted env (Res_Target r) c opt sevs (Res_Licenses r) (Res_Licenses r5) (Res_ModifiedFindings r5)"
    "sound_records env (Res_Target r) c opt xs"
    using before_policy_fields [OF assms(1)] unfolding sevs_def by blast
  show "\<exists>xs. Res_ModifiedFindings r5 = Res_ModifiedFindings r @ xs \<and> sound_records env (Res_Target r) c opt xs"
    using f(4,6) modified_sound by auto
  show "s \<in> set (Res_Secrets r) \<Longrightarrow> SF_Severity s \<in> set sevs \<Longrightarrow> accounted (FSecret s)"
    using secret_kept_or_recorded [of s "Res_Secrets r" sevs env "Res_Target r" c opt]
    by (auto simp: accounted_def listed_def f(3,4))
  show "l \<in> set (Res_Licenses r) \<Longrightarrow> DL_Severity l \<in> set sevs \<Longrightarrow> accounted (FLicense l)"
    using f(5) by (simp add: accounted_def listed_def licenses_accounted_def)
  show "m \<in> set (Res_Misconfigurations r) \<Longrightarrow> DM_Severity m \<in> set sevs \<Longrightarrow> DM_Status m = MisconfStatusFailure \<Longrightarrow>
      accounted (FMisconfiguration m)"
    using misconf_kept_or_recorded [of m "Res_Misconfigurations r" sevs env "Res_Target r" c opt]
      filterMisconfigurations_failures [of m env "filterVulnerabilities env r sevs ?sts c" sevs c "Opt_IncludeNonFailures opt"]
    by (auto simp: accounted_def listed_def f(2,4))
  assume v: "v \<in> set (vulns_selected env sevs ?sts (Res_Vulnerabilities r))"
  let ?kept = "vulns_kept env (Res_Target r) sevs ?sts c (Res_Vulnerabilities r)"
  show "\<exists>w. vuln_key w = vuln_key v \<and> DV_FixedVersion v \<le> DV_FixedVersion w \<and> accounted (FVulnerability w)"
  proof (cases "v \<in> set ?kept")
    case True
    have "\<exists>w \<in> set (Res_Vulnerabilities r5). vuln_key w = vuln_key v \<and> DV_FixedVersion v \<le> DV_FixedVersion w"
      using filterVulnerabilities_covers [OF assms(2) True] by (simp add: f(1))
    then show ?thesis by (auto simp: accounted_def listed_def)
  next
    case False
    then have "accounted (FVulnerability v)"
      using vuln_kept_or_recorded [OF v, of "Res_Target r" c opt] by (simp add: accounted_def f(4))
    then show ?thesis by blast
  qed
qed

text \<open>C14. The filter accounts for secrets, licenses, failed misconfigurations and vulnerabilities. Every secret, license and
  failed misconfiguration with a selected severity is still listed in the filtered result, or recorded among its modified findings
  as ignored, with the statement and the source of a decision that really applies to it: a matching entry of the ignore file, for a
  license a name given by the option, or the policy. For every vulnerability with a selected severity and status the
  same holds of one with the same key and no smaller fixed version. The filter adds no other record.\<close>

theorem FilterResult_accounts:
  assumes "FilterResult env r c opt = Some (Inr r')" "is_range (range_vulns env)"
    and "sorter (less_cmp (BySeverity_Less cmpSev)) (sort_severity env)"
  shows "let sevs = map (severity_name env) (Opt_Severities opt);
      accounted = (\<lambda>f. listed r' f \<or> recorded env (Res_Target r) c opt (Res_ModifiedFindings r') f) in
    (\<forall>s \<in> set (Res_Secrets r). SF_Severity s \<in> set sevs \<longrightarrow> accounted (FSecret s)) \<and>
    (\<forall>l \<in> set (Res_Licenses r). DL_Severity l \<in> set sevs \<longrightarrow> accounted (FLicense l)) \<and>
    (\<forall>m \<in> set (Res_Misconfigurations r). DM_Severity m \<in> set sevs \<and> DM_Status m = MisconfStatusFailure \<longrightarrow>
       accounted (FMisconfiguration m)) \<and>
    (\<forall>v \<in> set (vulns_selected env sevs (Opt_IgnoreStatuses opt) (Res_Vulnerabilities r)).
       \<exists>w. vuln_key w = vuln_key v \<and> DV_FixedVersion v \<le> DV_FixedVersion w \<and> accounted (FVulnerability w)) \<and>
    (\<exists>xs. Res_ModifiedFindings r' = Res_ModifiedFindings r @ xs \<and> sound_records env (Res_Target r) c opt xs)"
proof -
  let ?rec = "\<lambda>r'. recorded env (Res_Target r) c opt (Res_ModifiedFindings r')"
  obtain r5 r6 where r5: "before_policy env r c opt = Some r5" and r6: "with_policy env r5 opt = Some (Inr r6)"
    and r': "r' = r6\<lparr>Res_Vulnerabilities := sort_severity env (Res_Vulnerabilities r6)\<rparr>"
    using assms(1) by (auto simp: FilterResult_split Option.bind_eq_Some_conv)
  have sorted: "set (sort_severity env vs) = set vs" for vs by (rule sorter.sort_set [OF assms(3)])
  have pol: "listed r5 f \<or> ?rec r5 f \<Longrightarrow> listed r6 f \<or> ?rec r6 f"
    "\<exists>xs. Res_ModifiedFindings r6 = Res_ModifiedFindings r5 @ xs \<and> sound_records env (Res_Target r) c opt xs" for f
    using r6 policy_accounts [of env r5 opt r6] by (auto simp: with_policy_def split: if_splits)
  have "listed r' f \<longleftrightarrow> listed r6 f" and mods: "Res_ModifiedFindings r' = Res_ModifiedFindings r6" for f
    by (simp_all add: r' listed_def sorted split: Finding.splits)
  then have step: "listed r' f \<or> ?rec r' f" if "listed r5 f \<or> ?rec r5 f" for f
    using pol(1) that by simp
  note acc = before_policy_accounts [OF r5 assms(2)]
  have xs: "\<exists>xs. Res_ModifiedFindings r' = Res_ModifiedFindings r @ xs \<and> sound_records env (Res_Target r) c opt xs"
    using acc(5) pol(2) mods by fastforce
  show ?thesis
    unfolding Let_def
  proof (intro conjI ballI impI)
    fix v assume "v \<in> set (vulns_selected env (map (severity_name env) (Opt_Severities opt)) (Opt_IgnoreStatuses opt) (Res_Vulnerabilities r))"
    from acc(4) [OF this] show "\<exists>w. vuln_key w = vuln_key v \<and> DV_FixedVersion v \<le> DV_FixedVersion w \<and>
         (listed r' (FVulnerability w) \<or> ?rec r' (FVulnerability w))"
      using step by blast
  qed (use xs step acc(1-3) in blast)+
qed

section \<open>An example\<close>

definition example_filter_env :: filter_env where
  "example_filter_env = \<lparr>severity_name = (\<lambda>s. if s = 3 then ''HIGH'' else ''UNKNOWN''), range_vulns = (\<lambda>m. m),
     sort_severity = sort_stable_func (less_cmp (BySeverity_Less (\<lambda>a b. 0))),
     read_policy = (\<lambda>_. Inr ()), prepare_policy = (\<lambda>_. Inr ()),
     rego_Eval = (\<lambda>f. Inr (Some (RBool (case f of FSecret s \<Rightarrow> SF_RuleID s = ''aws'' | _ \<Rightarrow> False)))),
     flt_vex = example_vex_env, ign_env = example_ignore_env\<rparr>"

definition example_options :: FilterOptions where
  "example_options = \<lparr>Opt_Severities = [3], Opt_IgnoreStatuses = [], Opt_IncludeNonFailures = False, Opt_IgnoreFile = [],
     Opt_PolicyFile = ''policy.rego'', Opt_IgnoreLicenses = [''GPL-3.0''], Opt_CacheDir = [], Opt_VEXSources = []\<rparr>"

definition example_secret :: DetectedSecret where
  "example_secret = \<lparr>SF_RuleID = ''aws'', SF_Category = [], SF_Severity = ''HIGH'', SF_Title = [], SF_StartLine = 1,
     SF_EndLine = 1, SF_Code = \<lparr>Code_Lines = []\<rparr>, SF_Match = [], SF_Layer = Layer_empty, SF_Offset = 0\<rparr>"

definition example_misconf :: DetectedMisconfiguration where
  "example_misconf = \<lparr>DM_Type = [], DM_ID = ''DS-0001'', DM_AVDID = [], DM_Aliases = [], DM_Title = [], DM_Description = [],
     DM_Message = [], DM_Namespace = [], DM_Query = [], DM_Resolution = [], DM_Severity = ''HIGH'', DM_PrimaryURL = [],
     DM_References = [], DM_Status = MisconfStatusFailure, DM_Layer = Layer_empty,
     DM_CauseMetadata = \<lparr>Cause_Resource = [], Cause_Provider = [], Cause_Service = [], Cause_StartLine = 0, Cause_EndLine = 0,
       Cause_Code = \<lparr>Code_Lines = []\<rparr>, Cause_Occurrences = [],
       Cause_RenderedCause = \<lparr>RC_Raw = [], RC_Highlighted = []\<rparr>\<rparr>, DM_Traces = []\<rparr>"

definition example_vuln :: "string \<Rightarrow> DetectedVulnerability" where
  "example_vuln fixed = DV_empty\<lparr>DV_VulnerabilityID := ''CVE-1'', DV_PkgName := ''bash'', DV_FixedVersion := fixed,
     DV_Vulnerability := db_Vulnerability_empty\<lparr>V_Severity := ''HIGH''\<rparr>\<rparr>"

definition example_result :: Result where
  "example_result = Result_empty\<lparr>Res_Target := ''app'', Res_Secrets := [example_secret],
     Res_Misconfigurations := [example_misconf, example_misconf], Res_Vulnerabilities := [example_vuln ''1.1'', example_vuln ''1.2'']\<rparr>"

theorem filterVulnerabilities_spec_witness:
  "distinct (map vuln_key (Res_Vulnerabilities (filterVulnerabilities example_filter_env example_result [''HIGH''] [] IgnoreConfig_empty))) \<and>
   map DV_FixedVersion (Res_Vulnerabilities (filterVulnerabilities example_filter_env example_result [''HIGH''] [] IgnoreConfig_empty)) = [''1.2'']"
proof
  have "is_range (range_vulns example_filter_env)" by (simp add: example_filter_env_def)
  from filterVulnerabilities_spec [OF this]
  show "distinct (map vuln_key (Res_Vulnerabilities (filterVulnerabilities example_filter_env example_result [''HIGH''] [] IgnoreConfig_empty)))"
    by (simp add: Let_def)
  show "map DV_FixedVersion (Res_Vulnerabilities (filterVulnerabilities example_filter_env example_result [''HIGH''] [] IgnoreConfig_empty)) = [''1.2'']"
    by code_simp
qed

theorem FilterResult_total_witness:
  "\<exists>x. FilterResult example_filter_env example_result IgnoreConfig_empty example_options = Some x"
proof -
  have "normalizer_ok (lic_env (ign_env example_filter_env))"
    using example_normalizer_ok by (simp add: example_filter_env_def example_ignore_env_def)
  then show ?thesis by (rule FilterResult_total)
qed

definition example_filtered :: Result where
  "example_filtered =
     (case FilterResult example_filter_env example_result IgnoreConfig_empty example_options of Some (Inr r) \<Rightarrow> r | _ \<Rightarrow> Result_empty)"

lemma example_FilterResult:
  "FilterResult example_filter_env example_result IgnoreConfig_empty example_options = Some (Inr example_filtered)"
  by code_simp

theorem FilterResult_summary_witness:
  "map_option Failures (Res_MisconfSummary example_filtered) = Some 2 \<and>
   map_option Failures (Res_MisconfSummary example_filtered) =
     Some (int (length (with_status MisconfStatusFailure (Res_Misconfigurations example_filtered))))"
proof -
  have two: "map_option Failures (Res_MisconfSummary example_filtered) = Some 2" by code_simp
  then obtain s where s: "Res_MisconfSummary example_filtered = Some s" by auto
  then have "Failures s = int (length (with_status MisconfStatusFailure (Res_Misconfigurations example_filtered)))"
    using FilterResult_summary [OF example_FilterResult] by simp
  then show ?thesis using two s by simp
qed

theorem FilterResult_accounts_witness:
  "Res_Secrets example_filtered = [] \<and> Res_ModifiedFindings example_filtered =
     [NewModifiedFinding (FSecret example_secret) FindingStatusIgnored ''Filtered by Rego'' ''policy.rego''] \<and>
   recorded example_filter_env ''app'' IgnoreConfig_empty example_options (Res_ModifiedFindings example_filtered) (FSecret example_secret)"
proof -
  have range: "is_range (range_vulns example_filter_env)" by (simp add: example_filter_env_def)
  have sort: "sorter (less_cmp (BySeverity_Less (\<lambda>a b. 0))) (sort_severity example_filter_env)"
    by (simp add: example_filter_env_def stable.sorter_axioms)
  have none: "Res_Secrets example_filtered = []" by code_simp
  have "example_secret \<in> set (Res_Secrets example_result)" by (simp add: example_result_def)
  moreover have "SF_Severity example_secret \<in> set (map (severity_name example_filter_env) (Opt_Severities example_options))"
    by code_simp
  moreover have "Res_Target example_result = ''app''" by (simp add: example_result_def)
  ultimately have "listed example_filtered (FSecret example_secret) \<or>
      recorded example_filter_env ''app'' IgnoreConfig_empty example_options (Res_ModifiedFindings example_filtered) (FSecret example_secret)"
    using FilterResult_accounts [OF example_FilterResult range sort] unfolding Let_def by metis
  moreover have "Res_ModifiedFindings example_filtered =
     [NewModifiedFinding (FSecret example_secret) FindingStatusIgnored ''Filtered by Rego'' ''policy.rego'']" by code_simp
  ultimately show ?thesis using none by (simp add: listed_def)
qed

end
