(* ===== verification/Rpc_Messages.thy ===== *)
theory Rpc_Messages
  imports Report_Types
begin

text \<open>
  The messages of the remote procedure calls, \<open>rpc/common\<close>, \<open>rpc/cache\<close> and \<open>rpc/scanner\<close>: one record per message,
  in the order of their definitions except that a message follows those it contains.

  A message field is a pointer and may be nil. The elements of a repeated field and the values of a map are
  messages, as the protobuf decoder makes them, except for the layers of a scan response, which the client tests
  for nil. An \<open>int32\<close> or \<open>int64\<close> is an integer, an enumeration its number.
\<close>

section \<open>Well-known types\<close>

text \<open>A \<open>structpb.Value\<close> is carried as a string; only its constructors and accessors, arguments, look into it.\<close>

type_synonym rpc_Value = string

record Timestamp =
  ts_Seconds :: int
  ts_Nanos :: int

section \<open>Messages\<close>

record rpc_OS =
  ros_Family :: string
  ros_Name :: string
  ros_Eosl :: bool
  ros_Extended :: bool
  ros_Supplier :: string

record rpc_Repository =
  rrepo_Family :: string
  rrepo_Release :: string

record rpc_PkgIdentifier =
  rid_Purl :: string
  rid_BomRef :: string
  rid_Uid :: string

record rpc_Location =
  rloc_StartLine :: int
  rloc_EndLine :: int

record rpc_Layer =
  rly_Digest :: string
  rly_DiffId :: string
  rly_CreatedBy :: string
  rly_Size :: int

record rpc_PackageRepository =
  rpr_Class :: string

record rpc_BuildInfo =
  rbi_ContentSets :: "string list"
  rbi_Nvr :: string
  rbi_Arch :: string

record rpc_Package =
  rpkg_Id :: string
  rpkg_Name :: string
  rpkg_Version :: string
  rpkg_Release :: string
  rpkg_Epoch :: int
  rpkg_Identifier :: "rpc_PkgIdentifier option"
  rpkg_Arch :: string
  rpkg_SrcName :: string
  rpkg_SrcVersion :: string
  rpkg_SrcRelease :: string
  rpkg_SrcEpoch :: int
  rpkg_Licenses :: "string list"
  rpkg_Locations :: "rpc_Location list"
  rpkg_Layer :: "rpc_Layer option"
  rpkg_FilePath :: string
  rpkg_DependsOn :: "string list"
  rpkg_Digest :: string
  rpkg_Dev :: bool
  rpkg_Indirect :: bool
  rpkg_Maintainer :: string
  rpkg_Relationship :: int
  rpkg_AnalyzedBy :: string
  rpkg_Repository :: "rpc_PackageRepository option"
  rpkg_Modularitylabel :: string
  rpkg_BuildInfo :: "rpc_BuildInfo option"
  rpkg_InstalledFiles :: "string list"

record rpc_PackageInfo =
  rpi_FilePath :: string
  rpi_Packages :: "rpc_Package list"

record rpc_Application =
  rapp_Type :: string
  rapp_FilePath :: string
  rapp_Packages :: "rpc_Package list"

record rpc_PolicyMetadata =
  rpm_Id :: string
  rpm_AdvId :: string
  rpm_Type :: string
  rpm_Title :: string
  rpm_Description :: string
  rpm_Severity :: string
  rpm_RecommendedActions :: string
  rpm_References :: "string list"
  rpm_Aliases :: "string list"

record rpc_Line =
  rline_Number :: int
  rline_Content :: string
  rline_IsCause :: bool
  rline_Annotation :: string
  rline_Truncated :: bool
  rline_Highlighted :: string
  rline_FirstCause :: bool
  rline_LastCause :: bool

record rpc_Code =
  rcode_Lines :: "rpc_Line list"

record rpc_RenderedCause =
  rrc_Raw :: string
  rrc_Highlighted :: string

record rpc_CauseMetadata =
  rcm_Resource :: string
  rcm_Provider :: string
  rcm_Service :: string
  rcm_StartLine :: int
  rcm_EndLine :: int
  rcm_Code :: "rpc_Code option"
  rcm_RenderedCause :: "rpc_RenderedCause option"

record rpc_MisconfResult =
  rmr_Namespace :: string
  rmr_Message :: string
  rmr_PolicyMetadata :: "rpc_PolicyMetadata option"
  rmr_CauseMetadata :: "rpc_CauseMetadata option"
  rmr_Query :: string

record rpc_Misconfiguration =
  rmc_FileType :: string
  rmc_FilePath :: string
  rmc_Successes :: "rpc_MisconfResult list"
  rmc_Warnings :: "rpc_MisconfResult list"
  rmc_Failures :: "rpc_MisconfResult list"

record rpc_DetectedMisconfiguration =
  rdm_Type :: string
  rdm_Id :: string
  rdm_Title :: string
  rdm_Description :: string
  rdm_Message :: string
  rdm_Namespace :: string
  rdm_Resolution :: string
  rdm_Severity :: int
  rdm_PrimaryUrl :: string
  rdm_References :: "string list"
  rdm_Status :: string
  rdm_Layer :: "rpc_Layer option"
  rdm_CauseMetadata :: "rpc_CauseMetadata option"
  rdm_AvdId :: string
  rdm_Query :: string
  rdm_Aliases :: "string list"

record rpc_CVSS =
  rcvss_V2Vector :: string
  rcvss_V3Vector :: string
  rcvss_V2Score :: float64
  rcvss_V3Score :: float64
  rcvss_V40Vector :: string
  rcvss_V40Score :: float64

record rpc_DataSource =
  rds_Id :: string
  rds_Name :: string
  rds_Url :: string

record rpc_Vulnerability =
  rv_VulnerabilityId :: string
  rv_PkgName :: string
  rv_InstalledVersion :: string
  rv_FixedVersion :: string
  rv_Title :: string
  rv_Description :: string
  rv_Severity :: int
  rv_References :: "string list"
  rv_PkgIdentifier :: "rpc_PkgIdentifier option"
  rv_Layer :: "rpc_Layer option"
  rv_SeveritySource :: string
  rv_Cvss :: "(string \<times> rpc_CVSS) list"
  rv_CweIds :: "string list"
  rv_PrimaryUrl :: string
  rv_PublishedDate :: "Timestamp option"
  rv_LastModifiedDate :: "Timestamp option"
  rv_CustomAdvisoryData :: "rpc_Value option"
  rv_CustomVulnData :: "rpc_Value option"
  rv_VendorIds :: "string list"
  rv_DataSource :: "rpc_DataSource option"
  rv_VendorSeverity :: "(string \<times> int) list"
  rv_PkgPath :: string
  rv_PkgId :: string
  rv_Status :: int

record rpc_CustomResource =
  rcr_Type :: string
  rcr_FilePath :: string
  rcr_Layer :: "rpc_Layer option"
  rcr_Data :: "rpc_Value option"

record rpc_SecretFinding =
  rsf_RuleId :: string
  rsf_Category :: string
  rsf_Severity :: string
  rsf_Title :: string
  rsf_StartLine :: int
  rsf_EndLine :: int
  rsf_Code :: "rpc_Code option"
  rsf_Match :: string
  rsf_Layer :: "rpc_Layer option"
  rsf_Offset :: int

record rpc_Secret =
  rsec_Filepath :: string
  rsec_Findings :: "rpc_SecretFinding list"

record rpc_DetectedLicense =
  rdl_Severity :: int
  rdl_Category :: int
  rdl_PkgName :: string
  rdl_FilePath :: string
  rdl_Name :: string
  rdl_Confidence :: float32
  rdl_Link :: string
  rdl_Text :: string

record rpc_LicenseFinding =
  rlfi_Category :: int
  rlfi_Name :: string
  rlfi_Confidence :: float32
  rlfi_Link :: string

record rpc_LicenseFile =
  rlf_LicenseType :: int
  rlf_FilePath :: string
  rlf_PkgName :: string
  rlf_Fingings :: "rpc_LicenseFinding list"
  rlf_Layer :: "rpc_Layer option"

record rpc_CryptoIdentity =
  rci_Method :: string
  rci_Value :: string
  rci_Parameters :: string

record rpc_CryptoCertificate =
  rcc_Subject :: string
  rcc_Issuer :: string
  rcc_SerialNumber :: string
  rcc_NotBefore :: "Timestamp option"
  rcc_NotAfter :: "Timestamp option"
  rcc_Format :: string
  rcc_KeyUsage :: "string list"
  rcc_ExtendedKeyUsage :: "string list"
  rcc_DnsNames :: "string list"
  rcc_EmailAddresses :: "string list"
  rcc_IpAddresses :: "string list"
  rcc_Uris :: "string list"
  rcc_BasicConstraintsValid :: bool
  rcc_IsCa :: bool
  rcc_MaxPathLen :: int
  rcc_MaxPathLenZero :: bool

record rpc_CryptoKey =
  rck_Size :: int
  rck_Curve :: string
  rck_Encrypted :: bool

record rpc_CryptoAlgorithm =
  rcal_Family :: string
  rcal_Primitive :: string
  rcal_ClassicalSecurityLevel :: "int option"
  rcal_NistQuantumSecurityLevel :: "int option"

record rpc_CryptoDescriptor =
  rcd_Kind :: string
  rcd_KeyType :: string
  rcd_Identity :: "rpc_CryptoIdentity option"

record rpc_CryptoRelationship =
  rcre_Type :: string
  rcre_RelatedAsset :: "rpc_CryptoDescriptor option"

record rpc_CryptoAsset =
  rca_Kind :: string
  rca_KeyType :: string
  rca_Identity :: "rpc_CryptoIdentity option"
  rca_Name :: string
  rca_Certificate :: "rpc_CryptoCertificate option"
  rca_Key :: "rpc_CryptoKey option"
  rca_Algorithm :: "rpc_CryptoAlgorithm option"
  rca_Relationships :: "rpc_CryptoRelationship list"
  rca_FilePath :: string
  rca_Format :: string
  rca_Encoding :: string
  rca_Layer :: "rpc_Layer option"
  rca_AssetId :: string
  rca_Keystore :: string

record rpc_CryptoEvidence =
  rce_SignatureAlgorithm :: string
  rce_SignatureAlgorithmOid :: string
  rce_KeySize :: int
  rce_Curve :: string
  rce_ClassicalSecurityLevel :: "int option"
  rce_NotAfter :: "Timestamp option"

record rpc_CryptoFinding =
  rcf_RuleId :: string
  rcf_Title :: string
  rcf_Severity :: string
  rcf_AssetId :: string
  rcf_Evidence :: "rpc_CryptoEvidence option"

record rpc_ArtifactInfo =
  rai_SchemaVersion :: int
  rai_Architecture :: string
  rai_Created :: "Timestamp option"
  rai_DockerVersion :: string
  rai_Os :: string
  rai_HistoryPackages :: "rpc_Package list"
  rai_Secret :: "rpc_Secret option"

record rpc_PutArtifactRequest =
  rpa_ArtifactId :: string
  rpa_ArtifactInfo :: "rpc_ArtifactInfo option"

record rpc_BlobInfo =
  rbl_SchemaVersion :: int
  rbl_Os :: "rpc_OS option"
  rbl_Repository :: "rpc_Repository option"
  rbl_PackageInfos :: "rpc_PackageInfo list"
  rbl_Applications :: "rpc_Application list"
  rbl_Misconfigurations :: "rpc_Misconfiguration list"
  rbl_OpaqueDirs :: "string list"
  rbl_WhiteoutFiles :: "string list"
  rbl_Digest :: string
  rbl_DiffId :: string
  rbl_CustomResources :: "rpc_CustomResource list"
  rbl_Secrets :: "rpc_Secret list"
  rbl_Licenses :: "rpc_LicenseFile list"
  rbl_Size :: int
  rbl_CreatedBy :: string
  rbl_BuildInfo :: "rpc_BuildInfo option"
  rbl_CryptoAssets :: "rpc_CryptoAsset list"

record rpc_PutBlobRequest =
  rpb_DiffId :: string
  rpb_BlobInfo :: "rpc_BlobInfo option"

record rpc_MissingBlobsRequest =
  rmb_ArtifactId :: string
  rmb_BlobIds :: "string list"

record rpc_MissingBlobsResponse =
  rmbr_MissingArtifact :: bool
  rmbr_MissingBlobIds :: "string list"

record rpc_DeleteBlobsRequest =
  rdb_BlobIds :: "string list"

record rpc_Licenses =
  rlic_Names :: "string list"

record rpc_ScanOptions =
  rso_PkgTypes :: "string list"
  rso_Scanners :: "string list"
  rso_LicenseCategories :: "(string \<times> rpc_Licenses) list"
  rso_IncludeDevDeps :: bool
  rso_PkgRelationships :: "string list"
  rso_Distro :: "rpc_OS option"
  rso_VulnSeveritySources :: "string list"
  rso_LicenseFull :: bool
  rso_CryptoChecks :: bool

record rpc_ScanRequest =
  rsr_Target :: string
  rsr_ArtifactId :: string
  rsr_BlobIds :: "string list"
  rsr_Options :: "rpc_ScanOptions option"

record rpc_Result =
  rres_Target :: string
  rres_Vulnerabilities :: "rpc_Vulnerability list"
  rres_Misconfigurations :: "rpc_DetectedMisconfiguration list"
  rres_Class :: string
  rres_Type :: string
  rres_Packages :: "rpc_Package list"
  rres_CustomResources :: "rpc_CustomResource list"
  rres_Secrets :: "rpc_SecretFinding list"
  rres_Licenses :: "rpc_DetectedLicense list"
  rres_CryptoAssets :: "rpc_CryptoAsset list"
  rres_CryptoFindings :: "rpc_CryptoFinding list"

record rpc_ScanResponse =
  rsp_Os :: "rpc_OS option"
  rsp_Results :: "rpc_Result list"
  rsp_Layers :: "rpc_Layer option list"

end
