(* ===== verification/Rpc_Convert.thy ===== *)
theory Rpc_Convert
  imports Rpc_Messages Scan_Service
begin

text \<open>
  The conversions between the data of a scan and the messages of the remote procedure calls, \<open>pkg/rpc/convert.go\<close>.

  Arguments, in \<open>rpc_env\<close>, are the third-party code that the conversions call: package URLs, the severities of
  \<open>trivy-db\<close>, timestamps and values of protobuf, the JSON encoder, and the order in which Go ranges over the two
  license maps. A conversion that dereferences a nil message panics: it returns \<open>None\<close>.
\<close>

section \<open>Numbers\<close>

text \<open>The conversion \<open>int32(i)\<close> keeps the low 32 bits.\<close>

definition wrap32 :: "int \<Rightarrow> int" where
  "wrap32 i = (i + 2 ^ 31) mod 2 ^ 32 - 2 ^ 31"

definition int32_range :: "int \<Rightarrow> bool" where
  "int32_range i \<longleftrightarrow> - (2 ^ 31) \<le> i \<and> i < 2 ^ 31"

text \<open>
  The conversions between the IEEE 754 formats: \<open>float32(x)\<close> rounds to nearest, ties to even, and overflows to an
  infinity; \<open>float64(x)\<close> is exact. A NaN becomes quiet.
\<close>

definition round_even :: "nat \<Rightarrow> nat \<Rightarrow> nat" where
  "round_even x n =
     (let q = x div 2 ^ n; r = x mod 2 ^ n; h = 2 ^ (n - 1)
      in if h < r \<or> (r = h \<and> odd q) then q + 1 else q)"

definition float32_of :: "float64 \<Rightarrow> float32" where
  "float32_of x =
     (let sign = x div 2 ^ 63; expo = (x div 2 ^ 52) mod 2 ^ 11; frac = x mod 2 ^ 52
      in sign * 2 ^ 31 +
         (if expo = 2047 then
            (if frac = 0 then 255 * 2 ^ 23 else 255 * 2 ^ 23 + 2 ^ 22 + (frac div 2 ^ 29) mod 2 ^ 22)
          else if 897 \<le> expo then
            min ((expo - 897) * 2 ^ 23 + round_even (2 ^ 52 + frac) 29) (255 * 2 ^ 23)
          else
            round_even ((if expo = 0 then 0 else 2 ^ 52) + frac) (29 + (897 - max 1 expo))))"

fun log2_floor :: "nat \<Rightarrow> nat" where
  "log2_floor n = (if n < 2 then 0 else Suc (log2_floor (n div 2)))"

definition float64_of :: "float32 \<Rightarrow> float64" where
  "float64_of x =
     (let sign = x div 2 ^ 31; expo = (x div 2 ^ 23) mod 2 ^ 8; frac = x mod 2 ^ 23
      in sign * 2 ^ 63 +
         (if expo = 255 then
            (if frac = 0 then 2047 * 2 ^ 52 else 2047 * 2 ^ 52 + 2 ^ 51 + (frac mod 2 ^ 22) * 2 ^ 29)
          else if expo \<noteq> 0 then (expo + 896) * 2 ^ 52 + frac * 2 ^ 29
          else if frac = 0 then 0
          else let k = log2_floor frac in (k + 874) * 2 ^ 52 + (frac - 2 ^ k) * 2 ^ (52 - k)))"

section \<open>Third-party code\<close>

record rpc_env =
  rpc_purl_String :: "PackageURL \<Rightarrow> string"
  rpc_purl_FromString :: "string \<Rightarrow> PackageURL \<times> go_error option"
  rpc_NewSeverity :: "string \<Rightarrow> Severity \<times> go_error option"
  rpc_severity_String :: "Severity \<Rightarrow> string"
  ts_New :: "go_time \<Rightarrow> Timestamp"
  ts_AsTime :: "Timestamp option \<Rightarrow> go_time"
  NewValue :: "string \<Rightarrow> rpc_Value option \<times> go_error option"
  NewStringValue :: "string \<Rightarrow> rpc_Value"
  AsInterface :: "rpc_Value \<Rightarrow> string"
  any_Value :: "rpc_Value option \<Rightarrow> string"
  json_Marshal :: "string \<Rightarrow> string"
  range_licenses :: "(int \<times> string) list \<Rightarrow> (int \<times> string) list"

text \<open>
  What the conversions rely on: a package URL and a timestamp read back as what was written, and a range visits
  every entry of its map once.
\<close>

definition rpc_env_ok :: "rpc_env \<Rightarrow> bool" where
  "rpc_env_ok env \<longleftrightarrow>
     (\<forall>t. ts_AsTime env (Some (ts_New env t)) = t) \<and> is_range (range_licenses env)"

definition purl_survives :: "rpc_env \<Rightarrow> PackageURL \<Rightarrow> bool" where
  "purl_survives env p \<longleftrightarrow>
     rpc_purl_String env p \<noteq> [] \<and> fst (rpc_purl_FromString env (rpc_purl_String env p)) = p"

section \<open>License categories and types\<close>

definition LicenseCategoryMap :: "(int \<times> LicenseCategory) list" where
  "LicenseCategoryMap =
     [(0, ''''), (1, CategoryForbidden), (2, CategoryRestricted), (3, CategoryReciprocal), (4, CategoryNotice),
      (5, CategoryPermissive), (6, CategoryUnencumbered), (7, CategoryUnknown)]"

definition LicenseTypeMap :: "(int \<times> string) list" where
  "LicenseTypeMap = [(0, ''''), (1, LicenseTypeDpkg), (2, LicenseTypeHeader), (3, LicenseTypeFile)]"

definition ByValueOr :: "(int \<times> string) list \<Rightarrow> string \<Rightarrow> int \<Rightarrow> int" where
  "ByValueOr m val d = (case find (\<lambda>(_, v). v = val) m of Some (k, _) \<Rightarrow> k | None \<Rightarrow> d)"

definition ConvertToRPCLicenseCategory :: "rpc_env \<Rightarrow> LicenseCategory \<Rightarrow> int" where
  "ConvertToRPCLicenseCategory env category = ByValueOr (range_licenses env LicenseCategoryMap) category 0"

definition ConvertToRPCLicenseType :: "rpc_env \<Rightarrow> string \<Rightarrow> int" where
  "ConvertToRPCLicenseType env ty = ByValueOr (range_licenses env LicenseTypeMap) ty 0"

definition ConvertFromRPCLicenseCategory :: "int \<Rightarrow> LicenseCategory" where
  "ConvertFromRPCLicenseCategory c = (case map_of LicenseCategoryMap c of Some v \<Rightarrow> v | None \<Rightarrow> [])"

definition ConvertFromRPCLicenseType :: "int \<Rightarrow> string" where
  "ConvertFromRPCLicenseType c = (case map_of LicenseTypeMap c of Some v \<Rightarrow> v | None \<Rightarrow> [])"

section \<open>Shared parts\<close>

definition ConvertToRPCLayer :: "Layer \<Rightarrow> rpc_Layer" where
  "ConvertToRPCLayer layer = \<lparr>rly_Digest = Layer_Digest layer, rly_DiffId = Layer_DiffID layer,
     rly_CreatedBy = Layer_CreatedBy layer, rly_Size = Layer_Size layer\<rparr>"

definition ConvertFromRPCLayer :: "rpc_Layer option \<Rightarrow> Layer" where
  "ConvertFromRPCLayer l =
     (case l of
        None \<Rightarrow> Layer_empty
      | Some rpcLayer \<Rightarrow> \<lparr>Layer_Size = rly_Size rpcLayer, Layer_Digest = rly_Digest rpcLayer,
          Layer_DiffID = rly_DiffId rpcLayer, Layer_CreatedBy = rly_CreatedBy rpcLayer\<rparr>)"

definition convertOptionalInt :: "(int \<Rightarrow> int) \<Rightarrow> int option \<Rightarrow> int option" where
  "convertOptionalInt conv v = (case v of None \<Rightarrow> None | Some i \<Rightarrow> Some (conv i))"

definition convertToRPCTime :: "rpc_env \<Rightarrow> go_time \<Rightarrow> Timestamp option" where
  "convertToRPCTime env t = (if time_IsZero t then None else Some (ts_New env t))"

definition convertFromRPCTime :: "rpc_env \<Rightarrow> Timestamp option \<Rightarrow> go_time" where
  "convertFromRPCTime env ts = (case ts of None \<Rightarrow> 0 | Some _ \<Rightarrow> ts_AsTime env ts)"

definition ConvertToRPCCode :: "Code \<Rightarrow> rpc_Code" where
  "ConvertToRPCCode code = \<lparr>rcode_Lines = map (\<lambda>l. \<lparr>rline_Number = wrap32 (Line_Number l),
     rline_Content = Line_Content l, rline_IsCause = Line_IsCause l, rline_Annotation = Line_Annotation l,
     rline_Truncated = Line_Truncated l, rline_Highlighted = Line_Highlighted l, rline_FirstCause = Line_FirstCause l,
     rline_LastCause = Line_LastCause l\<rparr>) (Code_Lines code)\<rparr>"

definition ConvertFromRPCCode :: "rpc_Code option \<Rightarrow> Code" where
  "ConvertFromRPCCode c =
     (case c of
        None \<Rightarrow> \<lparr>Code_Lines = []\<rparr>
      | Some rpcCode \<Rightarrow> \<lparr>Code_Lines = map (\<lambda>l. \<lparr>Line_Number = rline_Number l,
          Line_Content = rline_Content l, Line_IsCause = rline_IsCause l, Line_Annotation = rline_Annotation l,
          Line_Truncated = rline_Truncated l, Line_Highlighted = rline_Highlighted l,
          Line_FirstCause = rline_FirstCause l, Line_LastCause = rline_LastCause l\<rparr>) (rcode_Lines rpcCode)\<rparr>)"

section \<open>Packages\<close>

definition ConvertToRPCPackageRepository :: "string \<Rightarrow> rpc_PackageRepository option" where
  "ConvertToRPCPackageRepository class = (if class = [] then None else Some \<lparr>rpr_Class = class\<rparr>)"

definition ConvertFromRPCPackageRepository :: "rpc_PackageRepository option \<Rightarrow> string" where
  "ConvertFromRPCPackageRepository r = (case r of None \<Rightarrow> [] | Some repo \<Rightarrow> rpr_Class repo)"

definition ConvertToRPCPkgIdentifier :: "rpc_env \<Rightarrow> PkgIdentifier \<Rightarrow> rpc_PkgIdentifier option" where
  "ConvertToRPCPkgIdentifier env pkg =
     (if PkgIdentifier_Empty pkg then None
      else Some \<lparr>rid_Purl = (case Id_PURL pkg of Some p \<Rightarrow> rpc_purl_String env p | None \<Rightarrow> []),
             rid_BomRef = Id_BOMRef pkg, rid_Uid = Id_UID pkg\<rparr>)"

text \<open>A package URL that does not parse is logged, and the value returned with the error is kept.\<close>

definition ConvertFromRPCPkgIdentifier :: "rpc_env \<Rightarrow> rpc_PkgIdentifier option \<Rightarrow> PkgIdentifier" where
  "ConvertFromRPCPkgIdentifier env i =
     (case i of
        None \<Rightarrow> PkgIdentifier_empty
      | Some pkg \<Rightarrow> \<lparr>Id_UID = rid_Uid pkg,
          Id_PURL = (if rid_Purl pkg \<noteq> [] then Some (fst (rpc_purl_FromString env (rid_Purl pkg))) else None),
          Id_BOMRef = rid_BomRef pkg\<rparr>)"

definition ConvertToRPCLocations :: "Location list \<Rightarrow> rpc_Location list" where
  "ConvertToRPCLocations locs =
     map (\<lambda>l. \<lparr>rloc_StartLine = wrap32 (StartLine l), rloc_EndLine = wrap32 (EndLine l)\<rparr>) locs"

definition ConvertFromRPCLocation :: "rpc_Location list \<Rightarrow> Location list" where
  "ConvertFromRPCLocation locs = map (\<lambda>l. \<lparr>StartLine = rloc_StartLine l, EndLine = rloc_EndLine l\<rparr>) locs"

definition ConvertToRPCBuildInfo :: "BuildInfo option \<Rightarrow> rpc_BuildInfo option" where
  "ConvertToRPCBuildInfo b =
     (case b of
        None \<Rightarrow> None
      | Some bi \<Rightarrow> Some \<lparr>rbi_ContentSets = ContentSets bi, rbi_Nvr = Nvr bi, rbi_Arch = Build_Arch bi\<rparr>)"

definition ConvertFromRPCBuildInfo :: "rpc_BuildInfo option \<Rightarrow> BuildInfo option" where
  "ConvertFromRPCBuildInfo b =
     (case b of
        None \<Rightarrow> None
      | Some bi \<Rightarrow> Some \<lparr>ContentSets = rbi_ContentSets bi, Nvr = rbi_Nvr bi, Build_Arch = rbi_Arch bi\<rparr>)"

definition ConvertToRPCPkg :: "rpc_env \<Rightarrow> Package \<Rightarrow> rpc_Package" where
  "ConvertToRPCPkg env pkg = \<lparr>
     rpkg_Id = Pkg_ID pkg, rpkg_Name = Pkg_Name pkg, rpkg_Version = Pkg_Version pkg, rpkg_Release = Pkg_Release pkg,
     rpkg_Epoch = wrap32 (Pkg_Epoch pkg), rpkg_Identifier = ConvertToRPCPkgIdentifier env (Pkg_Identifier pkg),
     rpkg_Arch = Pkg_Arch pkg, rpkg_SrcName = Pkg_SrcName pkg, rpkg_SrcVersion = Pkg_SrcVersion pkg,
     rpkg_SrcRelease = Pkg_SrcRelease pkg, rpkg_SrcEpoch = wrap32 (Pkg_SrcEpoch pkg), rpkg_Licenses = Pkg_Licenses pkg,
     rpkg_Locations = ConvertToRPCLocations (Pkg_Locations pkg), rpkg_Layer = Some (ConvertToRPCLayer (Pkg_Layer pkg)),
     rpkg_FilePath = Pkg_FilePath pkg, rpkg_DependsOn = Pkg_DependsOn pkg, rpkg_Digest = Pkg_Digest pkg,
     rpkg_Dev = Pkg_Dev pkg, rpkg_Indirect = Pkg_Indirect pkg, rpkg_Maintainer = Pkg_Maintainer pkg,
     rpkg_Relationship = wrap32 (Pkg_Relationship pkg), rpkg_AnalyzedBy = Pkg_AnalyzedBy pkg,
     rpkg_Repository = ConvertToRPCPackageRepository (Pkg_RepositoryClass pkg),
     rpkg_Modularitylabel = Pkg_Modularitylabel pkg, rpkg_BuildInfo = ConvertToRPCBuildInfo (Pkg_BuildInfo pkg),
     rpkg_InstalledFiles = Pkg_InstalledFiles pkg\<rparr>"

definition ConvertToRPCPkgs :: "rpc_env \<Rightarrow> Package list \<Rightarrow> rpc_Package list" where
  "ConvertToRPCPkgs env pkgs = map (ConvertToRPCPkg env) pkgs"

definition ConvertFromRPCPkg :: "rpc_env \<Rightarrow> rpc_Package \<Rightarrow> Package" where
  "ConvertFromRPCPkg env pkg = \<lparr>
     Pkg_ID = rpkg_Id pkg, Pkg_Name = rpkg_Name pkg,
     Pkg_Identifier = ConvertFromRPCPkgIdentifier env (rpkg_Identifier pkg),
     Pkg_Version = rpkg_Version pkg, Pkg_Release = rpkg_Release pkg, Pkg_Epoch = rpkg_Epoch pkg,
     Pkg_Arch = rpkg_Arch pkg, Pkg_Dev = rpkg_Dev pkg, Pkg_SrcName = rpkg_SrcName pkg,
     Pkg_SrcVersion = rpkg_SrcVersion pkg, Pkg_SrcRelease = rpkg_SrcRelease pkg, Pkg_SrcEpoch = rpkg_SrcEpoch pkg,
     Pkg_Licenses = rpkg_Licenses pkg, Pkg_Maintainer = rpkg_Maintainer pkg, Pkg_ExternalReferences = [],
     Pkg_Modularitylabel = rpkg_Modularitylabel pkg, Pkg_BuildInfo = ConvertFromRPCBuildInfo (rpkg_BuildInfo pkg),
     Pkg_RepositoryClass = ConvertFromRPCPackageRepository (rpkg_Repository pkg), Pkg_Indirect = rpkg_Indirect pkg,
     Pkg_Relationship = rpkg_Relationship pkg, Pkg_DependsOn = rpkg_DependsOn pkg,
     Pkg_Layer = ConvertFromRPCLayer (rpkg_Layer pkg), Pkg_FilePath = rpkg_FilePath pkg, Pkg_Digest = rpkg_Digest pkg,
     Pkg_Locations = ConvertFromRPCLocation (rpkg_Locations pkg), Pkg_InstalledFiles = rpkg_InstalledFiles pkg,
     Pkg_AnalyzedBy = rpkg_AnalyzedBy pkg\<rparr>"

definition ConvertFromRPCPkgs :: "rpc_env \<Rightarrow> rpc_Package list \<Rightarrow> Package list" where
  "ConvertFromRPCPkgs env rpcPkgs = map (ConvertFromRPCPkg env) rpcPkgs"

section \<open>Secrets\<close>

definition ConvertToRPCSecretFinding :: "SecretFinding \<Rightarrow> rpc_SecretFinding" where
  "ConvertToRPCSecretFinding f = \<lparr>rsf_RuleId = SF_RuleID f, rsf_Category = SF_Category f, rsf_Severity = SF_Severity f,
     rsf_Title = SF_Title f, rsf_StartLine = wrap32 (SF_StartLine f), rsf_EndLine = wrap32 (SF_EndLine f),
     rsf_Code = Some (ConvertToRPCCode (SF_Code f)), rsf_Match = SF_Match f,
     rsf_Layer = Some (ConvertToRPCLayer (SF_Layer f)), rsf_Offset = wrap32 (SF_Offset f)\<rparr>"

definition ConvertToRPCSecretFindings :: "SecretFinding list \<Rightarrow> rpc_SecretFinding list" where
  "ConvertToRPCSecretFindings findings = map ConvertToRPCSecretFinding findings"

text \<open>The layer is dereferenced without a test for nil, and its size is not read.\<close>

definition ConvertFromRPCSecretFinding :: "rpc_SecretFinding \<Rightarrow> SecretFinding option" where
  "ConvertFromRPCSecretFinding f =
     (case rsf_Layer f of
        None \<Rightarrow> None
      | Some l \<Rightarrow> Some \<lparr>SF_RuleID = rsf_RuleId f, SF_Category = rsf_Category f, SF_Severity = rsf_Severity f,
          SF_Title = rsf_Title f, SF_StartLine = rsf_StartLine f, SF_EndLine = rsf_EndLine f,
          SF_Code = ConvertFromRPCCode (rsf_Code f), SF_Match = rsf_Match f,
          SF_Layer = Layer_empty\<lparr>Layer_Digest := rly_Digest l, Layer_DiffID := rly_DiffId l,
            Layer_CreatedBy := rly_CreatedBy l\<rparr>,
          SF_Offset = rsf_Offset f\<rparr>)"

definition ConvertFromRPCSecretFindings :: "rpc_SecretFinding list \<Rightarrow> SecretFinding list option" where
  "ConvertFromRPCSecretFindings rpcFindings = those (map ConvertFromRPCSecretFinding rpcFindings)"

definition ConvertFromRPCDetectedSecrets :: "rpc_SecretFinding list \<Rightarrow> DetectedSecret list option" where
  "ConvertFromRPCDetectedSecrets rpcFindings =
     (if length rpcFindings = 0 then Some [] else ConvertFromRPCSecretFindings rpcFindings)"

definition ConvertToRPCSecret :: "Secret option \<Rightarrow> rpc_Secret option" where
  "ConvertToRPCSecret s =
     (case s of
        None \<Rightarrow> None
      | Some secret \<Rightarrow> Some \<lparr>rsec_Filepath = Secret_FilePath secret,
          rsec_Findings = ConvertToRPCSecretFindings (Secret_Findings secret)\<rparr>)"

text \<open>The outer \<open>None\<close> is a panic, the inner one nil.\<close>

definition ConvertFromRPCSecret :: "rpc_Secret option \<Rightarrow> Secret option option" where
  "ConvertFromRPCSecret s =
     (case s of
        None \<Rightarrow> Some None
      | Some rpcSecret \<Rightarrow> map_option (\<lambda>fs. Some \<lparr>Secret_FilePath = rsec_Filepath rpcSecret, Secret_Findings = fs\<rparr>)
          (ConvertFromRPCSecretFindings (rsec_Findings rpcSecret)))"

definition ConvertToRPCSecrets :: "Secret list \<Rightarrow> rpc_Secret list" where
  "ConvertToRPCSecrets secrets = List.map_filter (\<lambda>s. ConvertToRPCSecret (Some s)) secrets"

text \<open>The conversion of an element, which is not nil, is dereferenced.\<close>

definition ConvertFromRPCSecrets :: "rpc_Secret list \<Rightarrow> Secret list option" where
  "ConvertFromRPCSecrets recSecrets = those (map (\<lambda>s. Option.bind (ConvertFromRPCSecret (Some s)) (\<lambda>x. x)) recSecrets)"

section \<open>Licenses\<close>

definition ConvertToRPCLicenseFindings :: "rpc_env \<Rightarrow> LicenseFinding list \<Rightarrow> rpc_LicenseFinding list" where
  "ConvertToRPCLicenseFindings env findings =
     map (\<lambda>f. \<lparr>rlfi_Category = ConvertToRPCLicenseCategory env (LF_Category f), rlfi_Name = LF_Name f,
       rlfi_Confidence = float32_of (LF_Confidence f), rlfi_Link = LF_Link f\<rparr>) findings"

definition ConvertFromRPCLicenseFindings :: "rpc_LicenseFinding list \<Rightarrow> LicenseFinding list" where
  "ConvertFromRPCLicenseFindings rpcFindings =
     map (\<lambda>f. \<lparr>LF_Category = ConvertFromRPCLicenseCategory (rlfi_Category f), LF_Name = rlfi_Name f,
       LF_Confidence = float64_of (rlfi_Confidence f), LF_Link = rlfi_Link f\<rparr>) rpcFindings"

definition ConvertToRPCLicenseFiles :: "rpc_env \<Rightarrow> LicenseFile list \<Rightarrow> rpc_LicenseFile list" where
  "ConvertToRPCLicenseFiles env licenses =
     map (\<lambda>lic. \<lparr>rlf_LicenseType = ConvertToRPCLicenseType env (License_Type lic), rlf_FilePath = License_FilePath lic,
       rlf_PkgName = License_PkgName lic, rlf_Fingings = ConvertToRPCLicenseFindings env (License_Findings lic),
       rlf_Layer = Some (ConvertToRPCLayer (License_Layer lic))\<rparr>) licenses"

definition ConvertFromRPCLicenseFiles :: "rpc_LicenseFile list \<Rightarrow> LicenseFile list" where
  "ConvertFromRPCLicenseFiles rpcLicenses =
     map (\<lambda>lic. \<lparr>License_Type = ConvertFromRPCLicenseType (rlf_LicenseType lic), License_FilePath = rlf_FilePath lic,
       License_PkgName = rlf_PkgName lic, License_Findings = ConvertFromRPCLicenseFindings (rlf_Fingings lic),
       License_Layer = ConvertFromRPCLayer (rlf_Layer lic)\<rparr>) rpcLicenses"

definition ConvertToRPCLicenses :: "rpc_env \<Rightarrow> DetectedLicense list \<Rightarrow> rpc_DetectedLicense list" where
  "ConvertToRPCLicenses env licenses =
     map (\<lambda>l. \<lparr>rdl_Severity = wrap32 (fst (rpc_NewSeverity env (DL_Severity l))),
       rdl_Category = ConvertToRPCLicenseCategory env (DL_Category l), rdl_PkgName = DL_PkgName l,
       rdl_FilePath = DL_FilePath l, rdl_Name = DL_Name l, rdl_Confidence = float32_of (DL_Confidence l),
       rdl_Link = DL_Link l, rdl_Text = DL_Text l\<rparr>) licenses"

definition ConvertFromRPCDetectedLicenses :: "rpc_env \<Rightarrow> rpc_DetectedLicense list \<Rightarrow> DetectedLicense list" where
  "ConvertFromRPCDetectedLicenses env rpcLicenses =
     map (\<lambda>l. \<lparr>DL_Severity = rpc_severity_String env (rdl_Severity l),
       DL_Category = ConvertFromRPCLicenseCategory (rdl_Category l), DL_PkgName = rdl_PkgName l,
       DL_FilePath = rdl_FilePath l, DL_Name = rdl_Name l, DL_Text = rdl_Text l,
       DL_Confidence = float64_of (rdl_Confidence l), DL_Link = rdl_Link l\<rparr>) rpcLicenses"

section \<open>Cryptographic assets and findings\<close>

definition convertToRPCCryptoIdentity :: "CryptoIdentity \<Rightarrow> rpc_CryptoIdentity" where
  "convertToRPCCryptoIdentity i = \<lparr>rci_Method = Identity_Method i, rci_Value = Identity_Value i,
     rci_Parameters = Identity_Parameters i\<rparr>"

definition convertFromRPCCryptoIdentity :: "rpc_CryptoIdentity option \<Rightarrow> CryptoIdentity" where
  "convertFromRPCCryptoIdentity r =
     (case r of
        None \<Rightarrow> \<lparr>Identity_Method = [], Identity_Value = [], Identity_Parameters = []\<rparr>
      | Some i \<Rightarrow> \<lparr>Identity_Method = rci_Method i, Identity_Value = rci_Value i, Identity_Parameters = rci_Parameters i\<rparr>)"

definition convertToRPCCryptoCertificate :: "rpc_env \<Rightarrow> CryptoCertificate option \<Rightarrow> rpc_CryptoCertificate option" where
  "convertToRPCCryptoCertificate env c =
     (case c of
        None \<Rightarrow> None
      | Some cert \<Rightarrow> Some \<lparr>rcc_Subject = Cert_Subject cert, rcc_Issuer = Cert_Issuer cert,
          rcc_SerialNumber = Cert_SerialNumber cert, rcc_NotBefore = convertToRPCTime env (Cert_NotBefore cert),
          rcc_NotAfter = convertToRPCTime env (Cert_NotAfter cert), rcc_Format = Cert_Format cert,
          rcc_KeyUsage = Cert_KeyUsage cert, rcc_ExtendedKeyUsage = Cert_ExtendedKeyUsage cert,
          rcc_DnsNames = Cert_DNSNames cert, rcc_EmailAddresses = Cert_EmailAddresses cert,
          rcc_IpAddresses = Cert_IPAddresses cert, rcc_Uris = Cert_URIs cert,
          rcc_BasicConstraintsValid = Cert_BasicConstraintsValid cert, rcc_IsCa = Cert_IsCA cert,
          rcc_MaxPathLen = Cert_MaxPathLen cert, rcc_MaxPathLenZero = Cert_MaxPathLenZero cert\<rparr>)"

definition convertFromRPCCryptoCertificate :: "rpc_env \<Rightarrow> rpc_CryptoCertificate option \<Rightarrow> CryptoCertificate option" where
  "convertFromRPCCryptoCertificate env c =
     (case c of
        None \<Rightarrow> None
      | Some cert \<Rightarrow> Some \<lparr>Cert_Subject = rcc_Subject cert, Cert_Issuer = rcc_Issuer cert,
          Cert_SerialNumber = rcc_SerialNumber cert, Cert_NotBefore = convertFromRPCTime env (rcc_NotBefore cert),
          Cert_NotAfter = convertFromRPCTime env (rcc_NotAfter cert), Cert_Format = rcc_Format cert,
          Cert_KeyUsage = rcc_KeyUsage cert, Cert_ExtendedKeyUsage = rcc_ExtendedKeyUsage cert,
          Cert_DNSNames = rcc_DnsNames cert, Cert_EmailAddresses = rcc_EmailAddresses cert,
          Cert_IPAddresses = rcc_IpAddresses cert, Cert_URIs = rcc_Uris cert,
          Cert_BasicConstraintsValid = rcc_BasicConstraintsValid cert, Cert_IsCA = rcc_IsCa cert,
          Cert_MaxPathLen = rcc_MaxPathLen cert, Cert_MaxPathLenZero = rcc_MaxPathLenZero cert\<rparr>)"

definition convertToRPCCryptoKey :: "CryptoKey option \<Rightarrow> rpc_CryptoKey option" where
  "convertToRPCCryptoKey k =
     (case k of
        None \<Rightarrow> None
      | Some key \<Rightarrow> Some \<lparr>rck_Size = wrap32 (Key_Size key), rck_Curve = Key_Curve key, rck_Encrypted = Key_Encrypted key\<rparr>)"

definition convertFromRPCCryptoKey :: "rpc_CryptoKey option \<Rightarrow> CryptoKey option" where
  "convertFromRPCCryptoKey k =
     (case k of
        None \<Rightarrow> None
      | Some key \<Rightarrow> Some \<lparr>Key_Size = rck_Size key, Key_Curve = rck_Curve key, Key_Encrypted = rck_Encrypted key\<rparr>)"

definition convertToRPCCryptoAlgorithm :: "CryptoAlgorithm option \<Rightarrow> rpc_CryptoAlgorithm option" where
  "convertToRPCCryptoAlgorithm a =
     (case a of
        None \<Rightarrow> None
      | Some alg \<Rightarrow> Some \<lparr>rcal_Family = Alg_Family alg, rcal_Primitive = Alg_Primitive alg,
          rcal_ClassicalSecurityLevel = convertOptionalInt wrap32 (Alg_ClassicalSecurityLevel alg),
          rcal_NistQuantumSecurityLevel = convertOptionalInt wrap32 (Alg_NISTQuantumSecurityLevel alg)\<rparr>)"

definition convertFromRPCCryptoAlgorithm :: "rpc_CryptoAlgorithm option \<Rightarrow> CryptoAlgorithm option" where
  "convertFromRPCCryptoAlgorithm a =
     (case a of
        None \<Rightarrow> None
      | Some alg \<Rightarrow> Some \<lparr>Alg_Family = rcal_Family alg, Alg_Primitive = rcal_Primitive alg,
          Alg_ClassicalSecurityLevel = convertOptionalInt (\<lambda>i. i) (rcal_ClassicalSecurityLevel alg),
          Alg_NISTQuantumSecurityLevel = convertOptionalInt (\<lambda>i. i) (rcal_NistQuantumSecurityLevel alg)\<rparr>)"

definition convertToRPCCryptoRelationships :: "CryptoRelationship list \<Rightarrow> rpc_CryptoRelationship list" where
  "convertToRPCCryptoRelationships relationships =
     map (\<lambda>r. \<lparr>rcre_Type = Rel_Type r,
       rcre_RelatedAsset = Some \<lparr>rcd_Kind = Desc_Kind (Rel_RelatedAsset r),
         rcd_KeyType = Desc_KeyType (Rel_RelatedAsset r),
         rcd_Identity = Some (convertToRPCCryptoIdentity (Desc_Identity (Rel_RelatedAsset r)))\<rparr>\<rparr>) relationships"

definition convertFromRPCCryptoDescriptor :: "rpc_CryptoDescriptor option \<Rightarrow> CryptoDescriptor" where
  "convertFromRPCCryptoDescriptor d =
     (case d of
        None \<Rightarrow> \<lparr>Desc_Kind = [], Desc_KeyType = [],
          Desc_Identity = \<lparr>Identity_Method = [], Identity_Value = [], Identity_Parameters = []\<rparr>\<rparr>
      | Some desc \<Rightarrow> \<lparr>Desc_Kind = rcd_Kind desc, Desc_KeyType = rcd_KeyType desc,
          Desc_Identity = convertFromRPCCryptoIdentity (rcd_Identity desc)\<rparr>)"

definition convertFromRPCCryptoRelationships :: "rpc_CryptoRelationship list \<Rightarrow> CryptoRelationship list" where
  "convertFromRPCCryptoRelationships rpcRelationships =
     List.map_filter (\<lambda>r.
       let descriptor = convertFromRPCCryptoDescriptor (rcre_RelatedAsset r)
       in if \<not> is_ok (Descriptor_Validate descriptor) then None
          else Some \<lparr>Rel_Type = rcre_Type r, Rel_RelatedAsset = descriptor\<rparr>) rpcRelationships"

definition ConvertToRPCCryptoAsset :: "rpc_env \<Rightarrow> CryptoAsset \<Rightarrow> rpc_CryptoAsset" where
  "ConvertToRPCCryptoAsset env asset = \<lparr>rca_Kind = Asset_Kind asset, rca_KeyType = Asset_KeyType asset,
     rca_Identity = Some (convertToRPCCryptoIdentity (Asset_Identity asset)), rca_Name = Asset_Name asset,
     rca_Certificate = convertToRPCCryptoCertificate env (Asset_Certificate asset),
     rca_Key = convertToRPCCryptoKey (Asset_Key asset),
     rca_Algorithm = convertToRPCCryptoAlgorithm (Asset_Algorithm asset),
     rca_Relationships = convertToRPCCryptoRelationships (Asset_Relationships asset),
     rca_FilePath = Asset_FilePath asset, rca_Format = Asset_Format asset, rca_Encoding = Asset_Encoding asset,
     rca_Layer = Some (ConvertToRPCLayer (Asset_Layer asset)), rca_AssetId = Asset_ID asset,
     rca_Keystore = Asset_Keystore asset\<rparr>"

definition ConvertToRPCCryptoAssets :: "rpc_env \<Rightarrow> CryptoAsset list \<Rightarrow> rpc_CryptoAsset list" where
  "ConvertToRPCCryptoAssets env assets = map (ConvertToRPCCryptoAsset env) assets"

definition ConvertFromRPCCryptoAsset :: "rpc_env \<Rightarrow> rpc_CryptoAsset \<Rightarrow> CryptoAsset" where
  "ConvertFromRPCCryptoAsset env asset = \<lparr>Asset_Kind = rca_Kind asset, Asset_KeyType = rca_KeyType asset,
     Asset_Identity = convertFromRPCCryptoIdentity (rca_Identity asset), Asset_Name = rca_Name asset,
     Asset_Certificate = convertFromRPCCryptoCertificate env (rca_Certificate asset),
     Asset_Key = convertFromRPCCryptoKey (rca_Key asset),
     Asset_Algorithm = convertFromRPCCryptoAlgorithm (rca_Algorithm asset),
     Asset_Relationships = convertFromRPCCryptoRelationships (rca_Relationships asset),
     Asset_ID = rca_AssetId asset, Asset_FilePath = rca_FilePath asset, Asset_Format = rca_Format asset,
     Asset_Encoding = rca_Encoding asset, Asset_Keystore = rca_Keystore asset,
     Asset_Layer = ConvertFromRPCLayer (rca_Layer asset)\<rparr>"

definition ConvertFromRPCCryptoAssets :: "rpc_env \<Rightarrow> rpc_CryptoAsset list \<Rightarrow> CryptoAsset list" where
  "ConvertFromRPCCryptoAssets env rpcAssets = map (ConvertFromRPCCryptoAsset env) rpcAssets"

definition ConvertToRPCCryptoFindings :: "rpc_env \<Rightarrow> CryptoFinding list \<Rightarrow> rpc_CryptoFinding list" where
  "ConvertToRPCCryptoFindings env findings =
     map (\<lambda>f. let ev = Finding_Evidence f in \<lparr>rcf_RuleId = Finding_RuleID f, rcf_Title = Finding_Title f,
       rcf_Severity = Finding_Severity f, rcf_AssetId = Finding_AssetID f,
       rcf_Evidence = Some \<lparr>rce_SignatureAlgorithm = Ev_SignatureAlgorithm ev,
         rce_SignatureAlgorithmOid = Ev_SignatureAlgorithmOID ev, rce_KeySize = wrap32 (Ev_KeySize ev),
         rce_Curve = Ev_Curve ev, rce_ClassicalSecurityLevel = convertOptionalInt wrap32 (Ev_ClassicalSecurityLevel ev),
         rce_NotAfter = convertToRPCTime env (Ev_NotAfter ev)\<rparr>\<rparr>) findings"

definition ConvertFromRPCCryptoFindings :: "rpc_env \<Rightarrow> rpc_CryptoFinding list \<Rightarrow> CryptoFinding list" where
  "ConvertFromRPCCryptoFindings env rpcFindings =
     map (\<lambda>f. \<lparr>Finding_RuleID = rcf_RuleId f, Finding_Title = rcf_Title f, Finding_Severity = rcf_Severity f,
       Finding_AssetID = rcf_AssetId f,
       Finding_Evidence = (case rcf_Evidence f of
          None \<Rightarrow> Evidence_empty
        | Some ev \<Rightarrow> \<lparr>Ev_SignatureAlgorithm = rce_SignatureAlgorithm ev,
            Ev_SignatureAlgorithmOID = rce_SignatureAlgorithmOid ev, Ev_KeySize = rce_KeySize ev, Ev_Curve = rce_Curve ev,
            Ev_ClassicalSecurityLevel = convertOptionalInt (\<lambda>i. i) (rce_ClassicalSecurityLevel ev),
            Ev_NotAfter = convertFromRPCTime env (rce_NotAfter ev)\<rparr>)\<rparr>) rpcFindings"

section \<open>Vulnerabilities\<close>

definition ConvertToRPCDataSource :: "DataSource option \<Rightarrow> rpc_DataSource option" where
  "ConvertToRPCDataSource d =
     (case d of None \<Rightarrow> None | Some ds \<Rightarrow> Some \<lparr>rds_Id = DS_ID ds, rds_Name = DS_Name ds, rds_Url = DS_URL ds\<rparr>)"

definition ConvertFromRPCDataSource :: "rpc_DataSource option \<Rightarrow> DataSource option" where
  "ConvertFromRPCDataSource d =
     (case d of
        None \<Rightarrow> None
      | Some ds \<Rightarrow> Some \<lparr>DS_ID = rds_Id ds, DS_BaseID = [], DS_Name = rds_Name ds, DS_URL = rds_Url ds\<rparr>)"

text \<open>
  The maps are rebuilt entry by entry under the same keys, so the order of their ranges does not matter. Free-form
  data that is not nil is sent as the string of its JSON text.
\<close>

definition toRPCCVSS :: "CVSS \<Rightarrow> rpc_CVSS" where
  "toRPCCVSS c = \<lparr>rcvss_V2Vector = CVSS_V2Vector c, rcvss_V3Vector = CVSS_V3Vector c, rcvss_V2Score = CVSS_V2Score c,
     rcvss_V3Score = CVSS_V3Score c, rcvss_V40Vector = CVSS_V40Vector c, rcvss_V40Score = CVSS_V40Score c\<rparr>"

definition fromRPCCVSS :: "rpc_CVSS \<Rightarrow> CVSS" where
  "fromRPCCVSS c = \<lparr>CVSS_V2Vector = rcvss_V2Vector c, CVSS_V3Vector = rcvss_V3Vector c, CVSS_V40Vector = rcvss_V40Vector c,
     CVSS_V2Score = rcvss_V2Score c, CVSS_V3Score = rcvss_V3Score c, CVSS_V40Score = rcvss_V40Score c\<rparr>"

definition toRPCCustom :: "rpc_env \<Rightarrow> string \<Rightarrow> rpc_Value option" where
  "toRPCCustom env custom = (if custom \<noteq> [] then Some (NewStringValue env (json_Marshal env custom)) else None)"

definition fromRPCCustom :: "rpc_env \<Rightarrow> rpc_Value option \<Rightarrow> string" where
  "fromRPCCustom env v = (case v of None \<Rightarrow> [] | Some x \<Rightarrow> AsInterface env x)"

definition ConvertToRPCVuln :: "rpc_env \<Rightarrow> DetectedVulnerability \<Rightarrow> rpc_Vulnerability" where
  "ConvertToRPCVuln env vuln =
     (let v = DV_Vulnerability vuln; severity = fst (rpc_NewSeverity env (V_Severity v))
      in \<lparr>rv_VulnerabilityId = DV_VulnerabilityID vuln, rv_PkgName = DV_PkgName vuln,
          rv_InstalledVersion = DV_InstalledVersion vuln, rv_FixedVersion = DV_FixedVersion vuln, rv_Title = V_Title v,
          rv_Description = V_Description v, rv_Severity = wrap32 severity, rv_References = V_References v,
          rv_PkgIdentifier = ConvertToRPCPkgIdentifier env (DV_PkgIdentifier vuln),
          rv_Layer = Some (ConvertToRPCLayer (DV_Layer vuln)), rv_SeveritySource = DV_SeveritySource vuln,
          rv_Cvss = map (\<lambda>(vendor, c). (vendor, toRPCCVSS c)) (V_CVSS v), rv_CweIds = V_CweIDs v,
          rv_PrimaryUrl = DV_PrimaryURL vuln,
          rv_PublishedDate = map_option (ts_New env) (V_PublishedDate v),
          rv_LastModifiedDate = map_option (ts_New env) (V_LastModifiedDate v),
          rv_CustomAdvisoryData = toRPCCustom env (DV_Custom vuln), rv_CustomVulnData = toRPCCustom env (V_Custom v),
          rv_VendorIds = DV_VendorIDs vuln, rv_DataSource = ConvertToRPCDataSource (DV_DataSource vuln),
          rv_VendorSeverity = map (\<lambda>(vendor, s). (vendor, wrap32 s)) (V_VendorSeverity v),
          rv_PkgPath = DV_PkgPath vuln, rv_PkgId = DV_PkgID vuln, rv_Status = wrap32 (DV_Status vuln)\<rparr>)"

definition ConvertToRPCVulns :: "rpc_env \<Rightarrow> DetectedVulnerability list \<Rightarrow> rpc_Vulnerability list" where
  "ConvertToRPCVulns env vulns = map (ConvertToRPCVuln env) vulns"

definition ConvertFromRPCVuln :: "rpc_env \<Rightarrow> rpc_Vulnerability \<Rightarrow> DetectedVulnerability" where
  "ConvertFromRPCVuln env vuln = \<lparr>DV_VulnerabilityID = rv_VulnerabilityId vuln, DV_VendorIDs = rv_VendorIds vuln,
     DV_PkgID = rv_PkgId vuln, DV_PkgName = rv_PkgName vuln, DV_PkgPath = rv_PkgPath vuln,
     DV_PkgIdentifier = ConvertFromRPCPkgIdentifier env (rv_PkgIdentifier vuln),
     DV_InstalledVersion = rv_InstalledVersion vuln, DV_FixedVersion = rv_FixedVersion vuln, DV_Status = rv_Status vuln,
     DV_Layer = ConvertFromRPCLayer (rv_Layer vuln), DV_SeveritySource = rv_SeveritySource vuln,
     DV_PrimaryURL = rv_PrimaryUrl vuln, DV_DataSource = ConvertFromRPCDataSource (rv_DataSource vuln),
     DV_Fingerprint = [], DV_Custom = fromRPCCustom env (rv_CustomAdvisoryData vuln),
     DV_Vulnerability = \<lparr>V_Title = rv_Title vuln, V_Description = rv_Description vuln,
       V_Severity = rpc_severity_String env (rv_Severity vuln), V_CweIDs = rv_CweIds vuln,
       V_VendorSeverity = rv_VendorSeverity vuln,
       V_CVSS = map (\<lambda>(vendor, c). (vendor, fromRPCCVSS c)) (rv_Cvss vuln), V_References = rv_References vuln,
       V_PublishedDate = map_option (\<lambda>ts. ts_AsTime env (Some ts)) (rv_PublishedDate vuln),
       V_LastModifiedDate = map_option (\<lambda>ts. ts_AsTime env (Some ts)) (rv_LastModifiedDate vuln),
       V_Custom = fromRPCCustom env (rv_CustomVulnData vuln)\<rparr>\<rparr>"

definition ConvertFromRPCVulns :: "rpc_env \<Rightarrow> rpc_Vulnerability list \<Rightarrow> DetectedVulnerability list" where
  "ConvertFromRPCVulns env rpcVulns = map (ConvertFromRPCVuln env) rpcVulns"

section \<open>Misconfigurations\<close>

definition ConvertToRPCPolicyMetadata :: "PolicyMetadata \<Rightarrow> rpc_PolicyMetadata" where
  "ConvertToRPCPolicyMetadata policy = \<lparr>rpm_Id = Policy_ID policy, rpm_AdvId = Policy_AVDID policy,
     rpm_Type = Policy_Type policy, rpm_Title = Policy_Title policy, rpm_Description = Policy_Description policy,
     rpm_Severity = Policy_Severity policy, rpm_RecommendedActions = Policy_RecommendedActions policy,
     rpm_References = Policy_References policy, rpm_Aliases = Policy_Aliases policy\<rparr>"

definition ConvertFromRPCPolicyMetadata :: "rpc_PolicyMetadata option \<Rightarrow> PolicyMetadata" where
  "ConvertFromRPCPolicyMetadata p =
     (case p of
        None \<Rightarrow> \<lparr>Policy_ID = [], Policy_AVDID = [], Policy_Aliases = [], Policy_Type = [], Policy_Title = [],
          Policy_Description = [], Policy_Severity = [], Policy_RecommendedActions = [], Policy_References = []\<rparr>
      | Some policy \<Rightarrow> \<lparr>Policy_ID = rpm_Id policy, Policy_AVDID = rpm_AdvId policy, Policy_Aliases = rpm_Aliases policy,
          Policy_Type = rpm_Type policy, Policy_Title = rpm_Title policy, Policy_Description = rpm_Description policy,
          Policy_Severity = rpm_Severity policy, Policy_RecommendedActions = rpm_RecommendedActions policy,
          Policy_References = rpm_References policy\<rparr>)"

definition ConvertToRPCCauseMetadata :: "CauseMetadata \<Rightarrow> rpc_CauseMetadata" where
  "ConvertToRPCCauseMetadata cause = \<lparr>rcm_Resource = Cause_Resource cause, rcm_Provider = Cause_Provider cause,
     rcm_Service = Cause_Service cause, rcm_StartLine = wrap32 (Cause_StartLine cause),
     rcm_EndLine = wrap32 (Cause_EndLine cause), rcm_Code = Some (ConvertToRPCCode (Cause_Code cause)),
     rcm_RenderedCause = Some \<lparr>rrc_Raw = RC_Raw (Cause_RenderedCause cause),
       rrc_Highlighted = RC_Highlighted (Cause_RenderedCause cause)\<rparr>\<rparr>"

definition ConvertFromRPCRenderedCause :: "rpc_RenderedCause option \<Rightarrow> RenderedCause" where
  "ConvertFromRPCRenderedCause r =
     (case r of
        None \<Rightarrow> \<lparr>RC_Raw = [], RC_Highlighted = []\<rparr>
      | Some rendered \<Rightarrow> \<lparr>RC_Raw = rrc_Raw rendered, RC_Highlighted = rrc_Highlighted rendered\<rparr>)"

definition ConvertFromRPCCauseMetadata :: "rpc_CauseMetadata option \<Rightarrow> CauseMetadata" where
  "ConvertFromRPCCauseMetadata c =
     (case c of
        None \<Rightarrow> \<lparr>Cause_Resource = [], Cause_Provider = [], Cause_Service = [], Cause_StartLine = 0, Cause_EndLine = 0,
          Cause_Code = \<lparr>Code_Lines = []\<rparr>, Cause_Occurrences = [],
          Cause_RenderedCause = \<lparr>RC_Raw = [], RC_Highlighted = []\<rparr>\<rparr>
      | Some cause \<Rightarrow> \<lparr>Cause_Resource = rcm_Resource cause, Cause_Provider = rcm_Provider cause,
          Cause_Service = rcm_Service cause, Cause_StartLine = rcm_StartLine cause, Cause_EndLine = rcm_EndLine cause,
          Cause_Code = ConvertFromRPCCode (rcm_Code cause), Cause_Occurrences = [],
          Cause_RenderedCause = ConvertFromRPCRenderedCause (rcm_RenderedCause cause)\<rparr>)"

definition ConvertToMisconfResults :: "MisconfResult list \<Rightarrow> rpc_MisconfResult list" where
  "ConvertToMisconfResults results =
     map (\<lambda>r. \<lparr>rmr_Namespace = MR_Namespace r, rmr_Message = MR_Message r,
       rmr_PolicyMetadata = Some (ConvertToRPCPolicyMetadata (MR_PolicyMetadata r)),
       rmr_CauseMetadata = Some (ConvertToRPCCauseMetadata (MR_CauseMetadata r)), rmr_Query = MR_Query r\<rparr>) results"

definition ConvertFromRPCMisconfResults :: "rpc_MisconfResult list \<Rightarrow> MisconfResult list" where
  "ConvertFromRPCMisconfResults rpcResults =
     map (\<lambda>r. \<lparr>MR_Namespace = rmr_Namespace r, MR_Query = rmr_Query r, MR_Message = rmr_Message r,
       MR_PolicyMetadata = ConvertFromRPCPolicyMetadata (rmr_PolicyMetadata r),
       MR_CauseMetadata = ConvertFromRPCCauseMetadata (rmr_CauseMetadata r), MR_Traces = []\<rparr>) rpcResults"

definition ConvertFromRPCMisconfigurations :: "rpc_Misconfiguration list \<Rightarrow> Misconfiguration list" where
  "ConvertFromRPCMisconfigurations rpcMisconfs =
     map (\<lambda>m. \<lparr>MC_FileType = rmc_FileType m, MC_FilePath = rmc_FilePath m,
       MC_Successes = ConvertFromRPCMisconfResults (rmc_Successes m),
       MC_Warnings = ConvertFromRPCMisconfResults (rmc_Warnings m),
       MC_Failures = ConvertFromRPCMisconfResults (rmc_Failures m), MC_Layer = Layer_empty\<rparr>) rpcMisconfs"

definition ConvertToRPCMisconfs :: "rpc_env \<Rightarrow> DetectedMisconfiguration list \<Rightarrow> rpc_DetectedMisconfiguration list" where
  "ConvertToRPCMisconfs env misconfs =
     map (\<lambda>m. \<lparr>rdm_Type = DM_Type m, rdm_Id = DM_ID m, rdm_Title = DM_Title m, rdm_Description = DM_Description m,
       rdm_Message = DM_Message m, rdm_Namespace = DM_Namespace m, rdm_Resolution = DM_Resolution m,
       rdm_Severity = wrap32 (fst (rpc_NewSeverity env (DM_Severity m))), rdm_PrimaryUrl = DM_PrimaryURL m,
       rdm_References = DM_References m, rdm_Status = DM_Status m, rdm_Layer = Some (ConvertToRPCLayer (DM_Layer m)),
       rdm_CauseMetadata = Some (ConvertToRPCCauseMetadata (DM_CauseMetadata m)), rdm_AvdId = DM_AVDID m,
       rdm_Query = DM_Query m, rdm_Aliases = DM_Aliases m\<rparr>) misconfs"

text \<open>The name of a severity message: the generated \<open>String\<close> writes a number without a name in decimal.\<close>

definition Severity_name :: "(int \<times> string) list" where
  "Severity_name = [(0, ''UNKNOWN''), (1, ''LOW''), (2, ''MEDIUM''), (3, ''HIGH''), (4, ''CRITICAL'')]"

definition rpc_Severity_String :: "int \<Rightarrow> string" where
  "rpc_Severity_String x = (case map_of Severity_name x of Some s \<Rightarrow> s | None \<Rightarrow> itoa x)"

definition ConvertFromRPCMisconfs :: "rpc_DetectedMisconfiguration list \<Rightarrow> DetectedMisconfiguration list" where
  "ConvertFromRPCMisconfs rpcMisconfs =
     map (\<lambda>m. \<lparr>DM_Type = rdm_Type m, DM_ID = rdm_Id m, DM_AVDID = rdm_AvdId m, DM_Aliases = rdm_Aliases m,
       DM_Title = rdm_Title m, DM_Description = rdm_Description m, DM_Message = rdm_Message m,
       DM_Namespace = rdm_Namespace m, DM_Query = rdm_Query m, DM_Resolution = rdm_Resolution m,
       DM_Severity = rpc_Severity_String (rdm_Severity m), DM_PrimaryURL = rdm_PrimaryUrl m,
       DM_References = rdm_References m, DM_Status = rdm_Status m, DM_Layer = ConvertFromRPCLayer (rdm_Layer m),
       DM_CauseMetadata = ConvertFromRPCCauseMetadata (rdm_CauseMetadata m), DM_Traces = []\<rparr>) rpcMisconfs"

section \<open>Custom resources\<close>

definition toRPCCustomResource :: "rpc_Value option \<Rightarrow> CustomResource \<Rightarrow> rpc_CustomResource" where
  "toRPCCustomResource data r = \<lparr>rcr_Type = CR_Type r, rcr_FilePath = CR_FilePath r,
     rcr_Layer = Some \<lparr>rly_Digest = Layer_Digest (CR_Layer r), rly_DiffId = Layer_DiffID (CR_Layer r),
       rly_CreatedBy = [], rly_Size = 0\<rparr>,
     rcr_Data = data\<rparr>"

definition ConvertToRPCCustomResources :: "rpc_env \<Rightarrow> CustomResource list \<Rightarrow> rpc_CustomResource list" where
  "ConvertToRPCCustomResources env resources =
     map (\<lambda>r. toRPCCustomResource (fst (NewValue env (CR_Data r))) r) resources"

text \<open>The layer is dereferenced without a test for nil.\<close>

definition ConvertFromRPCCustomResources :: "rpc_env \<Rightarrow> rpc_CustomResource list \<Rightarrow> CustomResource list option" where
  "ConvertFromRPCCustomResources env rpcCustomResources =
     those (map (\<lambda>res.
       case rcr_Layer res of
         None \<Rightarrow> None
       | Some l \<Rightarrow> Some \<lparr>CR_Type = rcr_Type res, CR_FilePath = rcr_FilePath res,
           CR_Layer = Layer_empty\<lparr>Layer_Digest := rly_Digest l, Layer_DiffID := rly_DiffId l\<rparr>,
           CR_Data = any_Value env (rcr_Data res)\<rparr>) rpcCustomResources)"

section \<open>Operating systems and repositories\<close>

definition ConvertToRPCOS :: "OS \<Rightarrow> rpc_OS" where
  "ConvertToRPCOS fos = \<lparr>ros_Family = OS_Family fos, ros_Name = OS_Name fos, ros_Eosl = OS_Eosl fos,
     ros_Extended = OS_Extended fos, ros_Supplier = OS_Supplier fos\<rparr>"

definition ConvertFromRPCOS :: "rpc_OS option \<Rightarrow> OS" where
  "ConvertFromRPCOS o1 =
     (case o1 of
        None \<Rightarrow> OS_empty
      | Some rpcOS \<Rightarrow> \<lparr>OS_Family = ros_Family rpcOS, OS_Name = ros_Name rpcOS, OS_Eosl = ros_Eosl rpcOS,
          OS_Supplier = ros_Supplier rpcOS, OS_Extended = ros_Extended rpcOS\<rparr>)"

definition ConvertToRPCRepository :: "Repository option \<Rightarrow> rpc_Repository option" where
  "ConvertToRPCRepository r =
     (case r of
        None \<Rightarrow> None
      | Some repo \<Rightarrow> Some \<lparr>rrepo_Family = Repo_Family repo, rrepo_Release = Repo_Release repo\<rparr>)"

definition ConvertFromRPCRepository :: "rpc_Repository option \<Rightarrow> Repository option" where
  "ConvertFromRPCRepository r =
     (case r of
        None \<Rightarrow> None
      | Some repo \<Rightarrow> Some \<lparr>Repo_Family = rrepo_Family repo, Repo_Release = rrepo_Release repo\<rparr>)"

definition ConvertFromRPCPackageInfos :: "rpc_env \<Rightarrow> rpc_PackageInfo list \<Rightarrow> PackageInfo list" where
  "ConvertFromRPCPackageInfos env rpcPkgInfos =
     map (\<lambda>i. \<lparr>PI_FilePath = rpi_FilePath i, PI_Packages = ConvertFromRPCPkgs env (rpi_Packages i)\<rparr>) rpcPkgInfos"

definition ConvertFromRPCApplications :: "rpc_env \<Rightarrow> rpc_Application list \<Rightarrow> Application list" where
  "ConvertFromRPCApplications env rpcApps =
     map (\<lambda>a. \<lparr>App_Type = rapp_Type a, App_FilePath = rapp_FilePath a,
       App_Packages = ConvertFromRPCPkgs env (rapp_Packages a)\<rparr>) rpcApps"

section \<open>Requests and responses\<close>

definition ConvertToRPCArtifactInfo :: "rpc_env \<Rightarrow> string \<Rightarrow> ArtifactInfo \<Rightarrow> rpc_PutArtifactRequest" where
  "ConvertToRPCArtifactInfo env imageID imageInfo = \<lparr>rpa_ArtifactId = imageID,
     rpa_ArtifactInfo = Some \<lparr>rai_SchemaVersion = wrap32 (AI_SchemaVersion imageInfo),
       rai_Architecture = AI_Architecture imageInfo, rai_Created = Some (ts_New env (AI_Created imageInfo)),
       rai_DockerVersion = AI_DockerVersion imageInfo, rai_Os = AI_OS imageInfo,
       rai_HistoryPackages = ConvertToRPCPkgs env (AI_HistoryPackages imageInfo),
       rai_Secret = ConvertToRPCSecret (AI_Secret imageInfo)\<rparr>\<rparr>"

definition ConvertFromRPCPutArtifactRequest :: "rpc_env \<Rightarrow> rpc_PutArtifactRequest \<Rightarrow> ArtifactInfo option" where
  "ConvertFromRPCPutArtifactRequest env req =
     Option.bind (rpa_ArtifactInfo req) (\<lambda>info. Option.bind (ConvertFromRPCSecret (rai_Secret info)) (\<lambda>secret.
       Some \<lparr>AI_SchemaVersion = rai_SchemaVersion info, AI_Architecture = rai_Architecture info,
         AI_Created = ts_AsTime env (rai_Created info), AI_DockerVersion = rai_DockerVersion info, AI_OS = rai_Os info,
         AI_Misconfiguration = None, AI_Secret = secret,
         AI_HistoryPackages = ConvertFromRPCPkgs env (rai_HistoryPackages info)\<rparr>))"

definition ConvertToRPCPutBlobRequest :: "rpc_env \<Rightarrow> string \<Rightarrow> BlobInfo \<Rightarrow> rpc_PutBlobRequest" where
  "ConvertToRPCPutBlobRequest env diffID b =
     (let packageInfos = map (\<lambda>i. \<lparr>rpi_FilePath = PI_FilePath i, rpi_Packages = ConvertToRPCPkgs env (PI_Packages i)\<rparr>)
            (Blob_PackageInfos b);
          applications = map (\<lambda>a. \<lparr>rapp_Type = App_Type a, rapp_FilePath = App_FilePath a,
            rapp_Packages = ConvertToRPCPkgs env (App_Packages a)\<rparr>) (Blob_Applications b);
          misconfigurations = map (\<lambda>m. \<lparr>rmc_FileType = MC_FileType m, rmc_FilePath = MC_FilePath m,
            rmc_Successes = ConvertToMisconfResults (MC_Successes m),
            rmc_Warnings = ConvertToMisconfResults (MC_Warnings m),
            rmc_Failures = ConvertToMisconfResults (MC_Failures m)\<rparr>) (Blob_Misconfigurations b);
          customResources = List.map_filter (\<lambda>res.
            case NewValue env (CR_Data res) of
              (_, Some _) \<Rightarrow> None
            | (data, None) \<Rightarrow> Some (toRPCCustomResource data res)) (Blob_CustomResources b)
      in \<lparr>rpb_DiffId = diffID,
          rpb_BlobInfo = Some \<lparr>rbl_SchemaVersion = BlobJSONSchemaVersion, rbl_Os = Some (ConvertToRPCOS (Blob_OS b)),
            rbl_Repository = ConvertToRPCRepository (Blob_Repository b), rbl_PackageInfos = packageInfos,
            rbl_Applications = applications, rbl_Misconfigurations = misconfigurations,
            rbl_OpaqueDirs = Blob_OpaqueDirs b, rbl_WhiteoutFiles = Blob_WhiteoutFiles b, rbl_Digest = Blob_Digest b,
            rbl_DiffId = Blob_DiffID b, rbl_CustomResources = customResources,
            rbl_Secrets = ConvertToRPCSecrets (Blob_Secrets b), rbl_Licenses = ConvertToRPCLicenseFiles env (Blob_Licenses b),
            rbl_Size = Blob_Size b, rbl_CreatedBy = Blob_CreatedBy b, rbl_BuildInfo = ConvertToRPCBuildInfo (Blob_BuildInfo b),
            rbl_CryptoAssets = ConvertToRPCCryptoAssets env (Blob_CryptoAssets b)\<rparr>\<rparr>)"

definition ConvertFromRPCPutBlobRequest :: "rpc_env \<Rightarrow> rpc_PutBlobRequest \<Rightarrow> BlobInfo option" where
  "ConvertFromRPCPutBlobRequest env req =
     Option.bind (rpb_BlobInfo req) (\<lambda>b.
     Option.bind (ConvertFromRPCCustomResources env (rbl_CustomResources b)) (\<lambda>customResources.
     Option.bind (ConvertFromRPCSecrets (rbl_Secrets b)) (\<lambda>secrets.
       Some \<lparr>Blob_SchemaVersion = rbl_SchemaVersion b, Blob_Size = rbl_Size b, Blob_Digest = rbl_Digest b,
         Blob_DiffID = rbl_DiffId b, Blob_CreatedBy = rbl_CreatedBy b, Blob_OpaqueDirs = rbl_OpaqueDirs b,
         Blob_WhiteoutFiles = rbl_WhiteoutFiles b, Blob_OS = ConvertFromRPCOS (rbl_Os b),
         Blob_Repository = ConvertFromRPCRepository (rbl_Repository b),
         Blob_PackageInfos = ConvertFromRPCPackageInfos env (rbl_PackageInfos b),
         Blob_Applications = ConvertFromRPCApplications env (rbl_Applications b),
         Blob_Misconfigurations = ConvertFromRPCMisconfigurations (rbl_Misconfigurations b), Blob_Secrets = secrets,
         Blob_Licenses = ConvertFromRPCLicenseFiles (rbl_Licenses b),
         Blob_CryptoAssets = ConvertFromRPCCryptoAssets env (rbl_CryptoAssets b),
         Blob_BuildInfo = ConvertFromRPCBuildInfo (rbl_BuildInfo b), Blob_CustomResources = customResources\<rparr>)))"

definition ConvertToMissingBlobsRequest :: "string \<Rightarrow> string list \<Rightarrow> rpc_MissingBlobsRequest" where
  "ConvertToMissingBlobsRequest imageID layerIDs = \<lparr>rmb_ArtifactId = imageID, rmb_BlobIds = layerIDs\<rparr>"

definition ConvertToDeleteBlobsRequest :: "string list \<Rightarrow> rpc_DeleteBlobsRequest" where
  "ConvertToDeleteBlobsRequest blobIDs = \<lparr>rdb_BlobIds = blobIDs\<rparr>"

definition ConvertFromDeleteBlobsRequest :: "rpc_DeleteBlobsRequest option \<Rightarrow> string list" where
  "ConvertFromDeleteBlobsRequest req = (case req of None \<Rightarrow> [] | Some r \<Rightarrow> rdb_BlobIds r)"

definition toRPCResult :: "rpc_env \<Rightarrow> Result \<Rightarrow> rpc_Result" where
  "toRPCResult env r = \<lparr>rres_Target = Res_Target r, rres_Vulnerabilities = ConvertToRPCVulns env (Res_Vulnerabilities r),
     rres_Misconfigurations = ConvertToRPCMisconfs env (Res_Misconfigurations r), rres_Class = Res_Class r,
     rres_Type = Res_Type r, rres_Packages = ConvertToRPCPkgs env (Res_Packages r),
     rres_CustomResources = ConvertToRPCCustomResources env (Res_CustomResources r),
     rres_Secrets = ConvertToRPCSecretFindings (Res_Secrets r), rres_Licenses = ConvertToRPCLicenses env (Res_Licenses r),
     rres_CryptoAssets = ConvertToRPCCryptoAssets env (Res_CryptoAssets r),
     rres_CryptoFindings = ConvertToRPCCryptoFindings env (Res_CryptoFindings r)\<rparr>"

definition ConvertToRPCScanResponse :: "rpc_env \<Rightarrow> ScanResponse \<Rightarrow> rpc_ScanResponse" where
  "ConvertToRPCScanResponse env response = \<lparr>rsp_Os = Some (ConvertToRPCOS (SR_OS response)),
     rsp_Results = map (toRPCResult env) (SR_Results response),
     rsp_Layers = map (\<lambda>l. Some (ConvertToRPCLayer l)) (SR_Layers response)\<rparr>"

definition fromRPCResult :: "rpc_env \<Rightarrow> rpc_Result \<Rightarrow> Result option" where
  "fromRPCResult env r =
     Option.bind (ConvertFromRPCCustomResources env (rres_CustomResources r)) (\<lambda>customResources.
     Option.bind (ConvertFromRPCDetectedSecrets (rres_Secrets r)) (\<lambda>secrets.
       Some \<lparr>Res_Target = rres_Target r, Res_Class = rres_Class r, Res_Type = rres_Type r,
         Res_Packages = ConvertFromRPCPkgs env (rres_Packages r),
         Res_Vulnerabilities = ConvertFromRPCVulns env (rres_Vulnerabilities r), Res_MisconfSummary = None,
         Res_Misconfigurations = ConvertFromRPCMisconfs (rres_Misconfigurations r), Res_Secrets = secrets,
         Res_Licenses = ConvertFromRPCDetectedLicenses env (rres_Licenses r),
         Res_CryptoAssets = ConvertFromRPCCryptoAssets env (rres_CryptoAssets r),
         Res_CryptoFindings = ConvertFromRPCCryptoFindings env (rres_CryptoFindings r),
         Res_CustomResources = customResources, Res_ModifiedFindings = []\<rparr>))"

definition ConvertFromRPCResults :: "rpc_env \<Rightarrow> rpc_Result list \<Rightarrow> Result list option" where
  "ConvertFromRPCResults env rpcResults = those (map (fromRPCResult env) rpcResults)"

section \<open>Integers and license categories\<close>

lemma wrap32_range: "int32_range (wrap32 i)"
  by (simp add: int32_range_def wrap32_def)

lemma wrap32_iff: "wrap32 i = i \<longleftrightarrow> int32_range i"
proof -
  have "wrap32 i = i \<longleftrightarrow> (i + 2 ^ 31) mod 2 ^ 32 = i + 2 ^ 31" by (auto simp: wrap32_def)
  then show ?thesis by (auto simp: int32_range_def zmod_trivial_iff)
qed

lemma wrap32_id [simp]: "int32_range i \<Longrightarrow> wrap32 i = i"
  by (simp add: wrap32_iff)

lemma wrap32_idem [simp]: "wrap32 (wrap32 i) = wrap32 i"
  by (simp add: wrap32_range)

lemma wrap32_cong: "wrap32 i mod 2 ^ 32 = i mod 2 ^ 32"
  unfolding wrap32_def by (simp add: mod_diff_left_eq)

lemma convertOptionalInt_eq [simp]: "convertOptionalInt conv v = map_option conv v"
  by (cases v) (simp_all add: convertOptionalInt_def)

lemma those_map_Some [simp]: "those (map (\<lambda>x. Some (f x)) xs) = Some (map f xs)"
  by (induction xs) simp_all

lemma ByValueOr_mem:
  assumes "is_range rng" "distinct (map snd m)" "(k, v) \<in> set m"
  shows "ByValueOr (rng m) v d = k"
proof -
  have set: "set (rng m) = set m" using assms(1) by (rule is_range_set)
  obtain k' v' where f: "find (\<lambda>(_, w). w = v) (rng m) = Some (k', v')"
    using assms(3) set by (cases "find (\<lambda>(_, w). w = v) (rng m)") (auto simp: find_None_iff)
  then have "(k', v') \<in> set m" "v' = v"
    using find_mem [OF f] set by (auto simp: find_Some_iff)
  then have "k' = k" using assms(2,3) by (metis distinct_map inj_onD prod.inject snd_conv)
  then show ?thesis by (simp add: ByValueOr_def f)
qed

lemma ByValueOr_other:
  assumes "is_range rng" "v \<notin> snd ` set m"
  shows "ByValueOr (rng m) v d = d"
proof -
  have "find (\<lambda>(_, w). w = v) (rng m) = None"
    using assms is_range_set [OF assms(1), of m] by (force simp: find_None_iff)
  then show ?thesis by (simp add: ByValueOr_def)
qed

lemma license_maps_distinct:
  "distinct (map snd LicenseCategoryMap)" "distinct (map fst LicenseCategoryMap)"
  "distinct (map snd LicenseTypeMap)" "distinct (map fst LicenseTypeMap)"
  by (simp_all add: LicenseCategoryMap_def LicenseTypeMap_def)

definition received_category :: "LicenseCategory \<Rightarrow> LicenseCategory" where
  "received_category c = (if c \<in> set (map snd LicenseCategoryMap) then c else [])"

definition received_license_type :: "string \<Rightarrow> string" where
  "received_license_type t = (if t \<in> set (map snd LicenseTypeMap) then t else [])"

lemma license_category_roundtrip:
  assumes "is_range (range_licenses env)"
  shows "ConvertFromRPCLicenseCategory (ConvertToRPCLicenseCategory env c) = received_category c"
proof (cases "\<exists>k. (k, c) \<in> set LicenseCategoryMap")
  case True
  then obtain k where k: "(k, c) \<in> set LicenseCategoryMap" ..
  then have "map_of LicenseCategoryMap k = Some c" using license_maps_distinct(2) by simp
  then show ?thesis
    using ByValueOr_mem [OF assms license_maps_distinct(1) k] k
    by (force simp: ConvertFromRPCLicenseCategory_def ConvertToRPCLicenseCategory_def received_category_def)
next
  case False
  then have "c \<notin> snd ` set LicenseCategoryMap" by force
  then show ?thesis using ByValueOr_other [OF assms, of c LicenseCategoryMap 0]
    by (simp add: ConvertFromRPCLicenseCategory_def ConvertToRPCLicenseCategory_def received_category_def)
      (simp add: LicenseCategoryMap_def)
qed

lemma license_type_roundtrip:
  assumes "is_range (range_licenses env)"
  shows "ConvertFromRPCLicenseType (ConvertToRPCLicenseType env t) = received_license_type t"
proof (cases "\<exists>k. (k, t) \<in> set LicenseTypeMap")
  case True
  then obtain k where k: "(k, t) \<in> set LicenseTypeMap" ..
  then have "map_of LicenseTypeMap k = Some t" using license_maps_distinct(4) by simp
  then show ?thesis
    using ByValueOr_mem [OF assms license_maps_distinct(3) k] k
    by (force simp: ConvertFromRPCLicenseType_def ConvertToRPCLicenseType_def received_license_type_def)
next
  case False
  then have "t \<notin> snd ` set LicenseTypeMap" by force
  then show ?thesis using ByValueOr_other [OF assms, of t LicenseTypeMap 0]
    by (simp add: ConvertFromRPCLicenseType_def ConvertToRPCLicenseType_def received_license_type_def)
      (simp add: LicenseTypeMap_def)
qed

section \<open>What is received\<close>

text \<open>The value read back from the message of a value, type by type: the fields that the trip changes.\<close>

definition received_code :: "Code \<Rightarrow> Code" where
  "received_code c = c\<lparr>Code_Lines := map (\<lambda>l. l\<lparr>Line_Number := wrap32 (Line_Number l)\<rparr>) (Code_Lines c)\<rparr>"

definition received_location :: "Location \<Rightarrow> Location" where
  "received_location l = l\<lparr>StartLine := wrap32 (StartLine l), EndLine := wrap32 (EndLine l)\<rparr>"

definition received_identifier :: "rpc_env \<Rightarrow> PkgIdentifier \<Rightarrow> PkgIdentifier" where
  "received_identifier env i = i\<lparr>Id_PURL := Option.bind (Id_PURL i) (\<lambda>p.
     if rpc_purl_String env p \<noteq> [] then Some (fst (rpc_purl_FromString env (rpc_purl_String env p))) else None)\<rparr>"

definition received_pkg :: "rpc_env \<Rightarrow> Package \<Rightarrow> Package" where
  "received_pkg env pkg = pkg\<lparr>Pkg_Identifier := received_identifier env (Pkg_Identifier pkg),
     Pkg_Epoch := wrap32 (Pkg_Epoch pkg), Pkg_SrcEpoch := wrap32 (Pkg_SrcEpoch pkg), Pkg_ExternalReferences := [],
     Pkg_Relationship := wrap32 (Pkg_Relationship pkg),
     Pkg_Locations := map received_location (Pkg_Locations pkg)\<rparr>"

lemma layer_roundtrip [simp]: "ConvertFromRPCLayer (Some (ConvertToRPCLayer l)) = l"
  by (simp add: ConvertFromRPCLayer_def ConvertToRPCLayer_def)

lemma code_roundtrip [simp]: "ConvertFromRPCCode (Some (ConvertToRPCCode c)) = received_code c"
  by (simp add: ConvertFromRPCCode_def ConvertToRPCCode_def received_code_def)

lemma location_roundtrip [simp]:
  "ConvertFromRPCLocation (ConvertToRPCLocations ls) = map received_location ls"
  by (simp add: ConvertFromRPCLocation_def ConvertToRPCLocations_def received_location_def)

lemma build_info_roundtrip [simp]: "ConvertFromRPCBuildInfo (ConvertToRPCBuildInfo b) = b"
  by (simp add: ConvertFromRPCBuildInfo_def ConvertToRPCBuildInfo_def split: option.split)

lemma repository_class_roundtrip [simp]: "ConvertFromRPCPackageRepository (ConvertToRPCPackageRepository c) = c"
  by (simp add: ConvertFromRPCPackageRepository_def ConvertToRPCPackageRepository_def)

lemma identifier_roundtrip [simp]:
  "ConvertFromRPCPkgIdentifier env (ConvertToRPCPkgIdentifier env i) = received_identifier env i"
  by (cases i) (auto simp: ConvertFromRPCPkgIdentifier_def ConvertToRPCPkgIdentifier_def received_identifier_def
      PkgIdentifier_Empty_def PkgIdentifier_empty_def split: option.split)

lemma pkg_roundtrip: "ConvertFromRPCPkg env (ConvertToRPCPkg env pkg) = received_pkg env pkg"
  by (simp add: ConvertFromRPCPkg_def ConvertToRPCPkg_def received_pkg_def)

lemma pkgs_received [simp]: "ConvertFromRPCPkgs env (ConvertToRPCPkgs env pkgs) = map (received_pkg env) pkgs"
  by (simp add: ConvertFromRPCPkgs_def ConvertToRPCPkgs_def pkg_roundtrip)

definition received_secret_finding :: "SecretFinding \<Rightarrow> SecretFinding" where
  "received_secret_finding f = f\<lparr>SF_StartLine := wrap32 (SF_StartLine f), SF_EndLine := wrap32 (SF_EndLine f),
     SF_Code := received_code (SF_Code f), SF_Layer := (SF_Layer f)\<lparr>Layer_Size := 0\<rparr>,
     SF_Offset := wrap32 (SF_Offset f)\<rparr>"

definition received_secret :: "Secret \<Rightarrow> Secret" where
  "received_secret s = s\<lparr>Secret_Findings := map received_secret_finding (Secret_Findings s)\<rparr>"

definition received_license_finding :: "LicenseFinding \<Rightarrow> LicenseFinding" where
  "received_license_finding f = f\<lparr>LF_Category := received_category (LF_Category f),
     LF_Confidence := float64_of (float32_of (LF_Confidence f))\<rparr>"

definition received_license_file :: "LicenseFile \<Rightarrow> LicenseFile" where
  "received_license_file l = l\<lparr>License_Type := received_license_type (License_Type l),
     License_Findings := map received_license_finding (License_Findings l)\<rparr>"

definition received_severity :: "rpc_env \<Rightarrow> string \<Rightarrow> string" where
  "received_severity env s = rpc_severity_String env (wrap32 (fst (rpc_NewSeverity env s)))"

definition received_license :: "rpc_env \<Rightarrow> DetectedLicense \<Rightarrow> DetectedLicense" where
  "received_license env l = l\<lparr>DL_Severity := received_severity env (DL_Severity l),
     DL_Category := received_category (DL_Category l), DL_Confidence := float64_of (float32_of (DL_Confidence l))\<rparr>"

definition received_asset :: "CryptoAsset \<Rightarrow> CryptoAsset" where
  "received_asset a = a\<lparr>
     Asset_Key := map_option (\<lambda>k. k\<lparr>Key_Size := wrap32 (Key_Size k)\<rparr>) (Asset_Key a),
     Asset_Algorithm := map_option (\<lambda>l. l\<lparr>Alg_ClassicalSecurityLevel := map_option wrap32 (Alg_ClassicalSecurityLevel l),
       Alg_NISTQuantumSecurityLevel := map_option wrap32 (Alg_NISTQuantumSecurityLevel l)\<rparr>) (Asset_Algorithm a),
     Asset_Relationships :=
       filter (\<lambda>r. is_ok (Descriptor_Validate (Rel_RelatedAsset r))) (Asset_Relationships a)\<rparr>"

definition received_crypto_finding :: "CryptoFinding \<Rightarrow> CryptoFinding" where
  "received_crypto_finding f =
     (let ev = Finding_Evidence f
      in f\<lparr>Finding_Evidence := ev\<lparr>Ev_KeySize := wrap32 (Ev_KeySize ev),
           Ev_ClassicalSecurityLevel := map_option wrap32 (Ev_ClassicalSecurityLevel ev)\<rparr>\<rparr>)"

definition received_vuln :: "rpc_env \<Rightarrow> DetectedVulnerability \<Rightarrow> DetectedVulnerability" where
  "received_vuln env vuln =
     (let v = DV_Vulnerability vuln; custom = (\<lambda>c. if c \<noteq> [] then AsInterface env (NewStringValue env (json_Marshal env c)) else [])
      in vuln\<lparr>DV_PkgIdentifier := received_identifier env (DV_PkgIdentifier vuln), DV_Status := wrap32 (DV_Status vuln),
           DV_DataSource := map_option (\<lambda>ds. ds\<lparr>DS_BaseID := []\<rparr>) (DV_DataSource vuln), DV_Fingerprint := [],
           DV_Custom := custom (DV_Custom vuln),
           DV_Vulnerability := v\<lparr>V_Severity := received_severity env (V_Severity v),
             V_VendorSeverity := map (\<lambda>(vendor, s). (vendor, wrap32 s)) (V_VendorSeverity v),
             V_Custom := custom (V_Custom v)\<rparr>\<rparr>)"

definition received_cause :: "CauseMetadata \<Rightarrow> CauseMetadata" where
  "received_cause c = c\<lparr>Cause_StartLine := wrap32 (Cause_StartLine c), Cause_EndLine := wrap32 (Cause_EndLine c),
     Cause_Code := received_code (Cause_Code c), Cause_Occurrences := []\<rparr>"

definition received_misconf_result :: "MisconfResult \<Rightarrow> MisconfResult" where
  "received_misconf_result r = r\<lparr>MR_CauseMetadata := received_cause (MR_CauseMetadata r), MR_Traces := []\<rparr>"

definition received_misconfiguration :: "Misconfiguration \<Rightarrow> Misconfiguration" where
  "received_misconfiguration m = m\<lparr>MC_Successes := map received_misconf_result (MC_Successes m),
     MC_Warnings := map received_misconf_result (MC_Warnings m),
     MC_Failures := map received_misconf_result (MC_Failures m), MC_Layer := Layer_empty\<rparr>"

definition received_misconf :: "rpc_env \<Rightarrow> DetectedMisconfiguration \<Rightarrow> DetectedMisconfiguration" where
  "received_misconf env m = m\<lparr>DM_Severity := rpc_Severity_String (wrap32 (fst (rpc_NewSeverity env (DM_Severity m)))),
     DM_CauseMetadata := received_cause (DM_CauseMetadata m), DM_Traces := []\<rparr>"

definition received_resource :: "rpc_env \<Rightarrow> CustomResource \<Rightarrow> CustomResource" where
  "received_resource env r = r\<lparr>
     CR_Layer := (CR_Layer r)\<lparr>Layer_Size := 0, Layer_CreatedBy := []\<rparr>,
     CR_Data := any_Value env (fst (NewValue env (CR_Data r)))\<rparr>"

section \<open>Round trips\<close>

lemma secret_finding_roundtrip [simp]:
  "ConvertFromRPCSecretFinding (ConvertToRPCSecretFinding f) = Some (received_secret_finding f)"
  by (cases "SF_Layer f") (simp add: ConvertFromRPCSecretFinding_def ConvertToRPCSecretFinding_def
      received_secret_finding_def ConvertToRPCLayer_def Layer_empty_def)

lemma secret_findings_roundtrip [simp]:
  "ConvertFromRPCSecretFindings (ConvertToRPCSecretFindings fs) = Some (map received_secret_finding fs)"
  by (simp add: ConvertFromRPCSecretFindings_def ConvertToRPCSecretFindings_def comp_def)

lemma detected_secrets_roundtrip [simp]:
  "ConvertFromRPCDetectedSecrets (ConvertToRPCSecretFindings fs) = Some (map received_secret_finding fs)"
  by (auto simp: ConvertFromRPCDetectedSecrets_def ConvertToRPCSecretFindings_def
      ConvertFromRPCSecretFindings_def comp_def)

lemma secret_roundtrip [simp]:
  "ConvertFromRPCSecret (ConvertToRPCSecret s) = Some (map_option received_secret s)"
  by (cases s) (simp_all add: ConvertFromRPCSecret_def ConvertToRPCSecret_def received_secret_def)

lemma secrets_roundtrip [simp]:
  "ConvertFromRPCSecrets (ConvertToRPCSecrets ss) = Some (map received_secret ss)"
  by (induction ss) (simp_all add: ConvertFromRPCSecrets_def ConvertToRPCSecrets_def ConvertFromRPCSecret_def
      ConvertToRPCSecret_def received_secret_def map_filter_simps comp_def)

lemma license_files_roundtrip:
  assumes "is_range (range_licenses env)"
  shows "ConvertFromRPCLicenseFiles (ConvertToRPCLicenseFiles env ls) = map received_license_file ls"
  by (simp add: ConvertFromRPCLicenseFiles_def ConvertToRPCLicenseFiles_def received_license_file_def
      received_license_finding_def ConvertFromRPCLicenseFindings_def ConvertToRPCLicenseFindings_def
      license_category_roundtrip [OF assms] license_type_roundtrip [OF assms])

lemma licenses_roundtrip:
  assumes "is_range (range_licenses env)"
  shows "ConvertFromRPCDetectedLicenses env (ConvertToRPCLicenses env ls) = map (received_license env) ls"
  by (simp add: ConvertFromRPCDetectedLicenses_def ConvertToRPCLicenses_def received_license_def received_severity_def
      license_category_roundtrip [OF assms])

lemma time_roundtrip:
  "rpc_env_ok env \<Longrightarrow> convertFromRPCTime env (convertToRPCTime env t) = t"
  by (simp add: convertFromRPCTime_def convertToRPCTime_def rpc_env_ok_def time_IsZero_def)

lemma certificate_roundtrip:
  "rpc_env_ok env \<Longrightarrow> convertFromRPCCryptoCertificate env (convertToRPCCryptoCertificate env c) = c"
  by (simp add: convertFromRPCCryptoCertificate_def convertToRPCCryptoCertificate_def time_roundtrip split: option.split)

lemma key_roundtrip:
  "convertFromRPCCryptoKey (convertToRPCCryptoKey k) = map_option (\<lambda>k. k\<lparr>Key_Size := wrap32 (Key_Size k)\<rparr>) k"
  by (simp add: convertFromRPCCryptoKey_def convertToRPCCryptoKey_def split: option.split)

lemma algorithm_roundtrip:
  "convertFromRPCCryptoAlgorithm (convertToRPCCryptoAlgorithm a) =
     map_option (\<lambda>l. l\<lparr>Alg_ClassicalSecurityLevel := map_option wrap32 (Alg_ClassicalSecurityLevel l),
       Alg_NISTQuantumSecurityLevel := map_option wrap32 (Alg_NISTQuantumSecurityLevel l)\<rparr>) a"
  by (simp add: convertFromRPCCryptoAlgorithm_def convertToRPCCryptoAlgorithm_def option.map_ident split: option.split)

lemma identity_roundtrip [simp]: "convertFromRPCCryptoIdentity (Some (convertToRPCCryptoIdentity i)) = i"
  by (simp add: convertFromRPCCryptoIdentity_def convertToRPCCryptoIdentity_def)

lemma descriptor_eta [simp]:
  "\<lparr>Desc_Kind = Desc_Kind d, Desc_KeyType = Desc_KeyType d, Desc_Identity = Desc_Identity d\<rparr> = d"
  by simp

lemma relationships_roundtrip:
  "convertFromRPCCryptoRelationships (convertToRPCCryptoRelationships rs) =
     filter (\<lambda>r. is_ok (Descriptor_Validate (Rel_RelatedAsset r))) rs"
  by (induction rs) (simp_all add: convertFromRPCCryptoRelationships_def convertToRPCCryptoRelationships_def
      convertFromRPCCryptoDescriptor_def map_filter_simps Let_def)

lemma asset_roundtrip:
  "rpc_env_ok env \<Longrightarrow> ConvertFromRPCCryptoAsset env (ConvertToRPCCryptoAsset env a) = received_asset a"
  by (simp add: ConvertFromRPCCryptoAsset_def ConvertToRPCCryptoAsset_def received_asset_def certificate_roundtrip
      key_roundtrip algorithm_roundtrip relationships_roundtrip)

lemma assets_received:
  "rpc_env_ok env \<Longrightarrow> ConvertFromRPCCryptoAssets env (ConvertToRPCCryptoAssets env as) = map received_asset as"
  by (simp add: ConvertFromRPCCryptoAssets_def ConvertToRPCCryptoAssets_def asset_roundtrip)

lemma crypto_findings_roundtrip:
  "rpc_env_ok env \<Longrightarrow>
     ConvertFromRPCCryptoFindings env (ConvertToRPCCryptoFindings env fs) = map received_crypto_finding fs"
  by (simp add: ConvertFromRPCCryptoFindings_def ConvertToRPCCryptoFindings_def received_crypto_finding_def
      time_roundtrip option.map_ident Let_def)

lemma cvss_roundtrip: "(\<lambda>(vendor, c). (vendor, fromRPCCVSS c)) \<circ> (\<lambda>(vendor, c). (vendor, toRPCCVSS c)) = id"
  by (auto simp: fromRPCCVSS_def toRPCCVSS_def)

lemma date_roundtrip:
  "rpc_env_ok env \<Longrightarrow> map_option (\<lambda>ts. ts_AsTime env (Some ts)) (map_option (ts_New env) d) = d"
  by (cases d) (simp_all add: rpc_env_ok_def)

lemma data_source_roundtrip:
  "ConvertFromRPCDataSource (ConvertToRPCDataSource d) = map_option (\<lambda>ds. ds\<lparr>DS_BaseID := []\<rparr>) d"
  by (cases d) (simp_all add: ConvertFromRPCDataSource_def ConvertToRPCDataSource_def)

lemma vuln_roundtrip:
  "rpc_env_ok env \<Longrightarrow> ConvertFromRPCVuln env (ConvertToRPCVuln env v) = received_vuln env v"
  by (cases v; cases "DV_Vulnerability v")
    (simp add: ConvertFromRPCVuln_def ConvertToRPCVuln_def received_vuln_def cvss_roundtrip date_roundtrip
      data_source_roundtrip received_severity_def fromRPCCustom_def toRPCCustom_def Let_def)

lemma vulns_received:
  "rpc_env_ok env \<Longrightarrow> ConvertFromRPCVulns env (ConvertToRPCVulns env vs) = map (received_vuln env) vs"
  by (simp add: ConvertFromRPCVulns_def ConvertToRPCVulns_def vuln_roundtrip)

lemma policy_roundtrip [simp]: "ConvertFromRPCPolicyMetadata (Some (ConvertToRPCPolicyMetadata p)) = p"
  by (simp add: ConvertFromRPCPolicyMetadata_def ConvertToRPCPolicyMetadata_def)

lemma cause_roundtrip [simp]: "ConvertFromRPCCauseMetadata (Some (ConvertToRPCCauseMetadata c)) = received_cause c"
  by (simp add: ConvertFromRPCCauseMetadata_def ConvertToRPCCauseMetadata_def received_cause_def
      ConvertFromRPCRenderedCause_def)

lemma misconf_results_roundtrip [simp]:
  "ConvertFromRPCMisconfResults (ConvertToMisconfResults rs) = map received_misconf_result rs"
  by (simp add: ConvertFromRPCMisconfResults_def ConvertToMisconfResults_def received_misconf_result_def)

lemma misconfs_roundtrip:
  "ConvertFromRPCMisconfs (ConvertToRPCMisconfs env ms) = map (received_misconf env) ms"
  by (simp add: ConvertFromRPCMisconfs_def ConvertToRPCMisconfs_def received_misconf_def)

lemma resource_roundtrip:
  "ConvertFromRPCCustomResources env (map (\<lambda>r. toRPCCustomResource (f r) r) rs) =
     Some (map (\<lambda>r. r\<lparr>CR_Layer := (CR_Layer r)\<lparr>Layer_Size := 0, Layer_CreatedBy := []\<rparr>, CR_Data := any_Value env (f r)\<rparr>) rs)"
  by (simp add: ConvertFromRPCCustomResources_def toRPCCustomResource_def Layer_empty_def comp_def)

lemma resources_received:
  "ConvertFromRPCCustomResources env (ConvertToRPCCustomResources env rs) = Some (map (received_resource env) rs)"
  by (simp add: ConvertToRPCCustomResources_def resource_roundtrip received_resource_def)

lemma os_roundtrip [simp]: "ConvertFromRPCOS (Some (ConvertToRPCOS o1)) = o1"
  by (simp add: ConvertFromRPCOS_def ConvertToRPCOS_def)

lemma repository_roundtrip [simp]: "ConvertFromRPCRepository (ConvertToRPCRepository r) = r"
  by (cases r) (simp_all add: ConvertFromRPCRepository_def ConvertToRPCRepository_def)

definition received_result :: "rpc_env \<Rightarrow> Result \<Rightarrow> Result" where
  "received_result env r = r\<lparr>Res_Packages := map (received_pkg env) (Res_Packages r),
     Res_Vulnerabilities := map (received_vuln env) (Res_Vulnerabilities r), Res_MisconfSummary := None,
     Res_Misconfigurations := map (received_misconf env) (Res_Misconfigurations r),
     Res_Secrets := map received_secret_finding (Res_Secrets r),
     Res_Licenses := map (received_license env) (Res_Licenses r),
     Res_CryptoAssets := map received_asset (Res_CryptoAssets r),
     Res_CryptoFindings := map received_crypto_finding (Res_CryptoFindings r),
     Res_CustomResources := map (received_resource env) (Res_CustomResources r), Res_ModifiedFindings := []\<rparr>"

definition received_blob :: "rpc_env \<Rightarrow> BlobInfo \<Rightarrow> BlobInfo" where
  "received_blob env b = b\<lparr>Blob_SchemaVersion := BlobJSONSchemaVersion,
     Blob_PackageInfos := map (\<lambda>i. i\<lparr>PI_Packages := map (received_pkg env) (PI_Packages i)\<rparr>) (Blob_PackageInfos b),
     Blob_Applications := map (\<lambda>a. a\<lparr>App_Packages := map (received_pkg env) (App_Packages a)\<rparr>) (Blob_Applications b),
     Blob_Misconfigurations := map received_misconfiguration (Blob_Misconfigurations b),
     Blob_Secrets := map received_secret (Blob_Secrets b),
     Blob_Licenses := map received_license_file (Blob_Licenses b),
     Blob_CryptoAssets := map received_asset (Blob_CryptoAssets b),
     Blob_CustomResources := map (received_resource env)
       (filter (\<lambda>r. snd (NewValue env (CR_Data r)) = None) (Blob_CustomResources b))\<rparr>"

definition received_artifact :: "rpc_env \<Rightarrow> ArtifactInfo \<Rightarrow> ArtifactInfo" where
  "received_artifact env a = a\<lparr>AI_SchemaVersion := wrap32 (AI_SchemaVersion a), AI_Misconfiguration := None,
     AI_Secret := map_option received_secret (AI_Secret a),
     AI_HistoryPackages := map (received_pkg env) (AI_HistoryPackages a)\<rparr>"

lemma result_roundtrip:
  assumes "rpc_env_ok env"
  shows "fromRPCResult env (toRPCResult env r) = Some (received_result env r)"
proof -
  have "is_range (range_licenses env)" using assms by (simp add: rpc_env_ok_def)
  then show ?thesis
    by (simp add: fromRPCResult_def toRPCResult_def received_result_def resources_received vulns_received [OF assms]
        misconfs_roundtrip licenses_roundtrip assets_received [OF assms] crypto_findings_roundtrip [OF assms])
qed

lemma results_received:
  "rpc_env_ok env \<Longrightarrow> ConvertFromRPCResults env (rsp_Results (ConvertToRPCScanResponse env response)) =
     Some (map (received_result env) (SR_Results response))"
  by (simp add: ConvertFromRPCResults_def ConvertToRPCScanResponse_def result_roundtrip comp_def)

lemma blob_resources_received:
  "ConvertFromRPCCustomResources env (List.map_filter (\<lambda>res.
      case NewValue env (CR_Data res) of (_, Some _) \<Rightarrow> None | (data, None) \<Rightarrow> Some (toRPCCustomResource data res)) rs) =
     Some (map (received_resource env) (filter (\<lambda>r. snd (NewValue env (CR_Data r)) = None) rs))"
  (is "ConvertFromRPCCustomResources env (List.map_filter ?f rs) = _")
proof -
  have "List.map_filter ?f rs =
      map (\<lambda>r. toRPCCustomResource (fst (NewValue env (CR_Data r))) r) (filter (\<lambda>r. snd (NewValue env (CR_Data r)) = None) rs)"
    by (induction rs) (auto simp: map_filter_simps split: prod.split option.split)
  then show ?thesis by (simp add: resource_roundtrip received_resource_def)
qed

lemma blob_received:
  assumes "rpc_env_ok env"
  shows "ConvertFromRPCPutBlobRequest env (ConvertToRPCPutBlobRequest env diffID b) = Some (received_blob env b)"
proof -
  have "is_range (range_licenses env)" using assms by (simp add: rpc_env_ok_def)
  then show ?thesis
    by (simp add: ConvertFromRPCPutBlobRequest_def ConvertToRPCPutBlobRequest_def received_blob_def Let_def
        blob_resources_received license_files_roundtrip assets_received [OF assms] comp_def
        ConvertFromRPCPackageInfos_def ConvertFromRPCApplications_def ConvertFromRPCMisconfigurations_def
        received_misconfiguration_def)
qed

lemma artifact_received:
  assumes "rpc_env_ok env"
  shows "ConvertFromRPCPutArtifactRequest env (ConvertToRPCArtifactInfo env imageID info) =
    Some (received_artifact env info)"
  using assms by (simp add: ConvertFromRPCPutArtifactRequest_def ConvertToRPCArtifactInfo_def received_artifact_def
      rpc_env_ok_def)

section \<open>What survives\<close>

definition pkg_sendable :: "rpc_env \<Rightarrow> Package \<Rightarrow> bool" where
  "pkg_sendable env p \<longleftrightarrow>
     int32_range (Pkg_Epoch p) \<and> int32_range (Pkg_SrcEpoch p) \<and> int32_range (Pkg_Relationship p) \<and>
     list_all (\<lambda>l. int32_range (StartLine l) \<and> int32_range (EndLine l)) (Pkg_Locations p) \<and>
     (case Id_PURL (Pkg_Identifier p) of None \<Rightarrow> True | Some u \<Rightarrow> purl_survives env u)"

definition asset_sendable :: "CryptoAsset \<Rightarrow> bool" where
  "asset_sendable a \<longleftrightarrow>
     (case Asset_Key a of None \<Rightarrow> True | Some k \<Rightarrow> int32_range (Key_Size k)) \<and>
     (case Asset_Algorithm a of None \<Rightarrow> True | Some l \<Rightarrow>
        pred_option int32_range (Alg_ClassicalSecurityLevel l) \<and> pred_option int32_range (Alg_NISTQuantumSecurityLevel l))"

lemma received_location_id: "int32_range (StartLine l) \<Longrightarrow> int32_range (EndLine l) \<Longrightarrow> received_location l = l"
  by (simp add: received_location_def)

lemma received_identifier_id:
  "(case Id_PURL i of None \<Rightarrow> True | Some u \<Rightarrow> purl_survives env u) \<Longrightarrow> received_identifier env i = i"
  by (cases i) (auto simp: received_identifier_def purl_survives_def split: option.splits)

lemma received_pkg_id: "pkg_sendable env p \<Longrightarrow> received_pkg env p = p\<lparr>Pkg_ExternalReferences := []\<rparr>"
proof -
  assume ok: "pkg_sendable env p"
  then have "map received_location (Pkg_Locations p) = Pkg_Locations p"
    by (auto simp: pkg_sendable_def list_all_iff received_location_id intro: map_idI)
  then show ?thesis using ok by (cases p) (simp add: received_pkg_def pkg_sendable_def received_identifier_id)
qed

lemma map_option_wrap32: "pred_option int32_range v \<Longrightarrow> map_option wrap32 v = v"
  by (cases v) simp_all

lemma received_asset_id:
  assumes "Asset_Validate a = Inr ()" "asset_sendable a"
  shows "received_asset a = a"
proof -
  have "\<forall>r \<in> set (Asset_Relationships a). is_ok (Descriptor_Validate (Rel_RelatedAsset r))"
    using assms(1) by (auto simp: Asset_Validate_def Info_Validate_iff Relationship_validate_def is_ok_iff split: if_splits)
  then have rels: "filter (\<lambda>r. is_ok (Descriptor_Validate (Rel_RelatedAsset r))) (Asset_Relationships a) = Asset_Relationships a"
    by (simp add: filter_id_conv)
  have "map_option (\<lambda>k. k\<lparr>Key_Size := wrap32 (Key_Size k)\<rparr>) (Asset_Key a) = Asset_Key a"
    "map_option (\<lambda>l. l\<lparr>Alg_ClassicalSecurityLevel := map_option wrap32 (Alg_ClassicalSecurityLevel l),
       Alg_NISTQuantumSecurityLevel := map_option wrap32 (Alg_NISTQuantumSecurityLevel l)\<rparr>) (Asset_Algorithm a) =
       Asset_Algorithm a"
    using assms(2) by (auto simp: asset_sendable_def map_option_wrap32 split: option.splits)
  then show ?thesis using rels by (cases a) (simp add: received_asset_def)
qed

lemma those_None_iff: "those xs = None \<longleftrightarrow> None \<in> set xs"
  by (induction xs) (auto split: option.splits)

text \<open>A blob request is converted unless a nil message is dereferenced.\<close>

definition secret_layers :: "rpc_Secret \<Rightarrow> bool" where
  "secret_layers s \<longleftrightarrow> list_all (\<lambda>f. rsf_Layer f \<noteq> None) (rsec_Findings s)"

lemma secret_findings_None:
  "ConvertFromRPCSecretFindings fs = None \<longleftrightarrow> \<not> list_all (\<lambda>f. rsf_Layer f \<noteq> None) fs"
  by (auto simp: ConvertFromRPCSecretFindings_def those_None_iff list_all_iff ConvertFromRPCSecretFinding_def
      image_iff split: option.splits)

lemma secrets_None: "ConvertFromRPCSecrets ss = None \<longleftrightarrow> \<not> list_all secret_layers ss"
proof -
  have "Option.bind (ConvertFromRPCSecret (Some s)) (\<lambda>x. x) = None \<longleftrightarrow> \<not> secret_layers s" for s
    by (cases "ConvertFromRPCSecretFindings (rsec_Findings s)")
      (use secret_findings_None [of "rsec_Findings s"] in \<open>auto simp: ConvertFromRPCSecret_def secret_layers_def\<close>)
  then show ?thesis
    by (auto simp: ConvertFromRPCSecrets_def those_None_iff list_all_iff image_iff) (metis+)
qed

lemma resources_None:
  "ConvertFromRPCCustomResources env rs = None \<longleftrightarrow> \<not> list_all (\<lambda>r. rcr_Layer r \<noteq> None) rs"
  by (auto simp: ConvertFromRPCCustomResources_def those_None_iff list_all_iff image_iff split: option.splits)

lemma PutBlobRequest_None:
  "ConvertFromRPCPutBlobRequest env req = None \<longleftrightarrow>
     (case rpb_BlobInfo req of
        None \<Rightarrow> True
      | Some b \<Rightarrow> \<not> (list_all (\<lambda>r. rcr_Layer r \<noteq> None) (rbl_CustomResources b) \<and> list_all secret_layers (rbl_Secrets b)))"
proof (cases "rpb_BlobInfo req")
  case (Some b)
  then show ?thesis
    using resources_None [of env "rbl_CustomResources b"] secrets_None [of "rbl_Secrets b"]
    by (cases "ConvertFromRPCCustomResources env (rbl_CustomResources b)"; cases "ConvertFromRPCSecrets (rbl_Secrets b)")
      (simp_all add: ConvertFromRPCPutBlobRequest_def)
qed (simp add: ConvertFromRPCPutBlobRequest_def)

text \<open>An example of the third-party code: the functions of the documented behaviour on simple data.\<close>

definition example_rpc_env :: rpc_env where
  "example_rpc_env = \<lparr>rpc_purl_String = (\<lambda>p. ''pkg:'' @ PURL_Type p @ ''/'' @ PURL_Name p),
     rpc_purl_FromString = (\<lambda>s.
       case split CHR ''/'' (trimPrefix s ''pkg:'') of
         [t, n] \<Rightarrow> (\<lparr>PURL_Type = t, PURL_Namespace = [], PURL_Name = n, PURL_Version = [], PURL_Qualifiers = [],
           PURL_Subpath = []\<rparr>, None)
       | _ \<Rightarrow> (\<lparr>PURL_Type = [], PURL_Namespace = [], PURL_Name = [], PURL_Version = [], PURL_Qualifiers = [],
           PURL_Subpath = []\<rparr>, Some (Errorf ''invalid purl'' []))),
     rpc_NewSeverity = (\<lambda>s. if s = ''HIGH'' then (3, None) else (0, Some (Errorf ''unknown severity: %s'' [s]))),
     rpc_severity_String = (\<lambda>s. if s = 3 then ''HIGH'' else ''UNKNOWN''),
     ts_New = (\<lambda>t. \<lparr>ts_Seconds = t div 1000000000, ts_Nanos = t mod 1000000000\<rparr>),
     ts_AsTime = (\<lambda>ts. case ts of Some x \<Rightarrow> ts_Seconds x * 1000000000 + ts_Nanos x | None \<Rightarrow> 62135596800000000000),
     NewValue = (\<lambda>d. (Some d, None)), NewStringValue = (\<lambda>s. s), AsInterface = (\<lambda>v. v),
     any_Value = (\<lambda>v. case v of Some x \<Rightarrow> x | None \<Rightarrow> []), json_Marshal = (\<lambda>c. c), range_licenses = rev\<rparr>"

lemma example_rpc_env_ok: "rpc_env_ok example_rpc_env"
  by (simp add: rpc_env_ok_def example_rpc_env_def)

text \<open>A package read back from its message is the package without its external references, which the message has no
  field for, when its integers fit the 32 bits of their fields and its package URL parses from its own text.\<close>

theorem pkgs_roundtrip:
  assumes "list_all (pkg_sendable env) pkgs"
  shows "ConvertFromRPCPkgs env (ConvertToRPCPkgs env pkgs) = map (\<lambda>p. p\<lparr>Pkg_ExternalReferences := []\<rparr>) pkgs"
  using assms by (simp add: list_all_iff received_pkg_id)

theorem pkgs_roundtrip_witness:
  "ConvertFromRPCPkgs example_rpc_env (ConvertToRPCPkgs example_rpc_env [example_package\<lparr>Pkg_Epoch := 2147483647\<rparr>]) =
     [example_package\<lparr>Pkg_Epoch := 2147483647\<rparr>]"
proof -
  have "list_all (pkg_sendable example_rpc_env) [example_package\<lparr>Pkg_Epoch := 2147483647\<rparr>]"
    by (simp add: pkg_sendable_def int32_range_def example_package_def Package_empty_def PkgIdentifier_empty_def)
  from pkgs_roundtrip [OF this] show ?thesis by (simp add: example_package_def Package_empty_def)
qed

text \<open>An integer and what a field of 32 bits makes of it.\<close>

definition wraps32 :: "int \<Rightarrow> int \<Rightarrow> bool" where
  "wraps32 i j \<longleftrightarrow> int32_range j \<and> j mod 2 ^ 32 = i mod 2 ^ 32 \<and> (j = i \<longleftrightarrow> int32_range i)"

lemma wraps32_wrap32: "wraps32 i (wrap32 i)"
  by (simp add: wraps32_def wrap32_range wrap32_cong [simplified] wrap32_iff)

lemma map_id_iff: "map f xs = xs \<longleftrightarrow> list_all (\<lambda>x. f x = x) xs"
  by (induction xs) auto

lemma received_location_iff: "received_location l = l \<longleftrightarrow> int32_range (StartLine l) \<and> int32_range (EndLine l)"
  by (cases l) (simp add: received_location_def wrap32_iff)

lemma received_identifier_iff:
  "received_identifier env i = i \<longleftrightarrow> (case Id_PURL i of None \<Rightarrow> True | Some u \<Rightarrow> purl_survives env u)"
  by (cases i) (auto simp: received_identifier_def purl_survives_def split: option.splits)

lemma received_pkg_iff: "received_pkg env p = p \<longleftrightarrow> pkg_sendable env p \<and> Pkg_ExternalReferences p = []"
proof -
  have "received_pkg env p = p \<longleftrightarrow>
      received_identifier env (Pkg_Identifier p) = Pkg_Identifier p \<and> wrap32 (Pkg_Epoch p) = Pkg_Epoch p \<and>
      wrap32 (Pkg_SrcEpoch p) = Pkg_SrcEpoch p \<and> Pkg_ExternalReferences p = [] \<and>
      wrap32 (Pkg_Relationship p) = Pkg_Relationship p \<and> map received_location (Pkg_Locations p) = Pkg_Locations p"
    by (cases p) (auto simp: received_pkg_def)
  then show ?thesis
    by (auto simp: pkg_sendable_def map_id_iff received_location_iff received_identifier_iff wrap32_iff)
qed

text \<open>C22. Packages arrive from their message as they were sent exactly when each of them has no external references, its two
  epochs, its relationship and the lines of its locations fit 32 bits, and its package URL, if any, parses from its own text. In
  every case the received epochs, relationship and lines are the ones sent modulo \<open>2\<^sup>3\<^sup>2\<close>, and every other
  field but the package URL and the external references, the 64-bit size of the layer included, is the one sent.\<close>

theorem pkgs_survive:
  "(ConvertFromRPCPkgs env (ConvertToRPCPkgs env pkgs) = pkgs \<longleftrightarrow>
      list_all (\<lambda>p. pkg_sendable env p \<and> Pkg_ExternalReferences p = []) pkgs) \<and>
    list_all2 (\<lambda>p q. wraps32 (Pkg_Epoch p) (Pkg_Epoch q) \<and> wraps32 (Pkg_SrcEpoch p) (Pkg_SrcEpoch q) \<and>
       wraps32 (Pkg_Relationship p) (Pkg_Relationship q) \<and>
       list_all2 (\<lambda>k l. wraps32 (StartLine k) (StartLine l) \<and> wraps32 (EndLine k) (EndLine l))
         (Pkg_Locations p) (Pkg_Locations q) \<and>
       q = p\<lparr>Pkg_Identifier := (Pkg_Identifier p)\<lparr>Id_PURL := Id_PURL (Pkg_Identifier q)\<rparr>, Pkg_Epoch := Pkg_Epoch q,
         Pkg_SrcEpoch := Pkg_SrcEpoch q, Pkg_Relationship := Pkg_Relationship q, Pkg_Locations := Pkg_Locations q,
         Pkg_ExternalReferences := []\<rparr>)
     pkgs (ConvertFromRPCPkgs env (ConvertToRPCPkgs env pkgs))"
  (is "?same \<and> list_all2 ?sent _ _")
proof
  show ?same by (simp add: map_id_iff received_pkg_iff)
  have "?sent p (received_pkg env p)" for p
    by (simp add: received_pkg_def received_identifier_def received_location_def wraps32_wrap32 list_all2_map2 list.rel_refl)
  then show "list_all2 ?sent pkgs (ConvertFromRPCPkgs env (ConvertToRPCPkgs env pkgs))"
    by (simp add: list_all2_map2 list.rel_refl)
qed

text \<open>C21. Every valid cryptographic asset whose key size and security levels fit 32 bits is read back from its message as it
  was: the relationships of a valid asset all survive the validation of their descriptors.\<close>

theorem crypto_assets_roundtrip:
  assumes "rpc_env_ok env" "list_all (\<lambda>a. Asset_Validate a = Inr () \<and> asset_sendable a) assets"
  shows "ConvertFromRPCCryptoAssets env (ConvertToRPCCryptoAssets env assets) = assets"
  using assms(2) by (auto simp: assets_received [OF assms(1)] list_all_iff received_asset_id intro: map_idI)

theorem crypto_assets_roundtrip_witness:
  "ConvertFromRPCCryptoAssets example_rpc_env (ConvertToRPCCryptoAssets example_rpc_env [example_asset]) = [example_asset]"
proof -
  have "Asset_Validate example_asset = Inr ()" by code_simp
  then have "list_all (\<lambda>a. Asset_Validate a = Inr () \<and> asset_sendable a) [example_asset]"
    by (simp add: asset_sendable_def) (simp add: example_asset_def)
  from crypto_assets_roundtrip [OF example_rpc_env_ok this] show ?thesis .
qed

end
