(* ===== verification/Artifact_Cache.thy ===== *)
theory Artifact_Cache
  imports Fanal_Artifact
begin

text \<open>
  The scan caches of \<open>pkg/cache\<close>: the interface (\<open>cache.go\<close>) as a locale, the memory cache (\<open>memory.go\<close>), the
  file system cache over a bolt database (\<open>fs.go\<close>), the redis cache (\<open>redis.go\<close>), the choice of a backend
  (\<open>client.go\<close>) and the keys of the entries (\<open>key.go\<close>).

  The databases are arguments: functions on a state, with the contracts \<open>bolt_ok\<close> and \<open>redis_ok\<close>. So are the JSON
  encodings of the two kinds of entries, the file system and the hash. A cache operation that changes the cache
  returns the new cache with its result.
\<close>

section \<open>Entries\<close>

definition ArtifactInfo_empty :: ArtifactInfo where
  "ArtifactInfo_empty = \<lparr>AI_SchemaVersion = 0, AI_Architecture = [], AI_Created = 0, AI_DockerVersion = [], AI_OS = [],
     AI_Misconfiguration = None, AI_Secret = None, AI_HistoryPackages = []\<rparr>"

definition BlobInfo_empty :: BlobInfo where
  "BlobInfo_empty = \<lparr>Blob_SchemaVersion = 0, Blob_Size = 0, Blob_Digest = [], Blob_DiffID = [], Blob_CreatedBy = [],
     Blob_OpaqueDirs = [], Blob_WhiteoutFiles = [], Blob_OS = OS_empty, Blob_Repository = None, Blob_PackageInfos = [],
     Blob_Applications = [], Blob_Misconfigurations = [], Blob_Secrets = [], Blob_Licenses = [], Blob_CryptoAssets = [],
     Blob_BuildInfo = None, Blob_CustomResources = []\<rparr>"

abbreviation artifactBucket :: string where "artifactBucket \<equiv> ''artifact''"
abbreviation blobBucket :: string where "blobBucket \<equiv> ''blob''"

section \<open>The interface (cache.go)\<close>

text \<open>The blobs of an artifact stored one after the other, as the inspection of an artifact does.\<close>

fun put_blobs :: "('c \<Rightarrow> string \<Rightarrow> BlobInfo \<Rightarrow> 'c \<times> unit result) \<Rightarrow> 'c \<Rightarrow> (string \<times> BlobInfo) list \<Rightarrow> 'c \<times> unit result" where
  "put_blobs put c [] = (c, Inr ())"
| "put_blobs put c ((k, b) # kbs) =
     (case put c k b of
        (c', Inl e) \<Rightarrow> (c', Inl e)
      | (c', Inr _) \<Rightarrow> put_blobs put c' kbs)"

text \<open>
  What a cache promises: a stored entry is read back, as \<open>view\<close> of it; entries under other keys and of the other
  kind are left alone; a deleted blob is not found; and the missing blobs are those not usable under their key.
\<close>

locale artifact_cache =
  fixes put_artifact :: "'c \<Rightarrow> string \<Rightarrow> ArtifactInfo \<Rightarrow> 'c \<times> unit result"
    and put_blob :: "'c \<Rightarrow> string \<Rightarrow> BlobInfo \<Rightarrow> 'c \<times> unit result"
    and delete_blobs :: "'c \<Rightarrow> string list \<Rightarrow> 'c \<times> unit result"
    and get_artifact :: "'c \<Rightarrow> string \<Rightarrow> ArtifactInfo result"
    and get_blob :: "'c \<Rightarrow> string \<Rightarrow> BlobInfo result"
    and missing_blobs :: "'c \<Rightarrow> string \<Rightarrow> string list \<Rightarrow> (bool \<times> string list) result"
    and inv :: "'c \<Rightarrow> bool"
    and view :: "BlobInfo \<Rightarrow> BlobInfo"
    and usable :: "BlobInfo \<Rightarrow> bool"
  assumes inv_put: "inv c \<Longrightarrow> inv (fst (put_blob c k b))"
    and inv_put_artifact: "inv c \<Longrightarrow> inv (fst (put_artifact c k a))"
    and inv_delete: "inv c \<Longrightarrow> inv (fst (delete_blobs c ks))"
    and get_put: "inv c \<Longrightarrow> put_blob c k b = (c', Inr ()) \<Longrightarrow> get_blob c' k = Inr (view b)"
    and get_put_other: "inv c \<Longrightarrow> k' \<noteq> k \<Longrightarrow> get_blob (fst (put_blob c k b)) k' = get_blob c k'"
    and get_put_artifact: "inv c \<Longrightarrow> get_blob (fst (put_artifact c k a)) k' = get_blob c k'"
    and artifact_put: "inv c \<Longrightarrow> get_artifact (fst (put_blob c k b)) k' = get_artifact c k'"
    and artifact_put_other: "inv c \<Longrightarrow> k' \<noteq> k \<Longrightarrow> get_artifact (fst (put_artifact c k a)) k' = get_artifact c k'"
    and get_delete: "inv c \<Longrightarrow> delete_blobs c ks = (c', Inr ()) \<Longrightarrow>
      (if k \<in> set ks then \<not> is_ok (get_blob c' k) else get_blob c' k = get_blob c k)"
    and missing: "inv c \<Longrightarrow> missing_blobs c ak ks = Inr (m, ms) \<Longrightarrow>
      ms = filter (\<lambda>k. case get_blob c k of Inl _ \<Rightarrow> True | Inr b \<Rightarrow> \<not> usable b) ks"
begin

lemma put_all_inv: "inv c \<Longrightarrow> inv (fst (put_blobs put_blob c kbs))"
proof (induction kbs arbitrary: c)
  case (Cons kb kbs)
  obtain c' r where p: "put_blob c (fst kb) (snd kb) = (c', r)" by fastforce
  then have "inv c'" using inv_put [OF Cons.prems, of "fst kb" "snd kb"] by simp
  then show ?case using Cons.IH [of c'] p by (cases kb; cases r) simp_all
qed simp

lemma put_all_other: "inv c \<Longrightarrow> k \<notin> fst ` set kbs \<Longrightarrow> get_blob (fst (put_blobs put_blob c kbs)) k = get_blob c k"
proof (induction kbs arbitrary: c)
  case (Cons kb kbs)
  obtain k' b where kb: "kb = (k', b)" by fastforce
  obtain c' r where p: "put_blob c k' b = (c', r)" by fastforce
  have "inv c'" "get_blob c' k = get_blob c k"
    using inv_put [OF Cons.prems(1), of k' b] get_put_other [OF Cons.prems(1), of k k' b] Cons.prems(2) p kb by simp_all
  then show ?case using Cons.IH [of c'] Cons.prems(2) p kb by (cases r) simp_all
qed simp

lemma put_all_get:
  "inv c \<Longrightarrow> distinct (map fst kbs) \<Longrightarrow> put_blobs put_blob c kbs = (c', Inr ()) \<Longrightarrow> (k, b) \<in> set kbs \<Longrightarrow>
     get_blob c' k = Inr (view b)"
proof (induction kbs arbitrary: c)
  case (Cons kb kbs)
  obtain k1 b1 where kb: "kb = (k1, b1)" by fastforce
  obtain c1 r where p: "put_blob c k1 b1 = (c1, r)" by fastforce
  with Cons.prems(3) kb have r: "r = Inr ()" and rest: "put_blobs put_blob c1 kbs = (c', Inr ())" by (cases r; simp)+
  have inv1: "inv c1" using inv_put [OF Cons.prems(1), of k1 b1] p by simp
  show ?case
  proof (cases "(k, b) \<in> set kbs")
    case True
    then show ?thesis using Cons.IH [OF inv1 _ rest] Cons.prems(2) by simp
  next
    case False
    with Cons.prems(4) kb have "k = k1" "b = b1" by auto
    moreover have "k1 \<notin> fst ` set kbs" using Cons.prems(2) kb by simp
    then have "get_blob c' k1 = get_blob c1 k1" using put_all_other [OF inv1, of k1 kbs] rest by simp
    ultimately show ?thesis using get_put [OF Cons.prems(1)] p r by simp
  qed
qed simp

lemma put_missing_all:
  assumes "inv c" "missing_blobs c a ks = Inr (m, ms)" "distinct (map fst kbs)" "set ms \<subseteq> fst ` set kbs"
    and "\<forall>(k, b) \<in> set kbs. usable (view b)" "put_blobs put_blob c kbs = (c', Inr ())" "missing_blobs c' a' ks = Inr (m', ms')"
  shows "ms' = []"
proof -
  have inv': "inv c'" using put_all_inv [OF assms(1), of kbs] assms(6) by simp
  have "case get_blob c' k of Inl _ \<Rightarrow> False | Inr b \<Rightarrow> usable b" if k: "k \<in> set ks" for k
  proof (cases "k \<in> fst ` set kbs")
    case True
    then obtain b where "(k, b) \<in> set kbs" by force
    then show ?thesis using put_all_get [OF assms(1,3,6)] assms(5) by auto
  next
    case False
    then have "get_blob c' k = get_blob c k" using put_all_other [OF assms(1), of k kbs] assms(6) by simp
    moreover have "k \<notin> set ms" using False assms(4) by blast
    ultimately show ?thesis using missing [OF assms(1,2)] k by (auto split: sum.splits)
  qed
  then show ?thesis using missing [OF inv' assms(7)] by (force simp: filter_empty_conv split: sum.splits)
qed

end

section \<open>The memory cache (memory.go)\<close>

text \<open>A \<open>sync.Map\<close> is an association list; it holds values of the one type that is stored into it.\<close>

record MemoryCache =
  mem_artifacts :: "(string \<times> ArtifactInfo) list"
  mem_blobs :: "(string \<times> BlobInfo) list"

definition NewMemoryCache :: MemoryCache where
  "NewMemoryCache = \<lparr>mem_artifacts = [], mem_blobs = []\<rparr>"

definition mem_PutArtifact :: "MemoryCache \<Rightarrow> string \<Rightarrow> ArtifactInfo \<Rightarrow> MemoryCache \<times> unit result" where
  "mem_PutArtifact c artifactID info = (c\<lparr>mem_artifacts := AList.update artifactID info (mem_artifacts c)\<rparr>, Inr ())"

definition mem_PutBlob :: "MemoryCache \<Rightarrow> string \<Rightarrow> BlobInfo \<Rightarrow> MemoryCache \<times> unit result" where
  "mem_PutBlob c blobID info = (c\<lparr>mem_blobs := AList.update blobID info (mem_blobs c)\<rparr>, Inr ())"

definition mem_DeleteBlobs :: "MemoryCache \<Rightarrow> string list \<Rightarrow> MemoryCache \<times> unit result" where
  "mem_DeleteBlobs c blobIDs = (c\<lparr>mem_blobs := fold AList.delete blobIDs (mem_blobs c)\<rparr>, Inr ())"

definition mem_GetArtifact :: "MemoryCache \<Rightarrow> string \<Rightarrow> ArtifactInfo result" where
  "mem_GetArtifact c artifactID =
     (case map_of (mem_artifacts c) artifactID of
        None \<Rightarrow> Inl (Errorf ''artifact (%s) not found in memory cache'' [artifactID])
      | Some info \<Rightarrow> Inr info)"

definition mem_GetBlob :: "MemoryCache \<Rightarrow> string \<Rightarrow> BlobInfo result" where
  "mem_GetBlob c blobID =
     (case map_of (mem_blobs c) blobID of
        None \<Rightarrow> Inl (Errorf ''blob (%s) not found in memory cache'' [blobID])
      | Some info \<Rightarrow> Inr info)"

definition mem_MissingBlobs :: "MemoryCache \<Rightarrow> string \<Rightarrow> string list \<Rightarrow> (bool \<times> string list) result" where
  "mem_MissingBlobs c artifactID blobIDs =
     Inr (\<not> is_ok (mem_GetArtifact c artifactID), filter (\<lambda>blobID. \<not> is_ok (mem_GetBlob c blobID)) blobIDs)"

definition mem_Close :: "MemoryCache \<Rightarrow> MemoryCache \<times> unit result" where
  "mem_Close c = (c\<lparr>mem_artifacts := [], mem_blobs := []\<rparr>, Inr ())"

definition mem_Clear :: "MemoryCache \<Rightarrow> MemoryCache \<times> unit result" where
  "mem_Clear c = (c\<lparr>mem_artifacts := [], mem_blobs := []\<rparr>, Inr ())"

definition mem_BlobIDs :: "((string \<times> BlobInfo) list \<Rightarrow> (string \<times> BlobInfo) list) \<Rightarrow> MemoryCache \<Rightarrow> string list" where
  "mem_BlobIDs range_of c = map fst (range_of (mem_blobs c))"

lemma map_of_fold_delete: "map_of (fold AList.delete ks m) k = (if k \<in> set ks then None else map_of m k)"
  by (induction ks arbitrary: m) (auto simp: delete_conv')

interpretation memory: artifact_cache mem_PutArtifact mem_PutBlob mem_DeleteBlobs mem_GetArtifact mem_GetBlob
  mem_MissingBlobs "\<lambda>_. True" "\<lambda>b. b" "\<lambda>_. True"
proof
  fix c :: MemoryCache and k k' :: string and b a ks c' m ms
  show "mem_GetBlob c' k = Inr b" if "mem_PutBlob c k b = (c', Inr ())"
    using that by (auto simp: mem_PutBlob_def mem_GetBlob_def update_conv')
  show "mem_GetBlob (fst (mem_PutBlob c k b)) k' = mem_GetBlob c k'" if "k' \<noteq> k"
    using that by (simp add: mem_PutBlob_def mem_GetBlob_def update_conv')
  show "mem_GetBlob (fst (mem_PutArtifact c k a)) k' = mem_GetBlob c k'"
    by (simp add: mem_PutArtifact_def mem_GetBlob_def)
  show "mem_GetArtifact (fst (mem_PutBlob c k b)) k' = mem_GetArtifact c k'"
    by (simp add: mem_PutBlob_def mem_GetArtifact_def)
  show "mem_GetArtifact (fst (mem_PutArtifact c k a)) k' = mem_GetArtifact c k'" if "k' \<noteq> k"
    using that by (simp add: mem_PutArtifact_def mem_GetArtifact_def update_conv')
  show "if k \<in> set ks then \<not> is_ok (mem_GetBlob c' k) else mem_GetBlob c' k = mem_GetBlob c k"
    if "mem_DeleteBlobs c ks = (c', Inr ())"
    using that by (auto simp: mem_DeleteBlobs_def mem_GetBlob_def map_of_fold_delete)
  show "ms = filter (\<lambda>k. case mem_GetBlob c k of Inl _ \<Rightarrow> True | Inr b \<Rightarrow> \<not> True) ks"
    if "mem_MissingBlobs c k ks = Inr (m, ms)"
    using that by (auto simp: mem_MissingBlobs_def is_ok_def intro!: filter_cong split: sum.splits)
qed simp_all

section \<open>The file system cache (fs.go)\<close>

text \<open>
  \<open>encoding/json\<close> on the two kinds of entries. A nil byte slice is the empty string, which is no JSON text; what is
  encoded decodes to a view of it, without the fields that the encoding leaves out.
\<close>

record json_env =
  Marshal_blob :: "BlobInfo \<Rightarrow> string result"
  Unmarshal_blob :: "string \<Rightarrow> BlobInfo result"
  Marshal_artifact :: "ArtifactInfo \<Rightarrow> string result"
  Unmarshal_artifact :: "string \<Rightarrow> ArtifactInfo result"

definition json_ok :: "(BlobInfo \<Rightarrow> BlobInfo) \<Rightarrow> json_env \<Rightarrow> bool" where
  "json_ok view js \<longleftrightarrow>
     (\<forall>b s. Marshal_blob js b = Inr s \<longrightarrow> Unmarshal_blob js s = Inr (view b)) \<and> \<not> is_ok (Unmarshal_blob js [])"

text \<open>
  A bolt database: reading and writing inside a transaction, the error with which a read transaction cannot start,
  and the read-write transaction \<open>Update\<close>. \<open>multierror\<close> joins errors.
\<close>

record 'd bolt_env =
  bolt_Get :: "'d \<Rightarrow> string \<Rightarrow> string \<Rightarrow> string"
  bolt_Put :: "'d \<Rightarrow> string \<Rightarrow> string \<Rightarrow> string \<Rightarrow> 'd result"
  bolt_Delete :: "'d \<Rightarrow> string \<Rightarrow> string \<Rightarrow> 'd result"
  bolt_View :: "'d \<Rightarrow> go_error option"
  bolt_Update :: "('d \<Rightarrow> 'd result) \<Rightarrow> 'd \<Rightarrow> 'd \<times> unit result"
  bolt_Close :: "'d \<Rightarrow> 'd \<times> go_error option"
  multierror :: "go_error list \<Rightarrow> go_error"

text \<open>
  The documented behaviour: a key maps to the value put last, nil when deleted; a transaction that fails is rolled
  back, one that succeeds ran on an open database and its changes are there.
\<close>

definition bolt_ok :: "'d bolt_env \<Rightarrow> bool" where
  "bolt_ok env \<longleftrightarrow>
     (\<forall>d bk k v d'. bolt_Put env d bk k v = Inr d' \<longrightarrow>
        (\<forall>bk' k'. bolt_Get env d' bk' k' = (if bk' = bk \<and> k' = k then v else bolt_Get env d bk' k'))) \<and>
     (\<forall>d bk k d'. bolt_Delete env d bk k = Inr d' \<longrightarrow>
        (\<forall>bk' k'. bolt_Get env d' bk' k' = (if bk' = bk \<and> k' = k then [] else bolt_Get env d bk' k'))) \<and>
     (\<forall>fn d d'. bolt_Update env fn d = (d', Inr ()) \<longrightarrow>
        bolt_View env d = None \<and> (\<exists>d1. fn d = Inr d1 \<and> bolt_Get env d' = bolt_Get env d1)) \<and>
     (\<forall>fn d d' e. bolt_Update env fn d = (d', Inl e) \<longrightarrow> bolt_Get env d' = bolt_Get env d) \<and>
     (\<forall>fn d. bolt_View env (fst (bolt_Update env fn d)) = bolt_View env d)"

definition fs_getBlob :: "'d bolt_env \<Rightarrow> json_env \<Rightarrow> 'd \<Rightarrow> string \<Rightarrow> BlobInfo result" where
  "fs_getBlob env js d diffID =
     wrap_err ''JSON unmarshal error: %w'' [] (Unmarshal_blob js (bolt_Get env d blobBucket diffID))"

definition fs_GetBlob :: "'d bolt_env \<Rightarrow> json_env \<Rightarrow> 'd \<Rightarrow> string \<Rightarrow> BlobInfo result" where
  "fs_GetBlob env js d blobID =
     wrap_err ''DB error: %w'' []
       (case bolt_View env d of
          Some e \<Rightarrow> Inl e
        | None \<Rightarrow> wrap_err ''failed to get blob from the cache: %w'' [] (fs_getBlob env js d blobID))"

definition fs_PutBlob :: "'d bolt_env \<Rightarrow> json_env \<Rightarrow> 'd \<Rightarrow> string \<Rightarrow> BlobInfo \<Rightarrow> 'd \<times> unit result" where
  "fs_PutBlob env js d blobID info =
     (case wrap_err ''unable to marshal blob JSON (%s): %w'' [blobID] (Marshal_blob js info) of
        Inl e \<Rightarrow> (d, Inl e)
      | Inr b \<Rightarrow> apsnd (wrap_err ''DB update error: %w'' [])
          (bolt_Update env (\<lambda>tx. wrap_err ''unable to store blob information in cache (%s): %w'' [blobID]
            (bolt_Put env tx blobBucket blobID b)) d))"

definition fs_GetArtifact :: "'d bolt_env \<Rightarrow> json_env \<Rightarrow> 'd \<Rightarrow> string \<Rightarrow> ArtifactInfo result" where
  "fs_GetArtifact env js d artifactID =
     (case bolt_View env d of
        Some e \<Rightarrow> Inl (Wrapf ''DB error: %w'' [] e)
      | None \<Rightarrow> wrap_err ''JSON unmarshal error: %w'' []
          (Unmarshal_artifact js (bolt_Get env d artifactBucket artifactID)))"

definition fs_PutArtifact :: "'d bolt_env \<Rightarrow> json_env \<Rightarrow> 'd \<Rightarrow> string \<Rightarrow> ArtifactInfo \<Rightarrow> 'd \<times> unit result" where
  "fs_PutArtifact env js d artifactID info =
     (case wrap_err ''unable to marshal artifact JSON (%s): %w'' [artifactID] (Marshal_artifact js info) of
        Inl e \<Rightarrow> (d, Inl e)
      | Inr b \<Rightarrow> apsnd (wrap_err ''DB update error: %w'' [])
          (bolt_Update env (\<lambda>tx. wrap_err ''unable to store artifact information in cache (%s): %w'' [artifactID]
            (bolt_Put env tx artifactBucket artifactID b)) d))"

text \<open>The loop of \<open>DeleteBlobs\<close> goes on after an error; the errors are collected.\<close>

fun fs_delete_loop :: "'d bolt_env \<Rightarrow> 'd \<Rightarrow> string list \<Rightarrow> 'd \<times> go_error list" where
  "fs_delete_loop env d [] = (d, [])"
| "fs_delete_loop env d (k # ks) =
     (case bolt_Delete env d blobBucket k of
        Inl e \<Rightarrow> apsnd (\<lambda>errs. e # errs) (fs_delete_loop env d ks)
      | Inr d1 \<Rightarrow> fs_delete_loop env d1 ks)"

definition fs_DeleteBlobs :: "'d bolt_env \<Rightarrow> 'd \<Rightarrow> string list \<Rightarrow> 'd \<times> unit result" where
  "fs_DeleteBlobs env d blobIDs =
     (case bolt_Update env (\<lambda>tx. Inr (fst (fs_delete_loop env tx blobIDs))) d of
        (d1, Inl e) \<Rightarrow> (d1, Inl (Wrapf ''DB delete error: %w'' [] e))
      | (d1, Inr _) \<Rightarrow> (d1, case snd (fs_delete_loop env d blobIDs) of [] \<Rightarrow> Inr () | errs \<Rightarrow> Inl (multierror env errs)))"

definition fs_blob_missing :: "BlobInfo result \<Rightarrow> bool" where
  "fs_blob_missing r = (case r of Inl _ \<Rightarrow> True | Inr info \<Rightarrow> Blob_SchemaVersion info \<noteq> BlobJSONSchemaVersion)"

definition fs_MissingBlobs :: "'d bolt_env \<Rightarrow> json_env \<Rightarrow> 'd \<Rightarrow> string \<Rightarrow> string list \<Rightarrow> (bool \<times> string list) result" where
  "fs_MissingBlobs env js d artifactID blobIDs =
     (case bolt_View env d of
        Some e \<Rightarrow> Inl (Wrapf ''DB error: %w'' [] e)
      | None \<Rightarrow>
          let missingBlobIDs = filter (\<lambda>blobID. fs_blob_missing (fs_getBlob env js d blobID)) blobIDs
          in case fs_GetArtifact env js d artifactID of
               Inl _ \<Rightarrow> Inr (True, missingBlobIDs)
             | Inr info \<Rightarrow> Inr (AI_SchemaVersion info \<noteq> ArtifactJSONSchemaVersion, missingBlobIDs))"

definition fs_Close :: "'d bolt_env \<Rightarrow> 'd \<Rightarrow> 'd \<times> unit result" where
  "fs_Close env d =
     (case bolt_Close env d of
        (d1, Some e) \<Rightarrow> (d1, Inl (Wrapf ''unable to close DB: %w'' [] e))
      | (d1, None) \<Rightarrow> (d1, Inr ()))"

definition fs_Clear :: "'d bolt_env \<Rightarrow> ('d \<Rightarrow> 'd \<times> go_error option) \<Rightarrow> 'd \<Rightarrow> 'd \<times> unit result" where
  "fs_Clear env os_RemoveAll d =
     (case fs_Close env d of
        (d1, Inl e) \<Rightarrow> (d1, Inl e)
      | (d1, Inr _) \<Rightarrow>
          (case os_RemoveAll d1 of
             (d2, Some e) \<Rightarrow> (d2, Inl (Wrapf ''failed to remove cache: %w'' [] e))
           | (d2, None) \<Rightarrow> (d2, Inr ())))"

subsection \<open>The file system cache keeps the contract\<close>

lemma bolt_laws:
  assumes "bolt_ok env"
  shows bolt_put: "bolt_Put env d bk k v = Inr d' \<Longrightarrow>
      bolt_Get env d' bk' k' = (if bk' = bk \<and> k' = k then v else bolt_Get env d bk' k')"
    and bolt_delete: "bolt_Delete env d bk k = Inr d' \<Longrightarrow>
      bolt_Get env d' bk' k' = (if bk' = bk \<and> k' = k then [] else bolt_Get env d bk' k')"
    and bolt_update: "bolt_Update env fn d = (d', Inr ()) \<Longrightarrow>
      bolt_View env d = None \<and> (\<exists>d1. fn d = Inr d1 \<and> bolt_Get env d' = bolt_Get env d1)"
    and bolt_rollback: "bolt_Update env fn d = (d', Inl e) \<Longrightarrow> bolt_Get env d' = bolt_Get env d"
    and bolt_view: "bolt_Update env fn d = (d', r) \<Longrightarrow> bolt_View env d' = bolt_View env d"
proof -
  show "bolt_Put env d bk k v = Inr d' \<Longrightarrow>
      bolt_Get env d' bk' k' = (if bk' = bk \<and> k' = k then v else bolt_Get env d bk' k')"
    by (rule assms [unfolded bolt_ok_def, THEN conjunct1, rule_format])
  show "bolt_Delete env d bk k = Inr d' \<Longrightarrow>
      bolt_Get env d' bk' k' = (if bk' = bk \<and> k' = k then [] else bolt_Get env d bk' k')"
    by (rule assms [unfolded bolt_ok_def, THEN conjunct2, THEN conjunct1, rule_format])
  show "bolt_Update env fn d = (d', Inr ()) \<Longrightarrow>
      bolt_View env d = None \<and> (\<exists>d1. fn d = Inr d1 \<and> bolt_Get env d' = bolt_Get env d1)"
    using assms unfolding bolt_ok_def by blast
  show "bolt_Update env fn d = (d', Inl e) \<Longrightarrow> bolt_Get env d' = bolt_Get env d"
    using assms unfolding bolt_ok_def by blast
  have "bolt_View env (fst (bolt_Update env fn d)) = bolt_View env d"
    using assms unfolding bolt_ok_def by blast
  then show "bolt_Update env fn d = (d', r) \<Longrightarrow> bolt_View env d' = bolt_View env d" by simp
qed

lemma apsnd_wrap_Inr [simp]: "apsnd (wrap_err fmt args) p = (d, Inr x) \<longleftrightarrow> p = (d, Inr x)"
  by (cases p) simp

text \<open>A value stored in a transaction of its own.\<close>

lemma bolt_store:
  assumes "bolt_ok env"
    and "bolt_Update env (\<lambda>tx. wrap_err fmt args (bolt_Put env tx bk k v)) d = (d', r)"
  shows "bolt_View env d' = bolt_View env d"
    and "r = Inr () \<Longrightarrow> bolt_View env d = None"
    and "bolt_Get env d' bk' k' = (if r = Inr () \<and> bk' = bk \<and> k' = k then v else bolt_Get env d bk' k')"
proof -
  show "bolt_View env d' = bolt_View env d" by (rule bolt_view [OF assms])
  show "r = Inr () \<Longrightarrow> bolt_View env d = None" using bolt_update [OF assms(1)] assms(2) by blast
  show "bolt_Get env d' bk' k' = (if r = Inr () \<and> bk' = bk \<and> k' = k then v else bolt_Get env d bk' k')"
  proof (cases r)
    case (Inl e)
    then show ?thesis using bolt_rollback [OF assms(1)] assms(2) by (metis sum.distinct(1))
  next
    case (Inr u)
    then obtain d1 where "bolt_Put env d bk k v = Inr d1" "bolt_Get env d' = bolt_Get env d1"
      using bolt_update [OF assms(1)] assms(2) by fastforce
    then show ?thesis using bolt_put [OF assms(1)] Inr by simp
  qed
qed

lemma fs_delete_loop_get:
  assumes "bolt_ok env" "fs_delete_loop env d ks = (d', errs)"
  shows "(errs = [] \<longrightarrow> k \<in> set ks \<longrightarrow> bolt_Get env d' blobBucket k = []) \<and>
    (k \<notin> set ks \<longrightarrow> bolt_Get env d' blobBucket k = bolt_Get env d blobBucket k)"
  using assms(2)
proof (induction ks arbitrary: d errs)
  case (Cons k1 ks)
  show ?case
  proof (cases "bolt_Delete env d blobBucket k1")
    case (Inl e)
    then obtain errs' where "fs_delete_loop env d ks = (d', errs')" "errs = e # errs'"
      using Cons.prems by (cases "fs_delete_loop env d ks") auto
    then show ?thesis using Cons.IH by fastforce
  next
    case (Inr d1)
    then have rest: "fs_delete_loop env d1 ks = (d', errs)" using Cons.prems by simp
    show ?thesis using Cons.IH [OF rest] bolt_delete [OF assms(1) Inr, of blobBucket k] by (cases "k = k1") auto
  qed
qed simp

lemma fs_artifact_cache:
  assumes bolt: "bolt_ok env" and json: "json_ok view js"
  shows "artifact_cache (fs_PutArtifact env js) (fs_PutBlob env js) (fs_DeleteBlobs env) (fs_GetArtifact env js)
    (fs_GetBlob env js) (fs_MissingBlobs env js) (\<lambda>_. True) view (\<lambda>b. Blob_SchemaVersion b = BlobJSONSchemaVersion)"
proof
  fix c k b c' k' a ks m ms and ak :: string
  show "fs_GetBlob env js c' k = Inr (view b)" if put: "fs_PutBlob env js c k b = (c', Inr ())"
  proof -
    from put obtain s where s: "Marshal_blob js b = Inr s"
      and u: "bolt_Update env (\<lambda>tx. wrap_err ''unable to store blob information in cache (%s): %w'' [k]
        (bolt_Put env tx blobBucket k s)) c = (c', Inr ())"
      by (cases "Marshal_blob js b") (auto simp: fs_PutBlob_def)
    show ?thesis using bolt_store [OF bolt u] json s
      by (simp add: fs_GetBlob_def fs_getBlob_def json_ok_def)
  qed
  show "fs_GetBlob env js (fst (fs_PutBlob env js c k b)) k' = fs_GetBlob env js c k'" if "k' \<noteq> k"
  proof (cases "Marshal_blob js b")
    case (Inr s)
    obtain d1 r where u: "bolt_Update env (\<lambda>tx. wrap_err ''unable to store blob information in cache (%s): %w'' [k]
        (bolt_Put env tx blobBucket k s)) c = (d1, r)" by fastforce
    show ?thesis using bolt_store [OF bolt u] u Inr that by (simp add: fs_PutBlob_def fs_GetBlob_def fs_getBlob_def split: option.split)
  qed (simp add: fs_PutBlob_def)
  show "fs_GetArtifact env js (fst (fs_PutBlob env js c k b)) k' = fs_GetArtifact env js c k'"
  proof (cases "Marshal_blob js b")
    case (Inr s)
    obtain d1 r where u: "bolt_Update env (\<lambda>tx. wrap_err ''unable to store blob information in cache (%s): %w'' [k]
        (bolt_Put env tx blobBucket k s)) c = (d1, r)" by fastforce
    show ?thesis using bolt_store [OF bolt u] u Inr by (simp add: fs_PutBlob_def fs_GetArtifact_def split: option.split)
  qed (simp add: fs_PutBlob_def)
  show "fs_GetBlob env js (fst (fs_PutArtifact env js c k a)) k' = fs_GetBlob env js c k'"
  proof (cases "Marshal_artifact js a")
    case (Inr s)
    obtain d1 r where u: "bolt_Update env (\<lambda>tx. wrap_err ''unable to store artifact information in cache (%s): %w'' [k]
        (bolt_Put env tx artifactBucket k s)) c = (d1, r)" by fastforce
    show ?thesis using bolt_store [OF bolt u] u Inr by (simp add: fs_PutArtifact_def fs_GetBlob_def fs_getBlob_def split: option.split)
  qed (simp add: fs_PutArtifact_def)
  show "fs_GetArtifact env js (fst (fs_PutArtifact env js c k a)) k' = fs_GetArtifact env js c k'" if "k' \<noteq> k"
  proof (cases "Marshal_artifact js a")
    case (Inr s)
    obtain d1 r where u: "bolt_Update env (\<lambda>tx. wrap_err ''unable to store artifact information in cache (%s): %w'' [k]
        (bolt_Put env tx artifactBucket k s)) c = (d1, r)" by fastforce
    show ?thesis using bolt_store [OF bolt u] u Inr that by (simp add: fs_PutArtifact_def fs_GetArtifact_def split: option.split)
  qed (simp add: fs_PutArtifact_def)
  show "if k \<in> set ks then \<not> is_ok (fs_GetBlob env js c' k) else fs_GetBlob env js c' k = fs_GetBlob env js c k"
    if del: "fs_DeleteBlobs env c ks = (c', Inr ())"
  proof -
    from del have u: "bolt_Update env (\<lambda>tx. Inr (fst (fs_delete_loop env tx ks))) c = (c', Inr ())"
      and errs: "snd (fs_delete_loop env c ks) = []"
      by (auto simp: fs_DeleteBlobs_def split: prod.splits sum.splits list.splits)
    have get: "bolt_Get env c' = bolt_Get env (fst (fs_delete_loop env c ks))" using bolt_update [OF bolt u] by auto
    have view: "bolt_View env c' = bolt_View env c" by (rule bolt_view [OF bolt u])
    have "fs_delete_loop env c ks = (fst (fs_delete_loop env c ks), [])" using errs by (simp add: prod_eq_iff)
    from fs_delete_loop_get [OF bolt this, of k] get json view show ?thesis
      by (auto simp: fs_GetBlob_def fs_getBlob_def json_ok_def split: option.split)
  qed
  show "ms = filter (\<lambda>k. case fs_GetBlob env js c k of Inl _ \<Rightarrow> True
      | Inr b \<Rightarrow> Blob_SchemaVersion b \<noteq> BlobJSONSchemaVersion) ks" if "fs_MissingBlobs env js c ak ks = Inr (m, ms)"
    using that by (auto simp: fs_MissingBlobs_def fs_GetBlob_def fs_blob_missing_def wrap_err_def Let_def
        intro!: filter_cong split: option.splits sum.splits)
qed simp_all

section \<open>The redis cache (redis.go)\<close>

text \<open>
  A redis client: \<open>Get\<close> yields no value for a missing key, \<open>Scan\<close> the first keys that match a pattern with a cursor,
  0 when there are no more. Entries expire; the contract is that of a server that keeps them.
\<close>

record 'd redis_env =
  redis_Set :: "'d \<Rightarrow> string \<Rightarrow> string \<Rightarrow> 'd \<times> go_error option"
  redis_Get :: "'d \<Rightarrow> string \<Rightarrow> string option result"
  redis_Del :: "'d \<Rightarrow> string \<Rightarrow> 'd \<times> go_error option"
  redis_Scan :: "'d \<Rightarrow> string \<Rightarrow> (string list \<times> nat) result"
  redis_Unlink :: "'d \<Rightarrow> string list \<Rightarrow> 'd \<times> go_error option"
  redis_Close :: "'d \<Rightarrow> 'd \<times> go_error option"
  redis_multierror :: "go_error list \<Rightarrow> go_error"

definition redis_ok :: "'d redis_env \<Rightarrow> bool" where
  "redis_ok env \<longleftrightarrow>
     (\<forall>d k v d'. redis_Set env d k v = (d', None) \<longrightarrow> redis_Get env d' k = Inr (Some v)) \<and>
     (\<forall>d k v k'. k' \<noteq> k \<longrightarrow> redis_Get env (fst (redis_Set env d k v)) k' = redis_Get env d k') \<and>
     (\<forall>d k d'. redis_Del env d k = (d', None) \<longrightarrow> redis_Get env d' k = Inr None) \<and>
     (\<forall>d k k'. k' \<noteq> k \<longrightarrow> redis_Get env (fst (redis_Del env d k)) k' = redis_Get env d k')"

abbreviation redisPrefix :: string where "redisPrefix \<equiv> ''fanal''"

definition redis_key :: "string \<Rightarrow> string \<Rightarrow> string" where
  "redis_key bucket i = redisPrefix @ ''::'' @ bucket @ ''::'' @ i"

definition redis_PutArtifact :: "'d redis_env \<Rightarrow> json_env \<Rightarrow> 'd \<Rightarrow> string \<Rightarrow> ArtifactInfo \<Rightarrow> 'd \<times> unit result" where
  "redis_PutArtifact env js d artifactID info =
     (case wrap_err ''failed to marshal artifact JSON: %w'' [] (Marshal_artifact js info) of
        Inl e \<Rightarrow> (d, Inl e)
      | Inr b \<Rightarrow>
          (case redis_Set env d (redis_key artifactBucket artifactID) b of
             (d1, Some e) \<Rightarrow>
               (d1, Inl (Wrapf ''unable to store artifact information in Redis cache (%s): %w'' [artifactID] e))
           | (d1, None) \<Rightarrow> (d1, Inr ())))"

definition redis_PutBlob :: "'d redis_env \<Rightarrow> json_env \<Rightarrow> 'd \<Rightarrow> string \<Rightarrow> BlobInfo \<Rightarrow> 'd \<times> unit result" where
  "redis_PutBlob env js d blobID info =
     (case wrap_err ''failed to marshal blob JSON: %w'' [] (Marshal_blob js info) of
        Inl e \<Rightarrow> (d, Inl e)
      | Inr b \<Rightarrow>
          (case redis_Set env d (redis_key blobBucket blobID) b of
             (d1, Some e) \<Rightarrow> (d1, Inl (Wrapf ''unable to store blob information in Redis cache (%s): %w'' [blobID] e))
           | (d1, None) \<Rightarrow> (d1, Inr ())))"

fun redis_delete_loop :: "'d redis_env \<Rightarrow> 'd \<Rightarrow> string list \<Rightarrow> 'd \<times> go_error list" where
  "redis_delete_loop env d [] = (d, [])"
| "redis_delete_loop env d (k # ks) =
     (case redis_Del env d (redis_key blobBucket k) of
        (d1, Some e) \<Rightarrow> apsnd (\<lambda>errs. Wrapf ''unable to delete blob %s: %w'' [k] e # errs) (redis_delete_loop env d1 ks)
      | (d1, None) \<Rightarrow> redis_delete_loop env d1 ks)"

definition redis_DeleteBlobs :: "'d redis_env \<Rightarrow> 'd \<Rightarrow> string list \<Rightarrow> 'd \<times> unit result" where
  "redis_DeleteBlobs env d blobIDs =
     (case redis_delete_loop env d blobIDs of
        (d1, []) \<Rightarrow> (d1, Inr ())
      | (d1, errs) \<Rightarrow> (d1, Inl (redis_multierror env errs)))"

definition redis_GetArtifact :: "'d redis_env \<Rightarrow> json_env \<Rightarrow> 'd \<Rightarrow> string \<Rightarrow> ArtifactInfo result" where
  "redis_GetArtifact env js d artifactID =
     (case redis_Get env d (redis_key artifactBucket artifactID) of
        Inr None \<Rightarrow> Inl (Errorf ''artifact (%s) is missing in Redis cache'' [artifactID])
      | Inl e \<Rightarrow> Inl (Wrapf ''failed to get artifact from the Redis cache: %w'' [] e)
      | Inr (Some val) \<Rightarrow> wrap_err ''failed to unmarshal artifact (%s) from Redis value: %w'' [artifactID]
          (Unmarshal_artifact js val))"

definition redis_GetBlob :: "'d redis_env \<Rightarrow> json_env \<Rightarrow> 'd \<Rightarrow> string \<Rightarrow> BlobInfo result" where
  "redis_GetBlob env js d blobID =
     (case redis_Get env d (redis_key blobBucket blobID) of
        Inr None \<Rightarrow> Inl (Errorf ''blob (%s) is missing in Redis cache'' [blobID])
      | Inl e \<Rightarrow> Inl (Wrapf ''failed to get blob from the Redis cache: %w'' [] e)
      | Inr (Some val) \<Rightarrow> wrap_err ''failed to unmarshal blob (%s) from Redis value: %w'' [blobID]
          (Unmarshal_blob js val))"

definition redis_MissingBlobs ::
    "'d redis_env \<Rightarrow> json_env \<Rightarrow> 'd \<Rightarrow> string \<Rightarrow> string list \<Rightarrow> (bool \<times> string list) result" where
  "redis_MissingBlobs env js d artifactID blobIDs =
     (let missingBlobIDs = filter (\<lambda>blobID. fs_blob_missing (redis_GetBlob env js d blobID)) blobIDs
      in case redis_GetArtifact env js d artifactID of
           Inl _ \<Rightarrow> Inr (True, missingBlobIDs)
         | Inr info \<Rightarrow> Inr (AI_SchemaVersion info \<noteq> ArtifactJSONSchemaVersion, missingBlobIDs))"

text \<open>\<open>Clear\<close> starts every scan at the cursor 0 and stops when the returned cursor is 0: it may run forever.\<close>

partial_function (option) redis_Clear :: "'d redis_env \<Rightarrow> 'd \<Rightarrow> ('d \<times> unit result) option" where
  "redis_Clear env d =
     (case redis_Scan env d (redisPrefix @ ''::*'') of
        Inl e \<Rightarrow> Some (d, Inl (Wrapf ''failed to perform prefix scanning: %w'' [] e))
      | Inr (keys, cursor) \<Rightarrow>
          (case redis_Unlink env d keys of
             (d1, Some e) \<Rightarrow> Some (d1, Inl (Wrapf ''failed to unlink redis keys: %w'' [] e))
           | (d1, None) \<Rightarrow> if cursor = 0 then Some (d1, Inr ()) else redis_Clear env d1))"

text \<open>The options of a connection.\<close>

record RedisTLSOptions =
  TLS_CACert :: string
  TLS_Cert :: string
  TLS_Key :: string

definition NewRedisTLSOptions :: "string \<Rightarrow> string \<Rightarrow> string \<Rightarrow> RedisTLSOptions result" where
  "NewRedisTLSOptions caCert cert key =
     (let opts = \<lparr>TLS_CACert = caCert, TLS_Cert = cert, TLS_Key = key\<rparr>
      in if opts \<noteq> \<lparr>TLS_CACert = [], TLS_Cert = [], TLS_Key = []\<rparr> \<and> (caCert = [] \<or> cert = [] \<or> key = [])
         then Inl (Errorf ''you must provide Redis CA, cert and key file paths when using TLS'' [])
         else Inr opts)"

text \<open>\<open>strings.Index\<close>; slicing from 1 when there is no \<open>//\<close>, where the index is -1.\<close>

fun index_of :: "string \<Rightarrow> string \<Rightarrow> nat option" where
  "index_of sub [] = (if sub = [] then Some 0 else None)"
| "index_of sub (c # s) = (if hasPrefix (c # s) sub then Some 0 else map_option Suc (index_of sub s))"

definition BackendMasked :: "string \<Rightarrow> string" where
  "BackendMasked backend =
     (case index_of ''@'' backend of
        None \<Rightarrow> backend
      | Some endIndex \<Rightarrow>
          let startIndex = (case index_of ''//'' backend of Some i \<Rightarrow> i + 2 | None \<Rightarrow> 1)
          in take startIndex backend @ ''****'' @ drop endIndex backend)"

section \<open>Backends (client.go)\<close>

definition NewType :: "string \<Rightarrow> string" where
  "NewType backend =
     (if hasPrefix backend ''redis://'' then ''redis''
      else if backend = ''fs'' \<or> backend = [] then ''fs''
      else if backend = ''memory'' then ''memory''
      else ''unknown'')"

section \<open>Keys (key.go)\<close>

text \<open>Of the options, those the key is made of, in place of the nested structs that hold them.\<close>

record key_options =
  Opt_DisabledAnalyzers :: "string list"
  Opt_SkipFiles :: "string list"
  Opt_SkipDirs :: "string list"
  Opt_FilePatterns :: "string list"
  Opt_DetectionPriority :: string
  Opt_Namespaces :: "string list"
  Opt_PolicyPaths :: "string list"
  Opt_DataPaths :: "string list"
  Opt_SecretConfigPath :: string

definition Option_Sort :: "key_options \<Rightarrow> key_options" where
  "Option_Sort o1 = o1\<lparr>Opt_DisabledAnalyzers := sort (Opt_DisabledAnalyzers o1), Opt_SkipFiles := sort (Opt_SkipFiles o1),
     Opt_SkipDirs := sort (Opt_SkipDirs o1), Opt_FilePatterns := sort (Opt_FilePatterns o1)\<rparr>"

definition ScannerOption_Sort :: "key_options \<Rightarrow> key_options" where
  "ScannerOption_Sort o1 = o1\<lparr>Opt_Namespaces := sort (Opt_Namespaces o1), Opt_PolicyPaths := sort (Opt_PolicyPaths o1),
     Opt_DataPaths := sort (Opt_DataPaths o1)\<rparr>"

record Versions =
  Ver_Analyzers :: "string \<rightharpoonup> int"
  Ver_PostAnalyzers :: "string \<rightharpoonup> int"

record keyBase =
  KB_ID :: string
  KB_ArtifactVersion :: int
  KB_AnalyzerVersions :: Versions
  KB_HookVersions :: "string \<rightharpoonup> int"
  KB_SkipFiles :: "string list"
  KB_SkipDirs :: "string list"
  KB_FilePatterns :: "string list"
  KB_DetectionPriority :: string

text \<open>The JSON encoder, the hash as a hexadecimal text, and the file system: whether a path is a directory, and the hashes.\<close>

record key_env =
  encode_keyBase :: "keyBase \<Rightarrow> string result"
  key_sha256 :: "string \<Rightarrow> string"
  key_Stat :: "string \<Rightarrow> bool result"
  key_HashDir :: "string \<Rightarrow> string result"
  key_HashFile :: "string \<Rightarrow> string result"

definition hashContents :: "key_env \<Rightarrow> string \<Rightarrow> string result" where
  "hashContents env path =
     bind_result (wrap_err ''file %q stat error: %w'' [path] (key_Stat env path)) (\<lambda>isDir.
       if isDir then wrap_err ''hash dir error (%s): %w'' [path] (key_HashDir env path)
       else wrap_err ''hash file error (%s): %w'' [path] (key_HashFile env path))"

fun hash_paths :: "key_env \<Rightarrow> string list \<Rightarrow> string \<Rightarrow> string result" where
  "hash_paths env [] h = Inr h"
| "hash_paths env (p # ps) h = bind_result (hashContents env p) (\<lambda>hash. hash_paths env ps (h @ hash))"

definition key_base :: "string \<Rightarrow> int \<Rightarrow> Versions \<Rightarrow> (string \<rightharpoonup> int) \<Rightarrow> key_options \<Rightarrow> keyBase" where
  "key_base i artifactVersion analyzerVersions hookVersions o1 = \<lparr>KB_ID = i, KB_ArtifactVersion = artifactVersion,
     KB_AnalyzerVersions = analyzerVersions, KB_HookVersions = hookVersions, KB_SkipFiles = Opt_SkipFiles o1,
     KB_SkipDirs = Opt_SkipDirs o1, KB_FilePatterns = Opt_FilePatterns o1,
     KB_DetectionPriority = Opt_DetectionPriority o1\<rparr>"

definition key_paths :: "key_env \<Rightarrow> key_options \<Rightarrow> string list" where
  "key_paths env o1 = Opt_PolicyPaths o1 @ Opt_DataPaths o1 @
     (if is_ok (key_Stat env (Opt_SecretConfigPath o1)) then [Opt_SecretConfigPath o1] else [])"

definition CalcKey ::
    "key_env \<Rightarrow> string \<Rightarrow> int \<Rightarrow> Versions \<Rightarrow> (string \<rightharpoonup> int) \<Rightarrow> key_options \<Rightarrow> string result" where
  "CalcKey env i artifactVersion analyzerVersions hookVersions artifactOpt =
     (let o1 = ScannerOption_Sort (Option_Sort artifactOpt)
      in bind_result (wrap_err ''json encode error: %w'' []
           (encode_keyBase env (key_base i artifactVersion analyzerVersions hookVersions o1))) (\<lambda>h.
         bind_result (hash_paths env (key_paths env o1) h) (\<lambda>h1. Inr (''sha256:'' @ key_sha256 env h1))))"

section \<open>The redis cache keeps the contract\<close>

lemma redis_key_eq: "redis_key b i = redis_key b j \<longleftrightarrow> i = j"
  by (simp add: redis_key_def)

lemma redis_key_kinds: "redis_key artifactBucket i \<noteq> redis_key blobBucket j"
  by (simp add: redis_key_def)

lemma redis_laws:
  assumes "redis_ok env"
  shows redis_set: "redis_Set env d k v = (d', None) \<Longrightarrow> redis_Get env d' k = Inr (Some v)"
    and redis_set_other: "k' \<noteq> k \<Longrightarrow> redis_Get env (fst (redis_Set env d k v)) k' = redis_Get env d k'"
    and redis_del: "redis_Del env d k = (d', None) \<Longrightarrow> redis_Get env d' k = Inr None"
    and redis_del_other: "k' \<noteq> k \<Longrightarrow> redis_Get env (fst (redis_Del env d k)) k' = redis_Get env d k'"
  using assms unfolding redis_ok_def by blast+

lemma redis_PutBlob_get:
  assumes "redis_ok env" "k' \<noteq> redis_key blobBucket k"
  shows "redis_Get env (fst (redis_PutBlob env js d k b)) k' = redis_Get env d k'"
  using redis_set_other [OF assms, of d]
  by (auto simp: redis_PutBlob_def split: sum.split prod.split option.split) (metis fst_conv)+

lemma redis_PutArtifact_get:
  assumes "redis_ok env" "k' \<noteq> redis_key artifactBucket k"
  shows "redis_Get env (fst (redis_PutArtifact env js d k b)) k' = redis_Get env d k'"
  using redis_set_other [OF assms, of d]
  by (auto simp: redis_PutArtifact_def split: sum.split prod.split option.split) (metis fst_conv)+

lemma redis_delete_loop_get:
  assumes "redis_ok env" "redis_delete_loop env d ks = (d', errs)"
  shows "(errs = [] \<longrightarrow> k \<in> set ks \<longrightarrow> redis_Get env d' (redis_key blobBucket k) = Inr None) \<and>
    (k \<notin> set ks \<longrightarrow> redis_Get env d' (redis_key blobBucket k) = redis_Get env d (redis_key blobBucket k))"
  using assms(2)
proof (induction ks arbitrary: d errs)
  case (Cons k1 ks)
  obtain d1 r where del: "redis_Del env d (redis_key blobBucket k1) = (d1, r)" by fastforce
  have other: "k \<noteq> k1 \<Longrightarrow> redis_Get env d1 (redis_key blobBucket k) = redis_Get env d (redis_key blobBucket k)"
    using redis_del_other [OF assms(1), of "redis_key blobBucket k" "redis_key blobBucket k1" d] del
    by (simp add: redis_key_eq)
  show ?case
  proof (cases r)
    case None
    then have rest: "redis_delete_loop env d1 ks = (d', errs)" using Cons.prems del by simp
    show ?thesis using Cons.IH [OF rest] other redis_del [OF assms(1), of d "redis_key blobBucket k1" d1] del None
      by (cases "k = k1") auto
  next
    case (Some e)
    then obtain errs' where rest: "redis_delete_loop env d1 ks = (d', errs')" and "errs \<noteq> []"
      using Cons.prems del by (cases "redis_delete_loop env d1 ks") auto
    then show ?thesis using Cons.IH [OF rest] other by auto
  qed
qed simp

lemma redis_artifact_cache:
  assumes redis: "redis_ok env" and json: "json_ok view js"
  shows "artifact_cache (redis_PutArtifact env js) (redis_PutBlob env js) (redis_DeleteBlobs env) (redis_GetArtifact env js)
    (redis_GetBlob env js) (redis_MissingBlobs env js) (\<lambda>_. True) view (\<lambda>b. Blob_SchemaVersion b = BlobJSONSchemaVersion)"
proof
  fix c k b c' k' a ks m ms and ak :: string
  show "redis_GetBlob env js c' k = Inr (view b)" if "redis_PutBlob env js c k b = (c', Inr ())"
  proof -
    from that obtain s where s: "Marshal_blob js b = Inr s" and set: "redis_Set env c (redis_key blobBucket k) s = (c', None)"
      by (cases "Marshal_blob js b") (auto simp: redis_PutBlob_def split: prod.splits option.splits)
    then show ?thesis using redis_set [OF redis set] json by (simp add: redis_GetBlob_def json_ok_def)
  qed
  show "redis_GetBlob env js (fst (redis_PutBlob env js c k b)) k' = redis_GetBlob env js c k'" if "k' \<noteq> k"
    using redis_PutBlob_get [OF redis, of "redis_key blobBucket k'" k] that by (simp add: redis_GetBlob_def redis_key_eq)
  show "redis_GetBlob env js (fst (redis_PutArtifact env js c k a)) k' = redis_GetBlob env js c k'"
    using redis_PutArtifact_get [OF redis, of "redis_key blobBucket k'" k] redis_key_kinds [of k k']
    by (simp add: redis_GetBlob_def)
  show "redis_GetArtifact env js (fst (redis_PutBlob env js c k b)) k' = redis_GetArtifact env js c k'"
    using redis_PutBlob_get [OF redis, of "redis_key artifactBucket k'" k] redis_key_kinds [of k' k]
    by (simp add: redis_GetArtifact_def)
  show "redis_GetArtifact env js (fst (redis_PutArtifact env js c k a)) k' = redis_GetArtifact env js c k'" if "k' \<noteq> k"
    using redis_PutArtifact_get [OF redis, of "redis_key artifactBucket k'" k] that
    by (simp add: redis_GetArtifact_def redis_key_eq)
  show "if k \<in> set ks then \<not> is_ok (redis_GetBlob env js c' k) else redis_GetBlob env js c' k = redis_GetBlob env js c k"
    if "redis_DeleteBlobs env c ks = (c', Inr ())"
  proof -
    from that have "redis_delete_loop env c ks = (c', [])"
      by (auto simp: redis_DeleteBlobs_def split: prod.splits list.splits)
    from redis_delete_loop_get [OF redis this, of k] show ?thesis by (simp add: redis_GetBlob_def)
  qed
  show "ms = filter (\<lambda>k. case redis_GetBlob env js c k of Inl _ \<Rightarrow> True
      | Inr b \<Rightarrow> Blob_SchemaVersion b \<noteq> BlobJSONSchemaVersion) ks" if "redis_MissingBlobs env js c ak ks = Inr (m, ms)"
    using that by (auto simp: redis_MissingBlobs_def fs_blob_missing_def Let_def split: sum.splits)
qed simp_all

section \<open>Storing what is missing\<close>

lemma fs_PutBlob_view: "bolt_ok env \<Longrightarrow> fs_PutBlob env js d k b = (d', r) \<Longrightarrow> bolt_View env d' = bolt_View env d"
  by (cases "Marshal_blob js b") (auto simp: fs_PutBlob_def apsnd_def map_prod_def bolt_view split: prod.splits)

lemma put_blobs_view:
  "bolt_ok env \<Longrightarrow> put_blobs (fs_PutBlob env js) d kbs = (d', r) \<Longrightarrow> bolt_View env d' = bolt_View env d"
proof (induction kbs arbitrary: d)
  case (Cons kb kbs)
  obtain k b where kb: "kb = (k, b)" by fastforce
  obtain d1 r1 where put: "fs_PutBlob env js d k b = (d1, r1)" by fastforce
  then show ?case using fs_PutBlob_view [OF Cons.prems(1) put] Cons.IH [OF Cons.prems(1), of d1] Cons.prems(2) kb
    by (cases r1) auto
qed simp

text \<open>C28. After the blobs reported missing by the file system cache are stored, none of the blobs of the artifact is missing,
  and each stored blob is read back as its JSON view.\<close>

theorem fs_missing_stored:
  assumes "bolt_ok env" "json_ok view js" "fs_MissingBlobs env js d artifactID blobIDs = Inr (m, missing)"
    and "distinct (map fst kbs)" "set missing \<subseteq> fst ` set kbs"
    and "list_all (\<lambda>(k, b). Blob_SchemaVersion (view b) = BlobJSONSchemaVersion) kbs"
    and "put_blobs (fs_PutBlob env js) d kbs = (d', Inr ())"
  shows "map_sum id snd (fs_MissingBlobs env js d' artifactID blobIDs) = Inr [] \<and>
    list_all (\<lambda>(k, b). fs_GetBlob env js d' k = Inr (view b)) kbs"
proof -
  note cache = fs_artifact_cache [OF assms(1,2)]
  have "bolt_View env d' = None"
    using put_blobs_view [OF assms(1,7)] assms(3) by (auto simp: fs_MissingBlobs_def split: option.splits)
  then obtain m' ms where ms: "fs_MissingBlobs env js d' artifactID blobIDs = Inr (m', ms)"
    by (cases "fs_GetArtifact env js d' artifactID") (auto simp: fs_MissingBlobs_def Let_def)
  have "ms = []"
    using artifact_cache.put_missing_all [OF cache _ assms(3-5) _ assms(7) ms] assms(6) by (simp add: list_all_iff)
  moreover have "list_all (\<lambda>(k, b). fs_GetBlob env js d' k = Inr (view b)) kbs"
    using artifact_cache.put_all_get [OF cache _ assms(4,7)] by (auto simp: list_all_iff)
  ultimately show ?thesis using ms by simp
qed

text \<open>An example database: an association list from buckets and keys to values.\<close>

definition example_bolt :: "((string \<times> string) \<times> string) list bolt_env" where
  "example_bolt = \<lparr>bolt_Get = (\<lambda>d bk k. case map_of d (bk, k) of Some v \<Rightarrow> v | None \<Rightarrow> []),
     bolt_Put = (\<lambda>d bk k v. Inr (AList.update (bk, k) v d)), bolt_Delete = (\<lambda>d bk k. Inr (AList.delete (bk, k) d)),
     bolt_View = (\<lambda>_. None), bolt_Update = (\<lambda>fn d. case fn d of Inl e \<Rightarrow> (d, Inl e) | Inr d1 \<Rightarrow> (d1, Inr ())),
     bolt_Close = (\<lambda>d. (d, None)), multierror = (\<lambda>errs. Errorf ''errors'' [])\<rparr>"

definition example_json :: json_env where
  "example_json = \<lparr>Marshal_blob = (\<lambda>b. Inr (''{'' @ Blob_DiffID b)),
     Unmarshal_blob = (\<lambda>s. case s of [] \<Rightarrow> Inl (Errorf ''unexpected end of JSON input'' [])
       | _ # i \<Rightarrow> Inr (BlobInfo_empty\<lparr>Blob_SchemaVersion := BlobJSONSchemaVersion, Blob_DiffID := i\<rparr>)),
     Marshal_artifact = (\<lambda>_. Inr ''{}''),
     Unmarshal_artifact = (\<lambda>s. if s = [] then Inl (Errorf ''unexpected end of JSON input'' []) else Inr ArtifactInfo_empty)\<rparr>"

definition example_view :: "BlobInfo \<Rightarrow> BlobInfo" where
  "example_view b = BlobInfo_empty\<lparr>Blob_SchemaVersion := BlobJSONSchemaVersion, Blob_DiffID := Blob_DiffID b\<rparr>"

lemma example_bolt_ok: "bolt_ok example_bolt"
  by (auto simp: bolt_ok_def example_bolt_def update_conv' delete_conv' split: sum.splits)

lemma example_json_ok: "json_ok example_view example_json"
  by (simp add: json_ok_def example_json_def example_view_def)

theorem fs_missing_stored_witness:
  "fs_MissingBlobs example_bolt example_json [((blobBucket, ''a''), ''{a'')] ''image'' [''a'', ''b''] = Inr (True, [''b'']) \<and>
   fs_MissingBlobs example_bolt example_json
     (fst (put_blobs (fs_PutBlob example_bolt example_json) [((blobBucket, ''a''), ''{a'')]
        [(''b'', BlobInfo_empty\<lparr>Blob_DiffID := ''b''\<rparr>)])) ''image'' [''a'', ''b''] = Inr (True, [])"
proof -
  let ?d = "[((blobBucket, ''a''), ''{a'')]" and ?kbs = "[(''b'', BlobInfo_empty\<lparr>Blob_DiffID := ''b''\<rparr>)]"
  have missing: "fs_MissingBlobs example_bolt example_json ?d ''image'' [''a'', ''b''] = Inr (True, [''b''])" by code_simp
  obtain d' where put: "put_blobs (fs_PutBlob example_bolt example_json) ?d ?kbs = (d', Inr ())"
    by (simp add: fs_PutBlob_def example_bolt_def example_json_def)
  then have d': "d' = fst (put_blobs (fs_PutBlob example_bolt example_json) ?d ?kbs)" by simp
  have "map_sum id snd (fs_MissingBlobs example_bolt example_json d' ''image'' [''a'', ''b'']) = Inr []"
    using fs_missing_stored [OF example_bolt_ok example_json_ok missing _ _ _ put] by (simp add: example_view_def)
  moreover have "map_sum id fst (fs_MissingBlobs example_bolt example_json d' ''image'' [''a'', ''b'']) = Inr True"
    unfolding d' by code_simp
  ultimately show ?thesis using missing d'
    by (cases "fs_MissingBlobs example_bolt example_json d' ''image'' [''a'', ''b'']") auto
qed

section \<open>Keys\<close>

lemma sort_mset: "mset xs = mset ys \<Longrightarrow> sort xs = sort (ys :: string list)"
  by (rule properties_for_sort [symmetric]) simp_all

text \<open>The key of an entry does not depend on the order in which the skipped files and directories, the file patterns, the
  disabled analyzers, the namespaces and the paths of checks and data are given.\<close>

theorem CalcKey_order:
  assumes "mset (Opt_DisabledAnalyzers o1) = mset (Opt_DisabledAnalyzers o2)" "mset (Opt_SkipFiles o1) = mset (Opt_SkipFiles o2)"
    and "mset (Opt_SkipDirs o1) = mset (Opt_SkipDirs o2)" "mset (Opt_FilePatterns o1) = mset (Opt_FilePatterns o2)"
    and "mset (Opt_Namespaces o1) = mset (Opt_Namespaces o2)" "mset (Opt_PolicyPaths o1) = mset (Opt_PolicyPaths o2)"
    and "mset (Opt_DataPaths o1) = mset (Opt_DataPaths o2)" "Opt_DetectionPriority o1 = Opt_DetectionPriority o2"
    and "Opt_SecretConfigPath o1 = Opt_SecretConfigPath o2"
  shows "CalcKey env i av vs hs o1 = CalcKey env i av vs hs o2"
proof -
  have "ScannerOption_Sort (Option_Sort o1) = ScannerOption_Sort (Option_Sort o2)"
    using assms(1-7) [THEN sort_mset] assms(8,9) by (cases o1; cases o2) (simp add: ScannerOption_Sort_def Option_Sort_def)
  then show ?thesis by (simp add: CalcKey_def)
qed

lemma hash_paths_list:
  "hash_paths env ps h = Inr x \<Longrightarrow> \<exists>hs. map (hashContents env) ps = map Inr hs \<and> x = h @ concat hs"
proof (induction ps arbitrary: h)
  case (Cons p ps)
  then obtain c where c: "hashContents env p = Inr c" "hash_paths env ps (h @ c) = Inr x" by auto
  from Cons.IH [OF c(2)] obtain hs where "map (hashContents env) ps = map Inr hs" "x = (h @ c) @ concat hs" by blast
  then show ?case using c(1) by (intro exI [of _ "c # hs"]) simp
qed simp

lemma concat_same_length:
  assumes "\<forall>x \<in> set xs \<union> set ys. length x = Suc n"
  shows "concat xs = concat ys \<longleftrightarrow> xs = ys"
  using assms
proof (induction xs arbitrary: ys)
  case Nil
  then show ?case by (cases ys) auto
next
  case (Cons x xs)
  then show ?case by (cases ys) auto
qed

text \<open>The bytes that are written to the hash.\<close>

definition key_input ::
    "key_env \<Rightarrow> string \<Rightarrow> int \<Rightarrow> Versions \<Rightarrow> (string \<rightharpoonup> int) \<Rightarrow> key_options \<Rightarrow> string result" where
  "key_input env i artifactVersion analyzerVersions hookVersions artifactOpt =
     (let o1 = ScannerOption_Sort (Option_Sort artifactOpt)
      in bind_result (encode_keyBase env (key_base i artifactVersion analyzerVersions hookVersions o1))
           (hash_paths env (key_paths env o1)))"

text \<open>
  What is known of the libraries. The decoder of \<open>encoding/json\<close> reads the first value of a stream, and reads back what the
  encoder has written, here for ASCII texts, finite maps and integers of 64 bits; the hash of \<open>dirhash\<close> is the text
  \<open>h1:\<close> with 44 characters after it.
\<close>

definition ascii :: "string \<Rightarrow> bool" where
  "ascii s \<longleftrightarrow> list_all (\<lambda>c. (of_char c :: nat) < 128) s"

definition json_map_ok :: "(string \<rightharpoonup> int) \<Rightarrow> bool" where
  "json_map_ok m \<longleftrightarrow> finite (dom m) \<and> (\<forall>k v. m k = Some v \<longrightarrow> ascii k \<and> - max_int - 1 \<le> v \<and> v \<le> max_int)"

definition keyBase_ok :: "keyBase \<Rightarrow> bool" where
  "keyBase_ok kb \<longleftrightarrow> ascii (KB_ID kb) \<and> - max_int - 1 \<le> KB_ArtifactVersion kb \<and> KB_ArtifactVersion kb \<le> max_int \<and>
     json_map_ok (Ver_Analyzers (KB_AnalyzerVersions kb)) \<and> json_map_ok (Ver_PostAnalyzers (KB_AnalyzerVersions kb)) \<and>
     json_map_ok (KB_HookVersions kb) \<and> list_all ascii (KB_SkipFiles kb) \<and> list_all ascii (KB_SkipDirs kb) \<and>
     list_all ascii (KB_FilePatterns kb) \<and> ascii (KB_DetectionPriority kb)"

definition json_stream_ok :: "(string \<Rightarrow> keyBase option) \<Rightarrow> key_env \<Rightarrow> bool" where
  "json_stream_ok decode env \<longleftrightarrow>
     (\<forall>kb s rest. keyBase_ok kb \<longrightarrow> encode_keyBase env kb = Inr s \<longrightarrow> decode (s @ rest) = Some kb)"

definition dirhash_ok :: "key_env \<Rightarrow> bool" where
  "dirhash_ok env \<longleftrightarrow> (\<forall>p h. key_HashDir env p = Inr h \<or> key_HashFile env p = Inr h \<longrightarrow> length h = 47)"

lemma hashContents_length: "dirhash_ok env \<Longrightarrow> hashContents env p = Inr h \<Longrightarrow> length h = Suc 46"
  unfolding dirhash_ok_def hashContents_def
  by (cases "key_Stat env p"; cases "key_HashDir env p"; cases "key_HashFile env p") (auto split: if_splits)

lemma hashes_length:
  "dirhash_ok env \<Longrightarrow> map (hashContents env) ps = map Inr hs \<Longrightarrow> \<forall>h \<in> set hs. length h = Suc 46"
proof
  fix h assume "dirhash_ok env" "map (hashContents env) ps = map Inr hs" "h \<in> set hs"
  then have "Inr h \<in> hashContents env ` set ps" by (metis image_eqI image_set)
  then show "length h = Suc 46" using hashContents_length [OF \<open>dirhash_ok env\<close>] by (metis imageE)
qed

lemma CalcKey_input: "CalcKey env i av vs hs o1 = Inr key \<Longrightarrow>
  \<exists>x. key_input env i av vs hs o1 = Inr x \<and> key = ''sha256:'' @ key_sha256 env x"
  by (auto simp: CalcKey_def key_input_def Let_def)

lemma key_input_parts:
  assumes "key_input env i av vs hs o1 = Inr x" "dirhash_ok env"
  defines "o2 \<equiv> ScannerOption_Sort (Option_Sort o1)"
  shows "\<exists>s cs. encode_keyBase env (key_base i av vs hs o2) = Inr s \<and> map (hashContents env) (key_paths env o2) = map Inr cs \<and>
    x = s @ concat cs \<and> (\<forall>c \<in> set cs. length c = Suc 46)"
proof -
  obtain s where s: "encode_keyBase env (key_base i av vs hs o2) = Inr s" "hash_paths env (key_paths env o2) s = Inr x"
    using assms(1) by (auto simp: key_input_def o2_def Let_def)
  from hash_paths_list [OF s(2)] obtain cs where "map (hashContents env) (key_paths env o2) = map Inr cs" "x = s @ concat cs" by blast
  then show ?thesis using s(1) hashes_length [OF assms(2)] by blast
qed

lemma key_base_sorted:
  "key_base i av vs hs (ScannerOption_Sort (Option_Sort o1)) = key_base i' av' vs' hs' (ScannerOption_Sort (Option_Sort o2)) \<longleftrightarrow>
     i = i' \<and> av = av' \<and> vs = vs' \<and> hs = hs' \<and> mset (Opt_SkipFiles o1) = mset (Opt_SkipFiles o2) \<and>
     mset (Opt_SkipDirs o1) = mset (Opt_SkipDirs o2) \<and> mset (Opt_FilePatterns o1) = mset (Opt_FilePatterns o2) \<and>
     Opt_DetectionPriority o1 = Opt_DetectionPriority o2"
proof -
  have "sort xs = sort ys \<longleftrightarrow> mset xs = mset ys" for xs ys :: "string list"
    by (metis mset_sort sort_mset)
  then show ?thesis by (simp add: key_base_def ScannerOption_Sort_def Option_Sort_def)
qed

text \<open>C27. Two runs, each with the file system it finds and the same encoder and hash: their keys are the SHA-256 digests of two
  inputs that are equal exactly when the runs agree on the identifier, the versions of the artifact, the analyzers and the
  hooks, the skipped files and directories and the file patterns up to order, the detection priority, and the hashes of the
  contents of the checks, the data and the secret configuration, path by path. So runs that differ in one of these have
  different keys, or they exhibit a collision of SHA-256.\<close>

theorem CalcKey_distinct:
  assumes "CalcKey env1 i av vs hs o1 = Inr key1" "CalcKey env2 i' av' vs' hs' o2 = Inr key2"
    and "encode_keyBase env1 = encode_keyBase env2" "key_sha256 env1 = key_sha256 env2"
    and "json_stream_ok decode env1" "dirhash_ok env1" "dirhash_ok env2"
    and "keyBase_ok (key_base i av vs hs (ScannerOption_Sort (Option_Sort o1)))"
    and "keyBase_ok (key_base i' av' vs' hs' (ScannerOption_Sort (Option_Sort o2)))"
  shows "\<exists>x y. key_input env1 i av vs hs o1 = Inr x \<and> key_input env2 i' av' vs' hs' o2 = Inr y \<and>
    key1 = ''sha256:'' @ key_sha256 env1 x \<and> key2 = ''sha256:'' @ key_sha256 env1 y \<and>
    (x = y \<longleftrightarrow>
      i = i' \<and> av = av' \<and> vs = vs' \<and> hs = hs' \<and> mset (Opt_SkipFiles o1) = mset (Opt_SkipFiles o2) \<and>
      mset (Opt_SkipDirs o1) = mset (Opt_SkipDirs o2) \<and> mset (Opt_FilePatterns o1) = mset (Opt_FilePatterns o2) \<and>
      Opt_DetectionPriority o1 = Opt_DetectionPriority o2 \<and>
      map (hashContents env1) (key_paths env1 (ScannerOption_Sort (Option_Sort o1))) =
        map (hashContents env2) (key_paths env2 (ScannerOption_Sort (Option_Sort o2))))"
proof -
  let ?kb = "key_base i av vs hs (ScannerOption_Sort (Option_Sort o1))"
    and ?kb' = "key_base i' av' vs' hs' (ScannerOption_Sort (Option_Sort o2))"
  obtain x where x: "key_input env1 i av vs hs o1 = Inr x" "key1 = ''sha256:'' @ key_sha256 env1 x"
    using CalcKey_input [OF assms(1)] by blast
  obtain y where y: "key_input env2 i' av' vs' hs' o2 = Inr y" "key2 = ''sha256:'' @ key_sha256 env1 y"
    using CalcKey_input [OF assms(2)] assms(4) by auto
  obtain s cs where s: "encode_keyBase env1 ?kb = Inr s" "x = s @ concat cs" "\<forall>c \<in> set cs. length c = Suc 46"
    "map (hashContents env1) (key_paths env1 (ScannerOption_Sort (Option_Sort o1))) = map Inr cs"
    using key_input_parts [OF x(1) assms(6)] by blast
  obtain t ds where t: "encode_keyBase env1 ?kb' = Inr t" "y = t @ concat ds" "\<forall>c \<in> set ds. length c = Suc 46"
    "map (hashContents env2) (key_paths env2 (ScannerOption_Sort (Option_Sort o2))) = map Inr ds"
    using key_input_parts [OF y(1) assms(7)] assms(3) by auto
  have "decode x = Some ?kb" "decode y = Some ?kb'"
    using assms(5,8,9) s(1,2) t(1,2) by (simp_all add: json_stream_ok_def)
  then have base: "x = y \<Longrightarrow> ?kb = ?kb'" by simp
  have "x = y \<longleftrightarrow> ?kb = ?kb' \<and> concat cs = concat ds"
    using base s(1,2) t(1,2) by auto
  also have "\<dots> \<longleftrightarrow> ?kb = ?kb' \<and> cs = ds"
    using concat_same_length [of cs ds 46] s(3) t(3) by auto
  finally have "x = y \<longleftrightarrow> ?kb = ?kb' \<and> map (Inr :: string \<Rightarrow> string result) cs = map Inr ds"
    by (simp add: inj_map_eq_map)
  then show ?thesis using x y s(4) t(4) by (auto simp: key_base_sorted)
qed

text \<open>An example: a file is hashed to its padded path, and the encoding is the length of the identifier in unary, then the
  identifier.\<close>

abbreviation no_versions :: Versions where "no_versions \<equiv> \<lparr>Ver_Analyzers = Map.empty, Ver_PostAnalyzers = Map.empty\<rparr>"

definition example_base :: "string \<Rightarrow> keyBase" where
  "example_base i = \<lparr>KB_ID = i, KB_ArtifactVersion = 0, KB_AnalyzerVersions = no_versions, KB_HookVersions = Map.empty,
     KB_SkipFiles = [], KB_SkipDirs = [], KB_FilePatterns = [], KB_DetectionPriority = []\<rparr>"

definition padded :: "string \<Rightarrow> string" where
  "padded s = take 47 (s @ replicate 47 CHR ''='')"

definition example_key_env :: key_env where
  "example_key_env = \<lparr>encode_keyBase = (\<lambda>kb. if example_base (KB_ID kb) = kb
       then Inr (replicate (length (KB_ID kb)) CHR ''1'' @ ''0'' @ KB_ID kb) else Inl (Errorf ''unsupported'' [])),
     key_sha256 = (\<lambda>s. take 64 s), key_Stat = (\<lambda>_. Inr False), key_HashDir = (\<lambda>_. Inr (padded [])),
     key_HashFile = (\<lambda>p. Inr (padded p))\<rparr>"

definition example_decode_key :: "string \<Rightarrow> keyBase option" where
  "example_decode_key s = (let n = length (takeWhile (\<lambda>c. c = CHR ''1'') s) in Some (example_base (take n (drop (Suc n) s))))"

lemma example_stream_ok: "json_stream_ok example_decode_key example_key_env"
  unfolding json_stream_ok_def
proof (intro allI impI)
  fix kb s rest assume "encode_keyBase example_key_env kb = Inr s"
  then have kb: "example_base (KB_ID kb) = kb" and s: "s = replicate (length (KB_ID kb)) CHR ''1'' @ CHR ''0'' # KB_ID kb"
    unfolding example_key_env_def by (simp_all split: if_splits)
  have "length (takeWhile (\<lambda>c. c = CHR ''1'') (s @ rest)) = length (KB_ID kb)" by (simp add: s takeWhile_append)
  then show "example_decode_key (s @ rest) = Some kb" by (simp add: example_decode_key_def s kb)
qed

lemma example_dirhash_ok: "dirhash_ok (example_key_env\<lparr>key_HashFile := (\<lambda>p. Inr (padded (f p)))\<rparr>)" "dirhash_ok example_key_env"
  by (auto simp: dirhash_ok_def example_key_env_def padded_def)

definition example_key_options :: key_options where
  "example_key_options = \<lparr>Opt_DisabledAnalyzers = [''b'', ''a''], Opt_SkipFiles = [], Opt_SkipDirs = [], Opt_FilePatterns = [],
     Opt_DetectionPriority = [], Opt_Namespaces = [], Opt_PolicyPaths = [''p'', ''c''], Opt_DataPaths = [],
     Opt_SecretConfigPath = ''s''\<rparr>"

theorem CalcKey_order_witness:
  "CalcKey example_key_env ''x'' 0 no_versions Map.empty example_key_options =
   CalcKey example_key_env ''x'' 0 no_versions Map.empty (example_key_options\<lparr>Opt_PolicyPaths := [''c'', ''p'']\<rparr>)"
  by (rule CalcKey_order) (simp_all add: example_key_options_def)

text \<open>Two runs between which a check has changed.\<close>

theorem CalcKey_distinct_witness:
  "let changed = example_key_env\<lparr>key_HashFile := (\<lambda>p. Inr (padded (if p = ''c'' then ''changed'' else p)))\<rparr>
   in \<exists>x y. key_input example_key_env ''x'' 0 no_versions Map.empty example_key_options = Inr x \<and>
        key_input changed ''x'' 0 no_versions Map.empty example_key_options = Inr y \<and> x \<noteq> y"
proof -
  let ?changed = "example_key_env\<lparr>key_HashFile := (\<lambda>p. Inr (padded (if p = ''c'' then ''changed'' else p)))\<rparr>"
  let ?o = "ScannerOption_Sort (Option_Sort example_key_options)"
  have o: "?o = example_key_options\<lparr>Opt_DisabledAnalyzers := [''a'', ''b''], Opt_PolicyPaths := [''c'', ''p'']\<rparr>" by code_simp
  have key: "CalcKey env ''x'' 0 no_versions Map.empty example_key_options \<in> range Inr" if "env \<in> {example_key_env, ?changed}" for env
    using that unfolding CalcKey_def Let_def o
    by (auto simp: example_key_env_def example_key_options_def key_base_def example_base_def key_paths_def hashContents_def)
  have base: "keyBase_ok (key_base ''x'' 0 no_versions Map.empty ?o)"
    unfolding o by (simp add: keyBase_ok_def key_base_def example_key_options_def ascii_def json_map_ok_def max_int_def)
  obtain k1 k2 where k: "CalcKey example_key_env ''x'' 0 no_versions Map.empty example_key_options = Inr k1"
    "CalcKey ?changed ''x'' 0 no_versions Map.empty example_key_options = Inr k2" using key by blast
  have "map (hashContents example_key_env) (key_paths example_key_env ?o) \<noteq> map (hashContents ?changed) (key_paths ?changed ?o)"
    unfolding o by (simp add: key_paths_def hashContents_def example_key_env_def example_key_options_def padded_def numeral_eq_Suc)
  then show ?thesis
    using CalcKey_distinct [OF k _ _ example_stream_ok example_dirhash_ok(2) example_dirhash_ok(1) base base] by (simp add: Let_def) blast
qed

section \<open>Masked connection strings, and clearing\<close>

lemma index_of_single: "c \<notin> set s \<Longrightarrow> index_of [c] (s @ c # t) = Some (length s)"
  by (induction s) (auto simp: hasPrefix_def)

lemma index_of_single_None: "c \<notin> set s \<Longrightarrow> index_of [c] s = None"
  by (induction s) (auto simp: hasPrefix_def)

text \<open>A password with the character \<open>@\<close> is masked up to its first one only.\<close>

lemma BackendMasked_leaks: "BackendMasked ''redis://user:p@ss@host:6379'' = ''redis://****@ss@host:6379''"
  by code_simp

text \<open>Clearing sends an \<open>UNLINK\<close> also when the scan found no key; a server that wants at least one key refuses it.\<close>

lemma redis_Clear_nothing:
  assumes "redis_Scan env d (redisPrefix @ ''::*'') = Inr ([], cursor)" "redis_Unlink env d [] = (d, Some e)"
  shows "redis_Clear env d = Some (d, Inl (Wrapf ''failed to unlink redis keys: %w'' [] e))"
  using assms by (subst redis_Clear.simps) simp

end
