(* ===== verification/Rpc_Service.thy ===== *)
theory Rpc_Service
  imports Rpc_Convert Artifact_Cache
begin

text \<open>
  The client and the server of the remote procedure calls: the retries (\<open>pkg/rpc/retry.go\<close>), the scan and cache servers
  (\<open>pkg/rpc/server/server.go\<close>), the scan client (\<open>pkg/rpc/client/client.go\<close>) and the remote cache
  (\<open>pkg/cache/remote.go\<close>).

  The network is a part of the state: for every request to come, whether it and its answer are delivered, or an
  intermediary answers instead with one of the states 502, 503 and 504, which the generated twirp code reports as
  unavailable, without passing the request on or after the server has handled it. The generated twirp code between them is
  the exchange of the two messages: an error of a handler arrives as the internal error that twirp makes of it. The
  retry loop of the third-party package \<open>backoff\<close> is an argument with the contract \<open>backoff_ok\<close>. \<open>None\<close> is a panic
  of the server.
\<close>

section \<open>Retries (retry.go)\<close>

datatype 'a attempt = Done 'a | Permanent go_error | Transient go_error

record net_env =
  twirp_Code :: "go_error \<Rightarrow> string option"
  InternalErrorWith :: "go_error \<Rightarrow> go_error"
  Unavailable :: go_error

text \<open>Which errors are twirp errors, and their codes.\<close>

definition net_ok :: "net_env \<Rightarrow> bool" where
  "net_ok net \<longleftrightarrow> (\<forall>e. twirp_Code net (InternalErrorWith net e) = Some ''internal'') \<and>
     twirp_Code net (Unavailable net) = Some ''unavailable''"

abbreviation (input) maxRetries :: nat where "maxRetries \<equiv> 10"

definition operation :: "net_env \<Rightarrow> 'a result \<Rightarrow> 'a attempt" where
  "operation net r =
     (case r of
        Inr res \<Rightarrow> Done res
      | Inl err \<Rightarrow>
          (case twirp_Code net err of
             None \<Rightarrow> Permanent err
           | Some code \<Rightarrow> if code = ''unavailable'' then Transient err else Permanent err))"

type_synonym ('s, 'a) backoff = "nat \<Rightarrow> ('s \<Rightarrow> ('s \<times> 'a attempt) option) \<Rightarrow> 's \<Rightarrow> ('s \<times> 'a result) option"

definition Retry :: "net_env \<Rightarrow> ('s, 'a) backoff \<Rightarrow> ('s \<Rightarrow> ('s \<times> 'a result) option) \<Rightarrow> 's \<Rightarrow> ('s \<times> 'a result) option" where
  "Retry net backoff f s = backoff maxRetries (\<lambda>t. map_option (apsnd (operation net)) (f t)) s"

text \<open>
  The documented behaviour of \<open>backoff.Retry\<close> with a maximal number of tries, while its time limit is not reached:
  it calls the operation until it succeeds, fails permanently, or the tries are used up.
\<close>

definition backoff_ok :: "('s, 'a) backoff \<Rightarrow> bool" where
  "backoff_ok b \<longleftrightarrow> (\<forall>n op s. b (Suc n) op s =
     (case op s of
        None \<Rightarrow> None
      | Some (s', Done x) \<Rightarrow> Some (s', Inr x)
      | Some (s', Permanent e) \<Rightarrow> Some (s', Inl e)
      | Some (s', Transient e) \<Rightarrow> if n = 0 then Some (s', Inl e) else b n op s'))"

fun example_backoff :: "('s, 'a) backoff" where
  "example_backoff 0 op s = None"
| "example_backoff (Suc n) op s =
     (case op s of
        None \<Rightarrow> None
      | Some (s', Done x) \<Rightarrow> Some (s', Inr x)
      | Some (s', Permanent e) \<Rightarrow> Some (s', Inl e)
      | Some (s', Transient e) \<Rightarrow> if n = 0 then Some (s', Inl e) else example_backoff n op s')"

lemma example_backoff_ok: "backoff_ok example_backoff"
  by (simp add: backoff_ok_def)

section \<open>The network\<close>

datatype delivery = Delivered | Refused | Lost

record 'c net_state =
  net_down :: "delivery list"
  net_server :: 'c

text \<open>What a request does to the server when nobody sees the answer; a handler that panics does nothing.\<close>

definition effect :: "('c \<Rightarrow> 'q \<Rightarrow> ('c \<times> 'a result) option) \<Rightarrow> 'q \<Rightarrow> 'c \<Rightarrow> 'c" where
  "effect handler req c = (case handler c req of Some (c', _) \<Rightarrow> c' | None \<Rightarrow> c)"

definition exchange ::
    "net_env \<Rightarrow> ('c \<Rightarrow> 'q \<Rightarrow> ('c \<times> 'a result) option) \<Rightarrow> 'q \<Rightarrow> 'c net_state \<Rightarrow> ('c net_state \<times> 'a result) option" where
  "exchange net handler req s =
     (case net_down s of
        Refused # down \<Rightarrow> Some (s\<lparr>net_down := down\<rparr>, Inl (Unavailable net))
      | Lost # down \<Rightarrow>
          Some (s\<lparr>net_down := down, net_server := effect handler req (net_server s)\<rparr>, Inl (Unavailable net))
      | down \<Rightarrow> map_option (\<lambda>(c, r). (s\<lparr>net_down := tl down, net_server := c\<rparr>,
          case r of Inl e \<Rightarrow> Inl (InternalErrorWith net e) | Inr x \<Rightarrow> Inr x)) (handler (net_server s) req))"

section \<open>The servers (server.go)\<close>

text \<open>The operations of a cache on the server.\<close>

record 'c Cache =
  cache_MissingBlobs :: "'c \<Rightarrow> string \<Rightarrow> string list \<Rightarrow> (bool \<times> string list) result"
  cache_PutArtifact :: "'c \<Rightarrow> string \<Rightarrow> ArtifactInfo \<Rightarrow> 'c \<times> unit result"
  cache_PutBlob :: "'c \<Rightarrow> string \<Rightarrow> BlobInfo \<Rightarrow> 'c \<times> unit result"
  cache_DeleteBlobs :: "'c \<Rightarrow> string list \<Rightarrow> 'c \<times> unit result"
  cache_GetArtifact :: "'c \<Rightarrow> string \<Rightarrow> ArtifactInfo result"
  cache_GetBlob :: "'c \<Rightarrow> string \<Rightarrow> BlobInfo result"

definition server_PutArtifact :: "rpc_env \<Rightarrow> 'c Cache \<Rightarrow> 'c \<Rightarrow> rpc_PutArtifactRequest \<Rightarrow> ('c \<times> unit result) option" where
  "server_PutArtifact env cache c req =
     (if rpa_ArtifactInfo req = None then Some (c, Inl (Errorf ''empty image info'' []))
      else map_option (\<lambda>imageInfo. apsnd (wrap_err ''unable to store image info in cache: %w'' [])
          (cache_PutArtifact cache c (rpa_ArtifactId req) imageInfo))
        (ConvertFromRPCPutArtifactRequest env req))"

definition server_PutBlob :: "rpc_env \<Rightarrow> 'c Cache \<Rightarrow> 'c \<Rightarrow> rpc_PutBlobRequest \<Rightarrow> ('c \<times> unit result) option" where
  "server_PutBlob env cache c req =
     (if rpb_BlobInfo req = None then Some (c, Inl (Errorf ''empty layer info'' []))
      else map_option (\<lambda>layerInfo. apsnd (wrap_err ''unable to store layer info in cache: %w'' [])
          (cache_PutBlob cache c (rpb_DiffId req) layerInfo))
        (ConvertFromRPCPutBlobRequest env req))"

definition server_MissingBlobs ::
    "'c Cache \<Rightarrow> 'c \<Rightarrow> rpc_MissingBlobsRequest \<Rightarrow> ('c \<times> rpc_MissingBlobsResponse result) option" where
  "server_MissingBlobs cache c req =
     Some (c, bind_result (wrap_err ''failed to get missing blobs: %w'' []
         (cache_MissingBlobs cache c (rmb_ArtifactId req) (rmb_BlobIds req)))
       (\<lambda>(missingArtifact, blobIDs). Inr \<lparr>rmbr_MissingArtifact = missingArtifact, rmbr_MissingBlobIds = blobIDs\<rparr>))"

definition server_DeleteBlobs :: "'c Cache \<Rightarrow> 'c \<Rightarrow> rpc_DeleteBlobsRequest \<Rightarrow> ('c \<times> unit result) option" where
  "server_DeleteBlobs cache c req =
     Some (apsnd (wrap_err ''failed to remove blobs: %w'' [])
       (cache_DeleteBlobs cache c (ConvertFromDeleteBlobsRequest (Some req))))"

definition ToOptions :: "rpc_ScanOptions option \<Rightarrow> ScanOptions option" where
  "ToOptions opts =
     (case opts of
        None \<Rightarrow> None
      | Some opt \<Rightarrow>
          let rels = List.map_filter (\<lambda>r. case NewRelationship r of Inl _ \<Rightarrow> None | Inr rel \<Rightarrow> Some rel) (rso_PkgRelationships opt);
              distro = (case rso_Distro opt of
                 None \<Rightarrow> OS_empty
               | Some d \<Rightarrow> OS_empty\<lparr>OS_Family := ros_Family d, OS_Name := ros_Name d\<rparr>);
              sources = rso_VulnSeveritySources opt
          in Some \<lparr>SO_PkgTypes = rso_PkgTypes opt,
               SO_PkgRelationships = (if length rels = 0 then Relationships else rels),
               SO_Scanners = rso_Scanners opt, SO_ImageConfigScanners = [], SO_ScanRemovedPackages = False,
               SO_LicenseCategories = map (\<lambda>(k, v). (k, rlic_Names v)) (rso_LicenseCategories opt),
               SO_LicenseFull = rso_LicenseFull opt, SO_CryptoChecks = rso_CryptoChecks opt,
               SO_IncludeDevDeps = rso_IncludeDevDeps opt, SO_Distro = distro,
               SO_VulnSeveritySources = (if length sources = 0 then [''auto''] else sources)\<rparr>)"

text \<open>The backend is the local service over the cache of the server.\<close>

definition server_Scan ::
    "rpc_env \<Rightarrow> ('c \<Rightarrow> string \<Rightarrow> string \<Rightarrow> string list \<Rightarrow> ScanOptions \<Rightarrow> ScanResponse result option) \<Rightarrow>
     'c \<Rightarrow> rpc_ScanRequest \<Rightarrow> ('c \<times> rpc_ScanResponse result) option" where
  "server_Scan env local_Scan c req =
     Option.bind (ToOptions (rsr_Options req)) (\<lambda>options.
     map_option (\<lambda>r. (c, bind_result (wrap_err ''failed scan, %s: %w'' [rsr_Target req] r)
         (\<lambda>scanResponse. Inr (ConvertToRPCScanResponse env scanResponse))))
       (local_Scan c (rsr_Target req) (rsr_ArtifactId req) (rsr_BlobIds req) options))"

definition cache_view :: "'c Cache \<Rightarrow> 'c \<Rightarrow> cache" where
  "cache_view cache c = \<lparr>
     GetBlob = (\<lambda>k. case cache_GetBlob cache c k of Inl e \<Rightarrow> (BlobInfo_empty, Some e) | Inr b \<Rightarrow> (b, None)),
     GetArtifact = (\<lambda>k. case cache_GetArtifact cache c k of Inl e \<Rightarrow> (ArtifactInfo_empty, Some e) | Inr a \<Rightarrow> (a, None))\<rparr>"

definition initializeScanServer ::
    "('n, 'v, 'k, 'd, 'a, 'r) scan_env \<Rightarrow> 'c Cache \<Rightarrow> 'c \<Rightarrow> string \<Rightarrow> string \<Rightarrow> string list \<Rightarrow> ScanOptions \<Rightarrow>
     ScanResponse result option" where
  "initializeScanServer env cache c = service_Scan (env\<lparr>sc_cache := cache_view cache c\<rparr>)"

section \<open>The scan client (client.go)\<close>

definition ToStringSlice_relationships :: "Relationship list \<Rightarrow> string list" where
  "ToStringSlice_relationships rs = map Relationship_String rs"

definition scan_request :: "string \<Rightarrow> string \<Rightarrow> string list \<Rightarrow> ScanOptions \<Rightarrow> rpc_ScanRequest" where
  "scan_request target artifactKey blobKeys opts = \<lparr>rsr_Target = target, rsr_ArtifactId = artifactKey,
     rsr_BlobIds = blobKeys, rsr_Options = Some \<lparr>rso_PkgTypes = SO_PkgTypes opts, rso_Scanners = SO_Scanners opts,
       rso_LicenseCategories = map (\<lambda>(category, names). (category, \<lparr>rlic_Names = names\<rparr>)) (SO_LicenseCategories opts),
       rso_IncludeDevDeps = SO_IncludeDevDeps opts,
       rso_PkgRelationships = ToStringSlice_relationships (SO_PkgRelationships opts),
       rso_Distro = (if SO_Distro opts \<noteq> OS_empty
          then Some \<lparr>ros_Family = OS_Family (SO_Distro opts), ros_Name = OS_Name (SO_Distro opts), ros_Eosl = False,
            ros_Extended = False, ros_Supplier = []\<rparr>
          else None),
       rso_VulnSeveritySources = SO_VulnSeveritySources opts, rso_LicenseFull = SO_LicenseFull opts,
       rso_CryptoChecks = SO_CryptoChecks opts\<rparr>\<rparr>"

text \<open>The outer option is a panic, of the server or of the conversion of its answer. The version of the server is not modelled.\<close>

definition client_Scan ::
    "net_env \<Rightarrow> rpc_env \<Rightarrow> ('c net_state, rpc_ScanResponse) backoff \<Rightarrow>
     ('c \<Rightarrow> rpc_ScanRequest \<Rightarrow> ('c \<times> rpc_ScanResponse result) option) \<Rightarrow> 'c net_state \<Rightarrow>
     string \<Rightarrow> string \<Rightarrow> string list \<Rightarrow> ScanOptions \<Rightarrow> ('c net_state \<times> ScanResponse result) option" where
  "client_Scan net env backoff server s target artifactKey blobKeys opts =
     Option.bind (Retry net backoff (exchange net server (scan_request target artifactKey blobKeys opts)) s) (\<lambda>(s', r).
       case r of
         Inl e \<Rightarrow> Some (s', Inl (Wrapf ''failed to detect vulnerabilities via RPC: %w'' [] e))
       | Inr res \<Rightarrow> map_option (\<lambda>results. (s', Inr \<lparr>SR_Results = results, SR_OS = ConvertFromRPCOS (rsp_Os res),
             SR_Layers = List.map_filter (\<lambda>l. if l = None then None else Some (ConvertFromRPCLayer l)) (rsp_Layers res)\<rparr>))
           (ConvertFromRPCResults env (rsp_Results res)))"

section \<open>The remote cache (remote.go)\<close>

definition remote_PutArtifact ::
    "net_env \<Rightarrow> rpc_env \<Rightarrow> ('c net_state, unit) backoff \<Rightarrow> 'c Cache \<Rightarrow> 'c net_state \<Rightarrow> string \<Rightarrow> ArtifactInfo \<Rightarrow>
     ('c net_state \<times> unit result) option" where
  "remote_PutArtifact net env backoff cache s imageID artifactInfo =
     map_option (apsnd (wrap_err ''unable to store cache on the server: %w'' []))
       (Retry net backoff (exchange net (server_PutArtifact env cache) (ConvertToRPCArtifactInfo env imageID artifactInfo)) s)"

definition remote_PutBlob ::
    "net_env \<Rightarrow> rpc_env \<Rightarrow> ('c net_state, unit) backoff \<Rightarrow> 'c Cache \<Rightarrow> 'c net_state \<Rightarrow> string \<Rightarrow> BlobInfo \<Rightarrow>
     ('c net_state \<times> unit result) option" where
  "remote_PutBlob net env backoff cache s diffID blobInfo =
     map_option (apsnd (wrap_err ''unable to store cache on the server: %w'' []))
       (Retry net backoff (exchange net (server_PutBlob env cache) (ConvertToRPCPutBlobRequest env diffID blobInfo)) s)"

definition remote_MissingBlobs ::
    "net_env \<Rightarrow> ('c net_state, rpc_MissingBlobsResponse) backoff \<Rightarrow> 'c Cache \<Rightarrow> 'c net_state \<Rightarrow> string \<Rightarrow> string list \<Rightarrow>
     ('c net_state \<times> (bool \<times> string list) result) option" where
  "remote_MissingBlobs net backoff cache s imageID layerIDs =
     map_option (apsnd (\<lambda>r. bind_result (wrap_err ''unable to fetch missing layers: %w'' [] r)
         (\<lambda>layers. Inr (rmbr_MissingArtifact layers, rmbr_MissingBlobIds layers))))
       (Retry net backoff (exchange net (server_MissingBlobs cache) (ConvertToMissingBlobsRequest imageID layerIDs)) s)"

definition remote_DeleteBlobs ::
    "net_env \<Rightarrow> ('c net_state, unit) backoff \<Rightarrow> 'c Cache \<Rightarrow> 'c net_state \<Rightarrow> string list \<Rightarrow> ('c net_state \<times> unit result) option" where
  "remote_DeleteBlobs net backoff cache s blobIDs =
     map_option (apsnd (wrap_err ''unable to delete blobs on the server: %w'' []))
       (Retry net backoff (exchange net (server_DeleteBlobs cache) (ConvertToDeleteBlobsRequest blobIDs)) s)"

section \<open>Delivery\<close>

text \<open>The number of requests in a row that are answered as unavailable; the state after the first that is not; and how many of
  those among the first \<open>n\<close> reached the server.\<close>

definition outage :: "'c net_state \<Rightarrow> nat" where
  "outage s = length (takeWhile (\<lambda>d. d \<noteq> Delivered) (net_down s))"

definition recovered :: "'c net_state \<Rightarrow> 'c \<Rightarrow> 'c net_state" where
  "recovered s c = s\<lparr>net_down := tl (dropWhile (\<lambda>d. d \<noteq> Delivered) (net_down s)), net_server := c\<rparr>"

definition lost_answers :: "nat \<Rightarrow> 'c net_state \<Rightarrow> nat" where
  "lost_answers n s = length (filter (\<lambda>d. d = Lost) (takeWhile (\<lambda>d. d \<noteq> Delivered) (take n (net_down s))))"

definition answered ::
    "net_env \<Rightarrow> ('c \<Rightarrow> 'q \<Rightarrow> ('c \<times> 'a result) option) \<Rightarrow> 'q \<Rightarrow> nat \<Rightarrow> 'c net_state \<Rightarrow> ('c net_state \<times> 'a result) option" where
  "answered net handler req n s = map_option (\<lambda>(c, r). (recovered s c,
     case r of Inl e \<Rightarrow> Inl (InternalErrorWith net e) | Inr x \<Rightarrow> Inr x))
       (handler ((effect handler req ^^ lost_answers n s) (net_server s)) req)"

lemma lost_answers_up: "outage s = 0 \<Longrightarrow> lost_answers n s = 0"
  by (cases n; cases "net_down s") (auto simp: outage_def lost_answers_def split: if_splits)

lemma exchange_up: "outage s = 0 \<Longrightarrow> exchange net h req s = answered net h req n s"
  using lost_answers_up [of s n]
  by (cases "net_down s") (auto simp: exchange_def answered_def outage_def recovered_def split: if_splits delivery.split)

text \<open>A request that is not delivered: the rest of the network, and the server after it.\<close>

lemma exchange_down:
  assumes "outage s \<noteq> 0"
  shows "\<exists>t. exchange net h req s = Some (t, Inl (Unavailable net)) \<and> outage s = Suc (outage t) \<and>
    (\<forall>c. recovered t c = recovered s c) \<and> net_down t = tl (net_down s) \<and>
    (\<forall>n. (effect h req ^^ lost_answers n t) (net_server t) = (effect h req ^^ lost_answers (Suc n) s) (net_server s)) \<and>
    (\<forall>ds c. t\<lparr>net_down := ds, net_server := c\<rparr> = s\<lparr>net_down := ds, net_server := c\<rparr>)"
proof -
  obtain d down where down: "net_down s = d # down" "d \<noteq> Delivered"
    using assms by (cases "net_down s") (auto simp: outage_def split: if_splits)
  define t where "t = s\<lparr>net_down := down, net_server := if d = Lost then effect h req (net_server s) else net_server s\<rparr>"
  have "exchange net h req s = Some (t, Inl (Unavailable net))"
    using down by (cases d) (simp_all add: exchange_def t_def)
  moreover have "(effect h req ^^ lost_answers n t) (net_server t) = (effect h req ^^ lost_answers (Suc n) s) (net_server s)" for n
    using down by (simp add: t_def lost_answers_def funpow_swap1)
  ultimately show ?thesis
    using down by (intro exI [of _ t]) (simp add: t_def outage_def recovered_def)
qed

lemma operation_answered:
  assumes "net_ok net" "backoff_ok b" "outage s = 0"
  shows "b (Suc n) (\<lambda>t. map_option (apsnd (operation net)) (exchange net h req t)) s = answered net h req m s"
proof (cases "h (net_server s) req")
  case None
  then show ?thesis using assms by (simp add: backoff_ok_def exchange_up [of s net h req m] answered_def lost_answers_up)
next
  case (Some cr)
  then show ?thesis using assms
    by (cases cr; cases "snd cr")
      (simp_all add: backoff_ok_def exchange_up [of s net h req m] answered_def lost_answers_up operation_def net_ok_def)
qed

lemma backoff_again:
  "backoff_ok b \<Longrightarrow> op s = Some (s', Transient e) \<Longrightarrow> b (Suc (Suc n)) op s = b (Suc n) op s'"
  by (simp add: backoff_ok_def)

lemma backoff_exchange:
  assumes "net_ok net" "backoff_ok b"
  shows "b (Suc n) (\<lambda>t. map_option (apsnd (operation net)) (exchange net h req t)) s =
    (if outage s \<le> n then answered net h req (Suc n) s
     else Some (s\<lparr>net_down := drop (Suc n) (net_down s),
       net_server := (effect h req ^^ lost_answers (Suc n) s) (net_server s)\<rparr>, Inl (Unavailable net)))"
proof (induction n arbitrary: s)
  case 0
  show ?case
  proof (cases "outage s = 0")
    case False
    obtain t where t: "exchange net h req s = Some (t, Inl (Unavailable net))" "net_down t = tl (net_down s)"
      "(effect h req ^^ lost_answers 0 t) (net_server t) = (effect h req ^^ lost_answers (Suc 0) s) (net_server s)"
      "t\<lparr>net_down := net_down t, net_server := net_server t\<rparr> = s\<lparr>net_down := net_down t, net_server := net_server t\<rparr>"
      using exchange_down [OF False, of net h req] by blast
    then show ?thesis using False assms
      by (simp add: backoff_ok_def operation_def net_ok_def drop_Suc lost_answers_def)
  qed (simp add: operation_answered [OF assms])
next
  case (Suc n)
  show ?case
  proof (cases "outage s = 0")
    case False
    obtain t where t: "exchange net h req s = Some (t, Inl (Unavailable net))" "outage s = Suc (outage t)"
      "\<And>c. recovered t c = recovered s c" "net_down t = tl (net_down s)"
      "(effect h req ^^ lost_answers (Suc n) t) (net_server t) = (effect h req ^^ lost_answers (Suc (Suc n)) s) (net_server s)"
      "\<And>ds c. t\<lparr>net_down := ds, net_server := c\<rparr> = s\<lparr>net_down := ds, net_server := c\<rparr>"
      using exchange_down [OF False, of net h req] by blast
    let ?op = "\<lambda>t. map_option (apsnd (operation net)) (exchange net h req t)"
    have "?op s = Some (t, Transient (Unavailable net))" using assms(1) by (simp add: t(1) operation_def net_ok_def)
    then have "b (Suc (Suc n)) ?op s = b (Suc n) ?op t" by (rule backoff_again [OF assms(2)])
    also have "\<dots> = (if outage t \<le> n then answered net h req (Suc n) t
        else Some (t\<lparr>net_down := drop (Suc n) (net_down t),
          net_server := (effect h req ^^ lost_answers (Suc n) t) (net_server t)\<rparr>, Inl (Unavailable net)))" by (rule Suc.IH)
    finally show ?thesis by (simp add: t(2-6) answered_def drop_Suc)
  qed (simp add: operation_answered [OF assms])
qed

lemma Retry_exchange:
  assumes "net_ok net" "backoff_ok b"
  shows "Retry net b (exchange net h req) s =
    (if outage s < maxRetries then answered net h req maxRetries s
     else Some (s\<lparr>net_down := drop maxRetries (net_down s),
       net_server := (effect h req ^^ lost_answers maxRetries s) (net_server s)\<rparr>, Inl (Unavailable net)))"
proof -
  have "maxRetries = Suc 9" by simp
  then show ?thesis unfolding Retry_def using backoff_exchange [OF assms, of 9 h req s] by (simp add: less_Suc_eq_le)
qed

section \<open>The remote cache\<close>

lemma server_PutBlob_received:
  "rpc_env_ok env \<Longrightarrow> server_PutBlob env cache c (ConvertToRPCPutBlobRequest env diffID b) =
     Some (apsnd (wrap_err ''unable to store layer info in cache: %w'' []) (cache_PutBlob cache c diffID (received_blob env b)))"
  using blob_received [of env diffID b]
  by (simp add: server_PutBlob_def) (simp add: ConvertToRPCPutBlobRequest_def Let_def)

lemma server_PutArtifact_received:
  "rpc_env_ok env \<Longrightarrow> server_PutArtifact env cache c (ConvertToRPCArtifactInfo env imageID a) =
     Some (apsnd (wrap_err ''unable to store image info in cache: %w'' []) (cache_PutArtifact cache c imageID (received_artifact env a)))"
  using artifact_received [of env imageID a]
  by (simp add: server_PutArtifact_def) (simp add: ConvertToRPCArtifactInfo_def)

lemma server_PutBlob_effect:
  "rpc_env_ok env \<Longrightarrow> effect (server_PutBlob env cache) (ConvertToRPCPutBlobRequest env diffID b) =
     (\<lambda>c. fst (cache_PutBlob cache c diffID (received_blob env b)))"
  by (rule ext) (simp add: effect_def server_PutBlob_received apsnd_def map_prod_def split: prod.split)

text \<open>C29. Storing a blob through the remote cache over a network that may lose requests and answers. With fewer than ten
  unavailable answers in a row, the cache of the server stores the received blob once for each answer that was lost on its way
  back and then once more, and the result is that of the last call, with its error wrapped by the server, by twirp and by the
  client. With ten or more the call fails as unavailable, and the cache has nevertheless stored the blob once for each lost
  answer among the ten tries.\<close>

theorem remote_PutBlob_delivered:
  assumes "rpc_env_ok env" "net_ok net" "backoff_ok b"
  shows "remote_PutBlob net env b cache s diffID blob =
    (let put = (\<lambda>c. cache_PutBlob cache c diffID (received_blob env blob));
         c0 = ((\<lambda>c. fst (put c)) ^^ lost_answers 10 s) (net_server s)
     in if outage s < 10
        then case put c0 of
            (c, Inr _) \<Rightarrow> Some (recovered s c, Inr ())
          | (c, Inl e) \<Rightarrow> Some (recovered s c, Inl (Wrapf ''unable to store cache on the server: %w'' []
              (InternalErrorWith net (Wrapf ''unable to store layer info in cache: %w'' [] e))))
        else Some (s\<lparr>net_down := drop 10 (net_down s), net_server := c0\<rparr>,
            Inl (Wrapf ''unable to store cache on the server: %w'' [] (Unavailable net))))"
  by (simp add: remote_PutBlob_def Retry_exchange [OF assms(2,3)] answered_def server_PutBlob_received [OF assms(1)]
      server_PutBlob_effect [OF assms(1)] Let_def split: prod.split sum.split)

definition memory_ops :: "MemoryCache Cache" where
  "memory_ops = \<lparr>cache_MissingBlobs = mem_MissingBlobs, cache_PutArtifact = mem_PutArtifact, cache_PutBlob = mem_PutBlob,
     cache_DeleteBlobs = mem_DeleteBlobs, cache_GetArtifact = mem_GetArtifact, cache_GetBlob = mem_GetBlob\<rparr>"

text \<open>The contents of a cache as they arrive on the server.\<close>

definition received_cache :: "rpc_env \<Rightarrow> MemoryCache \<Rightarrow> MemoryCache" where
  "received_cache env c = \<lparr>mem_artifacts = map (\<lambda>(k, a). (k, received_artifact env a)) (mem_artifacts c),
     mem_blobs = map (\<lambda>(k, b). (k, received_blob env b)) (mem_blobs c)\<rparr>"

lemma update_map_values: "AList.update k (f v) (map (\<lambda>(k, v). (k, f v)) m) = map (\<lambda>(k, v). (k, f v)) (AList.update k v m)"
  by (induction m) auto

lemma delete_map_values: "AList.delete k (map (\<lambda>(k, v). (k, f v)) m) = map (\<lambda>(k, v). (k, f v)) (AList.delete k m)"
  by (induction m) (auto simp: AList.delete_eq)

lemma fold_delete_map_values:
  "fold AList.delete ks (map (\<lambda>(k, v). (k, f v)) m) = map (\<lambda>(k, v). (k, f v)) (fold AList.delete ks m)"
  by (induction ks arbitrary: m) (simp_all add: delete_map_values)

lemma is_ok_received:
  "is_ok (mem_GetBlob (received_cache env c) k) = is_ok (mem_GetBlob c k)"
  "is_ok (mem_GetArtifact (received_cache env c) k) = is_ok (mem_GetArtifact c k)"
  by (auto simp: mem_GetBlob_def mem_GetArtifact_def received_cache_def map_of_map split: option.split)

text \<open>The operations of the memory cache may be repeated.\<close>

lemma fold_delete_filter: "fold AList.delete ks m = filter (\<lambda>(k, _). k \<notin> set ks) m"
proof (induction ks arbitrary: m)
  case (Cons k ks)
  have "fold AList.delete (k # ks) m = filter (\<lambda>(k, _). k \<notin> set ks) (filter (\<lambda>(k', _). k \<noteq> k') m)"
    by (simp add: Cons) (simp add: AList.delete_eq)
  also have "\<dots> = filter (\<lambda>(k', _). k' \<notin> set (k # ks)) m"
    unfolding filter_filter by (rule filter_cong) auto
  finally show ?case .
qed simp

lemma fold_delete_twice: "fold AList.delete ks (fold AList.delete ks m) = fold AList.delete ks m"
  by (simp add: fold_delete_filter)

lemma answered_idempotent:
  assumes "\<And>c. h c req = Some (f c, Inr ())" "\<And>c. f (f c) = f c"
  shows "answered net h req n s = Some (recovered s (f (net_server s)), Inr ())"
proof -
  have f: "effect h req = f" by (rule ext) (simp add: effect_def assms(1))
  have "f ((f ^^ k) c) = f c" for k c by (induction k) (simp_all add: assms(2))
  then show ?thesis by (simp add: answered_def f assms(1))
qed

lemma answered_same:
  assumes "\<And>c. map_option fst (h c req) \<in> {None, Some c}"
  shows "answered net h req n s = map_option (\<lambda>(c, r). (recovered s c,
     case r of Inl e \<Rightarrow> Inl (InternalErrorWith net e) | Inr x \<Rightarrow> Inr x)) (h (net_server s) req)"
    and "(effect h req ^^ n) c = c"
proof -
  have "effect h req c = c" for c using assms [of c] by (cases "h c req") (auto simp: effect_def)
  then have *: "(effect h req ^^ k) c = c" for k c by (induction k) simp_all
  show "(effect h req ^^ n) c = c" by (rule *)
  show "answered net h req n s = map_option (\<lambda>(c, r). (recovered s c,
     case r of Inl e \<Rightarrow> Inl (InternalErrorWith net e) | Inr x \<Rightarrow> Inr x)) (h (net_server s) req)"
    by (simp add: answered_def *)
qed

text \<open>C9. The remote cache refines the memory cache: on a server whose cache holds what the local one would hold, as received,
  every operation of the remote cache keeps that relation and gives the result of the local operation, as long as the
  server is unavailable fewer than ten times in a row.\<close>

theorem remote_refines_memory:
  assumes "rpc_env_ok env" "net_ok net" "backoff_ok b" "backoff_ok b'" "net_server s = received_cache env c" "outage s < 10"
  shows "remote_PutBlob net env b memory_ops s diffID blob =
      Some (recovered s (received_cache env (fst (mem_PutBlob c diffID blob))), Inr ()) \<and>
    remote_PutArtifact net env b memory_ops s imageID info =
      Some (recovered s (received_cache env (fst (mem_PutArtifact c imageID info))), Inr ()) \<and>
    remote_DeleteBlobs net b memory_ops s ids =
      Some (recovered s (received_cache env (fst (mem_DeleteBlobs c ids))), Inr ()) \<and>
    remote_MissingBlobs net b' memory_ops s imageID ids =
      Some (recovered s (received_cache env c), mem_MissingBlobs c imageID ids)"
proof (intro conjI)
  note retry = Retry_exchange [OF assms(2,3)] Retry_exchange [OF assms(2,4)]
  let ?received = "\<lambda>c. recovered s c"
  have "answered net (server_PutBlob env memory_ops) (ConvertToRPCPutBlobRequest env diffID blob) 10 s =
      Some (?received (fst (mem_PutBlob (net_server s) diffID (received_blob env blob))), Inr ())"
    by (rule answered_idempotent) (simp_all add: server_PutBlob_received [OF assms(1)] memory_ops_def mem_PutBlob_def update_last)
  then show "remote_PutBlob net env b memory_ops s diffID blob =
      Some (recovered s (received_cache env (fst (mem_PutBlob c diffID blob))), Inr ())"
    using assms(5,6) by (simp add: remote_PutBlob_def retry mem_PutBlob_def received_cache_def update_map_values)
  have "answered net (server_PutArtifact env memory_ops) (ConvertToRPCArtifactInfo env imageID info) 10 s =
      Some (?received (fst (mem_PutArtifact (net_server s) imageID (received_artifact env info))), Inr ())"
    by (rule answered_idempotent)
      (simp_all add: server_PutArtifact_received [OF assms(1)] memory_ops_def mem_PutArtifact_def update_last)
  then show "remote_PutArtifact net env b memory_ops s imageID info =
      Some (recovered s (received_cache env (fst (mem_PutArtifact c imageID info))), Inr ())"
    using assms(5,6) by (simp add: remote_PutArtifact_def retry mem_PutArtifact_def received_cache_def update_map_values)
  have "answered net (server_DeleteBlobs memory_ops) (ConvertToDeleteBlobsRequest ids) 10 s =
      Some (?received (fst (mem_DeleteBlobs (net_server s) ids)), Inr ())"
    by (rule answered_idempotent)
      (simp_all add: server_DeleteBlobs_def ConvertFromDeleteBlobsRequest_def ConvertToDeleteBlobsRequest_def memory_ops_def
        mem_DeleteBlobs_def fold_delete_twice)
  then show "remote_DeleteBlobs net b memory_ops s ids =
      Some (recovered s (received_cache env (fst (mem_DeleteBlobs c ids))), Inr ())"
    using assms(5,6) by (simp add: remote_DeleteBlobs_def retry mem_DeleteBlobs_def received_cache_def fold_delete_map_values)
  have same: "map_option fst (server_MissingBlobs memory_ops c q) \<in> {None, Some c}" for c q
    by (simp add: server_MissingBlobs_def)
  show "remote_MissingBlobs net b' memory_ops s imageID ids =
      Some (recovered s (received_cache env c), mem_MissingBlobs c imageID ids)"
    using assms(5,6)
    by (simp add: remote_MissingBlobs_def retry answered_same(1) [of "server_MissingBlobs memory_ops", OF same])
      (simp add: server_MissingBlobs_def ConvertToMissingBlobsRequest_def memory_ops_def mem_MissingBlobs_def is_ok_received)
qed

section \<open>Remote scans\<close>

definition received_options :: "ScanOptions \<Rightarrow> ScanOptions" where
  "received_options opts = opts\<lparr>
     SO_PkgRelationships := (if SO_PkgRelationships opts = [] then Relationships
       else map (\<lambda>r. if r \<in> set Relationships then r else RelationshipUnknown) (SO_PkgRelationships opts)),
     SO_ImageConfigScanners := [], SO_ScanRemovedPackages := False,
     SO_Distro := OS_empty\<lparr>OS_Family := OS_Family (SO_Distro opts), OS_Name := OS_Name (SO_Distro opts)\<rparr>,
     SO_VulnSeveritySources := (if SO_VulnSeveritySources opts = [] then [''auto''] else SO_VulnSeveritySources opts)\<rparr>"

definition received_response :: "rpc_env \<Rightarrow> ScanResponse \<Rightarrow> ScanResponse" where
  "received_response env r = r\<lparr>SR_Results := map (received_result env) (SR_Results r)\<rparr>"

lemma ToOptions_request: "ToOptions (rsr_Options (scan_request target art keys opts)) = Some (received_options opts)"
proof -
  have "List.map_filter (\<lambda>r. case NewRelationship r of Inl _ \<Rightarrow> None | Inr rel \<Rightarrow> Some rel) (map Relationship_String rs) =
      map (\<lambda>r. if r \<in> set Relationships then r else RelationshipUnknown) rs" for rs
    by (induction rs) (simp_all add: map_filter_simps relationship_roundtrip [THEN conjunct1])
  moreover have "map (\<lambda>(k, v). (k, rlic_Names v)) (map (\<lambda>(c, ns). (c, \<lparr>rlic_Names = ns\<rparr>)) m) = m" for m :: "(string \<times> string list) list"
    by (induction m) auto
  ultimately show ?thesis
    by (cases opts) (simp add: ToOptions_def scan_request_def received_options_def ToStringSlice_relationships_def Let_def OS_empty_def)
qed

lemma layers_received:
  "List.map_filter (\<lambda>l. if l = None then None else Some (ConvertFromRPCLayer l)) (map (\<lambda>l. Some (ConvertToRPCLayer l)) ls) = ls"
  by (induction ls) (simp_all add: map_filter_simps)

lemma server_Scan_same: "map_option fst (server_Scan env local_Scan c req) \<in> {None, Some c}"
  by (cases "ToOptions (rsr_Options req)") (auto simp: server_Scan_def map_option_case split: option.splits)

text \<open>C7. A scan through the client and the server is the local scan on the server's cache with the options as received: its
  response arrives with the operating system and the layers as they are and the results as received, its error wrapped
  by the server, by twirp and by the client. It fails after ten unavailable answers in a row.\<close>

theorem remote_Scan_local:
  fixes senv :: "('n, 'v, 'k, 'd, 'a, 'r) scan_env" and cache :: "'c Cache"
  assumes "rpc_env_ok env" "net_ok net" "backoff_ok b"
  defines "local_Scan \<equiv> initializeScanServer senv cache"
  shows "client_Scan net env b (server_Scan env local_Scan) s target art keys opts =
    (if outage s < 10
     then map_option (\<lambda>r. (recovered s (net_server s),
         case r of
           Inr response \<Rightarrow> Inr (received_response env response)
         | Inl e \<Rightarrow> Inl (Wrapf ''failed to detect vulnerabilities via RPC: %w'' []
             (InternalErrorWith net (Wrapf ''failed scan, %s: %w'' [target] e)))))
       (local_Scan (net_server s) target art keys (received_options opts))
     else Some (s\<lparr>net_down := drop 10 (net_down s)\<rparr>,
            Inl (Wrapf ''failed to detect vulnerabilities via RPC: %w'' [] (Unavailable net))))"
proof (cases "outage s < 10")
  case up: True
  note answered = answered_same(1) [of "server_Scan env local_Scan", OF server_Scan_same]
  have ids: "rsr_Target (scan_request target art keys opts) = target" "rsr_ArtifactId (scan_request target art keys opts) = art"
    "rsr_BlobIds (scan_request target art keys opts) = keys" by (simp_all add: scan_request_def)
  show ?thesis
  proof (cases "local_Scan (net_server s) target art keys (received_options opts)")
    case None
    then show ?thesis using up
      by (simp add: client_Scan_def Retry_exchange [OF assms(2,3)] answered) (simp add: server_Scan_def ToOptions_request ids)
  next
    case (Some r)
    then show ?thesis using up
      by (cases r) (simp_all add: client_Scan_def Retry_exchange [OF assms(2,3)] answered,
        simp_all add: server_Scan_def ToOptions_request ids results_received [OF assms(1)],
        simp add: ConvertToRPCScanResponse_def layers_received received_response_def)
  qed
qed (simp add: client_Scan_def Retry_exchange [OF assms(2,3)] answered_same(2) [of "server_Scan env local_Scan", OF server_Scan_same])

section \<open>An example\<close>

definition example_net :: net_env where
  "example_net = \<lparr>twirp_Code = (\<lambda>e. case e of Wrapf _ _ _ \<Rightarrow> Some ''internal'' | Errorf f _ \<Rightarrow> if f = ''unavailable'' then Some f else None),
     InternalErrorWith = Wrapf ''internal: %w'' [], Unavailable = Errorf ''unavailable'' []\<rparr>"

lemma example_net_ok: "net_ok example_net"
  by (simp add: net_ok_def example_net_def)

definition example_server :: "delivery list \<Rightarrow> MemoryCache net_state" where
  "example_server down = \<lparr>net_down = down, net_server = NewMemoryCache\<rparr>"

theorem remote_PutBlob_delivered_witness:
  "remote_PutBlob example_net example_rpc_env example_backoff memory_ops (example_server [Refused, Lost, Delivered]) ''l1'' example_blob =
     Some (\<lparr>net_down = [], net_server = NewMemoryCache\<lparr>mem_blobs := [(''l1'', received_blob example_rpc_env example_blob)]\<rparr>\<rparr>, Inr ()) \<and>
   remote_PutBlob example_net example_rpc_env example_backoff memory_ops (example_server (Lost # replicate 10 Refused)) ''l1'' example_blob =
     Some (\<lparr>net_down = [Refused], net_server = NewMemoryCache\<lparr>mem_blobs := [(''l1'', received_blob example_rpc_env example_blob)]\<rparr>\<rparr>,
       Inl (Wrapf ''unable to store cache on the server: %w'' [] (Errorf ''unavailable'' [])))"
  using remote_PutBlob_delivered [OF example_rpc_env_ok example_net_ok example_backoff_ok, of memory_ops
      "example_server [Refused, Lost, Delivered]" "''l1''" example_blob]
    remote_PutBlob_delivered [OF example_rpc_env_ok example_net_ok example_backoff_ok, of memory_ops
      "example_server (Lost # replicate 10 Refused)" "''l1''" example_blob]
  by (simp add: outage_def recovered_def lost_answers_def memory_ops_def mem_PutBlob_def example_server_def NewMemoryCache_def
      example_net_def numeral_eq_Suc)

theorem remote_refines_memory_witness:
  "remote_MissingBlobs example_net example_backoff memory_ops (example_server [Refused]) ''image'' [''l1''] =
     Some (example_server [], Inr (True, [''l1'']))"
proof -
  have "net_server (example_server [Refused]) = received_cache example_rpc_env NewMemoryCache" "outage (example_server [Refused]) < 10"
    by (simp_all add: example_server_def received_cache_def NewMemoryCache_def outage_def)
  from remote_refines_memory [OF example_rpc_env_ok example_net_ok example_backoff_ok example_backoff_ok this]
  show ?thesis by (simp add: recovered_def example_server_def received_cache_def NewMemoryCache_def mem_MissingBlobs_def
      mem_GetArtifact_def mem_GetBlob_def)
qed

theorem remote_Scan_local_witness:
  "client_Scan example_net example_rpc_env example_backoff
     (server_Scan example_rpc_env (initializeScanServer example_scan_env memory_ops)) (example_server [Refused])
     ''image'' ''artifact'' [''l2''] example_scan_options =
   Some (example_server [], Inl (Wrapf ''failed to detect vulnerabilities via RPC: %w'' []
     (Wrapf ''internal: %w'' [] (Wrapf ''failed scan, %s: %w'' [''image'']
        (Wrapf ''failed to apply layers: %w'' [] (Errorf ''layer cache missing: %s'' [''l2'']))))))"
proof -
  have "initializeScanServer example_scan_env memory_ops NewMemoryCache ''image'' ''artifact'' [''l2'']
      (received_options example_scan_options) =
    Some (Inl (Wrapf ''failed to apply layers: %w'' [] (Errorf ''layer cache missing: %s'' [''l2''])))"
    by (simp add: initializeScanServer_def service_Scan_def applier_ApplyLayers_def cache_view_def memory_ops_def
        mem_GetBlob_def NewMemoryCache_def BlobInfo_empty_def applied_detail_def ArtifactDetail_empty_def OS_empty_def HasOSPackages_def)
  then show ?thesis
    using remote_Scan_local [OF example_rpc_env_ok example_net_ok example_backoff_ok, of example_scan_env memory_ops
        "example_server [Refused]" "''image''" "''artifact''" "[''l2'']" example_scan_options]
    by (simp add: example_server_def outage_def recovered_def example_net_def)
qed

section \<open>Requests that panic\<close>

text \<open>The server's handler for a blob panics exactly on a request with a blob in which a custom resource or a finding of a secret
  has no layer; a request without a blob is answered with an error.\<close>

theorem server_PutBlob_panics:
  "server_PutBlob env cache c req = None \<longleftrightarrow>
     (case rpb_BlobInfo req of
        None \<Rightarrow> False
      | Some b \<Rightarrow> list_ex (\<lambda>r. rcr_Layer r = None) (rbl_CustomResources b) \<or>
          list_ex (\<lambda>s. list_ex (\<lambda>f. rsf_Layer f = None) (rsec_Findings s)) (rbl_Secrets b))"
proof (cases "rpb_BlobInfo req")
  case (Some b)
  have "secret_layers s \<longleftrightarrow> \<not> list_ex (\<lambda>f. rsf_Layer f = None) (rsec_Findings s)" for s
    by (auto simp: secret_layers_def list_all_iff list_ex_iff)
  then show ?thesis using Some PutBlobRequest_None [of env req]
    by (auto simp: server_PutBlob_def list_all_iff list_ex_iff)
qed (simp add: server_PutBlob_def)

end
