(* ===== verification/Rpc_Listen.thy ===== *)
theory Rpc_Listen
  imports Go_Prelude
begin

text \<open>
  The server's requests and the worker that updates the vulnerability database under them, \<open>pkg/rpc/server/listen.go\<close>: the
  handlers behind \<open>withToken\<close> and \<open>withWaitGroup\<close> of \<open>NewServeMux\<close>, and \<open>dbWorker.hotUpdate\<close>, as a state machine.

  The shared state is the two wait groups and whether the database is open. A handler has a place in its code for each
  point at which another goroutine may run, and so has the worker; an event is one goroutine that moves. \<open>Wait\<close> is a
  step that is enabled while its counter is zero. The steps of the worker that may fail carry whether they succeed; the
  two deferred calls run when it returns. Network and file system are left out: the download and the copies have no
  effect on the shared state but their failure.
\<close>

section \<open>State\<close>

text \<open>A handler: before \<open>dbUpdateWg.Wait\<close>, before \<open>requestWg.Add\<close>, in \<open>base.ServeHTTP\<close>, and after \<open>requestWg.Done\<close>.\<close>

datatype handler_pc = Arrived | Passed | Serving | Finished

text \<open>The worker: outside of \<open>hotUpdate\<close>; after the download; after \<open>dbUpdateWg.Add\<close>; after \<open>requestWg.Wait\<close>; after
  \<open>db.Close\<close>; after the copy of the database; after that of the metadata; and before the deferred \<open>dbUpdateWg.Done\<close>.\<close>

datatype worker_pc = Idle | Downloaded | Suspended | Drained | Closed | CopiedDB | CopiedMetadata | Returning

record handler =
  h_token :: string
  h_pc :: handler_pc

record server_state =
  srv_token :: string
  handlers :: "handler list"
  worker :: worker_pc
  dbUpdateWg :: int
  requestWg :: int
  db_open :: bool

definition NewServer :: "string \<Rightarrow> server_state" where
  "NewServer token = \<lparr>srv_token = token, handlers = [], worker = Idle, dbUpdateWg = 0, requestWg = 0, db_open = True\<rparr>"

section \<open>Steps\<close>

datatype event =
    Arrive string
  | PassGate nat
  | Enter nat
  | Leave nat
  | Download bool
  | Suspend
  | Drain
  | CloseDB bool
  | CopyDB bool
  | CopyMetadata bool
  | Reopen bool
  | Resume

text \<open>\<open>withToken\<close>: a request without the token is answered at once and reaches no handler.\<close>

definition withToken :: "string \<Rightarrow> string \<Rightarrow> bool" where
  "withToken token header \<longleftrightarrow> \<not> (token \<noteq> [] \<and> token \<noteq> header)"

definition handler_at :: "server_state \<Rightarrow> nat \<Rightarrow> handler_pc \<Rightarrow> bool" where
  "handler_at s i pc \<longleftrightarrow> i < length (handlers s) \<and> h_pc (handlers s ! i) = pc"

definition move :: "nat \<Rightarrow> handler_pc \<Rightarrow> server_state \<Rightarrow> server_state" where
  "move i pc s = s\<lparr>handlers := (handlers s)[i := (handlers s ! i)\<lparr>h_pc := pc\<rparr>]\<rparr>"

text \<open>\<open>withWaitGroup\<close>.\<close>

fun handler_step :: "server_state \<Rightarrow> event \<Rightarrow> server_state option" where
  "handler_step s (Arrive header) =
     (if withToken (srv_token s) header then Some (s\<lparr>handlers := handlers s @ [\<lparr>h_token = header, h_pc = Arrived\<rparr>]\<rparr>) else Some s)"
| "handler_step s (PassGate i) = (if handler_at s i Arrived \<and> dbUpdateWg s = 0 then Some (move i Passed s) else None)"
| "handler_step s (Enter i) = (if handler_at s i Passed then Some (move i Serving s\<lparr>requestWg := requestWg s + 1\<rparr>) else None)"
| "handler_step s (Leave i) = (if handler_at s i Serving then Some (move i Finished s\<lparr>requestWg := requestWg s - 1\<rparr>) else None)"
| "handler_step s _ = None"

text \<open>\<open>hotUpdate\<close>.\<close>

fun hotUpdate :: "server_state \<Rightarrow> event \<Rightarrow> server_state option" where
  "hotUpdate s (Download ok) = (if worker s = Idle then Some (s\<lparr>worker := if ok then Downloaded else Idle\<rparr>) else None)"
| "hotUpdate s Suspend =
     (if worker s = Downloaded then Some (s\<lparr>worker := Suspended, dbUpdateWg := dbUpdateWg s + 1\<rparr>) else None)"
| "hotUpdate s Drain = (if worker s = Suspended \<and> requestWg s = 0 then Some (s\<lparr>worker := Drained\<rparr>) else None)"
| "hotUpdate s (CloseDB ok) =
     (if worker s = Drained
      then Some (if ok then s\<lparr>worker := Closed, db_open := False\<rparr> else s\<lparr>worker := Returning\<rparr>) else None)"
| "hotUpdate s (CopyDB ok) =
     (if worker s = Closed then Some (s\<lparr>worker := if ok then CopiedDB else Returning\<rparr>) else None)"
| "hotUpdate s (CopyMetadata ok) =
     (if worker s = CopiedDB then Some (s\<lparr>worker := if ok then CopiedMetadata else Returning\<rparr>) else None)"
| "hotUpdate s (Reopen ok) =
     (if worker s = CopiedMetadata
      then Some (if ok then s\<lparr>worker := Returning, db_open := True\<rparr> else s\<lparr>worker := Returning\<rparr>) else None)"
| "hotUpdate s Resume =
     (if worker s = Returning then Some (s\<lparr>worker := Idle, dbUpdateWg := dbUpdateWg s - 1\<rparr>) else None)"
| "hotUpdate s _ = None"

definition server_step :: "server_state \<Rightarrow> event \<Rightarrow> server_state option" where
  "server_step s e = (case handler_step s e of Some t \<Rightarrow> Some t | None \<Rightarrow> hotUpdate s e)"

fun run_events :: "server_state \<Rightarrow> event list \<Rightarrow> server_state option" where
  "run_events s [] = Some s"
| "run_events s (e # es) = Option.bind (server_step s e) (\<lambda>t. run_events t es)"

inductive reachable :: "string \<Rightarrow> server_state \<Rightarrow> bool" for token where
  start: "reachable token (NewServer token)"
| step: "reachable token s \<Longrightarrow> server_step s e = Some t \<Longrightarrow> reachable token t"

inductive_cases reachable_start: "reachable token (NewServer token)"

section \<open>The invariant\<close>

definition serving :: "server_state \<Rightarrow> nat" where
  "serving s = length (filter (\<lambda>h. h_pc h = Serving) (handlers s))"

definition updating :: "worker_pc \<Rightarrow> bool" where
  "updating w \<longleftrightarrow> w \<notin> {Idle, Downloaded}"

definition server_inv :: "server_state \<Rightarrow> bool" where
  "server_inv s \<longleftrightarrow> requestWg s = int (serving s) \<and> dbUpdateWg s = (if updating (worker s) then 1 else 0) \<and>
     (worker s \<in> {Closed, CopiedDB, CopiedMetadata} \<longrightarrow> \<not> db_open s) \<and>
     list_all (\<lambda>h. withToken (srv_token s) (h_token h)) (handlers s)"

lemma length_filter_update:
  "i < length xs \<Longrightarrow>
     length (filter P (xs[i := x])) + (if P (xs ! i) then 1 else 0) = length (filter P xs) + (if P x then 1 else 0)"
proof (induction xs arbitrary: i)
  case (Cons y ys)
  then show ?case by (cases i) auto
qed simp

lemma serving_move:
  "handler_at s i pc \<Longrightarrow> int (serving (move i pc' s)) =
     int (serving s) + (if pc' = Serving then 1 else 0) - (if pc = Serving then 1 else 0)"
  using length_filter_update [of i "handlers s" "\<lambda>h. h_pc h = Serving" "(handlers s ! i)\<lparr>h_pc := pc'\<rparr>"]
  by (auto simp: serving_def move_def handler_at_def split: if_splits)

lemma move_simps [simp]:
  "worker (move i pc s) = worker s" "dbUpdateWg (move i pc s) = dbUpdateWg s" "requestWg (move i pc s) = requestWg s"
  "db_open (move i pc s) = db_open s" "srv_token (move i pc s) = srv_token s"
  "length (handlers (move i pc s)) = length (handlers s)"
  by (simp_all add: move_def)

lemma serving_updates [simp]:
  "serving (s\<lparr>requestWg := r\<rparr>) = serving s" "serving (s\<lparr>worker := w\<rparr>) = serving s" "serving (s\<lparr>dbUpdateWg := d\<rparr>) = serving s"
  "serving (s\<lparr>db_open := b\<rparr>) = serving s" "serving (s\<lparr>handlers := handlers s @ [\<lparr>h_token = t, h_pc = Arrived\<rparr>]\<rparr>) = serving s"
  by (simp_all add: serving_def)

lemma tokens_move:
  "list_all (\<lambda>h. P (h_token h)) (handlers s) \<Longrightarrow> i < length (handlers s) \<Longrightarrow>
     list_all (\<lambda>h. P (h_token h)) (handlers (move i pc s))"
  by (auto simp: move_def list_all_length nth_list_update)

lemma handler_step_inv: "handler_step s e = Some t \<Longrightarrow> server_inv s \<Longrightarrow> server_inv t"
proof (cases e)
  fix header assume "handler_step s e = Some t" "server_inv s" "e = Arrive header"
  then show ?thesis by (auto simp: server_inv_def split: if_splits)
next
  fix i assume *: "handler_step s e = Some t" "server_inv s" "e = PassGate i"
  then have at: "handler_at s i Arrived" and t: "t = move i Passed s" by (auto split: if_splits)
  then show ?thesis using *(2) serving_move [OF at, of Passed]
    by (auto simp: server_inv_def handler_at_def intro: tokens_move)
next
  fix i assume *: "handler_step s e = Some t" "server_inv s" "e = Enter i"
  then have at: "handler_at s i Passed" and t: "t = move i Serving s\<lparr>requestWg := requestWg s + 1\<rparr>" by (auto split: if_splits)
  then show ?thesis using *(2) serving_move [OF at, of Serving]
    by (auto simp: server_inv_def handler_at_def intro: tokens_move)
next
  fix i assume *: "handler_step s e = Some t" "server_inv s" "e = Leave i"
  then have at: "handler_at s i Serving" and t: "t = move i Finished s\<lparr>requestWg := requestWg s - 1\<rparr>" by (auto split: if_splits)
  then show ?thesis using *(2) serving_move [OF at, of Finished]
    by (auto simp: server_inv_def handler_at_def intro: tokens_move)
qed simp_all

lemma hotUpdate_inv: "hotUpdate s e = Some t \<Longrightarrow> server_inv s \<Longrightarrow> server_inv t"
  by (cases e) (auto simp: server_inv_def updating_def split: if_splits)

lemma server_step_inv: "server_step s e = Some t \<Longrightarrow> server_inv s \<Longrightarrow> server_inv t"
  by (auto simp: server_step_def intro: handler_step_inv hotUpdate_inv split: option.splits)

lemma reachable_inv: "reachable token s \<Longrightarrow> server_inv s \<and> srv_token s = token"
proof (induction rule: reachable.induct)
  case (step s e t)
  have "srv_token t = srv_token s" using step.hyps(2)
    by (cases e) (auto simp: server_step_def split: if_splits)
  then show ?case using step.IH server_step_inv [OF step.hyps(2)] by simp
qed (simp add: server_inv_def NewServer_def serving_def updating_def)

text \<open>C30. In every reachable state the counter of requests is the number of requests being served, the other one is set exactly
  while an update is announced, and every request behind the gate has presented the token of the server, unless that is empty.\<close>

theorem server_counters:
  assumes "reachable token s"
  shows "requestWg s = int (length (filter (\<lambda>h. h_pc h = Serving) (handlers s))) \<and>
    dbUpdateWg s = (if worker s \<in> {Idle, Downloaded} then 0 else 1) \<and>
    (token = [] \<or> list_all (\<lambda>h. h_token h = token) (handlers s))"
  using reachable_inv [OF assms] by (auto simp: server_inv_def serving_def updating_def withToken_def list_all_iff)

section \<open>Exclusion of requests and updates\<close>

text \<open>A step while the update is announced: no request passes the gate, and one that comes to be served had passed it before.\<close>

lemma gate_closed:
  assumes "server_inv s" "server_step s e = Some t" "updating (worker s)" "handler_at t i pc" "pc \<in> {Passed, Serving}"
  shows "handler_at s i Passed \<or> handler_at s i Serving"
proof (cases "handler_step s e")
  case None
  then have "hotUpdate s e = Some t" using assms(2) by (simp add: server_step_def)
  then have "handlers t = handlers s" by (cases e) (auto split: if_splits)
  then show ?thesis using assms(4,5) by (auto simp: handler_at_def)
next
  case (Some u)
  then have u: "handler_step s e = Some t" using assms(2) by (simp add: server_step_def)
  have "dbUpdateWg s \<noteq> 0" using assms(1,3) by (simp add: server_inv_def)
  then show ?thesis using u assms(4,5)
    by (cases e) (auto simp: handler_at_def move_def nth_append nth_list_update split: if_splits)
qed

lemma run_gate_closed:
  assumes "server_inv s" "run_events s es = Some t" "updating (worker s)" "Resume \<notin> set es" "handler_at t i pc" "pc \<in> {Passed, Serving}"
  shows "handler_at s i Passed \<or> handler_at s i Serving"
  using assms
proof (induction es arbitrary: s)
  case Nil
  then show ?case by auto
next
  case (Cons e es)
  then obtain s1 where s1: "server_step s e = Some s1" and rest: "run_events s1 es = Some t"
    by (auto simp: bind_eq_Some_conv)
  have up: "updating (worker s1)" using s1 Cons.prems(3,4)
    by (cases e) (auto simp: server_step_def updating_def split: if_splits)
  have "handler_at s1 i Passed \<or> handler_at s1 i Serving"
    using Cons.IH [OF server_step_inv [OF s1 Cons.prems(1)] rest up _ Cons.prems(5,6)] Cons.prems(4) by simp
  then show ?case using gate_closed [OF Cons.prems(1) s1 Cons.prems(3)] by blast
qed

lemma serving_zero: "serving s = 0 \<Longrightarrow> \<not> handler_at s i Serving"
  by (auto simp: serving_def handler_at_def filter_empty_conv)

text \<open>C8. When the worker has waited for the requests, none is being served; from then until the update is over, the only requests
  that can be served are those that were between the two wait groups at that moment.\<close>

theorem update_excludes_requests:
  assumes "reachable token s" "server_step s Drain = Some s0" "run_events s0 es = Some t" "Resume \<notin> set es"
    and "handler_at t i Serving"
  shows "handler_at s0 i Passed"
proof -
  note inv = reachable_inv [OF assms(1)]
  have s0: "s0 = s\<lparr>worker := Drained\<rparr>" and "worker s = Suspended" "requestWg s = 0"
    using assms(2) by (auto simp: server_step_def split: if_splits)
  then have "serving s0 = 0" using inv by (simp add: server_inv_def)
  moreover have "server_inv s0" by (rule server_step_inv [OF assms(2) inv [THEN conjunct1]])
  moreover have "updating (worker s0)" by (simp add: s0 updating_def)
  ultimately show ?thesis using run_gate_closed [OF _ assms(3) _ assms(4,5)] serving_zero by blast
qed

lemma reachable_run: "reachable token s \<Longrightarrow> run_events s es = Some t \<Longrightarrow> reachable token t"
  by (induction es arbitrary: s) (auto simp: bind_eq_Some_conv intro: reachable.step)

text \<open>The window between the two wait groups. The worker can go on to the closed database from any place while no request is
  counted, and the requests that are counted can come to their end first.\<close>

fun closing_events :: "worker_pc \<Rightarrow> event list" where
  "closing_events Idle = [Download True, Suspend, Drain, CloseDB True]"
| "closing_events Downloaded = [Suspend, Drain, CloseDB True]"
| "closing_events Suspended = [Drain, CloseDB True]"
| "closing_events Drained = [CloseDB True]"
| "closing_events Closed = []"
| "closing_events CopiedDB = [CopyMetadata True, Reopen True, Resume, Download True, Suspend, Drain, CloseDB True]"
| "closing_events CopiedMetadata = [Reopen True, Resume, Download True, Suspend, Drain, CloseDB True]"
| "closing_events Returning = [Resume, Download True, Suspend, Drain, CloseDB True]"

fun no_gate_event :: "event \<Rightarrow> bool" where
  "no_gate_event (Arrive _) = False"
| "no_gate_event (PassGate _) = False"
| "no_gate_event (Enter _) = False"
| "no_gate_event _ = True"

lemma run_events_append: "run_events s (es @ fs) = Option.bind (run_events s es) (\<lambda>t. run_events t fs)"
  by (induction es arbitrary: s) (auto simp: bind_assoc)

lemma closing_run:
  assumes "server_inv s" "requestWg s = 0"
  shows "list_all no_gate_event (closing_events (worker s)) \<and>
    (\<exists>t. run_events s (closing_events (worker s)) = Some t \<and> handlers t = handlers s \<and> worker t = Closed \<and> \<not> db_open t)"
  using assms by (cases "worker s") (simp_all add: server_step_def server_inv_def)

lemma drain_run:
  assumes "server_inv s"
  shows "\<exists>es t. list_all no_gate_event es \<and> run_events s es = Some t \<and> server_inv t \<and> requestWg t = 0 \<and> worker t = worker s \<and>
    (\<forall>i. handler_at s i Passed \<longrightarrow> handler_at t i Passed)"
  using assms
proof (induction "serving s" arbitrary: s)
  case 0
  then show ?case by (intro exI [of _ "[]"] exI [of _ s]) (simp add: server_inv_def)
next
  case (Suc n)
  then have "filter (\<lambda>h. h_pc h = Serving) (handlers s) \<noteq> []" by (auto simp: serving_def)
  then obtain j where at: "handler_at s j Serving"
    by (auto simp: handler_at_def filter_empty_conv in_set_conv_nth)
  let ?t = "move j Finished s\<lparr>requestWg := requestWg s - 1\<rparr>"
  have step: "server_step s (Leave j) = Some ?t" using at by (simp add: server_step_def)
  have "n = serving ?t" using Suc.hyps(2) serving_move [OF at, of Finished] by simp
  from Suc.hyps(1) [OF this server_step_inv [OF step Suc.prems]] obtain es t where
    t: "list_all no_gate_event es" "run_events ?t es = Some t" "server_inv t" "requestWg t = 0" "worker t = worker ?t"
      "\<forall>i. handler_at ?t i Passed \<longrightarrow> handler_at t i Passed" by blast
  have "handler_at s i Passed \<Longrightarrow> handler_at ?t i Passed" for i
    using at by (auto simp: handler_at_def move_def nth_list_update)
  then show ?case using t step by (intro exI [of _ "Leave j # es"] exI [of _ t]) simp
qed

text \<open>C31. The window between the two wait groups is open in every reachable state: whatever the worker is doing, a request
  that has passed the gate and is not yet counted can be overtaken by an update. Without any other request that arrives,
  passes the gate or is counted, the worker can close the database, and the request is then served without it.\<close>

theorem request_served_during_update:
  assumes "reachable token s" "handler_at s i Passed"
  shows "\<exists>es t. list_all no_gate_event es \<and> run_events s (es @ [Enter i]) = Some t \<and>
    handler_at t i Serving \<and> worker t = Closed \<and> \<not> db_open t"
proof -
  obtain es u where u: "list_all no_gate_event es" "run_events s es = Some u" "server_inv u" "requestWg u = 0" "handler_at u i Passed"
    using drain_run [OF reachable_inv [OF assms(1), THEN conjunct1]] assms(2) by blast
  obtain v where v: "list_all no_gate_event (closing_events (worker u))" "run_events u (closing_events (worker u)) = Some v"
    "handlers v = handlers u" "worker v = Closed" "\<not> db_open v" using closing_run [OF u(3,4)] by blast
  have at: "handler_at v i Passed" using u(5) v(3) by (simp add: handler_at_def)
  let ?t = "move i Serving v\<lparr>requestWg := requestWg v + 1\<rparr>"
  have "server_step v (Enter i) = Some ?t" using at by (simp add: server_step_def)
  moreover have "handler_at ?t i Serving" using at by (simp add: handler_at_def move_def)
  ultimately show ?thesis using u v
    by (intro exI [of _ "es @ closing_events (worker u)"] exI [of _ ?t]) (simp add: run_events_append)
qed

text \<open>When a copy fails after the database was closed, the worker returns without opening it, and requests go on.\<close>

theorem failed_update_leaves_database_closed:
  "\<exists>s. reachable [] s \<and> worker s = Idle \<and> \<not> db_open s \<and> handler_at s 0 Serving"
proof -
  let ?es = "[Download True, Suspend, Drain, CloseDB True, CopyDB False, Resume, Arrive [], PassGate 0, Enter 0]"
  have run: "run_events (NewServer []) ?es =
      Some \<lparr>srv_token = [], handlers = [\<lparr>h_token = [], h_pc = Serving\<rparr>], worker = Idle, dbUpdateWg = 0, requestWg = 1, db_open = False\<rparr>"
    by code_simp
  from reachable_run [OF reachable.start run] show ?thesis
    by (rule_tac exI) (auto simp: handler_at_def)
qed

section \<open>Progress\<close>

text \<open>What is left to do, by place in the code.\<close>

fun handler_rank :: "handler_pc \<Rightarrow> nat" where
  "handler_rank Arrived = 3"
| "handler_rank Passed = 2"
| "handler_rank Serving = 1"
| "handler_rank Finished = 0"

fun worker_rank :: "worker_pc \<Rightarrow> nat" where
  "worker_rank Idle = 0"
| "worker_rank Downloaded = 7"
| "worker_rank Suspended = 6"
| "worker_rank Drained = 5"
| "worker_rank Closed = 4"
| "worker_rank CopiedDB = 3"
| "worker_rank CopiedMetadata = 2"
| "worker_rank Returning = 1"

definition server_rank :: "server_state \<Rightarrow> nat" where
  "server_rank s = sum_list (map (\<lambda>h. handler_rank (h_pc h)) (handlers s)) + worker_rank (worker s)"

text \<open>The events of the requests and of the update that are under way.\<close>

fun own_event :: "event \<Rightarrow> bool" where
  "own_event (Arrive _) = False"
| "own_event (Download _) = False"
| "own_event _ = True"

lemma rank_move:
  assumes "handler_at s i pc" "handler_rank pc' < handler_rank pc"
  shows "sum_list (map (\<lambda>h. handler_rank (h_pc h)) (handlers (move i pc' s))) <
    sum_list (map (\<lambda>h. handler_rank (h_pc h)) (handlers s))"
proof -
  let ?f = "\<lambda>h. handler_rank (h_pc h)" and ?hs = "handlers s"
  have i: "i < length ?hs" using assms(1) by (simp add: handler_at_def)
  have "sum_list (map ?f (?hs[i := (?hs ! i)\<lparr>h_pc := pc'\<rparr>])) = sum_list (map ?f ?hs) + handler_rank pc' - handler_rank pc"
    using sum_list_update [of i "map ?f ?hs" "handler_rank pc'"] i assms(1) by (simp add: map_update handler_at_def)
  moreover have "handler_rank pc \<le> sum_list (map ?f ?hs)"
    using elem_le_sum_list [of i "map ?f ?hs"] i assms(1) by (simp add: handler_at_def)
  ultimately show ?thesis using assms(2) by (simp add: move_def)
qed

lemma rank_updates [simp]:
  "server_rank (s\<lparr>requestWg := r\<rparr>) = server_rank s" "server_rank (s\<lparr>dbUpdateWg := d\<rparr>) = server_rank s"
  "server_rank (s\<lparr>db_open := b\<rparr>) = server_rank s"
  by (simp_all add: server_rank_def)

lemma server_progress:
  assumes inv: "server_inv s" and "0 < server_rank s"
  shows "\<exists>e t. own_event e \<and> server_step s e = Some t \<and> server_rank t < server_rank s"
proof (cases "\<exists>i. handler_at s i Serving \<or> handler_at s i Passed")
  case True
  then obtain i where "handler_at s i Serving \<or> handler_at s i Passed" ..
  then show ?thesis
  proof
    assume at: "handler_at s i Serving"
    then show ?thesis using rank_move [OF at, of Finished]
      by (intro exI [of _ "Leave i"]) (simp add: server_step_def server_rank_def)
  next
    assume at: "handler_at s i Passed"
    then show ?thesis using rank_move [OF at, of Serving]
      by (intro exI [of _ "Enter i"]) (simp add: server_step_def server_rank_def)
  qed
next
  case none: False
  then have "serving s = 0" by (auto simp: serving_def filter_empty_conv handler_at_def in_set_conv_nth)
  then have drained: "requestWg s = 0" using inv by (simp add: server_inv_def)
  show ?thesis
  proof (cases "worker s = Idle")
    case False
    define e where "e = (case worker s of Downloaded \<Rightarrow> Suspend | Suspended \<Rightarrow> Drain | Drained \<Rightarrow> CloseDB True
      | Closed \<Rightarrow> CopyDB True | CopiedDB \<Rightarrow> CopyMetadata True | CopiedMetadata \<Rightarrow> Reopen True | _ \<Rightarrow> Resume)"
    have "\<exists>t. server_step s e = Some t \<and> server_rank t < server_rank s"
      using False drained by (cases "worker s") (simp_all add: e_def server_step_def server_rank_def)
    moreover have "own_event e" by (simp add: e_def split: worker_pc.split)
    ultimately show ?thesis by blast
  next
    case True
    have "\<exists>h \<in> set (handlers s). 0 < handler_rank (h_pc h)"
    proof (rule ccontr)
      assume "\<not> ?thesis"
      then have "server_rank s = 0" using True by (simp add: server_rank_def sum_list_eq_0_iff)
      then show False using assms(2) by simp
    qed
    then obtain h where h: "h \<in> set (handlers s)" "0 < handler_rank (h_pc h)" by blast
    then obtain i where i: "i < length (handlers s)" "handlers s ! i = h" by (auto simp: in_set_conv_nth)
    have at: "handler_at s i Arrived" using none h i by (cases "h_pc h") (auto simp: handler_at_def)
    have "dbUpdateWg s = 0" using inv True by (simp add: server_inv_def updating_def)
    then show ?thesis using at rank_move [OF at, of Passed]
      by (intro exI [of _ "PassGate i"]) (simp add: server_step_def server_rank_def)
  qed
qed

text \<open>C20. Requests and updates do not block each other: from every reachable state, the requests and the update that are under way
  can all come to their end without a new request or a new update.\<close>

theorem server_settles:
  assumes "reachable token s"
  shows "\<exists>es t. list_all own_event es \<and> run_events s es = Some t \<and> worker t = Idle \<and>
    list_all (\<lambda>h. h_pc h = Finished) (handlers t)"
  using assms
proof (induction "server_rank s" arbitrary: s rule: less_induct)
  case less
  show ?case
  proof (cases "server_rank s = 0")
    case True
    have "worker s = Idle" using True by (cases "worker s") (simp_all add: server_rank_def)
    moreover have "h_pc h = Finished" if "h \<in> set (handlers s)" for h
      using True that by (cases "h_pc h") (auto simp: server_rank_def)
    ultimately show ?thesis by (intro exI [of _ "[]"]) (simp add: list_all_iff)
  next
    case False
    then obtain e t where e: "own_event e" "server_step s e = Some t" "server_rank t < server_rank s"
      using server_progress [OF reachable_inv [OF less.prems, THEN conjunct1]] by blast
    from less.hyps [OF e(3) reachable.step [OF less.prems e(2)]] obtain es u where
      "list_all own_event es" "run_events t es = Some u" "worker u = Idle" "list_all (\<lambda>h. h_pc h = Finished) (handlers u)" by blast
    then show ?thesis using e by (intro exI [of _ "e # es"] exI [of _ u]) simp
  qed
qed

section \<open>Examples\<close>

definition example_listening :: server_state where
  "example_listening = \<lparr>srv_token = ''t'', handlers = [\<lparr>h_token = ''t'', h_pc = Serving\<rparr>], worker = Suspended, dbUpdateWg = 1,
     requestWg = 1, db_open = True\<rparr>"

lemma example_listening_reachable: "reachable ''t'' example_listening"
proof -
  have "run_events (NewServer ''t'') [Arrive ''x'', Arrive ''t'', PassGate 0, Enter 0, Download True, Suspend] = Some example_listening"
    by code_simp
  from reachable_run [OF reachable.start this] show ?thesis .
qed

theorem server_counters_witness: "reachable ''t'' example_listening \<and> requestWg example_listening = 1"
  using server_counters [OF example_listening_reachable] example_listening_reachable by (simp add: example_listening_def)

theorem update_excludes_requests_witness:
  "handler_at \<lparr>srv_token = [], handlers = [\<lparr>h_token = [], h_pc = Passed\<rparr>], worker = Drained, dbUpdateWg = 1, requestWg = 0,
     db_open = True\<rparr> 0 Passed"
proof -
  let ?s = "\<lambda>w. \<lparr>srv_token = [], handlers = [\<lparr>h_token = [], h_pc = Passed\<rparr>], worker = w, dbUpdateWg = 1, requestWg = 0, db_open = True\<rparr>"
  have "run_events (NewServer []) [Arrive [], PassGate 0, Download True, Suspend] = Some (?s Suspended)" by code_simp
  from reachable_run [OF reachable.start this] have reach: "reachable [] (?s Suspended)" .
  have drain: "server_step (?s Suspended) Drain = Some (?s Drained)" by code_simp
  have run: "run_events (?s Drained) [CloseDB True, Enter 0] = Some (?s Drained\<lparr>handlers := [\<lparr>h_token = [], h_pc = Serving\<rparr>],
      worker := Closed, requestWg := 1, db_open := False\<rparr>)" by code_simp
  show ?thesis by (rule update_excludes_requests [OF reach drain run]) (simp_all add: handler_at_def)
qed

theorem request_served_during_update_witness:
  "\<exists>es t. list_all no_gate_event es \<and> run_events \<lparr>srv_token = ''t'', handlers = [\<lparr>h_token = ''t'', h_pc = Serving\<rparr>,
      \<lparr>h_token = ''t'', h_pc = Passed\<rparr>], worker = Returning, dbUpdateWg = 1, requestWg = 1, db_open = True\<rparr> (es @ [Enter 1]) = Some t \<and>
    handler_at t 1 Serving \<and> worker t = Closed \<and> \<not> db_open t"
proof -
  let ?s = "\<lparr>srv_token = ''t'', handlers = [\<lparr>h_token = ''t'', h_pc = Serving\<rparr>, \<lparr>h_token = ''t'', h_pc = Passed\<rparr>], worker = Returning,
     dbUpdateWg = 1, requestWg = 1, db_open = True\<rparr>"
  have "run_events (NewServer ''t'') [Arrive ''t'', Arrive ''t'', PassGate 0, PassGate 1, Download True, Suspend, Drain, CloseDB True,
      CopyDB True, CopyMetadata True, Reopen True, Enter 0] = Some ?s" by code_simp
  from reachable_run [OF reachable.start this] have "reachable ''t'' ?s" .
  then show ?thesis by (rule request_served_during_update) (simp add: handler_at_def)
qed

theorem server_settles_witness:
  "\<exists>es t. run_events example_listening es = Some t \<and> worker t = Idle \<and> list_all (\<lambda>h. h_pc h = Finished) (handlers t)"
  using server_settles [OF example_listening_reachable] by blast

end
