(* ===== verification/Sbom_Decode.thy ===== *)
theory Sbom_Decode
  imports Sbom_Encode
begin

text \<open>
  The decoder of SBOMs, \<open>pkg/sbom/io/decode.go\<close>: from the intermediate representation of \<open>Sbom_Core\<close> back to the packages
  and applications that the scanners work on.

  \<^item> The maps of the decoder from identifiers to packages and applications hold pointers, each to a value of its own; they are
    association lists of the values.
  \<^item> The order in which Go ranges over the maps, the two sorts, which are not stable, the parser of image references of
    \<open>go-containerregistry\<close> and the version parsers are arguments, the fields of \<open>decode_env\<close>.
  \<^item> \<^term>\<open>None\<close> stands for the panic of a nil package URL that is dereferenced; \<open>decodePackage_cases\<close> and
    \<open>Decode_packages\<close> show that it does not occur.
  \<^item> The log is not modelled.

  \<open>traverseDependencies_spec\<close> relates the traversal to reachability, \<open>Decode_packages\<close> shows that the packages of a BOM
  are distributed without loss or duplicates, and \<open>decode_encoded_package\<close> that a package survives encoder, BOM and decoder.
\<close>

section \<open>State\<close>

record SBOM =
  SBOM_Metadata :: Metadata
  SBOM_Packages :: "PackageInfo list"
  SBOM_Applications :: "Application list"
  SBOM_BOM :: "BOM option"

definition SBOM_empty :: SBOM where
  "SBOM_empty = \<lparr>SBOM_Metadata = Metadata_of None, SBOM_Packages = [], SBOM_Applications = [], SBOM_BOM = None\<rparr>"

record Decoder =
  Dec_bom :: BOM
  Dec_osID :: UUID
  Dec_pkgs :: "(UUID \<times> Package) list"
  Dec_apps :: "(UUID \<times> Application) list"

definition NewDecoder :: "BOM \<Rightarrow> Decoder" where
  "NewDecoder bom = \<lparr>Dec_bom = bom, Dec_osID = uuid_Nil, Dec_pkgs = [], Dec_apps = []\<rparr>"

record decode_env = sbom_env +
  range_components :: "(UUID \<times> Component) list \<Rightarrow> (UUID \<times> Component) list"
  range_relationships :: "(UUID \<times> sbom_Relationship list) list \<Rightarrow> (UUID \<times> sbom_Relationship list) list"
  range_packages :: "(UUID \<times> Package) list \<Rightarrow> (UUID \<times> Package) list"
  range_applications :: "(UUID \<times> Application) list \<Rightarrow> (UUID \<times> Application) list"
  range_types :: "(string \<times> Package list) list \<Rightarrow> (string \<times> Package list) list"
  sort_orphans :: "Package list \<Rightarrow> Package list"
  sort_applications :: "Application list \<Rightarrow> Application list"
  image_reference :: "string \<Rightarrow> string result"
  rpm_Epoch :: "string \<Rightarrow> int"
  deb_NewVersion :: "string \<Rightarrow> (int \<times> string \<times> string) result"

definition ErrPURLEmpty :: go_error where
  "ErrPURLEmpty = Errorf ''purl empty error'' []"

definition ErrUnsupportedType :: go_error where
  "ErrUnsupportedType = Errorf ''unsupported type'' []"

section \<open>The root component\<close>

text \<open>\<open>ParseReference\<close> of \<open>fanal/image/name\<close>.\<close>

definition ParseReference :: "(string \<Rightarrow> string result) \<Rightarrow> string \<Rightarrow> string option result" where
  "ParseReference parse s =
     (if s = [] then Inr None
      else case parse s of
             Inl e \<Rightarrow> Inl (Wrapf ''failed to parse reference: %w'' [] e)
           | Inr ref \<Rightarrow> Inr (Some ref))"

definition root_property :: "decode_env \<Rightarrow> Property \<Rightarrow> Metadata \<Rightarrow> Metadata result" where
  "root_property env prop m =
     (if Prop_Name prop = PropertyImageID then Inr (m\<lparr>Meta_ImageID := Prop_Value prop\<rparr>)
      else if Prop_Name prop = PropertySize then
        (case atoi (Prop_Value prop) of
           None \<Rightarrow> Inl (Wrapf ''failed to convert size: %w'' [] (Errorf ''strconv.ParseInt: parsing %q: invalid syntax'' [Prop_Value prop]))
         | Some n \<Rightarrow> Inr (m\<lparr>Meta_Size := n\<rparr>))
      else if Prop_Name prop = PropertyRepoDigest then Inr (m\<lparr>Meta_RepoDigests := Meta_RepoDigests m @ [Prop_Value prop]\<rparr>)
      else if Prop_Name prop = PropertyDiffID then Inr (m\<lparr>Meta_DiffIDs := Meta_DiffIDs m @ [Prop_Value prop]\<rparr>)
      else if Prop_Name prop = PropertyRepoTag then Inr (m\<lparr>Meta_RepoTags := Meta_RepoTags m @ [Prop_Value prop]\<rparr>)
      else if Prop_Name prop = PropertyReference then
        (case ParseReference (image_reference env) (Prop_Value prop) of
           Inl _ \<Rightarrow> Inr (m\<lparr>Meta_Reference := None\<rparr>)
         | Inr ref \<Rightarrow> Inr (m\<lparr>Meta_Reference := ref\<rparr>))
      else Inr m)"

fun root_properties :: "decode_env \<Rightarrow> Property list \<Rightarrow> Metadata \<Rightarrow> Metadata result" where
  "root_properties env [] m = Inr m"
| "root_properties env (prop # props) m = bind_result (root_property env prop m) (root_properties env props)"

abbreviation dec_core :: "decode_env \<Rightarrow> sbom_env" where
  "dec_core env \<equiv> sbom_env.truncate env"

definition decodeRoot :: "decode_env \<Rightarrow> Decoder \<Rightarrow> SBOM \<Rightarrow> (Decoder \<times> SBOM) result" where
  "decodeRoot env d s =
     (let (b, root) = BOM_Root (dec_core env) (Dec_bom d);
          d1 = d\<lparr>Dec_bom := b\<rparr>
      in case root of
           None \<Rightarrow> Inr (d1, s)
         | Some r \<Rightarrow> bind_result (root_properties env (Comp_Properties r) (SBOM_Metadata s))
                       (\<lambda>m. Inr (d1, s\<lparr>SBOM_Metadata := m\<rparr>)))"

section \<open>Packages\<close>

definition decodeApplication :: "Component \<Rightarrow> Application" where
  "decodeApplication c =
     (let t = fold (\<lambda>prop t. if Prop_Name prop = PropertyType then Prop_Value prop else t) (Comp_Properties c) []
      in \<lparr>App_Type = t, App_FilePath = (if t \<notin> set AggregatingTypes then Comp_Name c else []), App_Packages = []\<rparr>)"

definition decoder_pkgName :: "Package \<Rightarrow> Component \<Rightarrow> PackageURL \<Rightarrow> string" where
  "decoder_pkgName pkg c p =
     (if PURL_Type p = ''cocoapods'' then Pkg_Name pkg
      else if PURL_Type p = ''maven'' \<or> PURL_Type p = ''gradle'' then Pkg_Name pkg
      else if PURL_Type p = ''bitnami'' then Pkg_Name pkg
      else if Comp_Group c \<noteq> [] then Comp_Group c @ ''/'' @ Comp_Name c
      else Comp_Name c)"

definition fillAlireRelationship :: "Package \<Rightarrow> string \<Rightarrow> Package result" where
  "fillAlireRelationship pkg value =
     (case Id_PURL (Pkg_Identifier pkg) of
        None \<Rightarrow> Inr pkg
      | Some p \<Rightarrow>
          if purl_LangType p \<noteq> ''alire'' then Inr pkg
          else case NewRelationship value of
                 Inl e \<Rightarrow> Inl (Wrapf ''invalid package relationship: %w'' [] e)
               | Inr r \<Rightarrow> Inr (pkg\<lparr>Pkg_Relationship := r, Pkg_Indirect := (r = RelationshipIndirect)\<rparr>))"

text \<open>The loop over the properties fills the package and the build information.\<close>

definition fill_property :: "Property \<Rightarrow> Package \<times> BuildInfo \<Rightarrow> (Package \<times> BuildInfo) result" where
  "fill_property prop pb =
     (let (pkg, bi) = pb; name = Prop_Name prop; value = Prop_Value prop in
      if name = PropertyPkgID then Inr (pkg\<lparr>Pkg_ID := value\<rparr>, bi)
      else if name = PropertyPkgRelationship then bind_result (fillAlireRelationship pkg value) (\<lambda>pkg. Inr (pkg, bi))
      else if name = PropertyFilePath then Inr (pkg\<lparr>Pkg_FilePath := value\<rparr>, bi)
      else if name = PropertySrcName then Inr (pkg\<lparr>Pkg_SrcName := value\<rparr>, bi)
      else if name = PropertySrcVersion then Inr (pkg\<lparr>Pkg_SrcVersion := value\<rparr>, bi)
      else if name = PropertySrcRelease then Inr (pkg\<lparr>Pkg_SrcRelease := value\<rparr>, bi)
      else if name = PropertySrcEpoch then
        (case atoi value of
           None \<Rightarrow> Inl (Wrapf ''invalid src epoch: %w'' [] (Errorf ''strconv.Atoi: parsing %q: invalid syntax'' [value]))
         | Some n \<Rightarrow> Inr (pkg\<lparr>Pkg_SrcEpoch := n\<rparr>, bi))
      else if name = PropertyModularitylabel then Inr (pkg\<lparr>Pkg_Modularitylabel := value\<rparr>, bi)
      else if name = PropertyLayerDigest then Inr (pkg\<lparr>Pkg_Layer := (Pkg_Layer pkg)\<lparr>Layer_Digest := value\<rparr>\<rparr>, bi)
      else if name = PropertyLayerDiffID then Inr (pkg\<lparr>Pkg_Layer := (Pkg_Layer pkg)\<lparr>Layer_DiffID := value\<rparr>\<rparr>, bi)
      else if name = PropertyContentSet then Inr (pkg, bi\<lparr>ContentSets := ContentSets bi @ [value]\<rparr>)
      else if name = PropertyNVR then Inr (pkg, bi\<lparr>Nvr := value\<rparr>)
      else if name = PropertyArch then Inr (pkg, bi\<lparr>Build_Arch := value\<rparr>)
      else Inr (pkg, bi))"

fun fill_properties :: "Property list \<Rightarrow> Package \<times> BuildInfo \<Rightarrow> (Package \<times> BuildInfo) result" where
  "fill_properties [] pb = Inr pb"
| "fill_properties (prop # props) pb = bind_result (fill_property prop pb) (fill_properties props)"

definition fillPkgFieldsFromComponentProps :: "Property list \<Rightarrow> Package \<Rightarrow> Package result" where
  "fillPkgFieldsFromComponentProps props pkg =
     bind_result (fill_properties props (pkg, \<lparr>ContentSets = [], Nvr = [], Build_Arch = []\<rparr>))
       (\<lambda>(pkg, bi). Inr (if ContentSets bi \<noteq> [] \<or> Nvr bi \<noteq> [] then pkg\<lparr>Pkg_BuildInfo := Some bi\<rparr> else pkg))"

definition parseSrcVersion :: "decode_env \<Rightarrow> Package \<Rightarrow> string \<Rightarrow> Package option" where
  "parseSrcVersion env pkg ver =
     (if ver = [] then Some pkg
      else case Id_PURL (Pkg_Identifier pkg) of
             None \<Rightarrow> None
           | Some p \<Rightarrow>
               if PURL_Type p = ''rpm'' then
                 Some (pkg\<lparr>Pkg_SrcEpoch := rpm_Epoch env ver, Pkg_SrcVersion := fst (rpm_version_release (sbom_purl env) ver),
                           Pkg_SrcRelease := snd (rpm_version_release (sbom_purl env) ver)\<rparr>)
               else if PURL_Type p = ''deb'' then
                 (case deb_NewVersion env ver of
                    Inl _ \<Rightarrow> Some pkg
                  | Inr (epoch, version, revision) \<Rightarrow>
                      Some (pkg\<lparr>Pkg_SrcEpoch := epoch, Pkg_SrcVersion := version, Pkg_SrcRelease := revision\<rparr>))
               else Some pkg)"

definition fillSrcPkg :: "decode_env \<Rightarrow> Component \<Rightarrow> Package \<Rightarrow> Package option" where
  "fillSrcPkg env c pkg =
     (let pkg1 = (if Comp_SrcName c \<noteq> [] \<and> Pkg_SrcName pkg = [] then pkg\<lparr>Pkg_SrcName := Comp_SrcName c\<rparr> else pkg)
      in case parseSrcVersion env pkg1 (Comp_SrcVersion c) of
           None \<Rightarrow> None
         | Some pkg2 \<Rightarrow>
             if Pkg_SrcName pkg2 \<noteq> [] \<and> Pkg_SrcVersion pkg2 \<noteq> [] then Some pkg2
             else
               let pkg3 = (if Pkg_SrcName pkg2 = [] then pkg2\<lparr>Pkg_SrcName := Pkg_Name pkg2\<rparr> else pkg2);
                   pkg4 = (if Pkg_SrcVersion pkg3 = [] then pkg3\<lparr>Pkg_SrcVersion := Pkg_Version pkg3\<rparr> else pkg3);
                   pkg5 = (if Pkg_SrcRelease pkg4 = [] then pkg4\<lparr>Pkg_SrcRelease := Pkg_Release pkg4\<rparr> else pkg4)
               in Some (if Pkg_SrcEpoch pkg5 = 0 then pkg5\<lparr>Pkg_SrcEpoch := Pkg_Epoch pkg5\<rparr> else pkg5))"

definition fill_file :: "File \<Rightarrow> Package \<Rightarrow> Package" where
  "fill_file f pkg =
     (let pkg1 = (if File_Path f \<noteq> [] \<and> Pkg_FilePath pkg = [] then pkg\<lparr>Pkg_FilePath := File_Path f\<rparr> else pkg)
      in case File_Digests f of [] \<Rightarrow> pkg1 | dg # _ \<Rightarrow> pkg1\<lparr>Pkg_Digest := dg\<rparr>)"

definition decodePackage :: "decode_env \<Rightarrow> Component \<Rightarrow> Package result option" where
  "decodePackage env c =
     (case Id_PURL (Comp_PkgIdentifier c) of
        None \<Rightarrow> Some (Inl ErrPURLEmpty)
      | Some p \<Rightarrow>
          let pkg = purl_Package (sbom_purl env) p in
          if purl_Class p = ClassUnknown then Some (Inl ErrUnsupportedType)
          else
            let pkg1 = pkg\<lparr>Pkg_Name := decoder_pkgName pkg c p\<rparr>;
                pkg2 = (if purl_LangType p \<noteq> ''alire''
                        then pkg1\<lparr>Pkg_ID := dependency_ID (purl_LangType p) (Pkg_Name pkg1) (PURL_Version p)\<rparr> else pkg1)
            in case fillPkgFieldsFromComponentProps (Comp_Properties c) pkg2 of
                 Inl e \<Rightarrow> Some (Inl (Wrapf ''failed to fill package properties: %w'' [] e))
               | Inr pkg3 \<Rightarrow>
                   let pkg4 = pkg3\<lparr>Pkg_Identifier := (Pkg_Identifier pkg3)\<lparr>Id_BOMRef := Id_BOMRef (Comp_PkgIdentifier c)\<rparr>,
                                   Pkg_Licenses := Comp_Licenses c\<rparr>;
                       pkg5 = fold fill_file (Comp_Files c) pkg4
                   in if purl_Class p = ClassOSPkg then map_option Inr (fillSrcPkg env c pkg5)
                      else Some (Inr pkg5))"

section \<open>All components\<close>

text \<open>One iteration of the loop over the components.\<close>

definition decode_component :: "decode_env \<Rightarrow> UUID \<times> Component \<Rightarrow> Decoder \<times> SBOM \<Rightarrow> (Decoder \<times> SBOM) result option" where
  "decode_component env e ds =
     (let (id, c) = e; (d, s) = ds; app = decodeApplication c in
      if Comp_Type c = core_TypeOS then
        (if Dec_osID d \<noteq> uuid_Nil then Some (Inr (d, s))
         else Some (Inr (d\<lparr>Dec_osID := id\<rparr>,
                s\<lparr>SBOM_Metadata := (SBOM_Metadata s)\<lparr>Meta_OS :=
                    Some (OS_empty\<lparr>OS_Family := Comp_Name c, OS_Name := Comp_Version c\<rparr>)\<rparr>\<rparr>)))
      else if Comp_Type c = core_TypeApplication \<and> App_Type app \<noteq> [] then
        Some (Inr (d\<lparr>Dec_apps := AList.update id app (Dec_apps d)\<rparr>, s))
      else if Comp_Type c = core_TypeLibrary \<or> Id_PURL (Comp_PkgIdentifier c) \<noteq> None then
        (case decodePackage env c of
           None \<Rightarrow> None
         | Some (Inl e) \<Rightarrow>
             if is_error e ErrUnsupportedType \<or> is_error e ErrPURLEmpty then Some (Inr (d, s))
             else Some (Inl (Wrapf ''failed to decode package: %w'' [] e))
         | Some (Inr pkg) \<Rightarrow> Some (Inr (d\<lparr>Dec_pkgs := AList.update id pkg (Dec_pkgs d)\<rparr>, s)))
      else Some (Inr (d, s)))"

fun decode_loop :: "decode_env \<Rightarrow> (UUID \<times> Component) list \<Rightarrow> Decoder \<times> SBOM \<Rightarrow> (Decoder \<times> SBOM) result option" where
  "decode_loop env [] ds = Some (Inr ds)"
| "decode_loop env (e # es) ds =
     (case decode_component env e ds of
        None \<Rightarrow> None
      | Some (Inl err) \<Rightarrow> Some (Inl err)
      | Some (Inr ds') \<Rightarrow> decode_loop env es ds')"

definition decodeComponents :: "decode_env \<Rightarrow> Decoder \<Rightarrow> SBOM \<Rightarrow> (Decoder \<times> SBOM) result option" where
  "decodeComponents env d s =
     (let b = Components (dec_core env) (Dec_bom d)
      in decode_loop env (range_components env (BOM_components b)) (d\<lparr>Dec_bom := b\<rparr>, s))"

definition add_dependencies :: "UUID \<times> sbom_Relationship list \<Rightarrow> (UUID \<times> Package) list \<Rightarrow> (UUID \<times> Package) list" where
  "add_dependencies e m =
     (let (id, rels) = e in
      case map_of m id of
        None \<Rightarrow> m
      | Some pkg \<Rightarrow>
          AList.update id (fold (\<lambda>rel pkg. case map_of m (SR_Dependency rel) of
                                  None \<Rightarrow> pkg
                                | Some dep \<Rightarrow> pkg\<lparr>Pkg_DependsOn := Pkg_DependsOn pkg @ [Pkg_ID dep]\<rparr>) rels pkg) m)"

definition buildDependencyGraph :: "decode_env \<Rightarrow> Decoder \<Rightarrow> Decoder" where
  "buildDependencyGraph env d =
     d\<lparr>Dec_pkgs := fold add_dependencies (range_relationships env (BOM_relationships (Dec_bom d))) (Dec_pkgs d)\<rparr>"

section \<open>Traversal\<close>

text \<open>The loop of \<open>traverseDependencies\<close> over relationships \<open>rels\<close>, with the map of packages as it is changed. It ends
  because every nested call has removed a package from the map.\<close>

function traverse ::
    "(UUID \<times> sbom_Relationship list) list \<Rightarrow> sbom_Relationship list \<Rightarrow> (UUID \<times> Package) list \<Rightarrow>
      Package list \<times> (UUID \<times> Package) list" where
  "traverse R [] m = ([], m)"
| "traverse R (rel # rels) m =
     (case map_of m (SR_Dependency rel) of
        None \<Rightarrow> traverse R rels m
      | Some pkg \<Rightarrow>
          let nested = traverse R (lookup_list R (SR_Dependency rel)) (AList.delete (SR_Dependency rel) m);
              rest = traverse R rels (snd nested)
          in (pkg # fst nested @ fst rest, snd rest))"
  by pat_completeness auto

lemma delete_shorter: "map_of m k = Some v \<Longrightarrow> length (AList.delete k m) < length m"
  by (induction m) (auto simp: le_imp_less_Suc length_delete_le)

lemma traverse_shorter:
  "traverse_dom (R, rels, m) \<Longrightarrow> length (snd (traverse R rels m)) \<le> length m"
proof (induction R rels m rule: traverse.pinduct)
  case (1 R m)
  then show ?case by (simp add: traverse.psimps)
next
  case (2 R rel rels m)
  show ?case
  proof (cases "map_of m (SR_Dependency rel)")
    case None
    then show ?thesis using 2 by (simp add: traverse.psimps)
  next
    case (Some pkg)
    then show ?thesis
      using 2 delete_shorter [OF Some] by (fastforce simp: traverse.psimps Let_def)
  qed
qed

termination traverse
proof (relation "measures [\<lambda>(R, rels, m). length m, \<lambda>(R, rels, m). length rels]", goal_cases)
  case (4 R rel rels m pkg nested)
  then show ?case
    using traverse_shorter [OF 4(3)] delete_shorter [OF 4(1)] by (auto simp: Let_def)
qed (auto simp: delete_shorter)

definition traverseDependencies ::
    "BOM \<Rightarrow> UUID \<Rightarrow> (UUID \<times> Package) list \<Rightarrow> Package list \<times> (UUID \<times> Package) list" where
  "traverseDependencies b uuid m = traverse (BOM_relationships b) (lookup_list (BOM_relationships b) uuid) m"

definition addOSPkgs :: "Decoder \<Rightarrow> SBOM \<Rightarrow> Decoder \<times> SBOM" where
  "addOSPkgs d s =
     (let (pkgs, m) = traverseDependencies (Dec_bom d) (Dec_osID d) (Dec_pkgs d);
          d1 = d\<lparr>Dec_pkgs := m\<rparr>
      in if length pkgs = 0 then (d1, s)
         else (d1, s\<lparr>SBOM_Packages := [\<lparr>PI_FilePath = [], PI_Packages = pkgs\<rparr>]\<rparr>))"

definition add_application :: "UUID \<times> Application \<Rightarrow> Decoder \<times> SBOM \<Rightarrow> Decoder \<times> SBOM" where
  "add_application e ds =
     (let (id, app) = e; (d, s) = ds;
          (pkgs, m) = traverseDependencies (Dec_bom d) id (Dec_pkgs d);
          app1 = app\<lparr>App_Packages := App_Packages app @ pkgs\<rparr>
      in (d\<lparr>Dec_pkgs := m, Dec_apps := AList.update id app1 (Dec_apps d)\<rparr>,
          s\<lparr>SBOM_Applications := SBOM_Applications s @ [app1]\<rparr>))"

definition addLangPkgs :: "decode_env \<Rightarrow> Decoder \<Rightarrow> SBOM \<Rightarrow> Decoder \<times> SBOM" where
  "addLangPkgs env d s = fold add_application (range_applications env (Dec_apps d)) (d, s)"

section \<open>Orphans\<close>

type_synonym package_groups = "(string \<times> Package list) list \<times> (string \<times> Package list) list"

fun group_orphans :: "Package list \<Rightarrow> package_groups \<Rightarrow> package_groups option" where
  "group_orphans [] g = Some g"
| "group_orphans (pkg # pkgs) (osPkgMap, langPkgMap) =
     (case Id_PURL (Pkg_Identifier pkg) of
        None \<Rightarrow> None
      | Some p \<Rightarrow>
          if purl_Class p = ClassOSPkg then group_orphans pkgs (map_append (PURL_Type p) pkg osPkgMap, langPkgMap)
          else if purl_Class p = ClassLangPkg then group_orphans pkgs (osPkgMap, map_append (purl_LangType p) pkg langPkgMap)
          else group_orphans pkgs (osPkgMap, langPkgMap))"

definition merge_os_packages :: "decode_env \<Rightarrow> Package list \<Rightarrow> SBOM \<Rightarrow> SBOM" where
  "merge_os_packages env pkgs s =
     (case (if SBOM_Packages s = [] then [\<lparr>PI_FilePath = [], PI_Packages = []\<rparr>] else SBOM_Packages s) of
        [] \<Rightarrow> s
      | info # infos \<Rightarrow> s\<lparr>SBOM_Packages := info\<lparr>PI_Packages := sort_orphans env (PI_Packages info @ pkgs)\<rparr> # infos\<rparr>)"

definition lang_application :: "decode_env \<Rightarrow> LangType \<times> Package list \<Rightarrow> Application" where
  "lang_application env e = \<lparr>App_Type = fst e, App_FilePath = [], App_Packages = sort_orphans env (snd e)\<rparr>"

definition addOrphanPkgs :: "decode_env \<Rightarrow> Decoder \<Rightarrow> SBOM \<Rightarrow> SBOM result option" where
  "addOrphanPkgs env d s =
     (case group_orphans (map snd (range_packages env (Dec_pkgs d))) ([], []) of
        None \<Rightarrow> None
      | Some (osPkgMap, langPkgMap) \<Rightarrow>
          if 1 < length osPkgMap
          then Some (Inl (Errorf ''multiple types of OS packages in SBOM are not supported (%q)'' (map fst (range_types env osPkgMap))))
          else
            let s1 = (case range_types env osPkgMap of [] \<Rightarrow> s | e # _ \<Rightarrow> merge_os_packages env (snd e) s)
            in Some (Inr (s1\<lparr>SBOM_Applications := SBOM_Applications s1 @
                 map (lang_application env) (range_types env langPkgMap)\<rparr>)))"

section \<open>Decoding\<close>

text \<open>The order of the applications.\<close>

definition decoded_app_Less :: "Application \<Rightarrow> Application \<Rightarrow> bool" where
  "decoded_app_Less a b =
     (if App_Type a \<noteq> App_Type b then App_Type a < App_Type b else App_FilePath a < App_FilePath b)"

definition Decode :: "decode_env \<Rightarrow> Decoder \<Rightarrow> SBOM \<Rightarrow> (Decoder \<times> SBOM) result option" where
  "Decode env d sbom =
     (case decodeRoot env d sbom of
        Inl e \<Rightarrow> Some (Inl (Wrapf ''failed to decode root component: %w'' [] e))
      | Inr (d1, s1) \<Rightarrow>
          (case decodeComponents env d1 s1 of
             None \<Rightarrow> None
           | Some (Inl e) \<Rightarrow> Some (Inl (Wrapf ''failed to decode components: %w'' [] e))
           | Some (Inr (d2, s2)) \<Rightarrow>
               let (d3, s3) = addOSPkgs (buildDependencyGraph env d2) s2;
                   (d4, s4) = addLangPkgs env d3 s3
               in case addOrphanPkgs env d4 s4 of
                    None \<Rightarrow> None
                  | Some (Inl e) \<Rightarrow> Some (Inl (Wrapf ''failed to aggregate packages: %w'' [] e))
                  | Some (Inr s5) \<Rightarrow>
                      Some (Inr (d4, s5\<lparr>SBOM_Applications := sort_applications env (SBOM_Applications s5),
                                        SBOM_BOM := Some (Dec_bom d4)\<rparr>))))"

section \<open>What a traversal collects\<close>

text \<open>The identifiers reached from \<open>S\<close> along relationships whose targets are all in \<open>D\<close>.\<close>

definition dep_edges :: "(UUID \<times> sbom_Relationship list) list \<Rightarrow> UUID set \<Rightarrow> (UUID \<times> UUID) set" where
  "dep_edges R D = {(a, b). b \<in> SR_Dependency ` set (lookup_list R a) \<and> b \<in> D}"

definition reached :: "(UUID \<times> sbom_Relationship list) list \<Rightarrow> UUID set \<Rightarrow> UUID set \<Rightarrow> UUID set" where
  "reached R D S = (dep_edges R D)\<^sup>* `` (S \<inter> D)"

lemma reached_start: "x \<in> S \<Longrightarrow> x \<in> D \<Longrightarrow> x \<in> reached R D S"
  by (auto simp: reached_def)

lemma reached_step:
  "y \<in> reached R D S \<Longrightarrow> z \<in> SR_Dependency ` set (lookup_list R y) \<Longrightarrow> z \<in> D \<Longrightarrow> z \<in> reached R D S"
  by (auto simp: reached_def dep_edges_def intro: rtrancl_into_rtrancl)

lemma reached_least:
  assumes "S \<inter> D \<subseteq> V" "\<And>y z. y \<in> V \<Longrightarrow> z \<in> SR_Dependency ` set (lookup_list R y) \<Longrightarrow> z \<in> D \<Longrightarrow> z \<in> V"
  shows "reached R D S \<subseteq> V"
proof
  fix y assume "y \<in> reached R D S"
  then obtain x where "x \<in> S \<inter> D" "(x, y) \<in> (dep_edges R D)\<^sup>*" by (auto simp: reached_def)
  from this(2,1) show "y \<in> V"
    by (induction rule: rtrancl_induct) (use assms in \<open>auto simp: dep_edges_def\<close>)
qed

lemma reached_dom: "reached R D S \<subseteq> D"
  by (rule reached_least) auto

lemma reached_mono: "D' \<subseteq> D \<Longrightarrow> S' \<inter> D' \<subseteq> reached R D S \<Longrightarrow> reached R D' S' \<subseteq> reached R D S"
  by (rule reached_least) (auto intro: reached_step)

lemma reached_empty [simp]: "reached R D {} = {}"
  by (simp add: reached_def)

lemma reached_outside: "x \<notin> D \<Longrightarrow> reached R D (insert x S) = reached R D S"
  by (simp add: reached_def)

text \<open>The first relationship leads to its target and to what the target leads to without coming back to it; the
  others to what has not been collected before.\<close>

lemma reached_nested:
  assumes "x \<in> D"
  shows "reached R D {x} = insert x (reached R (D - {x}) (SR_Dependency ` set (lookup_list R x)))"
proof
  show "reached R D {x} \<subseteq> insert x (reached R (D - {x}) (SR_Dependency ` set (lookup_list R x)))"
    by (rule reached_least) (auto intro: reached_start reached_step)
  show "insert x (reached R (D - {x}) (SR_Dependency ` set (lookup_list R x))) \<subseteq> reached R D {x}"
    using assms reached_mono [of "D - {x}" D "SR_Dependency ` set (lookup_list R x)" R "{x}"]
    by (auto intro: reached_start reached_step [of x])
qed

lemma reached_insert:
  "reached R D (insert x S) = reached R D {x} \<union> reached R (D - reached R D {x}) S"
proof
  show "reached R D (insert x S) \<subseteq> reached R D {x} \<union> reached R (D - reached R D {x}) S"
    by (rule reached_least) (auto intro: reached_start reached_step)
  have "reached R D {x} \<subseteq> reached R D (insert x S)"
    by (rule reached_mono) (auto intro: reached_start)
  moreover have "reached R (D - reached R D {x}) S \<subseteq> reached R D (insert x S)"
    by (rule reached_mono) (auto intro: reached_start)
  ultimately show "reached R D {x} \<union> reached R (D - reached R D {x}) S \<subseteq> reached R D (insert x S)"
    by blast
qed

lemma dom_filter_key: "fst ` set (filter (\<lambda>e. fst e \<notin> V) m) = fst ` set m - V"
  by auto

lemma delete_filter: "AList.delete k m = filter (\<lambda>e. fst e \<notin> {k}) m"
  by (induction m) (auto simp: AList.delete_eq)

lemma filter_mset_disjoint:
  "V \<inter> U = {} \<Longrightarrow> filter_mset (\<lambda>e. f e \<in> V \<union> U) M = filter_mset (\<lambda>e. f e \<in> V) M + filter_mset (\<lambda>e. f e \<in> U) M"
  by (induction M) auto

lemma mset_delete:
  "map_ok m \<Longrightarrow> map_of m k = Some v \<Longrightarrow> mset m = add_mset (k, v) (mset (AList.delete k m))"
proof (induction m)
  case (Cons e m)
  show ?case
  proof (cases "fst e = k")
    case True
    then have "k \<notin> fst ` set m" using Cons.prems(1) by (auto simp: map_ok_def)
    then show ?thesis using True Cons.prems(2) by (cases e) (simp add: delete_idem)
  next
    case False
    then show ?thesis using Cons by (cases e) (simp add: map_ok_def)
  qed
qed simp

text \<open>A traversal moves the reached packages, each once, and leaves the others.\<close>

lemma traverse_reached:
  "map_ok m \<Longrightarrow>
   snd (traverse R rels m) = filter (\<lambda>e. fst e \<notin> reached R (fst ` set m) (SR_Dependency ` set rels)) m \<and>
   mset (fst (traverse R rels m)) =
     image_mset snd (filter_mset (\<lambda>e. fst e \<in> reached R (fst ` set m) (SR_Dependency ` set rels)) (mset m))"
proof (induction R rels m rule: traverse.induct)
  case (2 R rel rels m)
  let ?x = "SR_Dependency rel" and ?D = "fst ` set m"
  show ?case
  proof (cases "map_of m ?x")
    case None
    then have "?x \<notin> ?D" by (metis map_of_eq_None_iff)
    then show ?thesis using 2 None by (simp add: reached_outside)
  next
    case (Some pkg)
    then have x: "?x \<in> ?D" by (metis map_of_eq_None_iff option.distinct(1))
    let ?m1 = "AList.delete ?x m" and ?V = "reached R ?D {?x}"
    let ?n = "traverse R (lookup_list R ?x) ?m1"
    let ?W = "reached R (?D - {?x}) (SR_Dependency ` set (lookup_list R ?x))"
    have V: "?V = insert ?x ?W" by (rule reached_nested [OF x])
    have "fst ` set ?m1 = ?D - {?x}" unfolding delete_filter by (rule dom_filter_key)
    then have n: "snd ?n = filter (\<lambda>e. fst e \<notin> ?W) ?m1"
      "mset (fst ?n) = image_mset snd (filter_mset (\<lambda>e. fst e \<in> ?W) (mset ?m1))"
      using 2(2) [OF Some] 2(4) by (simp_all add: map_ok_delete)
    have m2: "snd ?n = filter (\<lambda>e. fst e \<notin> ?V) m"
      unfolding n(1) V by (auto simp: delete_filter intro!: filter_cong)
    have m2_ok: "map_ok (snd ?n)" using 2(4) by (simp add: m2 map_ok_def distinct_map_filter)
    have D2: "fst ` set (snd ?n) = ?D - ?V" unfolding m2 by (rule dom_filter_key)
    let ?U = "reached R (?D - ?V) (SR_Dependency ` set rels)"
    have r: "snd (traverse R rels (snd ?n)) = filter (\<lambda>e. fst e \<notin> ?U) (snd ?n)"
      "mset (fst (traverse R rels (snd ?n))) = image_mset snd (filter_mset (\<lambda>e. fst e \<in> ?U) (mset (snd ?n)))"
      using 2(3) [OF Some refl m2_ok] unfolding D2 by blast+
    have all: "reached R ?D (SR_Dependency ` set (rel # rels)) = ?V \<union> ?U"
      unfolding list.set image_insert by (rule reached_insert)
    have UV: "?U \<inter> ?V = {}" using reached_dom [of R "?D - ?V"] by blast
    have U: "filter_mset (\<lambda>e. fst e \<in> ?U) (mset (snd ?n)) = filter_mset (\<lambda>e. fst e \<in> ?U) (mset m)"
      unfolding m2 using UV by (auto simp: filter_filter_mset intro!: filter_mset_cong)
    have W: "filter_mset (\<lambda>e. fst e \<in> ?V) (mset m) =
        add_mset (?x, pkg) (filter_mset (\<lambda>e. fst e \<in> ?W) (mset ?m1))"
      unfolding mset_delete [OF 2(4) Some] V by (auto simp: delete_filter intro!: filter_mset_cong)
    have both: "filter_mset (\<lambda>e. fst e \<in> ?V \<union> ?U) (mset m) =
        filter_mset (\<lambda>e. fst e \<in> ?V) (mset m) + filter_mset (\<lambda>e. fst e \<in> ?U) (mset m)"
      by (rule filter_mset_disjoint) (use UV in blast)
    have "snd (traverse R (rel # rels) m) = filter (\<lambda>e. fst e \<notin> ?V \<union> ?U) m"
    proof -
      have "snd (traverse R (rel # rels) m) = snd (traverse R rels (snd ?n))" using Some by (simp add: Let_def)
      then show ?thesis unfolding r(1) by (auto simp: m2 intro!: filter_cong)
    qed
    moreover have "mset (fst (traverse R (rel # rels) m)) = image_mset snd (filter_mset (\<lambda>e. fst e \<in> ?V \<union> ?U) (mset m))"
      using Some unfolding both W by (simp add: Let_def n(2) r(2) U)
    ultimately show ?thesis unfolding all by blast
  qed
qed simp

section \<open>Decoding a package\<close>

text \<open>No step of the decoder changes the package URL that the package was made from, nor the dependencies.\<close>

definition same_purl :: "Package \<Rightarrow> Package \<Rightarrow> bool" where
  "same_purl p q \<longleftrightarrow> Id_PURL (Pkg_Identifier p) = Id_PURL (Pkg_Identifier q) \<and> Pkg_DependsOn p = Pkg_DependsOn q"

lemma same_purl_refl [simp]: "same_purl p p"
  by (simp add: same_purl_def)

lemma same_purl_trans: "same_purl p q \<Longrightarrow> same_purl q r \<Longrightarrow> same_purl p r"
  by (simp add: same_purl_def)

lemma fill_property_same: "fill_property prop (pkg, bi) = Inr (pkg', bi') \<Longrightarrow> same_purl pkg' pkg"
  by (auto simp: same_purl_def fill_property_def fillAlireRelationship_def Let_def split: if_splits option.splits sum.splits)

lemma fill_properties_same: "fill_properties props (pkg, bi) = Inr (pkg', bi') \<Longrightarrow> same_purl pkg' pkg"
proof (induction props arbitrary: pkg bi)
  case (Cons pr props)
  then obtain pkg1 bi1 where "fill_property pr (pkg, bi) = Inr (pkg1, bi1)" "fill_properties props (pkg1, bi1) = Inr (pkg', bi')"
    by auto
  then show ?case using Cons.IH fill_property_same same_purl_trans by blast
qed simp

lemma fillPkg_same:
  assumes "fillPkgFieldsFromComponentProps props pkg = Inr pkg'"
  shows "same_purl pkg' pkg"
proof -
  obtain q bi where "fill_properties props (pkg, \<lparr>ContentSets = [], Nvr = [], Build_Arch = []\<rparr>) = Inr (q, bi)"
      "pkg' = (if ContentSets bi \<noteq> [] \<or> Nvr bi \<noteq> [] then q\<lparr>Pkg_BuildInfo := Some bi\<rparr> else q)"
    using assms by (auto simp: fillPkgFieldsFromComponentProps_def)
  then show ?thesis using fill_properties_same by (fastforce simp: same_purl_def)
qed

lemma same_purl_fold: "(\<And>x p. same_purl (f x p) p) \<Longrightarrow> same_purl (fold f xs p) p"
  by (induction xs arbitrary: p) (auto intro: same_purl_trans)

lemma fill_file_same: "same_purl (fold fill_file fs pkg) pkg"
  by (rule same_purl_fold) (simp add: same_purl_def fill_file_def Let_def split: list.splits)

lemma parseSrcVersion_same:
  assumes "Id_PURL (Pkg_Identifier pkg) = Some p"
  shows "\<exists>q. parseSrcVersion env pkg ver = Some q \<and> same_purl q pkg"
  using assms by (auto simp: parseSrcVersion_def same_purl_def split: sum.splits)

lemma fillSrcPkg_same:
  assumes "Id_PURL (Pkg_Identifier pkg) = Some p"
  shows "\<exists>q. fillSrcPkg env c pkg = Some q \<and> same_purl q pkg"
proof -
  let ?pkg1 = "if Comp_SrcName c \<noteq> [] \<and> Pkg_SrcName pkg = [] then pkg\<lparr>Pkg_SrcName := Comp_SrcName c\<rparr> else pkg"
  have "Id_PURL (Pkg_Identifier ?pkg1) = Some p" "same_purl ?pkg1 pkg" using assms by (auto simp: same_purl_def)
  then obtain q where "parseSrcVersion env ?pkg1 (Comp_SrcVersion c) = Some q" "same_purl q pkg"
    using parseSrcVersion_same same_purl_trans by blast
  then show ?thesis by (simp add: fillSrcPkg_def same_purl_def Let_def)
qed

lemma fold_qualifier_same: "same_purl (fold apply_qualifier qs pkg) pkg"
  by (rule same_purl_fold) (simp add: same_purl_def apply_qualifier_def split: option.splits)

lemma purl_Package_same:
  "Id_PURL (Pkg_Identifier (purl_Package env p)) = Some p \<and> Pkg_DependsOn (purl_Package env p) = []"
  using fold_qualifier_same [unfolded same_purl_def]
  by (simp add: purl_Package_def Let_def Package_empty_def)

text \<open>A package is decoded without a panic, and its package URL is that of the component.\<close>

lemma decodePackage_cases:
  obtains (empty) "decodePackage env c = Some (Inl ErrPURLEmpty)" "Id_PURL (Comp_PkgIdentifier c) = None"
  | (unsupported) p where "decodePackage env c = Some (Inl ErrUnsupportedType)" "Id_PURL (Comp_PkgIdentifier c) = Some p"
      "purl_Class p = ClassUnknown"
  | (invalid) e where "decodePackage env c = Some (Inl (Wrapf ''failed to fill package properties: %w'' [] e))"
  | (decoded) p pkg where "decodePackage env c = Some (Inr pkg)" "Id_PURL (Comp_PkgIdentifier c) = Some p"
      "Id_PURL (Pkg_Identifier pkg) = Some p" "purl_Class p \<noteq> ClassUnknown" "Pkg_DependsOn pkg = []"
proof (cases "Id_PURL (Comp_PkgIdentifier c)")
  case None
  then show ?thesis using empty by (simp add: decodePackage_def)
next
  case (Some p)
  let ?pkg = "purl_Package (sbom_purl env) p"
  let ?pkg1 = "?pkg\<lparr>Pkg_Name := decoder_pkgName ?pkg c p\<rparr>"
  let ?pkg2 = "if purl_LangType p \<noteq> ''alire''
      then ?pkg1\<lparr>Pkg_ID := dependency_ID (purl_LangType p) (Pkg_Name ?pkg1) (PURL_Version p)\<rparr> else ?pkg1"
  let ?pkg4 = "\<lambda>pkg3. pkg3\<lparr>Pkg_Identifier := (Pkg_Identifier pkg3)\<lparr>Id_BOMRef := Id_BOMRef (Comp_PkgIdentifier c)\<rparr>, Pkg_Licenses := Comp_Licenses c\<rparr>"
  have pkg2: "Id_PURL (Pkg_Identifier ?pkg2) = Some p" "Pkg_DependsOn ?pkg2 = []"
    using purl_Package_same [of "sbom_purl env" p] by simp_all
  show ?thesis
  proof (cases "purl_Class p = ClassUnknown")
    case True
    then show ?thesis using unsupported Some by (simp add: decodePackage_def)
  next
    case False
    show ?thesis
    proof (cases "fillPkgFieldsFromComponentProps (Comp_Properties c) ?pkg2")
      case (Inl e)
      then show ?thesis using invalid [of e] Some False by (simp add: decodePackage_def Let_def)
    next
      case (Inr pkg3)
      let ?pkg5 = "fold fill_file (Comp_Files c) (?pkg4 pkg3)"
      have pkg5: "Id_PURL (Pkg_Identifier ?pkg5) = Some p" "Pkg_DependsOn ?pkg5 = []"
        using fillPkg_same [OF Inr] fill_file_same [of "Comp_Files c" "?pkg4 pkg3"] pkg2 by (auto simp: same_purl_def)
      obtain q where q: "fillSrcPkg env c ?pkg5 = Some q" "same_purl q ?pkg5" using fillSrcPkg_same pkg5(1) by blast
      have "decodePackage env c = (if purl_Class p = ClassOSPkg then map_option Inr (fillSrcPkg env c ?pkg5) else Some (Inr ?pkg5))"
        using Some False Inr by (simp add: decodePackage_def Let_def)
      then show ?thesis using decoded [OF _ Some _ False] q pkg5 by (cases "purl_Class p = ClassOSPkg") (auto simp: same_purl_def)
    qed
  qed
qed

section \<open>The packages of a BOM\<close>

text \<open>What the components of a BOM stand for, each by itself: the package, or the application.\<close>

definition is_application :: "Component \<Rightarrow> bool" where
  "is_application c \<longleftrightarrow> Comp_Type c = core_TypeApplication \<and> App_Type (decodeApplication c) \<noteq> []"

definition package_of :: "decode_env \<Rightarrow> Component \<Rightarrow> Package option" where
  "package_of env c =
     (if Comp_Type c = core_TypeOS \<or> is_application c then None
      else case decodePackage env c of Some (Inr pkg) \<Rightarrow> Some pkg | _ \<Rightarrow> None)"

definition bom_packages :: "decode_env \<Rightarrow> (UUID \<times> Component) list \<Rightarrow> (UUID \<times> Package) list" where
  "bom_packages env es = List.map_filter (\<lambda>(k, c). map_option (Pair k) (package_of env c)) es"

definition bom_applications :: "(UUID \<times> Component) list \<Rightarrow> (UUID \<times> Application) list" where
  "bom_applications es =
     map (\<lambda>(k, c). (k, decodeApplication c)) (filter (\<lambda>(k, c). Comp_Type c \<noteq> core_TypeOS \<and> is_application c) es)"

lemma update_new: "k \<notin> fst ` set m \<Longrightarrow> AList.update k v m = m @ [(k, v)]"
  by (induction m) auto

text \<open>The loop adds the packages and applications of the components, in the order of the loop, and nothing else.\<close>

definition decodes :: "decode_env \<Rightarrow> (UUID \<times> Component) list \<Rightarrow> Decoder \<times> SBOM \<Rightarrow> Decoder \<times> SBOM \<Rightarrow> bool" where
  "decodes env es ds ds' \<longleftrightarrow>
     Dec_bom (fst ds') = Dec_bom (fst ds) \<and> SBOM_Packages (snd ds') = SBOM_Packages (snd ds) \<and>
     SBOM_Applications (snd ds') = SBOM_Applications (snd ds) \<and>
     Dec_pkgs (fst ds') = Dec_pkgs (fst ds) @ bom_packages env es \<and>
     Dec_apps (fst ds') = Dec_apps (fst ds) @ bom_applications es"

definition fresh_keys :: "(UUID \<times> Component) list \<Rightarrow> Decoder \<times> SBOM \<Rightarrow> bool" where
  "fresh_keys es ds \<longleftrightarrow>
     map_ok es \<and> fst ` set es \<inter> (fst ` set (Dec_pkgs (fst ds)) \<union> fst ` set (Dec_apps (fst ds))) = {}"

lemma decode_component_ok:
  assumes "fresh_keys (e # es) ds"
  shows "\<exists>r. decode_component env e ds = Some r \<and> (\<forall>ds'. r = Inr ds' \<longrightarrow> decodes env [e] ds ds')"
proof -
  obtain k c d s where e: "e = (k, c)" "ds = (d, s)" by (cases e, cases ds)
  have new: "AList.update k pkg (Dec_pkgs d) = Dec_pkgs d @ [(k, pkg)]" "AList.update k app (Dec_apps d) = Dec_apps d @ [(k, app)]" for pkg app
    using assms by (auto simp: fresh_keys_def e intro!: update_new)
  note defs = decode_component_def decodes_def bom_packages_def bom_applications_def package_of_def is_application_def
    List.map_filter_def ErrPURLEmpty_def ErrUnsupportedType_def e new
  show ?thesis
    by (cases rule: decodePackage_cases [of env c]; cases "Comp_Type c = core_TypeOS"; cases "is_application c") (auto simp: defs)
qed

lemma bom_packages_append [simp]: "bom_packages env (xs @ ys) = bom_packages env xs @ bom_packages env ys"
  by (simp add: bom_packages_def List.map_filter_def)

lemma bom_applications_append [simp]: "bom_applications (xs @ ys) = bom_applications xs @ bom_applications ys"
  by (simp add: bom_applications_def)

lemma bom_packages_keys: "fst ` set (bom_packages env es) \<subseteq> fst ` set es"
  by (force simp: bom_packages_def List.map_filter_def package_of_def split: if_splits option.splits sum.splits)

lemma bom_applications_keys: "fst ` set (bom_applications es) \<subseteq> fst ` set es"
  by (force simp: bom_applications_def)

lemma decodes_Nil [simp]: "decodes env [] ds ds"
  by (simp add: decodes_def bom_packages_def bom_applications_def List.map_filter_def)

lemma decodes_trans: "decodes env xs a b \<Longrightarrow> decodes env ys b c \<Longrightarrow> decodes env (xs @ ys) a c"
  by (simp add: decodes_def)

lemma disjoint_insert: "\<lbrakk>A' \<subseteq> insert x A; B' \<subseteq> insert x B; x \<notin> E; E \<inter> (A \<union> B) = {}\<rbrakk> \<Longrightarrow> E \<inter> (A' \<union> B') = {}"
  by blast

lemma fresh_keys_step:
  assumes "fresh_keys (e # es) ds" "decodes env [e] ds ds'"
  shows "fresh_keys es ds'"
proof -
  have sub: "fst ` set (Dec_pkgs (fst ds')) \<subseteq> insert (fst e) (fst ` set (Dec_pkgs (fst ds)))"
    "fst ` set (Dec_apps (fst ds')) \<subseteq> insert (fst e) (fst ` set (Dec_apps (fst ds)))"
    using assms(2) bom_packages_keys [of env "[e]"] bom_applications_keys [of "[e]"] by (auto simp: decodes_def)
  have es: "map_ok es" "fst e \<notin> fst ` set es"
    "fst ` set es \<inter> (fst ` set (Dec_pkgs (fst ds)) \<union> fst ` set (Dec_apps (fst ds))) = {}"
    using assms(1) by (simp_all add: fresh_keys_def map_ok_def)
  show ?thesis unfolding fresh_keys_def by (rule conjI [OF es(1) disjoint_insert [OF sub es(2,3)]])
qed

lemma decode_loop_ok:
  "fresh_keys es ds \<Longrightarrow> \<exists>r. decode_loop env es ds = Some r \<and> (\<forall>ds'. r = Inr ds' \<longrightarrow> decodes env es ds ds')"
proof (induction es arbitrary: ds)
  case (Cons e es)
  obtain r where r: "decode_component env e ds = Some r" "\<And>ds'. r = Inr ds' \<Longrightarrow> decodes env [e] ds ds'"
    using decode_component_ok [OF Cons.prems] by blast
  show ?case
  proof (cases r)
    case (Inr ds1)
    have "fresh_keys es ds1" by (rule fresh_keys_step [OF Cons.prems r(2) [OF Inr]])
    then show ?thesis
      using Cons.IH r(1) decodes_trans [OF r(2) [OF Inr]] Inr by fastforce
  qed (use r(1) in simp)
qed simp

text \<open>A decoded package carries the identifiers of the packages it depends on.\<close>

definition dependency_IDs :: "(UUID \<times> Package) list \<Rightarrow> sbom_Relationship list \<Rightarrow> string list" where
  "dependency_IDs m rels = List.map_filter (\<lambda>rel. map_option Pkg_ID (map_of m (SR_Dependency rel))) rels"

lemma map_of_map_key: "map_of (map (\<lambda>(k, v). (k, f k v)) m) k = map_option (f k) (map_of m k)"
  by (induction m) auto

definition linked :: "(UUID \<times> sbom_Relationship list) list \<Rightarrow> (UUID \<times> Package) list \<Rightarrow> (UUID \<times> Package) list" where
  "linked R m = map (\<lambda>(k, pkg). (k, pkg\<lparr>Pkg_DependsOn := Pkg_DependsOn pkg @ dependency_IDs m (lookup_list R k)\<rparr>)) m"

lemma linked_keys [simp]: "map fst (linked R m) = map fst m"
  by (auto simp: linked_def)

lemma dependency_IDs_linked [simp]: "dependency_IDs (linked R m) rels = dependency_IDs m rels"
proof -
  have "map_option Pkg_ID (map_of (linked R m) k) = map_option Pkg_ID (map_of m k)" for k
    by (simp add: linked_def map_of_map_key option.map_comp comp_def)
  then show ?thesis by (simp add: dependency_IDs_def)
qed


lemma add_dependencies_fold:
  "fold (\<lambda>rel pkg. case map_of m (SR_Dependency rel) of None \<Rightarrow> pkg
         | Some dep \<Rightarrow> pkg\<lparr>Pkg_DependsOn := Pkg_DependsOn pkg @ [Pkg_ID dep]\<rparr>) rels pkg =
   pkg\<lparr>Pkg_DependsOn := Pkg_DependsOn pkg @ dependency_IDs m rels\<rparr>"
  by (induction rels arbitrary: pkg) (auto simp: dependency_IDs_def List.map_filter_def split: option.splits)

lemma linked_cong: "(\<And>k. k \<in> fst ` set m \<Longrightarrow> lookup_list R k = lookup_list R' k) \<Longrightarrow> linked R m = linked R' m"
  by (force simp: linked_def)

lemma add_dependencies_linked:
  assumes "map_ok m"
  shows "add_dependencies (k, rels) m = linked [(k, rels)] m"
proof (cases "map_of m k")
  case None
  then have "linked [(k, rels)] m = m"
    unfolding linked_def by (intro map_idI) (auto simp: lookup_list_def dependency_IDs_def List.map_filter_def map_of_eq_None_iff image_iff)
  then show ?thesis using None by (simp add: add_dependencies_def)
next
  case (Some pkg)
  then show ?thesis
    using update_map [OF assms Some, of "\<lambda>pkg. pkg\<lparr>Pkg_DependsOn := Pkg_DependsOn pkg @ dependency_IDs m rels\<rparr>"]
    by (auto simp: add_dependencies_def add_dependencies_fold linked_def lookup_list_def dependency_IDs_def List.map_filter_def)
qed

lemma linked_linked:
  assumes "k \<notin> fst ` set R"
  shows "linked R (linked [(k, rels)] m) = linked ((k, rels) # R) m"
proof -
  have "lookup_list R k = []" using assms by (simp add: lookup_list_def map_of_eq_None_iff [THEN iffD2])
  then show ?thesis
    unfolding linked_def [of R] linked_def [of "(k, rels) # R"] dependency_IDs_linked
    by (auto simp: linked_def lookup_list_def dependency_IDs_def List.map_filter_def)
qed

lemma add_dependencies_all:
  "map_ok m \<Longrightarrow> map_ok es \<Longrightarrow> fold add_dependencies es m = linked es m"
proof (induction es arbitrary: m)
  case Nil
  then show ?case by (simp add: linked_def lookup_list_def dependency_IDs_def List.map_filter_def case_prod_beta)
next
  case (Cons e es)
  obtain k rels where e: "e = (k, rels)" by (cases e)
  have "map_ok (linked [(k, rels)] m)" using Cons.prems(1) by (simp add: map_ok_def)
  moreover have "map_ok es" "k \<notin> fst ` set es" using Cons.prems(2) by (auto simp: map_ok_def e)
  ultimately show ?case using Cons.IH Cons.prems(1) by (simp add: e add_dependencies_linked linked_linked)
qed

section \<open>No package is lost or duplicated\<close>

definition sbom_packages :: "SBOM \<Rightarrow> Package list" where
  "sbom_packages s = concat (map PI_Packages (SBOM_Packages s)) @ concat (map App_Packages (SBOM_Applications s))"

text \<open>The documented behaviour of the iteration and of the sorts.\<close>

definition decode_env_ok :: "decode_env \<Rightarrow> bool" where
  "decode_env_ok env \<longleftrightarrow>
     is_range (range_components env) \<and> is_range (range_relationships env) \<and> is_range (range_packages env) \<and>
     is_range (range_applications env) \<and> is_range (range_types env) \<and>
     sorter (less_cmp Packages_Less) (sort_orphans env) \<and> sorter (less_cmp decoded_app_Less) (sort_applications env)"

text \<open>The decoder holds packages that can be assigned to an OS or a language. The packages it holds and those of the SBOM
  together do not change when they are moved.\<close>

definition classified :: "Package \<Rightarrow> bool" where
  "classified pkg \<longleftrightarrow> (\<exists>p. Id_PURL (Pkg_Identifier pkg) = Some p \<and> purl_Class p \<in> {ClassOSPkg, ClassLangPkg})"

definition decoder_ok :: "Decoder \<Rightarrow> bool" where
  "decoder_ok d \<longleftrightarrow> map_ok (Dec_pkgs d) \<and> list_all (\<lambda>e. classified (snd e)) (Dec_pkgs d)"

definition all_packages :: "Decoder \<times> SBOM \<Rightarrow> Package multiset" where
  "all_packages ds = mset (sbom_packages (snd ds)) + image_mset snd (mset (Dec_pkgs (fst ds)))"

lemma traverse_moves:
  assumes "decoder_ok d" "traverseDependencies b k (Dec_pkgs d) = (pkgs, m)"
  shows "mset pkgs + image_mset snd (mset m) = image_mset snd (mset (Dec_pkgs d)) \<and>
    map_ok m \<and> list_all (\<lambda>e. classified (snd e)) m"
proof -
  let ?R = "BOM_relationships b"
  let ?V = "reached ?R (fst ` set (Dec_pkgs d)) (SR_Dependency ` set (lookup_list ?R k))"
  have "m = filter (\<lambda>e. fst e \<notin> ?V) (Dec_pkgs d)"
    "mset pkgs = image_mset snd (filter_mset (\<lambda>e. fst e \<in> ?V) (mset (Dec_pkgs d)))"
    using traverse_reached [of "Dec_pkgs d" ?R "lookup_list ?R k"] assms by (simp_all add: decoder_ok_def traverseDependencies_def)
  moreover have "image_mset snd (filter_mset P M) + image_mset snd (filter_mset (\<lambda>e. \<not> P e) M) = image_mset snd M" for P M
    by (metis image_mset_union multiset_partition)
  ultimately show ?thesis
    using assms(1) by (auto simp: decoder_ok_def map_ok_def distinct_map_filter list_all_iff)
qed

lemma addOSPkgs_moves:
  assumes "decoder_ok d" "SBOM_Packages s = []" "addOSPkgs d s = (d', s')"
  shows "decoder_ok d' \<and> all_packages (d', s') = all_packages (d, s) \<and> Dec_bom d' = Dec_bom d \<and> Dec_apps d' = Dec_apps d \<and>
    length (SBOM_Packages s') \<le> 1"
proof -
  obtain pkgs m where t: "traverseDependencies (Dec_bom d) (Dec_osID d) (Dec_pkgs d) = (pkgs, m)" by fastforce
  then have "d' = d\<lparr>Dec_pkgs := m\<rparr>" "s' = (if pkgs = [] then s else s\<lparr>SBOM_Packages := [\<lparr>PI_FilePath = [], PI_Packages = pkgs\<rparr>]\<rparr>)"
    using assms(3) by (auto simp: addOSPkgs_def Let_def split: if_splits)
  then show ?thesis
    using traverse_moves [OF assms(1) t] assms(2) by (auto simp: all_packages_def sbom_packages_def decoder_ok_def ac_simps)
qed

lemma add_application_moves:
  assumes "decoder_ok d" "App_Packages (snd e) = []" "add_application e (d, s) = (d', s')"
  shows "decoder_ok d' \<and> all_packages (d', s') = all_packages (d, s) \<and> Dec_bom d' = Dec_bom d \<and> SBOM_Packages s' = SBOM_Packages s"
proof -
  obtain k app where e: "e = (k, app)" by (cases e)
  obtain pkgs m where t: "traverseDependencies (Dec_bom d) k (Dec_pkgs d) = (pkgs, m)" by fastforce
  then have "d' = d\<lparr>Dec_pkgs := m, Dec_apps := AList.update k (app\<lparr>App_Packages := pkgs\<rparr>) (Dec_apps d)\<rparr>"
    "s' = s\<lparr>SBOM_Applications := SBOM_Applications s @ [app\<lparr>App_Packages := pkgs\<rparr>]\<rparr>"
    using assms(2,3) by (auto simp: add_application_def Let_def e)
  then show ?thesis
    using traverse_moves [OF assms(1) t] by (auto simp: all_packages_def sbom_packages_def decoder_ok_def ac_simps)
qed

lemma add_applications_move:
  assumes "decoder_ok d" "list_all (\<lambda>e. App_Packages (snd e) = []) es" "fold add_application es (d, s) = (d', s')"
  shows "decoder_ok d' \<and> all_packages (d', s') = all_packages (d, s) \<and> Dec_bom d' = Dec_bom d \<and> SBOM_Packages s' = SBOM_Packages s"
  using assms
proof (induction es arbitrary: d s)
  case (Cons e es)
  obtain d1 s1 where step: "add_application e (d, s) = (d1, s1)" by (cases "add_application e (d, s)")
  then show ?case
    using Cons.IH [of d1 s1] Cons.prems add_application_moves [OF Cons.prems(1) _ step] by simp
qed simp

text \<open>The groups of the orphans.\<close>

definition grouped :: "(string \<times> Package list) list \<Rightarrow> Package list" where
  "grouped g = concat (map snd g)"

lemma map_append_Cons:
  "map_append k v ((k', vs) # g) = (if k = k' then (k', vs @ [v]) # g else (k', vs) # map_append k v g)"
  by (simp add: map_append_def lookup_list_def)

lemma mset_grouped_append: "mset (grouped (map_append k v g)) = add_mset v (mset (grouped g))"
proof (induction g)
  case Nil
  then show ?case by (simp add: grouped_def map_append_def lookup_list_def)
next
  case (Cons e g)
  then show ?case by (cases e) (simp add: grouped_def map_append_Cons)
qed

lemma mset_grouped: "mset (grouped g) = sum_mset (image_mset (\<lambda>e. mset (snd e)) (mset g))"
  by (induction g) (simp_all add: grouped_def)

lemma grouped_range: "is_range r \<Longrightarrow> mset (grouped (r g)) = mset (grouped g)"
  by (simp add: mset_grouped is_range_mset)

lemma group_orphans_ok:
  "list_all classified pkgs \<Longrightarrow>
   \<exists>os lang. group_orphans pkgs (os0, lang0) = Some (os, lang) \<and>
     mset (grouped os) + mset (grouped lang) = mset (grouped os0) + mset (grouped lang0) + mset pkgs"
proof (induction pkgs arbitrary: os0 lang0)
  case (Cons pkg pkgs)
  then obtain p where p: "Id_PURL (Pkg_Identifier pkg) = Some p" "purl_Class p = ClassOSPkg \<or> purl_Class p = ClassLangPkg"
    by (auto simp: classified_def)
  have IH: "\<exists>os lang. group_orphans pkgs (o1, l1) = Some (os, lang) \<and>
      mset (grouped os) + mset (grouped lang) = mset (grouped o1) + mset (grouped l1) + mset pkgs" for o1 l1
    using Cons by simp
  show ?case
  proof (cases "purl_Class p = ClassOSPkg")
    case True
    then show ?thesis using IH [of "map_append (PURL_Type p) pkg os0" lang0] p(1) by (auto simp: mset_grouped_append)
  next
    case False
    then show ?thesis using IH [of os0 "map_append (purl_LangType p) pkg lang0"] p by (auto simp: mset_grouped_append)
  qed
qed simp

lemma range_short:
  assumes "is_range r" "length g \<le> 1"
  shows "r g = g"
proof -
  have m: "mset (r g) = mset g" using assms(1) by (simp add: is_range_mset)
  from assms(2) consider "g = []" | x where "g = [x]" by (cases g) auto
  then show ?thesis using m by cases simp_all
qed

lemma addOrphanPkgs_moves:
  assumes "decode_env_ok env" "decoder_ok d"
  shows "\<exists>r. addOrphanPkgs env d s = Some r \<and> (\<forall>s'. r = Inr s' \<longrightarrow> mset (sbom_packages s') = all_packages (d, s))"
proof -
  let ?pkgs = "map snd (range_packages env (Dec_pkgs d))"
  have "list_all classified ?pkgs"
    using assms(1,2) by (auto simp: decode_env_ok_def decoder_ok_def list_all_iff is_range_set)
  then obtain os lang where g: "group_orphans ?pkgs ([], []) = Some (os, lang)"
    and m: "mset (grouped os) + mset (grouped lang) = mset ?pkgs"
    using group_orphans_ok [of ?pkgs "[]" "[]"] by (auto simp: grouped_def)
  have pkgs: "mset ?pkgs = image_mset snd (mset (Dec_pkgs d))"
    using assms(1) by (simp add: decode_env_ok_def is_range_mset)
  have so: "mset (sort_orphans env xs) = mset xs" for xs
    using assms(1) sorter.sort_mset by (auto simp: decode_env_ok_def)
  have types: "is_range (range_types env)" using assms(1) by (simp add: decode_env_ok_def)
  show ?thesis
  proof (cases "1 < length os")
    case True
    then show ?thesis by (simp add: addOrphanPkgs_def g)
  next
    case False
    let ?s1 = "case os of [] \<Rightarrow> s | e # _ \<Rightarrow> merge_os_packages env (snd e) s"
    let ?apps = "map (lang_application env) (range_types env lang)"
    have r: "addOrphanPkgs env d s = Some (Inr (?s1\<lparr>SBOM_Applications := SBOM_Applications ?s1 @ ?apps\<rparr>))"
      using False by (simp add: addOrphanPkgs_def g range_short [OF types] Let_def)
    have "mset (concat (map App_Packages (map (lang_application env) xs))) = mset (grouped xs)" for xs
      by (induction xs) (simp_all add: grouped_def so lang_application_def)
    then have apps: "mset (concat (map App_Packages ?apps)) = mset (grouped lang)"
      using grouped_range [OF types, of lang] by simp
    have merge: "mset (concat (map PI_Packages (SBOM_Packages (merge_os_packages env xs s)))) =
        mset (concat (map PI_Packages (SBOM_Packages s))) + mset xs"
      "SBOM_Applications (merge_os_packages env xs s) = SBOM_Applications s" for xs
      by (simp_all add: merge_os_packages_def so split: list.splits)
    have "mset (concat (map PI_Packages (SBOM_Packages ?s1))) =
        mset (concat (map PI_Packages (SBOM_Packages s))) + mset (grouped os) \<and> SBOM_Applications ?s1 = SBOM_Applications s"
      using False by (cases os) (simp_all add: merge grouped_def)
    then show ?thesis using apps m pkgs unfolding r by (simp add: all_packages_def sbom_packages_def)
  qed
qed

text \<open>The packages do not depend on the order of the components.\<close>

lemma mset_bom_packages: "mset xs = mset ys \<Longrightarrow> mset (bom_packages env xs) = mset (bom_packages env ys)"
  unfolding bom_packages_def List.map_filter_def by (simp add: mset_filter)

lemma disjoint_singleton: "A \<subseteq> {x} \<Longrightarrow> B \<subseteq> C \<Longrightarrow> x \<notin> C \<Longrightarrow> A \<inter> B = {}"
  by blast

lemma bom_packages_ok: "map_ok es \<Longrightarrow> map_ok (bom_packages env es)"
  unfolding map_ok_def
proof (induction es)
  case (Cons e es)
  have "distinct (map fst (bom_packages env [e]))" by (simp add: bom_packages_def List.map_filter_def)
  moreover have "fst ` set (bom_packages env [e]) \<inter> fst ` set (bom_packages env es) = {}"
    using disjoint_singleton [OF _ bom_packages_keys] bom_packages_keys [of env "[e]"] Cons.prems by simp
  ultimately show ?case using Cons bom_packages_append [of env "[e]" es] by simp
qed (simp add: bom_packages_def List.map_filter_def)

lemma bom_packages_classified: "list_all (\<lambda>e. classified (snd e)) (bom_packages env es)"
proof -
  have "classified pkg" if "package_of env c = Some pkg" for c pkg
    using that by (cases rule: decodePackage_cases [of env c]) (auto simp: package_of_def classified_def purl_Class_def split: if_splits)
  then show ?thesis by (auto simp: bom_packages_def List.map_filter_def list_all_iff)
qed

lemma linked_range:
  assumes "map_ok m" "mset m = mset m'"
  shows "mset (linked R m) = mset (linked R m')"
proof -
  have "map_ok m'" using assms sort_mset_distinct [of m' m fst] by (simp add: map_ok_def)
  then have same: "map_of m = map_of m'"
    using map_of_inject_set [of m m'] assms(1) mset_eq_setD [OF assms(2)] by (simp add: map_ok_def)
  show ?thesis unfolding linked_def dependency_IDs_def same mset_map assms(2) ..
qed

text \<open>Filling in references changes neither the keys of the components nor the relationships.\<close>

lemma BOM_Root_keys:
  assumes "BOM_Root env b = (b', root)" "map_ok (BOM_components b)"
  shows "map_ok (BOM_components b') \<and> BOM_relationships b' = BOM_relationships b"
  using assms by (auto simp: BOM_Root_def Let_def map_ok_update split: option.splits if_splits)

lemma Components_keys:
  "map fst (BOM_components (Components env b)) = map fst (BOM_components b) \<and>
   BOM_relationships (Components env b) = BOM_relationships b"
  by (auto simp: Components_def comp_def case_prod_beta)

lemma decodeRoot_ok:
  assumes "decodeRoot env d s = Inr (d', s')"
  shows "d' = d\<lparr>Dec_bom := fst (BOM_Root (dec_core env) (Dec_bom d))\<rparr> \<and> SBOM_Packages s' = SBOM_Packages s \<and>
    SBOM_Applications s' = SBOM_Applications s"
  using assms by (auto simp: decodeRoot_def Let_def split: prod.splits option.splits)

lemma decodeComponents_ok:
  assumes "map_ok (BOM_components (Dec_bom d))" "decode_env_ok env" "Dec_pkgs d = []" "Dec_apps d = []"
  shows "\<exists>r. decodeComponents env d s = Some r \<and>
    (\<forall>d' s'. r = Inr (d', s') \<longrightarrow>
       Dec_bom d' = Components (dec_core env) (Dec_bom d) \<and>
       SBOM_Packages s' = SBOM_Packages s \<and> SBOM_Applications s' = SBOM_Applications s \<and>
       Dec_pkgs d' = bom_packages env (range_components env (BOM_components (Dec_bom d'))) \<and>
       list_all (\<lambda>e. App_Packages (snd e) = []) (Dec_apps d'))"
proof -
  let ?b = "Components (dec_core env) (Dec_bom d)"
  let ?es = "range_components env (BOM_components ?b)"
  have "mset ?es = mset (BOM_components ?b)" using assms(2) by (simp add: decode_env_ok_def is_range_mset)
  then have "map_ok ?es"
    using assms(1) Components_keys [of "dec_core env" "Dec_bom d"] sort_mset_distinct [of ?es "BOM_components ?b" fst] by (simp add: map_ok_def)
  then have "fresh_keys ?es (d\<lparr>Dec_bom := ?b\<rparr>, s)" by (simp add: fresh_keys_def assms(3,4))
  then obtain r where r: "decode_loop env ?es (d\<lparr>Dec_bom := ?b\<rparr>, s) = Some r"
    "\<And>ds'. r = Inr ds' \<Longrightarrow> decodes env ?es (d\<lparr>Dec_bom := ?b\<rparr>, s) ds'"
    using decode_loop_ok by blast
  have apps: "list_all (\<lambda>e. App_Packages (snd e) = []) (bom_applications es)" for es
    by (auto simp: bom_applications_def list_all_iff decodeApplication_def Let_def)
  show ?thesis
  proof (intro exI [of _ r] conjI [of "decodeComponents env d s = Some r"] allI impI)
    show "decodeComponents env d s = Some r" using r(1) by (simp add: decodeComponents_def Let_def)
  next
    fix d' s' assume "r = Inr (d', s')"
    from r(2) [OF this] apps [of ?es] show "Dec_bom d' = ?b \<and>
       SBOM_Packages s' = SBOM_Packages s \<and> SBOM_Applications s' = SBOM_Applications s \<and>
       Dec_pkgs d' = bom_packages env (range_components env (BOM_components (Dec_bom d'))) \<and>
       list_all (\<lambda>e. App_Packages (snd e) = []) (Dec_apps d')"
      by (simp add: decodes_def assms(3,4))
  qed
qed

lemma buildDependencyGraph_ok:
  assumes "decode_env_ok env" "map_ok (Dec_pkgs d)" "map_ok (BOM_relationships (Dec_bom d))"
    "list_all (\<lambda>e. classified (snd e)) (Dec_pkgs d)"
  shows "buildDependencyGraph env d = d\<lparr>Dec_pkgs := linked (BOM_relationships (Dec_bom d)) (Dec_pkgs d)\<rparr> \<and>
    decoder_ok (buildDependencyGraph env d)"
proof -
  let ?R = "BOM_relationships (Dec_bom d)" and ?R' = "range_relationships env (BOM_relationships (Dec_bom d))"
  have m: "mset ?R' = mset ?R" using assms(1) by (simp add: decode_env_ok_def is_range_mset)
  then have ok: "map_ok ?R'" using assms(3) sort_mset_distinct [of ?R' ?R fst] by (simp add: map_ok_def)
  then have "map_of ?R' = map_of ?R"
    using map_of_inject_set [of ?R' ?R] assms(3) mset_eq_setD [OF m] by (simp add: map_ok_def)
  then have "fold add_dependencies ?R' (Dec_pkgs d) = linked ?R (Dec_pkgs d)"
    unfolding add_dependencies_all [OF assms(2) ok] by (simp add: linked_def lookup_list_def)
  moreover have "map_ok (linked ?R (Dec_pkgs d))" using assms(2) by (simp add: map_ok_def)
  moreover have "list_all (\<lambda>e. classified (snd e)) (linked ?R (Dec_pkgs d))"
    using assms(4) by (auto simp: linked_def list_all_iff classified_def)
  ultimately show ?thesis by (simp add: buildDependencyGraph_def decoder_ok_def)
qed

text \<open>From the components on: the packages are distributed.\<close>

lemma distribute_ok:
  assumes "decode_env_ok env" "decoder_ok d" "list_all (\<lambda>e. App_Packages (snd e) = []) (Dec_apps d)" "SBOM_Packages s = []"
    and "addOSPkgs d s = (d1, s1)" "addLangPkgs env d1 s1 = (d2, s2)"
  shows "decoder_ok d2 \<and> all_packages (d2, s2) = all_packages (d, s) \<and> Dec_bom d2 = Dec_bom d"
proof -
  note 1 = addOSPkgs_moves [OF assms(2,4,5)]
  then have "list_all (\<lambda>e. App_Packages (snd e) = []) (range_applications env (Dec_apps d1))"
    using assms(1,3) by (auto simp: decode_env_ok_def list_all_iff is_range_set)
  then show ?thesis
    using 1 add_applications_move [of d1 "range_applications env (Dec_apps d1)" s1 d2 s2] assms(6)
    by (simp add: addLangPkgs_def)
qed

text \<open>C23. \<open>traverseDependencies\<close> returns on every graph, cyclic ones included. The packages it returns are exactly those that
  the decoder holds and that the component reaches along relationships between packages the decoder holds, each once; exactly
  these are removed from the decoder.\<close>

theorem traverseDependencies_spec:
  assumes "map_ok m" "traverseDependencies b k m = (pkgs, m')"
  shows "mset pkgs = image_mset snd {#e \<in># mset m.
       fst e \<in> reached (BOM_relationships b) (fst ` set m) (SR_Dependency ` set (lookup_list (BOM_relationships b) k))#} \<and>
    m' = filter (\<lambda>e. fst e \<notin> reached (BOM_relationships b) (fst ` set m)
       (SR_Dependency ` set (lookup_list (BOM_relationships b) k))) m"
  using traverse_reached [OF assms(1), of "BOM_relationships b" "lookup_list (BOM_relationships b) k"] assms(2)
  by (simp add: traverseDependencies_def)

lemma mset_concat_perm: "mset xs = mset ys \<Longrightarrow> mset (concat (map f xs)) = mset (concat (map f ys))"
proof -
  have "mset (concat (map f zs)) = sum_mset (image_mset (\<lambda>z. mset (f z)) (mset zs))" for zs
    by (induction zs) simp_all
  then show "mset xs = mset ys \<Longrightarrow> mset (concat (map f xs)) = mset (concat (map f ys))" by simp
qed

lemma sort_applications_packages:
  assumes "decode_env_ok env"
  shows "mset (sbom_packages (s\<lparr>SBOM_Applications := sort_applications env (SBOM_Applications s), SBOM_BOM := x\<rparr>)) =
    mset (sbom_packages s)"
proof -
  have "mset (sort_applications env (SBOM_Applications s)) = mset (SBOM_Applications s)"
    using assms sorter.sort_mset by (auto simp: decode_env_ok_def)
  then show ?thesis
    unfolding sbom_packages_def mset_append by (simp add: mset_concat_perm [of "sort_applications env (SBOM_Applications s)" "SBOM_Applications s"])
qed

lemma distribute_all:
  assumes "decode_env_ok env" "map_ok (BOM_components b)" "map_ok (BOM_relationships b)"
    and "Dec_bom d = b" "Dec_pkgs d = bom_packages env (range_components env (BOM_components b))"
    and "list_all (\<lambda>e. App_Packages (snd e) = []) (Dec_apps d)" "SBOM_Packages s = []" "SBOM_Applications s = []"
    and "addOSPkgs (buildDependencyGraph env d) s = (d1, s1)" "addLangPkgs env d1 s1 = (d2, s2)"
  shows "Dec_bom d2 = b \<and> (\<exists>r. addOrphanPkgs env d2 s2 = Some r \<and>
    (\<forall>s'. r = Inr s' \<longrightarrow> mset (sbom_packages s') = mset (map snd (linked (BOM_relationships b) (bom_packages env (BOM_components b))))))"
proof -
  let ?es = "range_components env (BOM_components b)"
  have es: "mset ?es = mset (BOM_components b)" using assms(1) by (simp add: decode_env_ok_def is_range_mset)
  then have "map_ok ?es" using assms(2) sort_mset_distinct [of ?es "BOM_components b" fst] by (simp add: map_ok_def)
  then have pkgs: "map_ok (Dec_pkgs d)" by (simp add: assms(5) bom_packages_ok)
  have "list_all (\<lambda>e. classified (snd e)) (Dec_pkgs d)" by (simp add: assms(5) bom_packages_classified)
  note graph = buildDependencyGraph_ok [OF assms(1) pkgs assms(3) [folded assms(4)] this]
  have "mset (linked (BOM_relationships b) (Dec_pkgs d)) = mset (linked (BOM_relationships b) (bom_packages env (BOM_components b)))"
    by (rule linked_range [OF pkgs]) (simp add: assms(5) mset_bom_packages [OF es])
  then have all: "all_packages (buildDependencyGraph env d, s) =
      mset (map snd (linked (BOM_relationships b) (bom_packages env (BOM_components b))))"
    using graph assms(4,7,8) by (simp add: all_packages_def sbom_packages_def)
  have apps: "list_all (\<lambda>e. App_Packages (snd e) = []) (Dec_apps (buildDependencyGraph env d))"
    using assms(6) graph by simp
  note moved = distribute_ok [OF assms(1) conjunct2 [OF graph] apps assms(7,9,10)]
  then show ?thesis
    using addOrphanPkgs_moves [OF assms(1), of d2 s2] assms(4) graph unfolding all by auto
qed

text \<open>C11. Decoding does not panic, and a decoded SBOM holds every package of the BOM exactly once, with the identifiers of
  the packages it depends on: whatever the relationships are, no package is lost and none is duplicated.\<close>

theorem Decode_packages:
  assumes "decode_env_ok env" "map_ok (BOM_components b)" "map_ok (BOM_relationships b)"
  shows "Decode env (NewDecoder b) SBOM_empty \<noteq> None \<and>
    (\<forall>d s. Decode env (NewDecoder b) SBOM_empty = Some (Inr (d, s)) \<longrightarrow>
       mset (sbom_packages s) =
         mset (map snd (linked (BOM_relationships b) (bom_packages env (BOM_components (Dec_bom d))))))"
proof (cases "decodeRoot env (NewDecoder b) SBOM_empty")
  case (Inl e)
  then show ?thesis by (simp add: Decode_def)
next
  case (Inr ds1)
  note ds1_eq = Inr
  obtain d1 s1 where ds1: "ds1 = (d1, s1)" by (cases ds1)
  note root = decodeRoot_ok [OF Inr [unfolded ds1]]
  obtain b1 c1 where b1: "BOM_Root (dec_core env) b = (b1, c1)" by fastforce
  have d1: "Dec_bom d1 = b1" "Dec_pkgs d1 = []" "Dec_apps d1 = []" "SBOM_Packages s1 = []" "SBOM_Applications s1 = []"
    using root b1 by (simp_all add: NewDecoder_def SBOM_empty_def)
  note b1_ok = BOM_Root_keys [OF b1 assms(2)]
  obtain r where r: "decodeComponents env d1 s1 = Some r"
    "\<And>d' s'. r = Inr (d', s') \<Longrightarrow>
       Dec_bom d' = Components (dec_core env) b1 \<and> SBOM_Packages s' = [] \<and> SBOM_Applications s' = [] \<and>
       Dec_pkgs d' = bom_packages env (range_components env (BOM_components (Dec_bom d'))) \<and>
       list_all (\<lambda>e. App_Packages (snd e) = []) (Dec_apps d')"
    using decodeComponents_ok [of d1 env s1, unfolded d1, OF conjunct1 [OF b1_ok] assms(1) refl refl] by blast
  show ?thesis
  proof (cases r)
    case (Inl e)
    then show ?thesis using r(1) Inr ds1 by (simp add: Decode_def)
  next
    case (Inr ds2)
    obtain d2 s2 where ds2: "ds2 = (d2, s2)" by (cases ds2)
    note comps = r(2) [OF Inr [unfolded ds2]]
    obtain d3 s3 where d3: "addOSPkgs (buildDependencyGraph env d2) s2 = (d3, s3)" by fastforce
    obtain d4 s4 where d4: "addLangPkgs env d3 s3 = (d4, s4)" by fastforce
    have b2: "map_ok (BOM_components (Dec_bom d2))" "BOM_relationships (Dec_bom d2) = BOM_relationships b"
      using comps b1_ok Components_keys [of "dec_core env" b1] by (simp_all add: map_ok_def)
    then have "Dec_bom d4 = Dec_bom d2 \<and> (\<exists>r. addOrphanPkgs env d4 s4 = Some r \<and> (\<forall>s'. r = Inr s' \<longrightarrow>
        mset (sbom_packages s') = mset (map snd (linked (BOM_relationships b) (bom_packages env (BOM_components (Dec_bom d2)))))))"
      using distribute_all [OF assms(1) b2(1) _ refl _ _ _ _ d3 d4] comps assms(3) by simp
    then obtain r' where r': "Dec_bom d4 = Dec_bom d2" "addOrphanPkgs env d4 s4 = Some r'"
      "\<And>s'. r' = Inr s' \<Longrightarrow>
        mset (sbom_packages s') = mset (map snd (linked (BOM_relationships b) (bom_packages env (BOM_components (Dec_bom d2)))))"
      by blast
    have "Decode env (NewDecoder b) SBOM_empty = (case r' of
        Inl e \<Rightarrow> Some (Inl (Wrapf ''failed to aggregate packages: %w'' [] e))
      | Inr s5 \<Rightarrow> Some (Inr (d4, s5\<lparr>SBOM_Applications := sort_applications env (SBOM_Applications s5), SBOM_BOM := Some (Dec_bom d4)\<rparr>)))"
      using ds1_eq r(1) Inr d3 d4 r'(2) by (simp add: Decode_def ds1 ds2 split: sum.splits)
    then show ?thesis using r'(1,3) sort_applications_packages [OF assms(1)] by (cases r') auto
  qed
qed

section \<open>Examples\<close>

text \<open>The BOM that the encoder makes of the example report, decoded.\<close>

definition example_decode_env :: decode_env where
  "example_decode_env = sbom_env.extend (core_env example_encode_env)
     \<lparr>range_components = rev, range_relationships = (\<lambda>xs. xs), range_packages = rev,
      range_applications = (\<lambda>xs. xs), range_types = (\<lambda>xs. xs), sort_orphans = sort_stable_func (less_cmp Packages_Less),
      sort_applications = sort_stable_func (less_cmp decoded_app_Less), image_reference = Inr, rpm_Epoch = (\<lambda>_. 0),
      deb_NewVersion = (\<lambda>s. case cut s CHR ''-'' of (v, r, _) \<Rightarrow> Inr (0, v, r))\<rparr>"

lemma example_decode_env_ok: "decode_env_ok example_decode_env"
  by (simp add: decode_env_ok_def example_decode_env_def sbom_env.defs stable.sorter_axioms)

definition example_cycle :: BOM where
  "example_cycle = (NewBOM (bomOpts example_encoder))\<lparr>BOM_relationships :=
     map (\<lambda>(a, b). (a, [\<lparr>SR_Dependency = b, SR_Type = RelationshipDependsOn\<rparr>])) [(9, 1), (1, 2), (2, 1), (3, 2)]\<rparr>"

definition example_held :: "(UUID \<times> Package) list" where
  "example_held = [(1, example_pkg ''a'' []), (2, example_pkg ''b'' []), (3, example_pkg ''c'' [])]"

theorem traverseDependencies_spec_witness:
  "traverseDependencies example_cycle 9 example_held = ([example_pkg ''a'' [], example_pkg ''b'' []], [(3, example_pkg ''c'' [])]) \<and>
   [(3, example_pkg ''c'' [])] = filter (\<lambda>e. fst e \<notin> reached (BOM_relationships example_cycle) (fst ` set example_held)
       (SR_Dependency ` set (lookup_list (BOM_relationships example_cycle) 9))) example_held"
proof -
  have t: "traverseDependencies example_cycle 9 example_held = ([example_pkg ''a'' [], example_pkg ''b'' []], [(3, example_pkg ''c'' [])])"
    by code_simp
  have "map_ok example_held" by (simp add: map_ok_def example_held_def)
  from traverseDependencies_spec [OF this t] t show ?thesis by blast
qed

theorem Decode_packages_witness:
  "case Decode example_decode_env (NewDecoder example_bom) SBOM_empty of
     Some (Inr (d, s)) \<Rightarrow> length (sbom_packages s) = 2 \<and>
       mset (sbom_packages s) = mset (map snd (linked (BOM_relationships example_bom) (bom_packages example_decode_env (BOM_components (Dec_bom d)))))
   | _ \<Rightarrow> False"
proof -
  have "map_ok (BOM_components example_bom)" "map_ok (BOM_relationships example_bom)" unfolding map_ok_def by code_simp+
  note spec = Decode_packages [OF example_decode_env_ok this]
  have "case Decode example_decode_env (NewDecoder example_bom) SBOM_empty of
     Some (Inr (d, s)) \<Rightarrow> length (sbom_packages s) = 2 | _ \<Rightarrow> False" by code_simp
  then show ?thesis using spec by (auto split: option.splits sum.splits)
qed

text \<open>The result depends on the order in which Go ranges over the maps: of two operating systems, either may be taken, and a
  package that two applications contain is found in only one of them, which may be either.\<close>

definition example_two_os :: BOM where
  "example_two_os = (NewBOM (bomOpts example_encoder))\<lparr>BOM_components :=
     [(1, Component_empty\<lparr>Comp_id := 1, Comp_Type := core_TypeOS, Comp_Name := Debian, Comp_Version := ''12''\<rparr>),
      (2, Component_empty\<lparr>Comp_id := 2, Comp_Type := core_TypeOS, Comp_Name := Alpine, Comp_Version := ''3.20''\<rparr>)]\<rparr>"

definition decoded_family :: "decode_env \<Rightarrow> BOM \<Rightarrow> OSType option" where
  "decoded_family env b = (case Decode env (NewDecoder b) SBOM_empty of
     Some (Inr (_, s)) \<Rightarrow> map_option OS_Family (Meta_OS (SBOM_Metadata s)) | _ \<Rightarrow> None)"

lemma either_os_is_taken:
  "decoded_family example_decode_env example_two_os = Some Alpine"
  "decoded_family (example_decode_env\<lparr>range_components := (\<lambda>xs. xs)\<rparr>) example_two_os = Some Debian"
  by code_simp+

definition example_shared :: BOM where
  "example_shared = (NewBOM (bomOpts example_encoder))\<lparr>BOM_components :=
     [(1, Component_empty\<lparr>Comp_id := 1, Comp_Type := core_TypeApplication, Comp_Name := ''a'', Comp_Properties := [Prop PropertyType ''npm'']\<rparr>),
      (2, Component_empty\<lparr>Comp_id := 2, Comp_Type := core_TypeApplication, Comp_Name := ''b'', Comp_Properties := [Prop PropertyType ''npm'']\<rparr>),
      (3, Component_empty\<lparr>Comp_id := 3, Comp_Type := core_TypeLibrary, Comp_Name := ''qs'', Comp_PkgIdentifier := Pkg_Identifier (example_pkg ''qs'' [])\<rparr>)],
     BOM_relationships := map (\<lambda>(a, b). (a, [\<lparr>SR_Dependency = b, SR_Type = RelationshipContains\<rparr>])) [(1, 3), (2, 3)]\<rparr>"

definition decoded_apps :: "decode_env \<Rightarrow> BOM \<Rightarrow> (string \<times> string list) list" where
  "decoded_apps env b = (case Decode env (NewDecoder b) SBOM_empty of
     Some (Inr (_, s)) \<Rightarrow> map (\<lambda>a. (App_FilePath a, map Pkg_Name (App_Packages a))) (SBOM_Applications s) | _ \<Rightarrow> [])"

lemma shared_package_in_one_application:
  "decoded_apps example_decode_env example_shared = [(''a'', []), (''b'', [''qs''])]"
  "decoded_apps (example_decode_env\<lparr>range_applications := rev\<rparr>) example_shared = [(''a'', [''qs'']), (''b'', [])]"
  by code_simp+

section \<open>Packages that the encoder wrote\<close>

text \<open>Each field that comes from a property has the value of the last property of that name.\<close>

definition values_of :: "string \<Rightarrow> Property list \<Rightarrow> string list" where
  "values_of name props = map Prop_Value (filter (\<lambda>pr. Prop_Name pr = name) props)"

definition last_value :: "string \<Rightarrow> string \<Rightarrow> Property list \<Rightarrow> string" where
  "last_value name dflt props = (case values_of name props of [] \<Rightarrow> dflt | vs \<Rightarrow> last vs)"

lemma values_of_simps [simp]:
  "values_of name [] = []"
  "values_of name (pr # props) = (if Prop_Name pr = name then [Prop_Value pr] else []) @ values_of name props"
  by (simp_all add: values_of_def)

lemma last_value_simps [simp]:
  "last_value name dflt [] = dflt"
  "last_value name dflt (pr # props) = last_value name (if Prop_Name pr = name then Prop_Value pr else dflt) props"
  by (simp_all add: last_value_def split: list.splits)

definition filled :: "Property list \<Rightarrow> Package \<times> BuildInfo \<Rightarrow> Package \<times> BuildInfo \<Rightarrow> bool" where
  "filled props a b \<longleftrightarrow>
     Pkg_ID (fst b) = last_value PropertyPkgID (Pkg_ID (fst a)) props \<and>
     Pkg_FilePath (fst b) = last_value PropertyFilePath (Pkg_FilePath (fst a)) props \<and>
     Pkg_SrcName (fst b) = last_value PropertySrcName (Pkg_SrcName (fst a)) props \<and>
     Pkg_SrcVersion (fst b) = last_value PropertySrcVersion (Pkg_SrcVersion (fst a)) props \<and>
     Pkg_SrcRelease (fst b) = last_value PropertySrcRelease (Pkg_SrcRelease (fst a)) props \<and>
     Pkg_Modularitylabel (fst b) = last_value PropertyModularitylabel (Pkg_Modularitylabel (fst a)) props \<and>
     Layer_Digest (Pkg_Layer (fst b)) = last_value PropertyLayerDigest (Layer_Digest (Pkg_Layer (fst a))) props \<and>
     Layer_DiffID (Pkg_Layer (fst b)) = last_value PropertyLayerDiffID (Layer_DiffID (Pkg_Layer (fst a))) props \<and>
     Nvr (snd b) = last_value PropertyNVR (Nvr (snd a)) props \<and>
     Build_Arch (snd b) = last_value PropertyArch (Build_Arch (snd a)) props \<and>
     ContentSets (snd b) = ContentSets (snd a) @ values_of PropertyContentSet props \<and>
     Pkg_SrcEpoch (fst b) = (case values_of PropertySrcEpoch props of [] \<Rightarrow> Pkg_SrcEpoch (fst a) | vs \<Rightarrow> the (atoi (last vs))) \<and>
     Pkg_Name (fst b) = Pkg_Name (fst a) \<and> Pkg_Version (fst b) = Pkg_Version (fst a) \<and> Pkg_Release (fst b) = Pkg_Release (fst a) \<and>
     Pkg_Epoch (fst b) = Pkg_Epoch (fst a) \<and> Pkg_Arch (fst b) = Pkg_Arch (fst a) \<and> Pkg_Digest (fst b) = Pkg_Digest (fst a) \<and>
     Pkg_BuildInfo (fst b) = Pkg_BuildInfo (fst a) \<and> Pkg_Identifier (fst b) = Pkg_Identifier (fst a)"

lemma filled_Nil [simp]: "filled [] a a"
  by (simp add: filled_def)

lemma filled_trans: "filled [pr] a b \<Longrightarrow> filled props b c \<Longrightarrow> filled (pr # props) a c"
  unfolding filled_def by (auto split: list.splits)

lemma fill_property_filled:
  assumes "fill_property pr a = Inr b"
  shows "filled [pr] a b"
proof -
  obtain pkg bi where a: "a = (pkg, bi)" by (cases a)
  show ?thesis
    using assms unfolding a filled_def fill_property_def fillAlireRelationship_def Let_def
    by (auto split: if_splits option.splits sum.splits)
qed

lemma fill_properties_filled: "fill_properties props a = Inr b \<Longrightarrow> filled props a b"
proof (induction props arbitrary: a)
  case (Cons pr props)
  then obtain c where "fill_property pr a = Inr c" "fill_properties props c = Inr b" by auto
  then show ?case using Cons.IH filled_trans [OF fill_property_filled] by blast
qed simp

text \<open>The properties are accepted if the numbers and relationships among them can be read.\<close>

definition readable :: "Property \<Rightarrow> bool" where
  "readable pr \<longleftrightarrow> (Prop_Name pr = PropertySrcEpoch \<longrightarrow> atoi (Prop_Value pr) \<noteq> None) \<and>
     (Prop_Name pr = PropertyPkgRelationship \<longrightarrow> is_ok (NewRelationship (Prop_Value pr)))"

lemma fill_properties_ok: "list_all readable props \<Longrightarrow> \<exists>b. fill_properties props a = Inr b"
proof (induction props arbitrary: a)
  case (Cons pr props)
  obtain pkg bi where a: "a = (pkg, bi)" by (cases a)
  have "\<exists>b. fill_property pr a = Inr b"
    using Cons.prems unfolding a
    by (auto simp: fill_property_def readable_def fillAlireRelationship_def is_ok_iff Let_def split: option.splits sum.splits)
  then show ?case using Cons by auto
qed simp

lemma values_of_perm:
  assumes "mset props' = mset props"
  shows "mset (values_of name props') = mset (values_of name props)"
    and "length (values_of name props) \<le> 1 \<Longrightarrow> values_of name props' = values_of name props"
proof -
  show m: "mset (values_of name props') = mset (values_of name props)"
    using assms by (simp add: values_of_def mset_filter)
  assume "length (values_of name props) \<le> 1"
  then consider "values_of name props = []" | x where "values_of name props = [x]" by (cases "values_of name props") auto
  then show "values_of name props' = values_of name props" using m by cases simp_all
qed

text \<open>The values that the encoder writes.\<close>

abbreviation encoded :: "Result \<Rightarrow> Package \<Rightarrow> Property list" where
  "encoded result pkg \<equiv> filterProperties (component_properties result pkg)"

lemma values_of_append [simp]: "values_of name (xs @ ys) = values_of name xs @ values_of name ys"
  by (simp add: values_of_def)

lemma values_of_filterProperties:
  "values_of name (filterProperties props) =
     filter (\<lambda>v. v \<noteq> [] \<and> (name \<noteq> PropertySrcEpoch \<or> v \<noteq> ''0'')) (values_of name props)"
  by (induction props) (auto simp: filterProperties_def)

lemma Prop_simps [simp]: "Prop_Name (Prop n v) = n" "Prop_Value (Prop n v) = v"
  by (simp_all add: Prop_def)

lemma values_of_map_Prop [simp]: "values_of name (map (Prop n) vs) = (if n = name then vs else [])"
  by (induction vs) simp_all

abbreviation opt_value :: "string \<Rightarrow> string list" where
  "opt_value v \<equiv> (if v = [] then [] else [v])"

lemma encoded_values:
  "values_of PropertyPkgID (encoded result pkg) = opt_value (Pkg_ID pkg)"
  "values_of PropertyFilePath (encoded result pkg) = opt_value (Pkg_FilePath pkg)"
  "values_of PropertySrcName (encoded result pkg) = opt_value (Pkg_SrcName pkg)"
  "values_of PropertySrcVersion (encoded result pkg) = opt_value (Pkg_SrcVersion pkg)"
  "values_of PropertySrcRelease (encoded result pkg) = opt_value (Pkg_SrcRelease pkg)"
  "values_of PropertyModularitylabel (encoded result pkg) = opt_value (Pkg_Modularitylabel pkg)"
  "values_of PropertyLayerDigest (encoded result pkg) = opt_value (Layer_Digest (Pkg_Layer pkg))"
  "values_of PropertyLayerDiffID (encoded result pkg) = opt_value (Layer_DiffID (Pkg_Layer pkg))"
  "values_of PropertySrcEpoch (encoded result pkg) = (if itoa (Pkg_SrcEpoch pkg) = ''0'' then [] else [itoa (Pkg_SrcEpoch pkg)])"
  "values_of PropertyNVR (encoded result pkg) = (case Pkg_BuildInfo pkg of None \<Rightarrow> [] | Some bi \<Rightarrow> opt_value (Nvr bi))"
  "values_of PropertyArch (encoded result pkg) = (case Pkg_BuildInfo pkg of None \<Rightarrow> [] | Some bi \<Rightarrow> opt_value (Build_Arch bi))"
  "values_of PropertyContentSet (encoded result pkg) =
     (case Pkg_BuildInfo pkg of None \<Rightarrow> [] | Some bi \<Rightarrow> filter (\<lambda>v. v \<noteq> []) (ContentSets bi))"
  "values_of PropertyPkgRelationship (encoded result pkg) =
     (if Res_Type result = ''alire'' \<and> Pkg_Relationship pkg \<noteq> RelationshipUnknown
      then opt_value (Relationship_String (Pkg_Relationship pkg)) else [])"
  unfolding values_of_filterProperties component_properties_def by (simp_all split: option.split)

lemma readable_iff:
  "list_all readable props \<longleftrightarrow> list_all (\<lambda>v. atoi v \<noteq> None) (values_of PropertySrcEpoch props) \<and>
     list_all (\<lambda>v. is_ok (NewRelationship v)) (values_of PropertyPkgRelationship props)"
  by (induction props) (auto simp: readable_def)

lemma encoded_readable:
  assumes "0 \<le> Pkg_SrcEpoch pkg" "Pkg_SrcEpoch pkg \<le> max_int"
  shows "list_all readable (encoded result pkg)"
proof -
  have "is_ok (NewRelationship (Relationship_String r))" for r
    using relationship_roundtrip [of r] by simp
  then show ?thesis
    using atoi_itoa [OF assms] by (simp add: readable_iff encoded_values)
qed

text \<open>
  Versions. The parts of a version that the version rules of RPM and Debian allow: the version of an RPM package has neither
  colon nor hyphen and its release no colon; a Debian version starts with a digit, both parts are made of letters, digits and a
  few other characters, and a version without a revision has no hyphen. The parsers of \<open>go-rpm-version\<close> and
  \<open>go-deb-version\<close> read such a version back from its text: the epoch before the colon, and the rest split at its first and
  its last hyphen.
\<close>

definition rpm_parts :: "string \<Rightarrow> string \<Rightarrow> bool" where
  "rpm_parts v r \<longleftrightarrow> v \<noteq> [] \<and> CHR '':'' \<notin> set v \<and> CHR ''-'' \<notin> set v \<and> CHR '':'' \<notin> set r"

definition deb_char :: "char \<Rightarrow> bool" where
  "deb_char c \<longleftrightarrow> is_digit c \<or> CHR ''A'' \<le> c \<and> c \<le> CHR ''Z'' \<or> CHR ''a'' \<le> c \<and> c \<le> CHR ''z'' \<or> c \<in> set ''.+~''"

definition deb_parts :: "string \<Rightarrow> string \<Rightarrow> bool" where
  "deb_parts v r \<longleftrightarrow> v \<noteq> [] \<and> is_digit (hd v) \<and> list_all (\<lambda>c. deb_char c \<or> c = CHR ''-'' \<and> r \<noteq> []) v \<and> list_all deb_char r"

definition version_parsers_ok :: "decode_env \<Rightarrow> bool" where
  "version_parsers_ok env \<longleftrightarrow> (\<forall>e v r. 0 \<le> e \<and> e \<le> max_int \<longrightarrow>
     (rpm_parts v r \<longrightarrow> rpm_Epoch env (formatVersion e v r) = e \<and>
        rpm_version_release (sbom_purl env) (formatVersion e v r) = (v, r)) \<and>
     (deb_parts v r \<longrightarrow> deb_NewVersion env (formatVersion e v r) = Inr (e, v, r)))"

text \<open>The packages that survive: the package has an identifier; the epochs fit Go's integers; build information is not blank;
  the source package of an OS package is known; and the versions of RPM and Debian packages are well formed.\<close>

definition package_wf :: "string \<Rightarrow> ResultClass \<Rightarrow> Package \<Rightarrow> bool" where
  "package_wf ptype class pkg \<longleftrightarrow>
     Pkg_ID pkg \<noteq> [] \<and> 0 \<le> Pkg_Epoch pkg \<and> Pkg_Epoch pkg \<le> max_int \<and> 0 \<le> Pkg_SrcEpoch pkg \<and> Pkg_SrcEpoch pkg \<le> max_int \<and>
     (case Pkg_BuildInfo pkg of None \<Rightarrow> True | Some bi \<Rightarrow> (ContentSets bi \<noteq> [] \<or> Nvr bi \<noteq> []) \<and> [] \<notin> set (ContentSets bi)) \<and>
     (class = ClassOSPkg \<longrightarrow> Pkg_SrcName pkg \<noteq> [] \<and> Pkg_SrcVersion pkg \<noteq> []) \<and>
     (ptype = ''rpm'' \<longrightarrow> rpm_parts (Pkg_Version pkg) (Pkg_Release pkg) \<and> rpm_parts (Pkg_SrcVersion pkg) (Pkg_SrcRelease pkg)) \<and>
     (ptype = ''deb'' \<longrightarrow> deb_parts (Pkg_SrcVersion pkg) (Pkg_SrcRelease pkg))"

text \<open>What the decoder reads of such a package from its URL and its source version.\<close>

definition read_back :: "decode_env \<Rightarrow> PackageURL \<Rightarrow> Package \<Rightarrow> bool" where
  "read_back env p pkg \<longleftrightarrow>
     Id_PURL (Pkg_Identifier pkg) = Some p \<and> purl_Class p \<noteq> ClassUnknown \<and>
     (PURL_Type p \<in> {''cocoapods'', ''maven'', ''gradle'', ''bitnami'', ''npm''} \<longrightarrow> purl_pkg_name p = Pkg_Name pkg) \<and>
     (let u = purl_Package (sbom_purl env) p in
        FormatVersion u = FormatVersion pkg \<and> Pkg_Epoch u = Pkg_Epoch pkg \<and> Pkg_Arch u = Pkg_Arch pkg \<and>
        (Pkg_Modularitylabel pkg = [] \<longrightarrow> Pkg_Modularitylabel u = [])) \<and>
     (PURL_Type p = ''rpm'' \<longrightarrow> rpm_Epoch env (FormatSrcVersion pkg) = Pkg_SrcEpoch pkg \<and>
        rpm_version_release (sbom_purl env) (FormatSrcVersion pkg) = (Pkg_SrcVersion pkg, Pkg_SrcRelease pkg)) \<and>
     (PURL_Type p = ''deb'' \<longrightarrow>
        deb_NewVersion env (FormatSrcVersion pkg) = Inr (Pkg_SrcEpoch pkg, Pkg_SrcVersion pkg, Pkg_SrcRelease pkg))"

lemma fold_qualifier_label:
  "''modularitylabel'' \<notin> fst ` set qs \<Longrightarrow> Pkg_Modularitylabel (fold apply_qualifier qs pkg) = Pkg_Modularitylabel pkg"
proof (induction qs arbitrary: pkg)
  case (Cons q qs)
  then have "fst q \<noteq> ''modularitylabel''" by auto
  then have "Pkg_Modularitylabel (apply_qualifier q pkg) = Pkg_Modularitylabel pkg"
    by (simp add: apply_qualifier_def split: option.splits)
  then show ?case using Cons by simp
qed simp

lemma new_parts_label:
  "new_parts env t ptype os pkg = Some (ns, base, sub, qs) \<Longrightarrow> Pkg_Modularitylabel pkg = [] \<Longrightarrow> ''modularitylabel'' \<notin> fst ` set qs"
  by (auto simp: new_parts_def Let_def parseRPM_def parseDeb_def parseApk_def parseJulia_def
      split: if_splits prod.splits option.splits)

lemma New_read_back:
  assumes "purl_env_ok (sbom_purl env)" "version_parsers_ok env" "New (sbom_purl env) t metadata pkg = Some (Inr (Some p))"
    and "purlType t \<noteq> ''oci''" "Id_PURL (Pkg_Identifier pkg) = Some p" "purl_Class p \<noteq> ClassUnknown"
    and "package_wf (PURL_Type p) (purl_Class p) pkg"
    and "PURL_Type p \<in> {''cocoapods'', ''maven'', ''gradle'', ''npm''} \<longrightarrow> name_stable (sbom_purl env) (PURL_Type p) (Pkg_Name pkg)"
  shows "read_back env p pkg"
proof -
  let ?env = "sbom_purl env" and ?t = "purlType t" and ?pkg = "pkg\<lparr>Pkg_Epoch := 0\<rparr>"
  obtain ns base sub qs where parts: "new_parts ?env t ?t (Meta_OS metadata) ?pkg = Some (ns, base, sub, qs)"
    and go: "?t = ''golang'' \<Longrightarrow> base \<noteq> []"
    and p: "p = NewPackageURL ?env ?t ns base (FormatVersion ?pkg) (parseQualifier pkg @ qs) sub"
    using assms(3,4) by (auto simp: New_def Let_def split: option.splits if_splits prod.splits)
  have fields: "PURL_Type p = ?t" "PURL_Namespace p = ns" "PURL_Name p = base" "PURL_Subpath p = sub"
    "PURL_Version p = FormatVersion ?pkg" "PURL_Qualifiers p = parseQualifier pkg @ qs"
    using assms(1) by (simp_all add: p purl_env_ok_def)
  have wf: "0 \<le> Pkg_Epoch pkg" "Pkg_Epoch pkg \<le> max_int" "0 \<le> Pkg_SrcEpoch pkg" "Pkg_SrcEpoch pkg \<le> max_int"
    "?t = ''rpm'' \<Longrightarrow> rpm_parts (Pkg_Version pkg) (Pkg_Release pkg)"
    "?t = ''rpm'' \<Longrightarrow> rpm_parts (Pkg_SrcVersion pkg) (Pkg_SrcRelease pkg)"
    "?t = ''deb'' \<Longrightarrow> deb_parts (Pkg_SrcVersion pkg) (Pkg_SrcRelease pkg)"
    using assms(7) by (simp_all add: package_wf_def fields(1))
  have rpm: "rpm_parts v r \<Longrightarrow> 0 \<le> e \<Longrightarrow> e \<le> max_int \<Longrightarrow> rpm_Epoch env (formatVersion e v r) = e \<and>
      rpm_version_release ?env (formatVersion e v r) = (v, r)"
    and deb: "deb_parts v r \<Longrightarrow> 0 \<le> e \<Longrightarrow> e \<le> max_int \<Longrightarrow> deb_NewVersion env (formatVersion e v r) = Inr (e, v, r)" for e v r
    using assms(2) by (simp_all add: version_parsers_ok_def)
  have name: "purl_pkg_name p = Pkg_Name pkg" if "?t \<in> {''cocoapods'', ''maven'', ''gradle'', ''bitnami'', ''npm''}"
  proof -
    have "name_stable ?env ?t (Pkg_Name pkg)" using that assms(8) by (auto simp: fields(1) name_stable_def)
    then show ?thesis using new_parts_name [OF parts] go fields by simp
  qed
  have arch: "Pkg_Arch (purl_Package ?env p) = Pkg_Arch pkg" "Pkg_Epoch (purl_Package ?env p) = Pkg_Epoch pkg"
    using fold_parseQualifier [OF wf(1,2)] fold_qualifier_other [OF new_parts_qualifiers [OF parts]]
    by (simp_all add: purl_Package_def Let_def fields Package_empty_def)
  have "rpm_version_release ?env (FormatVersion ?pkg) = (Pkg_Version pkg, Pkg_Release pkg)" if "?t = ''rpm''"
    using rpm [OF wf(5) [OF that], of 0] by (simp add: FormatVersion_def max_int_def)
  then have "Pkg_Version (purl_Package ?env p) = (if ?t = ''rpm'' then Pkg_Version pkg else FormatVersion ?pkg)"
    "Pkg_Release (purl_Package ?env p) = (if ?t = ''rpm'' then Pkg_Release pkg else [])"
    by (simp_all add: purl_Package_def Let_def fields Package_empty_def)
  then have ver: "FormatVersion (purl_Package ?env p) = FormatVersion pkg"
    using arch(2) by (simp add: FormatVersion_def formatVersion_def Let_def)
  have label: "Pkg_Modularitylabel pkg = [] \<longrightarrow> Pkg_Modularitylabel (purl_Package ?env p) = []"
  proof
    assume "Pkg_Modularitylabel pkg = []"
    then have "''modularitylabel'' \<notin> fst ` set (parseQualifier pkg @ qs)"
      using new_parts_label [OF parts] by (auto simp: parseQualifier_def)
    then show "Pkg_Modularitylabel (purl_Package ?env p) = []"
      using fold_qualifier_label [of "parseQualifier pkg @ qs"] by (simp add: purl_Package_def Let_def fields Package_empty_def)
  qed
  show ?thesis
    unfolding read_back_def Let_def FormatSrcVersion_def
    using assms(5,6) name ver arch label rpm [OF wf(6) wf(3,4)] deb [OF wf(7) wf(3,4)] by (simp add: fields(1))
qed

definition same_build :: "BuildInfo option \<Rightarrow> BuildInfo option \<Rightarrow> bool" where
  "same_build x y = (case (x, y) of
     (None, None) \<Rightarrow> True
   | (Some a, Some b) \<Rightarrow> mset (ContentSets a) = mset (ContentSets b) \<and> Nvr a = Nvr b \<and> Build_Arch a = Build_Arch b
   | _ \<Rightarrow> False)"

definition restored :: "Package \<Rightarrow> Package \<Rightarrow> bool" where
  "restored pkg q \<longleftrightarrow>
     Pkg_ID q = Pkg_ID pkg \<and> Pkg_Name q = Pkg_Name pkg \<and> FormatVersion q = FormatVersion pkg \<and>
     Pkg_Epoch q = Pkg_Epoch pkg \<and> Pkg_Arch q = Pkg_Arch pkg \<and>
     Pkg_SrcName q = Pkg_SrcName pkg \<and> Pkg_SrcVersion q = Pkg_SrcVersion pkg \<and> Pkg_SrcRelease q = Pkg_SrcRelease pkg \<and>
     Pkg_SrcEpoch q = Pkg_SrcEpoch pkg \<and> Pkg_Licenses q = Pkg_Licenses pkg \<and> Pkg_Modularitylabel q = Pkg_Modularitylabel pkg \<and>
     Layer_Digest (Pkg_Layer q) = Layer_Digest (Pkg_Layer pkg) \<and> Layer_DiffID (Pkg_Layer q) = Layer_DiffID (Pkg_Layer pkg) \<and>
     Pkg_FilePath q = Pkg_FilePath pkg \<and> Pkg_Digest q = Pkg_Digest pkg \<and> same_build (Pkg_BuildInfo pkg) (Pkg_BuildInfo q) \<and>
     Id_PURL (Pkg_Identifier q) = Id_PURL (Pkg_Identifier pkg) \<and> Id_BOMRef (Pkg_Identifier q) = Id_BOMRef (Pkg_Identifier pkg)"

text \<open>The package of a package URL has none of the fields that come from the properties, but perhaps a modularity label.\<close>

definition blank :: "Package \<Rightarrow> bool" where
  "blank pkg \<longleftrightarrow> Pkg_SrcName pkg = [] \<and> Pkg_SrcVersion pkg = [] \<and> Pkg_SrcRelease pkg = [] \<and> Pkg_SrcEpoch pkg = 0 \<and>
     Pkg_BuildInfo pkg = None \<and> Pkg_Layer pkg = Layer_empty \<and> Pkg_FilePath pkg = [] \<and> Pkg_Digest pkg = []"

lemma blank_fold: "blank pkg \<Longrightarrow> blank (fold apply_qualifier qs pkg)"
proof (induction qs arbitrary: pkg)
  case (Cons q qs)
  have "blank (apply_qualifier q pkg)" using Cons.prems by (simp add: blank_def apply_qualifier_def split: option.splits)
  then show ?case using Cons.IH by simp
qed simp

lemma blank_version: "blank (pkg\<lparr>Pkg_Release := r, Pkg_Version := v\<rparr>) = blank pkg"
  by (simp add: blank_def)

lemma blank_purl_Package: "blank (purl_Package env p)"
proof -
  have "blank (Package_empty\<lparr>Pkg_ID := i, Pkg_Name := n, Pkg_Version := v, Pkg_Identifier := x\<rparr>)"
    "blank (Package_empty\<lparr>Pkg_ID := i, Pkg_Name := n, Pkg_Version := v, Pkg_Identifier := x, Pkg_ID := i'\<rparr>)" for i n v x i'
    by (simp_all add: blank_def Package_empty_def)
  then show ?thesis unfolding purl_Package_def Let_def by (simp only: blank_version blank_fold split: if_split) simp
qed

lemma last_value_values: "values_of name props = opt_value v \<Longrightarrow> last_value name dflt props = (if v = [] then dflt else v)"
  by (simp add: last_value_def)

lemma itoa_zero: "0 \<le> e \<Longrightarrow> itoa e = ''0'' \<longleftrightarrow> e = 0"
proof -
  have "itoa 0 = ''0''" by code_simp
  then show "0 \<le> e \<Longrightarrow> itoa e = ''0'' \<longleftrightarrow> e = 0" using itoa_inj_nonneg [of e 0] by simp
qed

lemma stored_values:
  assumes "mset props = mset (encoded result pkg)" "0 \<le> Pkg_SrcEpoch pkg"
  shows "values_of PropertyPkgID props = opt_value (Pkg_ID pkg)"
    "values_of PropertyFilePath props = opt_value (Pkg_FilePath pkg)"
    "values_of PropertySrcName props = opt_value (Pkg_SrcName pkg)"
    "values_of PropertySrcVersion props = opt_value (Pkg_SrcVersion pkg)"
    "values_of PropertySrcRelease props = opt_value (Pkg_SrcRelease pkg)"
    "values_of PropertyModularitylabel props = opt_value (Pkg_Modularitylabel pkg)"
    "values_of PropertyLayerDigest props = opt_value (Layer_Digest (Pkg_Layer pkg))"
    "values_of PropertyLayerDiffID props = opt_value (Layer_DiffID (Pkg_Layer pkg))"
    "values_of PropertySrcEpoch props = (if Pkg_SrcEpoch pkg = 0 then [] else [itoa (Pkg_SrcEpoch pkg)])"
    "values_of PropertyNVR props = opt_value (case Pkg_BuildInfo pkg of None \<Rightarrow> [] | Some bi \<Rightarrow> Nvr bi)"
    "values_of PropertyArch props = opt_value (case Pkg_BuildInfo pkg of None \<Rightarrow> [] | Some bi \<Rightarrow> Build_Arch bi)"
  by (subst values_of_perm(2) [OF assms(1)]; simp add: encoded_values itoa_zero [OF assms(2)] split: option.split)+

text \<open>The properties of an encoded package restore the fields, in whatever order they are stored.\<close>

definition props_restored :: "Package \<Rightarrow> Package \<Rightarrow> Package \<Rightarrow> bool" where
  "props_restored pkg u q \<longleftrightarrow>
     Pkg_ID q = Pkg_ID pkg \<and> Pkg_SrcName q = Pkg_SrcName pkg \<and> Pkg_SrcVersion q = Pkg_SrcVersion pkg \<and>
     Pkg_SrcRelease q = Pkg_SrcRelease pkg \<and> Pkg_SrcEpoch q = Pkg_SrcEpoch pkg \<and> Pkg_Modularitylabel q = Pkg_Modularitylabel pkg \<and>
     Layer_Digest (Pkg_Layer q) = Layer_Digest (Pkg_Layer pkg) \<and> Layer_DiffID (Pkg_Layer q) = Layer_DiffID (Pkg_Layer pkg) \<and>
     Pkg_FilePath q = Pkg_FilePath pkg \<and> Pkg_Digest q = [] \<and> same_build (Pkg_BuildInfo pkg) (Pkg_BuildInfo q) \<and>
     Pkg_Name q = Pkg_Name u \<and> Pkg_Version q = Pkg_Version u \<and> Pkg_Release q = Pkg_Release u \<and> Pkg_Epoch q = Pkg_Epoch u \<and>
     Pkg_Arch q = Pkg_Arch u \<and> Pkg_Identifier q = Pkg_Identifier u"

lemma fillPkg_encoded:
  assumes "mset props = mset (encoded result pkg)" "package_wf ptype class pkg" "blank u"
    and "Pkg_Modularitylabel pkg = [] \<longrightarrow> Pkg_Modularitylabel u = []"
  shows "\<exists>q. fillPkgFieldsFromComponentProps props u = Inr q \<and> props_restored pkg u q"
proof -
  let ?bi = "\<lparr>ContentSets = [], Nvr = [], Build_Arch = []\<rparr>"
  have epoch: "0 \<le> Pkg_SrcEpoch pkg" "Pkg_SrcEpoch pkg \<le> max_int" and id: "Pkg_ID pkg \<noteq> []"
    and build: "case Pkg_BuildInfo pkg of None \<Rightarrow> True | Some bi \<Rightarrow> (ContentSets bi \<noteq> [] \<or> Nvr bi \<noteq> []) \<and> [] \<notin> set (ContentSets bi)"
    using assms(2) by (simp_all add: package_wf_def)
  have "list_all readable props"
    using encoded_readable [OF epoch, of result] mset_eq_setD [OF assms(1)] by (simp add: list_all_iff)
  then obtain q bi where fill: "fill_properties props (u, ?bi) = Inr (q, bi)" using fill_properties_ok by (metis surj_pair)
  note F = fill_properties_filled [OF fill, unfolded filled_def, simplified]
  note vals = stored_values [OF assms(1) epoch(1)]
  note lasts = vals(1-8,10,11) [THEN last_value_values]
  have "mset (values_of PropertyContentSet props) = mset (case Pkg_BuildInfo pkg of None \<Rightarrow> [] | Some bi \<Rightarrow> filter (\<lambda>v. v \<noteq> []) (ContentSets bi))"
    using values_of_perm(1) [OF assms(1), of PropertyContentSet] by (simp only: encoded_values)
  then have content: "mset (ContentSets bi) = mset (case Pkg_BuildInfo pkg of None \<Rightarrow> [] | Some bi \<Rightarrow> ContentSets bi)"
    using F build by (auto split: option.splits intro!: filter_mset_eq_conv [THEN iffD2])
  have same: "same_build (Pkg_BuildInfo pkg) (if ContentSets bi \<noteq> [] \<or> Nvr bi \<noteq> [] then Some bi else None)"
    using content F build by (auto simp: same_build_def lasts split: option.splits)
  let ?q = "if ContentSets bi \<noteq> [] \<or> Nvr bi \<noteq> [] then q\<lparr>Pkg_BuildInfo := Some bi\<rparr> else q"
  have "Pkg_BuildInfo ?q = (if ContentSets bi \<noteq> [] \<or> Nvr bi \<noteq> [] then Some bi else None)"
    using F assms(3) by (simp add: blank_def)
  then have "props_restored pkg u ?q"
    using F id assms(3,4) same atoi_itoa [OF epoch] by (simp add: props_restored_def lasts vals(9) blank_def Layer_empty_def)
  moreover have "fillPkgFieldsFromComponentProps props u = Inr ?q" using fill by (simp add: fillPkgFieldsFromComponentProps_def)
  ultimately show ?thesis by blast
qed

lemma AddComponent_fields:
  "\<exists>k. snd (AddComponent env st c) = c\<lparr>Comp_id := k, Comp_Properties := sort_properties env (Comp_Properties c)\<rparr>"
proof -
  obtain b n where st: "st = (b, n)" by (cases st)
  show ?thesis
  proof (cases "Comp_id c = uuid_Nil")
    case True
    then show ?thesis by (auto simp: AddComponent_def setupComponent_def st Let_def split: prod.splits option.splits)
  next
    case False
    then show ?thesis
      by (auto simp: AddComponent_def setupComponent_def st Let_def split: prod.splits option.splits intro!: exI [of _ "Comp_id c"])
  qed
qed

lemma decoder_pkgName_encoded:
  assumes "read_back env p pkg"
  shows "decoder_pkgName (purl_Package penv p) ((Encoder_component result pkg)\<lparr>Comp_id := k, Comp_Properties := props\<rparr>) p = Pkg_Name pkg"
proof -
  have u: "Pkg_Name (purl_Package penv p) = purl_pkg_name p"
    by (simp add: purl_Package_def Let_def)
  have npm: "purl_pkg_name p = (if PURL_Namespace p \<noteq> [] then PURL_Namespace p @ ''/'' @ PURL_Name p else PURL_Name p)"
    if "PURL_Type p = ''npm''"
    using that by (simp add: purl_pkg_name_def purl_Class_def purl_LangType_def)
  have p: "Id_PURL (Pkg_Identifier pkg) = Some p"
    "PURL_Type p \<in> {''cocoapods'', ''maven'', ''gradle'', ''bitnami'', ''npm''} \<Longrightarrow> purl_pkg_name p = Pkg_Name pkg"
    using assms unfolding read_back_def by blast+
  have c: "Comp_Name (Encoder_component result pkg) = (if PURL_Type p = ''maven'' \<or> PURL_Type p = ''npm'' then PURL_Name p else Pkg_Name pkg)"
    "Comp_Group (Encoder_component result pkg) = (if PURL_Type p = ''maven'' \<or> PURL_Type p = ''npm'' then PURL_Namespace p else [])"
    using p(1) by (simp_all add: Encoder_component_def Let_def Component_empty_def)
  show ?thesis
  proof (cases "PURL_Type p = ''npm''")
    case True
    then show ?thesis using p(2) npm by (auto simp: decoder_pkgName_def c split: if_splits)
  next
    case False
    then show ?thesis using p(2) u by (simp add: decoder_pkgName_def c)
  qed
qed

lemma decodePackage_filled:
  assumes "Id_PURL (Comp_PkgIdentifier c) = Some p" "purl_Class p \<noteq> ClassUnknown"
    and "decoder_pkgName (purl_Package (sbom_purl env) p) c p = name" "u = (purl_Package (sbom_purl env) p)\<lparr>Pkg_Name := name\<rparr>"
    and "fillPkgFieldsFromComponentProps (Comp_Properties c)
      (if purl_LangType p \<noteq> ''alire'' then u\<lparr>Pkg_ID := dependency_ID (purl_LangType p) name (PURL_Version p)\<rparr> else u) = Inr q"
    and "fold fill_file (Comp_Files c) (q\<lparr>Pkg_Identifier := (Pkg_Identifier q)\<lparr>Id_BOMRef := Id_BOMRef (Comp_PkgIdentifier c)\<rparr>,
      Pkg_Licenses := Comp_Licenses c\<rparr>) = q'"
  shows "decodePackage env c = (if purl_Class p = ClassOSPkg then map_option Inr (fillSrcPkg env c q') else Some (Inr q'))"
  using assms(1,2,5,6) unfolding assms(4)
  by (cases "purl_LangType p = ''alire''") (simp_all add: decodePackage_def assms(3) Let_def)

text \<open>The files and the source package.\<close>

lemma fill_encoded_files:
  assumes "Pkg_FilePath q = Pkg_FilePath pkg" "Pkg_Digest q = []"
  shows "fold fill_file (Comp_Files (Encoder_component result pkg)) q = q\<lparr>Pkg_Digest := Pkg_Digest pkg\<rparr>"
  using assms by (auto simp: Encoder_component_def Component_empty_def Let_def fill_file_def split: prod.splits option.splits)

lemma fillSrcPkg_encoded:
  assumes "read_back env p pkg" "package_wf ptype ClassOSPkg pkg" "Id_PURL (Pkg_Identifier q) = Some p"
    and "Pkg_SrcName q = Pkg_SrcName pkg" "Pkg_SrcVersion q = Pkg_SrcVersion pkg" "Pkg_SrcRelease q = Pkg_SrcRelease pkg"
      "Pkg_SrcEpoch q = Pkg_SrcEpoch pkg" "Comp_SrcVersion c = FormatSrcVersion pkg"
  shows "fillSrcPkg env c q = Some q"
proof -
  have "parseSrcVersion env q (FormatSrcVersion pkg) = Some q"
    using assms by (auto simp: parseSrcVersion_def read_back_def Let_def)
  then show ?thesis using assms by (simp add: fillSrcPkg_def package_wf_def Let_def)
qed

text \<open>C12. A package survives its way through an SBOM. Take a package whose URL the repository's \<open>purl.New\<close> has built from
  the package itself, of a type the decoder knows: a well-formed package, as \<open>package_wf\<close> has it, and, where the decoder takes
  the name from the URL (npm, Maven, Gradle and CocoaPods), with a name that the rules of its URL type leave alone. The component
  that the encoder makes of it and adds to a BOM is decoded to a package with the same identifier, name, full version, epoch,
  architecture, source package, licenses, modularity label, digests of the layer, file, digest, package URL and BOM reference,
  and the same build information up to the order of the content sets.\<close>

theorem decode_encoded_package:
  assumes "sorter (less_cmp Properties_Less) (sort_properties env)" "purl_env_ok (sbom_purl env)" "version_parsers_ok env"
    and "New (sbom_purl env) t metadata pkg = Some (Inr (Some p))" "purlType t \<noteq> ''oci''"
    and "Id_PURL (Pkg_Identifier pkg) = Some p" "purl_Class p \<noteq> ClassUnknown" "package_wf (PURL_Type p) (purl_Class p) pkg"
    and "PURL_Type p \<in> {''cocoapods'', ''maven'', ''gradle'', ''npm''} \<longrightarrow> name_stable (sbom_purl env) (PURL_Type p) (Pkg_Name pkg)"
  shows "\<exists>q. decodePackage env (snd (AddComponent (dec_core env) st (Encoder_component result pkg))) = Some (Inr q) \<and> restored pkg q"
proof -
  let ?enc = "Encoder_component result pkg"
  note rb = New_read_back [OF assms(2-9)]
  obtain k where c: "snd (AddComponent (dec_core env) st ?enc) =
      ?enc\<lparr>Comp_id := k, Comp_Properties := sort_properties env (Comp_Properties ?enc)\<rparr>"
    using AddComponent_fields [of "dec_core env" st ?enc] by (auto simp: sbom_env.defs)
  let ?c = "?enc\<lparr>Comp_id := k, Comp_Properties := sort_properties env (Comp_Properties ?enc)\<rparr>"
  have c0: "Comp_Properties ?enc = encoded result pkg" "Comp_PkgIdentifier ?enc = Pkg_Identifier pkg" "Comp_Licenses ?enc = Pkg_Licenses pkg"
    "Comp_SrcVersion ?enc = FormatSrcVersion pkg"
    by (simp_all add: Encoder_component_def Let_def split: prod.splits)
  note p = assms(6,7)
  let ?u = "purl_Package (sbom_purl env) p"
  let ?v = "?u\<lparr>Pkg_Name := Pkg_Name pkg\<rparr>"
  let ?w = "if purl_LangType p \<noteq> ''alire'' then ?v\<lparr>Pkg_ID := dependency_ID (purl_LangType p) (Pkg_Name pkg) (PURL_Version p)\<rparr> else ?v"
  have props: "mset (Comp_Properties ?c) = mset (encoded result pkg)"
    using sorter.sort_mset [OF assms(1)] by (simp add: c0)
  have w: "blank ?w" "Pkg_Modularitylabel pkg = [] \<longrightarrow> Pkg_Modularitylabel ?w = []"
    using blank_purl_Package [of "sbom_purl env" p] rb by (simp_all add: blank_def read_back_def Let_def)
  obtain q where q: "fillPkgFieldsFromComponentProps (Comp_Properties ?c) ?w = Inr q" "props_restored pkg ?w q"
    using fillPkg_encoded [OF props assms(8) w] by blast
  let ?r = "q\<lparr>Pkg_Identifier := (Pkg_Identifier q)\<lparr>Id_BOMRef := Id_BOMRef (Pkg_Identifier pkg)\<rparr>, Pkg_Licenses := Pkg_Licenses pkg\<rparr>"
  let ?s = "?r\<lparr>Pkg_Digest := Pkg_Digest pkg\<rparr>"
  have files: "fold fill_file (Comp_Files ?enc) ?r = ?s"
    by (rule fill_encoded_files) (use q(2) in \<open>simp_all add: props_restored_def\<close>)
  have s: "Id_PURL (Pkg_Identifier ?s) = Some p"
    using q(2) purl_Package_same [of "sbom_purl env" p] by (simp add: props_restored_def)
  have src: "fillSrcPkg env ?c ?s = Some ?s" if "purl_Class p = ClassOSPkg"
    by (rule fillSrcPkg_encoded [OF rb assms(8) [unfolded that] s]) (use q(2) in \<open>simp_all add: props_restored_def c0\<close>)
  have "decodePackage env ?c = Some (Inr ?s)"
    using decodePackage_filled [OF _ p(2) decoder_pkgName_encoded [OF rb] refl q(1), of ?s] p(1) files src by (simp add: c0)
  moreover have ver: "Pkg_Epoch ?u = Pkg_Epoch pkg" "Pkg_Arch ?u = Pkg_Arch pkg"
    "formatVersion (Pkg_Epoch pkg) (Pkg_Version ?u) (Pkg_Release ?u) = formatVersion (Pkg_Epoch pkg) (Pkg_Version pkg) (Pkg_Release pkg)"
    using rb by (auto simp: read_back_def FormatVersion_def Let_def)
  moreover have "restored pkg ?s"
    using q(2) s p(1) ver by (simp add: restored_def props_restored_def FormatVersion_def)
  ultimately show ?thesis unfolding c by blast
qed

text \<open>Parsers with the documented behaviour.\<close>

definition split_epoch :: "string \<Rightarrow> int \<times> string" where
  "split_epoch s = (case cut s CHR '':'' of (e, v, found) \<Rightarrow>
     if found then (case atoi e of Some n \<Rightarrow> n | None \<Rightarrow> 0, v) else (0, s))"

definition example_parsers_env :: decode_env where
  "example_parsers_env = example_decode_env\<lparr>
     sbom_purl := example_purl_env\<lparr>rpm_version_release := (\<lambda>s. case cut (snd (split_epoch s)) CHR ''-'' of (v, r, _) \<Rightarrow> (v, r))\<rparr>,
     rpm_Epoch := (\<lambda>s. fst (split_epoch s)),
     deb_NewVersion := (\<lambda>s. case split_epoch s of (e, v) \<Rightarrow>
       if v \<noteq> [] \<and> is_digit (hd v) then (case cutLast v CHR ''-'' of (u, r, _) \<Rightarrow> Inr (e, u, r))
       else Inl (Errorf ''upstream_version must start with digit'' []))\<rparr>"

lemma split_epoch_format:
  assumes "0 \<le> e" "e \<le> max_int" "CHR '':'' \<notin> set v" "CHR '':'' \<notin> set r"
  shows "split_epoch (formatVersion e v r) = (e, if r = [] then v else v @ CHR ''-'' # r)"
proof -
  have "list_all is_digit (itoa e)" by (rule itoa_digits [OF assms(1)])
  then have "CHR '':'' \<notin> set (itoa e)" by (auto simp: list_all_iff is_digit_def)
  then show ?thesis
    using assms by (simp add: formatVersion_def split_epoch_def Let_def cut_found cut_not_found atoi_itoa)
qed

lemma example_parsers_ok: "version_parsers_ok example_parsers_env"
  unfolding version_parsers_ok_def
proof (intro allI impI conjI)
  fix e v r assume "0 \<le> e \<and> e \<le> max_int" and ok: "rpm_parts v r"
  then have split: "split_epoch (formatVersion e v r) = (e, if r = [] then v else v @ CHR ''-'' # r)"
    by (intro split_epoch_format) (simp_all add: rpm_parts_def)
  then show "rpm_Epoch example_parsers_env (formatVersion e v r) = e" by (simp add: example_parsers_env_def)
  show "rpm_version_release (sbom_purl example_parsers_env) (formatVersion e v r) = (v, r)"
    using split ok by (simp add: example_parsers_env_def rpm_parts_def cut_found cut_not_found)
next
  fix e v r assume e: "0 \<le> e \<and> e \<le> max_int" and ok: "deb_parts v r"
  have "\<not> deb_char CHR '':''" "\<not> deb_char CHR ''-''" by code_simp+
  then have chars: "CHR '':'' \<notin> set v" "CHR '':'' \<notin> set r" "CHR ''-'' \<notin> set r" "r = [] \<Longrightarrow> CHR ''-'' \<notin> set v"
    using ok by (auto simp: deb_parts_def list_all_iff)
  then have "split_epoch (formatVersion e v r) = (e, if r = [] then v else v @ CHR ''-'' # r)"
    using e by (intro split_epoch_format) simp_all
  then show "deb_NewVersion example_parsers_env (formatVersion e v r) = Inr (e, v, r)"
    using ok chars by (auto simp: example_parsers_env_def deb_parts_def cutLast_found hd_append) (simp add: cutLast_def)
qed

definition example_installed :: Package where
  "example_installed = (let pkg = Package_empty\<lparr>Pkg_ID := ''bash@5.1.8-6.el9.x86_64'', Pkg_Name := ''bash'', Pkg_Version := ''5.1.8'',
     Pkg_Release := ''6.el9'', Pkg_Epoch := 1, Pkg_Arch := ''x86_64'', Pkg_SrcName := ''bash-src'', Pkg_SrcVersion := ''5.1.8'',
     Pkg_SrcRelease := ''6.el9'', Pkg_SrcEpoch := 1, Pkg_Licenses := [''GPLv3+''], Pkg_Modularitylabel := ''m:1'',
     Pkg_Layer := Layer_empty\<lparr>Layer_DiffID := ''sha256:aa''\<rparr>,
     Pkg_BuildInfo := Some \<lparr>ContentSets = [''rpms-b'', ''rpms-a''], Nvr = ''ubi9-9.2'', Build_Arch = ''x86_64''\<rparr>\<rparr>
     in case New (sbom_purl example_parsers_env) RedHat example_metadata pkg of
          Some (Inr p) \<Rightarrow> pkg\<lparr>Pkg_Identifier := PkgIdentifier_empty\<lparr>Id_UID := ''1f'', Id_PURL := p\<rparr>\<rparr>
        | _ \<Rightarrow> pkg)"

definition example_rpm_purl :: PackageURL where
  "example_rpm_purl = \<lparr>PURL_Type = ''rpm'', PURL_Namespace = ''redhat'', PURL_Name = ''bash'', PURL_Version = ''5.1.8-6.el9'',
     PURL_Qualifiers = [(''arch'', ''x86_64''), (''epoch'', ''1''), (''distro'', ''redhat-9.2''), (''modularitylabel'', ''m:1'')],
     PURL_Subpath = []\<rparr>"

theorem decode_encoded_package_witness:
  "Id_PURL (Pkg_Identifier example_installed) = Some example_rpm_purl \<and>
   (\<exists>q. decodePackage example_parsers_env (snd (AddComponent (dec_core example_parsers_env) (example_cycle, 4)
      (Encoder_component Result_empty example_installed))) = Some (Inr q) \<and> restored example_installed q)"
proof -
  have sort: "sorter (less_cmp Properties_Less) (sort_properties example_parsers_env)"
    by (simp add: example_parsers_env_def example_decode_env_def example_encode_env_def sbom_env.defs stable.sorter_axioms)
  have env: "purl_env_ok (sbom_purl example_parsers_env)"
    by (simp add: example_parsers_env_def example_purl_env_def purl_env_ok_def)
  have new: "New (sbom_purl example_parsers_env) RedHat example_metadata example_installed = Some (Inr (Some example_rpm_purl))"
    by code_simp
  have p: "purlType RedHat \<noteq> ''oci''" "Id_PURL (Pkg_Identifier example_installed) = Some example_rpm_purl"
    "purl_Class example_rpm_purl \<noteq> ClassUnknown"
    "package_wf (PURL_Type example_rpm_purl) (purl_Class example_rpm_purl) example_installed" by code_simp+
  show ?thesis
    using decode_encoded_package [OF sort env example_parsers_ok new p] p(2) by (simp add: example_rpm_purl_def)
qed

text \<open>The name of an npm package comes back as the package URL has it, in lower case: the encoder does not write the name of the package.\<close>

definition ascii_lower :: "string \<Rightarrow> string" where
  "ascii_lower s = map (\<lambda>c. if CHR ''A'' \<le> c \<and> c \<le> CHR ''Z'' then char_of ((of_char c :: nat) + 32) else c) s"

definition example_npm :: Package where
  "example_npm = (let pkg = Package_empty\<lparr>Pkg_Name := ''JSONStream'', Pkg_Version := ''1.3.5''\<rparr>
     in case New (example_purl_env\<lparr>purl_lower := ascii_lower\<rparr>) ''npm'' (Metadata_of None) pkg of
          Some (Inr p) \<Rightarrow> pkg\<lparr>Pkg_Identifier := PkgIdentifier_empty\<lparr>Id_PURL := p\<rparr>\<rparr>
        | _ \<Rightarrow> pkg)"

lemma npm_name_in_lower_case:
  "Pkg_Name example_npm = ''JSONStream''"
  "(case decodePackage example_decode_env (Encoder_component Result_empty example_npm) of
      Some (Inr q) \<Rightarrow> Pkg_Name q | _ \<Rightarrow> []) = ''jsonstream''"
  by code_simp+

end
