(* ===== verification/Spec2Isabelle.thy ===== *)
theory Spec2Isabelle
  imports Go_Set Scan_Service Result_Filter Rpc_Service Rpc_Listen Sbom_Decode
begin

text \<open>
  \<^bold>\<open>A verification development of Trivy.\<close> Trivy scans container images, file systems and repositories: analyzers turn the
  files of each layer into blobs, the cache keeps the blobs, the applier merges them into one artifact, detectors look up the
  packages of the artifact in the vulnerability database, checks look at its cryptographic assets, secrets, licenses and
  misconfigurations, and filters take out what the user, an ignore file, a policy or a VEX document excludes. The results become
  a report or a bill of materials. The same scan can be split between a client, which analyzes, and a server, which keeps the
  cache and detects. This development models the program between the analyzers and the report writers.

  \<^bold>\<open>Theories and sources\<close> (paths below \<open>src/pkg\<close>).

  \<^item> \<open>Go_Prelude\<close>: the parts of Go and of its library that the sources use (errors and their wrapping, strings, decimal numbers,
    comparisons and sorts, maps as association lists and their ranges, time) with the lemmas about them. The locale \<open>sorter\<close> is
    what the code relies on of a sort; it is interpreted for the stable sort.
  \<^item> \<open>Go_Set\<close>: \<open>set\<close>. The interface \<open>Set\<close> is the locale \<open>go_set\<close>, interpreted for both implementations.
  \<^item> \<open>Fanal_Base\<close>, \<open>Fanal_Artifact\<close>: the data of \<open>fanal/types\<close> (operating systems, packages, layers, secrets, licenses,
    misconfigurations, blobs, artifact details), with \<open>dependency/id.go\<close> and \<open>scan/utils\<close>.
  \<^item> \<open>Applier\<close>: \<open>fanal/applier\<close>, which merges layers. \<open>ApplyLayers_overlay\<close> refines it to the overlay of file systems; the
    other theorems say which packages, secrets and errors come out.
  \<^item> \<open>Crypto_Types\<close>, \<open>Crypto_Catalog\<close>, \<open>Crypto_Check\<close>: the cryptographic assets of \<open>fanal/types/crypto*.go\<close> with their canonical
    strings and validation, the catalog of algorithms (\<open>crypto\<close>), and the checks (\<open>crypto/check\<close>).
  \<^item> \<open>Ospkg_Version\<close>, \<open>Vuln_Types\<close>, \<open>Ospkg_Drivers\<close>, \<open>Ospkg_Suppliers\<close>, \<open>Ospkg_Detect\<close>: \<open>detector/ospkg\<close> with every driver and
    supplier. The interface of a driver is the locale \<open>vuln_driver\<close>, extended by \<open>pkgwise_driver\<close> for drivers that look at one
    package after the other; both are interpreted for the drivers of the code, and the detector's safety theorem rests on them.
  \<^item> \<open>Lib_Detect\<close>: \<open>detector/library\<close>: comparers, suppliers (locale \<open>library_supplier\<close>) and detection for language packages.
  \<^item> \<open>Vuln_Info\<close>: \<open>vulnerability\<close>: the details and the severity of a finding.
  \<^item> \<open>Licensing\<close>: \<open>licensing\<close>: license expressions, categories and the scanner.
  \<^item> \<open>Purl\<close>: \<open>purl\<close>: package URLs from packages and back.
  \<^item> \<open>Report_Types\<close>, \<open>Ignore\<close>, \<open>Result_Filter\<close>: \<open>types\<close> (results and findings), \<open>result/ignore.go\<close> and \<open>result/filter.go\<close>.
  \<^item> \<open>Sbom_Core\<close>, \<open>Sbom_Encode\<close>, \<open>Sbom_Decode\<close>: \<open>sbom/core\<close>, the bill of materials as a graph of components,
    \<open>sbom/io/encode.go\<close> and \<open>sbom/io/decode.go\<close>.
  \<^item> \<open>Vex\<close>: \<open>vex\<close>: documents, verdicts, and the search over the component graph (locale \<open>component_graph\<close>, interpreted for the
    graph that the encoder builds).
  \<^item> \<open>Scan_Service\<close>: \<open>scan/local\<close>, \<open>scan/ospkg\<close>, \<open>scan/langpkg\<close>, \<open>types/scan.go\<close> and the scan hooks of \<open>extension\<close>: from the
    cached layers to the results.
  \<^item> \<open>Artifact_Cache\<close>: \<open>cache\<close>: the interface as the locale \<open>artifact_cache\<close>, interpreted for the memory cache; lemmas show that the
    file system and redis caches keep its laws over databases that keep theirs. The keys of the entries.
  \<^item> \<open>Rpc_Messages\<close>, \<open>Rpc_Convert\<close>: the messages of \<open>rpc/*/service.pb.go\<close> and the conversions of \<open>rpc/convert.go\<close>. The functions
    \<open>received_*\<close> say what arrives of a value; every conversion is proved to be one of them.
  \<^item> \<open>Rpc_Service\<close>: \<open>rpc/retry.go\<close>, \<open>rpc/client\<close>, \<open>rpc/server/server.go\<close> and \<open>cache/remote.go\<close>, composed over a network.
  \<^item> \<open>Rpc_Listen\<close>: \<open>rpc/server/listen.go\<close>: requests and database updates as interleaved steps over two wait groups.

  \<^bold>\<open>How the code is represented.\<close> A struct is a record whose fields carry a prefix, a pointer an option, a slice a list (nil and
  empty slices are not told apart), a map an association list with distinct keys. A returned error is the left side of
  \<^typ>\<open>'a result\<close>; where the code can panic, the function returns an option and \<open>None\<close> is the panic
  (in the drivers of \<open>Ospkg_Drivers\<close>, the error of \<open>deref\<close>). \<open>int\<close> is unbounded where no
  operation can leave 64 bits; sums of sizes (\<open>wrap64\<close>) and the 32-bit fields of messages (\<open>wrap32\<close>) wrap around. Functions that
  change a struct return it. Loops are recursive functions or folds; those that may not end (\<open>normalize\<close> of license
  expressions, the search \<open>dfs\<close> of the VEX filter, \<open>getSeverity\<close>, \<open>redis_Clear\<close>) are partial functions with \<open>None\<close> for not
  returning, and the theorems \<open>ScanTarget_returns\<close>, \<open>vex_Filter_returns\<close> and \<open>FilterResult_total\<close> prove that the calls return.

  \<^bold>\<open>Arguments and hypotheses.\<close> Third-party code is an argument: a record of functions per component (\<open>vuln_env\<close>, \<open>lib_env\<close>,
  \<open>info_env\<close>, \<open>license_env\<close>, \<open>purl_env\<close>, \<open>applier_env\<close>, \<open>filter_env\<close>, \<open>vex_env\<close>, \<open>encode_env\<close>, \<open>decode_env\<close>, \<open>rpc_env\<close>, \<open>bolt_env\<close> and others)
  holds the database, the version libraries, regular expressions, hashes, parsers and encoders. What the code relies on is a
  named predicate: \<open>env_ok\<close> (sorts), \<open>nested_ok\<close> and \<open>env_ranges_ok\<close> (the nested map and the ranges of the applier), \<open>purl_env_ok\<close>
  (the constructor stores its arguments), \<open>normalizer_ok\<close> (normalizing a license does not grow it), \<open>alternatives_law\<close> (the version
  libraries read \<open>||\<close> as a choice, and fail when one of the ranges does), \<open>sources_ok\<close> and \<open>names_ok\<close> (names of data sources), \<open>uuid_ok\<close> (fresh identifiers),
  \<open>packages_rooted\<close> (dependencies are listed and acyclic), \<open>vex_ok\<close> (documents decoded), \<open>scan_ok\<close> (sorts, no hooks),
  \<open>decode_env_ok\<close> (sorts and ranges), \<open>version_parsers_ok\<close> (a well-formed RPM or Debian version is read back from its text), \<open>rpc_env_ok\<close>
  (timestamps read back), \<open>net_ok\<close> and \<open>backoff_ok\<close> (codes of twirp errors; the retry loop calls again until its tries are used
  up), \<open>bolt_ok\<close>, \<open>redis_ok\<close> and \<open>json_ok\<close> (a stored value is read back), \<open>json_stream_ok\<close> and \<open>dirhash_ok\<close> (a JSON
  value is read back from the start of a stream; hashes of contents have one length). Each theorem with a
  hypothesis is followed by a witness on concrete functions for which the hypotheses hold. The order in which Go ranges over
  a map is an argument (\<open>is_range\<close>: some permutation), so a theorem holds for every order.

  \<^bold>\<open>Properties that span components.\<close> \<open>ScanTarget_findings\<close> follows a finding from the database to the result; \<open>own_packages_kept\<close>,
  below, joins the applier with the package URLs; \<open>FilterResult_accounts\<close> and \<open>vex_Filter_removed\<close> account for the vulnerabilities,
  secrets, licenses and failed misconfigurations that leave the report; \<open>decode_encoded_package\<close> follows a package through encoder, bill of materials and decoder; \<open>remote_Scan_local\<close> and \<open>remote_refines_memory\<close> show that the split between client and server changes
  nothing but what the messages cannot carry.

  \<^bold>\<open>Not modelled.\<close> The analyzers of files and the parsers of lock files (input formats over third-party decoders), the
  infrastructure-as-code engines and their policies, report writers and templates, commands and flags, downloads (databases,
  OCI, plugins, VEX repositories), Kubernetes, and the file formats of bills of materials. Within the modelled packages: JSON
  methods, logging, contexts and deadlines, the server version that a client asks for, opening databases and TLS. The model
  of the server has no time: the retry theorems hold while the time limit of the back-off is not reached. \<open>strings.TrimSpace\<close> and
  \<open>strings.Fields\<close> know the white space among the ASCII characters only.
\<close>

section \<open>The applier with its constructor of package URLs\<close>

text \<open>The applier with \<open>purl.New\<close> as its constructor of package URLs; a panic ends the run, so it is of no matter
  which value stands for it.\<close>

definition with_purl_New :: "purl_env \<Rightarrow> 'n applier_env \<Rightarrow> bool" where
  "with_purl_New penv env \<longleftrightarrow>
     (\<forall>t os pkg r. New penv t (Metadata_of os) pkg = Some r \<longrightarrow> purl_New env t os pkg = r)"

definition lower_fixed :: "purl_env \<Rightarrow> bool" where
  "lower_fixed penv \<longleftrightarrow> (\<forall>f \<in> set OSTypes. purl_lower penv f = f)"

lemma New_namespace:
  assumes "purl_env_ok penv" "lower_fixed penv" "OS_Family os \<in> set OSTypes"
  shows "\<exists>r. New penv (OS_Family os) (Metadata_of (Some os)) pkg = Some r \<and>
    (case r of Inr (Some p) \<Rightarrow> PURL_Namespace p = [] \<or> PURL_Namespace p = PurlNamespace (OS_Family os) | _ \<Rightarrow> True)"
proof -
  let ?f = "OS_Family os"
  have low: "purl_lower penv ?f = ?f" using assms(2,3) by (simp add: lower_fixed_def)
  have ns: "PURL_Namespace (NewPackageURL penv t ns n v qs sp) = ns" for t ns n v qs sp
    using assms(1) by (simp add: purl_env_ok_def)
  consider "?f \<in> {Alpine, Chainguard, Wolfi, MinimOS}" | "?f \<in> {Debian, Ubuntu, Echo}"
    | "?f \<in> {RedHat, CentOS, CentOSStream, Rocky, Alma, Amazon, Fedora, Oracle, OpenSUSE, OpenSUSELeap, OpenSUSETumbleweed,
        SLES, SLEMicro, Photon, Azure, CBLMariner, CoreOS}"
    | "?f = Bottlerocket" | "?f = ActiveState"
    using assms(3) by (auto simp: OSTypes_def)
  then show ?thesis
  proof cases
    case 1
    then have "purlType ?f = ''apk''" "PurlNamespace ?f = ?f" by (auto simp: purlType_def PurlNamespace_def)
    then show ?thesis by (simp add: New_def new_parts_def Metadata_of_def Let_def parseApk_def ns low)
  next
    case 2
    then have "purlType ?f = ''deb''" "PurlNamespace ?f = ?f" by (auto simp: purlType_def PurlNamespace_def)
    then show ?thesis by (simp add: New_def new_parts_def Metadata_of_def Let_def ns)
  next
    case 3
    then have "purlType ?f = ''rpm''" unfolding insert_iff by (elim disjE) (simp_all add: purlType_def)
    then show ?thesis by (simp add: New_def new_parts_def Metadata_of_def Let_def parseRPM_def ns)
  next
    case 4
    then have "purlType ?f = ''bottlerocket''" by (simp add: purlType_def)
    then show ?thesis by (simp add: New_def new_parts_def Metadata_of_def Let_def ns)
  next
    case 5
    then have "purlType ?f = ''activestate''" by (simp add: purlType_def)
    then show ?thesis by (simp add: New_def new_parts_def Metadata_of_def Let_def ns)
  qed
qed

lemma enrich_pkg_PURL:
  "Id_PURL (Pkg_Identifier (enrich_pkg env layers os lic pkg)) =
     (if OS_Family os \<noteq> [] \<and> Id_PURL (Pkg_Identifier pkg) = None then newPURL env (OS_Family os) (Some os) pkg
      else Id_PURL (Pkg_Identifier pkg))"
  by (auto simp: enrich_pkg_def Let_def split: option.splits prod.splits)

text \<open>C13. The check of package URL namespaces removes foreign packages only: an OS package that the analyzers found
  without a package URL gets one from \<open>purl.New\<close> whose namespace fits the detected OS, for every supported OS, and is
  among the candidates of the result.\<close>

theorem own_packages_kept:
  assumes "purl_env_ok penv" "lower_fixed penv" "with_purl_New penv env"
    and "OS_Family (AD_OS d) \<in> set OSTypes" "p \<in> set (AD_Packages d)" "Id_PURL (Pkg_Identifier p) = None"
  shows "enrich_pkg env layers (AD_OS d) (dpkgLicenses (AD_Licenses d)) p \<in> set (candidate_packages env layers d)"
proof -
  let ?os = "AD_OS d"
  let ?q = "enrich_pkg env layers ?os (dpkgLicenses (AD_Licenses d)) p"
  obtain r where r: "New penv (OS_Family ?os) (Metadata_of (Some ?os)) p = Some r"
    "case r of Inr (Some p) \<Rightarrow> PURL_Namespace p = [] \<or> PURL_Namespace p = PurlNamespace (OS_Family ?os) | _ \<Rightarrow> True"
    using New_namespace [OF assms(1,2,4)] by blast
  have "purl_New env (OS_Family ?os) (Some ?os) p = r" using assms(3) r(1) by (simp add: with_purl_New_def)
  then have "purlMatchesOS ?q (OS_Family ?os)"
    using r(2) assms(6)
    by (auto simp: purlMatchesOS_def enrich_pkg_PURL newPURL_def split: option.splits sum.splits)
  then show ?thesis using assms(5) by (simp add: candidate_packages_def filterMismatchedOSPkgs_def)
qed

definition purl_applier_env :: "(string list \<times> nested_value) list applier_env" where
  "purl_applier_env = example_applier_env\<lparr>purl_New := (\<lambda>t os pkg.
     case New example_purl_env t (Metadata_of os) pkg of Some r \<Rightarrow> r | None \<Rightarrow> Inr None)\<rparr>"

theorem own_packages_kept_witness:
  "enrich_pkg purl_applier_env [] (OS_empty\<lparr>OS_Family := SLES\<rparr>) [] example_rpm \<in>
     set (candidate_packages purl_applier_env [] (ArtifactDetail_empty\<lparr>AD_OS := OS_empty\<lparr>OS_Family := SLES\<rparr>, AD_Packages := [example_rpm]\<rparr>))"
proof -
  have "lower_fixed example_purl_env" by (simp add: lower_fixed_def example_purl_env_def)
  moreover have "with_purl_New example_purl_env purl_applier_env"
    by (simp add: with_purl_New_def purl_applier_env_def)
  moreover have "SLES \<in> set OSTypes" by code_simp
  moreover have "Id_PURL (Pkg_Identifier example_rpm) = None" by code_simp
  ultimately show ?thesis
    using own_packages_kept [OF example_purl_env_ok, of purl_applier_env
        "ArtifactDetail_empty\<lparr>AD_OS := OS_empty\<lparr>OS_Family := SLES\<rparr>, AD_Packages := [example_rpm]\<rparr>" example_rpm "[]"]
    by (simp add: ArtifactDetail_empty_def dpkgLicenses_def)
qed

end
